(* ===== verification/Prelude.thy ===== *)
theory Prelude
  imports Main "HOL-Library.Word" "HOL-Library.List_Lexorder"
begin

text \<open>
  Shared vocabulary of the development.

  The C++ sources use a small part of the standard library everywhere: \<open>std::size_t\<close>
  and \<open>std::uint32_t\<close> arithmetic, \<open>std::vector\<close> searched front to back with the hit
  mutated or erased in place, and \<open>std::map\<close> whose iteration order is the key order.
  This theory models these once:
  \<^item> the machine integer types as words of the source's width;
  \<^item> \<open>update_first\<close> / \<open>remove_first\<close> for "search a vector, then write through the
    pointer / erase the iterator";
  \<^item> \<open>sm_find\<close>, \<open>sm_emplace\<close>, \<open>sm_update\<close>, \<open>sm_erase\<close> for \<open>std::map\<close> as an
    association list kept in key order, with the locale \<open>ordered_map\<close> stating the laws
    the components rely on and its interpretation on these operations;
  \<^item> the named collections \<open>vec_simps\<close> and \<open>map_simps\<close> used by the component proofs.
\<close>

section \<open>Machine types\<close>

type_synonym byte = "8 word"
type_synonym uint32 = "32 word"
type_synonym uint64 = "64 word"

text \<open>The supported targets are 64-bit, so \<open>std::size_t\<close> is 64 bits wide.\<close>

type_synonym size_t = "64 word"

type_synonym pdu_data = "byte list"

named_theorems vec_simps "searching and updating vectors"
named_theorems map_simps "lookup laws of ordered maps"

section \<open>Vectors searched front to back\<close>

text \<open>
  \<open>update_first P f xs\<close> is the vector after the loop that finds the first element
  satisfying \<open>P\<close> and mutates it through the returned pointer; \<open>remove_first P xs\<close> is
  \<open>xs.erase(it)\<close> for the same iterator. The search itself is \<open>List.find\<close>.
\<close>

fun update_first :: "('a \<Rightarrow> bool) \<Rightarrow> ('a \<Rightarrow> 'a) \<Rightarrow> 'a list \<Rightarrow> 'a list" where
  "update_first P f [] = []"
| "update_first P f (x # xs) = (if P x then f x # xs else x # update_first P f xs)"

fun remove_first :: "('a \<Rightarrow> bool) \<Rightarrow> 'a list \<Rightarrow> 'a list" where
  "remove_first P [] = []"
| "remove_first P (x # xs) = (if P x then xs else x # remove_first P xs)"

lemma length_update_first [simp, vec_simps]: "length (update_first P f xs) = length xs"
  by (induction xs) auto

lemma update_first_id [simp, vec_simps]:
  "List.find P xs = Some x \<Longrightarrow> f x = x \<Longrightarrow> update_first P f xs = xs"
  by (induction xs) (auto split: if_splits)

lemma update_first_absent [vec_simps]:
  "List.find P xs = None \<Longrightarrow> update_first P f xs = xs"
  by (induction xs) (auto split: if_splits)

lemma find_update_first_same [vec_simps]:
  "List.find P xs = Some x \<Longrightarrow> P (f x) \<Longrightarrow> List.find P (update_first P f xs) = Some (f x)"
  by (induction xs) (auto split: if_splits)

lemma find_update_first_other [vec_simps]:
  assumes "\<And>x. P x \<Longrightarrow> \<not> Q x" and "\<And>x. P x \<Longrightarrow> \<not> Q (f x)"
  shows "List.find Q (update_first P f xs) = List.find Q xs"
  using assms by (induction xs) auto

lemma map_update_first [vec_simps]:
  "(\<And>x. h (f x) = h x) \<Longrightarrow> map h (update_first P f xs) = map h xs"
  by (induction xs) auto

lemma set_update_first_subset:
  "set (update_first P f xs) \<subseteq> set xs \<union> f ` {x \<in> set xs. P x}"
  by (induction xs) auto

lemma set_remove_first_subset: "set (remove_first P xs) \<subseteq> set xs"
  by (induction xs) auto

lemma distinct_map_remove_first:
  "distinct (map h xs) \<Longrightarrow> distinct (map h (remove_first P xs))"
proof (induction xs)
  case (Cons x xs)
  then show ?case using set_remove_first_subset [of P xs] by auto
qed simp

lemma find_remove_first_other [vec_simps]:
  assumes "\<And>x. P x \<Longrightarrow> \<not> Q x"
  shows "List.find Q (remove_first P xs) = List.find Q xs"
  using assms by (induction xs) auto

lemma find_remove_first_same:
  assumes "distinct (map h xs)"
  shows "List.find (\<lambda>x. h x = k) (remove_first (\<lambda>x. h x = k) xs) = None"
  using assms
proof (induction xs)
  case (Cons x xs)
  then show ?case
  proof (cases "h x = k")
    case True
    with Cons.prems have "k \<notin> h ` set xs" by simp
    then have "\<not> (\<exists>y. y \<in> set xs \<and> h y = k)" by (blast intro: image_eqI)
    with True show ?thesis by (simp add: find_None_iff)
  next
    case False
    with Cons show ?thesis by simp
  qed
qed simp

lemma find_snoc [vec_simps]:
  "List.find P (xs @ [x]) = (case List.find P xs of None \<Rightarrow> if P x then Some x else None | Some y \<Rightarrow> Some y)"
  by (induction xs) auto

lemma find_key_iff:
  assumes "distinct (map h xs)"
  shows "List.find (\<lambda>x. h x = k) xs = Some x \<longleftrightarrow> x \<in> set xs \<and> h x = k"
  using assms by (induction xs) (auto simp: image_iff)

lemma find_SomeD: "List.find P xs = Some x \<Longrightarrow> P x \<and> x \<in> set xs"
  by (induction xs) (auto split: if_splits)

section \<open>\<open>std::map\<close>: association lists in key order\<close>

type_synonym ('k, 'v) std_map = "('k \<times> 'v) list"

definition sm_find :: "('k, 'v) std_map \<Rightarrow> 'k \<Rightarrow> 'v option" where
  "sm_find m k = map_of m k"

text \<open>\<open>emplace\<close> leaves the map unchanged when the key is present, as \<open>std::map\<close> does.\<close>

definition sm_emplace :: "'k::linorder \<Rightarrow> 'v \<Rightarrow> ('k, 'v) std_map \<Rightarrow> ('k, 'v) std_map" where
  "sm_emplace k v m = (case sm_find m k of Some _ \<Rightarrow> m | None \<Rightarrow> insort_key fst (k, v) m)"

text \<open>Writing through \<open>it->second\<close> of the entry found for \<open>k\<close>.\<close>

definition sm_update :: "'k \<Rightarrow> ('v \<Rightarrow> 'v) \<Rightarrow> ('k, 'v) std_map \<Rightarrow> ('k, 'v) std_map" where
  "sm_update k f m = map (\<lambda>(k', v). (k', if k' = k then f v else v)) m"

definition sm_erase :: "'k \<Rightarrow> ('k, 'v) std_map \<Rightarrow> ('k, 'v) std_map" where
  "sm_erase k m = filter (\<lambda>(k', v). k' \<noteq> k) m"

text \<open>The representation invariant: strictly increasing keys.\<close>

definition sm_ok :: "('k::linorder, 'v) std_map \<Rightarrow> bool" where
  "sm_ok m \<longleftrightarrow> sorted (map fst m) \<and> distinct (map fst m)"

lemma map_of_insort_key:
  "map_of m k = None \<Longrightarrow> map_of (insort_key fst (k, v) m) k' = (if k' = k then Some v else map_of m k')"
  by (induction m) (auto split: if_splits)

lemma sm_find_Nil [simp, map_simps]: "sm_find [] k = None"
  by (simp add: sm_find_def)

lemma sm_find_emplace [simp, map_simps]:
  "sm_find m k = None \<Longrightarrow> sm_find (sm_emplace k v m) k' = (if k' = k then Some v else sm_find m k')"
  by (simp add: sm_emplace_def sm_find_def map_of_insort_key)

lemma sm_emplace_present: "sm_find m k = Some v' \<Longrightarrow> sm_emplace k v m = m"
  by (simp add: sm_emplace_def)

lemma sm_find_update [simp, map_simps]:
  "sm_find (sm_update k f m) k' = (if k' = k then map_option f (sm_find m k) else sm_find m k')"
  unfolding sm_find_def sm_update_def by (induction m) auto

lemma sm_find_erase [simp, map_simps]:
  "sm_find (sm_erase k m) k' = (if k' = k then None else sm_find m k')"
  unfolding sm_find_def sm_erase_def by (induction m) auto

lemma sm_ok_Nil [simp]: "sm_ok []"
  by (simp add: sm_ok_def)

lemma keys_insort_key: "map fst (insort_key fst (k, v) m) = insort k (map fst m)"
  by (induction m) auto

lemma sm_ok_emplace [simp]: "sm_ok m \<Longrightarrow> sm_ok (sm_emplace k v m)"
  by (auto simp: sm_ok_def sm_emplace_def sm_find_def keys_insort_key sorted_insort
      distinct_insort map_of_eq_None_iff split: option.splits)

lemma keys_sm_update: "map fst (sm_update k f m) = map fst m"
  by (induction m) (auto simp: sm_update_def)

lemma sm_ok_update [simp]: "sm_ok m \<Longrightarrow> sm_ok (sm_update k f m)"
  by (simp add: sm_ok_def keys_sm_update)

lemma keys_sm_erase: "map fst (sm_erase k m) = filter (\<lambda>k'. k' \<noteq> k) (map fst m)"
  by (induction m) (auto simp: sm_erase_def)

lemma sm_ok_erase [simp]: "sm_ok m \<Longrightarrow> sm_ok (sm_erase k m)"
  by (simp add: sm_ok_def keys_sm_erase sorted_wrt_filter)

lemma sm_find_in_set: "sm_ok m \<Longrightarrow> (k, v) \<in> set m \<longleftrightarrow> sm_find m k = Some v"
  by (simp add: sm_find_def sm_ok_def)

text \<open>Erasing a key that was just emplaced restores the map.\<close>

lemma sm_erase_absent: "sm_find m k = None \<Longrightarrow> sm_erase k m = m"
  unfolding sm_find_def sm_erase_def by (induction m) (auto split: if_splits)

lemma sm_erase_emplace [map_simps]: "sm_find m k = None \<Longrightarrow> sm_erase k (sm_emplace k v m) = m"
proof -
  assume absent: "sm_find m k = None"
  have "sm_erase k (insort_key fst (k, v) m) = sm_erase k m"
    by (induction m) (auto simp: sm_erase_def)
  with absent show ?thesis by (simp add: sm_emplace_def sm_erase_absent)
qed

lemma sm_update_update [map_simps]: "sm_update k f (sm_update k g m) = sm_update k (f \<circ> g) m"
  by (induction m) (auto simp: sm_update_def)

lemma sm_update_id:
  assumes "\<And>v. (k, v) \<in> set m \<Longrightarrow> f v = v"
  shows "sm_update k f m = m"
  using assms by (induction m) (auto simp: sm_update_def)

text \<open>
  The interface the endpoints use of a map from identities to records: what a lookup
  returns after each mutation, and that each mutation keeps the representation invariant.
\<close>

locale ordered_map =
  fixes find :: "'m \<Rightarrow> 'k \<Rightarrow> 'v option"
    and emplace :: "'k \<Rightarrow> 'v \<Rightarrow> 'm \<Rightarrow> 'm"
    and modify :: "'k \<Rightarrow> ('v \<Rightarrow> 'v) \<Rightarrow> 'm \<Rightarrow> 'm"
    and erase :: "'k \<Rightarrow> 'm \<Rightarrow> 'm"
    and empty :: 'm
    and ok :: "'m \<Rightarrow> bool"
  assumes find_empty: "find empty k = None"
    and find_emplace: "find m k = None \<Longrightarrow> find (emplace k v m) k' = (if k' = k then Some v else find m k')"
    and emplace_present: "find m k = Some u \<Longrightarrow> emplace k v m = m"
    and find_modify: "find (modify k f m) k' = (if k' = k then map_option f (find m k) else find m k')"
    and find_erase: "find (erase k m) k' = (if k' = k then None else find m k')"
    and ok_empty: "ok empty"
    and ok_emplace: "ok m \<Longrightarrow> ok (emplace k v m)"
    and ok_modify: "ok m \<Longrightarrow> ok (modify k f m)"
    and ok_erase: "ok m \<Longrightarrow> ok (erase k m)"
begin

text \<open>The abstract map of a representation, and each operation as an update of it.\<close>

lemma emplace_refines:
  "find m k = None \<Longrightarrow> find (emplace k v m) = (find m)(k \<mapsto> v)"
  by (rule ext) (simp add: find_emplace)

lemma erase_refines: "find (erase k m) = (find m)(k := None)"
  by (rule ext) (simp add: find_erase)

lemma modify_refines:
  "find m k = Some v \<Longrightarrow> find (modify k f m) = (find m)(k \<mapsto> f v)"
  by (rule ext) (simp add: find_modify)

lemma emplace_twice: "find m k = None \<Longrightarrow> emplace k w (emplace k v m) = emplace k v m"
  by (simp add: emplace_present [of _ _ v] find_emplace)

end

interpretation sm: ordered_map sm_find sm_emplace sm_update sm_erase "[]" sm_ok
  by unfold_locales (auto simp: sm_emplace_present)

section \<open>Lists indexed by slot\<close>

text \<open>\<open>vec[i]\<close> with the source's bounds check made explicit.\<close>

definition at :: "'a list \<Rightarrow> nat \<Rightarrow> 'a option" where
  "at xs i = (if i < length xs then Some (xs ! i) else None)"

lemma at_update [simp, vec_simps]:
  "at (xs[i := x]) j = (if j = i \<and> i < length xs then Some x else at xs j)"
  by (auto simp: at_def)

lemma at_SomeD: "at xs i = Some x \<Longrightarrow> i < length xs \<and> xs ! i = x"
  by (auto simp: at_def split: if_splits)

lemma at_replicate [simp]: "at (replicate n x) i = (if i < n then Some x else None)"
  by (simp add: at_def)

text \<open>\<open>vec.resize(n)\<close> with the default value \<open>d\<close>.\<close>

definition resize :: "nat \<Rightarrow> 'a \<Rightarrow> 'a list \<Rightarrow> 'a list" where
  "resize n d xs = take n xs @ replicate (n - length xs) d"

lemma resize_Nil [simp]: "resize n d [] = replicate n d"
  by (simp add: resize_def)

lemma at_Nil [simp]: "at [] i = None"
  by (simp add: at_def)

end
