(* ===== verification/Action_Types.thy ===== *)
theory Action_Types
  imports Prelude
begin

text \<open>
  The vocabulary of the Action runtime: \<open>include/hakoniwa/pdu/action/action_types.hpp\<close>
  and the result enumerations of the endpoint headers. Enumerators keep the source's
  names; where two C++ enumerations share an enumerator (\<open>NONE\<close>, \<open>ERROR\<close>,
  \<open>CANCELING\<close>, ...) a prefix tells them apart. \<open>UNSPECIFIED\<close> and \<open>NONE\<close> of the
  event types are one value in the source (both are 0) and one constructor here.

  A \<open>GoalId\<close> is \<open>std::array<std::uint8_t, 16>\<close>; it is modelled by its bytes. Its
  \<open>operator<\<close> is lexicographic, which is the order of lists of words used here, so maps
  keyed by Goal IDs iterate in the source's order.
\<close>

type_synonym GoalId = "byte list"

text \<open>The loop of \<open>is_valid_goal_id\<close>: true at the first non-zero byte.\<close>

fun is_valid_goal_id :: "GoalId \<Rightarrow> bool" where
  "is_valid_goal_id [] = False"
| "is_valid_goal_id (b # bs) = (if b \<noteq> 0 then True else is_valid_goal_id bs)"

lemma is_valid_goal_id_iff: "is_valid_goal_id g \<longleftrightarrow> (\<exists>b \<in> set g. b \<noteq> 0)"
  by (induction g) auto

record ClientGoalHandle =
  client_goal_id :: GoalId

definition ClientGoalHandle_valid :: "ClientGoalHandle \<Rightarrow> bool" where
  "ClientGoalHandle_valid h = is_valid_goal_id (client_goal_id h)"

record ServerGoalHandle =
  server_goal_id :: GoalId

definition ServerGoalHandle_valid :: "ServerGoalHandle \<Rightarrow> bool" where
  "ServerGoalHandle_valid h = is_valid_goal_id (server_goal_id h)"

datatype GoalSendResult =
    SUCCESS
  | INVALID_ARGUMENT
  | ACTION_NOT_FOUND
  | NOT_INITIALIZED
  | DUPLICATE_GOAL
  | NO_FREE_SLOT
  | INVALID_PACKET
  | TRANSPORT_ERROR

datatype ClientEventType =
    CE_NONE
  | CE_GOAL_RESPONSE
  | CE_FEEDBACK
  | CE_CANCEL_RESPONSE
  | CE_RESULT
  | CE_TIMEOUT
  | CE_ERROR

datatype ServerEventType =
    SE_NONE
  | SE_GOAL_REQUEST
  | SE_CANCEL_REQUEST
  | SE_RUNTIME_CANCEL_REQUEST
  | SE_ERROR

datatype Decision = DECISION_UNSPECIFIED | ACCEPTED | REJECTED

datatype TerminalStatus = TS_UNSPECIFIED | SUCCEEDED | CANCELED | ABORTED

datatype GoalState = GS_UNSPECIFIED | EXECUTING | CANCELING | FINISHING

datatype RuntimeCancelCause =
    CAUSE_UNSPECIFIED
  | CAUSE_TRANSPORT_DISCONNECTED
  | CAUSE_SERVER_SHUTDOWN
  | CAUSE_INTERNAL_POLICY

datatype CompleteResult = NOT_COMMITTED | SENT | SEND_FAILED_AFTER_COMMIT

text \<open>The \<open>static_cast<std::uint8_t>\<close> of the enumerations that reach the wire.\<close>

fun decision_code :: "Decision \<Rightarrow> byte" where
  "decision_code DECISION_UNSPECIFIED = 0"
| "decision_code ACCEPTED = 1"
| "decision_code REJECTED = 2"

fun terminal_code :: "TerminalStatus \<Rightarrow> byte" where
  "terminal_code TS_UNSPECIFIED = 0"
| "terminal_code SUCCEEDED = 1"
| "terminal_code CANCELED = 2"
| "terminal_code ABORTED = 3"

lemma decision_code_inject [simp]: "decision_code d = decision_code e \<longleftrightarrow> d = e"
  by (cases d; cases e) simp_all

lemma terminal_code_inject [simp]: "terminal_code s = terminal_code t \<longleftrightarrow> s = t"
  by (cases s; cases t) simp_all

record ClientEvent =
  ce_type :: ClientEventType
  ce_action_name :: string
  ce_goal :: ClientGoalHandle
  ce_decision :: Decision
  ce_terminal_status :: TerminalStatus
  ce_feedback_sequence :: uint32
  ce_pdu :: pdu_data

definition empty_ClientEvent :: ClientEvent where
  "empty_ClientEvent = \<lparr>ce_type = CE_NONE, ce_action_name = [],
     ce_goal = \<lparr>client_goal_id = replicate 16 0\<rparr>, ce_decision = DECISION_UNSPECIFIED,
     ce_terminal_status = TS_UNSPECIFIED, ce_feedback_sequence = 0, ce_pdu = []\<rparr>"

record ServerEvent =
  se_type :: ServerEventType
  se_goal :: ServerGoalHandle
  se_runtime_cancel_cause :: RuntimeCancelCause
  se_action_name :: string
  se_pdu :: pdu_data

definition empty_ServerEvent :: ServerEvent where
  "empty_ServerEvent = \<lparr>se_type = SE_NONE, se_goal = \<lparr>server_goal_id = replicate 16 0\<rparr>,
     se_runtime_cancel_cause = CAUSE_UNSPECIFIED, se_action_name = [], se_pdu = []\<rparr>"

section \<open>The progress order of Goal states\<close>

text \<open>
  An accepted Goal moves \<open>EXECUTING\<close>, \<open>CANCELING\<close>, \<open>FINISHING\<close> and never back. The
  order makes that statement available to both state machines.
\<close>

fun goal_state_rank :: "GoalState \<Rightarrow> nat" where
  "goal_state_rank GS_UNSPECIFIED = 0"
| "goal_state_rank EXECUTING = 1"
| "goal_state_rank CANCELING = 2"
| "goal_state_rank FINISHING = 3"

lemma goal_state_rank_inject [simp]: "goal_state_rank a = goal_state_rank b \<longleftrightarrow> a = b"
  by (cases a; cases b) simp_all

instantiation GoalState :: linorder
begin

definition less_eq_GoalState :: "GoalState \<Rightarrow> GoalState \<Rightarrow> bool" where
  "less_eq_GoalState a b \<longleftrightarrow> goal_state_rank a \<le> goal_state_rank b"

definition less_GoalState :: "GoalState \<Rightarrow> GoalState \<Rightarrow> bool" where
  "less_GoalState a b \<longleftrightarrow> goal_state_rank a < goal_state_rank b"

instance
proof
  fix a b :: GoalState
  show "a \<le> b \<Longrightarrow> b \<le> a \<Longrightarrow> a = b"
    unfolding less_eq_GoalState_def by (metis goal_state_rank_inject order_antisym)
qed (auto simp: less_eq_GoalState_def less_GoalState_def)

end

section \<open>The contract of a Goal state machine\<close>

text \<open>
  Both transition functions return a kind (\<open>TRANSITIONED\<close>, \<open>NOP\<close>, \<open>ERROR\<close>), the next
  context and an error code. What their callers rely on is the same for both sides: a
  valid context stays valid, only \<open>TRANSITIONED\<close> changes it, the Goal state never
  moves backwards, and a \<open>FINISHING\<close> context is frozen.
\<close>

locale goal_state_machine =
  fixes step :: "'ctx \<Rightarrow> 'ev \<Rightarrow> 'ctx"
    and changes :: "'ctx \<Rightarrow> 'ev \<Rightarrow> bool"
    and valid :: "'ctx \<Rightarrow> bool"
    and state_of :: "'ctx \<Rightarrow> GoalState"
  assumes step_valid: "valid c \<Longrightarrow> valid (step c e)"
    and step_unchanged: "\<not> changes c e \<Longrightarrow> step c e = c"
    and step_mono: "valid c \<Longrightarrow> state_of c \<le> state_of (step c e)"
    and finishing_frozen: "state_of c = FINISHING \<Longrightarrow> step c e = c"
begin

lemma run_valid: "valid c \<Longrightarrow> valid (foldl step c es)"
  by (induction es arbitrary: c) (simp_all add: step_valid)

lemma run_mono: "valid c \<Longrightarrow> state_of c \<le> state_of (foldl step c es)"
proof (induction es arbitrary: c)
  case (Cons e es)
  then show ?case by simp (meson order_trans step_mono step_valid)
qed simp

lemma run_finishing: "state_of c = FINISHING \<Longrightarrow> foldl step c es = c"
  by (induction es) (simp_all add: finishing_frozen)

text \<open>Once a run has finished a Goal, any continuation leaves the final context alone.\<close>

lemma run_finished_stable:
  "state_of (foldl step c es) = FINISHING \<Longrightarrow> foldl step c (es @ es') = foldl step c es"
  by (simp add: run_finishing)

end

end
