(* ===== verification/Server_State_Machine.thy ===== *)
theory Server_State_Machine
  imports Action_Types
begin

text \<open>
  The per-Goal state machine of the Action server,
  \<open>src/action_server_state_machine.cpp\<close> and its header: a pure function from a context
  and an event to a transition. The theory shows that it satisfies the shared contract
  \<open>goal_state_machine\<close>, that it implements exactly the move relation
  \<open>server_goal_step\<close> (the documented event/state matrix), and how the Cancel/Result race
  is decided on any sequence of events.
\<close>

section \<open>Data\<close>

datatype CancelOrigin = ORIGIN_NONE | ORIGIN_CLIENT | ORIGIN_RUNTIME

datatype ServerGoalEvent =
    PUBLISH_FEEDBACK
  | COMPLETE_SUCCEEDED
  | COMPLETE_CANCELED
  | COMPLETE_ABORTED
  | COMPLETE_UNSPECIFIED
  | ACCEPT_CANCEL
  | REJECT_CANCEL
  | CANCEL_REQUEST_RECEIVED
  | DUPLICATE_CANCEL_REQUEST_RECEIVED
  | DUPLICATE_GOAL_REQUEST_RECEIVED
  | FEEDBACK_SEND_COMPLETED
  | FEEDBACK_SEND_FAILED
  | RESULT_SEND_COMPLETED
  | RESULT_SEND_FAILED
  | TRANSPORT_DISCONNECTED
  | RUNTIME_CANCEL_REQUESTED
  | APPLICATION_RESPONSE_TIMEOUT
  | SERVER_SHUTDOWN_REQUESTED

record ServerGoalContext =
  sg_state :: GoalState
  sg_cancel_decision_pending :: bool
  sg_cancel_origin :: CancelOrigin
  sg_terminal_status :: TerminalStatus

definition initial_ServerGoalContext :: ServerGoalContext where
  "initial_ServerGoalContext = \<lparr>sg_state = EXECUTING, sg_cancel_decision_pending = False,
     sg_cancel_origin = ORIGIN_NONE, sg_terminal_status = TS_UNSPECIFIED\<rparr>"

datatype ServerTransitionKind = ST_TRANSITIONED | ST_NOP | ST_ERROR

datatype ServerTransitionError =
    ST_NONE
  | ST_INVALID_CONTEXT
  | ST_EVENT_NOT_ALLOWED
  | ST_CANCEL_DECISION_NOT_PENDING
  | ST_INVALID_TERMINAL_STATUS
  | ST_UNKNOWN_EVENT

record ServerTransition =
  st_kind :: ServerTransitionKind
  st_next :: ServerGoalContext
  st_error :: ServerTransitionError

section \<open>The transition function\<close>

definition server_result ::
    "ServerGoalContext \<Rightarrow> ServerTransitionKind \<Rightarrow> ServerTransitionError \<Rightarrow> ServerTransition" where
  "server_result current kind err = \<lparr>st_kind = kind, st_next = current, st_error = err\<rparr>"

definition is_goal_state :: "GoalState \<Rightarrow> bool" where
  "is_goal_state s \<longleftrightarrow> s = EXECUTING \<or> s = CANCELING \<or> s = FINISHING"

definition is_valid_server_context :: "ServerGoalContext \<Rightarrow> bool" where
  "is_valid_server_context c =
     (if \<not> is_goal_state (sg_state c) then False
      else if sg_cancel_decision_pending c \<noteq> (sg_cancel_origin c \<noteq> ORIGIN_NONE) then False
      else if sg_cancel_decision_pending c \<and> sg_state c \<noteq> EXECUTING then False
      else if sg_state c = FINISHING
        then sg_terminal_status c = SUCCEEDED \<or> sg_terminal_status c = CANCELED
           \<or> sg_terminal_status c = ABORTED
      else sg_terminal_status c = TS_UNSPECIFIED)"

definition complete_server_goal :: "ServerGoalContext \<Rightarrow> TerminalStatus \<Rightarrow> ServerTransition" where
  "complete_server_goal current status =
     (let allowed =
            (sg_state current = EXECUTING \<and> (status = SUCCEEDED \<or> status = ABORTED))
            \<or> (sg_state current = CANCELING \<and> (status = CANCELED \<or> status = ABORTED))
      in if \<not> allowed
         then server_result current ST_ERROR
                (if status = TS_UNSPECIFIED then ST_INVALID_TERMINAL_STATUS else ST_EVENT_NOT_ALLOWED)
         else server_result
                (current\<lparr>sg_state := FINISHING, sg_cancel_decision_pending := False,
                   sg_cancel_origin := ORIGIN_NONE, sg_terminal_status := status\<rparr>)
                ST_TRANSITIONED ST_NONE)"

text \<open>
  The \<open>switch\<close> of \<open>transition_server_goal\<close>. The \<open>UNKNOWN_EVENT\<close> return after it is
  reached only by a value outside the enumeration, which the event type here excludes.
\<close>

definition transition_server_goal :: "ServerGoalContext \<Rightarrow> ServerGoalEvent \<Rightarrow> ServerTransition" where
  "transition_server_goal current event =
     (if \<not> is_valid_server_context current
      then server_result current ST_ERROR ST_INVALID_CONTEXT
      else case event of
        PUBLISH_FEEDBACK \<Rightarrow>
          if sg_state current = EXECUTING \<or> sg_state current = CANCELING
          then server_result current ST_NOP ST_NONE
          else server_result current ST_ERROR ST_EVENT_NOT_ALLOWED
      | COMPLETE_SUCCEEDED \<Rightarrow> complete_server_goal current SUCCEEDED
      | COMPLETE_CANCELED \<Rightarrow> complete_server_goal current CANCELED
      | COMPLETE_ABORTED \<Rightarrow> complete_server_goal current ABORTED
      | COMPLETE_UNSPECIFIED \<Rightarrow> server_result current ST_ERROR ST_INVALID_TERMINAL_STATUS
      | ACCEPT_CANCEL \<Rightarrow>
          if sg_state current \<noteq> EXECUTING
          then server_result current ST_ERROR ST_EVENT_NOT_ALLOWED
          else if \<not> sg_cancel_decision_pending current \<or> sg_cancel_origin current = ORIGIN_NONE
          then server_result current ST_ERROR ST_CANCEL_DECISION_NOT_PENDING
          else server_result
                 (current\<lparr>sg_state := CANCELING, sg_cancel_decision_pending := False,
                    sg_cancel_origin := ORIGIN_NONE\<rparr>) ST_TRANSITIONED ST_NONE
      | REJECT_CANCEL \<Rightarrow>
          if sg_state current \<noteq> EXECUTING
          then server_result current ST_ERROR ST_EVENT_NOT_ALLOWED
          else if \<not> sg_cancel_decision_pending current \<or> sg_cancel_origin current = ORIGIN_NONE
          then server_result current ST_ERROR ST_CANCEL_DECISION_NOT_PENDING
          else server_result
                 (current\<lparr>sg_state := EXECUTING, sg_cancel_decision_pending := False,
                    sg_cancel_origin := ORIGIN_NONE\<rparr>) ST_TRANSITIONED ST_NONE
      | CANCEL_REQUEST_RECEIVED \<Rightarrow>
          if sg_state current \<noteq> EXECUTING \<or> sg_cancel_decision_pending current
          then server_result current ST_NOP ST_NONE
          else server_result
                 (current\<lparr>sg_cancel_decision_pending := True, sg_cancel_origin := ORIGIN_CLIENT\<rparr>)
                 ST_TRANSITIONED ST_NONE
      | DUPLICATE_CANCEL_REQUEST_RECEIVED \<Rightarrow> server_result current ST_NOP ST_NONE
      | DUPLICATE_GOAL_REQUEST_RECEIVED \<Rightarrow> server_result current ST_NOP ST_NONE
      | FEEDBACK_SEND_COMPLETED \<Rightarrow> server_result current ST_NOP ST_NONE
      | FEEDBACK_SEND_FAILED \<Rightarrow> server_result current ST_NOP ST_NONE
      | RESULT_SEND_COMPLETED \<Rightarrow>
          if sg_state current = FINISHING then server_result current ST_NOP ST_NONE
          else server_result current ST_ERROR ST_EVENT_NOT_ALLOWED
      | RESULT_SEND_FAILED \<Rightarrow>
          if sg_state current = FINISHING then server_result current ST_NOP ST_NONE
          else server_result current ST_ERROR ST_EVENT_NOT_ALLOWED
      | TRANSPORT_DISCONNECTED \<Rightarrow> server_result current ST_NOP ST_NONE
      | APPLICATION_RESPONSE_TIMEOUT \<Rightarrow> server_result current ST_NOP ST_NONE
      | SERVER_SHUTDOWN_REQUESTED \<Rightarrow> server_result current ST_NOP ST_NONE
      | RUNTIME_CANCEL_REQUESTED \<Rightarrow>
          if sg_state current = CANCELING then server_result current ST_NOP ST_NONE
          else if sg_state current = FINISHING then server_result current ST_NOP ST_NONE
          else if sg_cancel_decision_pending current
          then if sg_cancel_origin current = ORIGIN_RUNTIME
               then server_result current ST_NOP ST_NONE
               else server_result (current\<lparr>sg_cancel_origin := ORIGIN_RUNTIME\<rparr>)
                      ST_TRANSITIONED ST_NONE
          else server_result
                 (current\<lparr>sg_cancel_decision_pending := True, sg_cancel_origin := ORIGIN_RUNTIME\<rparr>)
                 ST_TRANSITIONED ST_NONE)"

fun server_transition_error_name :: "ServerTransitionError \<Rightarrow> string" where
  "server_transition_error_name ST_NONE = ''none''"
| "server_transition_error_name ST_INVALID_CONTEXT = ''invalid_context''"
| "server_transition_error_name ST_EVENT_NOT_ALLOWED = ''event_not_allowed''"
| "server_transition_error_name ST_CANCEL_DECISION_NOT_PENDING = ''cancel_decision_not_pending''"
| "server_transition_error_name ST_INVALID_TERMINAL_STATUS = ''invalid_terminal_status''"
| "server_transition_error_name ST_UNKNOWN_EVENT = ''unknown_event''"

lemmas server_sm_defs = transition_server_goal_def complete_server_goal_def server_result_def
  is_valid_server_context_def is_goal_state_def Let_def

lemma initial_server_context_valid [simp]: "is_valid_server_context initial_ServerGoalContext"
  by (simp add: initial_ServerGoalContext_def is_valid_server_context_def is_goal_state_def)

section \<open>The documented matrix as a move relation\<close>

text \<open>
  The moves the state model allows: everything the matrix does not list leaves the
  context as it is.
\<close>

inductive server_goal_step :: "ServerGoalContext \<Rightarrow> ServerGoalEvent \<Rightarrow> ServerGoalContext \<Rightarrow> bool" where
  finish_executing:
    "sg_state c = EXECUTING
     \<Longrightarrow> (e, s) \<in> {(COMPLETE_SUCCEEDED, SUCCEEDED), (COMPLETE_ABORTED, ABORTED)}
     \<Longrightarrow> server_goal_step c e \<lparr>sg_state = FINISHING, sg_cancel_decision_pending = False,
           sg_cancel_origin = ORIGIN_NONE, sg_terminal_status = s\<rparr>"
| finish_canceling:
    "sg_state c = CANCELING
     \<Longrightarrow> (e, s) \<in> {(COMPLETE_CANCELED, CANCELED), (COMPLETE_ABORTED, ABORTED)}
     \<Longrightarrow> server_goal_step c e \<lparr>sg_state = FINISHING, sg_cancel_decision_pending = False,
           sg_cancel_origin = ORIGIN_NONE, sg_terminal_status = s\<rparr>"
| accept_pending:
    "sg_state c = EXECUTING \<Longrightarrow> sg_cancel_decision_pending c
     \<Longrightarrow> server_goal_step c ACCEPT_CANCEL \<lparr>sg_state = CANCELING,
           sg_cancel_decision_pending = False, sg_cancel_origin = ORIGIN_NONE,
           sg_terminal_status = TS_UNSPECIFIED\<rparr>"
| reject_pending:
    "sg_state c = EXECUTING \<Longrightarrow> sg_cancel_decision_pending c
     \<Longrightarrow> server_goal_step c REJECT_CANCEL initial_ServerGoalContext"
| client_cancel:
    "sg_state c = EXECUTING \<Longrightarrow> \<not> sg_cancel_decision_pending c
     \<Longrightarrow> server_goal_step c CANCEL_REQUEST_RECEIVED
           (c\<lparr>sg_cancel_decision_pending := True, sg_cancel_origin := ORIGIN_CLIENT\<rparr>)"
| runtime_cancel:
    "sg_state c = EXECUTING \<Longrightarrow> sg_cancel_origin c \<noteq> ORIGIN_RUNTIME
     \<Longrightarrow> server_goal_step c RUNTIME_CANCEL_REQUESTED
           (c\<lparr>sg_cancel_decision_pending := True, sg_cancel_origin := ORIGIN_RUNTIME\<rparr>)"

inductive_simps server_goal_step_iff: "server_goal_step c e c'"

lemma server_transition_valid:
  "is_valid_server_context c \<Longrightarrow> is_valid_server_context (st_next (transition_server_goal c e))"
  by (cases e) (auto simp: server_sm_defs split: if_splits)

lemma server_transition_unchanged:
  "st_kind (transition_server_goal c e) \<noteq> ST_TRANSITIONED \<Longrightarrow> st_next (transition_server_goal c e) = c"
  by (cases e) (auto simp: server_sm_defs split: if_splits)

lemma server_transition_step_iff:
  assumes "is_valid_server_context c"
  shows "server_goal_step c e c' \<longleftrightarrow>
           st_kind (transition_server_goal c e) = ST_TRANSITIONED
           \<and> c' = st_next (transition_server_goal c e)"
proof (cases c)
  case (fields state pending origin status)
  with assms show ?thesis
    by (cases e; cases origin)
      (auto simp: server_goal_step_iff server_sm_defs initial_ServerGoalContext_def split: if_splits)
qed

lemma server_transition_mono:
  "is_valid_server_context c \<Longrightarrow> sg_state c \<le> sg_state (st_next (transition_server_goal c e))"
  by (cases e) (auto simp: server_sm_defs less_eq_GoalState_def split: if_splits)

lemma server_finishing_frozen:
  "sg_state c = FINISHING \<Longrightarrow> st_next (transition_server_goal c e) = c"
  by (cases e) (auto simp: server_sm_defs split: if_splits)

text \<open>The context after an event, as the services layer stores it.\<close>

definition server_goal_next :: "ServerGoalContext \<Rightarrow> ServerGoalEvent \<Rightarrow> ServerGoalContext" where
  "server_goal_next c e = st_next (transition_server_goal c e)"

interpretation srv_goal: goal_state_machine server_goal_next
    "\<lambda>c e. st_kind (transition_server_goal c e) = ST_TRANSITIONED"
    is_valid_server_context sg_state
  by unfold_locales
    (auto simp: server_goal_next_def server_transition_valid server_transition_mono
      server_finishing_frozen dest: server_transition_unchanged)

section \<open>Runs of events\<close>

definition server_goal_run :: "ServerGoalEvent list \<Rightarrow> ServerGoalContext" where
  "server_goal_run es = foldl server_goal_next initial_ServerGoalContext es"

lemma server_goal_run_Nil [simp]: "server_goal_run [] = initial_ServerGoalContext"
  by (simp add: server_goal_run_def)

lemma server_goal_run_snoc: "server_goal_run (es @ [e]) = server_goal_next (server_goal_run es) e"
  by (simp add: server_goal_run_def)

lemma server_goal_run_valid [simp]: "is_valid_server_context (server_goal_run es)"
  unfolding server_goal_run_def by (rule srv_goal.run_valid) simp

text \<open>A Goal enters \<open>CANCELING\<close> only through an accepted, pending Cancel.\<close>

lemma server_enter_canceling:
  assumes "is_valid_server_context c" and "sg_state (server_goal_next c e) = CANCELING"
  shows "sg_state c = CANCELING
         \<or> e = ACCEPT_CANCEL \<and> sg_state c = EXECUTING \<and> sg_cancel_decision_pending c"
  using assms by (cases e) (auto simp: server_goal_next_def server_sm_defs split: if_splits)

text \<open>A Goal finishes as \<open>CANCELED\<close> only from \<open>CANCELING\<close>, as \<open>SUCCEEDED\<close> only from \<open>EXECUTING\<close>.\<close>

lemma server_enter_terminal:
  assumes "is_valid_server_context c" and "sg_state (server_goal_next c e) = FINISHING"
    and "sg_state c \<noteq> FINISHING"
  shows "sg_terminal_status (server_goal_next c e) = CANCELED \<and> sg_state c = CANCELING
         \<or> sg_terminal_status (server_goal_next c e) = SUCCEEDED \<and> sg_state c = EXECUTING
         \<or> sg_terminal_status (server_goal_next c e) = ABORTED"
  using assms by (cases e) (auto simp: server_goal_next_def server_sm_defs split: if_splits)

lemma server_run_canceling_origin:
  "sg_state (server_goal_run es) = CANCELING \<Longrightarrow>
   \<exists>xs ys. es = xs @ ACCEPT_CANCEL # ys \<and> sg_state (server_goal_run xs) = EXECUTING
     \<and> sg_cancel_decision_pending (server_goal_run xs)"
proof (induction es rule: rev_induct)
  case Nil
  then show ?case by (simp add: initial_ServerGoalContext_def)
next
  case (snoc e es)
  then consider "sg_state (server_goal_run es) = CANCELING"
    | "e = ACCEPT_CANCEL" "sg_state (server_goal_run es) = EXECUTING"
      "sg_cancel_decision_pending (server_goal_run es)"
    using server_enter_canceling [of "server_goal_run es" e] by (auto simp: server_goal_run_snoc)
  then show ?case
  proof cases
    case 1
    with snoc.IH obtain xs ys where "es = xs @ ACCEPT_CANCEL # ys"
      and "sg_state (server_goal_run xs) = EXECUTING" "sg_cancel_decision_pending (server_goal_run xs)"
      by blast
    then show ?thesis by (intro exI [of _ xs] exI [of _ "ys @ [e]"]) simp
  next
    case 2
    then show ?thesis by (intro exI [of _ es] exI [of _ "[]"]) simp
  qed
qed

lemma server_run_state_mono:
  "sg_state (server_goal_run xs) \<le> sg_state (server_goal_run (xs @ ys))"
  unfolding server_goal_run_def foldl_append
  by (rule srv_goal.run_mono) (simp add: server_goal_run_def [symmetric])

text \<open>
  Where a finished run crossed into \<open>FINISHING\<close>: the event that did it, the context
  before it, and that nothing after it changed the outcome.
\<close>

lemma server_run_finish_point:
  "sg_state (server_goal_run es) = FINISHING \<Longrightarrow>
   \<exists>xs e ys. es = xs @ e # ys \<and> sg_state (server_goal_run xs) \<noteq> FINISHING
     \<and> server_goal_run (xs @ [e]) = server_goal_run es"
proof (induction es rule: rev_induct)
  case Nil
  then show ?case by (simp add: initial_ServerGoalContext_def)
next
  case (snoc e es)
  show ?case
  proof (cases "sg_state (server_goal_run es) = FINISHING")
    case True
    then have same: "server_goal_run (es @ [e]) = server_goal_run es"
      by (simp add: server_goal_run_snoc server_goal_next_def server_finishing_frozen)
    from snoc.IH [OF True] obtain xs e' ys where "es = xs @ e' # ys"
      and "sg_state (server_goal_run xs) \<noteq> FINISHING"
      and "server_goal_run (xs @ [e']) = server_goal_run es" by blast
    with same show ?thesis
      by (intro exI [of _ xs] exI [of _ e'] exI [of _ "ys @ [e]"]) simp
  next
    case False
    then show ?thesis by (intro exI [of _ es] exI [of _ e] exI [of _ "[]"]) simp
  qed
qed

section \<open>Properties\<close>

text \<open>
  C1 (refinement): on every valid context, \<open>transition_server_goal\<close> transitions exactly
  when the documented state matrix has a move for that event, and then to exactly the
  context the matrix gives; in every other cell the context is returned unchanged.
\<close>

theorem server_transition_implements_matrix:
  assumes "is_valid_server_context c"
  shows "(server_goal_step c e c' \<longleftrightarrow>
           st_kind (transition_server_goal c e) = ST_TRANSITIONED
           \<and> st_next (transition_server_goal c e) = c')
         \<and> ((\<nexists>d. server_goal_step c e d) \<longrightarrow> st_next (transition_server_goal c e) = c)"
  using server_transition_step_iff [OF assms, of e] server_transition_unchanged [of c e] by auto

theorem server_transition_implements_matrix_witness:
  "server_goal_step initial_ServerGoalContext CANCEL_REQUEST_RECEIVED
     (initial_ServerGoalContext\<lparr>sg_cancel_decision_pending := True, sg_cancel_origin := ORIGIN_CLIENT\<rparr>)"
  using server_transition_implements_matrix [OF initial_server_context_valid,
      of CANCEL_REQUEST_RECEIVED "initial_ServerGoalContext\<lparr>sg_cancel_decision_pending := True,
        sg_cancel_origin := ORIGIN_CLIENT\<rparr>"]
  by (simp add: server_sm_defs initial_ServerGoalContext_def)

text \<open>
  The Cancel/Result race is decided once. On any sequence of events from
  acceptance: a Goal that ends \<open>CANCELED\<close> had a pending Cancel accepted while it was
  \<open>EXECUTING\<close>; a Goal that ends \<open>SUCCEEDED\<close> never was \<open>CANCELING\<close>; and once a
  terminal status is set no later event changes anything of the context.
\<close>

theorem server_cancel_result_race:
  shows "(sg_terminal_status (server_goal_run es) = CANCELED \<longrightarrow>
           (\<exists>xs ys. es = xs @ ACCEPT_CANCEL # ys \<and> sg_state (server_goal_run xs) = EXECUTING
              \<and> sg_cancel_decision_pending (server_goal_run xs)))
       \<and> (sg_terminal_status (server_goal_run es) = SUCCEEDED \<longrightarrow>
           (\<forall>xs ys. es = xs @ ys \<longrightarrow> sg_state (server_goal_run xs) \<noteq> CANCELING))
       \<and> (sg_terminal_status (server_goal_run es) \<noteq> TS_UNSPECIFIED \<longrightarrow>
           server_goal_run (es @ es') = server_goal_run es)"
proof (cases "sg_state (server_goal_run es) = FINISHING")
  case False
  then have "sg_terminal_status (server_goal_run es) = TS_UNSPECIFIED"
    using server_goal_run_valid [of es] by (auto simp: is_valid_server_context_def split: if_splits)
  then show ?thesis by simp
next
  case True
  then obtain xs e ys where es: "es = xs @ e # ys" and open_x: "sg_state (server_goal_run xs) \<noteq> FINISHING"
    and point: "server_goal_next (server_goal_run xs) e = server_goal_run es"
    using server_run_finish_point [of es] by (auto simp: server_goal_run_snoc)
  have outcome: "sg_terminal_status (server_goal_run es) = CANCELED \<and> sg_state (server_goal_run xs) = CANCELING
      \<or> sg_terminal_status (server_goal_run es) = SUCCEEDED \<and> sg_state (server_goal_run xs) = EXECUTING
      \<or> sg_terminal_status (server_goal_run es) = ABORTED"
    using server_enter_terminal [of "server_goal_run xs" e] open_x True point by simp
  have canceled: "\<exists>us vs. es = us @ ACCEPT_CANCEL # vs \<and> sg_state (server_goal_run us) = EXECUTING
      \<and> sg_cancel_decision_pending (server_goal_run us)"
    if "sg_state (server_goal_run xs) = CANCELING"
    using server_run_canceling_origin [OF that] es by fastforce
  have succeeded: "sg_state (server_goal_run us) \<noteq> CANCELING"
    if exec: "sg_state (server_goal_run xs) = EXECUTING" and split: "es = us @ vs" for us vs
  proof (cases "length us \<le> length xs")
    case le: True
    then have "xs = us @ drop (length us) xs"
      using es split by (metis append_eq_append_conv_if append_take_drop_id)
    then have "sg_state (server_goal_run us) \<le> EXECUTING"
      using server_run_state_mono [of us "drop (length us) xs"] exec by simp
    then show ?thesis by (auto simp: less_eq_GoalState_def)
  next
    case False
    with es split obtain zs where zs: "us = xs @ zs" "zs \<noteq> []" "zs @ vs = e # ys"
      by (auto simp: append_eq_append_conv2)
    then obtain ws where "us = (xs @ [e]) @ ws" by (cases zs) auto
    then have "sg_state (server_goal_run (xs @ [e])) \<le> sg_state (server_goal_run us)"
      using server_run_state_mono [of "xs @ [e]" ws] by simp
    then show ?thesis using True point
      by (auto simp: server_goal_run_snoc less_eq_GoalState_def)
  qed
  have stable: "server_goal_run (es @ es') = server_goal_run es"
    using srv_goal.run_finishing [OF True] by (simp add: server_goal_run_def)
  show ?thesis using outcome canceled succeeded stable by auto
qed

theorem server_cancel_result_race_witness:
  "sg_terminal_status (server_goal_run
      [CANCEL_REQUEST_RECEIVED, ACCEPT_CANCEL, COMPLETE_CANCELED]) = CANCELED
   \<and> (\<exists>xs ys. [CANCEL_REQUEST_RECEIVED, ACCEPT_CANCEL, COMPLETE_CANCELED] = xs @ ACCEPT_CANCEL # ys
        \<and> sg_state (server_goal_run xs) = EXECUTING)"
proof -
  have "sg_terminal_status (server_goal_run
      [CANCEL_REQUEST_RECEIVED, ACCEPT_CANCEL, COMPLETE_CANCELED]) = CANCELED"
    by (simp add: server_goal_run_def server_goal_next_def server_sm_defs initial_ServerGoalContext_def)
  then show ?thesis
    using server_cancel_result_race [of "[CANCEL_REQUEST_RECEIVED, ACCEPT_CANCEL, COMPLETE_CANCELED]" "[]"]
    by blast
qed

end
