(* ===== verification/Number_Text.thy ===== *)
theory Number_Text
  imports Prelude
begin

text \<open>
  Decimal numbers as text: what \<open>std::to_string\<close> and \<open>operator<<\<close> write, and what \<open>std::stoll\<close> and
  \<open>operator>>\<close> into a \<open>long long\<close> read.
\<close>

definition digit_value :: "char \<Rightarrow> int" where
  "digit_value c = int (of_char c) - 48"

definition is_digit :: "char \<Rightarrow> bool" where
  "is_digit c \<longleftrightarrow> 48 \<le> (of_char c :: nat) \<and> (of_char c :: nat) \<le> 57"

definition is_space :: "char \<Rightarrow> bool" where
  "is_space c \<longleftrightarrow> (of_char c :: nat) = 32 \<or> 9 \<le> (of_char c :: nat) \<and> (of_char c :: nat) \<le> 13"

text \<open>
  White space, a sign and digits, with the text that follows; \<open>None\<close> when there is no digit and
  when the number does not fit 64 bits. \<open>operator>>\<close> then sets its fail bit, \<open>std::stoll\<close> throws.
\<close>

definition decimal_value :: "string \<Rightarrow> int" where
  "decimal_value digits = foldl (\<lambda>a c. 10 * a + digit_value c) 0 digits"

definition read_int64 :: "string \<Rightarrow> (int \<times> string) option" where
  "read_int64 text =
     (let t = dropWhile is_space text;
          negative = (t \<noteq> [] \<and> List.hd t = CHR ''-'');
          u = (if t \<noteq> [] \<and> (List.hd t = CHR ''-'' \<or> List.hd t = CHR ''+'') then tl t else t);
          n = decimal_value (takeWhile is_digit u);
          value = (if negative then - n else n)
      in if takeWhile is_digit u = [] \<or> value < - (2 ^ 63) \<or> 2 ^ 63 \<le> value then None
         else Some (value, dropWhile is_digit u))"

definition stoll :: "string \<Rightarrow> int option" where
  "stoll text = map_option fst (read_int64 text)"

lemmas number_text = stoll_def read_int64_def decimal_value_def is_space_def is_digit_def digit_value_def

section \<open>Printing\<close>

text \<open>\<open>std::to_string\<close> of a non-negative integer.\<close>

fun to_string :: "nat \<Rightarrow> string" where
  "to_string n = (if n < 10 then [char_of (48 + n)] else to_string (n div 10) @ [char_of (48 + n mod 10)])"

declare to_string.simps [simp del]

definition print_int :: "int \<Rightarrow> string" where
  "print_int x = (if x < 0 then CHR ''-'' # to_string (nat (- x)) else to_string (nat x))"

lemma digit_char: "d < 10 \<Longrightarrow> is_digit (char_of (48 + d)) \<and> digit_value (char_of (48 + d)) = int d"
  by (simp add: is_digit_def digit_value_def)

lemma decimal_snoc [simp]: "decimal_value (ds @ [c]) = 10 * decimal_value ds + digit_value c"
  by (simp add: decimal_value_def)

lemma to_string_digits: "list_all is_digit (to_string n) \<and> to_string n \<noteq> [] \<and> decimal_value (to_string n) = int n"
proof (induction n rule: to_string.induct)
  case (1 n)
  show ?case
  proof (cases "n < 10")
    case True
    then show ?thesis using digit_char [of n] by (subst to_string.simps) (simp add: to_string.simps decimal_value_def)
  next
    case False
    moreover have "10 * int (n div 10) + int (n mod 10) = int n" using div_mult_mod_eq [of n 10] by linarith
    ultimately show ?thesis using 1 digit_char [of "n mod 10"] by (subst (1 2 3) to_string.simps) simp
  qed
qed

lemma to_string_inject [simp]: "to_string m = to_string n \<longleftrightarrow> m = n"
  by (metis to_string_digits of_nat_eq_iff)

lemma digit_not_other: "is_digit c \<Longrightarrow> \<not> is_space c \<and> c \<noteq> CHR ''-'' \<and> c \<noteq> CHR ''+''"
  by (auto simp: is_digit_def is_space_def)

lemma takeWhile_dropWhile_digits:
  assumes "list_all is_digit ds" and "rest = [] \<or> \<not> is_digit (List.hd rest)"
  shows "takeWhile is_digit (ds @ rest) = ds \<and> dropWhile is_digit (ds @ rest) = rest"
  using assms by (induction ds) (cases rest, auto)

text \<open>A number that was printed is read back, with the text behind it.\<close>

lemma read_print_int64:
  assumes "- (2 ^ 63) \<le> x" and "x < 2 ^ 63" and rest: "rest = [] \<or> \<not> is_digit (List.hd rest)" and "list_all is_space blanks"
  shows "read_int64 (blanks @ print_int x @ rest) = Some (x, rest)"
proof -
  let ?ds = "to_string (nat (abs x))"
  note d = to_string_digits [of "nat (abs x)"]
  obtain c cs where c: "?ds = c # cs" using d by (cases ?ds) auto
  then have digit: "is_digit c" using d by simp
  have blanks: "dropWhile is_space (blanks @ print_int x @ rest) = print_int x @ rest"
    using assms(4) c digit_not_other [OF digit]
    by (induction blanks) (auto simp: print_int_def is_space_def)
  have split: "takeWhile is_digit (?ds @ rest) = ?ds \<and> dropWhile is_digit (?ds @ rest) = rest"
    using takeWhile_dropWhile_digits [of ?ds rest] d rest by blast
  let ?t = "print_int x @ rest"
  have sign: "(if ?t \<noteq> [] \<and> (List.hd ?t = CHR ''-'' \<or> List.hd ?t = CHR ''+'') then tl ?t else ?t) = ?ds @ rest"
    and neg: "(?t \<noteq> [] \<and> List.hd ?t = CHR ''-'') = (x < 0)"
    using c digit_not_other [OF digit] by (auto simp: print_int_def)
  have "decimal_value ?ds = \<bar>x\<bar>" "?ds \<noteq> []" using d by simp_all
  then show ?thesis
    using assms(1,2) split unfolding read_int64_def Let_def blanks sign neg by auto
qed

end
