(* ===== verification/Action_Configuration.thy ===== *)
theory Action_Configuration
  imports Number_Text
begin

text \<open>
  The Action configuration loader, \<open>src/action_configuration.cpp\<close>: it validates one JSON
  Action entry, derives three channels (Request, Response, Feedback) for every slot and
  numbers them, and checks a whole configuration for duplicate names.

  The JSON library is third-party code. The loader sees a value only through the accessors
  gathered in the record \<open>json_ops\<close>, which is a parameter of every definition. An output
  parameter that is written only on success together with an error text is a sum:
  \<open>Inl\<close> the text of \<open>error_out\<close>, \<open>Inr\<close> the value.
\<close>

section \<open>Standard library: strings\<close>

text \<open>\<open>str.find(c, from)\<close>: the first index at or after \<open>from\<close> holding \<open>c\<close>, \<open>npos\<close> as \<open>None\<close>.\<close>

fun string_find :: "string \<Rightarrow> char \<Rightarrow> nat \<Rightarrow> nat option" where
  "string_find [] c from = None"
| "string_find (x # xs) c 0 = (if x = c then Some 0 else map_option Suc (string_find xs c 0))"
| "string_find (x # xs) c (Suc n) = map_option Suc (string_find xs c n)"

section \<open>Data\<close>

record 'j json_ops =
  json_is_object :: "'j \<Rightarrow> bool"
  json_is_array :: "'j \<Rightarrow> bool"
  json_is_string :: "'j \<Rightarrow> bool"
  json_is_number_integer :: "'j \<Rightarrow> bool"
  json_is_number_unsigned :: "'j \<Rightarrow> bool"
  json_find :: "'j \<Rightarrow> string \<Rightarrow> 'j option"
  json_elements :: "'j \<Rightarrow> 'j list"
  json_get_string :: "'j \<Rightarrow> string"
  json_get_uint64 :: "'j \<Rightarrow> uint64"
  json_get_int64 :: "'j \<Rightarrow> int"

datatype ActionChannelKind = REQUEST | RESPONSE | FEEDBACK

record ActionEndpointReference =
  er_node_id :: string
  er_endpoint_id :: string

record ActionChannelDefinition =
  ch_slot_index :: nat
  ch_kind :: ActionChannelKind
  ch_channel_id :: uint32
  ch_channel_name :: string
  ch_packet_type :: string

record ActionBufferHeap =
  bh_request_size :: size_t
  bh_response_size :: size_t
  bh_feedback_size :: size_t

definition DEFAULT_SIZE :: size_t where
  "DEFAULT_SIZE = 1024 * 1024"

record ActionDefinition =
  ad_name :: string
  ad_type :: string
  ad_slot_count :: nat
  ad_buffer_heap :: ActionBufferHeap
  ad_client_endpoint :: ActionEndpointReference
  ad_server_endpoint :: ActionEndpointReference
  ad_channels :: "ActionChannelDefinition list"

section \<open>Reading the fields\<close>

definition quoted :: "string \<Rightarrow> string" where
  "quoted key = CHR 0x27 # key @ [CHR 0x27]"

definition read_required_text :: "'j json_ops \<Rightarrow> 'j \<Rightarrow> string \<Rightarrow> string + string" where
  "read_required_text J obj key =
     (case json_find J obj key of
        None \<Rightarrow> Inl (quoted key @ '' must be a non-empty string'')
      | Some it \<Rightarrow>
          if \<not> json_is_string J it \<or> json_get_string J it = []
          then Inl (quoted key @ '' must be a non-empty string'')
          else Inr (json_get_string J it))"

definition read_endpoint :: "'j json_ops \<Rightarrow> 'j \<Rightarrow> string \<Rightarrow> string + ActionEndpointReference" where
  "read_endpoint J action key =
     (case json_find J action key of
        None \<Rightarrow> Inl (quoted key @ '' must be an object'')
      | Some it \<Rightarrow>
          if \<not> json_is_object J it then Inl (quoted key @ '' must be an object'')
          else case read_required_text J it ''nodeId'' of
            Inl err \<Rightarrow> Inl err
          | Inr node \<Rightarrow>
              (case json_find J it ''endpointId'' of
                 None \<Rightarrow> Inr \<lparr>er_node_id = node, er_endpoint_id = []\<rparr>
               | Some eid \<Rightarrow>
                   if \<not> json_is_string J eid \<or> json_get_string J eid = []
                   then Inl (quoted ''endpointId'' @ '' must be a non-empty string when present'')
                   else Inr \<lparr>er_node_id = node, er_endpoint_id = json_get_string J eid\<rparr>))"

definition INT_MAX :: nat where
  "INT_MAX = 2 ^ 31 - 1"

definition read_buffer_heap_size :: "'j json_ops \<Rightarrow> 'j \<Rightarrow> string \<Rightarrow> string + size_t" where
  "read_buffer_heap_size J obj key =
     (case json_find J obj key of
        None \<Rightarrow> Inr DEFAULT_SIZE
      | Some it \<Rightarrow>
          if \<not> json_is_number_integer J it
          then Inl (quoted (''bufferHeap.'' @ key) @ '' must be a non-negative integer'')
          else if \<not> json_is_number_unsigned J it \<and> json_get_int64 J it < 0
          then Inl (quoted (''bufferHeap.'' @ key) @ '' must be a non-negative integer'')
          else let value = (if json_is_number_unsigned J it then json_get_uint64 J it
                            else word_of_int (json_get_int64 J it))
               in if unat value > INT_MAX
                  then Inl (quoted (''bufferHeap.'' @ key) @ '' exceeds the supported allocation range'')
                  else Inr value)"

definition read_buffer_heap :: "'j json_ops \<Rightarrow> 'j \<Rightarrow> string + ActionBufferHeap" where
  "read_buffer_heap J action =
     (case json_find J action ''bufferHeap'' of
        None \<Rightarrow> Inr \<lparr>bh_request_size = DEFAULT_SIZE, bh_response_size = DEFAULT_SIZE,
                     bh_feedback_size = DEFAULT_SIZE\<rparr>
      | Some it \<Rightarrow>
          if \<not> json_is_object J it then Inl (quoted ''bufferHeap'' @ '' must be an object'')
          else case read_buffer_heap_size J it ''requestSize'' of
            Inl err \<Rightarrow> Inl err
          | Inr rq \<Rightarrow>
              (case read_buffer_heap_size J it ''responseSize'' of
                 Inl err \<Rightarrow> Inl err
               | Inr rs \<Rightarrow>
                   (case read_buffer_heap_size J it ''feedbackSize'' of
                      Inl err \<Rightarrow> Inl err
                    | Inr fb \<Rightarrow> Inr \<lparr>bh_request_size = rq, bh_response_size = rs,
                                   bh_feedback_size = fb\<rparr>)))"

definition packet_type :: "string \<Rightarrow> string \<Rightarrow> string" where
  "packet_type action_type suffix = action_type @ ''Action'' @ suffix"

text \<open>\<open>static_cast<std::uint32_t>(slot * 3U)\<close> truncates to 32 bits, as \<open>of_nat\<close> does here.\<close>

definition append_slot_channels :: "ActionDefinition \<Rightarrow> nat \<Rightarrow> ActionDefinition" where
  "append_slot_channels d slot =
     (let base_id = of_nat (slot * 3);
          slot_name = ''Slot'' @ to_string slot
      in d\<lparr>ad_channels := ad_channels d @
           [\<lparr>ch_slot_index = slot, ch_kind = REQUEST, ch_channel_id = base_id,
             ch_channel_name = slot_name @ ''Request'',
             ch_packet_type = packet_type (ad_type d) ''Request''\<rparr>,
            \<lparr>ch_slot_index = slot, ch_kind = RESPONSE, ch_channel_id = base_id + 1,
             ch_channel_name = slot_name @ ''Response'',
             ch_packet_type = packet_type (ad_type d) ''Response''\<rparr>,
            \<lparr>ch_slot_index = slot, ch_kind = FEEDBACK, ch_channel_id = base_id + 2,
             ch_channel_name = slot_name @ ''Feedback'',
             ch_packet_type = packet_type (ad_type d) ''Feedback''\<rparr>]\<rparr>)"

section \<open>Parsing\<close>

definition max_slot_count :: nat where
  "max_slot_count = (2 ^ 32 - 1 - 2) div 3 + 1"

definition type_format_ok :: "string \<Rightarrow> bool" where
  "type_format_ok t =
     (case string_find t CHR ''/'' 0 of
        None \<Rightarrow> False
      | Some separator \<Rightarrow> \<not> (separator = 0 \<or> separator + 1 = length t
          \<or> string_find t CHR ''/'' (separator + 1) \<noteq> None))"

definition parse_action :: "'j json_ops \<Rightarrow> 'j \<Rightarrow> string + ActionDefinition" where
  "parse_action J action =
     (if \<not> json_is_object J action then Inl ''Action entry must be an object''
      else case read_required_text J action ''name'' of Inl err \<Rightarrow> Inl err
      | Inr nm \<Rightarrow> (case read_required_text J action ''type'' of Inl err \<Rightarrow> Inl err
      | Inr ty \<Rightarrow>
        if \<not> type_format_ok ty then Inl (quoted ''type'' @ '' must use package/ActionName format'')
        else (case json_find J action ''slotCount'' of
          None \<Rightarrow> Inl (quoted ''slotCount'' @ '' must be a positive integer'')
        | Some sc \<Rightarrow>
          if \<not> json_is_number_unsigned J sc
          then Inl (quoted ''slotCount'' @ '' must be a positive integer'')
          else let slot_count = unat (json_get_uint64 J sc) in
          if slot_count = 0 then Inl (quoted ''slotCount'' @ '' must be a positive integer'')
          else if slot_count > max_slot_count
          then Inl (quoted ''slotCount'' @ '' exceeds the logical channel ID range'')
          else (case read_endpoint J action ''clientEndpoint'' of Inl err \<Rightarrow> Inl err
          | Inr ce \<Rightarrow> (case read_endpoint J action ''serverEndpoint'' of Inl err \<Rightarrow> Inl err
          | Inr se \<Rightarrow> (case read_buffer_heap J action of Inl err \<Rightarrow> Inl err
          | Inr bh \<Rightarrow>
              Inr (foldl append_slot_channels
                \<lparr>ad_name = nm, ad_type = ty, ad_slot_count = slot_count, ad_buffer_heap = bh,
                 ad_client_endpoint = ce, ad_server_endpoint = se, ad_channels = []\<rparr>
                [0..<slot_count])))))))"

text \<open>
  The loop of \<open>parse\<close>: \<open>names\<close> are the names inserted so far, \<open>acc\<close> the definitions
  pushed so far.
\<close>

fun parse_actions ::
    "'j json_ops \<Rightarrow> 'j list \<Rightarrow> string set \<Rightarrow> ActionDefinition list \<Rightarrow> string + ActionDefinition list" where
  "parse_actions J [] names acc = Inr acc"
| "parse_actions J (a # as) names acc =
     (case parse_action J a of
        Inl err \<Rightarrow> Inl (''invalid Action definition: '' @ err)
      | Inr d \<Rightarrow>
          if ad_name d \<in> names then Inl (''duplicate Action name: '' @ ad_name d)
          else parse_actions J as (insert (ad_name d) names) (acc @ [d]))"

definition parse_configuration :: "'j json_ops \<Rightarrow> 'j \<Rightarrow> string + ActionDefinition list" where
  "parse_configuration J root =
     (if \<not> json_is_object J root then Inl ''Action configuration root must be an object''
      else case json_find J root ''actions'' of
        None \<Rightarrow> Inl (quoted ''actions'' @ '' must be a non-empty array'')
      | Some actions \<Rightarrow>
          if \<not> json_is_array J actions \<or> json_elements J actions = []
          then Inl (quoted ''actions'' @ '' must be a non-empty array'')
          else parse_actions J (json_elements J actions) {} [])"

text \<open>
  Opening and reading the file is I/O and JSON parsing is the library's: \<open>read_json path\<close>
  is \<open>None\<close> when the stream does not open, \<open>Inl\<close> the message of a JSON exception.
\<close>

definition load_file ::
    "'j json_ops \<Rightarrow> (string \<Rightarrow> (string + 'j) option) \<Rightarrow> string \<Rightarrow> string + ActionDefinition list" where
  "load_file J read_json path =
     (case read_json path of
        None \<Rightarrow> Inl (''failed to open Action configuration: '' @ path)
      | Some (Inl what) \<Rightarrow> Inl (''failed to parse Action configuration JSON: '' @ what)
      | Some (Inr root) \<Rightarrow> parse_configuration J root)"

section \<open>The channel table\<close>

fun kind_offset :: "ActionChannelKind \<Rightarrow> nat" where
  "kind_offset REQUEST = 0"
| "kind_offset RESPONSE = 1"
| "kind_offset FEEDBACK = 2"

definition slot_channels :: "string \<Rightarrow> nat \<Rightarrow> ActionChannelDefinition list" where
  "slot_channels ty slot =
     map (\<lambda>(k, suffix). \<lparr>ch_slot_index = slot, ch_kind = k,
        ch_channel_id = of_nat (3 * slot + kind_offset k),
        ch_channel_name = ''Slot'' @ to_string slot @ suffix, ch_packet_type = packet_type ty suffix\<rparr>)
       [(REQUEST, ''Request''), (RESPONSE, ''Response''), (FEEDBACK, ''Feedback'')]"

lemma append_slot_channels_eq:
  "append_slot_channels d slot = d\<lparr>ad_channels := ad_channels d @ slot_channels (ad_type d) slot\<rparr>"
  by (simp add: append_slot_channels_def slot_channels_def Let_def mult.commute)

lemma foldl_append_slot_channels:
  "foldl append_slot_channels d slots =
     d\<lparr>ad_channels := ad_channels d @ concat (map (slot_channels (ad_type d)) slots)\<rparr>"
  by (induction slots arbitrary: d) (simp_all add: append_slot_channels_eq)

lemma parse_action_Inr:
  assumes "parse_action J a = Inr d"
  shows "0 < ad_slot_count d" and "ad_slot_count d \<le> max_slot_count"
    and "type_format_ok (ad_type d)" and "ad_name d \<noteq> []"
    and "ad_channels d = concat (map (slot_channels (ad_type d)) [0..<ad_slot_count d])"
    and "unat (bh_request_size (ad_buffer_heap d)) \<le> INT_MAX"
    and "unat (bh_response_size (ad_buffer_heap d)) \<le> INT_MAX"
    and "unat (bh_feedback_size (ad_buffer_heap d)) \<le> INT_MAX"
proof -
  have "read_buffer_heap_size J x k = Inr v \<Longrightarrow> unat v \<le> INT_MAX" for x k v
    by (auto simp: read_buffer_heap_size_def DEFAULT_SIZE_def INT_MAX_def Let_def split: option.splits if_splits)
  then have heap: "unat (bh_request_size b) \<le> INT_MAX \<and> unat (bh_response_size b) \<le> INT_MAX
      \<and> unat (bh_feedback_size b) \<le> INT_MAX" if "read_buffer_heap J a = Inr b" for b
    using that by (auto simp: read_buffer_heap_def DEFAULT_SIZE_def INT_MAX_def
        split: option.splits if_splits sum.splits)
  show "0 < ad_slot_count d" "ad_slot_count d \<le> max_slot_count" "type_format_ok (ad_type d)"
    "ad_name d \<noteq> []" "ad_channels d = concat (map (slot_channels (ad_type d)) [0..<ad_slot_count d])"
    using assms
    by (auto simp: parse_action_def foldl_append_slot_channels Let_def read_required_text_def
        split: if_splits sum.splits option.splits)
  show "unat (bh_request_size (ad_buffer_heap d)) \<le> INT_MAX"
    "unat (bh_response_size (ad_buffer_heap d)) \<le> INT_MAX"
    "unat (bh_feedback_size (ad_buffer_heap d)) \<le> INT_MAX"
    using assms heap
    by (auto simp: parse_action_def foldl_append_slot_channels Let_def
        split: if_splits sum.splits option.splits)
qed

text \<open>Below the slot limit the 32-bit channel identifiers do not wrap.\<close>

lemma channel_id_no_wrap:
  "slot < max_slot_count \<Longrightarrow> unat (of_nat (3 * slot + kind_offset k) :: uint32) = 3 * slot + kind_offset k"
proof -
  assume "slot < max_slot_count"
  moreover have "kind_offset k \<le> 2" by (cases k) auto
  ultimately have "3 * slot + kind_offset k < 2 ^ LENGTH(32)" by (simp add: max_slot_count_def)
  then show ?thesis by (simp only: unat_of_nat mod_less)
qed

lemma channel_ids_of_slots:
  "n \<le> max_slot_count \<Longrightarrow>
   map (unat \<circ> ch_channel_id) (concat (map (slot_channels ty) [0..<n])) = [0..<3 * n]"
proof (induction n)
  case (Suc n)
  then have "n < max_slot_count" by simp
  then have "map (unat \<circ> ch_channel_id) (slot_channels ty n) =
      map (\<lambda>k. 3 * n + kind_offset k) [REQUEST, RESPONSE, FEEDBACK]"
    using channel_id_no_wrap by (simp only: slot_channels_def list.map o_def case_prod_conv
        ActionChannelDefinition.simps)
  also have "\<dots> = [3 * n..<3 * Suc n]" by (simp add: upt_rec)
  finally have "map (unat \<circ> ch_channel_id) (slot_channels ty n) = [3 * n..<3 * Suc n]" .
  moreover have "[0..<3 * Suc n] = [0..<3 * n] @ [3 * n..<3 * Suc n]"
    using upt_add_eq_append [of 0 "3 * n" 3] by (simp add: add.commute)
  ultimately show ?case using Suc by (simp add: o_def)
qed simp

lemma parse_actions_iff:
  assumes "distinct (map ad_name acc)"
  shows "parse_actions J js (set (map ad_name acc)) acc = Inr ds \<longleftrightarrow>
    (\<exists>es. ds = acc @ es \<and> list_all2 (\<lambda>j d. parse_action J j = Inr d) js es
      \<and> distinct (map ad_name (acc @ es)))"
  using assms
proof (induction js arbitrary: acc)
  case Nil
  then show ?case by auto
next
  case (Cons j js)
  show ?case
  proof (cases "parse_action J j")
    case (Inr d)
    show ?thesis
    proof (cases "ad_name d \<in> set (map ad_name acc)")
      case True
      with Inr show ?thesis by (auto simp: list_all2_Cons1)
    next
      case False
      with Cons.prems have "distinct (map ad_name (acc @ [d]))" by simp
      from Cons.IH [OF this] False Inr show ?thesis
        by (auto simp: list_all2_Cons1)
    qed
  qed (auto simp: list_all2_Cons1)
qed

section \<open>Properties\<close>

text \<open>
  For every Action entry the parser accepts, the channel table has three
  channels per slot, channel number \<open>i\<close> carries the identifier \<open>i\<close>: the 32-bit
  identifiers \<open>3 * slot + {0, 1, 2}\<close> never wrap and are pairwise different, and every
  channel belongs to a configured slot.
\<close>

theorem parse_action_channels:
  assumes "parse_action J a = Inr d"
  shows "map (unat \<circ> ch_channel_id) (ad_channels d) = [0..<3 * ad_slot_count d]
    \<and> distinct (map ch_channel_id (ad_channels d))
    \<and> (\<forall>ch. ch \<in> set (ad_channels d) \<longleftrightarrow>
          (\<exists>slot. slot < ad_slot_count d \<and> ch \<in> set (slot_channels (ad_type d) slot)))"
proof -
  note p = parse_action_Inr [OF assms]
  have ids: "map (unat \<circ> ch_channel_id) (ad_channels d) = [0..<3 * ad_slot_count d]"
    using channel_ids_of_slots [OF p(2)] p(5) by simp
  then have "distinct (map unat (map ch_channel_id (ad_channels d)))" by simp
  then have "distinct (map ch_channel_id (ad_channels d))" by (simp only: distinct_map)
  with ids p(5) show ?thesis by auto
qed

text \<open>
  A whole configuration is accepted exactly when its root is an object
  whose \<open>actions\<close> is a non-empty array of valid Action entries with pairwise different
  names, and the result lists the parsed entries in the order of the array.
\<close>

theorem parse_configuration_iff:
  "parse_configuration J root = Inr ds \<longleftrightarrow>
     json_is_object J root
     \<and> (\<exists>arr. json_find J root ''actions'' = Some arr \<and> json_is_array J arr \<and> ds \<noteq> []
          \<and> list_all2 (\<lambda>j d. parse_action J j = Inr d) (json_elements J arr) ds
          \<and> distinct (map ad_name ds))"
  using parse_actions_iff [of "[]" J _ ds]
  by (auto simp: parse_configuration_def split: option.splits)

section \<open>A concrete JSON value\<close>

text \<open>An instance of the parameter, on which the witnesses evaluate the parser.\<close>

datatype json_value =
    JObject "(string \<times> json_value) list"
  | JArray "json_value list"
  | JString string
  | JUnsigned nat

definition value_json_ops :: "json_value json_ops" where
  "value_json_ops = \<lparr>
     json_is_object = (\<lambda>j. case j of JObject _ \<Rightarrow> True | _ \<Rightarrow> False),
     json_is_array = (\<lambda>j. case j of JArray _ \<Rightarrow> True | _ \<Rightarrow> False),
     json_is_string = (\<lambda>j. case j of JString _ \<Rightarrow> True | _ \<Rightarrow> False),
     json_is_number_integer = (\<lambda>j. case j of JUnsigned _ \<Rightarrow> True | _ \<Rightarrow> False),
     json_is_number_unsigned = (\<lambda>j. case j of JUnsigned _ \<Rightarrow> True | _ \<Rightarrow> False),
     json_find = (\<lambda>j k. case j of JObject kvs \<Rightarrow> map_of kvs k | _ \<Rightarrow> None),
     json_elements = (\<lambda>j. case j of JArray xs \<Rightarrow> xs | _ \<Rightarrow> []),
     json_get_string = (\<lambda>j. case j of JString t \<Rightarrow> t | _ \<Rightarrow> []),
     json_get_uint64 = (\<lambda>j. case j of JUnsigned n \<Rightarrow> of_nat n | _ \<Rightarrow> 0),
     json_get_int64 = (\<lambda>j. case j of JUnsigned n \<Rightarrow> int n | _ \<Rightarrow> 0)\<rparr>"

definition example_action :: json_value where
  "example_action = JObject
     [(''name'', JString ''Move''), (''type'', JString ''pkg/Move''), (''slotCount'', JUnsigned 2),
      (''clientEndpoint'', JObject [(''nodeId'', JString ''c'')]),
      (''serverEndpoint'', JObject [(''nodeId'', JString ''s'')]),
      (''bufferHeap'', JObject [(''requestSize'', JUnsigned 8), (''responseSize'', JUnsigned 8),
         (''feedbackSize'', JUnsigned 8)])]"

definition example_definition :: ActionDefinition where
  "example_definition = \<lparr>ad_name = ''Move'', ad_type = ''pkg/Move'', ad_slot_count = 2,
     ad_buffer_heap = \<lparr>bh_request_size = 8, bh_response_size = 8, bh_feedback_size = 8\<rparr>,
     ad_client_endpoint = \<lparr>er_node_id = ''c'', er_endpoint_id = []\<rparr>,
     ad_server_endpoint = \<lparr>er_node_id = ''s'', er_endpoint_id = []\<rparr>,
     ad_channels = slot_channels ''pkg/Move'' 0 @ slot_channels ''pkg/Move'' 1\<rparr>"

lemma parse_example_action: "parse_action value_json_ops example_action = Inr example_definition"
  by (simp add: parse_action_def value_json_ops_def example_action_def example_definition_def
      read_required_text_def read_endpoint_def read_buffer_heap_def read_buffer_heap_size_def
      INT_MAX_def type_format_ok_def
      max_slot_count_def append_slot_channels_eq upt_rec)

theorem parse_action_channels_witness:
  "parse_action value_json_ops example_action = Inr example_definition
   \<and> map (unat \<circ> ch_channel_id) (ad_channels example_definition) = [0..<3 * 2]"
  using parse_action_channels [OF parse_example_action] parse_example_action
  by (simp add: example_definition_def)

end
