(* ===== verification/Action_Packet.thy ===== *)
theory Action_Packet
  imports Action_Types Action_Configuration
begin

text \<open>
  The packet layer both Action endpoints stand on: the size arithmetic, the check of a
  packet's metadata, the allocation of an empty packet, and the send through the PDU
  endpoint (the helpers of \<open>src/action_server_endpoint_impl.cpp\<close> and
  \<open>src/action_client_endpoint_impl.cpp\<close>).

  The PDU registry (metadata layout, header convertors, packet sizes) and the byte
  transport are other repositories. They are the fields of the record \<open>pdu_env\<close>, a
  parameter of every definition; \<open>'w\<close> is the state of the transport. What the endpoints
  rely on is stated by \<open>registry_ok\<close>, a hypothesis of the theorems that need it.
\<close>

unbundle bit_operations_syntax

section \<open>The environment\<close>

record HakoPduMetaDataType =
  md_base_off :: uint32
  md_heap_off :: uint32
  md_total_size :: uint32

record ActionRequestHeader =
  rqh_version :: byte
  rqh_request_kind :: byte
  rqh_reserved :: "byte list"
  rqh_goal_id :: GoalId

record ActionResponseHeader =
  rsh_version :: byte
  rsh_response_kind :: byte
  rsh_status :: byte
  rsh_reserved :: byte
  rsh_goal_id :: GoalId

record ActionFeedbackHeader =
  fbh_version :: byte
  fbh_reserved :: "byte list"
  fbh_goal_id :: GoalId
  fbh_sequence_no :: uint32

record PduResolvedKey =
  key_robot :: string
  key_channel_id :: uint32

record 'w pdu_env =
  HAKO_ALIGNMENT_SIZE :: size_t
  HAKO_PDU_META_DATA_SIZE :: uint32
  sizeof_metadata :: nat
  read_metadata :: "pdu_data \<Rightarrow> HakoPduMetaDataType"
  metadata_is_invalid :: "pdu_data \<Rightarrow> bool"
  sizeof_ActionRequestHeader :: nat
  sizeof_ActionResponseHeader :: nat
  sizeof_ActionFeedbackHeader :: nat
  pdu2cpp_ActionRequestHeader :: "pdu_data \<Rightarrow> ActionRequestHeader option"
  pdu2cpp_ActionResponseHeader :: "pdu_data \<Rightarrow> ActionResponseHeader option"
  pdu2cpp_ActionFeedbackHeader :: "pdu_data \<Rightarrow> ActionFeedbackHeader option"
  cpp2pdu_ActionRequestHeader :: "ActionRequestHeader \<Rightarrow> pdu_data \<Rightarrow> pdu_data option"
  cpp2pdu_ActionResponseHeader :: "ActionResponseHeader \<Rightarrow> pdu_data \<Rightarrow> pdu_data option"
  cpp2pdu_ActionFeedbackHeader :: "ActionFeedbackHeader \<Rightarrow> pdu_data \<Rightarrow> pdu_data option"
  hako_create_empty_pdu :: "nat \<Rightarrow> nat \<Rightarrow> 'w \<Rightarrow> pdu_data option"
  hako_pdu_get_size :: "string \<Rightarrow> uint32 option"
  endpoint_transmit :: "PduResolvedKey \<Rightarrow> pdu_data \<Rightarrow> 'w \<Rightarrow> bool \<times> 'w"
  get_microseconds :: "'w \<Rightarrow> uint64"

text \<open>
  The world an endpoint acts on: the transport, and (ghost) the packets it took, in order.
\<close>

record 'w world =
  transport :: 'w
  outbox :: "(PduResolvedKey \<times> pdu_data) list"

text \<open>\<open>endpoint_->send(key, bytes) == HAKO_PDU_ERR_OK\<close>.\<close>

definition endpoint_send :: "'w pdu_env \<Rightarrow> PduResolvedKey \<Rightarrow> pdu_data \<Rightarrow> 'w world \<Rightarrow> bool \<times> 'w world" where
  "endpoint_send E key bytes w =
     (case endpoint_transmit E key bytes (transport w) of
        (True, t) \<Rightarrow> (True, w\<lparr>transport := t, outbox := outbox w @ [(key, bytes)]\<rparr>)
      | (False, t) \<Rightarrow> (False, w\<lparr>transport := t\<rparr>))"

section \<open>Sizes\<close>

definition aligned_size :: "'w pdu_env \<Rightarrow> size_t \<Rightarrow> size_t" where
  "aligned_size E n =
     (n + HAKO_ALIGNMENT_SIZE E - 1) AND NOT (HAKO_ALIGNMENT_SIZE E - 1)"

definition supported_packet_capacity :: "'w pdu_env \<Rightarrow> uint32 \<Rightarrow> size_t \<Rightarrow> bool" where
  "supported_packet_capacity E base_size heap_capacity =
     (let maximum = (of_nat INT_MAX :: size_t);
          fixed_size = ucast (HAKO_PDU_META_DATA_SIZE E) + aligned_size E (ucast base_size)
      in if ucast base_size > maximum \<or> heap_capacity > maximum then False
         else fixed_size \<le> maximum \<and> aligned_size E heap_capacity \<le> maximum - fixed_size)"

section \<open>Metadata\<close>

text \<open>
  The comparisons mix \<open>std::uint32_t\<close> members with \<open>std::size_t\<close>, so they are made in 64
  bits, where sums of a 32-bit offset and a structure size do not wrap: they are
  comparisons of natural numbers here.
\<close>

definition has_valid_packet_prefix :: "'w pdu_env \<Rightarrow> pdu_data \<Rightarrow> nat \<Rightarrow> bool" where
  "has_valid_packet_prefix E packet required_base_size =
     (if length packet < sizeof_metadata E then False
      else let m = read_metadata E packet in
        \<not> metadata_is_invalid E packet
        \<and> md_base_off m = HAKO_PDU_META_DATA_SIZE E
        \<and> unat (md_base_off m) \<le> length packet
        \<and> required_base_size \<le> length packet - unat (md_base_off m)
        \<and> unat (md_heap_off m) \<ge> unat (md_base_off m) + required_base_size
        \<and> md_heap_off m \<le> md_total_size m
        \<and> unat (md_total_size m) \<le> length packet)"

text \<open>\<open>wire_size_out\<close> is the value under \<open>Some\<close>; a \<open>false\<close> return is \<open>None\<close>.\<close>

definition validate_packet_capacity ::
    "'w pdu_env \<Rightarrow> pdu_data \<Rightarrow> uint32 \<Rightarrow> size_t \<Rightarrow> bool \<Rightarrow> nat option" where
  "validate_packet_capacity E packet base_size heap_capacity require_exact_buffer_size =
     (if \<not> has_valid_packet_prefix E packet 0 then None
      else let m = read_metadata E packet in
        if \<not> supported_packet_capacity E base_size heap_capacity then None
        else let aligned_heap_capacity = aligned_size E heap_capacity in
          if unat (md_total_size m) > length packet
             \<or> (require_exact_buffer_size \<and> unat (md_total_size m) \<noteq> length packet)
          then None
          else let actual_heap_storage_size = (ucast (md_total_size m - md_heap_off m) :: size_t) in
            if actual_heap_storage_size > aligned_heap_capacity then None
            else Some (unat (md_total_size m)))"

text \<open>\<open>ActionClientEndpointImpl::validate_packet_capacity\<close>, which tests in another order.\<close>

definition client_validate_packet_capacity ::
    "'w pdu_env \<Rightarrow> pdu_data \<Rightarrow> uint32 \<Rightarrow> size_t \<Rightarrow> bool \<Rightarrow> nat option" where
  "client_validate_packet_capacity E packet base_size heap_capacity require_exact_buffer_size =
     (if \<not> has_valid_packet_prefix E packet 0
         \<or> \<not> supported_packet_capacity E base_size heap_capacity then None
      else let m = read_metadata E packet;
               aligned_heap_capacity = aligned_size E heap_capacity in
        if unat (md_total_size m) > length packet
           \<or> (require_exact_buffer_size \<and> unat (md_total_size m) \<noteq> length packet)
           \<or> (ucast (md_total_size m - md_heap_off m) :: size_t) > aligned_heap_capacity
        then None
        else Some (unat (md_total_size m)))"

definition create_packet_buffer :: "'w pdu_env \<Rightarrow> uint32 \<Rightarrow> size_t \<Rightarrow> 'w world \<Rightarrow> pdu_data option" where
  "create_packet_buffer E base_size heap_capacity w =
     (if base_size = 0 \<or> base_size > of_nat INT_MAX
         \<or> \<not> supported_packet_capacity E base_size heap_capacity
      then None
      else hako_create_empty_pdu E (unat base_size) (unat heap_capacity) (transport w))"

definition client_create_packet_buffer :: "'w pdu_env \<Rightarrow> uint32 \<Rightarrow> size_t \<Rightarrow> 'w world \<Rightarrow> pdu_data option" where
  "client_create_packet_buffer E base_size heap_capacity w =
     (if base_size = 0 \<or> \<not> supported_packet_capacity E base_size heap_capacity then None
      else hako_create_empty_pdu E (unat base_size) (unat heap_capacity) (transport w))"

section \<open>Slot routing\<close>

record SlotRouting =
  sr_slot_index :: nat
  sr_request :: PduResolvedKey
  sr_response :: PduResolvedKey
  sr_feedback :: PduResolvedKey
  sr_request_packet_type :: string
  sr_response_packet_type :: string
  sr_feedback_packet_type :: string
  sr_request_packet_base_size :: uint32
  sr_response_packet_base_size :: uint32
  sr_feedback_packet_base_size :: uint32
  sr_request_heap_capacity :: size_t
  sr_response_heap_capacity :: size_t
  sr_feedback_heap_capacity :: size_t

record PendingPacket =
  pp_slot_index :: nat
  pp_pdu :: pdu_data

section \<open>Facts on sizes\<close>

lemma and_not_mask_push_drop: "x AND NOT (mask k) = push_bit k (drop_bit k x)" for x :: "'a::len word"
  by (rule bit_word_eqI) (auto simp: bit_simps)

lemma unat_and_not_mask: "unat (x AND NOT (mask k)) = unat x div 2 ^ k * 2 ^ k" for x :: "'a::len word"
proof -
  have "unat x div 2 ^ k * 2 ^ k < 2 ^ LENGTH('a)"
    using div_times_less_eq_dividend [of "unat x" "2 ^ k"] unsigned_less [of x] by (rule le_less_trans)
  moreover have "unat (push_bit k (drop_bit k x)) =
      take_bit LENGTH('a) (push_bit k (drop_bit k (take_bit LENGTH('a) (unat x))))"
    by (simp only: unsigned_push_bit_eq unsigned_drop_bit_eq)
  ultimately show ?thesis
    by (simp add: and_not_mask_push_drop push_bit_eq_mult drop_bit_eq_div take_bit_nat_eq_self)
qed

lemma unat_uint32_less: "unat (x :: uint32) < 2 ^ 32"
proof -
  have "unat x < 2 ^ LENGTH(32)" by (rule unsigned_less)
  then show ?thesis by simp
qed

lemma unat_ucast_uint32 [simp]: "unat (ucast (x :: uint32) :: size_t) = unat x"
  using unat_uint32_less [of x] by (simp add: unsigned_ucast_eq take_bit_nat_eq_self)

text \<open>The least multiple of \<open>2 ^ k\<close> not below \<open>n\<close>.\<close>

definition round_up :: "nat \<Rightarrow> nat \<Rightarrow> nat" where
  "round_up k n = (n + 2 ^ k - 1) div 2 ^ k * 2 ^ k"

lemma round_up_ge: "n \<le> round_up k n"
  and round_up_less: "round_up k n < n + 2 ^ k"
proof -
  have pos: "0 < (2::nat) ^ k" by simp
  have "n + 2 ^ k - 1 - (n + 2 ^ k - 1) mod 2 ^ k = round_up k n"
    by (simp add: round_up_def minus_mod_eq_div_mult)
  moreover have "(n + 2 ^ k - 1) mod 2 ^ k \<le> 2 ^ k - 1"
    using mod_less_divisor [OF pos, of "n + 2 ^ k - 1"] by linarith
  ultimately show "n \<le> round_up k n" "round_up k n < n + 2 ^ k" using pos by linarith+
qed

lemma round_up_least: "n \<le> m * 2 ^ k \<Longrightarrow> round_up k n \<le> m * 2 ^ k"
proof -
  assume "n \<le> m * 2 ^ k"
  then have "(n + 2 ^ k - 1) div 2 ^ k \<le> ((2 ^ k - 1) + m * 2 ^ k) div 2 ^ k"
    by (intro div_le_mono) linarith
  also have "\<dots> = m" by (subst div_mult_self1) simp_all
  finally show ?thesis by (simp add: round_up_def)
qed

lemma unat_aligned_size:
  assumes "HAKO_ALIGNMENT_SIZE E = 2 ^ k" and "unat n + 2 ^ k < 2 ^ 64"
  shows "unat (aligned_size E n) = round_up k (unat n)"
proof -
  have k: "(2::nat) ^ k < 2 ^ 64" using assms(2) by linarith
  have "1 \<le> (2::nat) ^ k" by simp
  then have pos: "Suc 0 \<le> unat n + 2 ^ k" by linarith
  from k have "unat (2 ^ k :: size_t) = 2 ^ k"
    using unat_of_nat [of "2 ^ k", where 'a = 64] by simp
  with pos have "unat (n + 2 ^ k - 1) = unat n + 2 ^ k - 1"
    using assms(2) by (subst unat_sub) (auto simp: unat_word_ariths word_le_nat_alt)
  then show ?thesis using assms(1)
    by (simp add: aligned_size_def mask_eq_exp_minus_1 [symmetric] unat_and_not_mask round_up_def)
qed

text \<open>
  For a power-of-two alignment, the 64-bit computation of
  \<open>supported_packet_capacity\<close> never wraps in a way that matters: it accepts a base size and
  a heap capacity exactly when the metadata, the base section and the heap, the latter two
  rounded up to the alignment, fit together in a C \<open>int\<close>.
\<close>

theorem supported_packet_capacity_iff:
  assumes "HAKO_ALIGNMENT_SIZE E = 2 ^ k" and "k < 32"
  shows "supported_packet_capacity E base_size heap_capacity \<longleftrightarrow>
    unat (HAKO_PDU_META_DATA_SIZE E) + round_up k (unat base_size) + round_up k (unat heap_capacity)
      \<le> INT_MAX"
proof -
  let ?max = "of_nat INT_MAX :: size_t"
  have k: "(2::nat) ^ k < 2 ^ 32" using assms(2) by (rule power_strict_increasing) simp
  have max: "unat ?max = INT_MAX" "INT_MAX < 2 ^ 31" by (simp_all add: INT_MAX_def)
  note ub = unat_uint32_less [of base_size] and um = unat_uint32_less [of "HAKO_PDU_META_DATA_SIZE E"]
  have fixed: "unat (ucast (HAKO_PDU_META_DATA_SIZE E) + aligned_size E (ucast base_size)) =
      unat (HAKO_PDU_META_DATA_SIZE E) + round_up k (unat base_size)"
    using unat_aligned_size [OF assms(1), of "ucast base_size"] ub um k
      round_up_less [of k "unat base_size"] by (simp add: unat_word_ariths)
  show ?thesis
  proof (cases "unat base_size \<le> INT_MAX \<and> unat heap_capacity \<le> INT_MAX")
    case True
    then have "unat (aligned_size E heap_capacity) = round_up k (unat heap_capacity)"
      using unat_aligned_size [OF assms(1)] k max by simp
    with True fixed ub max show ?thesis
      by (auto simp: supported_packet_capacity_def Let_def word_le_nat_alt word_less_nat_alt unat_sub)
  next
    case False
    moreover have "\<not> supported_packet_capacity E base_size heap_capacity"
      using False max ub by (auto simp: supported_packet_capacity_def Let_def word_less_nat_alt)
    ultimately show ?thesis
      using round_up_ge [of "unat base_size" k] round_up_ge [of "unat heap_capacity" k] by linarith
  qed
qed

section \<open>What the endpoints rely on of the registry\<close>

text \<open>
  \<open>header_codec\<close>: a convertor pair writes a header into the base section of a well-formed
  packet and leaves its size and metadata alone; what it wrote is read back, also from the
  packet cut to its \<open>total_size\<close>. \<open>ok\<close> restricts the header values to the array
  lengths of the C++ types (a Goal ID has 16 bytes).
\<close>

definition header_codec ::
    "'w pdu_env \<Rightarrow> nat \<Rightarrow> ('h \<Rightarrow> bool) \<Rightarrow> ('h \<Rightarrow> pdu_data \<Rightarrow> pdu_data option)
     \<Rightarrow> (pdu_data \<Rightarrow> 'h option) \<Rightarrow> bool" where
  "header_codec E sz ok wr rd \<longleftrightarrow>
     (\<forall>h p. ok h \<and> has_valid_packet_prefix E p sz \<longrightarrow>
        (\<exists>q. wr h p = Some q \<and> length q = length p
           \<and> take (sizeof_metadata E) q = take (sizeof_metadata E) p
           \<and> rd (take (unat (md_total_size (read_metadata E p))) q) = Some h))"

definition registry_ok :: "'w pdu_env \<Rightarrow> bool" where
  "registry_ok E \<longleftrightarrow>
     sizeof_metadata E \<le> unat (HAKO_PDU_META_DATA_SIZE E)
     \<and> (\<forall>p q. take (sizeof_metadata E) p = take (sizeof_metadata E) q \<longrightarrow>
          read_metadata E p = read_metadata E q \<and> metadata_is_invalid E p = metadata_is_invalid E q)
     \<and> header_codec E (sizeof_ActionRequestHeader E) (\<lambda>h. length (rqh_goal_id h) = 16 \<and> length (rqh_reserved h) = 2)
         (cpp2pdu_ActionRequestHeader E) (pdu2cpp_ActionRequestHeader E)
     \<and> header_codec E (sizeof_ActionResponseHeader E) (\<lambda>h. length (rsh_goal_id h) = 16)
         (cpp2pdu_ActionResponseHeader E) (pdu2cpp_ActionResponseHeader E)
     \<and> header_codec E (sizeof_ActionFeedbackHeader E) (\<lambda>h. length (fbh_goal_id h) = 16 \<and> length (fbh_reserved h) = 3)
         (cpp2pdu_ActionFeedbackHeader E) (pdu2cpp_ActionFeedbackHeader E)"

lemma registry_size: "registry_ok E \<Longrightarrow> sizeof_metadata E \<le> unat (HAKO_PDU_META_DATA_SIZE E)"
  unfolding registry_ok_def by (elim conjE)

lemma registry_metadata:
  "registry_ok E \<Longrightarrow> take (sizeof_metadata E) p = take (sizeof_metadata E) q \<Longrightarrow>
   read_metadata E p = read_metadata E q \<and> metadata_is_invalid E p = metadata_is_invalid E q"
  unfolding registry_ok_def by (elim conjE) blast

lemma registry_codecs:
  assumes "registry_ok E"
  shows "header_codec E (sizeof_ActionRequestHeader E) (\<lambda>h. length (rqh_goal_id h) = 16 \<and> length (rqh_reserved h) = 2)
         (cpp2pdu_ActionRequestHeader E) (pdu2cpp_ActionRequestHeader E)"
    and "header_codec E (sizeof_ActionResponseHeader E) (\<lambda>h. length (rsh_goal_id h) = 16)
         (cpp2pdu_ActionResponseHeader E) (pdu2cpp_ActionResponseHeader E)"
    and "header_codec E (sizeof_ActionFeedbackHeader E) (\<lambda>h. length (fbh_goal_id h) = 16 \<and> length (fbh_reserved h) = 3)
         (cpp2pdu_ActionFeedbackHeader E) (pdu2cpp_ActionFeedbackHeader E)"
  using assms unfolding registry_ok_def by blast+

lemma validate_SomeD:
  assumes "validate_packet_capacity E p b h exact = Some n"
  shows "has_valid_packet_prefix E p 0" and "supported_packet_capacity E b h"
    and "n = unat (md_total_size (read_metadata E p))" and "n \<le> length p"
    and "exact \<Longrightarrow> n = length p"
    and "unat (md_total_size (read_metadata E p)) - unat (md_heap_off (read_metadata E p))
           \<le> unat (aligned_size E h)"
proof -
  show 1: "has_valid_packet_prefix E p 0" "supported_packet_capacity E b h"
    "n = unat (md_total_size (read_metadata E p))" "n \<le> length p" "exact \<Longrightarrow> n = length p"
    using assms by (auto simp: validate_packet_capacity_def Let_def split: if_splits)
  from 1(1) have "md_heap_off (read_metadata E p) \<le> md_total_size (read_metadata E p)"
    by (auto simp: has_valid_packet_prefix_def Let_def split: if_splits)
  then show "unat (md_total_size (read_metadata E p)) - unat (md_heap_off (read_metadata E p))
      \<le> unat (aligned_size E h)"
    using assms
    by (auto simp: validate_packet_capacity_def Let_def not_less word_le_nat_alt unat_sub split: if_splits)
qed

lemma client_validate_eq: "client_validate_packet_capacity = validate_packet_capacity"
  by (intro ext) (simp add: client_validate_packet_capacity_def validate_packet_capacity_def Let_def)

text \<open>Validity and capacity depend on a packet only through its metadata and its length.\<close>

lemma prefix_mono: "has_valid_packet_prefix E p n \<Longrightarrow> m \<le> n \<Longrightarrow> has_valid_packet_prefix E p m"
  by (auto simp: has_valid_packet_prefix_def Let_def split: if_splits)

lemma wire_prefix:
  assumes reg: "registry_ok E" and pre: "has_valid_packet_prefix E p sz"
    and len: "length q = length p" and tk: "take (sizeof_metadata E) q = take (sizeof_metadata E) p"
  defines "n \<equiv> unat (md_total_size (read_metadata E p))"
  shows "has_valid_packet_prefix E (take n q) sz" and "read_metadata E (take n q) = read_metadata E p"
    and "length (take n q) = n"
proof -
  let ?m = "read_metadata E p"
  from pre have p: "\<not> metadata_is_invalid E p" "md_base_off ?m = HAKO_PDU_META_DATA_SIZE E"
    "unat (md_base_off ?m) + sz \<le> unat (md_heap_off ?m)" "unat (md_heap_off ?m) \<le> n" "n \<le> length p"
    by (auto simp: has_valid_packet_prefix_def Let_def n_def word_le_nat_alt split: if_splits)
  from registry_size [OF reg] p have sz: "sizeof_metadata E \<le> n" by simp
  then have "take (sizeof_metadata E) (take n q) = take (sizeof_metadata E) p"
    using tk by (simp add: min_absorb1)
  from registry_metadata [OF reg this] have m: "read_metadata E (take n q) = ?m"
    "metadata_is_invalid E (take n q) = metadata_is_invalid E p"
    by simp_all
  show "length (take n q) = n" using len p by simp
  show "read_metadata E (take n q) = ?m" by (fact m)
  show "has_valid_packet_prefix E (take n q) sz"
    using p m sz len
    by (auto simp: has_valid_packet_prefix_def Let_def word_le_nat_alt n_def)
qed

text \<open>
  What one side puts on the wire, the other side takes in: shared by the three packet
  kinds through the parameters \<open>sz\<close>, \<open>ok\<close>, \<open>wr\<close>, \<open>rd\<close>.
\<close>

lemma wire_roundtrip:
  assumes reg: "registry_ok E" and codec: "header_codec E sz ok wr rd" and h: "ok h"
    and val: "validate_packet_capacity E p b c False = Some n"
    and wr: "has_valid_packet_prefix E p sz" "wr h p = Some q"
  shows "validate_packet_capacity E (take n q) b c True = Some n
    \<and> has_valid_packet_prefix E (take n q) sz \<and> rd (take n q) = Some h"
proof -
  from codec h wr have q: "length q = length p"
    "take (sizeof_metadata E) q = take (sizeof_metadata E) p"
    "rd (take (unat (md_total_size (read_metadata E p))) q) = Some h"
    unfolding header_codec_def by (metis option.inject)+
  have n: "n = unat (md_total_size (read_metadata E p))" by (fact validate_SomeD(3) [OF val])
  note w = wire_prefix [OF reg wr(1) q(1,2), folded n]
  from w(1) have "has_valid_packet_prefix E (take n q) 0" by (rule prefix_mono) simp
  then have "validate_packet_capacity E (take n q) b c True = Some n"
    using val w(2,3) n by (auto simp: validate_packet_capacity_def Let_def split: if_splits)
  with w q(3) n show ?thesis by simp
qed

text \<open>
  The two independent implementations of the packet checks, the server's
  and the client's, agree on every packet, and so do their allocations of an empty packet.
\<close>

theorem client_server_packet_checks_agree:
  "client_validate_packet_capacity E packet base_size heap exact =
     validate_packet_capacity E packet base_size heap exact
   \<and> client_create_packet_buffer E base_size heap w = create_packet_buffer E base_size heap w"
proof
  show "client_validate_packet_capacity E packet base_size heap exact =
     validate_packet_capacity E packet base_size heap exact" by (simp add: client_validate_eq)
  have "supported_packet_capacity E base_size heap \<Longrightarrow> \<not> base_size > of_nat INT_MAX"
    by (auto simp: supported_packet_capacity_def Let_def word_less_nat_alt INT_MAX_def split: if_splits)
  then show "client_create_packet_buffer E base_size heap w = create_packet_buffer E base_size heap w"
    by (auto simp: client_create_packet_buffer_def create_packet_buffer_def)
qed

end
