(* ===== verification/Action_Server_Endpoint.thy ===== *)
theory Action_Server_Endpoint
  imports Action_Packet
begin

text \<open>
  The packet endpoint of the Action server, \<open>src/action_server_endpoint_impl.cpp\<close>: it maps
  Goals to slots, decodes Request packets, and sends Response and Feedback packets. Each
  public operation is one definition; it takes the environment, the object's state and the
  world, and returns the result with the new state and world. Operations run under the
  object's mutex and are atomic; \<open>poll\<close>, which releases it between taking a packet and
  handling it, is the composition of its two critical sections.
\<close>

section \<open>Data\<close>

definition ACTION_PROTOCOL_VERSION :: byte where "ACTION_PROTOCOL_VERSION = 1"
definition REQUEST_KIND_GOAL :: byte where "REQUEST_KIND_GOAL = 1"
definition REQUEST_KIND_CANCEL :: byte where "REQUEST_KIND_CANCEL = 2"
definition RESPONSE_KIND_GOAL :: byte where "RESPONSE_KIND_GOAL = 1"
definition RESPONSE_KIND_CANCEL :: byte where "RESPONSE_KIND_CANCEL = 2"
definition RESPONSE_KIND_RESULT :: byte where "RESPONSE_KIND_RESULT = 3"

lemmas protocol_constants = ACTION_PROTOCOL_VERSION_def REQUEST_KIND_GOAL_def REQUEST_KIND_CANCEL_def
  RESPONSE_KIND_GOAL_def RESPONSE_KIND_CANCEL_def RESPONSE_KIND_RESULT_def

datatype PacketBindingState =
    AWAITING_GOAL_DECISION
  | GOAL_ACCEPTED
  | CANCEL_ACCEPTED
  | RESULT_COMMITTED

record ActionPacketBinding =
  ab_goal_id :: GoalId
  ab_slot_index :: nat
  ab_state :: PacketBindingState
  ab_next_feedback_sequence :: uint32
  ab_cancel_decision_pending :: bool

text \<open>
  The object. \<open>sv_has_endpoint\<close> and \<open>sv_has_time_source\<close> say whether the two shared
  pointers are set; \<open>sv_subscriptions\<close> are the receive callbacks registered with the PDU
  endpoint, each with the slot it captured.
\<close>

record ActionServerEndpointImpl =
  sv_action_name :: string
  sv_has_endpoint :: bool
  sv_has_time_source :: bool
  sv_pending_events :: "ServerEvent list"
  sv_pending_packets :: "PendingPacket list"
  sv_slot_routing :: "SlotRouting list"
  sv_slot_owners :: "GoalId option list"
  sv_packet_bindings :: "(GoalId, ActionPacketBinding) std_map"
  sv_action_definition :: "ActionDefinition option"
  sv_initialized :: bool
  sv_subscriptions :: "(PduResolvedKey \<times> nat) list"

definition new_ActionServerEndpointImpl :: "string \<Rightarrow> bool \<Rightarrow> bool \<Rightarrow> ActionServerEndpointImpl" where
  "new_ActionServerEndpointImpl action_name has_endpoint has_time_source =
     \<lparr>sv_action_name = action_name, sv_has_endpoint = has_endpoint,
      sv_has_time_source = has_time_source, sv_pending_events = [], sv_pending_packets = [],
      sv_slot_routing = [], sv_slot_owners = [], sv_packet_bindings = [],
      sv_action_definition = None, sv_initialized = False, sv_subscriptions = []\<rparr>"

section \<open>Headers and packets\<close>

definition decode_request_header :: "'w pdu_env \<Rightarrow> pdu_data \<Rightarrow> ActionRequestHeader option" where
  "decode_request_header E packet =
     (if \<not> has_valid_packet_prefix E packet (sizeof_ActionRequestHeader E) then None
      else pdu2cpp_ActionRequestHeader E packet)"

definition validate_request_header :: "ActionRequestHeader \<Rightarrow> bool" where
  "validate_request_header header =
     (if rqh_version header \<noteq> ACTION_PROTOCOL_VERSION then False
      else if rqh_request_kind header \<noteq> REQUEST_KIND_GOAL
              \<and> rqh_request_kind header \<noteq> REQUEST_KIND_CANCEL then False
      else list_ex (\<lambda>v. v \<noteq> 0) (rqh_goal_id header))"

definition write_response_header :: "'w pdu_env \<Rightarrow> pdu_data \<Rightarrow> ActionResponseHeader \<Rightarrow> pdu_data option" where
  "write_response_header E packet header =
     (if \<not> has_valid_packet_prefix E packet (sizeof_ActionResponseHeader E) then None
      else cpp2pdu_ActionResponseHeader E header packet)"

definition write_feedback_header :: "'w pdu_env \<Rightarrow> pdu_data \<Rightarrow> ActionFeedbackHeader \<Rightarrow> pdu_data option" where
  "write_feedback_header E packet header =
     (if \<not> has_valid_packet_prefix E packet (sizeof_ActionFeedbackHeader E) then None
      else cpp2pdu_ActionFeedbackHeader E header packet)"

definition create_control_response_packet ::
    "'w pdu_env \<Rightarrow> ActionServerEndpointImpl \<Rightarrow> 'w world \<Rightarrow> pdu_data option" where
  "create_control_response_packet E st w =
     (case sv_slot_routing st of
        [] \<Rightarrow> None
      | routing # _ \<Rightarrow> create_packet_buffer E (sr_response_packet_base_size routing) 0 w)"

definition response_header :: "GoalId \<Rightarrow> byte \<Rightarrow> byte \<Rightarrow> ActionResponseHeader" where
  "response_header goal_id kind status =
     \<lparr>rsh_version = ACTION_PROTOCOL_VERSION, rsh_response_kind = kind, rsh_status = status,
      rsh_reserved = 0, rsh_goal_id = goal_id\<rparr>"

definition send_response_packet ::
    "'w pdu_env \<Rightarrow> ActionServerEndpointImpl \<Rightarrow> ActionPacketBinding \<Rightarrow> byte \<Rightarrow> byte \<Rightarrow> pdu_data
     \<Rightarrow> 'w world \<Rightarrow> bool \<times> 'w world" where
  "send_response_packet E st binding response_kind status packet w =
     (if ab_slot_index binding \<ge> length (sv_slot_routing st) then (False, w)
      else let routing = sv_slot_routing st ! ab_slot_index binding in
        if packet = [] then (False, w)
        else case validate_packet_capacity E packet (sr_response_packet_base_size routing)
                    (sr_response_heap_capacity routing) False of
          None \<Rightarrow> (False, w)
        | Some wire_size \<Rightarrow>
            (case write_response_header E packet
                    (response_header (ab_goal_id binding) response_kind status) of
               None \<Rightarrow> (False, w)
             | Some packet' \<Rightarrow> endpoint_send E (sr_response routing) (take wire_size packet') w))"

text \<open>
  The block the four decision operations share: create an empty control packet, then send
  it; a failed creation sends nothing.
\<close>

definition send_control_response ::
    "'w pdu_env \<Rightarrow> ActionServerEndpointImpl \<Rightarrow> ActionPacketBinding \<Rightarrow> byte \<Rightarrow> Decision
     \<Rightarrow> 'w world \<Rightarrow> bool \<times> 'w world" where
  "send_control_response E st binding response_kind decision w =
     (case create_control_response_packet E st w of
        None \<Rightarrow> (False, w)
      | Some response \<Rightarrow>
          send_response_packet E st binding response_kind (decision_code decision) response w)"

definition new_binding :: "GoalId \<Rightarrow> nat \<Rightarrow> ActionPacketBinding" where
  "new_binding goal_id slot_index =
     \<lparr>ab_goal_id = goal_id, ab_slot_index = slot_index, ab_state = AWAITING_GOAL_DECISION,
      ab_next_feedback_sequence = 0, ab_cancel_decision_pending = False\<rparr>"

definition send_goal_error_reply ::
    "'w pdu_env \<Rightarrow> ActionServerEndpointImpl \<Rightarrow> GoalId \<Rightarrow> nat \<Rightarrow> 'w world \<Rightarrow> 'w world" where
  "send_goal_error_reply E st goal_id slot_index w =
     snd (send_control_response E st (new_binding goal_id slot_index) RESPONSE_KIND_GOAL REJECTED w)"

definition release_binding_locked :: "GoalId \<Rightarrow> ActionServerEndpointImpl \<Rightarrow> ActionServerEndpointImpl" where
  "release_binding_locked goal_id st =
     (case sm_find (sv_packet_bindings st) goal_id of
        None \<Rightarrow> st
      | Some binding \<Rightarrow>
          let slot_index = ab_slot_index binding;
              owners = (if slot_index < length (sv_slot_owners st)
                           \<and> sv_slot_owners st ! slot_index = Some goal_id
                        then (sv_slot_owners st)[slot_index := None] else sv_slot_owners st)
          in st\<lparr>sv_slot_owners := owners,
                sv_packet_bindings := sm_erase goal_id (sv_packet_bindings st)\<rparr>)"

section \<open>Initialisation\<close>

definition empty_key :: PduResolvedKey where
  "empty_key = \<lparr>key_robot = [], key_channel_id = 0\<rparr>"

definition initial_routing :: "ActionDefinition \<Rightarrow> nat \<Rightarrow> SlotRouting" where
  "initial_routing d slot =
     \<lparr>sr_slot_index = slot, sr_request = empty_key, sr_response = empty_key, sr_feedback = empty_key,
      sr_request_packet_type = [], sr_response_packet_type = [], sr_feedback_packet_type = [],
      sr_request_packet_base_size = 0, sr_response_packet_base_size = 0,
      sr_feedback_packet_base_size = 0,
      sr_request_heap_capacity = bh_request_size (ad_buffer_heap d),
      sr_response_heap_capacity = bh_response_size (ad_buffer_heap d),
      sr_feedback_heap_capacity = bh_feedback_size (ad_buffer_heap d)\<rparr>"

type_synonym routing_state = "SlotRouting list \<times> byte list \<times> uint32 set"

text \<open>The body of the loop over the channels; \<open>None\<close> is \<open>return false\<close>.\<close>

definition server_route_channel ::
    "'w pdu_env \<Rightarrow> string \<Rightarrow> ActionChannelDefinition \<Rightarrow> routing_state \<Rightarrow> routing_state option" where
  "server_route_channel E action_name ch rs =
     (case rs of (routings, masks, ids) \<Rightarrow>
        if ch_slot_index ch \<ge> length routings \<or> ch_channel_id ch \<in> ids then None
        else let slot = ch_slot_index ch; r = routings ! slot;
                 key = \<lparr>key_robot = action_name, key_channel_id = ch_channel_id ch\<rparr>;
                 ids' = insert (ch_channel_id ch) ids;
                 done = (\<lambda>r' mask. Some (routings[slot := r'], masks[slot := masks ! slot OR mask], ids'))
             in case hako_pdu_get_size E (ch_packet_type ch) of
                  None \<Rightarrow> None
                | Some base_size \<Rightarrow>
                  (case ch_kind ch of
                     REQUEST \<Rightarrow>
                       if unat base_size < sizeof_ActionRequestHeader E then None
                       else if \<not> supported_packet_capacity E base_size (sr_request_heap_capacity r) then None
                       else done (r\<lparr>sr_request := key, sr_request_packet_type := ch_packet_type ch,
                                    sr_request_packet_base_size := base_size\<rparr>) 1
                   | RESPONSE \<Rightarrow>
                       if unat base_size < sizeof_ActionResponseHeader E then None
                       else if \<not> supported_packet_capacity E base_size (sr_response_heap_capacity r) then None
                       else done (r\<lparr>sr_response := key, sr_response_packet_type := ch_packet_type ch,
                                    sr_response_packet_base_size := base_size\<rparr>) 2
                   | FEEDBACK \<Rightarrow>
                       if unat base_size < sizeof_ActionFeedbackHeader E then None
                       else if \<not> supported_packet_capacity E base_size (sr_feedback_heap_capacity r) then None
                       else done (r\<lparr>sr_feedback := key, sr_feedback_packet_type := ch_packet_type ch,
                                    sr_feedback_packet_base_size := base_size\<rparr>) 4))"

fun server_route_channels ::
    "'w pdu_env \<Rightarrow> string \<Rightarrow> ActionChannelDefinition list \<Rightarrow> routing_state \<Rightarrow> routing_state option" where
  "server_route_channels E name [] rs = Some rs"
| "server_route_channels E name (ch # chs) rs =
     (case server_route_channel E name ch rs of
        None \<Rightarrow> None
      | Some rs' \<Rightarrow> server_route_channels E name chs rs')"

definition ServerEndpoint_initialize ::
    "'w pdu_env \<Rightarrow> 'j json_ops \<Rightarrow> 'j \<Rightarrow> ActionServerEndpointImpl \<Rightarrow> bool \<times> ActionServerEndpointImpl" where
  "ServerEndpoint_initialize E J action_config st =
     (case parse_action J action_config of
        Inl _ \<Rightarrow> (False, st)
      | Inr d \<Rightarrow>
          if ad_name d \<noteq> sv_action_name st then (False, st)
          else if \<not> sv_has_endpoint st \<or> \<not> sv_has_time_source st then (False, st)
          else case server_route_channels E (sv_action_name st) (ad_channels d)
                      (map (initial_routing d) [0..<ad_slot_count d], replicate (ad_slot_count d) 0, {}) of
            None \<Rightarrow> (False, st)
          | Some (routings, masks, _) \<Rightarrow>
              if list_ex (\<lambda>mask. mask \<noteq> 7) masks then (False, st)
              else if sv_initialized st then (False, st)
              else (True, st\<lparr>sv_action_definition := Some d, sv_slot_routing := routings,
                     sv_slot_owners := resize (length routings) None (sv_slot_owners st), sv_initialized := True,
                     sv_subscriptions := map (\<lambda>r. (sr_request r, sr_slot_index r)) routings\<rparr>))"

text \<open>The receive callback registered for \<open>slot_index\<close>: copy the bytes, push the packet.\<close>

definition ServerEndpoint_on_recv :: "nat \<Rightarrow> pdu_data \<Rightarrow> ActionServerEndpointImpl \<Rightarrow> ActionServerEndpointImpl" where
  "ServerEndpoint_on_recv slot_index data st =
     st\<lparr>sv_pending_packets := sv_pending_packets st @ [\<lparr>pp_slot_index = slot_index, pp_pdu = data\<rparr>]\<rparr>"

section \<open>Polling\<close>

text \<open>The first part of \<open>poll\<close>: a queued event, else the front packet, else nothing.\<close>

datatype poll_front = Poll_Return ServerEvent | Poll_Packet PendingPacket

definition ServerEndpoint_take ::
    "ActionServerEndpointImpl \<Rightarrow> poll_front \<times> ActionServerEndpointImpl" where
  "ServerEndpoint_take st =
     (if \<not> sv_initialized st then (Poll_Return empty_ServerEvent, st)
      else case sv_pending_events st of
        e # es \<Rightarrow> (Poll_Return e, st\<lparr>sv_pending_events := es\<rparr>)
      | [] \<Rightarrow>
          (case sv_pending_packets st of
             [] \<Rightarrow> (Poll_Return empty_ServerEvent, st)
           | p # ps \<Rightarrow> (Poll_Packet p, st\<lparr>sv_pending_packets := ps\<rparr>)))"

text \<open>The second part: decode the packet and act on it.\<close>

definition goal_event :: "ActionServerEndpointImpl \<Rightarrow> ServerEventType \<Rightarrow> GoalId \<Rightarrow> pdu_data \<Rightarrow> ServerEvent" where
  "goal_event st type goal_id pdu =
     empty_ServerEvent\<lparr>se_type := type, se_goal := \<lparr>server_goal_id = goal_id\<rparr>,
       se_action_name := sv_action_name st, se_pdu := pdu\<rparr>"

definition handle_cancel_request ::
    "PendingPacket \<Rightarrow> GoalId \<Rightarrow> ActionServerEndpointImpl \<Rightarrow> ServerEvent \<times> ActionServerEndpointImpl" where
  "handle_cancel_request p goal_id st =
     (case sm_find (sv_packet_bindings st) goal_id of
        None \<Rightarrow> (empty_ServerEvent, st)
      | Some binding \<Rightarrow>
          if ab_slot_index binding \<noteq> pp_slot_index p then (empty_ServerEvent, st)
          else if ab_state binding = AWAITING_GOAL_DECISION then (empty_ServerEvent, st)
          else if ab_state binding = CANCEL_ACCEPTED then (empty_ServerEvent, st)
          else if ab_state binding = RESULT_COMMITTED then (empty_ServerEvent, st)
          else if ab_cancel_decision_pending binding then (empty_ServerEvent, st)
          else (goal_event st SE_CANCEL_REQUEST goal_id (pp_pdu p),
                st\<lparr>sv_packet_bindings := sm_update goal_id
                     (\<lambda>b. b\<lparr>ab_cancel_decision_pending := True\<rparr>) (sv_packet_bindings st)\<rparr>))"

definition handle_goal_request ::
    "'w pdu_env \<Rightarrow> PendingPacket \<Rightarrow> GoalId \<Rightarrow> ActionServerEndpointImpl \<Rightarrow> 'w world
     \<Rightarrow> ServerEvent \<times> ActionServerEndpointImpl \<times> 'w world" where
  "handle_goal_request E p goal_id st w =
     (let slot = pp_slot_index p in
      if sm_find (sv_packet_bindings st) goal_id \<noteq> None
      then (empty_ServerEvent, st, send_goal_error_reply E st goal_id slot w)
      else if sv_slot_owners st ! slot \<noteq> None
      then (empty_ServerEvent, st, send_goal_error_reply E st goal_id slot w)
      else (goal_event st SE_GOAL_REQUEST goal_id (pp_pdu p),
            st\<lparr>sv_slot_owners := (sv_slot_owners st)[slot := Some goal_id],
               sv_packet_bindings :=
                 sm_emplace goal_id (new_binding goal_id slot) (sv_packet_bindings st)\<rparr>, w))"

definition ServerEndpoint_handle ::
    "'w pdu_env \<Rightarrow> PendingPacket \<Rightarrow> ActionServerEndpointImpl \<Rightarrow> 'w world
     \<Rightarrow> ServerEvent \<times> ActionServerEndpointImpl \<times> 'w world" where
  "ServerEndpoint_handle E p st w =
     (if pp_slot_index p \<ge> length (sv_slot_routing st) then (empty_ServerEvent, st, w)
      else let routing = sv_slot_routing st ! pp_slot_index p in
        case validate_packet_capacity E (pp_pdu p) (sr_request_packet_base_size routing)
               (sr_request_heap_capacity routing) True of
          None \<Rightarrow> (empty_ServerEvent, st, w)
        | Some _ \<Rightarrow>
            (case decode_request_header E (pp_pdu p) of
               None \<Rightarrow> (empty_ServerEvent, st, w)
             | Some header \<Rightarrow>
                 if \<not> validate_request_header header then (empty_ServerEvent, st, w)
                 else if rqh_request_kind header = REQUEST_KIND_CANCEL
                 then (case handle_cancel_request p (rqh_goal_id header) st of (ev, st') \<Rightarrow> (ev, st', w))
                 else handle_goal_request E p (rqh_goal_id header) st w))"

definition ServerEndpoint_poll ::
    "'w pdu_env \<Rightarrow> ActionServerEndpointImpl \<Rightarrow> 'w world
     \<Rightarrow> ServerEvent \<times> ActionServerEndpointImpl \<times> 'w world" where
  "ServerEndpoint_poll E st w =
     (case ServerEndpoint_take st of
        (Poll_Return ev, st') \<Rightarrow> (ev, st', w)
      | (Poll_Packet p, st') \<Rightarrow> ServerEndpoint_handle E p st' w)"

section \<open>Decisions\<close>

definition ServerEndpoint_accept_goal ::
    "'w pdu_env \<Rightarrow> GoalId \<Rightarrow> ActionServerEndpointImpl \<Rightarrow> 'w world
     \<Rightarrow> bool \<times> ActionServerEndpointImpl \<times> 'w world" where
  "ServerEndpoint_accept_goal E g st w =
     (if \<not> is_valid_goal_id g then (False, st, w)
      else if \<not> sv_initialized st then (False, st, w)
      else case sm_find (sv_packet_bindings st) g of
        None \<Rightarrow> (False, st, w)
      | Some binding \<Rightarrow>
          if ab_state binding \<noteq> AWAITING_GOAL_DECISION then (False, st, w)
          else case send_control_response E st binding RESPONSE_KIND_GOAL ACCEPTED w of
            (True, w') \<Rightarrow>
              (True, st\<lparr>sv_packet_bindings := sm_update g (\<lambda>b. b\<lparr>ab_state := GOAL_ACCEPTED\<rparr>)
                         (sv_packet_bindings st)\<rparr>, w')
          | (False, w') \<Rightarrow> (False, st, w'))"

definition ServerEndpoint_reject_goal ::
    "'w pdu_env \<Rightarrow> GoalId \<Rightarrow> ActionServerEndpointImpl \<Rightarrow> 'w world
     \<Rightarrow> bool \<times> ActionServerEndpointImpl \<times> 'w world" where
  "ServerEndpoint_reject_goal E g st w =
     (if \<not> is_valid_goal_id g then (False, st, w)
      else if \<not> sv_initialized st then (False, st, w)
      else case sm_find (sv_packet_bindings st) g of
        None \<Rightarrow> (False, st, w)
      | Some binding \<Rightarrow>
          if ab_state binding \<noteq> AWAITING_GOAL_DECISION then (False, st, w)
          else case send_control_response E st binding RESPONSE_KIND_GOAL REJECTED w of
            (True, w') \<Rightarrow> (True, release_binding_locked g st, w')
          | (False, w') \<Rightarrow> (False, st, w'))"

definition ServerEndpoint_accept_cancel ::
    "'w pdu_env \<Rightarrow> GoalId \<Rightarrow> ActionServerEndpointImpl \<Rightarrow> 'w world
     \<Rightarrow> bool \<times> ActionServerEndpointImpl \<times> 'w world" where
  "ServerEndpoint_accept_cancel E g st w =
     (if \<not> is_valid_goal_id g then (False, st, w)
      else if \<not> sv_initialized st then (False, st, w)
      else case sm_find (sv_packet_bindings st) g of
        None \<Rightarrow> (False, st, w)
      | Some binding \<Rightarrow>
          if ab_state binding \<noteq> GOAL_ACCEPTED \<or> \<not> ab_cancel_decision_pending binding
          then (False, st, w)
          else case send_control_response E st binding RESPONSE_KIND_CANCEL ACCEPTED w of
            (True, w') \<Rightarrow>
              (True, st\<lparr>sv_packet_bindings := sm_update g
                         (\<lambda>b. b\<lparr>ab_state := CANCEL_ACCEPTED, ab_cancel_decision_pending := False\<rparr>)
                         (sv_packet_bindings st)\<rparr>, w')
          | (False, w') \<Rightarrow> (False, st, w'))"

definition ServerEndpoint_reject_cancel ::
    "'w pdu_env \<Rightarrow> GoalId \<Rightarrow> ActionServerEndpointImpl \<Rightarrow> 'w world
     \<Rightarrow> bool \<times> ActionServerEndpointImpl \<times> 'w world" where
  "ServerEndpoint_reject_cancel E g st w =
     (if \<not> is_valid_goal_id g then (False, st, w)
      else if \<not> sv_initialized st then (False, st, w)
      else case sm_find (sv_packet_bindings st) g of
        None \<Rightarrow> (False, st, w)
      | Some binding \<Rightarrow>
          if ab_state binding \<noteq> GOAL_ACCEPTED \<or> \<not> ab_cancel_decision_pending binding
          then (False, st, w)
          else case send_control_response E st binding RESPONSE_KIND_CANCEL REJECTED w of
            (True, w') \<Rightarrow>
              (True, st\<lparr>sv_packet_bindings := sm_update g
                         (\<lambda>b. b\<lparr>ab_cancel_decision_pending := False\<rparr>) (sv_packet_bindings st)\<rparr>, w')
          | (False, w') \<Rightarrow> (False, st, w'))"

definition ServerEndpoint_accept_cancel_locally ::
    "GoalId \<Rightarrow> ActionServerEndpointImpl \<Rightarrow> bool \<times> ActionServerEndpointImpl" where
  "ServerEndpoint_accept_cancel_locally g st =
     (if \<not> is_valid_goal_id g then (False, st)
      else if \<not> sv_initialized st then (False, st)
      else case sm_find (sv_packet_bindings st) g of
        None \<Rightarrow> (False, st)
      | Some binding \<Rightarrow>
          if ab_state binding \<noteq> GOAL_ACCEPTED then (False, st)
          else (True, st\<lparr>sv_packet_bindings := sm_update g
                         (\<lambda>b. b\<lparr>ab_state := CANCEL_ACCEPTED, ab_cancel_decision_pending := False\<rparr>)
                         (sv_packet_bindings st)\<rparr>))"

section \<open>Buffers, Feedback and Result\<close>

definition ServerEndpoint_create_result_buffer ::
    "'w pdu_env \<Rightarrow> ActionServerEndpointImpl \<Rightarrow> 'w world \<Rightarrow> pdu_data option" where
  "ServerEndpoint_create_result_buffer E st w =
     (if \<not> sv_initialized st then None
      else case sv_slot_routing st of
        [] \<Rightarrow> None
      | routing # _ \<Rightarrow> create_packet_buffer E (sr_response_packet_base_size routing)
                          (sr_response_heap_capacity routing) w)"

definition ServerEndpoint_create_feedback_buffer ::
    "'w pdu_env \<Rightarrow> ActionServerEndpointImpl \<Rightarrow> 'w world \<Rightarrow> pdu_data option" where
  "ServerEndpoint_create_feedback_buffer E st w =
     (if \<not> sv_initialized st then None
      else case sv_slot_routing st of
        [] \<Rightarrow> None
      | routing # _ \<Rightarrow> create_packet_buffer E (sr_feedback_packet_base_size routing)
                          (sr_feedback_heap_capacity routing) w)"

definition feedback_header :: "GoalId \<Rightarrow> uint32 \<Rightarrow> ActionFeedbackHeader" where
  "feedback_header goal_id sequence_no =
     \<lparr>fbh_version = ACTION_PROTOCOL_VERSION, fbh_reserved = [0, 0, 0], fbh_goal_id = goal_id,
      fbh_sequence_no = sequence_no\<rparr>"

definition ServerEndpoint_send_feedback ::
    "'w pdu_env \<Rightarrow> GoalId \<Rightarrow> pdu_data \<Rightarrow> ActionServerEndpointImpl \<Rightarrow> 'w world
     \<Rightarrow> bool \<times> ActionServerEndpointImpl \<times> 'w world" where
  "ServerEndpoint_send_feedback E g feedback_pdu st w =
     (if \<not> is_valid_goal_id g then (False, st, w)
      else if \<not> sv_initialized st then (False, st, w)
      else case sm_find (sv_packet_bindings st) g of
        None \<Rightarrow> (False, st, w)
      | Some binding \<Rightarrow>
          if (ab_state binding \<noteq> GOAL_ACCEPTED \<and> ab_state binding \<noteq> CANCEL_ACCEPTED)
             \<or> ab_slot_index binding \<ge> length (sv_slot_routing st)
          then (False, st, w)
          else let routing = sv_slot_routing st ! ab_slot_index binding in
            case validate_packet_capacity E feedback_pdu (sr_feedback_packet_base_size routing)
                   (sr_feedback_heap_capacity routing) False of
              None \<Rightarrow> (False, st, w)
            | Some wire_size \<Rightarrow>
                (case write_feedback_header E feedback_pdu
                        (feedback_header g (ab_next_feedback_sequence binding)) of
                   None \<Rightarrow> (False, st, w)
                 | Some packet \<Rightarrow>
                     (case endpoint_send E (sr_feedback routing) (take wire_size packet) w of
                        (False, w') \<Rightarrow> (False, st, w')
                      | (True, w') \<Rightarrow>
                          (True, st\<lparr>sv_packet_bindings := sm_update g
                             (\<lambda>b. b\<lparr>ab_next_feedback_sequence := ab_next_feedback_sequence b + 1\<rparr>)
                             (sv_packet_bindings st)\<rparr>, w'))))"

definition validate_terminal_packet_locked ::
    "'w pdu_env \<Rightarrow> ActionServerEndpointImpl \<Rightarrow> ActionPacketBinding \<Rightarrow> TerminalStatus \<Rightarrow> pdu_data
     \<Rightarrow> nat option" where
  "validate_terminal_packet_locked E st binding status result_pdu =
     (let executing_completion = ab_state binding = GOAL_ACCEPTED
            \<and> (status = SUCCEEDED \<or> status = ABORTED);
          canceling_completion = ab_state binding = CANCEL_ACCEPTED
            \<and> (status = CANCELED \<or> status = ABORTED)
      in if (\<not> executing_completion \<and> \<not> canceling_completion)
            \<or> ab_slot_index binding \<ge> length (sv_slot_routing st)
         then None
         else let routing = sv_slot_routing st ! ab_slot_index binding in
           validate_packet_capacity E result_pdu (sr_response_packet_base_size routing)
             (sr_response_heap_capacity routing) False)"

definition commit_result :: "GoalId \<Rightarrow> ActionServerEndpointImpl \<Rightarrow> ActionServerEndpointImpl" where
  "commit_result g st = st\<lparr>sv_packet_bindings := sm_update g
     (\<lambda>b. b\<lparr>ab_state := RESULT_COMMITTED, ab_cancel_decision_pending := False\<rparr>)
     (sv_packet_bindings st)\<rparr>"

definition ServerEndpoint_complete ::
    "'w pdu_env \<Rightarrow> GoalId \<Rightarrow> TerminalStatus \<Rightarrow> pdu_data \<Rightarrow> ActionServerEndpointImpl \<Rightarrow> 'w world
     \<Rightarrow> CompleteResult \<times> ActionServerEndpointImpl \<times> 'w world" where
  "ServerEndpoint_complete E g status result_pdu st w =
     (if \<not> is_valid_goal_id g then (NOT_COMMITTED, st, w)
      else if \<not> sv_initialized st then (NOT_COMMITTED, st, w)
      else case sm_find (sv_packet_bindings st) g of
        None \<Rightarrow> (NOT_COMMITTED, st, w)
      | Some binding \<Rightarrow>
          (case validate_terminal_packet_locked E st binding status result_pdu of
             None \<Rightarrow> (NOT_COMMITTED, st, w)
           | Some _ \<Rightarrow>
               let st' = commit_result g st;
                   binding' = binding\<lparr>ab_state := RESULT_COMMITTED, ab_cancel_decision_pending := False\<rparr>
               in case send_response_packet E st' binding' RESPONSE_KIND_RESULT (terminal_code status)
                         result_pdu w of
                    (True, w') \<Rightarrow> (SENT, release_binding_locked g st', w')
                  | (False, w') \<Rightarrow> (SEND_FAILED_AFTER_COMMIT, st', w')))"

definition ServerEndpoint_complete_locally ::
    "'w pdu_env \<Rightarrow> GoalId \<Rightarrow> TerminalStatus \<Rightarrow> pdu_data \<Rightarrow> ActionServerEndpointImpl
     \<Rightarrow> bool \<times> ActionServerEndpointImpl" where
  "ServerEndpoint_complete_locally E g status result_pdu st =
     (if \<not> is_valid_goal_id g then (False, st)
      else if \<not> sv_initialized st then (False, st)
      else case sm_find (sv_packet_bindings st) g of
        None \<Rightarrow> (False, st)
      | Some binding \<Rightarrow>
          (case validate_terminal_packet_locked E st binding status result_pdu of
             None \<Rightarrow> (False, st)
           | Some _ \<Rightarrow> (True, release_binding_locked g (commit_result g st))))"

definition ServerEndpoint_discard_pending_goal ::
    "GoalId \<Rightarrow> ActionServerEndpointImpl \<Rightarrow> bool \<times> ActionServerEndpointImpl" where
  "ServerEndpoint_discard_pending_goal g st =
     (if \<not> is_valid_goal_id g then (False, st)
      else case sm_find (sv_packet_bindings st) g of
        None \<Rightarrow> (False, st)
      | Some binding \<Rightarrow>
          if ab_state binding \<noteq> AWAITING_GOAL_DECISION then (False, st)
          else (True, release_binding_locked g st))"

definition ServerEndpoint_clear_pending_events :: "ActionServerEndpointImpl \<Rightarrow> ActionServerEndpointImpl" where
  "ServerEndpoint_clear_pending_events st = st\<lparr>sv_pending_events := [], sv_pending_packets := []\<rparr>"

definition ServerEndpoint_reset_contexts :: "ActionServerEndpointImpl \<Rightarrow> ActionServerEndpointImpl" where
  "ServerEndpoint_reset_contexts st =
     st\<lparr>sv_pending_events := [], sv_packet_bindings := [],
        sv_slot_owners := map (\<lambda>_. None) (sv_slot_owners st), sv_pending_packets := []\<rparr>"

end
