(* ===== verification/Slot_Table.thy ===== *)
theory Slot_Table
  imports Prelude
begin

text \<open>
  Both Action endpoints keep two tables: a vector with the owner of each slot and a map from
  Goal IDs to bindings that name their slot. \<open>slot_table slot P\<close> says that the two describe
  one assignment, with \<open>P\<close> what the endpoint demands of a single binding. The endpoints
  change the tables in three ways only: they update a binding in place, they bind a free
  slot, and they release a binding.
\<close>

definition slot_table ::
    "('b \<Rightarrow> nat) \<Rightarrow> ('g \<Rightarrow> 'b \<Rightarrow> bool) \<Rightarrow> 'g option list \<Rightarrow> ('g::linorder, 'b) std_map \<Rightarrow> bool" where
  "slot_table slot P owners bs \<longleftrightarrow>
     sm_ok bs
     \<and> (\<forall>g b. sm_find bs g = Some b \<longrightarrow> P g b \<and> at owners (slot b) = Some (Some g))
     \<and> (\<forall>i g. at owners i = Some (Some g) \<longrightarrow> (\<exists>b. sm_find bs g = Some b \<and> slot b = i))"

lemma slot_tableI [intro?]:
  assumes "sm_ok bs"
    and "\<And>g b. sm_find bs g = Some b \<Longrightarrow> P g b \<and> at owners (slot b) = Some (Some g)"
    and "\<And>i g. at owners i = Some (Some g) \<Longrightarrow> \<exists>b. sm_find bs g = Some b \<and> slot b = i"
  shows "slot_table slot P owners bs"
  using assms by (simp add: slot_table_def)

lemma slot_table_sm: "slot_table slot P owners bs \<Longrightarrow> sm_ok bs"
  by (simp add: slot_table_def)

lemma slot_table_binding:
  "slot_table slot P owners bs \<Longrightarrow> sm_find bs g = Some b \<Longrightarrow> P g b \<and> at owners (slot b) = Some (Some g)"
  by (simp add: slot_table_def)

lemma slot_table_owner:
  "slot_table slot P owners bs \<Longrightarrow> at owners i = Some (Some g) \<Longrightarrow> \<exists>b. sm_find bs g = Some b \<and> slot b = i"
  by (simp add: slot_table_def)

lemma slot_table_empty: "slot_table slot P (replicate n None) []"
  by (simp add: slot_table_def)

lemma slot_table_reset: "slot_table slot P (map (\<lambda>_. None) owners) []"
  by (simp add: slot_table_def at_def)

lemma slot_table_update:
  assumes ok: "slot_table slot P owners bs"
    and f: "\<And>b. sm_find bs g = Some b \<Longrightarrow> P g (f b) \<and> slot (f b) = slot b"
  shows "slot_table slot P owners (sm_update g f bs)"
proof
  show "sm_ok (sm_update g f bs)" using slot_table_sm [OF ok] by simp
next
  fix g' b'
  assume "sm_find (sm_update g f bs) g' = Some b'"
  then show "P g' b' \<and> at owners (slot b') = Some (Some g')"
    using slot_table_binding [OF ok] f by (auto split: if_splits)
next
  fix i g'
  assume "at owners i = Some (Some g')"
  then obtain b where "sm_find bs g' = Some b" "slot b = i" using slot_table_owner [OF ok] by blast
  then show "\<exists>b. sm_find (sm_update g f bs) g' = Some b \<and> slot b = i" using f by auto
qed

lemma slot_table_emplace:
  assumes ok: "slot_table slot P owners bs" and g: "sm_find bs g = None"
    and b: "P g b" "at owners (slot b) = Some None"
  shows "slot_table slot P (owners[slot b := Some g]) (sm_emplace g b bs)"
proof
  show "sm_ok (sm_emplace g b bs)" using slot_table_sm [OF ok] by simp
next
  fix g' b'
  assume "sm_find (sm_emplace g b bs) g' = Some b'"
  then show "P g' b' \<and> at (owners[slot b := Some g]) (slot b') = Some (Some g')"
    using slot_table_binding [OF ok, of g' b'] g b by (auto dest: at_SomeD split: if_splits)
next
  fix j g'
  assume "at (owners[slot b := Some g]) j = Some (Some g')"
  then show "\<exists>b'. sm_find (sm_emplace g b bs) g' = Some b' \<and> slot b' = j"
    using slot_table_owner [OF ok, of j g'] g b by (auto dest: at_SomeD split: if_splits)
qed

lemma slot_table_release:
  assumes ok: "slot_table slot P owners bs" and b: "sm_find bs g = Some b"
  shows "slot_table slot P (owners[slot b := None]) (sm_erase g bs)"
proof
  show "sm_ok (sm_erase g bs)" using slot_table_sm [OF ok] by simp
next
  fix g' b'
  assume "sm_find (sm_erase g bs) g' = Some b'"
  then show "P g' b' \<and> at (owners[slot b := None]) (slot b') = Some (Some g')"
    using slot_table_binding [OF ok, of g' b'] slot_table_binding [OF ok b] by (auto split: if_splits)
next
  fix j g'
  assume "at (owners[slot b := None]) j = Some (Some g')"
  then show "\<exists>b. sm_find (sm_erase g bs) g' = Some b \<and> slot b = j"
    using slot_table_owner [OF ok, of j g'] slot_table_binding [OF ok b] b
    by (auto dest: at_SomeD split: if_splits)
qed

text \<open>No two Goals share a slot.\<close>

lemma slot_table_inj:
  "slot_table slot P owners bs \<Longrightarrow> sm_find bs g = Some b \<Longrightarrow> sm_find bs g' = Some b' \<Longrightarrow> slot b = slot b' \<Longrightarrow> g = g'"
  using slot_table_binding [of slot P owners bs g b] slot_table_binding [of slot P owners bs g' b'] by simp

end
