(* ===== verification/Server_Endpoint_Invariant.thy ===== *)
theory Server_Endpoint_Invariant
  imports Action_Server_Endpoint Slot_Table
begin

text \<open>
  The invariant of the server endpoint: slot owners and packet bindings describe the same
  one-to-one assignment of Goals to slots, and a Cancel decision is pending only for an
  accepted Goal. Every operation keeps it, in every order, also when \<open>poll\<close> is
  interrupted between its two critical sections.
\<close>

definition binding_ok :: "GoalId option list \<Rightarrow> GoalId \<Rightarrow> ActionPacketBinding \<Rightarrow> bool" where
  "binding_ok owners g b \<longleftrightarrow>
     ab_goal_id b = g \<and> is_valid_goal_id g \<and> at owners (ab_slot_index b) = Some (Some g)
     \<and> (ab_cancel_decision_pending b \<longrightarrow> ab_state b = GOAL_ACCEPTED)
     \<and> (ab_state b = AWAITING_GOAL_DECISION \<longrightarrow> ab_next_feedback_sequence b = 0)"

definition server_binding_ok :: "GoalId \<Rightarrow> ActionPacketBinding \<Rightarrow> bool" where
  "server_binding_ok g b \<longleftrightarrow>
     ab_goal_id b = g \<and> is_valid_goal_id g
     \<and> (ab_cancel_decision_pending b \<longrightarrow> ab_state b = GOAL_ACCEPTED)
     \<and> (ab_state b = AWAITING_GOAL_DECISION \<longrightarrow> ab_next_feedback_sequence b = 0)"

definition slots_ok :: "GoalId option list \<Rightarrow> (GoalId, ActionPacketBinding) std_map \<Rightarrow> bool" where
  "slots_ok = slot_table ab_slot_index server_binding_ok"

definition server_endpoint_inv :: "ActionServerEndpointImpl \<Rightarrow> bool" where
  "server_endpoint_inv st \<longleftrightarrow>
     slots_ok (sv_slot_owners st) (sv_packet_bindings st)
     \<and> length (sv_slot_owners st) = length (sv_slot_routing st)
     \<and> (\<not> sv_initialized st \<longrightarrow> sv_slot_routing st = [])
     \<and> sv_pending_events st = []"

lemma slots_ok_binding: "slots_ok owners bs \<Longrightarrow> sm_find bs g = Some b \<Longrightarrow> binding_ok owners g b"
  using slot_table_binding by (fastforce simp: slots_ok_def binding_ok_def server_binding_ok_def)

lemma slots_ok_owner:
  "slots_ok owners bs \<Longrightarrow> at owners i = Some (Some g) \<Longrightarrow> \<exists>b. sm_find bs g = Some b \<and> ab_slot_index b = i"
  unfolding slots_ok_def by (rule slot_table_owner)

lemma slots_ok_update:
  assumes "slots_ok owners bs"
    and "\<And>b. sm_find bs g = Some b \<Longrightarrow> ab_goal_id (f b) = ab_goal_id b \<and> ab_slot_index (f b) = ab_slot_index b
           \<and> (ab_cancel_decision_pending (f b) \<longrightarrow> ab_state (f b) = GOAL_ACCEPTED)
           \<and> (ab_state (f b) = AWAITING_GOAL_DECISION \<longrightarrow> ab_next_feedback_sequence (f b) = 0)"
  shows "slots_ok owners (sm_update g f bs)"
  unfolding slots_ok_def
  by (rule slot_table_update)
    (use assms slots_ok_binding [OF assms(1)] in \<open>auto simp: slots_ok_def binding_ok_def server_binding_ok_def\<close>)

lemma slots_ok_emplace:
  assumes "slots_ok owners bs" and "sm_find bs g = None" "is_valid_goal_id g" and "at owners i = Some None"
  shows "slots_ok (owners[i := Some g]) (sm_emplace g (new_binding g i) bs)"
  using slot_table_emplace [of ab_slot_index server_binding_ok owners bs g "new_binding g i"] assms
  by (simp add: slots_ok_def server_binding_ok_def new_binding_def)

lemma slots_ok_release:
  assumes "slots_ok owners bs" and "sm_find bs g = Some b"
  shows "slots_ok (owners[ab_slot_index b := None]) (sm_erase g bs)"
  using assms unfolding slots_ok_def by (rule slot_table_release)

lemma release_owner:
  assumes "slots_ok (sv_slot_owners st) (sv_packet_bindings st)"
    and "sm_find (sv_packet_bindings st) g = Some b"
  shows "release_binding_locked g st = st\<lparr>sv_slot_owners := (sv_slot_owners st)[ab_slot_index b := None],
     sv_packet_bindings := sm_erase g (sv_packet_bindings st)\<rparr>"
  using assms(2) slots_ok_binding [OF assms]
  by (simp add: release_binding_locked_def binding_ok_def at_def Let_def split: if_splits)

lemma release_binding_inv:
  assumes "server_endpoint_inv st"
  shows "server_endpoint_inv (release_binding_locked g st)"
proof (cases "sm_find (sv_packet_bindings st) g")
  case None
  then show ?thesis using assms by (simp add: release_binding_locked_def)
next
  case (Some b)
  then show ?thesis
    using assms release_owner [of st g b] slots_ok_release [of _ _ g b]
    by (simp add: server_endpoint_inv_def)
qed

lemma update_binding_inv:
  assumes "server_endpoint_inv st"
    and "\<And>b. sm_find (sv_packet_bindings st) g = Some b \<Longrightarrow>
           ab_goal_id (f b) = ab_goal_id b \<and> ab_slot_index (f b) = ab_slot_index b
           \<and> (ab_cancel_decision_pending (f b) \<longrightarrow> ab_state (f b) = GOAL_ACCEPTED)
           \<and> (ab_state (f b) = AWAITING_GOAL_DECISION \<longrightarrow> ab_next_feedback_sequence (f b) = 0)"
  shows "server_endpoint_inv (st\<lparr>sv_packet_bindings := sm_update g f (sv_packet_bindings st)\<rparr>)"
  using assms slots_ok_update [of "sv_slot_owners st" "sv_packet_bindings st" g f]
  by (simp add: server_endpoint_inv_def)

lemma commit_result_inv: "server_endpoint_inv st \<Longrightarrow> server_endpoint_inv (commit_result g st)"
  unfolding commit_result_def by (rule update_binding_inv) auto

lemma inv_binding:
  "server_endpoint_inv st \<Longrightarrow> sm_find (sv_packet_bindings st) g = Some b \<Longrightarrow> binding_ok (sv_slot_owners st) g b"
  using slots_ok_binding by (auto simp: server_endpoint_inv_def)

section \<open>Operations keep the invariant\<close>

lemma new_server_endpoint_inv: "server_endpoint_inv (new_ActionServerEndpointImpl n e t)"
  by (simp add: server_endpoint_inv_def slots_ok_def new_ActionServerEndpointImpl_def slot_table_def)

lemma on_recv_inv: "server_endpoint_inv st \<Longrightarrow> server_endpoint_inv (ServerEndpoint_on_recv i d st)"
  by (simp add: server_endpoint_inv_def ServerEndpoint_on_recv_def)

lemma take_inv: "server_endpoint_inv st \<Longrightarrow> server_endpoint_inv (snd (ServerEndpoint_take st))"
  by (auto simp: server_endpoint_inv_def ServerEndpoint_take_def split: list.splits)

lemma handle_cancel_inv:
  assumes "server_endpoint_inv st"
  shows "server_endpoint_inv (snd (handle_cancel_request p g st))"
proof (cases "\<exists>b. sm_find (sv_packet_bindings st) g = Some b \<and> ab_state b = GOAL_ACCEPTED")
  case True
  then show ?thesis
    using assms update_binding_inv [OF assms, of g "\<lambda>b. b\<lparr>ab_cancel_decision_pending := True\<rparr>"]
    by (auto simp: handle_cancel_request_def)
next
  case False
  then have "handle_cancel_request p g st = (empty_ServerEvent, st)"
    using PacketBindingState.exhaust by (auto simp: handle_cancel_request_def split: option.splits)
  then show ?thesis using assms by simp
qed

lemma handle_goal_inv:
  assumes "server_endpoint_inv st" and "pp_slot_index p < length (sv_slot_routing st)"
    and "is_valid_goal_id g"
  shows "server_endpoint_inv (fst (snd (handle_goal_request E p g st w)))"
  using assms slots_ok_emplace [of "sv_slot_owners st" "sv_packet_bindings st" g "pp_slot_index p"]
  by (auto simp: handle_goal_request_def server_endpoint_inv_def Let_def at_def)

lemma validate_request_valid: "validate_request_header h \<Longrightarrow> is_valid_goal_id (rqh_goal_id h)"
  by (auto simp: validate_request_header_def is_valid_goal_id_iff list_ex_iff split: if_splits)

lemma handle_inv:
  assumes "server_endpoint_inv st"
  shows "server_endpoint_inv (fst (snd (ServerEndpoint_handle E p st w)))"
proof -
  have "server_endpoint_inv (fst (snd (case handle_cancel_request p g st of (ev, st') \<Rightarrow> (ev, st', w))))" for g
    using handle_cancel_inv [OF assms, of p g] by (cases "handle_cancel_request p g st") simp
  then show ?thesis
    using assms handle_goal_inv [OF assms, where E = E and w = w] validate_request_valid
    by (auto simp: ServerEndpoint_handle_def Let_def not_le split: option.splits)
qed

lemma poll_inv:
  "server_endpoint_inv st \<Longrightarrow> server_endpoint_inv (fst (snd (ServerEndpoint_poll E st w)))"
  using take_inv [of st] handle_inv
  by (auto simp: ServerEndpoint_poll_def split: prod.splits poll_front.splits)

lemma accept_goal_inv:
  assumes "server_endpoint_inv st"
  shows "server_endpoint_inv (fst (snd (ServerEndpoint_accept_goal E g st w)))"
proof (cases "\<exists>b. sm_find (sv_packet_bindings st) g = Some b \<and> ab_state b = AWAITING_GOAL_DECISION")
  case True
  then show ?thesis
    using assms inv_binding [OF assms] update_binding_inv [of st g "\<lambda>b. b\<lparr>ab_state := GOAL_ACCEPTED\<rparr>"]
    by (auto simp: ServerEndpoint_accept_goal_def split: prod.splits bool.splits)
qed (use assms in \<open>auto simp: ServerEndpoint_accept_goal_def split: option.splits\<close>)

lemma reject_goal_inv:
  "server_endpoint_inv st \<Longrightarrow> server_endpoint_inv (fst (snd (ServerEndpoint_reject_goal E g st w)))"
  using release_binding_inv
  by (auto simp: ServerEndpoint_reject_goal_def split: option.splits prod.splits bool.splits)

lemma accept_cancel_inv:
  "server_endpoint_inv st \<Longrightarrow> server_endpoint_inv (fst (snd (ServerEndpoint_accept_cancel E g st w)))"
  using update_binding_inv [of st g "\<lambda>b. b\<lparr>ab_state := CANCEL_ACCEPTED, ab_cancel_decision_pending := False\<rparr>"]
  by (auto simp: ServerEndpoint_accept_cancel_def split: option.splits prod.splits bool.splits)

lemma reject_cancel_inv:
  assumes "server_endpoint_inv st"
  shows "server_endpoint_inv (fst (snd (ServerEndpoint_reject_cancel E g st w)))"
proof -
  have "server_endpoint_inv (st\<lparr>sv_packet_bindings := sm_update g
      (\<lambda>b. b\<lparr>ab_cancel_decision_pending := False\<rparr>) (sv_packet_bindings st)\<rparr>)"
    by (rule update_binding_inv [OF assms]) (use inv_binding [OF assms] in \<open>auto simp: binding_ok_def\<close>)
  then show ?thesis using assms
    by (auto simp: ServerEndpoint_reject_cancel_def split: option.splits prod.splits bool.splits)
qed

lemma accept_cancel_locally_inv:
  "server_endpoint_inv st \<Longrightarrow> server_endpoint_inv (snd (ServerEndpoint_accept_cancel_locally g st))"
  using update_binding_inv [of st g "\<lambda>b. b\<lparr>ab_state := CANCEL_ACCEPTED, ab_cancel_decision_pending := False\<rparr>"]
  by (auto simp: ServerEndpoint_accept_cancel_locally_def split: option.splits)

lemma send_feedback_inv:
  assumes "server_endpoint_inv st"
  shows "server_endpoint_inv (fst (snd (ServerEndpoint_send_feedback E g f st w)))"
proof (cases "\<exists>b. sm_find (sv_packet_bindings st) g = Some b
    \<and> (ab_state b = GOAL_ACCEPTED \<or> ab_state b = CANCEL_ACCEPTED)")
  case True
  let ?f = "\<lambda>b. b\<lparr>ab_next_feedback_sequence := ab_next_feedback_sequence b + 1\<rparr>"
  have "server_endpoint_inv (st\<lparr>sv_packet_bindings := sm_update g ?f (sv_packet_bindings st)\<rparr>)"
    by (rule update_binding_inv [OF assms]) (use inv_binding [OF assms] True in \<open>auto simp: binding_ok_def\<close>)
  then show ?thesis
    using assms
    by (auto simp: ServerEndpoint_send_feedback_def Let_def split: option.splits prod.splits bool.splits)
qed (use assms in \<open>auto simp: ServerEndpoint_send_feedback_def split: option.splits\<close>)

lemma complete_inv:
  "server_endpoint_inv st \<Longrightarrow> server_endpoint_inv (fst (snd (ServerEndpoint_complete E g s r st w)))"
  using commit_result_inv [of st g] release_binding_inv
  by (auto simp: ServerEndpoint_complete_def Let_def split: option.splits prod.splits bool.splits)

lemma complete_locally_inv:
  "server_endpoint_inv st \<Longrightarrow> server_endpoint_inv (snd (ServerEndpoint_complete_locally E g s r st))"
  using commit_result_inv [of st g] release_binding_inv
  by (auto simp: ServerEndpoint_complete_locally_def split: option.splits)

lemma discard_inv:
  "server_endpoint_inv st \<Longrightarrow> server_endpoint_inv (snd (ServerEndpoint_discard_pending_goal g st))"
  using release_binding_inv
  by (auto simp: ServerEndpoint_discard_pending_goal_def split: option.splits)

lemma clear_inv: "server_endpoint_inv st \<Longrightarrow> server_endpoint_inv (ServerEndpoint_clear_pending_events st)"
  by (simp add: server_endpoint_inv_def ServerEndpoint_clear_pending_events_def)

lemma reset_inv: "server_endpoint_inv st \<Longrightarrow> server_endpoint_inv (ServerEndpoint_reset_contexts st)"
  by (simp add: server_endpoint_inv_def ServerEndpoint_reset_contexts_def slots_ok_def slot_table_reset)

lemma initialize_inv:
  "server_endpoint_inv st \<Longrightarrow> server_endpoint_inv (snd (ServerEndpoint_initialize E J j st))"
  by (auto simp: ServerEndpoint_initialize_def server_endpoint_inv_def slots_ok_def slot_table_def
      split: sum.splits option.splits if_splits)

section \<open>Runs\<close>

text \<open>
  The atomic steps of an initialised endpoint, in any order. \<open>Handle\<close> may be given any
  packet, so the packet a concurrent \<open>poll\<close> holds between its critical sections is covered.
\<close>

datatype server_op =
    Recv nat pdu_data
  | Take
  | Handle PendingPacket
  | Accept_Goal GoalId
  | Reject_Goal GoalId
  | Accept_Cancel GoalId
  | Reject_Cancel GoalId
  | Accept_Cancel_Locally GoalId
  | Send_Feedback GoalId pdu_data
  | Complete GoalId TerminalStatus pdu_data
  | Complete_Locally GoalId TerminalStatus pdu_data
  | Discard_Pending_Goal GoalId
  | Clear_Pending_Events
  | Reset_Contexts

type_synonym 'w server_cfg = "ActionServerEndpointImpl \<times> 'w world"

fun server_exec :: "'w pdu_env \<Rightarrow> 'w server_cfg \<Rightarrow> server_op \<Rightarrow> 'w server_cfg" where
  "server_exec E (st, w) (Recv i d) = (ServerEndpoint_on_recv i d st, w)"
| "server_exec E (st, w) Take = (snd (ServerEndpoint_take st), w)"
| "server_exec E (st, w) (Handle p) = snd (ServerEndpoint_handle E p st w)"
| "server_exec E (st, w) (Accept_Goal g) = snd (ServerEndpoint_accept_goal E g st w)"
| "server_exec E (st, w) (Reject_Goal g) = snd (ServerEndpoint_reject_goal E g st w)"
| "server_exec E (st, w) (Accept_Cancel g) = snd (ServerEndpoint_accept_cancel E g st w)"
| "server_exec E (st, w) (Reject_Cancel g) = snd (ServerEndpoint_reject_cancel E g st w)"
| "server_exec E (st, w) (Accept_Cancel_Locally g) = (snd (ServerEndpoint_accept_cancel_locally g st), w)"
| "server_exec E (st, w) (Send_Feedback g p) = snd (ServerEndpoint_send_feedback E g p st w)"
| "server_exec E (st, w) (Complete g s p) = snd (ServerEndpoint_complete E g s p st w)"
| "server_exec E (st, w) (Complete_Locally g s p) = (snd (ServerEndpoint_complete_locally E g s p st), w)"
| "server_exec E (st, w) (Discard_Pending_Goal g) = (snd (ServerEndpoint_discard_pending_goal g st), w)"
| "server_exec E (st, w) Clear_Pending_Events = (ServerEndpoint_clear_pending_events st, w)"
| "server_exec E (st, w) Reset_Contexts = (ServerEndpoint_reset_contexts st, w)"

definition server_run :: "'w pdu_env \<Rightarrow> 'w server_cfg \<Rightarrow> server_op list \<Rightarrow> 'w server_cfg" where
  "server_run E c ops = foldl (server_exec E) c ops"

lemma server_run_Nil [simp]: "server_run E c [] = c"
  by (simp add: server_run_def)

lemma server_run_Cons [simp]: "server_run E c (op # ops) = server_run E (server_exec E c op) ops"
  by (simp add: server_run_def)

lemma server_run_append: "server_run E c (xs @ ys) = server_run E (server_run E c xs) ys"
  by (simp add: server_run_def)

text \<open>\<open>poll\<close> is \<open>Take\<close> followed by \<open>Handle\<close> of what was taken.\<close>

lemma poll_is_take_handle:
  "snd (ServerEndpoint_poll E st w) =
     (case fst (ServerEndpoint_take st) of
        Poll_Return ev \<Rightarrow> server_run E (st, w) [Take]
      | Poll_Packet p \<Rightarrow> server_run E (st, w) [Take, Handle p])"
  by (simp add: ServerEndpoint_poll_def split: prod.splits poll_front.splits)

lemma server_exec_inv:
  "server_endpoint_inv (fst c) \<Longrightarrow> server_endpoint_inv (fst (server_exec E c op))"
  by (cases c; cases op)
    (simp_all add: on_recv_inv take_inv handle_inv accept_goal_inv reject_goal_inv accept_cancel_inv
      reject_cancel_inv accept_cancel_locally_inv send_feedback_inv complete_inv complete_locally_inv
      discard_inv clear_inv reset_inv)

lemma server_run_inv:
  "server_endpoint_inv (fst c) \<Longrightarrow> server_endpoint_inv (fst (server_run E c ops))"
  by (induction ops arbitrary: c) (simp_all add: server_exec_inv)

text \<open>The routing is fixed once the endpoint is initialised.\<close>

lemma server_exec_static:
  "sv_slot_routing (fst (server_exec E c op)) = sv_slot_routing (fst c)
   \<and> sv_initialized (fst (server_exec E c op)) = sv_initialized (fst c)
   \<and> sv_action_name (fst (server_exec E c op)) = sv_action_name (fst c)"
proof -
  have rel: "sv_slot_routing (release_binding_locked g st) = sv_slot_routing st
      \<and> sv_initialized (release_binding_locked g st) = sv_initialized st
      \<and> sv_action_name (release_binding_locked g st) = sv_action_name st" for g st
    by (simp add: release_binding_locked_def Let_def split: option.splits)
  have can: "sv_slot_routing (snd (handle_cancel_request p g st)) = sv_slot_routing st
      \<and> sv_initialized (snd (handle_cancel_request p g st)) = sv_initialized st
      \<and> sv_action_name (snd (handle_cancel_request p g st)) = sv_action_name st" for p g st
    by (simp add: handle_cancel_request_def split: option.splits)
  show ?thesis
  proof (cases c)
    case (Pair st w)
    show ?thesis
    proof (cases op)
      case (Handle p)
      have "fst (snd (case handle_cancel_request p g st of (ev, st') \<Rightarrow> (ev, st', w))) =
          snd (handle_cancel_request p g st)" for g by (simp split: prod.splits)
      then show ?thesis using Pair Handle can
        by (auto simp: ServerEndpoint_handle_def handle_goal_request_def Let_def split: option.splits)
    qed (auto simp: Pair rel commit_result_def Let_def ServerEndpoint_on_recv_def ServerEndpoint_take_def
        ServerEndpoint_accept_goal_def ServerEndpoint_reject_goal_def ServerEndpoint_accept_cancel_def
        ServerEndpoint_reject_cancel_def ServerEndpoint_accept_cancel_locally_def
        ServerEndpoint_send_feedback_def ServerEndpoint_complete_def ServerEndpoint_complete_locally_def
        ServerEndpoint_discard_pending_goal_def ServerEndpoint_clear_pending_events_def
        ServerEndpoint_reset_contexts_def split: option.splits prod.splits bool.splits list.splits)
  qed
qed

section \<open>Property\<close>

text \<open>
  C3 (invariant): from a freshly constructed endpoint, after initialisation and any sequence
  of operations, receive callbacks and (possibly interrupted) polls, each Goal binding owns
  exactly the slot it names, no slot is owned by two Goals and no owned slot lacks its
  binding, every bound Goal ID is valid, and a Cancel decision is pending only for a Goal
  that was accepted and neither canceled nor completed.
\<close>

theorem server_endpoint_slots_consistent:
  fixes E :: "'w pdu_env" and J :: "'j json_ops"
  defines "st0 \<equiv> \<lambda>name ep ts j. snd (ServerEndpoint_initialize E J j (new_ActionServerEndpointImpl name ep ts))"
  shows "let st = fst (server_run E (st0 name ep ts j, w) ops) in
     (\<forall>g i. (\<exists>b. sm_find (sv_packet_bindings st) g = Some b \<and> ab_slot_index b = i)
            \<longleftrightarrow> at (sv_slot_owners st) i = Some (Some g))
     \<and> (\<forall>g b. sm_find (sv_packet_bindings st) g = Some b \<longrightarrow>
            is_valid_goal_id g \<and> ab_goal_id b = g
            \<and> (ab_cancel_decision_pending b \<longrightarrow> ab_state b = GOAL_ACCEPTED))"
proof -
  let ?st = "fst (server_run E (st0 name ep ts j, w) ops)"
  have "server_endpoint_inv ?st"
    unfolding st0_def by (rule server_run_inv) (simp add: initialize_inv new_server_endpoint_inv)
  then have ok: "slots_ok (sv_slot_owners ?st) (sv_packet_bindings ?st)"
    by (simp add: server_endpoint_inv_def)
  show ?thesis
    unfolding Let_def using slots_ok_binding [OF ok] slots_ok_owner [OF ok]
    unfolding binding_ok_def by blast
qed

end
