(* ===== verification/Server_Endpoint_Routing.thy ===== *)
theory Server_Endpoint_Routing
  imports Action_Server_Endpoint
begin

text \<open>
  The routing table that \<open>initialize\<close> builds, in closed form: for an accepted Action
  definition the loop over the channels, with its duplicate and completeness checks, yields
  exactly the table \<open>slot_routing\<close>, or fails because a packet type is unavailable, too
  small for its header, or too large.
\<close>

definition type_supported :: "'w pdu_env \<Rightarrow> string \<Rightarrow> nat \<Rightarrow> size_t \<Rightarrow> bool" where
  "type_supported E ty header heap =
     (case hako_pdu_get_size E ty of
        None \<Rightarrow> False
      | Some sz \<Rightarrow> header \<le> unat sz \<and> supported_packet_capacity E sz heap)"

definition packet_types_supported :: "'w pdu_env \<Rightarrow> ActionDefinition \<Rightarrow> bool" where
  "packet_types_supported E d \<longleftrightarrow>
     type_supported E (packet_type (ad_type d) ''Request'') (sizeof_ActionRequestHeader E)
       (bh_request_size (ad_buffer_heap d))
     \<and> type_supported E (packet_type (ad_type d) ''Response'') (sizeof_ActionResponseHeader E)
       (bh_response_size (ad_buffer_heap d))
     \<and> type_supported E (packet_type (ad_type d) ''Feedback'') (sizeof_ActionFeedbackHeader E)
       (bh_feedback_size (ad_buffer_heap d))"

definition channel_key :: "string \<Rightarrow> nat \<Rightarrow> ActionChannelKind \<Rightarrow> PduResolvedKey" where
  "channel_key name slot k = \<lparr>key_robot = name, key_channel_id = of_nat (3 * slot + kind_offset k)\<rparr>"

definition slot_routing :: "'w pdu_env \<Rightarrow> string \<Rightarrow> ActionDefinition \<Rightarrow> nat \<Rightarrow> SlotRouting" where
  "slot_routing E name d slot =
     (let ty = packet_type (ad_type d); size_of = (\<lambda>t. the (hako_pdu_get_size E t)) in
      \<lparr>sr_slot_index = slot, sr_request = channel_key name slot REQUEST,
       sr_response = channel_key name slot RESPONSE, sr_feedback = channel_key name slot FEEDBACK,
       sr_request_packet_type = ty ''Request'', sr_response_packet_type = ty ''Response'',
       sr_feedback_packet_type = ty ''Feedback'',
       sr_request_packet_base_size = size_of (ty ''Request''),
       sr_response_packet_base_size = size_of (ty ''Response''),
       sr_feedback_packet_base_size = size_of (ty ''Feedback''),
       sr_request_heap_capacity = bh_request_size (ad_buffer_heap d),
       sr_response_heap_capacity = bh_response_size (ad_buffer_heap d),
       sr_feedback_heap_capacity = bh_feedback_size (ad_buffer_heap d)\<rparr>)"

lemma routing_keys [simp]:
  "sr_request (slot_routing E nm d i) = channel_key nm i REQUEST"
  "sr_response (slot_routing E nm d i) = channel_key nm i RESPONSE"
  "sr_feedback (slot_routing E nm d i) = channel_key nm i FEEDBACK"
  "sr_slot_index (slot_routing E nm d i) = i"
  by (simp_all add: slot_routing_def Let_def)

lemma server_route_channels_append:
  "server_route_channels E name (xs @ ys) rs =
     (case server_route_channels E name xs rs of None \<Rightarrow> None | Some rs' \<Rightarrow> server_route_channels E name ys rs')"
  by (induction xs arbitrary: rs) (auto split: option.splits)

text \<open>The identifiers used by the slots below \<open>n\<close>.\<close>

definition slot_ids :: "nat \<Rightarrow> uint32 set" where
  "slot_ids n = of_nat ` {0..<3 * n}"

lemma of_nat_uint32_inject:
  "a < 2 ^ 32 \<Longrightarrow> b < 2 ^ 32 \<Longrightarrow> (of_nat a :: uint32) = of_nat b \<longleftrightarrow> a = b"
  by (simp add: word_of_nat_eq_iff take_bit_nat_eq_self)

lemma slot_ids_fresh:
  assumes "n < max_slot_count"
  shows "(of_nat (3 * n) :: uint32) \<notin> slot_ids n" "(of_nat (3 * n + 1) :: uint32) \<notin> insert (of_nat (3 * n)) (slot_ids n)"
    "(of_nat (3 * n + 2) :: uint32) \<notin> insert (of_nat (3 * n + 1)) (insert (of_nat (3 * n)) (slot_ids n))"
  using assms of_nat_uint32_inject
  by (auto simp: slot_ids_def max_slot_count_def simp del: of_nat_add of_nat_mult of_nat_Suc)

lemma slot_ids_Suc:
  "slot_ids (Suc n) = insert (of_nat (3 * n + 2)) (insert (of_nat (3 * n + 1)) (insert (of_nat (3 * n)) (slot_ids n)))"
proof -
  have "{0..<3 * Suc n} = insert (3 * n + 2) (insert (3 * n + 1) (insert (3 * n) {0..<3 * n}))" by auto
  then show ?thesis unfolding slot_ids_def by (simp only: image_insert)
qed

text \<open>One slot: its three channels.\<close>

lemma route_slot:
  assumes n: "n < max_slot_count" "n < length rs" "n < length ms"
    and rs: "rs ! n = initial_routing d n" and ms: "ms ! n = 0"
  shows "server_route_channels E name (slot_channels (ad_type d) n) (rs, ms, slot_ids n) =
     (if packet_types_supported E d
      then Some (rs[n := slot_routing E name d n], ms[n := 7], slot_ids (Suc n)) else None)"
  using n rs ms slot_ids_fresh [OF n(1)]
  unfolding slot_channels_def slot_ids_Suc
  by (auto simp: server_route_channel_def packet_types_supported_def type_supported_def
      initial_routing_def slot_routing_def channel_key_def Let_def not_less
      simp del: of_nat_add of_nat_mult of_nat_Suc split: option.splits)

lemma route_slots:
  assumes "N \<le> max_slot_count" and "n \<le> N"
  shows "server_route_channels E name (concat (map (slot_channels (ad_type d)) [0..<n]))
      (map (initial_routing d) [0..<N], replicate N 0, {}) =
    (if n = 0 \<or> packet_types_supported E d
     then Some (map (slot_routing E name d) [0..<n] @ map (initial_routing d) [n..<N],
                replicate n 7 @ replicate (N - n) 0, slot_ids n)
     else None)"
  using assms(2)
proof (induction n)
  case 0
  then show ?case by (simp add: slot_ids_def)
next
  case (Suc n)
  let ?rs = "map (slot_routing E name d) [0..<n] @ map (initial_routing d) [n..<N]"
  let ?ms = "replicate n 7 @ replicate (N - n) (0::byte)"
  have one: "server_route_channels E name (slot_channels (ad_type d) n) (?rs, ?ms, slot_ids n) =
     (if packet_types_supported E d
      then Some (?rs[n := slot_routing E name d n], ?ms[n := 7], slot_ids (Suc n)) else None)"
    by (rule route_slot) (use Suc.prems assms(1) in \<open>auto simp: nth_append\<close>)
  have "[n..<N] = n # [Suc n..<N]" using Suc.prems by (simp add: upt_conv_Cons)
  then have rs: "?rs[n := slot_routing E name d n] =
      map (slot_routing E name d) [0..<Suc n] @ map (initial_routing d) [Suc n..<N]"
    by (simp add: list_update_append)
  have "replicate (N - n) (0::byte) = 0 # replicate (N - Suc n) 0"
    using Suc.prems by (metis Suc_diff_le diff_Suc_Suc replicate_Suc)
  then have ms: "?ms[n := 7] = replicate (Suc n) 7 @ replicate (N - Suc n) (0::byte)"
    by (simp add: list_update_append replicate_append_same)
  show ?case
    using Suc one by (auto simp: server_route_channels_append rs ms)
qed

lemma initialize_closed_form:
  "ServerEndpoint_initialize E J config st = (True, st') \<longleftrightarrow>
     (\<exists>d. parse_action J config = Inr d \<and> ad_name d = sv_action_name st
        \<and> sv_has_endpoint st \<and> sv_has_time_source st \<and> \<not> sv_initialized st
        \<and> packet_types_supported E d
        \<and> (let rs = map (slot_routing E (sv_action_name st) d) [0..<ad_slot_count d] in
           st' = st\<lparr>sv_action_definition := Some d, sv_slot_routing := rs,
             sv_slot_owners := resize (ad_slot_count d) None (sv_slot_owners st), sv_initialized := True,
             sv_subscriptions := map (\<lambda>i. (channel_key (sv_action_name st) i REQUEST, i)) [0..<ad_slot_count d]\<rparr>))"
proof (cases "parse_action J config")
  case (Inr d)
  note p = parse_action_Inr [OF Inr]
  have "list_ex (\<lambda>mask. mask \<noteq> (7::byte)) (replicate n 7) = False" for n by (auto simp: list_ex_iff)
  then show ?thesis
    using Inr route_slots [OF p(2) order.refl, of E "sv_action_name st" d] p(1)
    by (auto simp: ServerEndpoint_initialize_def p(5) [symmetric] Let_def o_def)
qed (simp add: ServerEndpoint_initialize_def)

text \<open>
  \<open>initialize\<close> succeeds exactly when the configuration parses, names this
  Action, the endpoint and the time source are set, all three packet types are supported,
  and the object was not initialised before; the routing table then gives slot \<open>i\<close> the
  channels \<open>3i\<close>, \<open>3i+1\<close>, \<open>3i+2\<close> and a receive callback on its Request channel. Its
  duplicate-channel and missing-channel checks never reject a parsed configuration.
\<close>

theorem server_initialize_iff:
  "ServerEndpoint_initialize E J config st = (True, st') \<longleftrightarrow>
     (\<exists>d. parse_action J config = Inr d \<and> ad_name d = sv_action_name st
        \<and> sv_has_endpoint st \<and> sv_has_time_source st \<and> \<not> sv_initialized st
        \<and> packet_types_supported E d
        \<and> (let rs = map (slot_routing E (sv_action_name st) d) [0..<ad_slot_count d] in
           st' = st\<lparr>sv_action_definition := Some d, sv_slot_routing := rs,
             sv_slot_owners := resize (ad_slot_count d) None (sv_slot_owners st), sv_initialized := True,
             sv_subscriptions := map (\<lambda>i. (channel_key (sv_action_name st) i REQUEST, i)) [0..<ad_slot_count d]\<rparr>))"
  by (rule initialize_closed_form)

end
