(* ===== verification/Server_Endpoint_Wire.thy ===== *)
theory Server_Endpoint_Wire
  imports Server_Endpoint_Invariant Server_Endpoint_Routing
begin

text \<open>
  What the server endpoint puts on the wire: every Response and Feedback packet it sends is
  accepted by the packet checks of the client and decodes to the intended header, the
  Feedback of a Goal is numbered consecutively, a refused or failed operation leaves no
  trace, and a committed Result ends everything for its Goal.
\<close>

section \<open>Sends\<close>

lemma endpoint_send_outbox:
  "endpoint_send E k p w = (r, w') \<Longrightarrow> outbox w' = outbox w @ (if r then [(k, p)] else [])"
  by (auto simp: endpoint_send_def split: prod.splits bool.splits)

lemma write_response_iff:
  "write_response_header E p h = Some q \<longleftrightarrow>
     has_valid_packet_prefix E p (sizeof_ActionResponseHeader E) \<and> cpp2pdu_ActionResponseHeader E h p = Some q"
  by (simp add: write_response_header_def)

text \<open>A sent Response: one packet on the Response channel of the binding's slot.\<close>

lemma send_response_True:
  assumes "send_response_packet E st b kind status p w = (True, w')"
  shows "\<exists>n q. ab_slot_index b < length (sv_slot_routing st)
    \<and> validate_packet_capacity E p (sr_response_packet_base_size (sv_slot_routing st ! ab_slot_index b))
        (sr_response_heap_capacity (sv_slot_routing st ! ab_slot_index b)) False = Some n
    \<and> write_response_header E p (response_header (ab_goal_id b) kind status) = Some q
    \<and> outbox w' = outbox w @ [(sr_response (sv_slot_routing st ! ab_slot_index b), take n q)]"
  using assms
  by (auto simp: send_response_packet_def Let_def dest: endpoint_send_outbox split: if_splits option.splits)

lemma send_response_outbox:
  "send_response_packet E st b kind status p w = (r, w') \<Longrightarrow>
   \<exists>delta. outbox w' = outbox w @ delta \<and> fst ` set delta \<subseteq> sr_response ` set (sv_slot_routing st)
     \<and> (\<not> r \<longrightarrow> delta = [])"
  by (auto simp: send_response_packet_def Let_def dest!: endpoint_send_outbox split: if_splits option.splits)

lemma send_control_outbox:
  "send_control_response E st b kind d w = (r, w') \<Longrightarrow>
   \<exists>delta. outbox w' = outbox w @ delta \<and> fst ` set delta \<subseteq> sr_response ` set (sv_slot_routing st)
     \<and> (\<not> r \<longrightarrow> delta = [])"
  by (auto simp: send_control_response_def dest: send_response_outbox split: option.splits)

section \<open>Inversion of the operations\<close>

text \<open>What a successful decision, Feedback or completion did.\<close>

lemma accept_goal_True:
  assumes "ServerEndpoint_accept_goal E g st w = (True, st', w')"
  obtains b where "sm_find (sv_packet_bindings st) g = Some b" "ab_state b = AWAITING_GOAL_DECISION"
    "send_control_response E st b RESPONSE_KIND_GOAL ACCEPTED w = (True, w')"
    "st' = st\<lparr>sv_packet_bindings := sm_update g (\<lambda>b. b\<lparr>ab_state := GOAL_ACCEPTED\<rparr>) (sv_packet_bindings st)\<rparr>"
  using assms by (auto simp: ServerEndpoint_accept_goal_def split: if_splits prod.splits bool.splits option.splits)

lemma reject_goal_True:
  assumes "ServerEndpoint_reject_goal E g st w = (True, st', w')"
  obtains b where "sm_find (sv_packet_bindings st) g = Some b" "ab_state b = AWAITING_GOAL_DECISION"
    "send_control_response E st b RESPONSE_KIND_GOAL REJECTED w = (True, w')"
    "st' = release_binding_locked g st"
  using assms by (auto simp: ServerEndpoint_reject_goal_def split: if_splits prod.splits bool.splits option.splits)

lemma accept_cancel_True:
  assumes "ServerEndpoint_accept_cancel E g st w = (True, st', w')"
  obtains b where "sm_find (sv_packet_bindings st) g = Some b" "ab_state b = GOAL_ACCEPTED"
    "ab_cancel_decision_pending b"
    "send_control_response E st b RESPONSE_KIND_CANCEL ACCEPTED w = (True, w')"
    "st' = st\<lparr>sv_packet_bindings := sm_update g
       (\<lambda>b. b\<lparr>ab_state := CANCEL_ACCEPTED, ab_cancel_decision_pending := False\<rparr>) (sv_packet_bindings st)\<rparr>"
  using assms by (auto simp: ServerEndpoint_accept_cancel_def split: if_splits prod.splits bool.splits option.splits)

lemma reject_cancel_True:
  assumes "ServerEndpoint_reject_cancel E g st w = (True, st', w')"
  obtains b where "sm_find (sv_packet_bindings st) g = Some b" "ab_state b = GOAL_ACCEPTED"
    "ab_cancel_decision_pending b"
    "send_control_response E st b RESPONSE_KIND_CANCEL REJECTED w = (True, w')"
    "st' = st\<lparr>sv_packet_bindings := sm_update g
       (\<lambda>b. b\<lparr>ab_cancel_decision_pending := False\<rparr>) (sv_packet_bindings st)\<rparr>"
  using assms by (auto simp: ServerEndpoint_reject_cancel_def split: if_splits prod.splits bool.splits option.splits)

lemma complete_committed:
  assumes "ServerEndpoint_complete E g s p st w = (res, st', w')" and "res \<noteq> NOT_COMMITTED"
  obtains b n where "sm_find (sv_packet_bindings st) g = Some b"
    "validate_terminal_packet_locked E st b s p = Some n"
    "send_response_packet E (commit_result g st)
       (b\<lparr>ab_state := RESULT_COMMITTED, ab_cancel_decision_pending := False\<rparr>) RESPONSE_KIND_RESULT
       (terminal_code s) p w = (res = SENT, w')"
    "st' = (if res = SENT then release_binding_locked g (commit_result g st) else commit_result g st)"
proof -
  have live: "is_valid_goal_id g" "sv_initialized st"
    using assms by (auto simp: ServerEndpoint_complete_def split: if_splits)
  obtain b where b: "sm_find (sv_packet_bindings st) g = Some b"
    using assms live by (cases "sm_find (sv_packet_bindings st) g") (auto simp: ServerEndpoint_complete_def)
  obtain n where n: "validate_terminal_packet_locked E st b s p = Some n"
    using assms live b
    by (cases "validate_terminal_packet_locked E st b s p") (auto simp: ServerEndpoint_complete_def)
  let ?send = "send_response_packet E (commit_result g st)
       (b\<lparr>ab_state := RESULT_COMMITTED, ab_cancel_decision_pending := False\<rparr>) RESPONSE_KIND_RESULT
       (terminal_code s) p w"
  obtain r w1 where "?send = (r, w1)" by (cases ?send)
  with assms live b n have "?send = (res = SENT, w')"
    "st' = (if res = SENT then release_binding_locked g (commit_result g st) else commit_result g st)"
    by (cases r; simp add: ServerEndpoint_complete_def Let_def; auto)+
  with b n show thesis by (rule that)
qed

lemma send_feedback_True:
  assumes "ServerEndpoint_send_feedback E g p st w = (True, st', w')"
  obtains b r n q where "sm_find (sv_packet_bindings st) g = Some b"
    "ab_state b = GOAL_ACCEPTED \<or> ab_state b = CANCEL_ACCEPTED"
    "ab_slot_index b < length (sv_slot_routing st)" "r = sv_slot_routing st ! ab_slot_index b"
    "validate_packet_capacity E p (sr_feedback_packet_base_size r) (sr_feedback_heap_capacity r) False = Some n"
    "has_valid_packet_prefix E p (sizeof_ActionFeedbackHeader E)"
    "cpp2pdu_ActionFeedbackHeader E (feedback_header g (ab_next_feedback_sequence b)) p = Some q"
    "endpoint_send E (sr_feedback r) (take n q) w = (True, w')"
    "st' = st\<lparr>sv_packet_bindings := sm_update g
       (\<lambda>b. b\<lparr>ab_next_feedback_sequence := ab_next_feedback_sequence b + 1\<rparr>) (sv_packet_bindings st)\<rparr>"
  using assms
  by (auto simp: ServerEndpoint_send_feedback_def write_feedback_header_def Let_def not_le
      split: if_splits prod.splits bool.splits option.splits)

text \<open>What an unsuccessful one did: nothing.\<close>

lemma refused_ops_unchanged:
  "ServerEndpoint_accept_goal E g st w = (False, st', w') \<Longrightarrow> st' = st \<and> outbox w' = outbox w"
  "ServerEndpoint_reject_goal E g st w = (False, st', w') \<Longrightarrow> st' = st \<and> outbox w' = outbox w"
  "ServerEndpoint_accept_cancel E g st w = (False, st', w') \<Longrightarrow> st' = st \<and> outbox w' = outbox w"
  "ServerEndpoint_reject_cancel E g st w = (False, st', w') \<Longrightarrow> st' = st \<and> outbox w' = outbox w"
  "ServerEndpoint_send_feedback E g p st w = (False, st', w') \<Longrightarrow> st' = st \<and> outbox w' = outbox w"
  "ServerEndpoint_complete E g s p st w = (NOT_COMMITTED, st', w') \<Longrightarrow> st' = st \<and> w' = w"
  by (auto simp: ServerEndpoint_accept_goal_def ServerEndpoint_reject_goal_def
      ServerEndpoint_accept_cancel_def ServerEndpoint_reject_cancel_def ServerEndpoint_send_feedback_def
      ServerEndpoint_complete_def Let_def
      dest!: send_control_outbox endpoint_send_outbox
      split: if_splits prod.splits bool.splits option.splits)

section \<open>The client can read what the server sends\<close>

text \<open>
  How the client reads a packet of the Response channel of slot \<open>i\<close>: the checks of its
  \<open>poll\<close>, then the header.
\<close>

definition client_reads_response :: "'w pdu_env \<Rightarrow> SlotRouting \<Rightarrow> pdu_data \<Rightarrow> ActionResponseHeader option" where
  "client_reads_response E r p =
     (if client_validate_packet_capacity E p (sr_response_packet_base_size r) (sr_response_heap_capacity r) True = None
         \<or> \<not> has_valid_packet_prefix E p (sizeof_ActionResponseHeader E) then None
      else pdu2cpp_ActionResponseHeader E p)"

definition client_reads_feedback :: "'w pdu_env \<Rightarrow> SlotRouting \<Rightarrow> pdu_data \<Rightarrow> ActionFeedbackHeader option" where
  "client_reads_feedback E r p =
     (if client_validate_packet_capacity E p (sr_feedback_packet_base_size r) (sr_feedback_heap_capacity r) True = None
         \<or> \<not> has_valid_packet_prefix E p (sizeof_ActionFeedbackHeader E) then None
      else pdu2cpp_ActionFeedbackHeader E p)"

lemma response_readable:
  assumes reg: "registry_ok E" and g: "length (ab_goal_id b) = 16"
    and sent: "send_response_packet E st b kind status p w = (True, w')"
  defines "r \<equiv> sv_slot_routing st ! ab_slot_index b"
  shows "\<exists>bytes. outbox w' = outbox w @ [(sr_response r, bytes)]
    \<and> client_reads_response E r bytes = Some (response_header (ab_goal_id b) kind status)"
proof -
  from send_response_True [OF sent] obtain n q where
    v: "validate_packet_capacity E p (sr_response_packet_base_size r) (sr_response_heap_capacity r) False = Some n"
    and q: "has_valid_packet_prefix E p (sizeof_ActionResponseHeader E)"
      "cpp2pdu_ActionResponseHeader E (response_header (ab_goal_id b) kind status) p = Some q"
    and out: "outbox w' = outbox w @ [(sr_response r, take n q)]"
    unfolding r_def write_response_iff by blast
  have "length (rsh_goal_id (response_header (ab_goal_id b) kind status)) = 16"
    using g by (simp add: response_header_def)
  from wire_roundtrip [OF reg registry_codecs(2) [OF reg] this v q]
  have "client_reads_response E r (take n q) = Some (response_header (ab_goal_id b) kind status)"
    by (simp add: client_reads_response_def client_validate_eq)
  with out show ?thesis by blast
qed

lemma control_response_readable:
  assumes "registry_ok E" and "length (ab_goal_id b) = 16"
    and "send_control_response E st b kind d w = (True, w')"
  shows "\<exists>bytes. outbox w' = outbox w @ [(sr_response (sv_slot_routing st ! ab_slot_index b), bytes)]
    \<and> client_reads_response E (sv_slot_routing st ! ab_slot_index b) bytes
        = Some (response_header (ab_goal_id b) kind (decision_code d))"
  using assms response_readable by (auto simp: send_control_response_def split: option.splits)

text \<open>
  C12 (roundtrip): a successful decision is exactly one packet on the Response channel of the
  Goal's slot, and that packet passes the client's checks and decodes to the protocol
  version, the kind, the decision and the Goal ID; so does the Result of a successful
  \<open>complete\<close> with its terminal status, after which the slot is free again.
\<close>

theorem server_responses_readable_by_client:
  assumes "registry_ok E" and "server_endpoint_inv st" and "length g = 16"
    and "sm_find (sv_packet_bindings st) g = Some b"
  defines "r \<equiv> sv_slot_routing st ! ab_slot_index b"
  defines "replied \<equiv> \<lambda>w w' kind code. \<exists>bytes. outbox w' = outbox w @ [(sr_response r, bytes)]
             \<and> client_reads_response E r bytes = Some (response_header g kind code)"
  shows "(ServerEndpoint_accept_goal E g st w = (True, st', w') \<longrightarrow> replied w w' RESPONSE_KIND_GOAL (decision_code ACCEPTED))
    \<and> (ServerEndpoint_reject_goal E g st w = (True, st', w') \<longrightarrow> replied w w' RESPONSE_KIND_GOAL (decision_code REJECTED))
    \<and> (ServerEndpoint_accept_cancel E g st w = (True, st', w') \<longrightarrow> replied w w' RESPONSE_KIND_CANCEL (decision_code ACCEPTED))
    \<and> (ServerEndpoint_reject_cancel E g st w = (True, st', w') \<longrightarrow> replied w w' RESPONSE_KIND_CANCEL (decision_code REJECTED))
    \<and> (ServerEndpoint_complete E g status result st w = (SENT, st', w') \<longrightarrow>
         replied w w' RESPONSE_KIND_RESULT (terminal_code status)
         \<and> sm_find (sv_packet_bindings st') g = None \<and> at (sv_slot_owners st') (ab_slot_index b) = Some None)"
proof -
  have ok: "slots_ok (sv_slot_owners st) (sv_packet_bindings st)"
    using assms(2) by (simp add: server_endpoint_inv_def)
  have b: "ab_goal_id b = g" "ab_slot_index b < length (sv_slot_owners st)"
    using slots_ok_binding [OF ok assms(4)] by (auto simp: binding_ok_def dest: at_SomeD)
  have control: "send_control_response E st b kind d w = (True, w') \<Longrightarrow> replied w w' kind (decision_code d)" for kind d
    using control_response_readable [OF assms(1), of b st kind d w w'] assms(3) b(1)
    unfolding replied_def r_def by simp
  let ?b = "b\<lparr>ab_state := RESULT_COMMITTED, ab_cancel_decision_pending := False\<rparr>"
  have result: "replied w w' RESPONSE_KIND_RESULT (terminal_code status)"
    if "send_response_packet E (commit_result g st) ?b RESPONSE_KIND_RESULT (terminal_code status) result w = (True, w')"
    using response_readable [OF assms(1) _ that] assms(3) b(1)
    unfolding replied_def r_def by (simp add: commit_result_def)
  have free: "sm_find (sv_packet_bindings (release_binding_locked g (commit_result g st))) g = None
      \<and> at (sv_slot_owners (release_binding_locked g (commit_result g st))) (ab_slot_index b) = Some None"
  proof -
    have "server_endpoint_inv (commit_result g st)" by (rule commit_result_inv [OF assms(2)])
    then have "slots_ok (sv_slot_owners (commit_result g st)) (sv_packet_bindings (commit_result g st))"
      by (simp add: server_endpoint_inv_def)
    from release_owner [OF this, of g ?b] assms(4) b(2) show ?thesis by (simp add: commit_result_def)
  qed
  show ?thesis
    using control result free assms(4)
    by (auto elim!: accept_goal_True reject_goal_True accept_cancel_True reject_cancel_True
        complete_committed simp del: decision_code.simps terminal_code.simps)
qed

section \<open>Feedback numbering\<close>

text \<open>The Feedback sequence numbers of Goal \<open>g\<close> among packets on the wire.\<close>

definition feedback_number :: "'w pdu_env \<Rightarrow> SlotRouting list \<Rightarrow> GoalId \<Rightarrow> PduResolvedKey \<times> pdu_data \<Rightarrow> uint32 option" where
  "feedback_number E rs g m =
     (if fst m \<in> sr_feedback ` set rs
      then (case pdu2cpp_ActionFeedbackHeader E (snd m) of
              None \<Rightarrow> None
            | Some h \<Rightarrow> if fbh_goal_id h = g then Some (fbh_sequence_no h) else None)
      else None)"

definition wire_feedback ::
    "'w pdu_env \<Rightarrow> SlotRouting list \<Rightarrow> GoalId \<Rightarrow> (PduResolvedKey \<times> pdu_data) list \<Rightarrow> uint32 list" where
  "wire_feedback E rs g box = List.map_filter (feedback_number E rs g) box"

lemma wire_feedback_append: "wire_feedback E rs g (xs @ ys) = wire_feedback E rs g xs @ wire_feedback E rs g ys"
  by (simp add: wire_feedback_def map_filter_def)

definition keys_disjoint :: "SlotRouting list \<Rightarrow> bool" where
  "keys_disjoint rs \<longleftrightarrow> sr_response ` set rs \<inter> sr_feedback ` set rs = {}"

lemma slot_routing_keys_disjoint:
  assumes "n \<le> max_slot_count"
  shows "keys_disjoint (map (slot_routing E name d) [0..<n])"
proof -
  have "channel_key name i RESPONSE \<noteq> channel_key name j FEEDBACK" if "i < n" "j < n" for i j
  proof
    assume "channel_key name i RESPONSE = channel_key name j FEEDBACK"
    then have "unat (of_nat (3 * i + kind_offset RESPONSE) :: uint32) =
        unat (of_nat (3 * j + kind_offset FEEDBACK) :: uint32)" by (simp add: channel_key_def)
    then have "3 * i + kind_offset RESPONSE = 3 * j + kind_offset FEEDBACK"
      using channel_id_no_wrap [of i RESPONSE] channel_id_no_wrap [of j FEEDBACK] that assms by linarith
    then show False by simp presburger
  qed
  then show ?thesis by (auto simp: keys_disjoint_def slot_routing_def Let_def)
qed

lemma no_feedback_on_response_keys:
  assumes "keys_disjoint rs" and "fst ` set delta \<subseteq> sr_response ` set rs"
  shows "wire_feedback E rs g delta = []"
  using assms by (induction delta) (auto simp: wire_feedback_def map_filter_simps feedback_number_def keys_disjoint_def)

text \<open>The operations that end the binding of \<open>g\<close>.\<close>

fun keeps_binding :: "GoalId \<Rightarrow> server_op \<Rightarrow> bool" where
  "keeps_binding g (Reject_Goal g') = (g' \<noteq> g)"
| "keeps_binding g (Complete g' s p) = (g' \<noteq> g)"
| "keeps_binding g (Complete_Locally g' s p) = (g' \<noteq> g)"
| "keeps_binding g (Discard_Pending_Goal g') = (g' \<noteq> g)"
| "keeps_binding g Reset_Contexts = False"
| "keeps_binding g _ = True"

fun feedback_goal_ok :: "server_op \<Rightarrow> bool" where
  "feedback_goal_ok (Send_Feedback g p) = (length g = 16)"
| "feedback_goal_ok _ = True"

text \<open>A step other than a Feedback send: only Response packets, counters untouched.\<close>

lemma find_release: "sm_find (sv_packet_bindings (release_binding_locked g' st)) g =
    (if g = g' then None else sm_find (sv_packet_bindings st) g)"
  by (simp add: release_binding_locked_def Let_def split: option.splits)

definition same_feedback :: "ActionPacketBinding option \<Rightarrow> ActionPacketBinding option \<Rightarrow> bool" where
  "same_feedback x y \<longleftrightarrow> map_option ab_next_feedback_sequence x = map_option ab_next_feedback_sequence y"

lemma step_binding:
  assumes "sm_find (sv_packet_bindings (fst c)) g = Some b" and "keeps_binding g op"
    and "\<And>p. op \<noteq> Send_Feedback g p"
  shows "same_feedback (sm_find (sv_packet_bindings (fst (server_exec E c op))) g) (Some b)"
proof (cases c)
  case (Pair st w)
  have can: "same_feedback (sm_find (sv_packet_bindings (snd (handle_cancel_request p g' st))) g) (Some b)" for p g'
    using assms(1) Pair by (auto simp: handle_cancel_request_def same_feedback_def split: option.splits)
  show ?thesis
  proof (cases op)
    case (Handle p)
    have "fst (snd (case handle_cancel_request p g' st of (ev, st') \<Rightarrow> (ev, st', w))) =
          snd (handle_cancel_request p g' st)" for g' by (simp split: prod.splits)
    then show ?thesis using Pair Handle can assms(1)
      by (auto simp: ServerEndpoint_handle_def handle_goal_request_def Let_def same_feedback_def
          split: option.splits)
  qed (use assms Pair in \<open>auto simp: find_release commit_result_def Let_def same_feedback_def
        ServerEndpoint_on_recv_def ServerEndpoint_take_def
        ServerEndpoint_accept_goal_def ServerEndpoint_reject_goal_def ServerEndpoint_accept_cancel_def
        ServerEndpoint_reject_cancel_def ServerEndpoint_accept_cancel_locally_def
        ServerEndpoint_send_feedback_def ServerEndpoint_complete_def ServerEndpoint_complete_locally_def
        ServerEndpoint_discard_pending_goal_def ServerEndpoint_clear_pending_events_def
        split: option.splits prod.splits bool.splits list.splits\<close>)
qed

lemma error_reply_outbox:
  "\<exists>delta. outbox (send_goal_error_reply E st g i w) = outbox w @ delta
     \<and> fst ` set delta \<subseteq> sr_response ` set (sv_slot_routing st)"
proof -
  obtain r w' where "send_control_response E st (new_binding g i) RESPONSE_KIND_GOAL REJECTED w = (r, w')"
    by (cases "send_control_response E st (new_binding g i) RESPONSE_KIND_GOAL REJECTED w")
  with send_control_outbox [OF this] show ?thesis by (auto simp: send_goal_error_reply_def)
qed

lemma step_outbox:
  assumes "\<And>g p. op \<noteq> Send_Feedback g p"
  shows "\<exists>delta. outbox (snd (server_exec E c op)) = outbox (snd c) @ delta
    \<and> fst ` set delta \<subseteq> sr_response ` set (sv_slot_routing (fst c))"
proof (cases c)
  case (Pair st w)
  have none: "\<exists>delta. outbox w = outbox w @ delta \<and> fst ` set delta \<subseteq> sr_response ` set (sv_slot_routing st)"
    by (intro exI [of _ "[]"]) simp
  have send: "\<exists>delta. outbox w' = outbox w @ delta \<and> fst ` set delta \<subseteq> sr_response ` set (sv_slot_routing st)"
    if "send_control_response E st b kind d w = (r, w')" for b kind d r w'
    using send_control_outbox [OF that] by blast
  show ?thesis
  proof (cases op)
    case (Handle p)
    have "snd (snd (case handle_cancel_request p g' st of (ev, st') \<Rightarrow> (ev, st', w))) = w" for g'
      by (simp split: prod.splits)
    then show ?thesis using Pair Handle none error_reply_outbox [of E st _ _ w]
      by (auto simp: ServerEndpoint_handle_def handle_goal_request_def Let_def split: option.splits)
  next
    case (Complete g s p)
    obtain res st' w' where c: "ServerEndpoint_complete E g s p st w = (res, st', w')"
      by (cases "ServerEndpoint_complete E g s p st w")
    show ?thesis
    proof (cases "res = NOT_COMMITTED")
      case True
      with c refused_ops_unchanged(6) Complete Pair none show ?thesis by fastforce
    next
      case False
      from c this obtain b where "send_response_packet E (commit_result g st)
          (b\<lparr>ab_state := RESULT_COMMITTED, ab_cancel_decision_pending := False\<rparr>) RESPONSE_KIND_RESULT
          (terminal_code s) p w = (res = SENT, w')" by (rule complete_committed)
      from send_response_outbox [OF this] show ?thesis
        using Complete Pair c by (auto simp: commit_result_def)
    qed
  next
    case (Accept_Goal g)
    then show ?thesis using Pair none
      by (auto simp: ServerEndpoint_accept_goal_def intro: send split: option.splits prod.splits bool.splits)
  next
    case (Reject_Goal g)
    then show ?thesis using Pair none
      by (auto simp: ServerEndpoint_reject_goal_def intro: send split: option.splits prod.splits bool.splits)
  next
    case (Accept_Cancel g)
    then show ?thesis using Pair none
      by (auto simp: ServerEndpoint_accept_cancel_def intro: send split: option.splits prod.splits bool.splits)
  next
    case (Reject_Cancel g)
    then show ?thesis using Pair none
      by (auto simp: ServerEndpoint_reject_cancel_def intro: send split: option.splits prod.splits bool.splits)
  qed (use assms Pair none in auto)
qed

text \<open>A Feedback send: its own number for its own Goal, nothing for the others.\<close>

lemma feedback_send_wire:
  assumes reg: "registry_ok E" and g: "length g' = 16"
    and sent: "ServerEndpoint_send_feedback E g' p st w = (True, st', w')"
  obtains b r bytes where "sm_find (sv_packet_bindings st) g' = Some b"
    "r = sv_slot_routing st ! ab_slot_index b" "r \<in> set (sv_slot_routing st)"
    "outbox w' = outbox w @ [(sr_feedback r, bytes)]"
    "client_reads_feedback E r bytes = Some (feedback_header g' (ab_next_feedback_sequence b))"
    "pdu2cpp_ActionFeedbackHeader E bytes = Some (feedback_header g' (ab_next_feedback_sequence b))"
    "st' = st\<lparr>sv_packet_bindings := sm_update g'
       (\<lambda>b. b\<lparr>ab_next_feedback_sequence := ab_next_feedback_sequence b + 1\<rparr>) (sv_packet_bindings st)\<rparr>"
proof -
  show thesis
  proof (rule send_feedback_True [OF sent])
    fix b r n q
    assume f: "sm_find (sv_packet_bindings st) g' = Some b" "ab_slot_index b < length (sv_slot_routing st)"
      "r = sv_slot_routing st ! ab_slot_index b"
      "validate_packet_capacity E p (sr_feedback_packet_base_size r) (sr_feedback_heap_capacity r) False = Some n"
      "has_valid_packet_prefix E p (sizeof_ActionFeedbackHeader E)"
      "cpp2pdu_ActionFeedbackHeader E (feedback_header g' (ab_next_feedback_sequence b)) p = Some q"
      and sent: "endpoint_send E (sr_feedback r) (take n q) w = (True, w')"
      and st': "st' = st\<lparr>sv_packet_bindings := sm_update g'
       (\<lambda>b. b\<lparr>ab_next_feedback_sequence := ab_next_feedback_sequence b + 1\<rparr>) (sv_packet_bindings st)\<rparr>"
    have "length (fbh_goal_id (feedback_header g' (ab_next_feedback_sequence b))) = 16
        \<and> length (fbh_reserved (feedback_header g' (ab_next_feedback_sequence b))) = 3"
      using g by (simp add: feedback_header_def)
    note rt = wire_roundtrip [OF reg registry_codecs(3) [OF reg] this f(4-6)]
    have rd: "client_reads_feedback E r (take n q) = Some (feedback_header g' (ab_next_feedback_sequence b))"
      "pdu2cpp_ActionFeedbackHeader E (take n q) = Some (feedback_header g' (ab_next_feedback_sequence b))"
      using rt by (simp_all add: client_reads_feedback_def client_validate_eq)
    have "outbox w' = outbox w @ [(sr_feedback r, take n q)]" using endpoint_send_outbox [OF sent] by simp
    moreover have "r \<in> set (sv_slot_routing st)" using f(2,3) by simp
    ultimately show thesis using that [OF f(1,3)] rd st' by blast
  qed
qed

lemma feedback_step_numbers:
  assumes reg: "registry_ok E" and keys: "keys_disjoint rs" "rs = sv_slot_routing (fst c)"
    and b: "sm_find (sv_packet_bindings (fst c)) g = Some b"
    and op: "keeps_binding g op" "feedback_goal_ok op"
  obtains k b' delta where "outbox (snd (server_exec E c op)) = outbox (snd c) @ delta"
    "wire_feedback E rs g delta = map (\<lambda>i. ab_next_feedback_sequence b + of_nat i) [0..<k]"
    "sm_find (sv_packet_bindings (fst (server_exec E c op))) g = Some b'"
    "ab_next_feedback_sequence b' = ab_next_feedback_sequence b + of_nat k"
proof (cases "\<exists>g' p. op = Send_Feedback g' p")
  case True
  then obtain g' p where p: "op = Send_Feedback g' p" by blast
  obtain st w where c: "c = (st, w)" by (cases c)
  obtain res st' w' where s: "ServerEndpoint_send_feedback E g' p st w = (res, st', w')"
    by (cases "ServerEndpoint_send_feedback E g' p st w")
  show thesis
  proof (cases res)
    case False
    with s have "ServerEndpoint_send_feedback E g' p st w = (False, st', w')" by simp
    from refused_ops_unchanged(5) [OF this] have "st' = st" "outbox w' = outbox w" by blast+
    with c p s b show thesis by (intro that [of "[]" 0 b]) (simp_all add: wire_feedback_def map_filter_simps)
  next
    case True
    with s have s': "ServerEndpoint_send_feedback E g' p st w = (True, st', w')" by simp
    from op p have "length g' = 16" by simp
    from reg this s' obtain b2 r bytes where
      f: "sm_find (sv_packet_bindings st) g' = Some b2" "r = sv_slot_routing st ! ab_slot_index b2"
        "r \<in> set (sv_slot_routing st)" "outbox w' = outbox w @ [(sr_feedback r, bytes)]"
        "client_reads_feedback E r bytes = Some (feedback_header g' (ab_next_feedback_sequence b2))"
        "pdu2cpp_ActionFeedbackHeader E bytes = Some (feedback_header g' (ab_next_feedback_sequence b2))"
        "st' = st\<lparr>sv_packet_bindings := sm_update g'
         (\<lambda>b. b\<lparr>ab_next_feedback_sequence := ab_next_feedback_sequence b + 1\<rparr>) (sv_packet_bindings st)\<rparr>"
      by (rule feedback_send_wire)
    have n: "wire_feedback E rs g [(sr_feedback r, bytes)] =
        (if g' = g then [ab_next_feedback_sequence b2] else [])"
      using f(3,6) keys(2) c
      by (auto simp: wire_feedback_def map_filter_simps feedback_number_def feedback_header_def)
    show thesis
    proof (cases "g' = g")
      case True
      with f n b c p s show thesis by (intro that [of "[(sr_feedback r, bytes)]" 1]) auto
    next
      case False
      with f n b c p s show thesis by (intro that [of "[(sr_feedback r, bytes)]" 0]) auto
    qed
  qed
next
  case False
  then obtain delta where d: "outbox (snd (server_exec E c op)) = outbox (snd c) @ delta"
    "fst ` set delta \<subseteq> sr_response ` set rs" using step_outbox [of op E c] keys(2) by blast
  obtain b' where "sm_find (sv_packet_bindings (fst (server_exec E c op))) g = Some b'"
    "ab_next_feedback_sequence b' = ab_next_feedback_sequence b"
    using step_binding [OF b op(1), of E] False by (auto simp: same_feedback_def)
  with d no_feedback_on_response_keys [OF keys(1) d(2), of E g] show thesis
    by (intro that [of delta 0 b']) auto
qed

lemma map_word_upt_split:
  "map (\<lambda>i. n + of_nat i) [0..<k + m] =
     map (\<lambda>i. n + of_nat i) [0..<k] @ map (\<lambda>i. n + (of_nat k + of_nat i)) [0..<m]" for n :: "'a::len word"
  by (induction m) (simp_all add: add.assoc)

lemma feedback_run_numbers:
  assumes reg: "registry_ok E" and keys: "keys_disjoint rs"
  shows "rs = sv_slot_routing (fst c) \<Longrightarrow> sm_find (sv_packet_bindings (fst c)) g = Some b \<Longrightarrow>
    list_all (keeps_binding g) ops \<Longrightarrow> list_all feedback_goal_ok ops \<Longrightarrow>
    \<exists>k b' delta. outbox (snd (server_run E c ops)) = outbox (snd c) @ delta
      \<and> wire_feedback E rs g delta = map (\<lambda>i. ab_next_feedback_sequence b + of_nat i) [0..<k]
      \<and> sm_find (sv_packet_bindings (fst (server_run E c ops))) g = Some b'
      \<and> ab_next_feedback_sequence b' = ab_next_feedback_sequence b + of_nat k"
proof (induction ops arbitrary: c b)
  case Nil
  then show ?case by (intro exI [of _ 0] exI [of _ b] exI [of _ "[]"]) (simp add: wire_feedback_def map_filter_simps)
next
  case (Cons op ops)
  from Cons.prems have "keeps_binding g op" "feedback_goal_ok op" by simp_all
  from feedback_step_numbers [OF reg keys Cons.prems(1,2) this] obtain k1 b1 d1 where
    1: "outbox (snd (server_exec E c op)) = outbox (snd c) @ d1"
      "wire_feedback E rs g d1 = map (\<lambda>i. ab_next_feedback_sequence b + of_nat i) [0..<k1]"
      "sm_find (sv_packet_bindings (fst (server_exec E c op))) g = Some b1"
      "ab_next_feedback_sequence b1 = ab_next_feedback_sequence b + of_nat k1" .
  have "rs = sv_slot_routing (fst (server_exec E c op))"
    using Cons.prems(1) server_exec_static [of E c op] by simp
  from Cons.IH [OF this 1(3)] Cons.prems obtain k2 b2 d2 where
    2: "outbox (snd (server_run E (server_exec E c op) ops)) = outbox (snd (server_exec E c op)) @ d2"
      "wire_feedback E rs g d2 = map (\<lambda>i. ab_next_feedback_sequence b1 + of_nat i) [0..<k2]"
      "sm_find (sv_packet_bindings (fst (server_run E (server_exec E c op) ops))) g = Some b2"
      "ab_next_feedback_sequence b2 = ab_next_feedback_sequence b1 + of_nat k2" by auto
  with 1 2 show ?case
    by (intro exI [of _ "k1 + k2"] exI [of _ b2] exI [of _ "d1 @ d2"])
      (simp add: wire_feedback_append map_word_upt_split add.assoc)
qed

text \<open>
  C20 (safety): from the moment a Goal waits for its decision until its binding ends, and
  through any interleaving with other Goals, the Feedback packets of that Goal on the wire
  carry the sequence numbers 0, 1, 2, ... in order without gap or repetition; a Feedback
  whose send fails does not use up a number.
\<close>

theorem server_feedback_numbered_consecutively:
  assumes "registry_ok E"
    and "ServerEndpoint_initialize E J config (new_ActionServerEndpointImpl name ep ts) = (True, st0)"
    and "server_run E (st0, w0) ops1 = (st1, w1)"
    and "sm_find (sv_packet_bindings st1) g = Some b" and "ab_state b = AWAITING_GOAL_DECISION"
    and "list_all (keeps_binding g) ops2" and "list_all feedback_goal_ok ops2"
    and "server_run E (st1, w1) ops2 = (st2, w2)"
  shows "\<exists>k delta. outbox w2 = outbox w1 @ delta
    \<and> wire_feedback E (sv_slot_routing st0) g delta = map of_nat [0..<k]
    \<and> map_option ab_next_feedback_sequence (sm_find (sv_packet_bindings st2) g) = Some (of_nat k)"
proof -
  obtain d where d: "parse_action J config = Inr d"
    "sv_slot_routing st0 = map (slot_routing E name d) [0..<ad_slot_count d]"
    using assms(2) unfolding initialize_closed_form by (auto simp: new_ActionServerEndpointImpl_def Let_def)
  have keys: "keys_disjoint (sv_slot_routing st0)"
    unfolding d(2) by (rule slot_routing_keys_disjoint) (rule parse_action_Inr(2) [OF d(1)])
  have "server_endpoint_inv (snd (ServerEndpoint_initialize E J config (new_ActionServerEndpointImpl name ep ts)))"
    by (intro initialize_inv new_server_endpoint_inv)
  then have "server_endpoint_inv (fst (st0, w0))" using assms(2) by simp
  from server_run_inv [OF this, of E ops1] have "server_endpoint_inv st1" using assms(3) by simp
  then have seq: "ab_next_feedback_sequence b = 0"
    using inv_binding [OF _ assms(4)] assms(5) by (simp add: binding_ok_def)
  have "sv_slot_routing (fst (server_run E c ops)) = sv_slot_routing (fst c)" for c :: "'a server_cfg" and ops
    by (induction ops arbitrary: c) (simp_all add: server_exec_static)
  from this [of "(st0, w0)" ops1] have "sv_slot_routing st0 = sv_slot_routing (fst (st1, w1))"
    using assms(3) by simp
  from feedback_run_numbers [OF assms(1) keys this, of g b ops2] assms(4-8) seq
  show ?thesis by auto
qed

section \<open>Failure and commitment\<close>

text \<open>
  C18 (error): an operation that reports failure has changed nothing: the endpoint's state is
  the same and no packet was delivered to the transport. In particular a Goal decision, a
  Cancel decision or a Feedback whose send failed can be retried, and \<open>complete\<close> that did
  not commit can be called again.
\<close>

theorem server_failed_operation_unchanged:
  "(ServerEndpoint_accept_goal E g st w = (False, st', w') \<longrightarrow> st' = st \<and> outbox w' = outbox w)
   \<and> (ServerEndpoint_reject_goal E g st w = (False, st', w') \<longrightarrow> st' = st \<and> outbox w' = outbox w)
   \<and> (ServerEndpoint_accept_cancel E g st w = (False, st', w') \<longrightarrow> st' = st \<and> outbox w' = outbox w)
   \<and> (ServerEndpoint_reject_cancel E g st w = (False, st', w') \<longrightarrow> st' = st \<and> outbox w' = outbox w)
   \<and> (ServerEndpoint_send_feedback E g p st w = (False, st', w') \<longrightarrow> st' = st \<and> outbox w' = outbox w)
   \<and> (ServerEndpoint_complete E g s p st w = (NOT_COMMITTED, st', w') \<longrightarrow> st' = st \<and> outbox w' = outbox w)"
  by (intro conjI impI) (auto dest: refused_ops_unchanged)

text \<open>After the commit every operation on the Goal is refused.\<close>

lemma committed_step:
  assumes "sm_find (sv_packet_bindings (fst c)) g = Some b" and "ab_state b = RESULT_COMMITTED"
    and "op \<noteq> Reset_Contexts"
  shows "sm_find (sv_packet_bindings (fst (server_exec E c op))) g = Some b"
proof (cases c)
  case (Pair st w)
  have can: "sm_find (sv_packet_bindings (snd (handle_cancel_request p g' st))) g = Some b" for p g'
    using assms(1,2) Pair by (auto simp: handle_cancel_request_def split: option.splits)
  show ?thesis
  proof (cases op)
    case (Handle p)
    have "fst (snd (case handle_cancel_request p g' st of (ev, st') \<Rightarrow> (ev, st', w))) =
          snd (handle_cancel_request p g' st)" for g' by (simp split: prod.splits)
    then show ?thesis using Pair Handle can assms(1)
      by (auto simp: ServerEndpoint_handle_def handle_goal_request_def Let_def split: option.splits)
  qed (use assms Pair in \<open>auto simp: find_release commit_result_def Let_def validate_terminal_packet_locked_def
        ServerEndpoint_on_recv_def ServerEndpoint_take_def
        ServerEndpoint_accept_goal_def ServerEndpoint_reject_goal_def ServerEndpoint_accept_cancel_def
        ServerEndpoint_reject_cancel_def ServerEndpoint_accept_cancel_locally_def
        ServerEndpoint_send_feedback_def ServerEndpoint_complete_def ServerEndpoint_complete_locally_def
        ServerEndpoint_discard_pending_goal_def ServerEndpoint_clear_pending_events_def
        split: option.splits prod.splits bool.splits list.splits\<close>)
qed


text \<open>
  C38 (error): a Result packet whose metadata is well-formed but whose base section is
  smaller than the Response header passes the check before the commit and fails the check
  after it: \<open>complete\<close> commits the Goal and then reports \<open>SEND_FAILED_AFTER_COMMIT\<close> without
  having tried the transport, whatever the transport would have done. So invalid
  Application input does commit the Goal, and as a committed Result is final it cannot be
  corrected by calling \<open>complete\<close> again.
\<close>

theorem server_short_result_commits:
  assumes "is_valid_goal_id g" and "sv_initialized st"
    and "sm_find (sv_packet_bindings st) g = Some b"
    and "validate_terminal_packet_locked E st b s p = Some n"
    and "\<not> has_valid_packet_prefix E p (sizeof_ActionResponseHeader E)"
  shows "ServerEndpoint_complete E g s p st w = (SEND_FAILED_AFTER_COMMIT, commit_result g st, w)"
  using assms
  by (simp add: ServerEndpoint_complete_def send_response_packet_def write_response_header_def Let_def
      split: option.splits)

end
