(* ===== verification/Action_Server_Interface.thy ===== *)
theory Action_Server_Interface
  imports Server_Endpoint_Wire
begin

text \<open>
  \<open>IActionServerEndpoint\<close> (\<open>include/hakoniwa/pdu/action/action_server_endpoint.hpp\<close>), the
  virtual interface through which the services layer uses a packet endpoint: the table of
  its operations as a record, the contract the services layer relies on as the locale
  \<open>action_server_endpoint\<close>, and the interpretation of the contract by
  \<open>ActionServerEndpointImpl\<close>.

  The contract speaks of an endpoint only through its view: for each Goal ID the state of
  its packet binding and whether a client's Cancel Request waits for its Response.
\<close>

section \<open>The table of operations\<close>

record ('e, 'w) IActionServerEndpoint =
  v_poll :: "'e \<Rightarrow> 'w world \<Rightarrow> ServerEvent \<times> 'e \<times> 'w world"
  v_accept_goal :: "GoalId \<Rightarrow> 'e \<Rightarrow> 'w world \<Rightarrow> bool \<times> 'e \<times> 'w world"
  v_reject_goal :: "GoalId \<Rightarrow> 'e \<Rightarrow> 'w world \<Rightarrow> bool \<times> 'e \<times> 'w world"
  v_accept_cancel :: "GoalId \<Rightarrow> 'e \<Rightarrow> 'w world \<Rightarrow> bool \<times> 'e \<times> 'w world"
  v_reject_cancel :: "GoalId \<Rightarrow> 'e \<Rightarrow> 'w world \<Rightarrow> bool \<times> 'e \<times> 'w world"
  v_accept_cancel_locally :: "GoalId \<Rightarrow> 'e \<Rightarrow> bool \<times> 'e"
  v_create_result_buffer :: "'e \<Rightarrow> 'w world \<Rightarrow> pdu_data option"
  v_create_feedback_buffer :: "'e \<Rightarrow> 'w world \<Rightarrow> pdu_data option"
  v_send_feedback :: "GoalId \<Rightarrow> pdu_data \<Rightarrow> 'e \<Rightarrow> 'w world \<Rightarrow> bool \<times> 'e \<times> 'w world"
  v_complete :: "GoalId \<Rightarrow> TerminalStatus \<Rightarrow> pdu_data \<Rightarrow> 'e \<Rightarrow> 'w world \<Rightarrow> CompleteResult \<times> 'e \<times> 'w world"
  v_complete_locally :: "GoalId \<Rightarrow> TerminalStatus \<Rightarrow> pdu_data \<Rightarrow> 'e \<Rightarrow> bool \<times> 'e"
  v_discard_pending_goal :: "GoalId \<Rightarrow> 'e \<Rightarrow> bool \<times> 'e"
  v_clear_pending_events :: "'e \<Rightarrow> 'e"
  v_reset_contexts :: "'e \<Rightarrow> 'e"

definition server_endpoint_vtable :: "'w pdu_env \<Rightarrow> (ActionServerEndpointImpl, 'w) IActionServerEndpoint" where
  "server_endpoint_vtable E = \<lparr>
     v_poll = ServerEndpoint_poll E,
     v_accept_goal = ServerEndpoint_accept_goal E,
     v_reject_goal = ServerEndpoint_reject_goal E,
     v_accept_cancel = ServerEndpoint_accept_cancel E,
     v_reject_cancel = ServerEndpoint_reject_cancel E,
     v_accept_cancel_locally = ServerEndpoint_accept_cancel_locally,
     v_create_result_buffer = ServerEndpoint_create_result_buffer E,
     v_create_feedback_buffer = ServerEndpoint_create_feedback_buffer E,
     v_send_feedback = ServerEndpoint_send_feedback E,
     v_complete = ServerEndpoint_complete E,
     v_complete_locally = ServerEndpoint_complete_locally E,
     v_discard_pending_goal = ServerEndpoint_discard_pending_goal,
     v_clear_pending_events = ServerEndpoint_clear_pending_events,
     v_reset_contexts = ServerEndpoint_reset_contexts\<rparr>"

section \<open>The contract\<close>

type_synonym server_view = "GoalId \<rightharpoonup> PacketBindingState \<times> bool"

text \<open>The completions a binding state allows.\<close>

definition terminal_allowed :: "PacketBindingState \<Rightarrow> TerminalStatus \<Rightarrow> bool" where
  "terminal_allowed s t \<longleftrightarrow>
     s = GOAL_ACCEPTED \<and> (t = SUCCEEDED \<or> t = ABORTED) \<or> s = CANCEL_ACCEPTED \<and> (t = CANCELED \<or> t = ABORTED)"

text \<open>What an event returned by \<open>poll\<close> says about the view before and after.\<close>

definition server_poll_effect :: "server_view \<Rightarrow> ServerEvent \<Rightarrow> server_view \<Rightarrow> bool" where
  "server_poll_effect u ev u' \<longleftrightarrow>
      (case se_type ev of
         SE_NONE \<Rightarrow> u' = u
       | SE_GOAL_REQUEST \<Rightarrow> u (server_goal_id (se_goal ev)) = None
           \<and> is_valid_goal_id (server_goal_id (se_goal ev))
           \<and> u' = u(server_goal_id (se_goal ev) \<mapsto> (AWAITING_GOAL_DECISION, False))
       | SE_CANCEL_REQUEST \<Rightarrow> u (server_goal_id (se_goal ev)) = Some (GOAL_ACCEPTED, False)
           \<and> u' = u(server_goal_id (se_goal ev) \<mapsto> (GOAL_ACCEPTED, True))
       | _ \<Rightarrow> False)"

locale action_server_endpoint =
  fixes V :: "('e, 'w) IActionServerEndpoint"
    and ok :: "'e \<Rightarrow> bool"
    and view :: "'e \<Rightarrow> server_view"
  assumes poll: "ok e \<Longrightarrow> v_poll V e w = (ev, e', w') \<Longrightarrow> ok e' \<and> server_poll_effect (view e) ev (view e')"
    and accept_goal: "ok e \<Longrightarrow> v_accept_goal V g e w = (r, e', w') \<Longrightarrow> ok e' \<and>
      (if r then view e g = Some (AWAITING_GOAL_DECISION, False) \<and> view e' = (view e)(g \<mapsto> (GOAL_ACCEPTED, False))
       else e' = e)"
    and reject_goal: "ok e \<Longrightarrow> v_reject_goal V g e w = (r, e', w') \<Longrightarrow> ok e' \<and>
      (if r then view e g = Some (AWAITING_GOAL_DECISION, False) \<and> view e' = (view e)(g := None) else e' = e)"
    and accept_cancel: "ok e \<Longrightarrow> v_accept_cancel V g e w = (r, e', w') \<Longrightarrow> ok e' \<and>
      (if r then view e g = Some (GOAL_ACCEPTED, True) \<and> view e' = (view e)(g \<mapsto> (CANCEL_ACCEPTED, False))
       else e' = e)"
    and reject_cancel: "ok e \<Longrightarrow> v_reject_cancel V g e w = (r, e', w') \<Longrightarrow> ok e' \<and>
      (if r then view e g = Some (GOAL_ACCEPTED, True) \<and> view e' = (view e)(g \<mapsto> (GOAL_ACCEPTED, False))
       else e' = e)"
    and accept_cancel_locally: "ok e \<Longrightarrow> v_accept_cancel_locally V g e = (r, e') \<Longrightarrow> ok e' \<and>
      (if r then (\<exists>p. view e g = Some (GOAL_ACCEPTED, p)) \<and> view e' = (view e)(g \<mapsto> (CANCEL_ACCEPTED, False))
       else e' = e)"
    and accept_cancel_locally_total:
      "ok e \<Longrightarrow> view e g = Some (GOAL_ACCEPTED, p) \<Longrightarrow> fst (v_accept_cancel_locally V g e)"
    and send_feedback: "ok e \<Longrightarrow> v_send_feedback V g d e w = (r, e', w') \<Longrightarrow> ok e' \<and> view e' = view e"
    and complete: "ok e \<Longrightarrow> v_complete V g t d e w = (c, e', w') \<Longrightarrow> ok e' \<and>
      (case c of
         NOT_COMMITTED \<Rightarrow> e' = e
       | SENT \<Rightarrow> (\<exists>s p. view e g = Some (s, p) \<and> terminal_allowed s t) \<and> view e' = (view e)(g := None)
       | SEND_FAILED_AFTER_COMMIT \<Rightarrow> (\<exists>s p. view e g = Some (s, p) \<and> terminal_allowed s t)
           \<and> view e' = (view e)(g \<mapsto> (RESULT_COMMITTED, False)))"
    and complete_locally: "ok e \<Longrightarrow> v_complete_locally V g t d e = (r, e') \<Longrightarrow> ok e' \<and>
      (if r then (\<exists>s p. view e g = Some (s, p) \<and> terminal_allowed s t) \<and> view e' = (view e)(g := None)
       else e' = e)"
    and discard: "ok e \<Longrightarrow> v_discard_pending_goal V g e = (r, e') \<Longrightarrow> ok e' \<and>
      (if r then view e g = Some (AWAITING_GOAL_DECISION, False) \<and> view e' = (view e)(g := None) else e' = e)"
    and clear: "ok e \<Longrightarrow> ok (v_clear_pending_events V e) \<and> view (v_clear_pending_events V e) = view e"
    and reset: "ok e \<Longrightarrow> ok (v_reset_contexts V e) \<and> view (v_reset_contexts V e) = (\<lambda>g. None)"

section \<open>The implementation satisfies it\<close>

definition server_endpoint_view :: "ActionServerEndpointImpl \<Rightarrow> server_view" where
  "server_endpoint_view st g =
     map_option (\<lambda>b. (ab_state b, ab_cancel_decision_pending b)) (sm_find (sv_packet_bindings st) g)"

text \<open>Initialised endpoints: the objects the services layer holds.\<close>

definition live_endpoint :: "ActionServerEndpointImpl \<Rightarrow> bool" where
  "live_endpoint st \<longleftrightarrow> server_endpoint_inv st \<and> sv_initialized st"

lemma view_release: "server_endpoint_view (release_binding_locked g st) = (server_endpoint_view st)(g := None)"
  by (rule ext) (simp add: server_endpoint_view_def find_release)

lemma view_commit:
  "sm_find (sv_packet_bindings st) g = Some b \<Longrightarrow>
   server_endpoint_view (commit_result g st) = (server_endpoint_view st)(g \<mapsto> (RESULT_COMMITTED, False))"
  by (rule ext) (simp add: server_endpoint_view_def commit_result_def)

lemma view_update:
  "sm_find (sv_packet_bindings st) g = Some b \<Longrightarrow>
   server_endpoint_view (st\<lparr>sv_packet_bindings := sm_update g f (sv_packet_bindings st)\<rparr>) =
     (server_endpoint_view st)(g \<mapsto> (ab_state (f b), ab_cancel_decision_pending (f b)))"
  by (rule ext) (simp add: server_endpoint_view_def)

lemma view_at: "sm_find (sv_packet_bindings st) g = Some b \<Longrightarrow>
   server_endpoint_view st g = Some (ab_state b, ab_cancel_decision_pending b)"
  by (simp add: server_endpoint_view_def)

lemma live_step:
  "live_endpoint (fst c) \<Longrightarrow> live_endpoint (fst (server_exec E c op))"
  by (simp add: live_endpoint_def server_exec_inv server_exec_static)

lemma awaiting_not_pending:
  "live_endpoint st \<Longrightarrow> sm_find (sv_packet_bindings st) g = Some b \<Longrightarrow> ab_state b = AWAITING_GOAL_DECISION \<Longrightarrow>
   \<not> ab_cancel_decision_pending b"
  using inv_binding [of st g b] by (auto simp: live_endpoint_def binding_ok_def)

lemma terminal_packet_allowed:
  "validate_terminal_packet_locked E st b t d = Some n \<Longrightarrow> terminal_allowed (ab_state b) t"
  by (auto simp: validate_terminal_packet_locked_def terminal_allowed_def Let_def split: if_splits)

lemma impl_decision_laws:
  assumes "live_endpoint e"
  shows "ServerEndpoint_accept_goal E g e w = (r, e', w') \<Longrightarrow> live_endpoint e' \<and>
      (if r then server_endpoint_view e g = Some (AWAITING_GOAL_DECISION, False)
         \<and> server_endpoint_view e' = (server_endpoint_view e)(g \<mapsto> (GOAL_ACCEPTED, False)) else e' = e)"
    and "ServerEndpoint_reject_goal E g e w = (r, e', w') \<Longrightarrow> live_endpoint e' \<and>
      (if r then server_endpoint_view e g = Some (AWAITING_GOAL_DECISION, False)
         \<and> server_endpoint_view e' = (server_endpoint_view e)(g := None) else e' = e)"
    and "ServerEndpoint_accept_cancel E g e w = (r, e', w') \<Longrightarrow> live_endpoint e' \<and>
      (if r then server_endpoint_view e g = Some (GOAL_ACCEPTED, True)
         \<and> server_endpoint_view e' = (server_endpoint_view e)(g \<mapsto> (CANCEL_ACCEPTED, False)) else e' = e)"
    and "ServerEndpoint_reject_cancel E g e w = (r, e', w') \<Longrightarrow> live_endpoint e' \<and>
      (if r then server_endpoint_view e g = Some (GOAL_ACCEPTED, True)
         \<and> server_endpoint_view e' = (server_endpoint_view e)(g \<mapsto> (GOAL_ACCEPTED, False)) else e' = e)"
proof -
  note live = live_step [of "(e, w)" E, simplified, OF assms]
  show "live_endpoint e' \<and> (if r then server_endpoint_view e g = Some (AWAITING_GOAL_DECISION, False)
      \<and> server_endpoint_view e' = (server_endpoint_view e)(g \<mapsto> (GOAL_ACCEPTED, False)) else e' = e)"
    if op: "ServerEndpoint_accept_goal E g e w = (r, e', w')"
    using live [of "Accept_Goal g"] op refused_ops_unchanged(1) [of E g e w e' w']
    by (cases r) (auto elim!: accept_goal_True simp: awaiting_not_pending [OF assms] view_update view_at)
  show "live_endpoint e' \<and> (if r then server_endpoint_view e g = Some (AWAITING_GOAL_DECISION, False)
      \<and> server_endpoint_view e' = (server_endpoint_view e)(g := None) else e' = e)"
    if op: "ServerEndpoint_reject_goal E g e w = (r, e', w')"
    using live [of "Reject_Goal g"] op refused_ops_unchanged(2) [of E g e w e' w']
    by (cases r) (auto elim!: reject_goal_True simp: awaiting_not_pending [OF assms] view_release view_at)
  show "live_endpoint e' \<and> (if r then server_endpoint_view e g = Some (GOAL_ACCEPTED, True)
      \<and> server_endpoint_view e' = (server_endpoint_view e)(g \<mapsto> (CANCEL_ACCEPTED, False)) else e' = e)"
    if op: "ServerEndpoint_accept_cancel E g e w = (r, e', w')"
    using live [of "Accept_Cancel g"] op refused_ops_unchanged(3) [of E g e w e' w']
    by (cases r) (auto elim!: accept_cancel_True simp: view_update view_at)
  show "live_endpoint e' \<and> (if r then server_endpoint_view e g = Some (GOAL_ACCEPTED, True)
      \<and> server_endpoint_view e' = (server_endpoint_view e)(g \<mapsto> (GOAL_ACCEPTED, False)) else e' = e)"
    if op: "ServerEndpoint_reject_cancel E g e w = (r, e', w')"
    using live [of "Reject_Cancel g"] op refused_ops_unchanged(4) [of E g e w e' w']
    by (cases r) (auto elim!: reject_cancel_True simp: view_update view_at)
qed

lemma impl_local_laws:
  assumes "live_endpoint e"
  shows "ServerEndpoint_accept_cancel_locally g e = (r, e') \<Longrightarrow> live_endpoint e' \<and>
      (if r then (\<exists>p. server_endpoint_view e g = Some (GOAL_ACCEPTED, p))
         \<and> server_endpoint_view e' = (server_endpoint_view e)(g \<mapsto> (CANCEL_ACCEPTED, False)) else e' = e)"
    and "server_endpoint_view e g = Some (GOAL_ACCEPTED, p) \<Longrightarrow> fst (ServerEndpoint_accept_cancel_locally g e)"
    and "ServerEndpoint_complete_locally E g t d e = (r, e') \<Longrightarrow> live_endpoint e' \<and>
      (if r then (\<exists>s p. server_endpoint_view e g = Some (s, p) \<and> terminal_allowed s t)
         \<and> server_endpoint_view e' = (server_endpoint_view e)(g := None) else e' = e)"
    and "ServerEndpoint_discard_pending_goal g e = (r, e') \<Longrightarrow> live_endpoint e' \<and>
      (if r then server_endpoint_view e g = Some (AWAITING_GOAL_DECISION, False)
         \<and> server_endpoint_view e' = (server_endpoint_view e)(g := None) else e' = e)"
proof -
  note live = live_step [of "(e, w)" E, simplified, OF assms]
  fix w :: "'a world"
  show "live_endpoint e' \<and> (if r then (\<exists>p. server_endpoint_view e g = Some (GOAL_ACCEPTED, p))
      \<and> server_endpoint_view e' = (server_endpoint_view e)(g \<mapsto> (CANCEL_ACCEPTED, False)) else e' = e)"
    if op: "ServerEndpoint_accept_cancel_locally g e = (r, e')"
    using live [where op = "Accept_Cancel_Locally g"] op
    by (auto simp: ServerEndpoint_accept_cancel_locally_def view_update view_at split: if_splits option.splits)
  show "fst (ServerEndpoint_accept_cancel_locally g e)"
    if "server_endpoint_view e g = Some (GOAL_ACCEPTED, p)"
    using that assms inv_binding [of e g]
    by (auto simp: ServerEndpoint_accept_cancel_locally_def server_endpoint_view_def live_endpoint_def binding_ok_def)
  show "live_endpoint e' \<and> (if r then (\<exists>s p. server_endpoint_view e g = Some (s, p) \<and> terminal_allowed s t)
      \<and> server_endpoint_view e' = (server_endpoint_view e)(g := None) else e' = e)"
    if op: "ServerEndpoint_complete_locally E g t d e = (r, e')"
    using live [where op = "Complete_Locally g t d"] op
    by (auto simp: ServerEndpoint_complete_locally_def view_release view_commit view_at
        dest: terminal_packet_allowed split: if_splits option.splits)
  show "live_endpoint e' \<and> (if r then server_endpoint_view e g = Some (AWAITING_GOAL_DECISION, False)
      \<and> server_endpoint_view e' = (server_endpoint_view e)(g := None) else e' = e)"
    if op: "ServerEndpoint_discard_pending_goal g e = (r, e')"
    using live [where op = "Discard_Pending_Goal g"] op awaiting_not_pending [OF assms]
    by (auto simp: ServerEndpoint_discard_pending_goal_def view_release view_at split: if_splits option.splits)
qed

lemma impl_send_laws:
  assumes "live_endpoint e"
  shows "ServerEndpoint_send_feedback E g d e w = (r, e', w') \<Longrightarrow>
      live_endpoint e' \<and> server_endpoint_view e' = server_endpoint_view e"
    and "ServerEndpoint_complete E g t d e w = (c, e', w') \<Longrightarrow> live_endpoint e' \<and>
      (case c of
         NOT_COMMITTED \<Rightarrow> e' = e
       | SENT \<Rightarrow> (\<exists>s p. server_endpoint_view e g = Some (s, p) \<and> terminal_allowed s t)
           \<and> server_endpoint_view e' = (server_endpoint_view e)(g := None)
       | SEND_FAILED_AFTER_COMMIT \<Rightarrow> (\<exists>s p. server_endpoint_view e g = Some (s, p) \<and> terminal_allowed s t)
           \<and> server_endpoint_view e' = (server_endpoint_view e)(g \<mapsto> (RESULT_COMMITTED, False)))"
proof -
  note live = live_step [of "(e, w)" E, simplified, OF assms]
  show "live_endpoint e' \<and> server_endpoint_view e' = server_endpoint_view e"
    if op: "ServerEndpoint_send_feedback E g d e w = (r, e', w')"
  proof (cases r)
    case True
    then obtain b where b: "sm_find (sv_packet_bindings e) g = Some b"
      and e': "e' = e\<lparr>sv_packet_bindings := sm_update g
       (\<lambda>b. b\<lparr>ab_next_feedback_sequence := ab_next_feedback_sequence b + 1\<rparr>) (sv_packet_bindings e)\<rparr>"
      using op send_feedback_True [of E g d e w e' w'] by auto
    have "server_endpoint_view e' = server_endpoint_view e"
      using b view_at [OF b] by (auto simp: e' view_update [OF b])
    then show ?thesis using live [of "Send_Feedback g d"] op by simp
  qed (use assms op refused_ops_unchanged(5) [of E g d e w e' w'] in auto)
  show "live_endpoint e' \<and> (case c of
         NOT_COMMITTED \<Rightarrow> e' = e
       | SENT \<Rightarrow> (\<exists>s p. server_endpoint_view e g = Some (s, p) \<and> terminal_allowed s t)
           \<and> server_endpoint_view e' = (server_endpoint_view e)(g := None)
       | SEND_FAILED_AFTER_COMMIT \<Rightarrow> (\<exists>s p. server_endpoint_view e g = Some (s, p) \<and> terminal_allowed s t)
           \<and> server_endpoint_view e' = (server_endpoint_view e)(g \<mapsto> (RESULT_COMMITTED, False)))"
    if op: "ServerEndpoint_complete E g t d e w = (c, e', w')"
  proof (cases "c = NOT_COMMITTED")
    case True
    then show ?thesis using assms op refused_ops_unchanged(6) [of E g t d e w e' w'] by auto
  next
    case False
    with op obtain b n where b: "sm_find (sv_packet_bindings e) g = Some b"
      "validate_terminal_packet_locked E e b t d = Some n"
      "e' = (if c = SENT then release_binding_locked g (commit_result g e) else commit_result g e)"
      by (rule complete_committed)
    then show ?thesis using live [of "Complete g t d"] op terminal_packet_allowed [OF b(2)] view_at [OF b(1)] False
      by (auto simp: view_release view_commit split: CompleteResult.splits)
  qed
qed

lemma handle_cancel_law:
  assumes "handle_cancel_request p g e = (ev, e')"
  shows "if se_type ev = SE_CANCEL_REQUEST
    then server_goal_id (se_goal ev) = g \<and> server_endpoint_view e g = Some (GOAL_ACCEPTED, False)
       \<and> server_endpoint_view e' = (server_endpoint_view e)(g \<mapsto> (GOAL_ACCEPTED, True))
    else se_type ev = SE_NONE \<and> e' = e"
proof (cases "sm_find (sv_packet_bindings e) g")
  case None
  with assms show ?thesis by (auto simp: handle_cancel_request_def empty_ServerEvent_def)
next
  case (Some b)
  then show ?thesis
    using assms view_update [OF Some, of "\<lambda>b. b\<lparr>ab_cancel_decision_pending := True\<rparr>"] view_at [OF Some]
    by (cases "ab_state b")
      (auto simp: handle_cancel_request_def empty_ServerEvent_def goal_event_def split: if_splits)
qed

lemma handle_goal_law:
  assumes "handle_goal_request E p g e w = (ev, e', w')"
  shows "if se_type ev = SE_GOAL_REQUEST
    then server_goal_id (se_goal ev) = g \<and> server_endpoint_view e g = None
       \<and> server_endpoint_view e' = (server_endpoint_view e)(g \<mapsto> (AWAITING_GOAL_DECISION, False))
    else se_type ev = SE_NONE \<and> e' = e"
  using assms
  by (auto simp: handle_goal_request_def Let_def empty_ServerEvent_def goal_event_def server_endpoint_view_def
      new_binding_def fun_eq_iff split: if_splits)

lemma poll_effect_none: "server_poll_effect u empty_ServerEvent u"
  by (simp add: server_poll_effect_def empty_ServerEvent_def)

lemma handle_law:
  assumes "ServerEndpoint_handle E p e w = (ev, e', w')"
  shows "server_poll_effect (server_endpoint_view e) ev (server_endpoint_view e')"
proof -
  have cancel: "server_poll_effect (server_endpoint_view e) ev' (server_endpoint_view e'')"
    if "handle_cancel_request p g e = (ev', e'')" for g ev' e''
    using handle_cancel_law [OF that] by (auto simp: server_poll_effect_def split: if_splits)
  have goal: "server_poll_effect (server_endpoint_view e) ev (server_endpoint_view e')"
    if "handle_goal_request E p g e w = (ev, e', w')" "is_valid_goal_id g" for g
    using handle_goal_law [OF that(1)] that(2) by (auto simp: server_poll_effect_def split: if_splits)
  show ?thesis
    using assms cancel goal poll_effect_none validate_request_valid
    by (auto simp: ServerEndpoint_handle_def Let_def split: if_splits option.splits prod.splits)
qed

lemma poll_law:
  assumes "live_endpoint e" and "ServerEndpoint_poll E e w = (ev, e', w')"
  shows "live_endpoint e' \<and> server_poll_effect (server_endpoint_view e) ev (server_endpoint_view e')"
proof
  have e': "e' = fst (snd (ServerEndpoint_poll E e w))" using assms by simp
  have "live_endpoint (fst (snd (ServerEndpoint_handle E p (snd (ServerEndpoint_take e)) w)))" for p
    using live_step [of "server_exec E (e, w) Take" E "Handle p"] live_step [of "(e, w)" E Take] assms(1) by simp
  then show "live_endpoint e'"
    using live_step [of "(e, w)" E Take] assms(1)
    unfolding e' poll_is_take_handle by (simp split: poll_front.splits)
  have "sv_pending_events e = []" using assms(1) by (simp add: live_endpoint_def server_endpoint_inv_def)
  moreover have "server_endpoint_view (e\<lparr>sv_pending_packets := ps\<rparr>) = server_endpoint_view e" for ps
    by (simp add: server_endpoint_view_def fun_eq_iff)
  ultimately show "server_poll_effect (server_endpoint_view e) ev (server_endpoint_view e')"
    using assms handle_law [of E] poll_effect_none
    by (auto simp: ServerEndpoint_poll_def ServerEndpoint_take_def split: if_splits list.splits) metis
qed

lemma impl_lifecycle_laws:
  assumes "live_endpoint e"
  shows "live_endpoint (ServerEndpoint_clear_pending_events e)
      \<and> server_endpoint_view (ServerEndpoint_clear_pending_events e) = server_endpoint_view e"
    and "live_endpoint (ServerEndpoint_reset_contexts e)
      \<and> server_endpoint_view (ServerEndpoint_reset_contexts e) = (\<lambda>g. None)"
  using assms clear_inv [of e] reset_inv [of e]
  by (simp_all add: live_endpoint_def server_endpoint_view_def ServerEndpoint_clear_pending_events_def
      ServerEndpoint_reset_contexts_def fun_eq_iff)

interpretation impl: action_server_endpoint "server_endpoint_vtable E" live_endpoint server_endpoint_view
  for E :: "'w pdu_env"
  by unfold_locales
    (auto simp: server_endpoint_vtable_def impl_lifecycle_laws
      dest: poll_law impl_decision_laws impl_local_laws impl_send_laws
      simp del: fun_upd_apply split del: if_split)

end
