(* ===== verification/Action_Services_Server.thy ===== *)
theory Action_Services_Server
  imports Server_State_Machine Action_Server_Interface
begin

text \<open>
  The Action server services, \<open>src/action_services_server.cpp\<close>: the Goal instances of every
  configured Action, each with its state machine context, on top of one packet endpoint per
  Action. The endpoint is used through the table \<open>IActionServerEndpoint\<close>, as the C++ code
  uses it through virtual calls.

  \<open>ActionInstance::endpoint\<close> is set from the construction of an instance on
  (\<open>initialize_services_impl\<close> is the only place that makes one), so the null checks of the
  operations are not modelled. Every operation holds the services mutex and is one step.
\<close>

section \<open>Data\<close>

record GoalInstance =
  gi_goal :: GoalId
  gi_context :: ServerGoalContext

record 'e ActionInstance =
  ai_action_name :: string
  ai_endpoint :: 'e
  ai_goals :: "GoalInstance list"

record 'e ActionServicesServer =
  ss_node_id :: string
  ss_impl_type :: string
  ss_has_time_source :: bool
  ss_actions :: "'e ActionInstance list"
  ss_pending_runtime_events :: "ServerEvent list"

section \<open>Lookup\<close>

definition get_action_locked :: "'e ActionServicesServer \<Rightarrow> string \<Rightarrow> 'e ActionInstance option" where
  "get_action_locked s name = List.find (\<lambda>a. ai_action_name a = name) (ss_actions s)"

definition set_action_locked :: "string \<Rightarrow> 'e ActionInstance \<Rightarrow> 'e ActionServicesServer \<Rightarrow> 'e ActionServicesServer" where
  "set_action_locked name a s =
     s\<lparr>ss_actions := update_first (\<lambda>x. ai_action_name x = name) (\<lambda>_. a) (ss_actions s)\<rparr>"

definition get_goal_locked :: "GoalInstance list \<Rightarrow> GoalId \<Rightarrow> GoalInstance option" where
  "get_goal_locked goals g = List.find (\<lambda>x. gi_goal x = g) goals"

definition has_goal_locked :: "GoalInstance list \<Rightarrow> GoalId \<Rightarrow> bool" where
  "has_goal_locked goals g \<longleftrightarrow> get_goal_locked goals g \<noteq> None"

definition remove_goal_locked :: "GoalId \<Rightarrow> GoalInstance list \<Rightarrow> GoalInstance list" where
  "remove_goal_locked g goals = remove_first (\<lambda>x. gi_goal x = g) goals"

text \<open>\<open>goal_instance->context = next\<close> through the pointer \<open>get_goal_locked\<close> returned.\<close>

definition set_context :: "GoalId \<Rightarrow> ServerGoalContext \<Rightarrow> GoalInstance list \<Rightarrow> GoalInstance list" where
  "set_context g c goals = update_first (\<lambda>x. gi_goal x = g) (\<lambda>x. x\<lparr>gi_context := c\<rparr>) goals"

section \<open>Initialisation and lifecycle\<close>

text \<open>
  The loop over the parsed configuration. \<open>ref\<close> is \<open>EndpointContainer::ref\<close> reduced to
  whether it returns an endpoint, \<open>endpoint_override\<close> whether one was handed in. Definition
  \<open>i\<close> is paired with entry \<open>i\<close> of the JSON array.
\<close>

fun initialize_actions ::
    "'w pdu_env \<Rightarrow> 'j json_ops \<Rightarrow> (string \<Rightarrow> bool) \<Rightarrow> bool \<Rightarrow> ActionServerEndpointImpl ActionServicesServer
     \<Rightarrow> (ActionDefinition \<times> 'j) list \<Rightarrow> ActionServerEndpointImpl ActionInstance list option" where
  "initialize_actions E J ref endpoint_override s [] = Some []"
| "initialize_actions E J ref endpoint_override s ((d, j) # rest) =
     (if er_node_id (ad_server_endpoint d) \<noteq> ss_node_id s
      then initialize_actions E J ref endpoint_override s rest
      else let endpoint_id = (if er_endpoint_id (ad_server_endpoint d) = []
                              then er_node_id (ad_server_endpoint d)
                              else er_endpoint_id (ad_server_endpoint d));
               pdu_endpoint = endpoint_override \<or> ref endpoint_id
      in if \<not> pdu_endpoint then None
         else if ss_impl_type s \<noteq> ''ActionServerEndpointImpl'' then None
         else (case ServerEndpoint_initialize E J j
                      (new_ActionServerEndpointImpl (ad_name d) pdu_endpoint (ss_has_time_source s)) of
                 (False, _) \<Rightarrow> None
               | (True, ep) \<Rightarrow>
                   map_option (\<lambda>as. \<lparr>ai_action_name = ad_name d, ai_endpoint = ep, ai_goals = []\<rparr> # as)
                     (initialize_actions E J ref endpoint_override s rest)))"

definition initialize_services_impl ::
    "'w pdu_env \<Rightarrow> 'j json_ops \<Rightarrow> (string + 'j) option \<Rightarrow> (string \<Rightarrow> bool) option \<Rightarrow> bool
     \<Rightarrow> ActionServerEndpointImpl ActionServicesServer
     \<Rightarrow> bool \<times> ActionServerEndpointImpl ActionServicesServer" where
  "initialize_services_impl E J config container endpoint_override s =
     (if container = None \<and> \<not> endpoint_override then (False, s)
      else case config of
        None \<Rightarrow> (False, s)
      | Some (Inl _) \<Rightarrow> (False, s)
      | Some (Inr root) \<Rightarrow>
          (case parse_configuration J root of
             Inl _ \<Rightarrow> (False, s)
           | Inr configuration \<Rightarrow>
               if ss_actions s \<noteq> [] then (False, s)
               else case initialize_actions E J (case container of None \<Rightarrow> (\<lambda>_. False) | Some r \<Rightarrow> r)
                           endpoint_override s
                           (zip configuration (case json_find J root ''actions'' of
                              None \<Rightarrow> [] | Some arr \<Rightarrow> json_elements J arr)) of
                 None \<Rightarrow> (False, s)
               | Some actions \<Rightarrow> (True, s\<lparr>ss_actions := actions\<rparr>)))"

definition ServicesServer_stop_all_services ::
    "('e, 'w) IActionServerEndpoint \<Rightarrow> 'e ActionServicesServer \<Rightarrow> 'e ActionServicesServer" where
  "ServicesServer_stop_all_services V s =
     s\<lparr>ss_pending_runtime_events := [],
       ss_actions := map (\<lambda>a. a\<lparr>ai_endpoint := v_clear_pending_events V (ai_endpoint a)\<rparr>) (ss_actions s)\<rparr>"

definition ServicesServer_clear_all_instances ::
    "('e, 'w) IActionServerEndpoint \<Rightarrow> 'e ActionServicesServer \<Rightarrow> 'e ActionServicesServer" where
  "ServicesServer_clear_all_instances V s =
     s\<lparr>ss_pending_runtime_events := [],
       ss_actions := map (\<lambda>a. a\<lparr>ai_goals := [], ai_endpoint := v_reset_contexts V (ai_endpoint a)\<rparr>) (ss_actions s)\<rparr>"

definition runtime_cancel_event :: "string \<Rightarrow> GoalId \<Rightarrow> ServerEvent" where
  "runtime_cancel_event name g =
     empty_ServerEvent\<lparr>se_type := SE_RUNTIME_CANCEL_REQUEST, se_action_name := name,
       se_goal := \<lparr>server_goal_id = g\<rparr>, se_runtime_cancel_cause := CAUSE_TRANSPORT_DISCONNECTED\<rparr>"

text \<open>The body of the two nested loops: one Goal of one Action.\<close>

definition queue_runtime_cancel :: "string \<Rightarrow> ServerEvent list \<Rightarrow> GoalInstance \<Rightarrow> ServerEvent list" where
  "queue_runtime_cancel name pending goal =
     (if list_ex (\<lambda>ev. se_type ev = SE_RUNTIME_CANCEL_REQUEST \<and> se_action_name ev = name
            \<and> server_goal_id (se_goal ev) = gi_goal goal) pending
      then pending
      else pending @ [runtime_cancel_event name (gi_goal goal)])"

definition ServicesServer_notify_transport_disconnected :: "'e ActionServicesServer \<Rightarrow> 'e ActionServicesServer" where
  "ServicesServer_notify_transport_disconnected s =
     s\<lparr>ss_pending_runtime_events :=
         foldl (\<lambda>pending a. foldl (queue_runtime_cancel (ai_action_name a)) pending (ai_goals a))
           (ss_pending_runtime_events s) (ss_actions s)\<rparr>"

definition ServicesServer_discard_pending_goal ::
    "('e, 'w) IActionServerEndpoint \<Rightarrow> string \<Rightarrow> GoalId \<Rightarrow> 'e ActionServicesServer
     \<Rightarrow> bool \<times> 'e ActionServicesServer" where
  "ServicesServer_discard_pending_goal V name g s =
     (if name = [] \<or> \<not> is_valid_goal_id g then (False, s)
      else case get_action_locked s name of
        None \<Rightarrow> (False, s)
      | Some a \<Rightarrow>
          if has_goal_locked (ai_goals a) g then (False, s)
          else (case v_discard_pending_goal V g (ai_endpoint a) of
                  (r, e') \<Rightarrow> (r, set_action_locked name (a\<lparr>ai_endpoint := e'\<rparr>) s)))"

section \<open>Polling\<close>

text \<open>
  The returned event carries the returned type in \<open>se_type\<close>; \<open>SE_NONE\<close> leaves the Goals and
  \<open>event_out\<close> alone.
\<close>

definition handle_cancel_event_locked ::
    "GoalInstance list \<Rightarrow> ServerEventType \<Rightarrow> ServerEvent \<Rightarrow> ServerEvent \<times> GoalInstance list" where
  "handle_cancel_event_locked goals event_type event =
     (case get_goal_locked goals (server_goal_id (se_goal event)) of
        None \<Rightarrow> (event\<lparr>se_type := SE_ERROR\<rparr>, goals)
      | Some goal \<Rightarrow>
          let state_event = (if event_type = SE_CANCEL_REQUEST then CANCEL_REQUEST_RECEIVED
                             else RUNTIME_CANCEL_REQUESTED);
              transition = transition_server_goal (gi_context goal) state_event
          in if st_kind transition = ST_ERROR then (event\<lparr>se_type := SE_ERROR\<rparr>, goals)
             else if st_kind transition = ST_NOP then (empty_ServerEvent, goals)
             else (event\<lparr>se_type := event_type\<rparr>,
                   set_context (server_goal_id (se_goal event)) (st_next transition) goals))"

text \<open>The \<open>while\<close> loop over the queued runtime events.\<close>

fun poll_runtime ::
    "'e ActionServicesServer \<Rightarrow> ServerEvent list
     \<Rightarrow> (string \<times> ServerEvent) option \<times> 'e ActionServicesServer" where
  "poll_runtime s [] = (None, s\<lparr>ss_pending_runtime_events := []\<rparr>)"
| "poll_runtime s (event # rest) =
     (case get_action_locked s (se_action_name event) of
        None \<Rightarrow> poll_runtime s rest
      | Some a \<Rightarrow>
          (case handle_cancel_event_locked (ai_goals a) SE_RUNTIME_CANCEL_REQUEST event of
             (ev, goals') \<Rightarrow>
               if se_type ev = SE_NONE then poll_runtime s rest
               else (Some (ai_action_name a, ev),
                     (set_action_locked (se_action_name event) (a\<lparr>ai_goals := goals'\<rparr>) s)
                       \<lparr>ss_pending_runtime_events := rest\<rparr>)))"

text \<open>The \<open>for\<close> loop over the endpoints.\<close>

fun poll_endpoints ::
    "('e, 'w) IActionServerEndpoint \<Rightarrow> 'e ActionInstance list \<Rightarrow> 'w world
     \<Rightarrow> (string \<times> ServerEvent) option \<times> 'e ActionInstance list \<times> 'w world" where
  "poll_endpoints V [] w = (None, [], w)"
| "poll_endpoints V (a # as) w =
     (case v_poll V (ai_endpoint a) w of
        (ev, e', w') \<Rightarrow>
          let a' = a\<lparr>ai_endpoint := e'\<rparr>;
              event = ev\<lparr>se_action_name := ai_action_name a\<rparr>
          in if se_type ev = SE_NONE
             then (case poll_endpoints V as w' of (r, as', w'') \<Rightarrow> (r, a' # as', w''))
             else if se_type ev = SE_GOAL_REQUEST \<or> se_type ev = SE_ERROR
             then (Some (ai_action_name a, event), a' # as, w')
             else (case handle_cancel_event_locked (ai_goals a) (se_type ev) event of
                     (out, goals') \<Rightarrow>
                       if se_type out = SE_NONE
                       then (case poll_endpoints V as w' of (r, as', w'') \<Rightarrow> (r, a' # as', w''))
                       else (Some (ai_action_name a, out), a'\<lparr>ai_goals := goals'\<rparr> # as, w')))"

definition ServicesServer_poll ::
    "('e, 'w) IActionServerEndpoint \<Rightarrow> 'e ActionServicesServer \<Rightarrow> 'w world
     \<Rightarrow> (string \<times> ServerEvent) option \<times> 'e ActionServicesServer \<times> 'w world" where
  "ServicesServer_poll V s w =
     (case poll_runtime s (ss_pending_runtime_events s) of
        (Some r, s') \<Rightarrow> (Some r, s', w)
      | (None, s') \<Rightarrow>
          (case poll_endpoints V (ss_actions s') w of
             (r, as', w') \<Rightarrow> (r, s'\<lparr>ss_actions := as'\<rparr>, w')))"

section \<open>Goal operations\<close>

definition ServicesServer_accept_goal ::
    "('e, 'w) IActionServerEndpoint \<Rightarrow> string \<Rightarrow> GoalId \<Rightarrow> 'e ActionServicesServer \<Rightarrow> 'w world
     \<Rightarrow> bool \<times> 'e ActionServicesServer \<times> 'w world" where
  "ServicesServer_accept_goal V name g s w =
     (if name = [] \<or> \<not> is_valid_goal_id g then (False, s, w)
      else case get_action_locked s name of
        None \<Rightarrow> (False, s, w)
      | Some a \<Rightarrow>
          if has_goal_locked (ai_goals a) g then (False, s, w)
          else let staged = ai_goals a @ [\<lparr>gi_goal = g, gi_context = initial_ServerGoalContext\<rparr>]
               in case v_accept_goal V g (ai_endpoint a) w of
                    (False, e', w') \<Rightarrow>
                      (False, set_action_locked name (a\<lparr>ai_endpoint := e', ai_goals := butlast staged\<rparr>) s, w')
                  | (True, e', w') \<Rightarrow>
                      (True, set_action_locked name (a\<lparr>ai_endpoint := e', ai_goals := staged\<rparr>) s, w'))"

definition ServicesServer_reject_goal ::
    "('e, 'w) IActionServerEndpoint \<Rightarrow> string \<Rightarrow> GoalId \<Rightarrow> 'e ActionServicesServer \<Rightarrow> 'w world
     \<Rightarrow> bool \<times> 'e ActionServicesServer \<times> 'w world" where
  "ServicesServer_reject_goal V name g s w =
     (if name = [] \<or> \<not> is_valid_goal_id g then (False, s, w)
      else case get_action_locked s name of
        None \<Rightarrow> (False, s, w)
      | Some a \<Rightarrow>
          if has_goal_locked (ai_goals a) g then (False, s, w)
          else (case v_reject_goal V g (ai_endpoint a) w of
                  (r, e', w') \<Rightarrow> (r, set_action_locked name (a\<lparr>ai_endpoint := e'\<rparr>) s, w')))"

definition ServicesServer_create_feedback_buffer ::
    "('e, 'w) IActionServerEndpoint \<Rightarrow> string \<Rightarrow> 'e ActionServicesServer \<Rightarrow> 'w world \<Rightarrow> pdu_data option" where
  "ServicesServer_create_feedback_buffer V name s w =
     (if name = [] then None
      else case get_action_locked s name of
        None \<Rightarrow> None
      | Some a \<Rightarrow> v_create_feedback_buffer V (ai_endpoint a) w)"

definition ServicesServer_create_result_buffer ::
    "('e, 'w) IActionServerEndpoint \<Rightarrow> string \<Rightarrow> 'e ActionServicesServer \<Rightarrow> 'w world \<Rightarrow> pdu_data option" where
  "ServicesServer_create_result_buffer V name s w =
     (if name = [] then None
      else case get_action_locked s name of
        None \<Rightarrow> None
      | Some a \<Rightarrow> v_create_result_buffer V (ai_endpoint a) w)"

definition ServicesServer_accept_cancel ::
    "('e, 'w) IActionServerEndpoint \<Rightarrow> string \<Rightarrow> GoalId \<Rightarrow> 'e ActionServicesServer \<Rightarrow> 'w world
     \<Rightarrow> bool \<times> 'e ActionServicesServer \<times> 'w world" where
  "ServicesServer_accept_cancel V name g s w =
     (if name = [] \<or> \<not> is_valid_goal_id g then (False, s, w)
      else case get_action_locked s name of
        None \<Rightarrow> (False, s, w)
      | Some a \<Rightarrow>
          (case get_goal_locked (ai_goals a) g of
             None \<Rightarrow> (False, s, w)
           | Some goal \<Rightarrow>
               let cancel_origin = sg_cancel_origin (gi_context goal);
                   transition = transition_server_goal (gi_context goal) ACCEPT_CANCEL
               in if st_kind transition = ST_ERROR then (False, s, w)
                  else if st_kind transition \<noteq> ST_TRANSITIONED then (False, s, w)
                  else case (if cancel_origin = ORIGIN_CLIENT
                             then v_accept_cancel V g (ai_endpoint a) w
                             else case v_accept_cancel_locally V g (ai_endpoint a) of (r, e') \<Rightarrow> (r, e', w)) of
                    (False, e', w') \<Rightarrow> (False, set_action_locked name (a\<lparr>ai_endpoint := e'\<rparr>) s, w')
                  | (True, e', w') \<Rightarrow>
                      (True, set_action_locked name
                         (a\<lparr>ai_endpoint := e', ai_goals := set_context g (st_next transition) (ai_goals a)\<rparr>) s, w')))"

definition ServicesServer_reject_cancel ::
    "('e, 'w) IActionServerEndpoint \<Rightarrow> string \<Rightarrow> GoalId \<Rightarrow> 'e ActionServicesServer \<Rightarrow> 'w world
     \<Rightarrow> bool \<times> 'e ActionServicesServer \<times> 'w world" where
  "ServicesServer_reject_cancel V name g s w =
     (if name = [] \<or> \<not> is_valid_goal_id g then (False, s, w)
      else case get_action_locked s name of
        None \<Rightarrow> (False, s, w)
      | Some a \<Rightarrow>
          (case get_goal_locked (ai_goals a) g of
             None \<Rightarrow> (False, s, w)
           | Some goal \<Rightarrow>
               let cancel_origin = sg_cancel_origin (gi_context goal);
                   transition = transition_server_goal (gi_context goal) REJECT_CANCEL
               in if st_kind transition = ST_ERROR then (False, s, w)
                  else if st_kind transition \<noteq> ST_TRANSITIONED then (False, s, w)
                  else case (if cancel_origin = ORIGIN_CLIENT
                             then v_reject_cancel V g (ai_endpoint a) w
                             else (True, ai_endpoint a, w)) of
                    (False, e', w') \<Rightarrow> (False, set_action_locked name (a\<lparr>ai_endpoint := e'\<rparr>) s, w')
                  | (True, e', w') \<Rightarrow>
                      (True, set_action_locked name
                         (a\<lparr>ai_endpoint := e', ai_goals := set_context g (st_next transition) (ai_goals a)\<rparr>) s, w')))"

definition ServicesServer_send_feedback ::
    "('e, 'w) IActionServerEndpoint \<Rightarrow> string \<Rightarrow> GoalId \<Rightarrow> pdu_data \<Rightarrow> 'e ActionServicesServer \<Rightarrow> 'w world
     \<Rightarrow> bool \<times> 'e ActionServicesServer \<times> 'w world" where
  "ServicesServer_send_feedback V name g feedback_pdu s w =
     (if name = [] \<or> \<not> is_valid_goal_id g \<or> feedback_pdu = [] then (False, s, w)
      else case get_action_locked s name of
        None \<Rightarrow> (False, s, w)
      | Some a \<Rightarrow>
          (case get_goal_locked (ai_goals a) g of
             None \<Rightarrow> (False, s, w)
           | Some goal \<Rightarrow>
               let transition = transition_server_goal (gi_context goal) PUBLISH_FEEDBACK
               in if st_kind transition = ST_ERROR then (False, s, w)
                  else if st_kind transition \<noteq> ST_NOP then (False, s, w)
                  else (case v_send_feedback V g feedback_pdu (ai_endpoint a) w of
                          (r, e', w') \<Rightarrow> (r, set_action_locked name (a\<lparr>ai_endpoint := e'\<rparr>) s, w'))))"

fun complete_event :: "TerminalStatus \<Rightarrow> ServerGoalEvent" where
  "complete_event SUCCEEDED = COMPLETE_SUCCEEDED"
| "complete_event CANCELED = COMPLETE_CANCELED"
| "complete_event ABORTED = COMPLETE_ABORTED"
| "complete_event TS_UNSPECIFIED = COMPLETE_UNSPECIFIED"

definition complete_goal_locked ::
    "('e, 'w) IActionServerEndpoint \<Rightarrow> 'e ActionInstance \<Rightarrow> GoalInstance \<Rightarrow> TerminalStatus \<Rightarrow> pdu_data \<Rightarrow> bool
     \<Rightarrow> 'w world \<Rightarrow> bool \<times> 'e ActionInstance \<times> 'w world" where
  "complete_goal_locked V a goal status result_pdu local_only w =
     (let transition = transition_server_goal (gi_context goal) (complete_event status); g = gi_goal goal
      in if st_kind transition = ST_ERROR then (False, a, w)
         else if st_kind transition \<noteq> ST_TRANSITIONED then (False, a, w)
         else if local_only
         then (case v_complete_locally V g status result_pdu (ai_endpoint a) of
                 (False, e') \<Rightarrow> (False, a\<lparr>ai_endpoint := e'\<rparr>, w)
               | (True, e') \<Rightarrow> (True, a\<lparr>ai_endpoint := e', ai_goals := remove_goal_locked g (ai_goals a)\<rparr>, w))
         else (case v_complete V g status result_pdu (ai_endpoint a) w of
                 (NOT_COMMITTED, e', w') \<Rightarrow> (False, a\<lparr>ai_endpoint := e'\<rparr>, w')
               | (SENT, e', w') \<Rightarrow>
                   (True, a\<lparr>ai_endpoint := e', ai_goals := remove_goal_locked g (ai_goals a)\<rparr>, w')
               | (SEND_FAILED_AFTER_COMMIT, e', w') \<Rightarrow>
                   (False, a\<lparr>ai_endpoint := e', ai_goals := set_context g (st_next transition) (ai_goals a)\<rparr>, w')))"

definition complete_common ::
    "('e, 'w) IActionServerEndpoint \<Rightarrow> bool \<Rightarrow> string \<Rightarrow> GoalId \<Rightarrow> TerminalStatus \<Rightarrow> pdu_data
     \<Rightarrow> 'e ActionServicesServer \<Rightarrow> 'w world \<Rightarrow> bool \<times> 'e ActionServicesServer \<times> 'w world" where
  "complete_common V local_only name g status result_pdu s w =
     (if name = [] \<or> \<not> is_valid_goal_id g \<or> result_pdu = [] then (False, s, w)
      else case get_action_locked s name of
        None \<Rightarrow> (False, s, w)
      | Some a \<Rightarrow>
          (case get_goal_locked (ai_goals a) g of
             None \<Rightarrow> (False, s, w)
           | Some goal \<Rightarrow>
               (case complete_goal_locked V a goal status result_pdu local_only w of
                  (r, a', w') \<Rightarrow> (r, set_action_locked name a' s, w'))))"

definition ServicesServer_complete ::
    "('e, 'w) IActionServerEndpoint \<Rightarrow> string \<Rightarrow> GoalId \<Rightarrow> TerminalStatus \<Rightarrow> pdu_data
     \<Rightarrow> 'e ActionServicesServer \<Rightarrow> 'w world \<Rightarrow> bool \<times> 'e ActionServicesServer \<times> 'w world" where
  "ServicesServer_complete V name g status result_pdu s w = complete_common V False name g status result_pdu s w"

definition ServicesServer_complete_locally ::
    "('e, 'w) IActionServerEndpoint \<Rightarrow> string \<Rightarrow> GoalId \<Rightarrow> TerminalStatus \<Rightarrow> pdu_data
     \<Rightarrow> 'e ActionServicesServer \<Rightarrow> 'w world \<Rightarrow> bool \<times> 'e ActionServicesServer \<times> 'w world" where
  "ServicesServer_complete_locally V name g status result_pdu s w = complete_common V True name g status result_pdu s w"

end
