(* ===== verification/Services_Server_Sync.thy ===== *)
theory Services_Server_Sync
  imports Action_Services_Server
begin

text \<open>
  The two layers of the server keep two states for one Goal: the services layer a state
  machine context, the packet endpoint a binding. This theory shows that they never
  disagree. The argument uses the endpoint only through its contract: the lemmas are proved
  in the locale \<open>action_server_endpoint\<close> and reach the code through its interpretation.
\<close>

section \<open>Agreement\<close>

fun binding_of :: "GoalState \<Rightarrow> PacketBindingState" where
  "binding_of EXECUTING = GOAL_ACCEPTED"
| "binding_of CANCELING = CANCEL_ACCEPTED"
| "binding_of FINISHING = RESULT_COMMITTED"
| "binding_of GS_UNSPECIFIED = AWAITING_GOAL_DECISION"

text \<open>
  A Goal instance matches a binding in the corresponding state, and a Cancel decision that
  is pending on behalf of the client is pending there too. A Goal without instance is
  unknown to the endpoint or waits for its decision.
\<close>

definition goal_match :: "(PacketBindingState \<times> bool) option \<Rightarrow> GoalInstance option \<Rightarrow> bool" where
  "goal_match u x \<longleftrightarrow>
     (case x of
        None \<Rightarrow> u = None \<or> u = Some (AWAITING_GOAL_DECISION, False)
      | Some i \<Rightarrow> is_valid_server_context (gi_context i)
          \<and> (\<exists>p. u = Some (binding_of (sg_state (gi_context i)), p)
                 \<and> (sg_cancel_origin (gi_context i) = ORIGIN_CLIENT \<longrightarrow> p)))"

definition goals_match :: "server_view \<Rightarrow> GoalInstance list \<Rightarrow> bool" where
  "goals_match u goals \<longleftrightarrow>
     distinct (map gi_goal goals) \<and> (\<forall>g. goal_match (u g) (get_goal_locked goals g))"

definition action_sync :: "('e \<Rightarrow> bool) \<Rightarrow> ('e \<Rightarrow> server_view) \<Rightarrow> 'e ActionInstance \<Rightarrow> bool" where
  "action_sync ok view a \<longleftrightarrow> ok (ai_endpoint a) \<and> goals_match (view (ai_endpoint a)) (ai_goals a)"

definition services_sync :: "('e \<Rightarrow> bool) \<Rightarrow> ('e \<Rightarrow> server_view) \<Rightarrow> 'e ActionServicesServer \<Rightarrow> bool" where
  "services_sync ok view s \<longleftrightarrow> list_all (action_sync ok view) (ss_actions s)"

section \<open>Goal vectors\<close>

lemma get_goal_Nil [simp]: "get_goal_locked [] g = None"
  by (simp add: get_goal_locked_def)

lemma get_goal_id: "get_goal_locked goals g = Some x \<Longrightarrow> gi_goal x = g"
  by (auto simp: get_goal_locked_def dest: find_SomeD)

lemma get_goal_set_context:
  "get_goal_locked (set_context g c goals) g' =
     (if g' = g then map_option (\<lambda>x. x\<lparr>gi_context := c\<rparr>) (get_goal_locked goals g) else get_goal_locked goals g')"
  by (induction goals) (auto simp: get_goal_locked_def set_context_def)

lemma set_context_ids: "map gi_goal (set_context g c goals) = map gi_goal goals"
  unfolding set_context_def by (rule map_update_first) simp

lemma get_goal_snoc:
  "get_goal_locked (goals @ [x]) g' =
     (case get_goal_locked goals g' of None \<Rightarrow> if gi_goal x = g' then Some x else None | Some y \<Rightarrow> Some y)"
  by (simp add: get_goal_locked_def find_snoc)

lemma get_goal_None_iff: "get_goal_locked goals g = None \<longleftrightarrow> g \<notin> gi_goal ` set goals"
  by (auto simp: get_goal_locked_def find_None_iff)

lemma get_goal_remove:
  assumes "distinct (map gi_goal goals)"
  shows "get_goal_locked (remove_goal_locked g goals) g' = (if g' = g then None else get_goal_locked goals g')"
  using find_remove_first_same [OF assms, of g] find_remove_first_other [of "\<lambda>x. gi_goal x = g" "\<lambda>x. gi_goal x = g'" goals]
  by (auto simp: get_goal_locked_def remove_goal_locked_def)

lemma goals_matchD: "goals_match u goals \<Longrightarrow> goal_match (u g) (get_goal_locked goals g)"
  by (simp add: goals_match_def)

lemma goals_match_set_context:
  assumes "goals_match u goals" and "get_goal_locked goals g = Some x"
    and "is_valid_server_context c" and "sg_cancel_origin c = ORIGIN_CLIENT \<longrightarrow> p"
  shows "goals_match (u(g \<mapsto> (binding_of (sg_state c), p))) (set_context g c goals)"
  using assms by (auto simp: goals_match_def set_context_ids get_goal_set_context goal_match_def)

lemma goals_match_snoc:
  assumes "goals_match u goals" and new: "get_goal_locked goals g = None"
  shows "goals_match (u(g \<mapsto> (GOAL_ACCEPTED, False)))
     (goals @ [\<lparr>gi_goal = g, gi_context = initial_ServerGoalContext\<rparr>])"
proof -
  have "goal_match (Some (GOAL_ACCEPTED, False)) (Some \<lparr>gi_goal = g, gi_context = initial_ServerGoalContext\<rparr>)"
    by (simp add: goal_match_def) (simp add: initial_ServerGoalContext_def exI [of Not False])
  moreover have "get_goal_locked (goals @ [\<lparr>gi_goal = g, gi_context = initial_ServerGoalContext\<rparr>]) g' =
      (if g' = g then Some \<lparr>gi_goal = g, gi_context = initial_ServerGoalContext\<rparr> else get_goal_locked goals g')" for g'
    using new by (simp add: get_goal_snoc split: option.splits)
  ultimately show ?thesis
    using assms by (simp add: goals_match_def get_goal_None_iff)
qed

lemma goals_match_remove:
  assumes "goals_match u goals"
  shows "goals_match (u(g := None)) (remove_goal_locked g goals)"
proof -
  have d: "distinct (map gi_goal goals)" using assms by (simp add: goals_match_def)
  have "distinct (map gi_goal (remove_goal_locked g goals))"
    unfolding remove_goal_locked_def by (rule distinct_map_remove_first [OF d])
  moreover have "goal_match None None" by (simp add: goal_match_def)
  ultimately show ?thesis
    using assms by (simp add: goals_match_def get_goal_remove [OF d])
qed

lemma goals_match_unbound:
  assumes "goals_match u goals" and "get_goal_locked goals g = None"
    and "x = None \<or> x = Some (AWAITING_GOAL_DECISION, False)"
  shows "goals_match (u(g := x)) goals"
  using assms by (auto simp: goals_match_def goal_match_def split: option.splits)

section \<open>The state machine on matched Goals\<close>

lemma cancel_transitions:
  assumes "is_valid_server_context c"
  shows "st_kind (transition_server_goal c ACCEPT_CANCEL) = ST_TRANSITIONED \<Longrightarrow>
      sg_state c = EXECUTING \<and> sg_cancel_decision_pending c
      \<and> sg_state (st_next (transition_server_goal c ACCEPT_CANCEL)) = CANCELING
      \<and> sg_cancel_origin (st_next (transition_server_goal c ACCEPT_CANCEL)) = ORIGIN_NONE"
    and "st_kind (transition_server_goal c REJECT_CANCEL) = ST_TRANSITIONED \<Longrightarrow>
      sg_state c = EXECUTING \<and> sg_cancel_decision_pending c
      \<and> sg_state (st_next (transition_server_goal c REJECT_CANCEL)) = EXECUTING
      \<and> sg_cancel_origin (st_next (transition_server_goal c REJECT_CANCEL)) = ORIGIN_NONE"
    and "st_kind (transition_server_goal c (complete_event t)) = ST_TRANSITIONED \<Longrightarrow>
      terminal_allowed (binding_of (sg_state c)) t
      \<and> sg_state (st_next (transition_server_goal c (complete_event t))) = FINISHING
      \<and> sg_cancel_origin (st_next (transition_server_goal c (complete_event t))) = ORIGIN_NONE"
  using assms by (cases t; auto simp: server_sm_defs terminal_allowed_def split: if_splits)+

lemma cancel_request_transition:
  assumes "is_valid_server_context c" and "sg_state c = EXECUTING"
  shows "st_kind (transition_server_goal c CANCEL_REQUEST_RECEIVED) \<noteq> ST_ERROR"
    and "st_kind (transition_server_goal c CANCEL_REQUEST_RECEIVED) = ST_TRANSITIONED \<Longrightarrow>
      sg_state (st_next (transition_server_goal c CANCEL_REQUEST_RECEIVED)) = EXECUTING"
    and "st_kind (transition_server_goal c CANCEL_REQUEST_RECEIVED) = ST_NOP \<Longrightarrow> sg_cancel_decision_pending c"
  using assms by (auto simp: server_sm_defs split: if_splits)

lemma runtime_cancel_transition:
  assumes "is_valid_server_context c"
  shows "st_kind (transition_server_goal c RUNTIME_CANCEL_REQUESTED) \<noteq> ST_ERROR"
    and "st_kind (transition_server_goal c RUNTIME_CANCEL_REQUESTED) = ST_TRANSITIONED \<Longrightarrow>
      sg_state (st_next (transition_server_goal c RUNTIME_CANCEL_REQUESTED)) = sg_state c
      \<and> sg_cancel_origin (st_next (transition_server_goal c RUNTIME_CANCEL_REQUESTED)) = ORIGIN_RUNTIME"
  using assms by (auto simp: server_sm_defs split: if_splits)

section \<open>Every operation keeps the agreement\<close>

lemma services_sync_set:
  assumes "services_sync ok view s" and "action_sync ok view a'"
  shows "services_sync ok view (set_action_locked name a' s)"
proof -
  have "set (ss_actions (set_action_locked name a' s)) \<subseteq> insert a' (set (ss_actions s))"
    using set_update_first_subset [of "\<lambda>x. ai_action_name x = name" "\<lambda>_. a'" "ss_actions s"]
    by (auto simp: set_action_locked_def)
  then show ?thesis using assms by (auto simp: services_sync_def list_all_iff)
qed

lemma services_sync_get:
  "services_sync ok view s \<Longrightarrow> get_action_locked s name = Some a \<Longrightarrow> action_sync ok view a"
  by (auto simp: services_sync_def list_all_iff get_action_locked_def dest: find_SomeD)

lemma action_sync_parts:
  "action_sync ok view a \<Longrightarrow> ok (ai_endpoint a)" "action_sync ok view a \<Longrightarrow> goals_match (view (ai_endpoint a)) (ai_goals a)"
  by (simp_all add: action_sync_def)

lemma matched_goal:
  assumes "goals_match u goals" and "get_goal_locked goals g = Some x"
  obtains p where "is_valid_server_context (gi_context x)" "u g = Some (binding_of (sg_state (gi_context x)), p)"
    "sg_cancel_origin (gi_context x) = ORIGIN_CLIENT \<longrightarrow> p"
  using goals_matchD [OF assms(1), of g] assms(2) by (auto simp: goal_match_def)

context action_server_endpoint
begin

abbreviation async :: "'e ActionInstance \<Rightarrow> bool" where
  "async \<equiv> action_sync ok view"

abbreviation ssync :: "'e ActionServicesServer \<Rightarrow> bool" where
  "ssync \<equiv> services_sync ok view"

lemma action_sync_new:
  assumes "async a" and "ok e'" and "goals_match (view e') goals'"
  shows "async (a\<lparr>ai_endpoint := e', ai_goals := goals'\<rparr>)"
  using assms by (simp add: action_sync_def)

lemma accept_goal_sync:
  assumes s: "ssync s" and op: "ServicesServer_accept_goal V name g s w = (r, s', w')"
  shows "ssync s'"
proof (cases "get_action_locked s name")
  case None
  with assms show ?thesis by (auto simp: ServicesServer_accept_goal_def split: if_splits)
next
  case (Some a)
  note a = services_sync_get [OF s Some]
  obtain r1 e' w1 where e: "v_accept_goal V g (ai_endpoint a) w = (r1, e', w1)"
    by (cases "v_accept_goal V g (ai_endpoint a) w")
  note law = accept_goal [OF action_sync_parts(1) [OF a] e]
  have "async (a\<lparr>ai_endpoint := e', ai_goals := if r1 then ai_goals a @ [\<lparr>gi_goal = g, gi_context = initial_ServerGoalContext\<rparr>]
      else ai_goals a\<rparr>)" if "get_goal_locked (ai_goals a) g = None"
    using law action_sync_parts [OF a] goals_match_snoc [OF _ that]
    by (intro action_sync_new [OF a]) (auto split: if_splits)
  then show ?thesis using op s Some e services_sync_set [OF s]
    by (auto simp: ServicesServer_accept_goal_def has_goal_locked_def Let_def split: if_splits)
qed

lemma reject_goal_sync:
  assumes s: "ssync s" and op: "ServicesServer_reject_goal V name g s w = (r, s', w')"
  shows "ssync s'"
proof (cases "get_action_locked s name")
  case None
  with assms show ?thesis by (auto simp: ServicesServer_reject_goal_def split: if_splits)
next
  case (Some a)
  note a = services_sync_get [OF s Some]
  obtain r1 e' w1 where e: "v_reject_goal V g (ai_endpoint a) w = (r1, e', w1)"
    by (cases "v_reject_goal V g (ai_endpoint a) w")
  note law = reject_goal [OF action_sync_parts(1) [OF a] e]
  have "async (a\<lparr>ai_endpoint := e'\<rparr>)" if "get_goal_locked (ai_goals a) g = None"
    using law action_sync_parts [OF a] goals_match_unbound [OF _ that, of _ None]
    by (auto simp: action_sync_def split: if_splits)
  then show ?thesis using op s Some e services_sync_set [OF s]
    by (auto simp: ServicesServer_reject_goal_def has_goal_locked_def split: if_splits)
qed

lemma discard_pending_goal_sync:
  assumes s: "ssync s" and op: "ServicesServer_discard_pending_goal V name g s = (r, s')"
  shows "ssync s'"
proof (cases "get_action_locked s name")
  case None
  with assms show ?thesis by (auto simp: ServicesServer_discard_pending_goal_def split: if_splits)
next
  case (Some a)
  note a = services_sync_get [OF s Some]
  obtain r1 e' where e: "v_discard_pending_goal V g (ai_endpoint a) = (r1, e')"
    by (cases "v_discard_pending_goal V g (ai_endpoint a)")
  note law = discard [OF action_sync_parts(1) [OF a] e]
  have "async (a\<lparr>ai_endpoint := e'\<rparr>)" if "get_goal_locked (ai_goals a) g = None"
    using law action_sync_parts [OF a] goals_match_unbound [OF _ that, of _ None]
    by (auto simp: action_sync_def split: if_splits)
  then show ?thesis using op s Some e services_sync_set [OF s]
    by (auto simp: ServicesServer_discard_pending_goal_def has_goal_locked_def split: if_splits)
qed

text \<open>The endpoint side of an accepted or rejected Cancel.\<close>

lemma commit_accepted_cancel:
  assumes a: "async a" and x: "get_goal_locked (ai_goals a) g = Some x"
    and t: "st_kind (transition_server_goal (gi_context x) ACCEPT_CANCEL) = ST_TRANSITIONED"
    and e: "(if sg_cancel_origin (gi_context x) = ORIGIN_CLIENT then v_accept_cancel V g (ai_endpoint a) w
       else case v_accept_cancel_locally V g (ai_endpoint a) of (r, e') \<Rightarrow> (r, e', w)) = (r, e', w')"
  shows "async (a\<lparr>ai_endpoint := e', ai_goals := if r then
      set_context g (st_next (transition_server_goal (gi_context x) ACCEPT_CANCEL)) (ai_goals a) else ai_goals a\<rparr>)"
proof -
  obtain p where p: "is_valid_server_context (gi_context x)" by (rule matched_goal [OF action_sync_parts(2) [OF a] x])
  have law: "ok e' \<and> (if r then view e' = (view (ai_endpoint a))(g \<mapsto> (CANCEL_ACCEPTED, False)) else e' = ai_endpoint a)"
    using e accept_cancel [OF action_sync_parts(1) [OF a], of g w r e' w']
      accept_cancel_locally [OF action_sync_parts(1) [OF a], of g r e']
    by (auto split: if_splits prod.splits)
  have "goals_match (view e') (set_context g (st_next (transition_server_goal (gi_context x) ACCEPT_CANCEL)) (ai_goals a))"
    if r
    using goals_match_set_context [OF action_sync_parts(2) [OF a] x server_transition_valid [OF p], of ACCEPT_CANCEL False]
      cancel_transitions(1) [OF p t] law that by simp
  then show ?thesis using law action_sync_parts [OF a] by (intro action_sync_new [OF a]) auto
qed

lemma commit_rejected_cancel:
  assumes a: "async a" and x: "get_goal_locked (ai_goals a) g = Some x"
    and t: "st_kind (transition_server_goal (gi_context x) REJECT_CANCEL) = ST_TRANSITIONED"
    and e: "(if sg_cancel_origin (gi_context x) = ORIGIN_CLIENT then v_reject_cancel V g (ai_endpoint a) w
       else (True, ai_endpoint a, w)) = (r, e', w')"
  shows "async (a\<lparr>ai_endpoint := e', ai_goals := if r then
      set_context g (st_next (transition_server_goal (gi_context x) REJECT_CANCEL)) (ai_goals a) else ai_goals a\<rparr>)"
proof -
  obtain p where p: "is_valid_server_context (gi_context x)"
    and v: "view (ai_endpoint a) g = Some (binding_of (sg_state (gi_context x)), p)"
    by (rule matched_goal [OF action_sync_parts(2) [OF a] x])
  note c = cancel_transitions(2) [OF p t]
  have law: "ok e' \<and> (if r then \<exists>q. view e' = (view (ai_endpoint a))(g \<mapsto> (GOAL_ACCEPTED, q)) else e' = ai_endpoint a)"
  proof (cases "sg_cancel_origin (gi_context x) = ORIGIN_CLIENT")
    case True
    then show ?thesis using e reject_cancel [OF action_sync_parts(1) [OF a], of g w r e' w'] by auto
  next
    case False
    have "view (ai_endpoint a) = (view (ai_endpoint a))(g \<mapsto> (GOAL_ACCEPTED, p))" using v c by auto
    then show ?thesis using e False action_sync_parts(1) [OF a] by auto
  qed
  have "goals_match (view e') (set_context g (st_next (transition_server_goal (gi_context x) REJECT_CANCEL)) (ai_goals a))"
    if r
    using goals_match_set_context [OF action_sync_parts(2) [OF a] x server_transition_valid [OF p], of REJECT_CANCEL]
      c law that by auto
  then show ?thesis using law action_sync_parts [OF a] by (intro action_sync_new [OF a]) auto
qed

lemma accept_cancel_sync:
  assumes s: "ssync s" and op: "ServicesServer_accept_cancel V name g s w = (r, s', w')"
  shows "ssync s'"
proof (cases "\<exists>a x. get_action_locked s name = Some a \<and> get_goal_locked (ai_goals a) g = Some x
    \<and> st_kind (transition_server_goal (gi_context x) ACCEPT_CANCEL) = ST_TRANSITIONED")
  case True
  then obtain a x where ax: "get_action_locked s name = Some a" "get_goal_locked (ai_goals a) g = Some x"
    "st_kind (transition_server_goal (gi_context x) ACCEPT_CANCEL) = ST_TRANSITIONED" by blast
  let ?e = "if sg_cancel_origin (gi_context x) = ORIGIN_CLIENT then v_accept_cancel V g (ai_endpoint a) w
       else case v_accept_cancel_locally V g (ai_endpoint a) of (r, e') \<Rightarrow> (r, e', w)"
  obtain r1 e' w1 where e: "?e = (r1, e', w1)" by (cases ?e)
  note sync = services_sync_set [OF s commit_accepted_cancel [OF services_sync_get [OF s ax(1)] ax(2,3) e], of name]
  show ?thesis
    using op s sync unfolding ServicesServer_accept_cancel_def
    by (cases r1) (auto simp: ax e Let_def split: if_splits)
qed (use assms in \<open>auto simp: ServicesServer_accept_cancel_def Let_def split: if_splits option.splits\<close>)

lemma reject_cancel_sync:
  assumes s: "ssync s" and op: "ServicesServer_reject_cancel V name g s w = (r, s', w')"
  shows "ssync s'"
proof (cases "\<exists>a x. get_action_locked s name = Some a \<and> get_goal_locked (ai_goals a) g = Some x
    \<and> st_kind (transition_server_goal (gi_context x) REJECT_CANCEL) = ST_TRANSITIONED")
  case True
  then obtain a x where ax: "get_action_locked s name = Some a" "get_goal_locked (ai_goals a) g = Some x"
    "st_kind (transition_server_goal (gi_context x) REJECT_CANCEL) = ST_TRANSITIONED" by blast
  let ?e = "if sg_cancel_origin (gi_context x) = ORIGIN_CLIENT then v_reject_cancel V g (ai_endpoint a) w
       else (True, ai_endpoint a, w)"
  obtain r1 e' w1 where e: "?e = (r1, e', w1)" by (cases ?e)
  note sync = services_sync_set [OF s commit_rejected_cancel [OF services_sync_get [OF s ax(1)] ax(2,3) e], of name]
  show ?thesis
    using op s sync unfolding ServicesServer_reject_cancel_def
    by (cases r1) (auto simp: ax e Let_def split: if_splits)
qed (use assms in \<open>auto simp: ServicesServer_reject_cancel_def Let_def split: if_splits option.splits\<close>)

lemma send_feedback_sync:
  assumes s: "ssync s" and op: "ServicesServer_send_feedback V name g d s w = (r, s', w')"
  shows "ssync s'"
proof -
  have "ssync (set_action_locked name (a\<lparr>ai_endpoint := e'\<rparr>) s)"
    if "get_action_locked s name = Some a" "v_send_feedback V g d (ai_endpoint a) w = (r1, e', w1)" for a r1 e' w1
    using services_sync_get [OF s that(1)] send_feedback [OF _ that(2)]
    by (intro services_sync_set [OF s]) (simp add: action_sync_def)
  then show ?thesis
    using op s by (auto simp: ServicesServer_send_feedback_def Let_def split: if_splits option.splits prod.splits)
qed

lemma complete_goal_locked_sync:
  assumes a: "async a" and x: "get_goal_locked (ai_goals a) g = Some x"
    and op: "complete_goal_locked V a x t d loc w = (r, a', w')"
  shows "async a'"
proof (cases "st_kind (transition_server_goal (gi_context x) (complete_event t)) = ST_TRANSITIONED")
  case True
  note id = get_goal_id [OF x]
  note m = action_sync_parts [OF a]
  obtain p where p: "is_valid_server_context (gi_context x)" by (rule matched_goal [OF m(2) x])
  let ?c = "st_next (transition_server_goal (gi_context x) (complete_event t))"
  have fin: "goals_match ((view (ai_endpoint a))(g \<mapsto> (RESULT_COMMITTED, False))) (set_context g ?c (ai_goals a))"
    using goals_match_set_context [OF m(2) x server_transition_valid [OF p], of "complete_event t" False]
      cancel_transitions(3) [OF p True] by simp
  show ?thesis
  proof (cases loc)
    case loc: True
    obtain r1 e' where e: "v_complete_locally V g t d (ai_endpoint a) = (r1, e')"
      by (cases "v_complete_locally V g t d (ai_endpoint a)")
    show ?thesis
      using op loc True id e complete_locally [OF m(1) e] m goals_match_remove [OF m(2), of g]
      by (cases r1) (auto simp: complete_goal_locked_def Let_def action_sync_def)
  next
    case loc: False
    obtain c e' w1 where e: "v_complete V g t d (ai_endpoint a) w = (c, e', w1)"
      by (cases "v_complete V g t d (ai_endpoint a) w")
    show ?thesis
      using op loc True id e complete [OF m(1) e] m goals_match_remove [OF m(2), of g] fin
      by (cases c) (auto simp: complete_goal_locked_def Let_def action_sync_def)
  qed
qed (use assms in \<open>auto simp: complete_goal_locked_def Let_def split: if_splits\<close>)

lemma complete_sync:
  assumes s: "ssync s" and op: "complete_common V loc name g t d s w = (r, s', w')"
  shows "ssync s'"
proof -
  have "ssync (set_action_locked name a' s)"
    if "get_action_locked s name = Some a" "get_goal_locked (ai_goals a) g = Some x"
      "complete_goal_locked V a x t d loc w = (r1, a', w1)" for a x r1 a' w1
    by (rule services_sync_set [OF s complete_goal_locked_sync [OF services_sync_get [OF s that(1)] that(2,3)]])
  then show ?thesis
    using op s by (auto simp: complete_common_def split: if_splits option.splits prod.splits)
qed

lemma lifecycle_sync:
  assumes "ssync s"
  shows "ssync (ServicesServer_stop_all_services V s)" and "ssync (ServicesServer_clear_all_instances V s)"
    and "ssync (ServicesServer_notify_transport_disconnected s)"
proof -
  show "ssync (ServicesServer_stop_all_services V s)"
    using assms clear by (auto simp: services_sync_def ServicesServer_stop_all_services_def list_all_iff action_sync_def)
  have "goals_match (\<lambda>g. None) []" by (simp add: goals_match_def goal_match_def)
  then show "ssync (ServicesServer_clear_all_instances V s)"
    using assms reset by (auto simp: services_sync_def ServicesServer_clear_all_instances_def list_all_iff action_sync_def)
  show "ssync (ServicesServer_notify_transport_disconnected s)"
    using assms by (simp add: services_sync_def ServicesServer_notify_transport_disconnected_def)
qed

text \<open>A runtime Cancel changes only the services side.\<close>

lemma runtime_cancel_goals:
  assumes m: "goals_match u goals" and h: "handle_cancel_event_locked goals SE_RUNTIME_CANCEL_REQUEST ev = (out, goals')"
  shows "goals_match u goals'"
proof (cases "get_goal_locked goals (server_goal_id (se_goal ev))")
  case None
  with m h show ?thesis by (simp add: handle_cancel_event_locked_def)
next
  case (Some x)
  let ?g = "server_goal_id (se_goal ev)" and ?t = "transition_server_goal (gi_context x) RUNTIME_CANCEL_REQUESTED"
  obtain p where p: "is_valid_server_context (gi_context x)" "u ?g = Some (binding_of (sg_state (gi_context x)), p)"
    by (rule matched_goal [OF m Some])
  show ?thesis
  proof (cases "st_kind ?t = ST_TRANSITIONED")
    case True
    note rt = runtime_cancel_transition(2) [OF p(1) True]
    have "u(?g \<mapsto> (binding_of (sg_state (st_next ?t)), p)) = u" using rt p(2) by auto
    with goals_match_set_context [OF m Some server_transition_valid [OF p(1)], of RUNTIME_CANCEL_REQUESTED p] rt
    have "goals_match u (set_context ?g (st_next ?t) goals)" by simp
    then show ?thesis using h Some True by (auto simp: handle_cancel_event_locked_def Let_def)
  next
    case False
    then show ?thesis using m h Some
      by (cases "st_kind ?t") (auto simp: handle_cancel_event_locked_def Let_def)
  qed
qed

lemma poll_runtime_sync: "ssync s \<Longrightarrow> poll_runtime s evs = (r, s') \<Longrightarrow> ssync s'"
proof (induction s evs arbitrary: r s' rule: poll_runtime.induct)
  case (1 s)
  then show ?case by (auto simp: services_sync_def)
next
  case (2 s ev rest)
  show ?case
  proof (cases "get_action_locked s (se_action_name ev)")
    case None
    with 2 show ?thesis by simp
  next
    case (Some a)
    note a = services_sync_get [OF "2.prems"(1) Some]
    obtain out goals' where h: "handle_cancel_event_locked (ai_goals a) SE_RUNTIME_CANCEL_REQUEST ev = (out, goals')"
      by (cases "handle_cancel_event_locked (ai_goals a) SE_RUNTIME_CANCEL_REQUEST ev")
    have "async (a\<lparr>ai_goals := goals'\<rparr>)"
      using action_sync_parts [OF a] runtime_cancel_goals [OF _ h] by (simp add: action_sync_def)
    then have "ssync (set_action_locked (se_action_name ev) (a\<lparr>ai_goals := goals'\<rparr>) s)"
      by (rule services_sync_set [OF "2.prems"(1)])
    then show ?thesis using 2 Some h by (auto simp: services_sync_def split: if_splits)
  qed
qed

text \<open>
  A Cancel Request from the endpoint finds its Goal executing: it is delivered, or ignored
  because a runtime Cancel is already pending; it is never an error.
\<close>

lemma client_cancel_goals:
  assumes m: "goals_match u goals" and g: "g = server_goal_id (se_goal ev)" and u: "u g = Some (GOAL_ACCEPTED, False)"
    and h: "handle_cancel_event_locked goals SE_CANCEL_REQUEST ev = (out, goals')"
  shows "goals_match (u(g \<mapsto> (GOAL_ACCEPTED, True))) goals' \<and> se_type out \<in> {SE_NONE, SE_CANCEL_REQUEST}"
proof -
  obtain x where x: "get_goal_locked goals g = Some x"
    using goals_matchD [OF m, of g] u by (auto simp: goal_match_def split: option.splits)
  obtain p where p: "is_valid_server_context (gi_context x)" "u g = Some (binding_of (sg_state (gi_context x)), p)"
    by (rule matched_goal [OF m x])
  have ex: "sg_state (gi_context x) = EXECUTING"
    using p u by (cases "sg_state (gi_context x)") auto
  let ?t = "transition_server_goal (gi_context x) CANCEL_REQUEST_RECEIVED"
  note t = cancel_request_transition [OF p(1) ex]
  have "set_context g (gi_context x) goals = goals"
    unfolding set_context_def using x by (intro update_first_id) (auto simp: get_goal_locked_def)
  then have same: "goals_match (u(g \<mapsto> (GOAL_ACCEPTED, True))) goals"
    using goals_match_set_context [OF m x p(1), of True] ex by simp
  show ?thesis
  proof (cases "st_kind ?t")
    case ST_TRANSITIONED
    then have "goals_match (u(g \<mapsto> (GOAL_ACCEPTED, True))) (set_context g (st_next ?t) goals)"
      using goals_match_set_context [OF m x server_transition_valid [OF p(1)], of CANCEL_REQUEST_RECEIVED True] t(2)
      by simp
    then show ?thesis using h x g ST_TRANSITIONED by (auto simp: handle_cancel_event_locked_def Let_def)
  next
    case ST_NOP
    then show ?thesis using h x g same by (auto simp: handle_cancel_event_locked_def Let_def empty_ServerEvent_def)
  qed (use t(1) in simp)
qed

lemma poll_endpoints_sync:
  "list_all async as \<Longrightarrow> poll_endpoints V as w = (r, as', w') \<Longrightarrow>
   list_all async as' \<and> (\<forall>name ev. r = Some (name, ev) \<longrightarrow> se_type ev \<in> {SE_GOAL_REQUEST, SE_CANCEL_REQUEST})"
proof (induction as arbitrary: w r as' w')
  case Nil
  then show ?case by auto
next
  case (Cons a as)
  then have a: "async a" and rest: "list_all async as" by simp_all
  note m = action_sync_parts [OF a]
  obtain ev e' w1 where e: "v_poll V (ai_endpoint a) w = (ev, e', w1)" by (cases "v_poll V (ai_endpoint a) w")
  obtain r2 as2 w2 where rec: "poll_endpoints V as w1 = (r2, as2, w2)" by (cases "poll_endpoints V as w1")
  note IH = Cons.IH [OF rest rec]
  note law = poll [OF m(1) e]
  let ?g = "server_goal_id (se_goal ev)" and ?ev = "ev\<lparr>se_action_name := ai_action_name a\<rparr>"
  show ?case
  proof (cases "se_type ev")
    case SE_NONE
    then show ?thesis using Cons.prems e rec IH law m by (auto simp: server_poll_effect_def action_sync_def)
  next
    case SE_GOAL_REQUEST
    have "get_goal_locked (ai_goals a) ?g = None"
      using goals_matchD [OF m(2), of ?g] law SE_GOAL_REQUEST
      by (auto simp: server_poll_effect_def goal_match_def split: option.splits)
    then show ?thesis
      using Cons.prems e rest law m SE_GOAL_REQUEST
        goals_match_unbound [OF m(2), of ?g "Some (AWAITING_GOAL_DECISION, False)"]
      by (auto simp: server_poll_effect_def action_sync_def Let_def)
  next
    case SE_CANCEL_REQUEST
    obtain out goals' where h: "handle_cancel_event_locked (ai_goals a) SE_CANCEL_REQUEST ?ev = (out, goals')"
      by (cases "handle_cancel_event_locked (ai_goals a) SE_CANCEL_REQUEST ?ev")
    have v: "view (ai_endpoint a) ?g = Some (GOAL_ACCEPTED, False)" "ok e'"
      "view e' = (view (ai_endpoint a))(?g \<mapsto> (GOAL_ACCEPTED, True))"
      using law SE_CANCEL_REQUEST by (auto simp: server_poll_effect_def)
    have c: "goals_match (view e') goals' \<and> se_type out \<in> {SE_NONE, SE_CANCEL_REQUEST}"
      using client_cancel_goals [OF m(2) _ v(1), of ?ev] h v(3) by simp
    have same: "goals' = ai_goals a" if "se_type out = SE_NONE"
      using h that c by (auto simp: handle_cancel_event_locked_def Let_def SE_CANCEL_REQUEST split: option.splits if_splits)
    show ?thesis
      using Cons.prems e rec IH rest h c v(2) same SE_CANCEL_REQUEST
      by (auto simp: action_sync_def Let_def split: if_splits)
  qed (use law in \<open>auto simp: server_poll_effect_def\<close>)
qed

lemma poll_sync:
  assumes "ssync s" and "ServicesServer_poll V s w = (r, s', w')"
  shows "ssync s'"
proof -
  obtain r1 s1 where p: "poll_runtime s (ss_pending_runtime_events s) = (r1, s1)"
    by (cases "poll_runtime s (ss_pending_runtime_events s)")
  note s1 = poll_runtime_sync [OF assms(1) p]
  obtain r2 as2 w2 where q: "poll_endpoints V (ss_actions s1) w = (r2, as2, w2)"
    by (cases "poll_endpoints V (ss_actions s1) w")
  have "list_all async (ss_actions s1)" using s1 by (simp add: services_sync_def)
  from poll_endpoints_sync [OF this q] show ?thesis
    using assms p q s1 by (auto simp: ServicesServer_poll_def services_sync_def split: option.splits)
qed

lemma ops_sync:
  assumes "ssync s"
  shows "ssync (fst (snd (ServicesServer_poll V s w)))"
    and "ssync (fst (snd (ServicesServer_accept_goal V n g s w)))"
    and "ssync (fst (snd (ServicesServer_reject_goal V n g s w)))"
    and "ssync (fst (snd (ServicesServer_accept_cancel V n g s w)))"
    and "ssync (fst (snd (ServicesServer_reject_cancel V n g s w)))"
    and "ssync (fst (snd (ServicesServer_send_feedback V n g d s w)))"
    and "ssync (fst (snd (ServicesServer_complete V n g t d s w)))"
    and "ssync (fst (snd (ServicesServer_complete_locally V n g t d s w)))"
    and "ssync (snd (ServicesServer_discard_pending_goal V n g s))"
  by (metis prod.collapse assms accept_goal_sync reject_goal_sync accept_cancel_sync
      reject_cancel_sync send_feedback_sync complete_sync ServicesServer_complete_def
      ServicesServer_complete_locally_def discard_pending_goal_sync poll_sync)+

end

end
