(* ===== verification/Example_Bytes.thy ===== *)
theory Example_Bytes
  imports Prelude
begin

text \<open>
  Byte-level helpers of the example environments: reading a byte, overwriting part of a
  buffer, and little-endian 32-bit fields.
\<close>

unbundle bit_operations_syntax

definition byte_at :: "pdu_data \<Rightarrow> nat \<Rightarrow> byte" where
  "byte_at p i = (if i < length p then p ! i else 0)"

definition overwrite :: "nat \<Rightarrow> pdu_data \<Rightarrow> pdu_data \<Rightarrow> pdu_data" where
  "overwrite off bs p = take off p @ bs @ drop (off + length bs) p"

definition le32 :: "uint32 \<Rightarrow> byte list" where
  "le32 w = [ucast w, ucast (drop_bit 8 w), ucast (drop_bit 16 w), ucast (drop_bit 24 w)]"

definition of_le32 :: "byte list \<Rightarrow> uint32" where
  "of_le32 bs = ucast (byte_at bs 0) OR push_bit 8 (ucast (byte_at bs 1))
     OR push_bit 16 (ucast (byte_at bs 2)) OR push_bit 24 (ucast (byte_at bs 3))"

lemma of_le32_le32: "of_le32 (le32 w) = w"
proof (rule bit_word_eqI)
  fix n
  assume "n < LENGTH(32)"
  then consider "n < 8" | "8 \<le> n" "n < 16" | "16 \<le> n" "n < 24" | "24 \<le> n" "n < 32" by fastforce
  then show "bit (of_le32 (le32 w)) n = bit w n"
    by cases (auto simp: of_le32_def le32_def byte_at_def bit_simps less_diff_conv2)
qed

lemma length_le32 [simp]: "length (le32 w) = 4"
  by (simp add: le32_def)

lemma overwrite_in_range:
  assumes "off + length bs \<le> n" and "n \<le> length p"
  shows "length (overwrite off bs p) = length p" and "k \<le> off \<Longrightarrow> take k (overwrite off bs p) = take k p"
    and "take (length bs) (drop off (take n (overwrite off bs p))) = bs"
  using assms by (auto simp: overwrite_def min_def)

lemma byte_at_Cons [simp]: "byte_at (x # xs) i = (if i = 0 then x else byte_at xs (i - 1))"
  by (auto simp: byte_at_def less_Suc_eq_0_disj nth_Cons split: nat.splits)

lemma byte_at_take: "i < k \<Longrightarrow> byte_at (take k b) i = byte_at b i"
  by (auto simp: byte_at_def)

end
