(* ===== verification/Example_Environment.thy ===== *)
theory Example_Environment
  imports Action_Packet Example_Bytes
begin

text \<open>
  A concrete registry and transport: the instance of \<open>pdu_env\<close> on which the witnesses of
  the endpoint theorems are evaluated, and which shows that \<open>registry_ok\<close> can hold. A
  packet starts with a magic byte and one byte each for the three metadata offsets; the
  headers are 24 bytes at offset 8. The transport is a script of send results, and a send
  after the end of the script succeeds.
\<close>

definition example_env :: "bool list pdu_env" where
  "example_env = \<lparr>
     HAKO_ALIGNMENT_SIZE = 8,
     HAKO_PDU_META_DATA_SIZE = 8,
     sizeof_metadata = 4,
     read_metadata = (\<lambda>p. \<lparr>md_base_off = ucast (byte_at p 1), md_heap_off = ucast (byte_at p 2),
       md_total_size = ucast (byte_at p 3)\<rparr>),
     metadata_is_invalid = (\<lambda>p. byte_at p 0 \<noteq> 170),
     sizeof_ActionRequestHeader = 24,
     sizeof_ActionResponseHeader = 24,
     sizeof_ActionFeedbackHeader = 24,
     pdu2cpp_ActionRequestHeader = (\<lambda>p. let b = drop 8 p in
       Some \<lparr>rqh_version = byte_at b 0, rqh_request_kind = byte_at b 1,
         rqh_reserved = take 2 (drop 2 b), rqh_goal_id = take 16 (drop 4 b)\<rparr>),
     pdu2cpp_ActionResponseHeader = (\<lambda>p. let b = drop 8 p in
       Some \<lparr>rsh_version = byte_at b 0, rsh_response_kind = byte_at b 1, rsh_status = byte_at b 2,
         rsh_reserved = byte_at b 3, rsh_goal_id = take 16 (drop 4 b)\<rparr>),
     pdu2cpp_ActionFeedbackHeader = (\<lambda>p. let b = drop 8 p in
       Some \<lparr>fbh_version = byte_at b 0, fbh_reserved = take 3 (drop 1 b),
         fbh_goal_id = take 16 (drop 4 b), fbh_sequence_no = of_le32 (take 4 (drop 20 b))\<rparr>),
     cpp2pdu_ActionRequestHeader = (\<lambda>h p. Some (overwrite 8
       ([rqh_version h, rqh_request_kind h] @ rqh_reserved h @ rqh_goal_id h @ [0, 0, 0, 0]) p)),
     cpp2pdu_ActionResponseHeader = (\<lambda>h p. Some (overwrite 8
       ([rsh_version h, rsh_response_kind h, rsh_status h, rsh_reserved h] @ rsh_goal_id h @ [0, 0, 0, 0]) p)),
     cpp2pdu_ActionFeedbackHeader = (\<lambda>h p. Some (overwrite 8
       ([fbh_version h] @ fbh_reserved h @ fbh_goal_id h @ le32 (fbh_sequence_no h)) p)),
     hako_create_empty_pdu = (\<lambda>b h t.
       let heap = 8 + (b + 7) div 8 * 8; total = heap + (h + 7) div 8 * 8
       in if total < 256
          then Some ([170, 8, of_nat heap, of_nat total, 0, 0, 0, 0] @ replicate (total - 8) 0)
          else None),
     hako_pdu_get_size = (\<lambda>type. Some 24),
     endpoint_transmit = (\<lambda>key bytes t. case t of [] \<Rightarrow> (True, []) | b # bs \<Rightarrow> (b, bs)),
     get_microseconds = (\<lambda>t. 0)\<rparr>"

lemma example_convertors:
  "cpp2pdu_ActionRequestHeader example_env rq p = Some (overwrite 8
     ([rqh_version rq, rqh_request_kind rq] @ rqh_reserved rq @ rqh_goal_id rq @ [0, 0, 0, 0]) p)"
  "cpp2pdu_ActionResponseHeader example_env rs p = Some (overwrite 8
     ([rsh_version rs, rsh_response_kind rs, rsh_status rs, rsh_reserved rs] @ rsh_goal_id rs @ [0, 0, 0, 0]) p)"
  "cpp2pdu_ActionFeedbackHeader example_env fb p = Some (overwrite 8
     ([fbh_version fb] @ fbh_reserved fb @ fbh_goal_id fb @ le32 (fbh_sequence_no fb)) p)"
  "pdu2cpp_ActionRequestHeader example_env p = Some
     \<lparr>rqh_version = byte_at (drop 8 p) 0, rqh_request_kind = byte_at (drop 8 p) 1,
      rqh_reserved = take 2 (drop 2 (drop 8 p)), rqh_goal_id = take 16 (drop 4 (drop 8 p))\<rparr>"
  "pdu2cpp_ActionResponseHeader example_env p = Some
     \<lparr>rsh_version = byte_at (drop 8 p) 0, rsh_response_kind = byte_at (drop 8 p) 1,
      rsh_status = byte_at (drop 8 p) 2, rsh_reserved = byte_at (drop 8 p) 3,
      rsh_goal_id = take 16 (drop 4 (drop 8 p))\<rparr>"
  "pdu2cpp_ActionFeedbackHeader example_env p = Some
     \<lparr>fbh_version = byte_at (drop 8 p) 0, fbh_reserved = take 3 (drop 1 (drop 8 p)),
      fbh_goal_id = take 16 (drop 4 (drop 8 p)),
      fbh_sequence_no = of_le32 (take 4 (drop 20 (drop 8 p)))\<rparr>"
  by (simp_all add: example_env_def Let_def)

lemma example_prefix:
  assumes "has_valid_packet_prefix example_env p 24"
  shows "32 \<le> unat (md_total_size (read_metadata example_env p))"
    and "unat (md_total_size (read_metadata example_env p)) \<le> length p"
  using assms
  by (auto simp: has_valid_packet_prefix_def Let_def example_env_def word_le_nat_alt split: if_splits)

text \<open>A header written at offset 8 is found there again in the packet cut to its wire size.\<close>

lemma example_header:
  assumes "has_valid_packet_prefix example_env p 24" and "length bs = 24"
  defines "n \<equiv> unat (md_total_size (read_metadata example_env p))"
  shows "length (overwrite 8 bs p) = length p" and "take 4 (overwrite 8 bs p) = take 4 p"
    and "take 24 (drop 8 (take n (overwrite 8 bs p))) = bs"
  using overwrite_in_range [of 8 bs n p, unfolded assms(2)] example_prefix [OF assms(1), folded n_def]
  by simp_all

lemma header_parts:
  assumes "take 24 b = bs"
  shows "byte_at b 0 = byte_at bs 0" "byte_at b 1 = byte_at bs 1" "byte_at b 2 = byte_at bs 2"
    "byte_at b 3 = byte_at bs 3" "take 2 (drop 2 b) = take 2 (drop 2 bs)"
    "take 3 (drop 1 b) = take 3 (drop 1 bs)" "take 16 (drop 4 b) = take 16 (drop 4 bs)"
    "take 4 (drop 20 b) = take 4 (drop 20 bs)"
  by (simp_all add: assms [symmetric] byte_at_take drop_take)

lemma registry_ok_example: "registry_ok example_env"
proof -
  have sel: "sizeof_metadata example_env = 4" "sizeof_ActionRequestHeader example_env = 24"
    "sizeof_ActionResponseHeader example_env = 24" "sizeof_ActionFeedbackHeader example_env = 24"
    "HAKO_PDU_META_DATA_SIZE example_env = 8"
    by (simp_all add: example_env_def)
  have meta: "read_metadata example_env p = read_metadata example_env q
      \<and> metadata_is_invalid example_env p = metadata_is_invalid example_env q"
    if "take 4 p = take 4 q" for p q
  proof -
    have "byte_at p i = byte_at q i" if "i < 4" for i
      using that \<open>take 4 p = take 4 q\<close> byte_at_take [OF that] by metis
    then show ?thesis by (simp add: example_env_def)
  qed
  have rq: "header_codec example_env 24 (\<lambda>h. length (rqh_goal_id h) = 16 \<and> length (rqh_reserved h) = 2)
      (cpp2pdu_ActionRequestHeader example_env) (pdu2cpp_ActionRequestHeader example_env)"
    unfolding header_codec_def sel
  proof (intro allI impI, elim conjE)
    fix h :: ActionRequestHeader and p
    assume h: "length (rqh_goal_id h) = 16" "length (rqh_reserved h) = 2"
      and p: "has_valid_packet_prefix example_env p 24"
    let ?bs = "[rqh_version h, rqh_request_kind h] @ rqh_reserved h @ rqh_goal_id h @ [0, 0, 0, 0]"
    have "length ?bs = 24" using h by simp
    note e = example_header [OF p this]
    have "pdu2cpp_ActionRequestHeader example_env
        (take (unat (md_total_size (read_metadata example_env p))) (overwrite 8 ?bs p)) = Some h"
      unfolding example_convertors header_parts [OF e(3)] using h by (simp)
    then show "\<exists>q. cpp2pdu_ActionRequestHeader example_env h p = Some q \<and> length q = length p
        \<and> take 4 q = take 4 p
        \<and> pdu2cpp_ActionRequestHeader example_env
            (take (unat (md_total_size (read_metadata example_env p))) q) = Some h"
      using e(1,2) example_convertors by blast
  qed
  have rs: "header_codec example_env 24 (\<lambda>h. length (rsh_goal_id h) = 16)
      (cpp2pdu_ActionResponseHeader example_env) (pdu2cpp_ActionResponseHeader example_env)"
    unfolding header_codec_def sel
  proof (intro allI impI, elim conjE)
    fix h :: ActionResponseHeader and p
    assume h: "length (rsh_goal_id h) = 16" and p: "has_valid_packet_prefix example_env p 24"
    let ?bs = "[rsh_version h, rsh_response_kind h, rsh_status h, rsh_reserved h] @ rsh_goal_id h @ [0, 0, 0, 0]"
    have "length ?bs = 24" using h by simp
    note e = example_header [OF p this]
    have "pdu2cpp_ActionResponseHeader example_env
        (take (unat (md_total_size (read_metadata example_env p))) (overwrite 8 ?bs p)) = Some h"
      unfolding example_convertors header_parts [OF e(3)] using h by (simp)
    then show "\<exists>q. cpp2pdu_ActionResponseHeader example_env h p = Some q \<and> length q = length p
        \<and> take 4 q = take 4 p
        \<and> pdu2cpp_ActionResponseHeader example_env
            (take (unat (md_total_size (read_metadata example_env p))) q) = Some h"
      using e(1,2) example_convertors by blast
  qed
  have fb: "header_codec example_env 24 (\<lambda>h. length (fbh_goal_id h) = 16 \<and> length (fbh_reserved h) = 3)
      (cpp2pdu_ActionFeedbackHeader example_env) (pdu2cpp_ActionFeedbackHeader example_env)"
    unfolding header_codec_def sel
  proof (intro allI impI, elim conjE)
    fix h :: ActionFeedbackHeader and p
    assume h: "length (fbh_goal_id h) = 16" "length (fbh_reserved h) = 3"
      and p: "has_valid_packet_prefix example_env p 24"
    let ?bs = "[fbh_version h] @ fbh_reserved h @ fbh_goal_id h @ le32 (fbh_sequence_no h)"
    have "length ?bs = 24" using h by simp
    note e = example_header [OF p this]
    have "pdu2cpp_ActionFeedbackHeader example_env
        (take (unat (md_total_size (read_metadata example_env p))) (overwrite 8 ?bs p)) = Some h"
      unfolding example_convertors header_parts [OF e(3)] using h by (simp add: of_le32_le32)
    then show "\<exists>q. cpp2pdu_ActionFeedbackHeader example_env h p = Some q \<and> length q = length p
        \<and> take 4 q = take 4 p
        \<and> pdu2cpp_ActionFeedbackHeader example_env
            (take (unat (md_total_size (read_metadata example_env p))) q) = Some h"
      using e(1,2) example_convertors by blast
  qed
  show ?thesis
    unfolding registry_ok_def sel using meta rq rs fb by (intro conjI) (simp, blast+)
qed

end
