(* ===== verification/Server_Endpoint_Examples.thy ===== *)
theory Server_Endpoint_Examples
  imports Server_Endpoint_Wire Example_Environment
begin

text \<open>
  Concrete runs of the server endpoint on the example registry: a two-slot endpoint, a Goal
  bound to slot 0, its acceptance, Feedback and completion. The witnesses of the server
  endpoint's properties apply them at these points.
\<close>

definition g0 :: GoalId where
  "g0 = 7 # replicate 15 0"

definition body_packet :: pdu_data where
  "body_packet = [170, 8, 32, 40, 0, 0, 0, 0] @ replicate 32 0"

definition goal_packet :: pdu_data where
  "goal_packet = [170, 8, 32, 40, 0, 0, 0, 0] @ [1, 1, 0, 0] @ g0 @ replicate 12 0"

definition short_packet :: pdu_data where
  "short_packet = [170, 8, 8, 16] @ replicate 12 0"

definition w_ok :: "bool list world" where
  "w_ok = \<lparr>transport = [], outbox = []\<rparr>"

definition w_fail :: "bool list world" where
  "w_fail = \<lparr>transport = [False], outbox = []\<rparr>"

definition example_server :: ActionServerEndpointImpl where
  "example_server = (new_ActionServerEndpointImpl ''Move'' True True)\<lparr>
     sv_action_definition := Some example_definition,
     sv_slot_routing := map (slot_routing example_env ''Move'' example_definition) [0, 1],
     sv_slot_owners := [None, None], sv_initialized := True,
     sv_subscriptions := map (\<lambda>i. (channel_key ''Move'' i REQUEST, i)) [0, 1]\<rparr>"

definition bound_server :: "ActionPacketBinding \<Rightarrow> ActionServerEndpointImpl" where
  "bound_server b = example_server\<lparr>sv_slot_owners := [Some g0, None], sv_packet_bindings := [(g0, b)]\<rparr>"

lemma g0_valid [simp]: "is_valid_goal_id g0" "length g0 = 16"
  by (simp_all add: g0_def)

lemma example_supported [simp]:
  "supported_packet_capacity example_env 24 8" "supported_packet_capacity example_env 24 0"
  by (simp_all add: supported_packet_capacity_def aligned_size_def example_env_def INT_MAX_def)

lemma example_routing [simp]:
  "sr_request_packet_base_size (slot_routing example_env nm d i) = 24"
  "sr_response_packet_base_size (slot_routing example_env nm d i) = 24"
  "sr_feedback_packet_base_size (slot_routing example_env nm d i) = 24"
  "sr_request_heap_capacity (slot_routing example_env nm example_definition i) = 8"
  "sr_response_heap_capacity (slot_routing example_env nm example_definition i) = 8"
  "sr_feedback_heap_capacity (slot_routing example_env nm example_definition i) = 8"
  by (simp_all add: slot_routing_def Let_def example_env_def example_definition_def)

lemma example_initialize:
  "ServerEndpoint_initialize example_env value_json_ops example_action
     (new_ActionServerEndpointImpl ''Move'' True True) = (True, example_server)"
proof -
  have "packet_types_supported example_env example_definition"
    by (simp add: packet_types_supported_def type_supported_def example_definition_def)
       (simp add: example_env_def supported_packet_capacity_def aligned_size_def INT_MAX_def)
  then show ?thesis
    unfolding initialize_closed_form
    by (intro exI [of _ example_definition])
      (simp add: parse_example_action new_ActionServerEndpointImpl_def example_server_def Let_def
        upt_rec example_definition_def numeral_2_eq_2)
qed

lemma example_validate [simp]:
  assumes "length rest = 36"
  shows "validate_packet_capacity example_env (170 # 8 # 32 # 40 # rest) 24 8 exact = Some 40"
    and "has_valid_packet_prefix example_env (170 # 8 # 32 # 40 # rest) 24"
  using assms
  by (simp_all add: validate_packet_capacity_def has_valid_packet_prefix_def Let_def)
    (simp_all add: example_env_def aligned_size_def byte_at_def)

lemma example_validate_control [simp]:
  assumes "length rest = 28"
  shows "validate_packet_capacity example_env (170 # 8 # 32 # 32 # rest) 24 8 exact = Some 32"
    and "has_valid_packet_prefix example_env (170 # 8 # 32 # 32 # rest) 24"
  using assms
  by (simp_all add: validate_packet_capacity_def has_valid_packet_prefix_def Let_def)
    (simp_all add: example_env_def aligned_size_def byte_at_def)

lemma example_create [simp]:
  "create_packet_buffer example_env 24 0 w = Some ([170, 8, 32, 32, 0, 0, 0, 0] @ replicate 24 0)"
  by (simp add: create_packet_buffer_def INT_MAX_def) (simp add: example_env_def)

lemma example_send [simp]:
  "endpoint_send example_env k p \<lparr>transport = [], outbox = box\<rparr> = (True, \<lparr>transport = [], outbox = box @ [(k, p)]\<rparr>)"
  "endpoint_send example_env k p \<lparr>transport = b # bs, outbox = box\<rparr> =
     (b, \<lparr>transport = bs, outbox = if b then box @ [(k, p)] else box\<rparr>)"
  by (simp_all add: endpoint_send_def example_env_def split: bool.splits)

lemma example_sizes [simp]:
  "sizeof_ActionRequestHeader example_env = 24" "sizeof_ActionResponseHeader example_env = 24"
  "sizeof_ActionFeedbackHeader example_env = 24"
  by (simp_all add: example_env_def)

lemmas example_simps = bound_server_def example_server_def new_ActionServerEndpointImpl_def
  new_binding_def Let_def

lemma example_goal_request:
  "ServerEndpoint_handle example_env \<lparr>pp_slot_index = 0, pp_pdu = goal_packet\<rparr> example_server w =
     (goal_event example_server SE_GOAL_REQUEST g0 goal_packet, bound_server (new_binding g0 0), w)"
proof -
  have "validate_packet_capacity example_env goal_packet 24 8 True = Some 40"
    "has_valid_packet_prefix example_env goal_packet 24"
    by (simp_all add: goal_packet_def)
  moreover have "pdu2cpp_ActionRequestHeader example_env goal_packet =
      Some \<lparr>rqh_version = 1, rqh_request_kind = 1, rqh_reserved = [0, 0], rqh_goal_id = g0\<rparr>"
    by (simp add: example_convertors goal_packet_def g0_def)
  ultimately show ?thesis
    by (simp add: ServerEndpoint_handle_def decode_request_header_def validate_request_header_def
        protocol_constants handle_goal_request_def sm_emplace_def example_simps) (simp add: g0_def)
qed

lemma example_control:
  assumes "sv_slot_routing st = map (slot_routing example_env ''Move'' example_definition) [0, 1]"
    and "ab_slot_index b = 0"
  shows "\<exists>q. send_control_response example_env st b kind d w =
    endpoint_send example_env (channel_key ''Move'' 0 RESPONSE) q w"
  using assms
  by (auto simp: send_control_response_def create_control_response_packet_def send_response_packet_def
      write_response_header_def example_convertors Let_def)

lemma example_accept_ok:
  "\<exists>box. ServerEndpoint_accept_goal example_env g0 (bound_server (new_binding g0 0)) w_ok =
     (True, bound_server ((new_binding g0 0)\<lparr>ab_state := GOAL_ACCEPTED\<rparr>), \<lparr>transport = [], outbox = box\<rparr>)"
proof -
  let ?st = "bound_server (new_binding g0 0)"
  obtain q where "send_control_response example_env ?st (new_binding g0 0) RESPONSE_KIND_GOAL ACCEPTED w_ok =
      endpoint_send example_env (channel_key ''Move'' 0 RESPONSE) q w_ok"
    using example_control [of ?st "new_binding g0 0" RESPONSE_KIND_GOAL ACCEPTED w_ok]
    by (auto simp: example_simps)
  then show ?thesis
    by (simp add: ServerEndpoint_accept_goal_def w_ok_def example_simps sm_find_def sm_update_def)
qed

lemma example_accept_fail:
  "ServerEndpoint_accept_goal example_env g0 (bound_server (new_binding g0 0)) w_fail =
     (False, bound_server (new_binding g0 0), w_ok)"
proof -
  let ?st = "bound_server (new_binding g0 0)"
  obtain q where "send_control_response example_env ?st (new_binding g0 0) RESPONSE_KIND_GOAL ACCEPTED w_fail =
      endpoint_send example_env (channel_key ''Move'' 0 RESPONSE) q w_fail"
    using example_control [of ?st "new_binding g0 0" RESPONSE_KIND_GOAL ACCEPTED w_fail]
    by (auto simp: example_simps)
  then show ?thesis
    by (simp add: ServerEndpoint_accept_goal_def w_fail_def w_ok_def example_simps sm_find_def)
qed

definition accepted_binding :: ActionPacketBinding where
  "accepted_binding = (new_binding g0 0)\<lparr>ab_state := GOAL_ACCEPTED\<rparr>"

lemma bound_server_inv: "binding_ok [Some g0, None] g0 b \<Longrightarrow> ab_slot_index b = 0 \<Longrightarrow> server_endpoint_inv (bound_server b)"
  by (auto simp: server_endpoint_inv_def slots_ok_def slot_table_def server_binding_ok_def binding_ok_def
      sm_ok_def sm_find_def example_simps at_def less_Suc_eq split: if_splits)

lemma example_complete_fail:
  "ServerEndpoint_complete example_env g0 SUCCEEDED body_packet (bound_server accepted_binding) w_fail =
     (SEND_FAILED_AFTER_COMMIT, commit_result g0 (bound_server accepted_binding), w_ok)"
  by (simp add: ServerEndpoint_complete_def validate_terminal_packet_locked_def send_response_packet_def
      write_response_header_def example_convertors body_packet_def commit_result_def
      accepted_binding_def w_fail_def w_ok_def example_simps sm_find_def)

section \<open>Witnesses\<close>

theorem supported_packet_capacity_iff_witness:
  "supported_packet_capacity example_env 24 8 \<and>
   unat (HAKO_PDU_META_DATA_SIZE example_env) + round_up 3 (unat (24 :: uint32)) + round_up 3 (unat (8 :: size_t)) \<le> INT_MAX"
proof -
  have "HAKO_ALIGNMENT_SIZE example_env = 2 ^ 3" by (simp add: example_env_def)
  from supported_packet_capacity_iff [OF this, of 24 8] show ?thesis by simp
qed

theorem server_endpoint_slots_consistent_witness:
  "\<exists>b. sm_find (sv_packet_bindings (fst (server_run example_env (example_server, w_ok)
     [Handle \<lparr>pp_slot_index = 0, pp_pdu = goal_packet\<rparr>]))) g0 = Some b
     \<and> ab_slot_index b = 0 \<and> (ab_cancel_decision_pending b \<longrightarrow> ab_state b = GOAL_ACCEPTED)"
proof -
  let ?st = "fst (server_run example_env (example_server, w_ok) [Handle \<lparr>pp_slot_index = 0, pp_pdu = goal_packet\<rparr>])"
  have owner: "at (sv_slot_owners ?st) 0 = Some (Some g0)"
    by (simp add: example_goal_request) (simp add: example_simps at_def)
  have "snd (ServerEndpoint_initialize example_env value_json_ops example_action
      (new_ActionServerEndpointImpl ''Move'' True True)) = example_server"
    by (simp add: example_initialize)
  with server_endpoint_slots_consistent [where E = example_env and J = value_json_ops and name = "''Move''"
      and ep = True and ts = True and j = example_action and w = w_ok
      and ops = "[Handle \<lparr>pp_slot_index = 0, pp_pdu = goal_packet\<rparr>]"] owner
  show ?thesis unfolding Let_def by metis
qed

theorem server_responses_readable_by_client_witness:
  "\<exists>bytes. fst (ServerEndpoint_accept_goal example_env g0 (bound_server (new_binding g0 0)) w_ok)
     \<and> outbox (snd (snd (ServerEndpoint_accept_goal example_env g0 (bound_server (new_binding g0 0)) w_ok)))
         = outbox w_ok @ [(channel_key ''Move'' 0 RESPONSE, bytes)]
     \<and> client_reads_response example_env (slot_routing example_env ''Move'' example_definition 0) bytes
         = Some (response_header g0 RESPONSE_KIND_GOAL (decision_code ACCEPTED))"
proof -
  let ?b = "new_binding g0 0"
  let ?w = "\<lambda>box. \<lparr>transport = [] :: bool list, outbox = box\<rparr>"
  have inv: "server_endpoint_inv (bound_server ?b)"
    by (rule bound_server_inv) (simp_all add: binding_ok_def new_binding_def at_def)
  have find: "sm_find (sv_packet_bindings (bound_server ?b)) g0 = Some ?b"
    by (simp add: example_simps sm_find_def)
  obtain box where a: "ServerEndpoint_accept_goal example_env g0 (bound_server ?b) w_ok =
     (True, bound_server (?b\<lparr>ab_state := GOAL_ACCEPTED\<rparr>), ?w box)"
    using example_accept_ok by blast
  note replied = server_responses_readable_by_client [OF registry_ok_example inv g0_valid(2) find,
      where w = w_ok and w' = "?w box" and st' = "bound_server (?b\<lparr>ab_state := GOAL_ACCEPTED\<rparr>)",
      THEN conjunct1, THEN mp, OF a]
  have "sv_slot_routing (bound_server ?b) ! ab_slot_index ?b = slot_routing example_env ''Move'' example_definition 0"
    by (simp add: example_simps)
  with replied a show ?thesis by (simp del: decision_code.simps)
qed

theorem server_feedback_numbered_consecutively_witness:
  "\<exists>k delta. outbox (snd (server_run example_env (bound_server (new_binding g0 0), w_ok)
        [Accept_Goal g0, Send_Feedback g0 body_packet])) = outbox w_ok @ delta
    \<and> wire_feedback example_env (sv_slot_routing example_server) g0 delta = map of_nat [0..<k]"
proof -
  let ?b = "new_binding g0 0"
  have "server_run example_env (example_server, w_ok) [Handle \<lparr>pp_slot_index = 0, pp_pdu = goal_packet\<rparr>] =
      (bound_server ?b, w_ok)" by (simp add: example_goal_request)
  moreover have "sm_find (sv_packet_bindings (bound_server ?b)) g0 = Some ?b" "ab_state ?b = AWAITING_GOAL_DECISION"
    by (simp_all add: example_simps sm_find_def)
  moreover obtain st2 w2 where "server_run example_env (bound_server ?b, w_ok) [Accept_Goal g0, Send_Feedback g0 body_packet] = (st2, w2)"
    by (metis surj_pair)
  ultimately show ?thesis
    using server_feedback_numbered_consecutively [OF registry_ok_example example_initialize, of w_ok
      "[Handle \<lparr>pp_slot_index = 0, pp_pdu = goal_packet\<rparr>]" "bound_server ?b" w_ok g0 ?b
      "[Accept_Goal g0, Send_Feedback g0 body_packet]" st2 w2] g0_valid by auto
qed

theorem server_failed_operation_unchanged_witness:
  "ServerEndpoint_accept_goal example_env g0 (bound_server (new_binding g0 0)) w_fail =
     (False, bound_server (new_binding g0 0), w_ok) \<and> outbox w_ok = outbox w_fail"
  using server_failed_operation_unchanged [of example_env g0 "bound_server (new_binding g0 0)" w_fail] example_accept_fail
  by blast


theorem server_short_result_commits_witness:
  "ServerEndpoint_complete example_env g0 SUCCEEDED short_packet (bound_server accepted_binding) w_ok =
     (SEND_FAILED_AFTER_COMMIT, commit_result g0 (bound_server accepted_binding), w_ok)"
proof (rule server_short_result_commits)
  show "validate_terminal_packet_locked example_env (bound_server accepted_binding) accepted_binding SUCCEEDED short_packet = Some 16"
    by (simp add: validate_terminal_packet_locked_def accepted_binding_def example_simps)
      (simp add: validate_packet_capacity_def has_valid_packet_prefix_def short_packet_def Let_def,
       simp add: example_env_def aligned_size_def byte_at_def)
  show "\<not> has_valid_packet_prefix example_env short_packet (sizeof_ActionResponseHeader example_env)"
    by (simp add: has_valid_packet_prefix_def short_packet_def Let_def) (simp add: example_env_def byte_at_def)
qed (simp_all add: example_simps sm_find_def)

end
