(* ===== verification/Services_Server_Properties.thy ===== *)
theory Services_Server_Properties
  imports Services_Server_Sync Server_Endpoint_Examples
begin

text \<open>
  Properties of the Action server services over the packet endpoint implementation: the
  agreement of the two layers in every reachable state, what \<open>poll\<close> can report, and the fate
  of a Cancel decision.
\<close>

section \<open>Runs of the services\<close>

datatype services_op =
    Svc_Recv string nat pdu_data
  | Svc_Poll
  | Svc_Accept_Goal string GoalId
  | Svc_Reject_Goal string GoalId
  | Svc_Accept_Cancel string GoalId
  | Svc_Reject_Cancel string GoalId
  | Svc_Send_Feedback string GoalId pdu_data
  | Svc_Complete string GoalId TerminalStatus pdu_data
  | Svc_Complete_Locally string GoalId TerminalStatus pdu_data
  | Svc_Discard_Pending_Goal string GoalId
  | Svc_Notify_Disconnected
  | Svc_Stop
  | Svc_Clear

type_synonym 'w services_cfg = "ActionServerEndpointImpl ActionServicesServer \<times> 'w world"

text \<open>\<open>Svc_Recv\<close> is the transport delivering a Request packet to an Action's endpoint.\<close>

fun services_exec :: "'w pdu_env \<Rightarrow> 'w services_cfg \<Rightarrow> services_op \<Rightarrow> 'w services_cfg" where
  "services_exec E (s, w) (Svc_Recv name i d) =
     (case get_action_locked s name of
        None \<Rightarrow> (s, w)
      | Some a \<Rightarrow> (set_action_locked name (a\<lparr>ai_endpoint := ServerEndpoint_on_recv i d (ai_endpoint a)\<rparr>) s, w))"
| "services_exec E (s, w) Svc_Poll = snd (ServicesServer_poll (server_endpoint_vtable E) s w)"
| "services_exec E (s, w) (Svc_Accept_Goal n g) = snd (ServicesServer_accept_goal (server_endpoint_vtable E) n g s w)"
| "services_exec E (s, w) (Svc_Reject_Goal n g) = snd (ServicesServer_reject_goal (server_endpoint_vtable E) n g s w)"
| "services_exec E (s, w) (Svc_Accept_Cancel n g) = snd (ServicesServer_accept_cancel (server_endpoint_vtable E) n g s w)"
| "services_exec E (s, w) (Svc_Reject_Cancel n g) = snd (ServicesServer_reject_cancel (server_endpoint_vtable E) n g s w)"
| "services_exec E (s, w) (Svc_Send_Feedback n g d) = snd (ServicesServer_send_feedback (server_endpoint_vtable E) n g d s w)"
| "services_exec E (s, w) (Svc_Complete n g t d) = snd (ServicesServer_complete (server_endpoint_vtable E) n g t d s w)"
| "services_exec E (s, w) (Svc_Complete_Locally n g t d) =
     snd (ServicesServer_complete_locally (server_endpoint_vtable E) n g t d s w)"
| "services_exec E (s, w) (Svc_Discard_Pending_Goal n g) =
     (snd (ServicesServer_discard_pending_goal (server_endpoint_vtable E) n g s), w)"
| "services_exec E (s, w) Svc_Notify_Disconnected = (ServicesServer_notify_transport_disconnected s, w)"
| "services_exec E (s, w) Svc_Stop = (ServicesServer_stop_all_services (server_endpoint_vtable E) s, w)"
| "services_exec E (s, w) Svc_Clear = (ServicesServer_clear_all_instances (server_endpoint_vtable E) s, w)"

abbreviation impl_sync :: "ActionServerEndpointImpl ActionServicesServer \<Rightarrow> bool" where
  "impl_sync \<equiv> services_sync live_endpoint server_endpoint_view"

lemma services_exec_sync: "impl_sync (fst c) \<Longrightarrow> impl_sync (fst (services_exec E c op))"
proof (cases c)
  case (Pair s w)
  assume "impl_sync (fst c)"
  with Pair have s: "impl_sync s" by simp
  show ?thesis
  proof (cases op)
    case (Svc_Recv n i d)
    have "action_sync live_endpoint server_endpoint_view (a\<lparr>ai_endpoint := ServerEndpoint_on_recv i d (ai_endpoint a)\<rparr>)"
      if "get_action_locked s n = Some a" for a
      using services_sync_get [OF s that] on_recv_inv [of "ai_endpoint a" i d]
      by (simp add: action_sync_def live_endpoint_def goals_match_def server_endpoint_view_def ServerEndpoint_on_recv_def)
    then show ?thesis using Pair Svc_Recv s services_sync_set [OF s] by (auto split: option.splits)
  qed (use Pair s in \<open>simp_all add: impl.lifecycle_sync impl.ops_sync\<close>)
qed

lemma services_run_sync: "impl_sync (fst c) \<Longrightarrow> impl_sync (fst (foldl (services_exec E) c ops))"
  by (induction ops arbitrary: c) (simp_all add: services_exec_sync)

lemma initialize_actions_sync:
  "initialize_actions E J ref ov s ds = Some as \<Longrightarrow> list_all (action_sync live_endpoint server_endpoint_view) as"
proof (induction ds arbitrary: as)
  case (Cons dj ds)
  obtain d j where dj: "dj = (d, j)" by (cases dj)
  show ?case
  proof (cases "er_node_id (ad_server_endpoint d) = ss_node_id s")
    case True
    let ?n = "new_ActionServerEndpointImpl (ad_name d)"
    obtain h ep as' where e: "ServerEndpoint_initialize E J j (?n h (ss_has_time_source s)) = (True, ep)"
      "initialize_actions E J ref ov s ds = Some as'"
      "as = \<lparr>ai_action_name = ad_name d, ai_endpoint = ep, ai_goals = []\<rparr> # as'"
      using Cons.prems True dj by (auto simp: Let_def split: if_splits prod.splits bool.splits)
    have "sv_initialized ep" using e(1) unfolding initialize_closed_form by (auto simp: Let_def)
    moreover have "server_endpoint_inv ep"
      using initialize_inv [OF new_server_endpoint_inv, of E J j "ad_name d" h "ss_has_time_source s"] e(1) by simp
    ultimately have "live_endpoint ep" by (simp add: live_endpoint_def)
    moreover have "server_endpoint_view ep = (\<lambda>g. None)"
      using e(1) unfolding initialize_closed_form
      by (auto simp: Let_def server_endpoint_view_def new_ActionServerEndpointImpl_def fun_eq_iff)
    ultimately show ?thesis
      using Cons.IH [OF e(2)] by (simp add: e(3) action_sync_def goals_match_def goal_match_def)
  qed (use Cons dj in simp)
qed simp

lemma initialize_services_sync:
  assumes "initialize_services_impl E J config container ov s0 = (True, s1)"
  shows "impl_sync s1"
  using assms initialize_actions_sync
  by (fastforce simp: initialize_services_impl_def services_sync_def split: if_splits option.splits sum.splits)

section \<open>Properties\<close>

text \<open>
  C2 (refinement): the services and the packet endpoint never disagree about a Goal. After a
  successful initialisation and any sequence of deliveries, polls, decisions, Feedback,
  completions, disconnect notifications, stops and resets, with any transport failures in
  between: a Goal the services hold as \<open>EXECUTING\<close>, \<open>CANCELING\<close> or \<open>FINISHING\<close> has a packet
  binding that is accepted, cancel-accepted or result-committed, with the client's Cancel
  still pending where the services wait for its decision; and every accepted binding
  belongs to a Goal the services hold.
\<close>

theorem services_and_endpoint_agree:
  assumes "initialize_services_impl E J config container ov s0 = (True, s1)"
    and "foldl (services_exec E) (s1, w1) ops = (s, w)"
    and "get_action_locked s name = Some a"
  shows "(\<forall>g x. get_goal_locked (ai_goals a) g = Some x \<longrightarrow>
       is_valid_server_context (gi_context x)
       \<and> (\<exists>b. sm_find (sv_packet_bindings (ai_endpoint a)) g = Some b
            \<and> ab_state b = binding_of (sg_state (gi_context x))
            \<and> (sg_cancel_origin (gi_context x) = ORIGIN_CLIENT \<longrightarrow> ab_cancel_decision_pending b)))
    \<and> (\<forall>g b. sm_find (sv_packet_bindings (ai_endpoint a)) g = Some b \<and> ab_state b \<noteq> AWAITING_GOAL_DECISION \<longrightarrow>
         has_goal_locked (ai_goals a) g)"
proof -
  have "impl_sync s"
    using services_run_sync [of "(s1, w1)" E ops] initialize_services_sync [OF assms(1)] assms(2) by simp
  from services_sync_get [OF this assms(3)]
  have m: "goal_match (server_endpoint_view (ai_endpoint a) g) (get_goal_locked (ai_goals a) g)" for g
    by (simp add: action_sync_def goals_match_def)
  have "\<exists>b. sm_find (sv_packet_bindings (ai_endpoint a)) g = Some b
            \<and> ab_state b = binding_of (sg_state (gi_context x))
            \<and> (sg_cancel_origin (gi_context x) = ORIGIN_CLIENT \<longrightarrow> ab_cancel_decision_pending b)"
    "is_valid_server_context (gi_context x)"
    if "get_goal_locked (ai_goals a) g = Some x" for g x
    using m [of g] that by (auto simp: goal_match_def server_endpoint_view_def)
  moreover have "has_goal_locked (ai_goals a) g"
    if "sm_find (sv_packet_bindings (ai_endpoint a)) g = Some b" "ab_state b \<noteq> AWAITING_GOAL_DECISION" for g b
    using m [of g] that
    by (auto simp: goal_match_def server_endpoint_view_def has_goal_locked_def split: option.splits)
  ultimately show ?thesis by blast
qed

text \<open>
  C21 (safety): when no runtime Cancel is queued, \<open>poll\<close> reports nothing but Goal Requests and
  Cancel Requests: the errors for an unknown Goal or a refused transition are unreachable
  from endpoint events, whatever packets arrive.
\<close>

theorem services_poll_never_errors:
  assumes "initialize_services_impl E J config container ov s0 = (True, s1)"
    and "foldl (services_exec E) (s1, w1) ops = (s, w)"
    and "ss_pending_runtime_events s = []"
    and "fst (ServicesServer_poll (server_endpoint_vtable E) s w) = Some (name, ev)"
  shows "se_type ev \<in> {SE_GOAL_REQUEST, SE_CANCEL_REQUEST}"
proof -
  have "impl_sync s"
    using services_run_sync [of "(s1, w1)" E ops] initialize_services_sync [OF assms(1)] assms(2) by simp
  then have sync: "list_all (action_sync live_endpoint server_endpoint_view) (ss_actions s)"
    by (simp add: services_sync_def)
  obtain r as' w' where p: "poll_endpoints (server_endpoint_vtable E) (ss_actions s) w = (r, as', w')"
    by (cases "poll_endpoints (server_endpoint_vtable E) (ss_actions s) w")
  from impl.poll_endpoints_sync [OF sync p] assms(3,4) p show ?thesis
    by (simp add: ServicesServer_poll_def)
qed

lemma set_action_same:
  "get_action_locked s name = Some a \<Longrightarrow> set_action_locked name a s = s"
  unfolding get_action_locked_def set_action_locked_def by simp

text \<open>
  Accepting a client's Cancel is all or nothing across the layers and the
  wire. If it succeeds, exactly one Response packet went out, the client reads it as an
  accepted Cancel of that Goal, and the services hold the Goal as \<open>CANCELING\<close>; if it fails,
  services and endpoint are unchanged, nothing went out, and the decision is still pending.
\<close>

theorem services_accept_cancel_atomic:
  assumes "registry_ok E" and "impl_sync s" and "length g = 16"
    and "get_action_locked s name = Some a" and "get_goal_locked (ai_goals a) g = Some x"
    and "sg_cancel_origin (gi_context x) = ORIGIN_CLIENT"
    and "ServicesServer_accept_cancel (server_endpoint_vtable E) name g s w = (r, s', w')"
  shows "if r
    then (\<exists>i bytes. outbox w' = outbox w @ [(sr_response (sv_slot_routing (ai_endpoint a) ! i), bytes)]
            \<and> client_reads_response E (sv_slot_routing (ai_endpoint a) ! i) bytes
                = Some (response_header g RESPONSE_KIND_CANCEL (decision_code ACCEPTED)))
       \<and> (\<exists>a' y. get_action_locked s' name = Some a' \<and> get_goal_locked (ai_goals a') g = Some y
            \<and> sg_state (gi_context y) = CANCELING)
    else s' = s \<and> outbox w' = outbox w"
proof -
  have a: "action_sync live_endpoint server_endpoint_view a" by (rule services_sync_get [OF assms(2,4)])
  obtain p where valid: "is_valid_server_context (gi_context x)"
    by (rule matched_goal [OF action_sync_parts(2) [OF a] assms(5)])
  have ex: "sg_state (gi_context x) = EXECUTING" "sg_cancel_decision_pending (gi_context x)"
    using valid assms(6) by (auto simp: is_valid_server_context_def split: if_splits)
  let ?t = "transition_server_goal (gi_context x) ACCEPT_CANCEL"
  have t: "st_kind ?t = ST_TRANSITIONED" "sg_state (st_next ?t) = CANCELING"
    using valid ex assms(6) by (simp_all add: transition_server_goal_def server_result_def)
  obtain r1 e' w1 where e: "ServerEndpoint_accept_cancel E g (ai_endpoint a) w = (r1, e', w1)"
    by (cases "ServerEndpoint_accept_cancel E g (ai_endpoint a) w")
  show ?thesis
  proof (cases "name = [] \<or> \<not> is_valid_goal_id g")
    case True
    with assms(7) show ?thesis by (auto simp: ServicesServer_accept_cancel_def)
  next
    case name: False
    show ?thesis
    proof (cases r1)
      case False
      with e have e'': "ServerEndpoint_accept_cancel E g (ai_endpoint a) w = (False, e', w1)" by simp
      from refused_ops_unchanged(3) [OF this] have "e' = ai_endpoint a" "outbox w1 = outbox w" by simp_all
      moreover have "set_action_locked name (a\<lparr>ai_endpoint := ai_endpoint a\<rparr>) s = s"
        using set_action_same [OF assms(4)] by simp
      ultimately show ?thesis
        using assms(4-7) name t e'' by (simp add: ServicesServer_accept_cancel_def server_endpoint_vtable_def Let_def)
    next
      case True
      with e have e'': "ServerEndpoint_accept_cancel E g (ai_endpoint a) w = (True, e', w1)" by simp
      then obtain b where b: "sm_find (sv_packet_bindings (ai_endpoint a)) g = Some b"
        "send_control_response E (ai_endpoint a) b RESPONSE_KIND_CANCEL ACCEPTED w = (True, w1)"
        by (rule accept_cancel_True)
      have "ab_goal_id b = g"
        using a inv_binding [OF _ b(1)] by (simp add: action_sync_def live_endpoint_def binding_ok_def)
      with control_response_readable [OF assms(1) _ b(2)] assms(3)
      have wire: "\<exists>i bytes. outbox w1 = outbox w @ [(sr_response (sv_slot_routing (ai_endpoint a) ! i), bytes)]
            \<and> client_reads_response E (sv_slot_routing (ai_endpoint a) ! i) bytes
                = Some (response_header g RESPONSE_KIND_CANCEL (decision_code ACCEPTED))" by auto
      let ?a = "a\<lparr>ai_endpoint := e', ai_goals := set_context g (st_next ?t) (ai_goals a)\<rparr>"
      have s': "r" "s' = set_action_locked name ?a s" "w' = w1"
        using assms(4-7) name t e'' by (simp_all add: ServicesServer_accept_cancel_def server_endpoint_vtable_def Let_def)
      have "ai_action_name a = name" using assms(4) by (auto simp: get_action_locked_def dest: find_SomeD)
      then have "get_action_locked s' name = Some ?a"
        using assms(4) by (simp add: s' get_action_locked_def set_action_locked_def find_update_first_same)
      moreover have "get_goal_locked (ai_goals ?a) g = Some (x\<lparr>gi_context := st_next ?t\<rparr>)"
        using assms(5) by (simp add: get_goal_set_context)
      ultimately show ?thesis using wire t(2) by (auto simp: s' simp del: decision_code.simps)
    qed
  qed
qed


section \<open>A concrete run\<close>

definition example_services :: "ActionServerEndpointImpl \<Rightarrow> GoalInstance list \<Rightarrow> ActionServerEndpointImpl ActionServicesServer" where
  "example_services ep goals = \<lparr>ss_node_id = ''s'', ss_impl_type = ''ActionServerEndpointImpl'',
     ss_has_time_source = True,
     ss_actions = [\<lparr>ai_action_name = ''Move'', ai_endpoint = ep, ai_goals = goals\<rparr>],
     ss_pending_runtime_events = []\<rparr>"

definition fresh_services :: "ActionServerEndpointImpl ActionServicesServer" where
  "fresh_services = \<lparr>ss_node_id = ''s'', ss_impl_type = ''ActionServerEndpointImpl'',
     ss_has_time_source = True, ss_actions = [], ss_pending_runtime_events = []\<rparr>"

definition example_root :: json_value where
  "example_root = JObject [(''actions'', JArray [example_action])]"

definition executing_goal :: GoalInstance where
  "executing_goal = \<lparr>gi_goal = g0, gi_context = initial_ServerGoalContext\<rparr>"

lemmas services_simps = example_services_def get_action_locked_def set_action_locked_def get_goal_locked_def
  has_goal_locked_def executing_goal_def server_endpoint_vtable_def

lemma example_services_initialize:
  "initialize_services_impl example_env value_json_ops (Some (Inr example_root)) None True fresh_services =
     (True, example_services example_server [])"
proof -
  have "parse_configuration value_json_ops example_root = Inr [example_definition]"
    by (simp add: parse_configuration_def example_root_def value_json_ops_def)
      (simp add: parse_example_action value_json_ops_def [symmetric])
  moreover have "json_find value_json_ops example_root ''actions'' = Some (JArray [example_action])"
    "json_elements value_json_ops (JArray [example_action]) = [example_action]"
    by (simp_all add: value_json_ops_def example_root_def)
  moreover have "er_node_id (ad_server_endpoint example_definition) = ''s''" "ad_name example_definition = ''Move''"
    by (simp_all add: example_definition_def)
  ultimately show ?thesis
    by (simp add: initialize_services_impl_def fresh_services_def Let_def example_initialize example_services_def)
qed

lemma example_services_poll:
  "ServicesServer_poll (server_endpoint_vtable example_env)
     (fst (services_exec example_env (example_services example_server [], w_ok) (Svc_Recv ''Move'' 0 goal_packet))) w_ok =
   (Some (''Move'', goal_event example_server SE_GOAL_REQUEST g0 goal_packet),
    example_services (bound_server (new_binding g0 0)) [], w_ok)"
proof -
  have "ServerEndpoint_poll example_env (ServerEndpoint_on_recv 0 goal_packet example_server) w_ok =
    (goal_event example_server SE_GOAL_REQUEST g0 goal_packet, bound_server (new_binding g0 0), w_ok)"
    using example_goal_request
    by (simp add: ServerEndpoint_poll_def ServerEndpoint_take_def ServerEndpoint_on_recv_def example_server_def
        new_ActionServerEndpointImpl_def)
  then show ?thesis
    by (simp add: ServicesServer_poll_def services_simps Let_def)
      (simp add: goal_event_def empty_ServerEvent_def example_server_def new_ActionServerEndpointImpl_def)
qed

lemma example_services_accept:
  "\<exists>box. ServicesServer_accept_goal (server_endpoint_vtable example_env) ''Move'' g0
     (example_services (bound_server (new_binding g0 0)) []) w_ok =
   (True, example_services (bound_server accepted_binding) [executing_goal], \<lparr>transport = [], outbox = box\<rparr>)"
  using example_accept_ok
  by (auto simp: ServicesServer_accept_goal_def services_simps accepted_binding_def Let_def)

theorem services_and_endpoint_agree_witness:
  "\<exists>s w a b. foldl (services_exec example_env) (example_services example_server [], w_ok)
       [Svc_Recv ''Move'' 0 goal_packet, Svc_Poll, Svc_Accept_Goal ''Move'' g0] = (s, w)
     \<and> get_action_locked s ''Move'' = Some a \<and> get_goal_locked (ai_goals a) g0 = Some executing_goal
     \<and> sm_find (sv_packet_bindings (ai_endpoint a)) g0 = Some b \<and> ab_state b = GOAL_ACCEPTED"
proof -
  let ?a = "\<lparr>ai_action_name = ''Move'', ai_endpoint = bound_server accepted_binding, ai_goals = [executing_goal]\<rparr>"
  let ?s = "example_services (bound_server accepted_binding) [executing_goal]"
  let ?ops = "[Svc_Recv ''Move'' 0 goal_packet, Svc_Poll, Svc_Accept_Goal ''Move'' g0]"
  obtain box where acc: "ServicesServer_accept_goal (server_endpoint_vtable example_env) ''Move'' g0
     (example_services (bound_server (new_binding g0 0)) []) w_ok = (True, ?s, \<lparr>transport = [], outbox = box\<rparr>)"
    using example_services_accept by blast
  have run: "foldl (services_exec example_env) (example_services example_server [], w_ok) ?ops =
      (?s, \<lparr>transport = [], outbox = box\<rparr>)"
    using example_services_poll acc by (simp add: services_simps split: option.splits)
  have act: "get_action_locked ?s ''Move'' = Some ?a" by (simp add: services_simps)
  have goal: "get_goal_locked (ai_goals ?a) g0 = Some executing_goal" by (simp add: services_simps)
  from services_and_endpoint_agree [OF example_services_initialize run act, THEN conjunct1] goal
  obtain b where "sm_find (sv_packet_bindings (ai_endpoint ?a)) g0 = Some b"
    "ab_state b = binding_of (sg_state (gi_context executing_goal))" by blast
  moreover have "binding_of (sg_state (gi_context executing_goal)) = GOAL_ACCEPTED"
    by (simp add: executing_goal_def initial_ServerGoalContext_def)
  ultimately show ?thesis using run act goal by metis
qed

theorem services_poll_never_errors_witness:
  "\<exists>ev. fst (ServicesServer_poll (server_endpoint_vtable example_env)
     (fst (services_exec example_env (example_services example_server [], w_ok) (Svc_Recv ''Move'' 0 goal_packet))) w_ok)
       = Some (''Move'', ev) \<and> se_type ev \<in> {SE_GOAL_REQUEST, SE_CANCEL_REQUEST}"
proof -
  let ?c = "services_exec example_env (example_services example_server [], w_ok) (Svc_Recv ''Move'' 0 goal_packet)"
  have run: "foldl (services_exec example_env) (example_services example_server [], w_ok)
      [Svc_Recv ''Move'' 0 goal_packet] = (fst ?c, w_ok)" by (simp add: services_simps)
  have "ss_pending_runtime_events (fst ?c) = []" by (simp add: services_simps)
  from services_poll_never_errors [OF example_services_initialize run this] example_services_poll
  show ?thesis by simp
qed

definition cancel_pending_binding :: ActionPacketBinding where
  "cancel_pending_binding = accepted_binding\<lparr>ab_cancel_decision_pending := True\<rparr>"

definition cancel_pending_goal :: GoalInstance where
  "cancel_pending_goal = \<lparr>gi_goal = g0, gi_context = initial_ServerGoalContext
     \<lparr>sg_cancel_decision_pending := True, sg_cancel_origin := ORIGIN_CLIENT\<rparr>\<rparr>"

lemma cancel_pending_sync:
  "impl_sync (example_services (bound_server cancel_pending_binding) [cancel_pending_goal])"
proof -
  have "server_endpoint_inv (bound_server cancel_pending_binding)"
    by (rule bound_server_inv)
      (simp_all add: binding_ok_def cancel_pending_binding_def accepted_binding_def new_binding_def at_def)
  then show ?thesis
    by (auto simp: services_sync_def example_services_def action_sync_def live_endpoint_def example_simps
        goals_match_def goal_match_def get_goal_locked_def server_endpoint_view_def sm_find_def
        cancel_pending_goal_def cancel_pending_binding_def accepted_binding_def
        is_valid_server_context_def is_goal_state_def initial_ServerGoalContext_def)
qed

theorem services_accept_cancel_atomic_witness:
  "\<exists>r s' w'. ServicesServer_accept_cancel (server_endpoint_vtable example_env) ''Move'' g0
      (example_services (bound_server cancel_pending_binding) [cancel_pending_goal]) w_ok = (r, s', w')
    \<and> (if r then \<exists>a' y. get_action_locked s' ''Move'' = Some a' \<and> get_goal_locked (ai_goals a') g0 = Some y
            \<and> sg_state (gi_context y) = CANCELING
       else s' = example_services (bound_server cancel_pending_binding) [cancel_pending_goal])"
proof -
  let ?s = "example_services (bound_server cancel_pending_binding) [cancel_pending_goal]"
  let ?a = "\<lparr>ai_action_name = ''Move'', ai_endpoint = bound_server cancel_pending_binding, ai_goals = [cancel_pending_goal]\<rparr>"
  obtain r s' w' where op: "ServicesServer_accept_cancel (server_endpoint_vtable example_env) ''Move'' g0 ?s w_ok = (r, s', w')"
    by (metis prod_cases3)
  have "get_action_locked ?s ''Move'' = Some ?a" "get_goal_locked (ai_goals ?a) g0 = Some cancel_pending_goal"
    "sg_cancel_origin (gi_context cancel_pending_goal) = ORIGIN_CLIENT"
    by (simp_all add: services_simps cancel_pending_goal_def)
  from services_accept_cancel_atomic [OF registry_ok_example cancel_pending_sync g0_valid(2) this op] op
  show ?thesis by (auto split: if_splits)
qed


end
