(* ===== verification/Client_State_Machine.thy ===== *)
theory Client_State_Machine
  imports Action_Types
begin

text \<open>
  The per-Goal state machine of the Action client,
  \<open>src/action_client_state_machine.cpp\<close> and its header. Unlike the server's, it numbers
  Feedback: an in-order Feedback advances \<open>next_feedback_sequence\<close>, every other one is a
  \<open>NOP\<close>. The theory shows the shared contract and the delivery properties of a run.
\<close>

section \<open>Data\<close>

datatype ClientGoalEventType =
    REQUEST_CANCEL
  | FEEDBACK_RECEIVED
  | CANCEL_RESPONSE_ACCEPTED
  | CANCEL_RESPONSE_REJECTED
  | RESULT_RECEIVED
  | CANCEL_REQUEST_SEND_FAILED
  | CANCEL_RESPONSE_TIMEOUT
  | RESULT_TIMEOUT
  | CLIENT_TRANSPORT_DISCONNECTED
  | CLIENT_SHUTDOWN_REQUESTED

record ClientGoalEvent =
  cge_type :: ClientGoalEventType
  cge_terminal_status :: TerminalStatus
  cge_feedback_sequence :: uint32

text \<open>Aggregate initialisation \<open>{type}\<close>: the other members take their defaults.\<close>

definition client_goal_event :: "ClientGoalEventType \<Rightarrow> ClientGoalEvent" where
  "client_goal_event t = \<lparr>cge_type = t, cge_terminal_status = TS_UNSPECIFIED, cge_feedback_sequence = 0\<rparr>"

record ClientGoalContext =
  cg_state :: GoalState
  cg_cancel_response_pending :: bool
  cg_result_pending :: bool
  cg_next_feedback_sequence :: uint32
  cg_terminal_status :: TerminalStatus

definition initial_ClientGoalContext :: ClientGoalContext where
  "initial_ClientGoalContext = \<lparr>cg_state = EXECUTING, cg_cancel_response_pending = False,
     cg_result_pending = True, cg_next_feedback_sequence = 0, cg_terminal_status = TS_UNSPECIFIED\<rparr>"

datatype ClientTransitionKind = CT_TRANSITIONED | CT_NOP | CT_ERROR

datatype ClientTransitionError =
    CT_NONE
  | CT_INVALID_CONTEXT
  | CT_EVENT_NOT_ALLOWED
  | CT_CANCEL_REQUEST_ALREADY_PENDING
  | CT_UNKNOWN_EVENT

record ClientTransition =
  ct_kind :: ClientTransitionKind
  ct_next :: ClientGoalContext
  ct_error :: ClientTransitionError

section \<open>The transition function\<close>

definition client_result ::
    "ClientGoalContext \<Rightarrow> ClientTransitionKind \<Rightarrow> ClientTransitionError \<Rightarrow> ClientTransition" where
  "client_result current kind err = \<lparr>ct_kind = kind, ct_next = current, ct_error = err\<rparr>"

definition is_client_goal_state :: "GoalState \<Rightarrow> bool" where
  "is_client_goal_state s \<longleftrightarrow> s = EXECUTING \<or> s = CANCELING \<or> s = FINISHING"

definition is_valid_client_context :: "ClientGoalContext \<Rightarrow> bool" where
  "is_valid_client_context c =
     (if \<not> is_client_goal_state (cg_state c) then False
      else if cg_cancel_response_pending c \<and> cg_state c \<noteq> EXECUTING then False
      else if cg_state c = FINISHING
        then \<not> cg_result_pending c
           \<and> (cg_terminal_status c = SUCCEEDED \<or> cg_terminal_status c = CANCELED
              \<or> cg_terminal_status c = ABORTED)
      else cg_result_pending c \<and> cg_terminal_status c = TS_UNSPECIFIED)"

definition receive_client_result :: "ClientGoalContext \<Rightarrow> TerminalStatus \<Rightarrow> ClientTransition" where
  "receive_client_result current status =
     (if cg_state current = FINISHING then client_result current CT_NOP CT_NONE
      else let allowed =
             (cg_state current = EXECUTING \<and> (status = SUCCEEDED \<or> status = ABORTED))
             \<or> (cg_state current = CANCELING \<and> (status = CANCELED \<or> status = ABORTED))
           in if \<not> allowed then client_result current CT_NOP CT_NONE
              else client_result
                     (current\<lparr>cg_state := FINISHING, cg_cancel_response_pending := False,
                        cg_result_pending := False, cg_terminal_status := status\<rparr>)
                     CT_TRANSITIONED CT_NONE)"

definition transition_client_goal :: "ClientGoalContext \<Rightarrow> ClientGoalEvent \<Rightarrow> ClientTransition" where
  "transition_client_goal current event =
     (if \<not> is_valid_client_context current
      then client_result current CT_ERROR CT_INVALID_CONTEXT
      else case cge_type event of
        REQUEST_CANCEL \<Rightarrow>
          if cg_state current \<noteq> EXECUTING
          then client_result current CT_ERROR CT_EVENT_NOT_ALLOWED
          else if cg_cancel_response_pending current
          then client_result current CT_ERROR CT_CANCEL_REQUEST_ALREADY_PENDING
          else client_result (current\<lparr>cg_cancel_response_pending := True\<rparr>) CT_TRANSITIONED CT_NONE
      | FEEDBACK_RECEIVED \<Rightarrow>
          if cg_state current = FINISHING
             \<or> cge_feedback_sequence event \<noteq> cg_next_feedback_sequence current
          then client_result current CT_NOP CT_NONE
          else client_result
                 (current\<lparr>cg_next_feedback_sequence := cg_next_feedback_sequence current + 1\<rparr>)
                 CT_TRANSITIONED CT_NONE
      | CANCEL_RESPONSE_ACCEPTED \<Rightarrow>
          if cg_state current = CANCELING then client_result current CT_NOP CT_NONE
          else if cg_state current \<noteq> EXECUTING \<or> \<not> cg_cancel_response_pending current
          then client_result current CT_NOP CT_NONE
          else client_result (current\<lparr>cg_state := CANCELING, cg_cancel_response_pending := False\<rparr>)
                 CT_TRANSITIONED CT_NONE
      | CANCEL_RESPONSE_REJECTED \<Rightarrow>
          if cg_state current \<noteq> EXECUTING \<or> \<not> cg_cancel_response_pending current
          then client_result current CT_NOP CT_NONE
          else client_result (current\<lparr>cg_cancel_response_pending := False\<rparr>) CT_TRANSITIONED CT_NONE
      | RESULT_RECEIVED \<Rightarrow> receive_client_result current (cge_terminal_status event)
      | CANCEL_REQUEST_SEND_FAILED \<Rightarrow>
          if cg_state current = EXECUTING \<and> cg_cancel_response_pending current
          then client_result (current\<lparr>cg_cancel_response_pending := False\<rparr>) CT_TRANSITIONED CT_NONE
          else client_result current CT_ERROR CT_EVENT_NOT_ALLOWED
      | CANCEL_RESPONSE_TIMEOUT \<Rightarrow> client_result current CT_NOP CT_NONE
      | RESULT_TIMEOUT \<Rightarrow> client_result current CT_NOP CT_NONE
      | CLIENT_TRANSPORT_DISCONNECTED \<Rightarrow> client_result current CT_NOP CT_NONE
      | CLIENT_SHUTDOWN_REQUESTED \<Rightarrow> client_result current CT_NOP CT_NONE)"

fun client_transition_error_name :: "ClientTransitionError \<Rightarrow> string" where
  "client_transition_error_name CT_NONE = ''none''"
| "client_transition_error_name CT_INVALID_CONTEXT = ''invalid_context''"
| "client_transition_error_name CT_EVENT_NOT_ALLOWED = ''event_not_allowed''"
| "client_transition_error_name CT_CANCEL_REQUEST_ALREADY_PENDING = ''cancel_request_already_pending''"
| "client_transition_error_name CT_UNKNOWN_EVENT = ''unknown_event''"

lemmas client_sm_defs = transition_client_goal_def receive_client_result_def client_result_def
  is_valid_client_context_def is_client_goal_state_def Let_def

lemma initial_client_context_valid [simp]: "is_valid_client_context initial_ClientGoalContext"
  by (simp add: initial_ClientGoalContext_def is_valid_client_context_def is_client_goal_state_def)

section \<open>The contract\<close>

lemma client_transition_valid:
  "is_valid_client_context c \<Longrightarrow> is_valid_client_context (ct_next (transition_client_goal c e))"
  by (cases "cge_type e") (auto simp: client_sm_defs split: if_splits)

lemma client_transition_unchanged:
  "ct_kind (transition_client_goal c e) \<noteq> CT_TRANSITIONED \<Longrightarrow> ct_next (transition_client_goal c e) = c"
  by (cases "cge_type e") (auto simp: client_sm_defs split: if_splits)

lemma client_transition_mono:
  "is_valid_client_context c \<Longrightarrow> cg_state c \<le> cg_state (ct_next (transition_client_goal c e))"
  by (cases "cge_type e") (auto simp: client_sm_defs less_eq_GoalState_def split: if_splits)

lemma client_finishing_frozen:
  "cg_state c = FINISHING \<Longrightarrow> ct_next (transition_client_goal c e) = c"
  by (cases "cge_type e") (auto simp: client_sm_defs split: if_splits)

lemma client_finishing_no_transition:
  "cg_state c = FINISHING \<Longrightarrow> ct_kind (transition_client_goal c e) \<noteq> CT_TRANSITIONED"
  by (cases "cge_type e") (auto simp: client_sm_defs split: if_splits)

definition client_goal_next :: "ClientGoalContext \<Rightarrow> ClientGoalEvent \<Rightarrow> ClientGoalContext" where
  "client_goal_next c e = ct_next (transition_client_goal c e)"

interpretation cli_goal: goal_state_machine client_goal_next
    "\<lambda>c e. ct_kind (transition_client_goal c e) = CT_TRANSITIONED"
    is_valid_client_context cg_state
  by unfold_locales
    (auto simp: client_goal_next_def client_transition_valid client_transition_mono
      client_finishing_frozen dest: client_transition_unchanged)

section \<open>Runs of events\<close>

definition client_goal_run :: "ClientGoalEvent list \<Rightarrow> ClientGoalContext" where
  "client_goal_run es = foldl client_goal_next initial_ClientGoalContext es"

lemma client_goal_run_snoc: "client_goal_run (es @ [e]) = client_goal_next (client_goal_run es) e"
  by (simp add: client_goal_run_def)

lemma client_goal_run_valid [simp]: "is_valid_client_context (client_goal_run es)"
  unfolding client_goal_run_def by (rule cli_goal.run_valid) simp

text \<open>The Feedback sequence numbers a run lets through, in order.\<close>

fun delivered_feedback :: "ClientGoalContext \<Rightarrow> ClientGoalEvent list \<Rightarrow> uint32 list" where
  "delivered_feedback c [] = []"
| "delivered_feedback c (e # es) =
     (if cge_type e = FEEDBACK_RECEIVED \<and> ct_kind (transition_client_goal c e) = CT_TRANSITIONED
      then cge_feedback_sequence e # delivered_feedback (client_goal_next c e) es
      else delivered_feedback (client_goal_next c e) es)"

lemma feedback_step:
  "cge_type e = FEEDBACK_RECEIVED \<Longrightarrow> ct_kind (transition_client_goal c e) = CT_TRANSITIONED \<Longrightarrow>
   cge_feedback_sequence e = cg_next_feedback_sequence c
   \<and> cg_next_feedback_sequence (client_goal_next c e) = cg_next_feedback_sequence c + 1"
  by (auto simp: client_goal_next_def client_sm_defs split: if_splits)

lemma no_feedback_step:
  "\<not> (cge_type e = FEEDBACK_RECEIVED \<and> ct_kind (transition_client_goal c e) = CT_TRANSITIONED) \<Longrightarrow>
   cg_next_feedback_sequence (client_goal_next c e) = cg_next_feedback_sequence c"
  by (cases "cge_type e") (auto simp: client_goal_next_def client_sm_defs split: if_splits)

lemma delivered_feedback_consecutive:
  "delivered_feedback c es =
     map (\<lambda>i. cg_next_feedback_sequence c + of_nat i) [0..<length (delivered_feedback c es)]"
proof (induction es arbitrary: c)
  case (Cons e es)
  let ?hit = "cge_type e = FEEDBACK_RECEIVED \<and> ct_kind (transition_client_goal c e) = CT_TRANSITIONED"
  show ?case
  proof (cases ?hit)
    case True
    note step = feedback_step [OF True [THEN conjunct1] True [THEN conjunct2]]
    have "delivered_feedback (client_goal_next c e) es =
        map (\<lambda>i. cg_next_feedback_sequence c + of_nat (Suc i))
          [0..<length (delivered_feedback (client_goal_next c e) es)]"
      using Cons.IH [of "client_goal_next c e"] step by (simp add: add.assoc)
    also have "\<dots> = map (\<lambda>i. cg_next_feedback_sequence c + of_nat i)
          [Suc 0..<Suc (length (delivered_feedback (client_goal_next c e) es))]"
      by (simp only: map_Suc_upt [symmetric] map_map o_def)
    finally show ?thesis using True step by (simp add: upt_rec del: upt_Suc)
  next
    case False
    then have "delivered_feedback c (e # es) = delivered_feedback (client_goal_next c e) es" by auto
    with no_feedback_step [OF False] Cons.IH [of "client_goal_next c e"] show ?thesis by metis
  qed
qed simp

section \<open>Properties\<close>

text \<open>
  Whatever sequence of events one accepted Goal sees, the Feedback events its
  state machine lets through carry the sequence numbers 0, 1, 2, ... in this order, none
  skipped and none repeated (modulo the 32-bit counter), and no Feedback is let through
  after a Result was taken.
\<close>

theorem client_feedback_in_order:
  "delivered_feedback initial_ClientGoalContext es =
     map of_nat [0..<length (delivered_feedback initial_ClientGoalContext es)]
   \<and> (cg_state (client_goal_run es) = FINISHING \<longrightarrow>
        delivered_feedback (client_goal_run es) es' = [])"
proof
  show "delivered_feedback initial_ClientGoalContext es =
     map of_nat [0..<length (delivered_feedback initial_ClientGoalContext es)]"
    using delivered_feedback_consecutive [of initial_ClientGoalContext es]
    by (simp add: initial_ClientGoalContext_def)
  have "delivered_feedback c es' = []" if "cg_state c = FINISHING" for c
    using that
    by (induction es') (simp_all add: client_goal_next_def client_finishing_frozen client_finishing_no_transition)
  then show "cg_state (client_goal_run es) = FINISHING \<longrightarrow> delivered_feedback (client_goal_run es) es' = []"
    by blast
qed

theorem client_feedback_in_order_witness:
  "delivered_feedback (client_goal_run
     [\<lparr>cge_type = RESULT_RECEIVED, cge_terminal_status = SUCCEEDED, cge_feedback_sequence = 0\<rparr>])
     [\<lparr>cge_type = FEEDBACK_RECEIVED, cge_terminal_status = TS_UNSPECIFIED, cge_feedback_sequence = 0\<rparr>] = []"
proof -
  let ?r = "[\<lparr>cge_type = RESULT_RECEIVED, cge_terminal_status = SUCCEEDED, cge_feedback_sequence = 0\<rparr>]"
  have "cg_state (client_goal_run ?r) = FINISHING"
    by (simp add: client_goal_run_def client_goal_next_def client_sm_defs initial_ClientGoalContext_def)
  then show ?thesis using client_feedback_in_order [of ?r] by blast
qed

end
