(* ===== verification/Action_Client_Endpoint.thy ===== *)
theory Action_Client_Endpoint
  imports Server_Endpoint_Routing
begin

text \<open>
  The packet endpoint of the Action client, \<open>src/action_client_endpoint_impl.cpp\<close>: it
  reserves a slot for a Goal, sends Goal and Cancel Requests, decodes Responses and
  Feedback, and times out Goals that get no Response.

  Sending does not hold the object's mutex. \<open>send_goal\<close> and \<open>send_cancel\<close> are therefore
  compositions of their critical sections (\<open>ClientEndpoint_reserve\<close>,
  \<open>ClientEndpoint_unreserve\<close>, \<open>ClientEndpoint_begin_cancel\<close>, \<open>ClientEndpoint_revert_cancel\<close>)
  with the send between them; the critical sections are also steps of their own, so that
  interleavings are covered. Routing and protocol constants are those of the server
  endpoint, which the class repeats.
\<close>

section \<open>Data\<close>

datatype ClientBindingState =
    AWAITING_GOAL_RESPONSE
  | GOAL_RESPONSE_TIMED_OUT
  | CB_ACCEPTED
  | AWAITING_CANCEL_RESPONSE
  | CB_CANCELING

record ClientPacketBinding =
  cb_goal_id :: GoalId
  cb_slot_index :: nat
  cb_state :: ClientBindingState
  cb_sent_at_usec :: uint64
  cb_timeout_usec :: uint64
  cb_next_feedback_sequence :: uint32

datatype PendingPacketKind = PK_RESPONSE | PK_FEEDBACK

record ClientPendingPacket =
  cp_slot_index :: nat
  cp_kind :: PendingPacketKind
  cp_pdu :: pdu_data

record ActionClientEndpointImpl =
  cl_action_name :: string
  cl_has_endpoint :: bool
  cl_has_time_source :: bool
  cl_pending_packets :: "ClientPendingPacket list"
  cl_slot_routing :: "SlotRouting list"
  cl_slot_owners :: "GoalId option list"
  cl_packet_bindings :: "(GoalId, ClientPacketBinding) std_map"
  cl_action_definition :: "ActionDefinition option"
  cl_initialized :: bool
  cl_subscriptions :: "(PduResolvedKey \<times> nat \<times> PendingPacketKind) list"

definition new_ActionClientEndpointImpl :: "string \<Rightarrow> bool \<Rightarrow> bool \<Rightarrow> ActionClientEndpointImpl" where
  "new_ActionClientEndpointImpl action_name has_endpoint has_time_source =
     \<lparr>cl_action_name = action_name, cl_has_endpoint = has_endpoint,
      cl_has_time_source = has_time_source, cl_pending_packets = [], cl_slot_routing = [],
      cl_slot_owners = [], cl_packet_bindings = [], cl_action_definition = None,
      cl_initialized = False, cl_subscriptions = []\<rparr>"

section \<open>Headers\<close>

definition request_header :: "GoalId \<Rightarrow> byte \<Rightarrow> ActionRequestHeader" where
  "request_header goal_id request_kind =
     \<lparr>rqh_version = ACTION_PROTOCOL_VERSION, rqh_request_kind = request_kind, rqh_reserved = [0, 0],
      rqh_goal_id = goal_id\<rparr>"

definition write_request_header :: "'w pdu_env \<Rightarrow> pdu_data \<Rightarrow> GoalId \<Rightarrow> byte \<Rightarrow> pdu_data option" where
  "write_request_header E packet goal_id request_kind =
     (if \<not> has_valid_packet_prefix E packet (sizeof_ActionRequestHeader E) then None
      else cpp2pdu_ActionRequestHeader E (request_header goal_id request_kind) packet)"

definition create_control_request_packet ::
    "'w pdu_env \<Rightarrow> ActionClientEndpointImpl \<Rightarrow> 'w world \<Rightarrow> pdu_data option" where
  "create_control_request_packet E st w =
     (case cl_slot_routing st of
        [] \<Rightarrow> None
      | routing # _ \<Rightarrow> client_create_packet_buffer E (sr_request_packet_base_size routing) 0 w)"

definition decode_response_header :: "'w pdu_env \<Rightarrow> pdu_data \<Rightarrow> ActionResponseHeader option" where
  "decode_response_header E packet =
     (if \<not> has_valid_packet_prefix E packet (sizeof_ActionResponseHeader E) then None
      else pdu2cpp_ActionResponseHeader E packet)"

definition decode_feedback_header :: "'w pdu_env \<Rightarrow> pdu_data \<Rightarrow> ActionFeedbackHeader option" where
  "decode_feedback_header E packet =
     (if \<not> has_valid_packet_prefix E packet (sizeof_ActionFeedbackHeader E) then None
      else pdu2cpp_ActionFeedbackHeader E packet)"

section \<open>Initialisation\<close>

text \<open>
  The client's loop body assigns the key and the packet type first and checks the size
  afterwards; a failed check returns \<open>false\<close> and discards the local table.
\<close>

definition client_route_channel ::
    "'w pdu_env \<Rightarrow> string \<Rightarrow> ActionChannelDefinition \<Rightarrow> routing_state \<Rightarrow> routing_state option" where
  "client_route_channel E action_name ch rs =
     (case rs of (routings, masks, ids) \<Rightarrow>
        if ch_slot_index ch \<ge> length routings \<or> ch_channel_id ch \<in> ids then None
        else let slot = ch_slot_index ch; r = routings ! slot;
                 key = \<lparr>key_robot = action_name, key_channel_id = ch_channel_id ch\<rparr>;
                 ids' = insert (ch_channel_id ch) ids;
                 size = hako_pdu_get_size E (ch_packet_type ch);
                 (r', mask, heap_capacity, minimum_header) =
                   (case ch_kind ch of
                      REQUEST \<Rightarrow> (r\<lparr>sr_request := key, sr_request_packet_type := ch_packet_type ch,
                                    sr_request_packet_base_size := the size\<rparr>, 1,
                                  sr_request_heap_capacity r, sizeof_ActionRequestHeader E)
                    | RESPONSE \<Rightarrow> (r\<lparr>sr_response := key, sr_response_packet_type := ch_packet_type ch,
                                     sr_response_packet_base_size := the size\<rparr>, 2,
                                   sr_response_heap_capacity r, sizeof_ActionResponseHeader E)
                    | FEEDBACK \<Rightarrow> (r\<lparr>sr_feedback := key, sr_feedback_packet_type := ch_packet_type ch,
                                     sr_feedback_packet_base_size := the size\<rparr>, 4,
                                   sr_feedback_heap_capacity r, sizeof_ActionFeedbackHeader E))
             in if size = None \<or> unat (the size) < minimum_header
                   \<or> \<not> supported_packet_capacity E (the size) heap_capacity
                then None
                else Some (routings[slot := r'], masks[slot := masks ! slot OR mask], ids'))"

fun client_route_channels ::
    "'w pdu_env \<Rightarrow> string \<Rightarrow> ActionChannelDefinition list \<Rightarrow> routing_state \<Rightarrow> routing_state option" where
  "client_route_channels E name [] rs = Some rs"
| "client_route_channels E name (ch # chs) rs =
     (case client_route_channel E name ch rs of
        None \<Rightarrow> None
      | Some rs' \<Rightarrow> client_route_channels E name chs rs')"

definition ClientEndpoint_initialize ::
    "'w pdu_env \<Rightarrow> 'j json_ops \<Rightarrow> 'j \<Rightarrow> ActionClientEndpointImpl \<Rightarrow> bool \<times> ActionClientEndpointImpl" where
  "ClientEndpoint_initialize E J action_config st =
     (case parse_action J action_config of
        Inl _ \<Rightarrow> (False, st)
      | Inr d \<Rightarrow>
          if ad_name d \<noteq> cl_action_name st \<or> \<not> cl_has_endpoint st \<or> \<not> cl_has_time_source st
          then (False, st)
          else case client_route_channels E (cl_action_name st) (ad_channels d)
                      (map (initial_routing d) [0..<ad_slot_count d], replicate (ad_slot_count d) 0, {}) of
            None \<Rightarrow> (False, st)
          | Some (routings, masks, _) \<Rightarrow>
              if list_ex (\<lambda>mask. mask \<noteq> 7) masks then (False, st)
              else if cl_initialized st then (False, st)
              else (True, st\<lparr>cl_action_definition := Some d, cl_slot_routing := routings,
                     cl_slot_owners := resize (length routings) None (cl_slot_owners st),
                     cl_initialized := True,
                     cl_subscriptions := concat (map (\<lambda>r. [(sr_response r, sr_slot_index r, PK_RESPONSE),
                       (sr_feedback r, sr_slot_index r, PK_FEEDBACK)]) routings)\<rparr>))"

definition ClientEndpoint_on_recv ::
    "nat \<Rightarrow> PendingPacketKind \<Rightarrow> pdu_data \<Rightarrow> ActionClientEndpointImpl \<Rightarrow> ActionClientEndpointImpl" where
  "ClientEndpoint_on_recv slot_index kind data st =
     st\<lparr>cl_pending_packets := cl_pending_packets st
         @ [\<lparr>cp_slot_index = slot_index, cp_kind = kind, cp_pdu = data\<rparr>]\<rparr>"

definition ClientEndpoint_create_goal_buffer ::
    "'w pdu_env \<Rightarrow> ActionClientEndpointImpl \<Rightarrow> 'w world \<Rightarrow> pdu_data option" where
  "ClientEndpoint_create_goal_buffer E st w =
     (if \<not> cl_initialized st then None
      else case cl_slot_routing st of
        [] \<Rightarrow> None
      | routing # _ \<Rightarrow> client_create_packet_buffer E (sr_request_packet_base_size routing)
                          (sr_request_heap_capacity routing) w)"

section \<open>Sending\<close>

definition client_release_binding_locked :: "GoalId \<Rightarrow> ActionClientEndpointImpl \<Rightarrow> ActionClientEndpointImpl" where
  "client_release_binding_locked g st =
     (case sm_find (cl_packet_bindings st) g of
        None \<Rightarrow> st
      | Some binding \<Rightarrow>
          st\<lparr>cl_slot_owners := (if cb_slot_index binding < length (cl_slot_owners st)
                                then (cl_slot_owners st)[cb_slot_index binding := None] else cl_slot_owners st),
             cl_packet_bindings := sm_erase g (cl_packet_bindings st)\<rparr>)"

text \<open>\<open>std::find_if\<close> for the first slot without owner; its index.\<close>

fun first_free :: "'a option list \<Rightarrow> nat option" where
  "first_free [] = None"
| "first_free (None # xs) = Some 0"
| "first_free (Some x # xs) = map_option Suc (first_free xs)"

text \<open>The first critical section of \<open>send_goal_with_result\<close>: \<open>Inr\<close> the reserved slot.\<close>

definition ClientEndpoint_reserve ::
    "'w pdu_env \<Rightarrow> GoalId \<Rightarrow> uint64 \<Rightarrow> ActionClientEndpointImpl \<Rightarrow> 'w world
     \<Rightarrow> (GoalSendResult + nat) \<times> ActionClientEndpointImpl" where
  "ClientEndpoint_reserve E g timeout_usec st w =
     (if \<not> cl_initialized st then (Inl NOT_INITIALIZED, st)
      else if sm_find (cl_packet_bindings st) g \<noteq> None then (Inl DUPLICATE_GOAL, st)
      else case first_free (cl_slot_owners st) of
        None \<Rightarrow> (Inl NO_FREE_SLOT, st)
      | Some slot \<Rightarrow>
          (Inr slot, st\<lparr>cl_slot_owners := (cl_slot_owners st)[slot := Some g],
             cl_packet_bindings := sm_emplace g
               \<lparr>cb_goal_id = g, cb_slot_index = slot, cb_state = AWAITING_GOAL_RESPONSE,
                cb_sent_at_usec = get_microseconds E (transport w), cb_timeout_usec = timeout_usec,
                cb_next_feedback_sequence = 0\<rparr> (cl_packet_bindings st)\<rparr>))"

text \<open>The part between the critical sections: \<open>None\<close> is success.\<close>

definition ClientEndpoint_transmit_goal ::
    "'w pdu_env \<Rightarrow> SlotRouting \<Rightarrow> GoalId \<Rightarrow> pdu_data \<Rightarrow> 'w world \<Rightarrow> GoalSendResult option \<times> 'w world" where
  "ClientEndpoint_transmit_goal E routing g goal_pdu w =
     (case client_validate_packet_capacity E goal_pdu (sr_request_packet_base_size routing)
             (sr_request_heap_capacity routing) False of
        None \<Rightarrow> (Some INVALID_PACKET, w)
      | Some wire_size \<Rightarrow>
          (case write_request_header E goal_pdu g REQUEST_KIND_GOAL of
             None \<Rightarrow> (Some INVALID_PACKET, w)
           | Some packet \<Rightarrow>
               (case endpoint_send E (sr_request routing) (take wire_size packet) w of
                  (False, w') \<Rightarrow> (Some TRANSPORT_ERROR, w')
                | (True, w') \<Rightarrow> (None, w'))))"

definition ClientEndpoint_send_goal_with_result ::
    "'w pdu_env \<Rightarrow> pdu_data \<Rightarrow> GoalId \<Rightarrow> uint64 \<Rightarrow> ActionClientEndpointImpl \<Rightarrow> 'w world
     \<Rightarrow> GoalSendResult \<times> ActionClientEndpointImpl \<times> 'w world" where
  "ClientEndpoint_send_goal_with_result E goal_pdu g timeout_usec st w =
     (if \<not> is_valid_goal_id g then (INVALID_ARGUMENT, st, w)
      else case ClientEndpoint_reserve E g timeout_usec st w of
        (Inl err, st') \<Rightarrow> (err, st', w)
      | (Inr slot, st') \<Rightarrow>
          (case ClientEndpoint_transmit_goal E (cl_slot_routing st' ! slot) g goal_pdu w of
             (Some err, w') \<Rightarrow> (err, client_release_binding_locked g st', w')
           | (None, w') \<Rightarrow> (SUCCESS, st', w')))"

definition ClientEndpoint_send_goal ::
    "'w pdu_env \<Rightarrow> pdu_data \<Rightarrow> GoalId \<Rightarrow> uint64 \<Rightarrow> ActionClientEndpointImpl \<Rightarrow> 'w world
     \<Rightarrow> bool \<times> ActionClientEndpointImpl \<times> 'w world" where
  "ClientEndpoint_send_goal E goal_pdu g timeout_usec st w =
     (case ClientEndpoint_send_goal_with_result E goal_pdu g timeout_usec st w of
        (r, st', w') \<Rightarrow> (r = SUCCESS, st', w'))"

definition ClientEndpoint_begin_cancel ::
    "GoalId \<Rightarrow> ActionClientEndpointImpl \<Rightarrow> ClientPacketBinding option \<times> ActionClientEndpointImpl" where
  "ClientEndpoint_begin_cancel g st =
     (if \<not> cl_initialized st then (None, st)
      else case sm_find (cl_packet_bindings st) g of
        None \<Rightarrow> (None, st)
      | Some binding \<Rightarrow>
          if cb_state binding \<noteq> CB_ACCEPTED then (None, st)
          else (Some (binding\<lparr>cb_state := AWAITING_CANCEL_RESPONSE\<rparr>),
                st\<lparr>cl_packet_bindings := sm_update g (\<lambda>b. b\<lparr>cb_state := AWAITING_CANCEL_RESPONSE\<rparr>)
                     (cl_packet_bindings st)\<rparr>))"

definition ClientEndpoint_revert_cancel :: "GoalId \<Rightarrow> ActionClientEndpointImpl \<Rightarrow> ActionClientEndpointImpl" where
  "ClientEndpoint_revert_cancel g st =
     (case sm_find (cl_packet_bindings st) g of
        None \<Rightarrow> st
      | Some binding \<Rightarrow>
          if cb_state binding = AWAITING_CANCEL_RESPONSE
          then st\<lparr>cl_packet_bindings := sm_update g (\<lambda>b. b\<lparr>cb_state := CB_ACCEPTED\<rparr>) (cl_packet_bindings st)\<rparr>
          else st)"

definition ClientEndpoint_transmit_cancel ::
    "'w pdu_env \<Rightarrow> ActionClientEndpointImpl \<Rightarrow> nat \<Rightarrow> GoalId \<Rightarrow> 'w world \<Rightarrow> bool \<times> 'w world" where
  "ClientEndpoint_transmit_cancel E st slot g w =
     (case create_control_request_packet E st w of
        None \<Rightarrow> (False, w)
      | Some packet \<Rightarrow>
          if slot \<ge> length (cl_slot_routing st) then (False, w)
          else let routing = cl_slot_routing st ! slot in
            case client_validate_packet_capacity E packet (sr_request_packet_base_size routing)
                   (sr_request_heap_capacity routing) False of
              None \<Rightarrow> (False, w)
            | Some wire_size \<Rightarrow>
                (case write_request_header E packet g REQUEST_KIND_CANCEL of
                   None \<Rightarrow> (False, w)
                 | Some packet' \<Rightarrow> endpoint_send E (sr_request routing) (take wire_size packet') w))"

definition ClientEndpoint_send_cancel ::
    "'w pdu_env \<Rightarrow> GoalId \<Rightarrow> ActionClientEndpointImpl \<Rightarrow> 'w world
     \<Rightarrow> bool \<times> ActionClientEndpointImpl \<times> 'w world" where
  "ClientEndpoint_send_cancel E g st w =
     (if \<not> is_valid_goal_id g then (False, st, w)
      else case ClientEndpoint_begin_cancel g st of
        (None, st') \<Rightarrow> (False, st', w)
      | (Some committed, st') \<Rightarrow>
          (case ClientEndpoint_transmit_cancel E st' (cb_slot_index committed) g w of
             (True, w') \<Rightarrow> (True, st', w')
           | (False, w') \<Rightarrow> (False, ClientEndpoint_revert_cancel g st', w')))"

section \<open>Polling\<close>

definition client_goal_event_out :: "ActionClientEndpointImpl \<Rightarrow> ClientEventType \<Rightarrow> GoalId \<Rightarrow> ClientEvent" where
  "client_goal_event_out st type g =
     empty_ClientEvent\<lparr>ce_type := type, ce_action_name := cl_action_name st, ce_goal := \<lparr>client_goal_id = g\<rparr>\<rparr>"

text \<open>\<open>static_cast\<close> of a status byte to the enumerations, for the values the code lets through.\<close>

definition decision_of_code :: "byte \<Rightarrow> Decision" where
  "decision_of_code c = (if c = decision_code ACCEPTED then ACCEPTED
     else if c = decision_code REJECTED then REJECTED else DECISION_UNSPECIFIED)"

definition terminal_of_code :: "byte \<Rightarrow> TerminalStatus" where
  "terminal_of_code c = (if c = terminal_code SUCCEEDED then SUCCEEDED
     else if c = terminal_code CANCELED then CANCELED
     else if c = terminal_code ABORTED then ABORTED else TS_UNSPECIFIED)"

text \<open>The block for a decoded Response header: \<open>None\<close> falls through to the timeouts.\<close>

definition handle_response ::
    "nat \<Rightarrow> ActionResponseHeader \<Rightarrow> pdu_data \<Rightarrow> ActionClientEndpointImpl
     \<Rightarrow> (ClientEvent \<times> ActionClientEndpointImpl) option" where
  "handle_response slot header pdu st =
     (let g = rsh_goal_id header; status = rsh_status header in
      case sm_find (cl_packet_bindings st) g of
        None \<Rightarrow> None
      | Some binding \<Rightarrow>
          if rsh_response_kind header = RESPONSE_KIND_GOAL
             \<and> cb_slot_index binding = slot
             \<and> cb_state binding = AWAITING_GOAL_RESPONSE
             \<and> (status = decision_code ACCEPTED \<or> status = decision_code REJECTED)
          then let ev = (client_goal_event_out st CE_GOAL_RESPONSE g)
                          \<lparr>ce_decision := decision_of_code status, ce_pdu := pdu\<rparr>
               in if decision_of_code status = ACCEPTED
                  then Some (ev, st\<lparr>cl_packet_bindings := sm_update g (\<lambda>b. b\<lparr>cb_state := CB_ACCEPTED\<rparr>)
                                     (cl_packet_bindings st)\<rparr>)
                  else Some (ev, client_release_binding_locked g st)
          else if rsh_response_kind header = RESPONSE_KIND_RESULT
             \<and> cb_slot_index binding = slot
             \<and> (((cb_state binding = CB_ACCEPTED \<or> cb_state binding = AWAITING_CANCEL_RESPONSE)
                   \<and> (status = terminal_code SUCCEEDED \<or> status = terminal_code ABORTED))
                \<or> (cb_state binding = CB_CANCELING
                   \<and> (status = terminal_code CANCELED \<or> status = terminal_code ABORTED)))
          then Some ((client_goal_event_out st CE_RESULT g)
                       \<lparr>ce_terminal_status := terminal_of_code status, ce_pdu := pdu\<rparr>,
                     client_release_binding_locked g st)
          else if rsh_response_kind header = RESPONSE_KIND_CANCEL
             \<and> cb_slot_index binding = slot
             \<and> cb_state binding = AWAITING_CANCEL_RESPONSE
             \<and> (status = decision_code ACCEPTED \<or> status = decision_code REJECTED)
          then Some ((client_goal_event_out st CE_CANCEL_RESPONSE g)
                       \<lparr>ce_decision := decision_of_code status, ce_pdu := pdu\<rparr>,
                     st\<lparr>cl_packet_bindings := sm_update g
                          (\<lambda>b. b\<lparr>cb_state := if decision_of_code status = ACCEPTED
                                  then CB_CANCELING else CB_ACCEPTED\<rparr>) (cl_packet_bindings st)\<rparr>)
          else None)"

definition handle_feedback ::
    "nat \<Rightarrow> ActionFeedbackHeader \<Rightarrow> pdu_data \<Rightarrow> ActionClientEndpointImpl
     \<Rightarrow> (ClientEvent \<times> ActionClientEndpointImpl) option" where
  "handle_feedback slot header pdu st =
     (let g = fbh_goal_id header in
      case sm_find (cl_packet_bindings st) g of
        None \<Rightarrow> None
      | Some binding \<Rightarrow>
          if cb_slot_index binding = slot
             \<and> (cb_state binding = CB_ACCEPTED \<or> cb_state binding = AWAITING_CANCEL_RESPONSE
                \<or> cb_state binding = CB_CANCELING)
          then if fbh_sequence_no header \<noteq> cb_next_feedback_sequence binding then None
               else Some ((client_goal_event_out st CE_FEEDBACK g)
                            \<lparr>ce_feedback_sequence := fbh_sequence_no header, ce_pdu := pdu\<rparr>,
                          st\<lparr>cl_packet_bindings := sm_update g
                               (\<lambda>b. b\<lparr>cb_next_feedback_sequence := cb_next_feedback_sequence b + 1\<rparr>)
                               (cl_packet_bindings st)\<rparr>)
          else None)"

definition ClientEndpoint_handle ::
    "'w pdu_env \<Rightarrow> ClientPendingPacket \<Rightarrow> ActionClientEndpointImpl \<Rightarrow> (ClientEvent \<times> ActionClientEndpointImpl) option" where
  "ClientEndpoint_handle E p st =
     (if cp_slot_index p \<ge> length (cl_slot_routing st) then None
      else let routing = cl_slot_routing st ! cp_slot_index p in
        case cp_kind p of
          PK_RESPONSE \<Rightarrow>
            (if client_validate_packet_capacity E (cp_pdu p) (sr_response_packet_base_size routing)
                  (sr_response_heap_capacity routing) True = None then None
             else case decode_response_header E (cp_pdu p) of
               None \<Rightarrow> None
             | Some header \<Rightarrow>
                 if rsh_version header = ACTION_PROTOCOL_VERSION \<and> is_valid_goal_id (rsh_goal_id header)
                 then handle_response (cp_slot_index p) header (cp_pdu p) st
                 else None)
        | PK_FEEDBACK \<Rightarrow>
            (if client_validate_packet_capacity E (cp_pdu p) (sr_feedback_packet_base_size routing)
                  (sr_feedback_heap_capacity routing) True = None then None
             else case decode_feedback_header E (cp_pdu p) of
               None \<Rightarrow> None
             | Some header \<Rightarrow>
                 if fbh_version header = ACTION_PROTOCOL_VERSION \<and> is_valid_goal_id (fbh_goal_id header)
                 then handle_feedback (cp_slot_index p) header (cp_pdu p) st
                 else None))"

definition response_timed_out :: "uint64 \<Rightarrow> ClientPacketBinding \<Rightarrow> bool" where
  "response_timed_out now binding \<longleftrightarrow>
     cb_state binding = AWAITING_GOAL_RESPONSE
     \<and> cb_timeout_usec binding \<noteq> 0
     \<and> now \<ge> cb_sent_at_usec binding
     \<and> now - cb_sent_at_usec binding \<ge> cb_timeout_usec binding"

text \<open>The loop over the bindings at the end of \<open>poll\<close>: the first Goal whose wait is over.\<close>

definition ClientEndpoint_timeouts ::
    "uint64 \<Rightarrow> ActionClientEndpointImpl \<Rightarrow> ClientEvent \<times> ActionClientEndpointImpl" where
  "ClientEndpoint_timeouts now st =
     (if \<not> cl_initialized st then (empty_ClientEvent, st)
      else case List.find (\<lambda>(g, b). response_timed_out now b) (cl_packet_bindings st) of
        None \<Rightarrow> (empty_ClientEvent, st)
      | Some (g, b) \<Rightarrow>
          (client_goal_event_out st CE_TIMEOUT g,
           st\<lparr>cl_packet_bindings := sm_update g (\<lambda>b. b\<lparr>cb_state := GOAL_RESPONSE_TIMED_OUT\<rparr>)
                (cl_packet_bindings st)\<rparr>))"

definition ClientEndpoint_poll ::
    "'w pdu_env \<Rightarrow> ActionClientEndpointImpl \<Rightarrow> 'w world \<Rightarrow> ClientEvent \<times> ActionClientEndpointImpl" where
  "ClientEndpoint_poll E st w =
     (case cl_pending_packets st of
        [] \<Rightarrow> ClientEndpoint_timeouts (get_microseconds E (transport w)) st
      | p # ps \<Rightarrow>
          let st' = st\<lparr>cl_pending_packets := ps\<rparr> in
          (case ClientEndpoint_handle E p st' of
             Some (ev, st'') \<Rightarrow> (ev, st'')
           | None \<Rightarrow> ClientEndpoint_timeouts (get_microseconds E (transport w)) st'))"

definition ClientEndpoint_clear_pending_events :: "ActionClientEndpointImpl \<Rightarrow> ActionClientEndpointImpl" where
  "ClientEndpoint_clear_pending_events st = st\<lparr>cl_pending_packets := []\<rparr>"

definition ClientEndpoint_reset_contexts :: "ActionClientEndpointImpl \<Rightarrow> ActionClientEndpointImpl" where
  "ClientEndpoint_reset_contexts st =
     st\<lparr>cl_pending_packets := [], cl_packet_bindings := [],
        cl_slot_owners := map (\<lambda>_. None) (cl_slot_owners st)\<rparr>"

end
