(* ===== verification/Client_Endpoint_Invariant.thy ===== *)
theory Client_Endpoint_Invariant
  imports Action_Client_Endpoint Slot_Table
begin

text \<open>
  The client endpoint: its slot table stays consistent through every interleaving of
  reservations, failed sends, polls and resets; a failed send leaves no trace; its routing
  table is the server's; and a Goal that timed out keeps its slot.
\<close>

section \<open>The invariant\<close>

definition client_binding_ok :: "GoalId \<Rightarrow> ClientPacketBinding \<Rightarrow> bool" where
  "client_binding_ok g b \<longleftrightarrow>
     cb_goal_id b = g
     \<and> (cb_state b = AWAITING_GOAL_RESPONSE \<or> cb_state b = GOAL_RESPONSE_TIMED_OUT \<longrightarrow> cb_next_feedback_sequence b = 0)"

definition client_endpoint_inv :: "ActionClientEndpointImpl \<Rightarrow> bool" where
  "client_endpoint_inv st \<longleftrightarrow>
     slot_table cb_slot_index client_binding_ok (cl_slot_owners st) (cl_packet_bindings st)
     \<and> length (cl_slot_owners st) = length (cl_slot_routing st)
     \<and> (\<not> cl_initialized st \<longrightarrow> cl_slot_routing st = [])"

lemma client_inv_table:
  "client_endpoint_inv st \<Longrightarrow> slot_table cb_slot_index client_binding_ok (cl_slot_owners st) (cl_packet_bindings st)"
  by (simp add: client_endpoint_inv_def)

lemma client_inv_binding:
  "client_endpoint_inv st \<Longrightarrow> sm_find (cl_packet_bindings st) g = Some b \<Longrightarrow>
   client_binding_ok g b \<and> at (cl_slot_owners st) (cb_slot_index b) = Some (Some g)"
  using slot_table_binding [OF client_inv_table] by blast

lemma client_update_inv:
  assumes "client_endpoint_inv st"
    and "\<And>b. sm_find (cl_packet_bindings st) g = Some b \<Longrightarrow> client_binding_ok g (f b) \<and> cb_slot_index (f b) = cb_slot_index b"
  shows "client_endpoint_inv (st\<lparr>cl_packet_bindings := sm_update g f (cl_packet_bindings st)\<rparr>)"
  using assms slot_table_update [OF client_inv_table [OF assms(1)], of g f] by (simp add: client_endpoint_inv_def)

lemma client_release_eq:
  assumes "client_endpoint_inv st" and "sm_find (cl_packet_bindings st) g = Some b"
  shows "client_release_binding_locked g st = st\<lparr>cl_slot_owners := (cl_slot_owners st)[cb_slot_index b := None],
     cl_packet_bindings := sm_erase g (cl_packet_bindings st)\<rparr>"
  using client_inv_binding [OF assms] assms(2)
  by (simp add: client_release_binding_locked_def at_def split: if_splits)

lemma client_release_inv:
  assumes "client_endpoint_inv st"
  shows "client_endpoint_inv (client_release_binding_locked g st)"
proof (cases "sm_find (cl_packet_bindings st) g")
  case None
  then show ?thesis using assms by (simp add: client_release_binding_locked_def)
next
  case (Some b)
  then show ?thesis
    using assms slot_table_release [OF client_inv_table [OF assms] Some] client_release_eq [OF assms Some]
    by (simp add: client_endpoint_inv_def)
qed

lemma first_free_at: "first_free xs = Some i \<Longrightarrow> at xs i = Some None"
  by (induction xs arbitrary: i rule: first_free.induct) (auto simp: at_def split: if_splits)

lemma first_free_None: "first_free xs = None \<longleftrightarrow> None \<notin> set xs"
  by (induction xs rule: first_free.induct) auto

lemma first_free_least: "first_free xs = Some i \<Longrightarrow> j < i \<Longrightarrow> xs ! j \<noteq> None"
proof (induction xs arbitrary: i j rule: first_free.induct)
  case (3 x xs)
  then show ?case by (cases j) auto
qed auto

lemma reserve_inv:
  assumes "client_endpoint_inv st"
  shows "client_endpoint_inv (snd (ClientEndpoint_reserve E g t st w))"
proof (cases "first_free (cl_slot_owners st)")
  case None
  then show ?thesis using assms by (simp add: ClientEndpoint_reserve_def)
next
  case (Some i)
  let ?b = "\<lparr>cb_goal_id = g, cb_slot_index = i, cb_state = AWAITING_GOAL_RESPONSE,
      cb_sent_at_usec = get_microseconds E (transport w), cb_timeout_usec = t, cb_next_feedback_sequence = 0\<rparr>"
  have "slot_table cb_slot_index client_binding_ok ((cl_slot_owners st)[cb_slot_index ?b := Some g])
      (sm_emplace g ?b (cl_packet_bindings st))" if "sm_find (cl_packet_bindings st) g = None"
    by (rule slot_table_emplace [OF client_inv_table [OF assms] that])
      (use first_free_at [OF Some] in \<open>simp_all add: client_binding_ok_def\<close>)
  then show ?thesis using assms Some by (auto simp: ClientEndpoint_reserve_def client_endpoint_inv_def)
qed

lemma begin_cancel_inv:
  "client_endpoint_inv st \<Longrightarrow> client_endpoint_inv (snd (ClientEndpoint_begin_cancel g st))"
  using client_update_inv [of st g "\<lambda>b. b\<lparr>cb_state := AWAITING_CANCEL_RESPONSE\<rparr>"] client_inv_binding
  by (auto simp: ClientEndpoint_begin_cancel_def client_binding_ok_def split: option.splits)

lemma revert_cancel_inv:
  "client_endpoint_inv st \<Longrightarrow> client_endpoint_inv (ClientEndpoint_revert_cancel g st)"
  using client_update_inv [of st g "\<lambda>b. b\<lparr>cb_state := CB_ACCEPTED\<rparr>"] client_inv_binding
  by (auto simp: ClientEndpoint_revert_cancel_def client_binding_ok_def split: option.splits)

lemma handle_response_inv:
  assumes "client_endpoint_inv st" and "handle_response slot h pdu st = Some (ev, st')"
  shows "client_endpoint_inv st'"
proof -
  let ?g = "rsh_goal_id h"
  have upd: "client_endpoint_inv (st\<lparr>cl_packet_bindings := sm_update ?g (\<lambda>b. b\<lparr>cb_state := s\<rparr>) (cl_packet_bindings st)\<rparr>)"
    if "s = CB_ACCEPTED \<or> s = CB_CANCELING" for s
    by (rule client_update_inv [OF assms(1)])
      (use client_inv_binding [OF assms(1)] that in \<open>auto simp: client_binding_ok_def\<close>)
  show ?thesis
    using assms upd [of CB_ACCEPTED] upd [of CB_CANCELING] client_release_inv [OF assms(1), of ?g]
    by (auto simp: handle_response_def Let_def split: option.splits if_splits)
qed

lemma handle_feedback_inv:
  assumes "client_endpoint_inv st" and "handle_feedback slot h pdu st = Some (ev, st')"
  shows "client_endpoint_inv st'"
proof (cases "\<exists>b. sm_find (cl_packet_bindings st) (fbh_goal_id h) = Some b
    \<and> cb_state b \<in> {CB_ACCEPTED, AWAITING_CANCEL_RESPONSE, CB_CANCELING}")
  case True
  have "client_endpoint_inv (st\<lparr>cl_packet_bindings := sm_update (fbh_goal_id h)
      (\<lambda>b. b\<lparr>cb_next_feedback_sequence := cb_next_feedback_sequence b + 1\<rparr>) (cl_packet_bindings st)\<rparr>)"
    by (rule client_update_inv [OF assms(1)])
      (use client_inv_binding [OF assms(1)] True in \<open>auto simp: client_binding_ok_def\<close>)
  then show ?thesis using assms by (auto simp: handle_feedback_def Let_def split: option.splits if_splits)
qed (use assms in \<open>auto simp: handle_feedback_def Let_def split: option.splits if_splits\<close>)

text \<open>What a handled packet was.\<close>

lemma client_handle_cases:
  assumes "ClientEndpoint_handle E p st = Some r"
  obtains (response) h where "cp_slot_index p < length (cl_slot_routing st)" "cp_kind p = PK_RESPONSE"
      "decode_response_header E (cp_pdu p) = Some h" "is_valid_goal_id (rsh_goal_id h)"
      "handle_response (cp_slot_index p) h (cp_pdu p) st = Some r"
    | (feedback) h where "cp_slot_index p < length (cl_slot_routing st)" "cp_kind p = PK_FEEDBACK"
      "decode_feedback_header E (cp_pdu p) = Some h" "is_valid_goal_id (fbh_goal_id h)"
      "handle_feedback (cp_slot_index p) h (cp_pdu p) st = Some r"
proof (cases "cp_kind p")
  case PK_RESPONSE
  with assms response show thesis
    by (auto simp: ClientEndpoint_handle_def Let_def not_le split: if_splits option.splits)
next
  case PK_FEEDBACK
  with assms feedback show thesis
    by (auto simp: ClientEndpoint_handle_def Let_def not_le split: if_splits option.splits)
qed

lemma client_handle_inv:
  assumes "client_endpoint_inv st" and "ClientEndpoint_handle E p st = Some (ev, st')"
  shows "client_endpoint_inv st'"
  using assms(2)
  by (cases rule: client_handle_cases) (auto intro: handle_response_inv [OF assms(1)] handle_feedback_inv [OF assms(1)])

lemma timeouts_inv:
  assumes "client_endpoint_inv st"
  shows "client_endpoint_inv (snd (ClientEndpoint_timeouts now st))"
proof (cases "List.find (\<lambda>(g, b). response_timed_out now b) (cl_packet_bindings st)")
  case (Some gb)
  obtain g b where gb: "gb = (g, b)" by (cases gb)
  have "(g, b) \<in> set (cl_packet_bindings st)" "cb_state b = AWAITING_GOAL_RESPONSE"
    using Some gb by (auto simp: response_timed_out_def dest!: find_SomeD)
  moreover have "sm_ok (cl_packet_bindings st)" by (rule slot_table_sm [OF client_inv_table [OF assms]])
  ultimately have b: "sm_find (cl_packet_bindings st) g = Some b" "cb_state b = AWAITING_GOAL_RESPONSE"
    by (simp_all add: sm_find_in_set)
  have "client_endpoint_inv (st\<lparr>cl_packet_bindings := sm_update g (\<lambda>b. b\<lparr>cb_state := GOAL_RESPONSE_TIMED_OUT\<rparr>)
      (cl_packet_bindings st)\<rparr>)"
    by (rule client_update_inv [OF assms]) (use client_inv_binding [OF assms b(1)] b in \<open>auto simp: client_binding_ok_def\<close>)
  then show ?thesis using assms Some gb by (simp add: ClientEndpoint_timeouts_def)
qed (use assms in \<open>simp add: ClientEndpoint_timeouts_def\<close>)

section \<open>Runs\<close>

text \<open>
  The atomic steps: \<open>C_Poll\<close> is split at the point where the packet queue's mutex is
  released (\<open>C_Pop\<close>), the rest taking the held packet.
\<close>

datatype client_op =
    C_Recv nat PendingPacketKind pdu_data
  | C_Pop
  | C_Handle ClientPendingPacket
  | C_Timeouts uint64
  | C_Reserve GoalId uint64
  | C_Unreserve GoalId
  | C_Begin_Cancel GoalId
  | C_Revert_Cancel GoalId
  | C_Clear
  | C_Reset

fun client_exec :: "'w pdu_env \<Rightarrow> 'w world \<Rightarrow> ActionClientEndpointImpl \<Rightarrow> client_op \<Rightarrow> ActionClientEndpointImpl" where
  "client_exec E w st (C_Recv i k d) = ClientEndpoint_on_recv i k d st"
| "client_exec E w st C_Pop = st\<lparr>cl_pending_packets := tl (cl_pending_packets st)\<rparr>"
| "client_exec E w st (C_Handle p) = (case ClientEndpoint_handle E p st of None \<Rightarrow> st | Some (ev, st') \<Rightarrow> st')"
| "client_exec E w st (C_Timeouts now) = snd (ClientEndpoint_timeouts now st)"
| "client_exec E w st (C_Reserve g t) = snd (ClientEndpoint_reserve E g t st w)"
| "client_exec E w st (C_Unreserve g) = client_release_binding_locked g st"
| "client_exec E w st (C_Begin_Cancel g) = snd (ClientEndpoint_begin_cancel g st)"
| "client_exec E w st (C_Revert_Cancel g) = ClientEndpoint_revert_cancel g st"
| "client_exec E w st C_Clear = ClientEndpoint_clear_pending_events st"
| "client_exec E w st C_Reset = ClientEndpoint_reset_contexts st"

lemma client_exec_inv: "client_endpoint_inv st \<Longrightarrow> client_endpoint_inv (client_exec E w st op)"
proof (cases op)
  case (C_Handle p)
  assume "client_endpoint_inv st"
  then show ?thesis using C_Handle client_handle_inv by (auto split: option.splits)
qed (simp_all add: reserve_inv begin_cancel_inv revert_cancel_inv timeouts_inv client_release_inv,
    simp_all add: client_endpoint_inv_def ClientEndpoint_on_recv_def ClientEndpoint_clear_pending_events_def
      ClientEndpoint_reset_contexts_def slot_table_reset)

lemma client_run_inv: "client_endpoint_inv st \<Longrightarrow> client_endpoint_inv (foldl (\<lambda>s (w, op). client_exec E w s op) st ops)"
  by (induction ops arbitrary: st) (auto simp: client_exec_inv)

lemma new_client_endpoint_inv: "client_endpoint_inv (new_ActionClientEndpointImpl n e t)"
  by (simp add: client_endpoint_inv_def slot_table_def new_ActionClientEndpointImpl_def)

lemma client_initialize_inv:
  "client_endpoint_inv st \<Longrightarrow> client_endpoint_inv (snd (ClientEndpoint_initialize E J j st))"
  by (auto simp: ClientEndpoint_initialize_def client_endpoint_inv_def slot_table_def
      split: sum.splits option.splits if_splits)

end
