(* ===== verification/Client_Endpoint_Properties.thy ===== *)
theory Client_Endpoint_Properties
  imports Client_Endpoint_Invariant Server_Endpoint_Wire
begin

text \<open>
  What the client endpoint promises: consistent slots under every interleaving, sends that
  either take effect or leave no trace, the server's routing table, Requests that the server
  reads back, and the quarantine of a Goal whose Response never came.
\<close>

section \<open>Interleavings\<close>

text \<open>\<open>poll\<close> is a sequence of the atomic steps.\<close>

lemma client_poll_steps:
  "\<exists>ops. snd (ClientEndpoint_poll E st w) = foldl (\<lambda>s (w, op). client_exec E w s op) st ops"
proof (cases "cl_pending_packets st")
  case Nil
  then show ?thesis
    by (intro exI [of _ "[(w, C_Timeouts (get_microseconds E (transport w)))]"]) (simp add: ClientEndpoint_poll_def)
next
  case (Cons p ps)
  let ?st = "st\<lparr>cl_pending_packets := ps\<rparr>"
  show ?thesis
  proof (cases "ClientEndpoint_handle E p ?st")
    case None
    with Cons show ?thesis
      by (intro exI [of _ "[(w, C_Pop), (w, C_Timeouts (get_microseconds E (transport w)))]"])
        (simp add: ClientEndpoint_poll_def)
  next
    case (Some r)
    with Cons show ?thesis
      by (intro exI [of _ "[(w, C_Pop), (w, C_Handle p)]"])
        (simp add: ClientEndpoint_poll_def split: prod.splits)
  qed
qed

text \<open>
  C11 (invariant): after initialisation and any sequence of atomic steps, in particular any
  interleaving of sends, failed sends, polls and resets of several threads, every Goal with
  a binding owns exactly the slot its binding names, every owned slot belongs to such a Goal,
  and two Goals never share a slot.
\<close>

theorem client_endpoint_slots_consistent:
  "let st = foldl (\<lambda>s (w, op). client_exec E w s op)
       (snd (ClientEndpoint_initialize E J j (new_ActionClientEndpointImpl name ep ts))) ops in
   (\<forall>g b. sm_find (cl_packet_bindings st) g = Some b \<longrightarrow>
        cb_goal_id b = g \<and> at (cl_slot_owners st) (cb_slot_index b) = Some (Some g))
   \<and> (\<forall>i g. at (cl_slot_owners st) i = Some (Some g) \<longrightarrow>
        (\<exists>b. sm_find (cl_packet_bindings st) g = Some b \<and> cb_slot_index b = i))
   \<and> (\<forall>g b g' b'. sm_find (cl_packet_bindings st) g = Some b \<longrightarrow> sm_find (cl_packet_bindings st) g' = Some b' \<longrightarrow>
        cb_slot_index b = cb_slot_index b' \<longrightarrow> g = g')
   \<and> length (cl_slot_owners st) = length (cl_slot_routing st)"
proof -
  define st where "st = foldl (\<lambda>s (w, op). client_exec E w s op)
      (snd (ClientEndpoint_initialize E J j (new_ActionClientEndpointImpl name ep ts))) ops"
  have inv: "client_endpoint_inv st"
    unfolding st_def by (intro client_run_inv client_initialize_inv new_client_endpoint_inv)
  note table = client_inv_table [OF inv]
  have "sm_find (cl_packet_bindings st) g = Some b \<Longrightarrow>
      cb_goal_id b = g \<and> at (cl_slot_owners st) (cb_slot_index b) = Some (Some g)" for g b
    using client_inv_binding [OF inv] by (simp add: client_binding_ok_def)
  moreover have "length (cl_slot_owners st) = length (cl_slot_routing st)"
    using inv by (simp add: client_endpoint_inv_def)
  ultimately show ?thesis
    unfolding Let_def st_def [symmetric]
    using slot_table_owner [OF table] slot_table_inj [OF table] by blast
qed

section \<open>Sending\<close>

lemma transmit_goal_outbox:
  "ClientEndpoint_transmit_goal E r g p w = (res, w') \<Longrightarrow>
   (res = None \<longrightarrow> (\<exists>n q. client_validate_packet_capacity E p (sr_request_packet_base_size r) (sr_request_heap_capacity r) False = Some n
      \<and> write_request_header E p g REQUEST_KIND_GOAL = Some q
      \<and> outbox w' = outbox w @ [(sr_request r, take n q)]))
   \<and> (res \<noteq> None \<longrightarrow> outbox w' = outbox w \<and> res \<in> {Some INVALID_PACKET, Some TRANSPORT_ERROR})"
  by (auto simp: ClientEndpoint_transmit_goal_def dest!: endpoint_send_outbox
      split: option.splits prod.splits bool.splits)

lemma transmit_cancel_outbox:
  "ClientEndpoint_transmit_cancel E st i g w = (res, w') \<Longrightarrow>
   (res \<longrightarrow> (\<exists>p n q. i < length (cl_slot_routing st)
      \<and> client_validate_packet_capacity E p (sr_request_packet_base_size (cl_slot_routing st ! i))
          (sr_request_heap_capacity (cl_slot_routing st ! i)) False = Some n
      \<and> write_request_header E p g REQUEST_KIND_CANCEL = Some q
      \<and> outbox w' = outbox w @ [(sr_request (cl_slot_routing st ! i), take n q)]))
   \<and> (\<not> res \<longrightarrow> outbox w' = outbox w)"
  by (auto simp: ClientEndpoint_transmit_cancel_def Let_def dest!: endpoint_send_outbox
      split: option.splits if_splits) blast

text \<open>Releasing a reservation that was just made restores the object.\<close>

lemma unreserve_reserve:
  assumes "client_endpoint_inv st" and "ClientEndpoint_reserve E g t st w = (Inr i, st')"
  shows "client_release_binding_locked g st' = st"
proof -
  from assms(2) have fresh: "sm_find (cl_packet_bindings st) g = None" and i: "first_free (cl_slot_owners st) = Some i"
    by (auto simp: ClientEndpoint_reserve_def split: if_splits option.splits)
  have st': "st' = st\<lparr>cl_slot_owners := (cl_slot_owners st)[i := Some g],
      cl_packet_bindings := sm_emplace g \<lparr>cb_goal_id = g, cb_slot_index = i, cb_state = AWAITING_GOAL_RESPONSE,
        cb_sent_at_usec = get_microseconds E (transport w), cb_timeout_usec = t,
        cb_next_feedback_sequence = 0\<rparr> (cl_packet_bindings st)\<rparr>"
    using assms(2) by (auto simp: ClientEndpoint_reserve_def split: if_splits option.splits)
  have "i < length (cl_slot_owners st)" "cl_slot_owners st ! i = None"
    using at_SomeD [OF first_free_at [OF i]] by simp_all
  with fresh st' show ?thesis
    by (simp add: client_release_binding_locked_def sm_erase_emplace list_update_same_conv)
qed

lemma revert_begin_cancel:
  assumes "client_endpoint_inv st" and "ClientEndpoint_begin_cancel g st = (Some b, st')"
  shows "ClientEndpoint_revert_cancel g st' = st"
proof -
  from assms(2) obtain b0 where b0: "sm_find (cl_packet_bindings st) g = Some b0" "cb_state b0 = CB_ACCEPTED"
    and st': "st' = st\<lparr>cl_packet_bindings := sm_update g (\<lambda>b. b\<lparr>cb_state := AWAITING_CANCEL_RESPONSE\<rparr>) (cl_packet_bindings st)\<rparr>"
    by (auto simp: ClientEndpoint_begin_cancel_def split: if_splits option.splits)
  have ok: "sm_ok (cl_packet_bindings st)" by (rule slot_table_sm [OF client_inv_table [OF assms(1)]])
  have "sm_update g ((\<lambda>b. b\<lparr>cb_state := CB_ACCEPTED\<rparr>) \<circ> (\<lambda>b. b\<lparr>cb_state := AWAITING_CANCEL_RESPONSE\<rparr>))
      (cl_packet_bindings st) = cl_packet_bindings st"
    by (rule sm_update_id) (use b0 sm_find_in_set [OF ok] in auto)
  with b0 st' show ?thesis by (simp add: ClientEndpoint_revert_cancel_def sm_update_update)
qed

lemma send_goal_failed:
  assumes "client_endpoint_inv st" and "ClientEndpoint_send_goal_with_result E p g t st w = (r, st', w')"
    and "r \<noteq> SUCCESS"
  shows "st' = st \<and> outbox w' = outbox w"
proof -
  have reserve: "ClientEndpoint_reserve E g t st w1 = (Inl e, st1) \<Longrightarrow> st1 = st" for e st1 w1
    by (auto simp: ClientEndpoint_reserve_def split: if_splits option.splits)
  show ?thesis
    using assms unreserve_reserve [OF assms(1)]
    by (auto simp: ClientEndpoint_send_goal_with_result_def dest!: reserve dest: transmit_goal_outbox
        split: if_splits prod.splits sum.splits option.splits)
qed

lemma send_cancel_failed:
  assumes "client_endpoint_inv st" and "ClientEndpoint_send_cancel E g st w = (False, st', w')"
  shows "st' = st \<and> outbox w' = outbox w"
proof -
  have begin_cancel: "ClientEndpoint_begin_cancel g st = (None, st1) \<Longrightarrow> st1 = st" for st1
    by (auto simp: ClientEndpoint_begin_cancel_def split: if_splits option.splits)
  show ?thesis
    using assms revert_begin_cancel [OF assms(1)]
    by (auto simp: ClientEndpoint_send_cancel_def dest!: begin_cancel dest: transmit_cancel_outbox
        split: if_splits prod.splits bool.splits option.splits)
qed

text \<open>
  C19 (error): a Goal or Cancel send that reports failure, at whatever point it failed, puts
  nothing on the wire and leaves the endpoint exactly as it was: the reserved slot is free
  again, the binding is gone, and a Cancel can be retried.
\<close>

theorem client_failed_send_leaves_no_trace:
  assumes "client_endpoint_inv st"
  shows "(ClientEndpoint_send_goal_with_result E p g t st w = (r, st', w') \<and> r \<noteq> SUCCESS \<longrightarrow>
            st' = st \<and> outbox w' = outbox w)
    \<and> (ClientEndpoint_send_cancel E g st w = (False, st', w') \<longrightarrow> st' = st \<and> outbox w' = outbox w)"
  using send_goal_failed [OF assms] send_cancel_failed [OF assms] by blast

lemma send_goal_SUCCESS:
  assumes "ClientEndpoint_send_goal_with_result E p g t st w = (SUCCESS, st', w')"
  obtains i n q where "is_valid_goal_id g" "cl_initialized st" "sm_find (cl_packet_bindings st) g = None"
    "first_free (cl_slot_owners st) = Some i"
    "ClientEndpoint_reserve E g t st w = (Inr i, st')"
    "client_validate_packet_capacity E p (sr_request_packet_base_size (cl_slot_routing st ! i))
       (sr_request_heap_capacity (cl_slot_routing st ! i)) False = Some n"
    "write_request_header E p g REQUEST_KIND_GOAL = Some q"
    "outbox w' = outbox w @ [(sr_request (cl_slot_routing st ! i), take n q)]"
proof -
  from assms obtain i where v: "is_valid_goal_id g" and r: "ClientEndpoint_reserve E g t st w = (Inr i, st')"
    and tr: "ClientEndpoint_transmit_goal E (cl_slot_routing st' ! i) g p w = (None, w')"
    by (auto simp: ClientEndpoint_send_goal_with_result_def ClientEndpoint_reserve_def
        dest!: transmit_goal_outbox split: if_splits prod.splits sum.splits option.splits)
  from r have "cl_initialized st" "sm_find (cl_packet_bindings st) g = None"
    "first_free (cl_slot_owners st) = Some i" "cl_slot_routing st' = cl_slot_routing st"
    by (auto simp: ClientEndpoint_reserve_def split: if_splits option.splits)
  with that v r transmit_goal_outbox [OF tr] show thesis by auto
qed

text \<open>
  Which result \<open>send_goal_with_result\<close> returns, in the order the code
  tests; a success reserves the lowest free slot, starts the wait for the Response at the
  current time, and sends one packet on that slot's Request channel.
\<close>

theorem client_send_goal_outcome:
  assumes "client_endpoint_inv st" and "ClientEndpoint_send_goal_with_result E p g t st w = (r, st', w')"
  shows "(r = INVALID_ARGUMENT \<longleftrightarrow> \<not> is_valid_goal_id g)
    \<and> (r = NOT_INITIALIZED \<longleftrightarrow> is_valid_goal_id g \<and> \<not> cl_initialized st)
    \<and> (r = DUPLICATE_GOAL \<longleftrightarrow> is_valid_goal_id g \<and> cl_initialized st \<and> sm_find (cl_packet_bindings st) g \<noteq> None)
    \<and> (r = NO_FREE_SLOT \<longleftrightarrow> is_valid_goal_id g \<and> cl_initialized st \<and> sm_find (cl_packet_bindings st) g = None
          \<and> (\<forall>i < length (cl_slot_owners st). \<exists>g'. cl_slot_owners st ! i = Some g'))
    \<and> (r = SUCCESS \<longrightarrow> (\<exists>i bytes. at (cl_slot_owners st) i = Some None \<and> (\<forall>j < i. cl_slot_owners st ! j \<noteq> None)
          \<and> at (cl_slot_owners st') i = Some (Some g)
          \<and> sm_find (cl_packet_bindings st') g = Some \<lparr>cb_goal_id = g, cb_slot_index = i,
              cb_state = AWAITING_GOAL_RESPONSE, cb_sent_at_usec = get_microseconds E (transport w),
              cb_timeout_usec = t, cb_next_feedback_sequence = 0\<rparr>
          \<and> outbox w' = outbox w @ [(sr_request (cl_slot_routing st ! i), bytes)]))"
proof -
  have full: "first_free (cl_slot_owners st) = None \<longleftrightarrow>
      (\<forall>i < length (cl_slot_owners st). \<exists>g'. cl_slot_owners st ! i = Some g')"
    unfolding first_free_None by (auto simp: in_set_conv_nth)
  have success: "\<exists>i bytes. at (cl_slot_owners st) i = Some None \<and> (\<forall>j < i. cl_slot_owners st ! j \<noteq> None)
          \<and> at (cl_slot_owners st') i = Some (Some g)
          \<and> sm_find (cl_packet_bindings st') g = Some \<lparr>cb_goal_id = g, cb_slot_index = i,
              cb_state = AWAITING_GOAL_RESPONSE, cb_sent_at_usec = get_microseconds E (transport w),
              cb_timeout_usec = t, cb_next_feedback_sequence = 0\<rparr>
          \<and> outbox w' = outbox w @ [(sr_request (cl_slot_routing st ! i), bytes)]" if "r = SUCCESS"
  proof -
    from assms(2) that obtain i n q where i: "first_free (cl_slot_owners st) = Some i"
      and r: "ClientEndpoint_reserve E g t st w = (Inr i, st')" "sm_find (cl_packet_bindings st) g = None"
      and o: "outbox w' = outbox w @ [(sr_request (cl_slot_routing st ! i), take n q)]"
      by (blast elim: send_goal_SUCCESS)
    from r i at_SomeD [OF first_free_at [OF i]] first_free_at [OF i] first_free_least [OF i] o show ?thesis
      by (auto simp: ClientEndpoint_reserve_def split: if_splits)
  qed
  have "r = (if \<not> is_valid_goal_id g then INVALID_ARGUMENT else if \<not> cl_initialized st then NOT_INITIALIZED
      else if sm_find (cl_packet_bindings st) g \<noteq> None then DUPLICATE_GOAL
      else if first_free (cl_slot_owners st) = None then NO_FREE_SLOT else r)"
    and "is_valid_goal_id g \<Longrightarrow> cl_initialized st \<Longrightarrow> sm_find (cl_packet_bindings st) g = None \<Longrightarrow>
      first_free (cl_slot_owners st) \<noteq> None \<Longrightarrow> r \<in> {SUCCESS, INVALID_PACKET, TRANSPORT_ERROR}"
    using assms(2)
    by (auto simp: ClientEndpoint_send_goal_with_result_def ClientEndpoint_reserve_def dest!: transmit_goal_outbox
        split: if_splits option.splits prod.splits)
  with full success show ?thesis by (auto split: if_splits)
qed

section \<open>Routing\<close>

lemma client_route_channel_eq: "client_route_channel = server_route_channel"
  by (intro ext) (auto simp: client_route_channel_def server_route_channel_def Let_def not_less
      split: option.splits ActionChannelKind.splits prod.splits)

lemma client_route_channels_eq: "client_route_channels E name chs rs = server_route_channels E name chs rs"
  by (induction chs arbitrary: rs) (simp_all add: client_route_channel_eq split: option.splits)

lemma client_initialize_closed_form:
  "ClientEndpoint_initialize E J config st = (True, st') \<longleftrightarrow>
     (\<exists>d. parse_action J config = Inr d \<and> ad_name d = cl_action_name st
        \<and> cl_has_endpoint st \<and> cl_has_time_source st \<and> \<not> cl_initialized st
        \<and> packet_types_supported E d
        \<and> (let rs = map (slot_routing E (cl_action_name st) d) [0..<ad_slot_count d] in
           st' = st\<lparr>cl_action_definition := Some d, cl_slot_routing := rs,
             cl_slot_owners := resize (ad_slot_count d) None (cl_slot_owners st), cl_initialized := True,
             cl_subscriptions := concat (map (\<lambda>i. [(channel_key (cl_action_name st) i RESPONSE, i, PK_RESPONSE),
               (channel_key (cl_action_name st) i FEEDBACK, i, PK_FEEDBACK)]) [0..<ad_slot_count d])\<rparr>))"
proof (cases "parse_action J config")
  case (Inr d)
  note p = parse_action_Inr [OF Inr]
  have "list_ex (\<lambda>mask. mask \<noteq> (7::byte)) (replicate n 7) = False" for n by (auto simp: list_ex_iff)
  then show ?thesis
    using Inr route_slots [OF p(2) order.refl, of E "cl_action_name st" d] p(1)
    by (auto simp: ClientEndpoint_initialize_def client_route_channels_eq p(5) [symmetric] Let_def o_def)
qed (simp add: ClientEndpoint_initialize_def)

text \<open>
  C35 (equivalence): from one Action configuration the client and the server endpoint of the
  same name are initialised with one result, and when they are, with equal routing tables
  and as many slots; the client listens exactly where the server sends, and the server
  where the client sends.
\<close>

theorem client_server_routing_agree:
  assumes "cl_action_name c = sv_action_name s" and "cl_has_endpoint c = sv_has_endpoint s"
    and "cl_has_time_source c = sv_has_time_source s" and "cl_initialized c = sv_initialized s"
    and "ClientEndpoint_initialize E J config c = (rc, c')" and "ServerEndpoint_initialize E J config s = (rs, s')"
  shows "rc = rs \<and> (rc \<longrightarrow> cl_slot_routing c' = sv_slot_routing s'
    \<and> map fst (sv_subscriptions s') = map sr_request (cl_slot_routing c')
    \<and> set (map fst (cl_subscriptions c')) = sr_response ` set (sv_slot_routing s') \<union> sr_feedback ` set (sv_slot_routing s'))"
proof (cases rc)
  case True
  with assms(5) have "ClientEndpoint_initialize E J config c = (True, c')" by simp
  then obtain d where d: "parse_action J config = Inr d" "ad_name d = cl_action_name c"
      "cl_has_endpoint c" "cl_has_time_source c" "\<not> cl_initialized c" "packet_types_supported E d"
    and c': "cl_slot_routing c' = map (slot_routing E (cl_action_name c) d) [0..<ad_slot_count d]"
      "cl_subscriptions c' = concat (map (\<lambda>i. [(channel_key (cl_action_name c) i RESPONSE, i, PK_RESPONSE),
               (channel_key (cl_action_name c) i FEEDBACK, i, PK_FEEDBACK)]) [0..<ad_slot_count d])"
    unfolding client_initialize_closed_form Let_def by fastforce
  define s2 where "s2 = s\<lparr>sv_action_definition := Some d,
      sv_slot_routing := map (slot_routing E (sv_action_name s) d) [0..<ad_slot_count d],
      sv_slot_owners := resize (ad_slot_count d) None (sv_slot_owners s), sv_initialized := True,
      sv_subscriptions := map (\<lambda>i. (channel_key (sv_action_name s) i REQUEST, i)) [0..<ad_slot_count d]\<rparr>"
  have "ServerEndpoint_initialize E J config s = (True, s2)"
    unfolding initialize_closed_form Let_def s2_def using d assms(1-4) by auto
  with assms(6) have "rs" "s' = s2" by simp_all
  have "set (map fst (concat (map (\<lambda>i. [(a i, i, PK_RESPONSE), (b i, i, PK_FEEDBACK)]) xs))) =
      a ` set xs \<union> b ` set xs" for a b :: "nat \<Rightarrow> PduResolvedKey" and xs
    by (induction xs) auto
  from this [of "\<lambda>i. channel_key (cl_action_name c) i RESPONSE" "\<lambda>i. channel_key (cl_action_name c) i FEEDBACK"
      "[0..<ad_slot_count d]", folded c'(2)]
  show ?thesis using True c'(1) assms(1) \<open>rs\<close> \<open>s' = s2\<close> by (simp add: s2_def o_def image_image)
next
  case False
  have "\<not> rs"
  proof
    assume rs
    with assms(6) have "ServerEndpoint_initialize E J config s = (True, s')" by simp
    then obtain d where "parse_action J config = Inr d \<and> ad_name d = sv_action_name s
        \<and> sv_has_endpoint s \<and> sv_has_time_source s \<and> \<not> sv_initialized s \<and> packet_types_supported E d"
      unfolding initialize_closed_form by auto
    with assms(1-4) have "\<exists>st'. ClientEndpoint_initialize E J config c = (True, st')"
      unfolding client_initialize_closed_form by auto
    with assms(5) False show False by simp
  qed
  with False show ?thesis by simp
qed

section \<open>Requests on the wire\<close>

lemma write_request_iff:
  "write_request_header E p g kind = Some q \<longleftrightarrow>
     has_valid_packet_prefix E p (sizeof_ActionRequestHeader E)
     \<and> cpp2pdu_ActionRequestHeader E (request_header g kind) p = Some q"
  by (simp add: write_request_header_def)

lemma request_readable:
  assumes reg: "registry_ok E" and g: "length g = 16" "is_valid_goal_id g"
    and kind: "kind = REQUEST_KIND_GOAL \<or> kind = REQUEST_KIND_CANCEL"
    and v: "client_validate_packet_capacity E p b h False = Some n"
    and q: "write_request_header E p g kind = Some q"
  shows "validate_packet_capacity E (take n q) b h True = Some n
    \<and> decode_request_header E (take n q) = Some (request_header g kind)
    \<and> validate_request_header (request_header g kind)"
proof -
  have "length (rqh_goal_id (request_header g kind)) = 16 \<and> length (rqh_reserved (request_header g kind)) = 2"
    using g by (simp add: request_header_def)
  from wire_roundtrip [OF reg registry_codecs(1) [OF reg] this v [unfolded client_validate_eq]]
    q [unfolded write_request_iff] g(2) kind
  show ?thesis
    by (auto simp: decode_request_header_def validate_request_header_def request_header_def is_valid_goal_id_iff list_ex_iff)
qed

lemma server_handles_request:
  assumes "i < length (sv_slot_routing s)"
    and "validate_packet_capacity E bytes (sr_request_packet_base_size (sv_slot_routing s ! i))
      (sr_request_heap_capacity (sv_slot_routing s ! i)) True = Some n"
    and "decode_request_header E bytes = Some (request_header g kind)"
    and "validate_request_header (request_header g kind)"
  shows "ServerEndpoint_handle E \<lparr>pp_slot_index = i, pp_pdu = bytes\<rparr> s v =
    (if kind = REQUEST_KIND_CANCEL
     then (case handle_cancel_request \<lparr>pp_slot_index = i, pp_pdu = bytes\<rparr> g s of (ev, s') \<Rightarrow> (ev, s', v))
     else handle_goal_request E \<lparr>pp_slot_index = i, pp_pdu = bytes\<rparr> g s v)"
  using assms by (simp add: ServerEndpoint_handle_def Let_def request_header_def)

lemma goal_request_received:
  assumes reg: "registry_ok E" and inv: "client_endpoint_inv c" and g: "length g = 16"
    and routing: "sv_slot_routing s = cl_slot_routing c"
    and sent: "ClientEndpoint_send_goal_with_result E p g t c w = (SUCCESS, c', w')"
  obtains i bytes where "first_free (cl_slot_owners c) = Some i" "ClientEndpoint_reserve E g t c w = (Inr i, c')"
    "i < length (cl_slot_routing c)"
    "outbox w' = outbox w @ [(sr_request (sv_slot_routing s ! i), bytes)]"
    "\<And>v. ServerEndpoint_handle E \<lparr>pp_slot_index = i, pp_pdu = bytes\<rparr> s v =
       handle_goal_request E \<lparr>pp_slot_index = i, pp_pdu = bytes\<rparr> g s v"
proof -
  from send_goal_SUCCESS [OF sent] obtain i n q where
    g2: "is_valid_goal_id g" and i: "first_free (cl_slot_owners c) = Some i"
      "ClientEndpoint_reserve E g t c w = (Inr i, c')"
    and v: "client_validate_packet_capacity E p (sr_request_packet_base_size (cl_slot_routing c ! i))
       (sr_request_heap_capacity (cl_slot_routing c ! i)) False = Some n"
    and q: "write_request_header E p g REQUEST_KIND_GOAL = Some q"
    and out: "outbox w' = outbox w @ [(sr_request (cl_slot_routing c ! i), take n q)]"
    by metis
  have len: "i < length (cl_slot_routing c)"
    using at_SomeD [OF first_free_at [OF i(1)]] inv by (simp add: client_endpoint_inv_def)
  have h: "ServerEndpoint_handle E \<lparr>pp_slot_index = i, pp_pdu = take n q\<rparr> s v =
       handle_goal_request E \<lparr>pp_slot_index = i, pp_pdu = take n q\<rparr> g s v" for v
    using server_handles_request [of i s E "take n q" n g REQUEST_KIND_GOAL v] len routing
      request_readable [OF reg g g2 _ v q]
    by (simp add: protocol_constants)
  show thesis by (rule that [OF i len _ h]) (simp add: routing out)
qed

lemma cancel_request_received:
  assumes reg: "registry_ok E" and g: "length g = 16"
    and routing: "sv_slot_routing s = cl_slot_routing c"
    and sent: "ClientEndpoint_send_cancel E g c w = (True, c', w')"
  obtains b bytes where "sm_find (cl_packet_bindings c) g = Some b" "cb_state b = CB_ACCEPTED"
    "c' = c\<lparr>cl_packet_bindings := sm_update g (\<lambda>b. b\<lparr>cb_state := AWAITING_CANCEL_RESPONSE\<rparr>) (cl_packet_bindings c)\<rparr>"
    "outbox w' = outbox w @ [(sr_request (sv_slot_routing s ! cb_slot_index b), bytes)]"
    "\<And>v. ServerEndpoint_handle E \<lparr>pp_slot_index = cb_slot_index b, pp_pdu = bytes\<rparr> s v =
       (case handle_cancel_request \<lparr>pp_slot_index = cb_slot_index b, pp_pdu = bytes\<rparr> g s of (ev, s') \<Rightarrow> (ev, s', v))"
proof -
  from sent obtain b where g2: "is_valid_goal_id g"
    and b: "sm_find (cl_packet_bindings c) g = Some b" "cb_state b = CB_ACCEPTED"
    and c': "c' = c\<lparr>cl_packet_bindings := sm_update g (\<lambda>b. b\<lparr>cb_state := AWAITING_CANCEL_RESPONSE\<rparr>) (cl_packet_bindings c)\<rparr>"
    and tr: "ClientEndpoint_transmit_cancel E c' (cb_slot_index b) g w = (True, w')"
    by (auto simp: ClientEndpoint_send_cancel_def ClientEndpoint_begin_cancel_def
        split: if_splits option.splits prod.splits bool.splits)
  have routing': "cl_slot_routing c' = cl_slot_routing c" using c' by simp
  from transmit_cancel_outbox [OF tr] obtain p n q where i: "cb_slot_index b < length (cl_slot_routing c)"
    and v: "client_validate_packet_capacity E p (sr_request_packet_base_size (cl_slot_routing c ! cb_slot_index b))
       (sr_request_heap_capacity (cl_slot_routing c ! cb_slot_index b)) False = Some n"
    and q: "write_request_header E p g REQUEST_KIND_CANCEL = Some q"
    and out: "outbox w' = outbox w @ [(sr_request (cl_slot_routing c ! cb_slot_index b), take n q)]"
    unfolding routing' by auto
  have "ServerEndpoint_handle E \<lparr>pp_slot_index = cb_slot_index b, pp_pdu = take n q\<rparr> s v =
       (case handle_cancel_request \<lparr>pp_slot_index = cb_slot_index b, pp_pdu = take n q\<rparr> g s of (ev, s') \<Rightarrow> (ev, s', v))" for v
    using server_handles_request [of "cb_slot_index b" s E "take n q" n g REQUEST_KIND_CANCEL v] i routing
      request_readable [OF reg g g2 _ v q]
    by simp
  with b c' out routing that show thesis by metis
qed

text \<open>
  C13 (roundtrip): a Goal Request that was sent is one packet on the Request channel of the
  reserved slot, and a server endpoint with the same routing and that slot free takes it in
  as a Goal Request of the same Goal, binding the same slot; a Cancel Request that was sent
  is taken in as a Cancel Request by a server that executes the Goal in the client's slot.
\<close>

theorem client_requests_reach_server:
  assumes "registry_ok E" and "client_endpoint_inv c" and "length g = 16"
    and "sv_slot_routing s = cl_slot_routing c"
  shows "(ClientEndpoint_send_goal_with_result E p g t c w = (SUCCESS, c', w') \<longrightarrow>
      (\<exists>i bytes. at (cl_slot_owners c') i = Some (Some g)
         \<and> outbox w' = outbox w @ [(sr_request (sv_slot_routing s ! i), bytes)]
         \<and> (sm_find (sv_packet_bindings s) g = None \<and> sv_slot_owners s ! i = None \<longrightarrow>
            ServerEndpoint_handle E \<lparr>pp_slot_index = i, pp_pdu = bytes\<rparr> s v =
              (goal_event s SE_GOAL_REQUEST g bytes,
               s\<lparr>sv_slot_owners := (sv_slot_owners s)[i := Some g],
                 sv_packet_bindings := sm_emplace g (new_binding g i) (sv_packet_bindings s)\<rparr>, v))))
    \<and> (ClientEndpoint_send_cancel E g c w = (True, c', w') \<longrightarrow>
      (\<exists>b bytes. sm_find (cl_packet_bindings c) g = Some b
         \<and> outbox w' = outbox w @ [(sr_request (sv_slot_routing s ! cb_slot_index b), bytes)]
         \<and> (\<forall>sb. sm_find (sv_packet_bindings s) g = Some sb \<and> ab_slot_index sb = cb_slot_index b
              \<and> ab_state sb = GOAL_ACCEPTED \<and> \<not> ab_cancel_decision_pending sb \<longrightarrow>
            ServerEndpoint_handle E \<lparr>pp_slot_index = cb_slot_index b, pp_pdu = bytes\<rparr> s v =
              (goal_event s SE_CANCEL_REQUEST g bytes,
               s\<lparr>sv_packet_bindings := sm_update g (\<lambda>b. b\<lparr>ab_cancel_decision_pending := True\<rparr>)
                   (sv_packet_bindings s)\<rparr>, v))))"
proof (intro conjI impI)
  assume sent: "ClientEndpoint_send_goal_with_result E p g t c w = (SUCCESS, c', w')"
  obtain i bytes where i: "first_free (cl_slot_owners c) = Some i" "ClientEndpoint_reserve E g t c w = (Inr i, c')"
    and out: "outbox w' = outbox w @ [(sr_request (sv_slot_routing s ! i), bytes)]"
    and h: "ServerEndpoint_handle E \<lparr>pp_slot_index = i, pp_pdu = bytes\<rparr> s v =
       handle_goal_request E \<lparr>pp_slot_index = i, pp_pdu = bytes\<rparr> g s v"
    using goal_request_received [OF assms sent] by metis
  have "at (cl_slot_owners c') i = Some (Some g)"
    using i(2) at_SomeD [OF first_free_at [OF i(1)]]
    by (auto simp: ClientEndpoint_reserve_def split: if_splits option.splits)
  with h out show "\<exists>i bytes. at (cl_slot_owners c') i = Some (Some g)
         \<and> outbox w' = outbox w @ [(sr_request (sv_slot_routing s ! i), bytes)]
         \<and> (sm_find (sv_packet_bindings s) g = None \<and> sv_slot_owners s ! i = None \<longrightarrow>
            ServerEndpoint_handle E \<lparr>pp_slot_index = i, pp_pdu = bytes\<rparr> s v =
              (goal_event s SE_GOAL_REQUEST g bytes,
               s\<lparr>sv_slot_owners := (sv_slot_owners s)[i := Some g],
                 sv_packet_bindings := sm_emplace g (new_binding g i) (sv_packet_bindings s)\<rparr>, v))"
    by (auto simp: handle_goal_request_def)
next
  assume sent: "ClientEndpoint_send_cancel E g c w = (True, c', w')"
  obtain b bytes where "sm_find (cl_packet_bindings c) g = Some b"
    "outbox w' = outbox w @ [(sr_request (sv_slot_routing s ! cb_slot_index b), bytes)]"
    "ServerEndpoint_handle E \<lparr>pp_slot_index = cb_slot_index b, pp_pdu = bytes\<rparr> s v =
       (case handle_cancel_request \<lparr>pp_slot_index = cb_slot_index b, pp_pdu = bytes\<rparr> g s of (ev, s') \<Rightarrow> (ev, s', v))"
    using cancel_request_received [OF assms(1,3,4) sent] by metis
  then show "\<exists>b bytes. sm_find (cl_packet_bindings c) g = Some b
         \<and> outbox w' = outbox w @ [(sr_request (sv_slot_routing s ! cb_slot_index b), bytes)]
         \<and> (\<forall>sb. sm_find (sv_packet_bindings s) g = Some sb \<and> ab_slot_index sb = cb_slot_index b
              \<and> ab_state sb = GOAL_ACCEPTED \<and> \<not> ab_cancel_decision_pending sb \<longrightarrow>
            ServerEndpoint_handle E \<lparr>pp_slot_index = cb_slot_index b, pp_pdu = bytes\<rparr> s v =
              (goal_event s SE_CANCEL_REQUEST g bytes,
               s\<lparr>sv_packet_bindings := sm_update g (\<lambda>b. b\<lparr>ab_cancel_decision_pending := True\<rparr>)
                   (sv_packet_bindings s)\<rparr>, v))"
    by (auto simp: handle_cancel_request_def)
qed

section \<open>Timeouts\<close>

lemma response_timed_out_iff:
  "response_timed_out now b \<longleftrightarrow> cb_state b = AWAITING_GOAL_RESPONSE \<and> cb_timeout_usec b \<noteq> 0
     \<and> unat (cb_sent_at_usec b) + unat (cb_timeout_usec b) \<le> unat now"
  by (auto simp: response_timed_out_def word_le_nat_alt unat_sub)

lemma find_first_key:
  assumes "sorted (map fst xs)" and "List.find P xs = Some x" and "y \<in> set xs" and "P y"
  shows "fst x \<le> fst (y :: 'k::linorder \<times> 'v)"
  using assms by (induction xs) (auto split: if_splits)

text \<open>
  C34 (bounds): with unsigned 64-bit times, a Goal times out exactly when its Goal Response is
  still awaited, a timeout was requested, and that many microseconds have passed since the
  send, counted without wrap-around (a clock that went backwards never times a Goal out);
  of several such Goals the one with the least ID is reported, and only it changes.
\<close>

theorem client_timeout_iff:
  assumes "client_endpoint_inv st" and "cl_initialized st" and "ClientEndpoint_timeouts now st = (ev, st')"
  defines "due \<equiv> \<lambda>g. \<exists>b. sm_find (cl_packet_bindings st) g = Some b \<and> cb_state b = AWAITING_GOAL_RESPONSE
      \<and> cb_timeout_usec b \<noteq> 0 \<and> unat (cb_sent_at_usec b) + unat (cb_timeout_usec b) \<le> unat now"
  shows "((\<exists>g. due g) \<longrightarrow> (\<exists>g. due g \<and> (\<forall>g'. due g' \<longrightarrow> g \<le> g')
        \<and> ev = client_goal_event_out st CE_TIMEOUT g
        \<and> st' = st\<lparr>cl_packet_bindings := sm_update g (\<lambda>b. b\<lparr>cb_state := GOAL_RESPONSE_TIMED_OUT\<rparr>)
                      (cl_packet_bindings st)\<rparr>))
    \<and> ((\<forall>g. \<not> due g) \<longrightarrow> ev = empty_ClientEvent \<and> st' = st)"
proof -
  let ?P = "\<lambda>(g, b). response_timed_out now b"
  have ok: "sm_ok (cl_packet_bindings st)" by (rule slot_table_sm [OF client_inv_table [OF assms(1)]])
  have due_set: "due g \<longleftrightarrow> (\<exists>b. (g, b) \<in> set (cl_packet_bindings st) \<and> response_timed_out now b)" for g
    using sm_find_in_set [OF ok] by (auto simp: due_def response_timed_out_iff)
  show ?thesis
  proof (cases "List.find ?P (cl_packet_bindings st)")
    case None
    then have "\<not> due g" for g unfolding due_set by (auto simp: find_None_iff)
    with None assms(2,3) show ?thesis by (simp add: ClientEndpoint_timeouts_def)
  next
    case (Some x)
    obtain g b where x: "x = (g, b)" by (cases x)
    from find_SomeD [OF Some] x have "due g" unfolding due_set by auto
    moreover have "g \<le> g'" if "due g'" for g'
      using find_first_key [OF _ Some] that x ok unfolding due_set sm_ok_def by fastforce
    ultimately show ?thesis
      using Some x assms(2,3) by (auto simp: ClientEndpoint_timeouts_def)
  qed
qed

text \<open>The steps that can end the quarantine of a Goal.\<close>

fun keeps_quarantine :: "GoalId \<Rightarrow> client_op \<Rightarrow> bool" where
  "keeps_quarantine g C_Reset = False"
| "keeps_quarantine g (C_Unreserve g') = (g' \<noteq> g)"
| "keeps_quarantine g _ = True"

lemma find_client_release:
  "sm_find (cl_packet_bindings (client_release_binding_locked g' st)) g =
     (if g = g' then None else sm_find (cl_packet_bindings st) g)"
  by (simp add: client_release_binding_locked_def split: option.splits)

lemma quarantine_handle:
  assumes "sm_find (cl_packet_bindings st) g = Some b" and "cb_state b = GOAL_RESPONSE_TIMED_OUT"
    and "ClientEndpoint_handle E p st = Some (ev, st')"
  shows "sm_find (cl_packet_bindings st') g = Some b \<and> client_goal_id (ce_goal ev) \<noteq> g"
  using assms(3)
proof (cases rule: client_handle_cases)
  case (response h)
  with assms(1,2) show ?thesis
    by (auto simp: handle_response_def Let_def client_goal_event_out_def find_client_release
        split: option.splits if_splits)
next
  case (feedback h)
  with assms(1,2) show ?thesis
    by (auto simp: handle_feedback_def Let_def client_goal_event_out_def split: option.splits if_splits)
qed

lemma quarantine_step:
  assumes ok: "sm_ok (cl_packet_bindings st)"
    and b: "sm_find (cl_packet_bindings st) g = Some b" "cb_state b = GOAL_RESPONSE_TIMED_OUT"
    and op: "keeps_quarantine g op"
  shows "sm_find (cl_packet_bindings (client_exec E w st op)) g = Some b"
proof (cases op)
  case (C_Handle p)
  with quarantine_handle [OF b] b show ?thesis by (auto split: option.splits)
next
  case (C_Timeouts now)
  have "(g', b') \<in> set (cl_packet_bindings st) \<Longrightarrow> response_timed_out now b' \<Longrightarrow> g' \<noteq> g" for g' b'
    using b ok by (auto simp: sm_find_in_set response_timed_out_def)
  with C_Timeouts b show ?thesis
    by (auto simp: ClientEndpoint_timeouts_def split: option.splits dest!: find_SomeD)
next
  case (C_Reserve g' t)
  with b show ?thesis by (auto simp: ClientEndpoint_reserve_def split: option.splits)
qed (use b op in \<open>auto simp: ClientEndpoint_on_recv_def ClientEndpoint_begin_cancel_def
    ClientEndpoint_revert_cancel_def ClientEndpoint_clear_pending_events_def find_client_release
    split: option.splits\<close>)

lemma quarantine_run:
  assumes "client_endpoint_inv st" and "sm_find (cl_packet_bindings st) g = Some b"
    and "cb_state b = GOAL_RESPONSE_TIMED_OUT" and "list_all (keeps_quarantine g \<circ> snd) ops"
  shows "sm_find (cl_packet_bindings (foldl (\<lambda>s (w, op). client_exec E w s op) st ops)) g = Some b"
  using assms
proof (induction ops arbitrary: st)
  case (Cons x ops)
  obtain w op where x: "x = (w, op)" by (cases x)
  have "sm_ok (cl_packet_bindings st)" by (rule slot_table_sm [OF client_inv_table [OF Cons.prems(1)]])
  then have "sm_find (cl_packet_bindings (client_exec E w st op)) g = Some b"
    using Cons.prems x by (auto intro: quarantine_step)
  with Cons x client_exec_inv [of st E w op] show ?case by simp
qed simp

text \<open>
  C17 (safety): a Goal whose Goal Response timed out is quarantined: whatever arrives and
  whatever other Goals do, its slot is never given to another Goal, its ID cannot be sent
  again, a late Response or Feedback for it produces no event, and it cannot be cancelled,
  until the contexts are reset (or the very send that reserved the slot reports failure).
\<close>

theorem client_timed_out_goal_quarantined:
  assumes "client_endpoint_inv st" and "sm_find (cl_packet_bindings st) g = Some b"
    and "cb_state b = GOAL_RESPONSE_TIMED_OUT" and "list_all (keeps_quarantine g \<circ> snd) ops"
    and st': "foldl (\<lambda>s (w, op). client_exec E w s op) st ops = st'"
  shows "sm_find (cl_packet_bindings st') g = Some b
    \<and> at (cl_slot_owners st') (cb_slot_index b) = Some (Some g)
    \<and> (\<forall>p ev st''. ClientEndpoint_handle E p st' = Some (ev, st'') \<longrightarrow> client_goal_id (ce_goal ev) \<noteq> g)
    \<and> fst (ClientEndpoint_send_goal_with_result E q g t st' w) \<in> {INVALID_ARGUMENT, NOT_INITIALIZED, DUPLICATE_GOAL}
    \<and> \<not> fst (ClientEndpoint_send_cancel E g st' w)"
proof -
  have b: "sm_find (cl_packet_bindings st') g = Some b" unfolding st' [symmetric] by (rule quarantine_run [OF assms(1-4)])
  have "client_endpoint_inv st'" unfolding st' [symmetric] by (rule client_run_inv [OF assms(1)])
  from client_inv_binding [OF this b] b quarantine_handle [OF b assms(3)] assms(3) show ?thesis
    by (auto simp: ClientEndpoint_send_goal_with_result_def ClientEndpoint_reserve_def
        ClientEndpoint_send_cancel_def ClientEndpoint_begin_cancel_def)
qed

end
