(* ===== verification/Action_Client_Interface.thy ===== *)
theory Action_Client_Interface
  imports Client_Endpoint_Properties
begin

text \<open>
  \<open>IActionClientEndpoint\<close> (\<open>include/hakoniwa/pdu/action/action_client_endpoint.hpp\<close>), the
  virtual interface through which the client services use a packet endpoint: the table of
  its operations, the contract as the locale \<open>action_client_endpoint\<close>, and its
  interpretation by \<open>ActionClientEndpointImpl\<close>. The contract sees an endpoint through its
  view: for each Goal ID the state of its binding and the next Feedback number.
\<close>

section \<open>The table of operations\<close>

record ('e, 'w) IActionClientEndpoint =
  cv_send_goal_with_result :: "pdu_data \<Rightarrow> GoalId \<Rightarrow> uint64 \<Rightarrow> 'e \<Rightarrow> 'w world \<Rightarrow> GoalSendResult \<times> 'e \<times> 'w world"
  cv_send_cancel :: "GoalId \<Rightarrow> 'e \<Rightarrow> 'w world \<Rightarrow> bool \<times> 'e \<times> 'w world"
  cv_poll :: "'e \<Rightarrow> 'w world \<Rightarrow> ClientEvent \<times> 'e"
  cv_create_goal_buffer :: "'e \<Rightarrow> 'w world \<Rightarrow> pdu_data option"
  cv_clear_pending_events :: "'e \<Rightarrow> 'e"
  cv_reset_contexts :: "'e \<Rightarrow> 'e"

definition client_endpoint_vtable :: "'w pdu_env \<Rightarrow> (ActionClientEndpointImpl, 'w) IActionClientEndpoint" where
  "client_endpoint_vtable E = \<lparr>
     cv_send_goal_with_result = ClientEndpoint_send_goal_with_result E,
     cv_send_cancel = ClientEndpoint_send_cancel E,
     cv_poll = ClientEndpoint_poll E,
     cv_create_goal_buffer = ClientEndpoint_create_goal_buffer E,
     cv_clear_pending_events = ClientEndpoint_clear_pending_events,
     cv_reset_contexts = ClientEndpoint_reset_contexts\<rparr>"

section \<open>The contract\<close>

type_synonym client_view = "GoalId \<rightharpoonup> ClientBindingState \<times> uint32"

definition result_expected :: "ClientBindingState \<Rightarrow> TerminalStatus \<Rightarrow> bool" where
  "result_expected s t \<longleftrightarrow>
     (s = CB_ACCEPTED \<or> s = AWAITING_CANCEL_RESPONSE) \<and> (t = SUCCEEDED \<or> t = ABORTED)
     \<or> s = CB_CANCELING \<and> (t = CANCELED \<or> t = ABORTED)"

text \<open>What an event returned by \<open>poll\<close> says about the view before and after.\<close>

definition client_poll_effect :: "client_view \<Rightarrow> ClientEvent \<Rightarrow> client_view \<Rightarrow> bool" where
  "client_poll_effect u ev u' \<longleftrightarrow>
     (let g = client_goal_id (ce_goal ev) in
      case ce_type ev of
        CE_NONE \<Rightarrow> u' = u
      | CE_GOAL_RESPONSE \<Rightarrow> is_valid_goal_id g \<and> u g = Some (AWAITING_GOAL_RESPONSE, 0)
          \<and> (ce_decision ev = ACCEPTED \<and> u' = u(g \<mapsto> (CB_ACCEPTED, 0))
             \<or> ce_decision ev = REJECTED \<and> u' = u(g := None))
      | CE_FEEDBACK \<Rightarrow> is_valid_goal_id g
          \<and> (\<exists>s \<in> {CB_ACCEPTED, AWAITING_CANCEL_RESPONSE, CB_CANCELING}.
               u g = Some (s, ce_feedback_sequence ev) \<and> u' = u(g \<mapsto> (s, ce_feedback_sequence ev + 1)))
      | CE_CANCEL_RESPONSE \<Rightarrow> is_valid_goal_id g
          \<and> (\<exists>q. u g = Some (AWAITING_CANCEL_RESPONSE, q)
               \<and> (ce_decision ev = ACCEPTED \<and> u' = u(g \<mapsto> (CB_CANCELING, q))
                  \<or> ce_decision ev = REJECTED \<and> u' = u(g \<mapsto> (CB_ACCEPTED, q))))
      | CE_RESULT \<Rightarrow> is_valid_goal_id g
          \<and> (\<exists>s q. u g = Some (s, q) \<and> result_expected s (ce_terminal_status ev)) \<and> u' = u(g := None)
      | CE_TIMEOUT \<Rightarrow> u g = Some (AWAITING_GOAL_RESPONSE, 0) \<and> u' = u(g \<mapsto> (GOAL_RESPONSE_TIMED_OUT, 0))
      | CE_ERROR \<Rightarrow> False)"

locale action_client_endpoint =
  fixes V :: "('e, 'w) IActionClientEndpoint"
    and ok :: "'e \<Rightarrow> bool"
    and view :: "'e \<Rightarrow> client_view"
  assumes poll: "ok e \<Longrightarrow> cv_poll V e w = (ev, e') \<Longrightarrow> ok e' \<and> client_poll_effect (view e) ev (view e')"
    and send_goal: "ok e \<Longrightarrow> cv_send_goal_with_result V d g t e w = (res, e', w') \<Longrightarrow> ok e' \<and>
      (if res = SUCCESS then view e g = None \<and> view e' = (view e)(g \<mapsto> (AWAITING_GOAL_RESPONSE, 0)) else e' = e)"
    and send_cancel: "ok e \<Longrightarrow> cv_send_cancel V g e w = (r, e', w') \<Longrightarrow> ok e' \<and>
      (if r then (\<exists>q. view e g = Some (CB_ACCEPTED, q) \<and> view e' = (view e)(g \<mapsto> (AWAITING_CANCEL_RESPONSE, q)))
       else e' = e)"
    and clear: "ok e \<Longrightarrow> ok (cv_clear_pending_events V e) \<and> view (cv_clear_pending_events V e) = view e"
    and reset: "ok e \<Longrightarrow> ok (cv_reset_contexts V e) \<and> view (cv_reset_contexts V e) = (\<lambda>g. None)"

section \<open>The implementation satisfies it\<close>

definition client_endpoint_view :: "ActionClientEndpointImpl \<Rightarrow> client_view" where
  "client_endpoint_view st g =
     map_option (\<lambda>b. (cb_state b, cb_next_feedback_sequence b)) (sm_find (cl_packet_bindings st) g)"

lemma cview_release: "client_endpoint_view (client_release_binding_locked g st) = (client_endpoint_view st)(g := None)"
  by (rule ext) (simp add: client_endpoint_view_def find_client_release)

lemma cview_update:
  "sm_find (cl_packet_bindings st) g = Some b \<Longrightarrow>
   client_endpoint_view (st\<lparr>cl_packet_bindings := sm_update g f (cl_packet_bindings st)\<rparr>) =
     (client_endpoint_view st)(g \<mapsto> (cb_state (f b), cb_next_feedback_sequence (f b)))"
  by (rule ext) (simp add: client_endpoint_view_def)

lemma cview_at: "sm_find (cl_packet_bindings st) g = Some b \<Longrightarrow>
   client_endpoint_view st g = Some (cb_state b, cb_next_feedback_sequence b)"
  by (simp add: client_endpoint_view_def)

lemma cview_pending [simp]:
  "client_endpoint_view (st\<lparr>cl_pending_packets := ps\<rparr>) = client_endpoint_view st"
  by (simp add: client_endpoint_view_def fun_eq_iff)

lemma awaiting_sequence:
  "client_endpoint_inv st \<Longrightarrow> sm_find (cl_packet_bindings st) g = Some b \<Longrightarrow> cb_state b = AWAITING_GOAL_RESPONSE \<Longrightarrow>
   cb_next_feedback_sequence b = 0"
  using client_inv_binding [of st g b] by (auto simp: client_binding_ok_def)

lemma decision_of_code_simps [simp]:
  "decision_of_code c = ACCEPTED \<longleftrightarrow> c = decision_code ACCEPTED"
  "decision_of_code c = REJECTED \<longleftrightarrow> c = decision_code REJECTED"
  by (auto simp: decision_of_code_def)

lemma terminal_of_code_simps [simp]:
  "terminal_of_code c = SUCCEEDED \<longleftrightarrow> c = terminal_code SUCCEEDED"
  "terminal_of_code c = CANCELED \<longleftrightarrow> c = terminal_code CANCELED"
  "terminal_of_code c = ABORTED \<longleftrightarrow> c = terminal_code ABORTED"
  by (auto simp: terminal_of_code_def)

lemma handle_response_law:
  assumes inv: "client_endpoint_inv e" and g: "is_valid_goal_id (rsh_goal_id h)"
    and r: "handle_response i h d e = Some (ev, e')"
  shows "client_poll_effect (client_endpoint_view e) ev (client_endpoint_view e')"
proof -
  from r obtain b where b: "sm_find (cl_packet_bindings e) (rsh_goal_id h) = Some b"
    by (auto simp: handle_response_def Let_def split: option.splits)
  show ?thesis
    using r g b awaiting_sequence [OF inv b]
    by (auto simp: handle_response_def Let_def client_goal_event_out_def client_poll_effect_def cview_at [OF b]
        cview_update [OF b] cview_release result_expected_def
        simp del: decision_code.simps terminal_code.simps split: if_splits)
qed

lemma handle_feedback_law:
  assumes g: "is_valid_goal_id (fbh_goal_id h)" and r: "handle_feedback i h d e = Some (ev, e')"
  shows "client_poll_effect (client_endpoint_view e) ev (client_endpoint_view e')"
proof -
  from r obtain b where b: "sm_find (cl_packet_bindings e) (fbh_goal_id h) = Some b"
    by (auto simp: handle_feedback_def Let_def split: option.splits)
  show ?thesis
    using r g b
    by (auto simp: handle_feedback_def Let_def client_goal_event_out_def client_poll_effect_def cview_at [OF b]
        cview_update [OF b] split: if_splits)
qed

lemma client_handle_law:
  assumes "client_endpoint_inv e" and "ClientEndpoint_handle E p e = Some (ev, e')"
  shows "client_poll_effect (client_endpoint_view e) ev (client_endpoint_view e')"
  using assms(2) by (cases rule: client_handle_cases)
    (auto intro: handle_response_law [OF assms(1)] handle_feedback_law)

lemma timeouts_law:
  assumes inv: "client_endpoint_inv e" and t: "ClientEndpoint_timeouts now e = (ev, e')"
  shows "client_poll_effect (client_endpoint_view e) ev (client_endpoint_view e')"
proof (cases "\<not> cl_initialized e \<or> List.find (\<lambda>(g, b). response_timed_out now b) (cl_packet_bindings e) = None")
  case True
  then have "ev = empty_ClientEvent" "e' = e" using t by (simp_all add: ClientEndpoint_timeouts_def split: if_splits)
  then show ?thesis by (simp add: client_poll_effect_def empty_ClientEvent_def)
next
  case False
  then obtain g b where f: "List.find (\<lambda>(g, b). response_timed_out now b) (cl_packet_bindings e) = Some (g, b)" by auto
  have "sm_ok (cl_packet_bindings e)" by (rule slot_table_sm [OF client_inv_table [OF inv]])
  with find_SomeD [OF f] have b: "sm_find (cl_packet_bindings e) g = Some b" "cb_state b = AWAITING_GOAL_RESPONSE"
    by (auto simp: sm_find_in_set response_timed_out_def)
  show ?thesis
    using t f False b awaiting_sequence [OF inv b]
    by (auto simp: ClientEndpoint_timeouts_def client_goal_event_out_def client_poll_effect_def
        cview_at [OF b(1)] cview_update [OF b(1)])
qed

lemma client_poll_law:
  assumes inv: "client_endpoint_inv e" and p: "ClientEndpoint_poll E e w = (ev, e')"
  shows "client_endpoint_inv e' \<and> client_poll_effect (client_endpoint_view e) ev (client_endpoint_view e')"
proof
  show "client_endpoint_inv e'"
    using client_poll_steps [of E e w] client_run_inv [OF inv] p by (metis snd_conv)
  have inv': "client_endpoint_inv (e\<lparr>cl_pending_packets := ps\<rparr>)" for ps
    using inv by (simp add: client_endpoint_inv_def)
  show "client_poll_effect (client_endpoint_view e) ev (client_endpoint_view e')"
    using p timeouts_law [OF inv] timeouts_law [OF inv'] client_handle_law [OF inv']
    by (auto simp: ClientEndpoint_poll_def Let_def split: list.splits option.splits) fastforce+
qed

lemma client_send_goal_law:
  assumes inv: "client_endpoint_inv e" and s: "ClientEndpoint_send_goal_with_result E d g t e w = (r, e', w')"
  shows "client_endpoint_inv e' \<and> (if r = SUCCESS then client_endpoint_view e g = None
      \<and> client_endpoint_view e' = (client_endpoint_view e)(g \<mapsto> (AWAITING_GOAL_RESPONSE, 0)) else e' = e)"
proof (cases "r = SUCCESS")
  case True
  with s obtain i where r: "ClientEndpoint_reserve E g t e w = (Inr i, e')"
    "sm_find (cl_packet_bindings e) g = None" "first_free (cl_slot_owners e) = Some i"
    by (auto elim: send_goal_SUCCESS)
  then have "client_endpoint_inv e'" using reserve_inv [OF inv, of E g t w] by simp
  with True r show ?thesis
    by (auto simp: ClientEndpoint_reserve_def client_endpoint_view_def fun_eq_iff split: if_splits)
next
  case False
  then show ?thesis using send_goal_failed [OF inv s] inv by simp
qed

lemma client_send_cancel_law:
  assumes inv: "client_endpoint_inv e" and s: "ClientEndpoint_send_cancel E g e w = (r, e', w')"
  shows "client_endpoint_inv e' \<and> (if r then (\<exists>q. client_endpoint_view e g = Some (CB_ACCEPTED, q)
      \<and> client_endpoint_view e' = (client_endpoint_view e)(g \<mapsto> (AWAITING_CANCEL_RESPONSE, q))) else e' = e)"
proof (cases r)
  case True
  with s obtain b where b: "sm_find (cl_packet_bindings e) g = Some b" "cb_state b = CB_ACCEPTED"
    and e': "ClientEndpoint_begin_cancel g e = (Some (b\<lparr>cb_state := AWAITING_CANCEL_RESPONSE\<rparr>), e')"
      "e' = e\<lparr>cl_packet_bindings := sm_update g (\<lambda>b. b\<lparr>cb_state := AWAITING_CANCEL_RESPONSE\<rparr>) (cl_packet_bindings e)\<rparr>"
    by (auto simp: ClientEndpoint_send_cancel_def ClientEndpoint_begin_cancel_def
        split: if_splits option.splits prod.splits bool.splits)
  have "client_endpoint_inv e'" using begin_cancel_inv [OF inv, of g] e'(1) by simp
  with True b show ?thesis by (simp add: e'(2) cview_update [OF b(1)] cview_at [OF b(1)])
next
  case False
  then show ?thesis using send_cancel_failed [OF inv, of E g w e' w'] s inv by simp
qed

interpretation client_impl: action_client_endpoint "client_endpoint_vtable E" client_endpoint_inv client_endpoint_view
  for E :: "'w pdu_env"
proof
  fix e :: ActionClientEndpointImpl
  assume inv: "client_endpoint_inv e"
  show "client_endpoint_inv (cv_clear_pending_events (client_endpoint_vtable E) e)
      \<and> client_endpoint_view (cv_clear_pending_events (client_endpoint_vtable E) e) = client_endpoint_view e"
    using client_exec_inv [OF inv, of E undefined C_Clear]
    by (simp add: client_endpoint_vtable_def ClientEndpoint_clear_pending_events_def)
  show "client_endpoint_inv (cv_reset_contexts (client_endpoint_vtable E) e)
      \<and> client_endpoint_view (cv_reset_contexts (client_endpoint_vtable E) e) = (\<lambda>g. None)"
    using client_exec_inv [OF inv, of E undefined C_Reset]
    by (simp add: client_endpoint_vtable_def ClientEndpoint_reset_contexts_def client_endpoint_view_def fun_eq_iff)
qed (auto simp: client_endpoint_vtable_def dest: client_poll_law client_send_goal_law client_send_cancel_law
    simp del: fun_upd_apply split del: if_split)

end
