(* ===== verification/Action_Services_Client.thy ===== *)
theory Action_Services_Client
  imports Client_State_Machine Action_Client_Interface
begin

text \<open>
  The Action client services, \<open>src/action_services_client.cpp\<close>: the accepted Goals of every
  configured Action, each with its client state machine context, on top of one packet
  endpoint per Action, which is used through the table \<open>IActionClientEndpoint\<close>. Every
  operation holds the services mutex and is one step. An instance is only made with its
  endpoint set, so the null checks of the operations are not modelled.
\<close>

section \<open>Data\<close>

record ClientGoalInstance =
  cgi_goal :: ClientGoalHandle
  cgi_context :: ClientGoalContext

record 'e ClientActionInstance =
  cai_action_name :: string
  cai_endpoint :: 'e
  cai_goals :: "ClientGoalInstance list"

record 'e ActionServicesClient =
  sc_node_id :: string
  sc_client_name :: string
  sc_impl_type :: string
  sc_has_time_source :: bool
  sc_actions :: "'e ClientActionInstance list"

section \<open>Lookup\<close>

definition client_get_action_locked :: "'e ActionServicesClient \<Rightarrow> string \<Rightarrow> 'e ClientActionInstance option" where
  "client_get_action_locked s name = List.find (\<lambda>a. cai_action_name a = name) (sc_actions s)"

definition client_set_action_locked ::
    "string \<Rightarrow> 'e ClientActionInstance \<Rightarrow> 'e ActionServicesClient \<Rightarrow> 'e ActionServicesClient" where
  "client_set_action_locked name a s =
     s\<lparr>sc_actions := update_first (\<lambda>x. cai_action_name x = name) (\<lambda>_. a) (sc_actions s)\<rparr>"

abbreviation cgi_id :: "ClientGoalInstance \<Rightarrow> GoalId" where
  "cgi_id x \<equiv> client_goal_id (cgi_goal x)"

definition client_get_goal_locked :: "ClientGoalInstance list \<Rightarrow> GoalId \<Rightarrow> ClientGoalInstance option" where
  "client_get_goal_locked goals g = List.find (\<lambda>x. cgi_id x = g) goals"

definition client_has_goal_locked :: "ClientGoalInstance list \<Rightarrow> GoalId \<Rightarrow> bool" where
  "client_has_goal_locked goals g \<longleftrightarrow> client_get_goal_locked goals g \<noteq> None"

definition client_remove_goal_locked :: "GoalId \<Rightarrow> ClientGoalInstance list \<Rightarrow> ClientGoalInstance list" where
  "client_remove_goal_locked g goals = remove_first (\<lambda>x. cgi_id x = g) goals"

text \<open>\<open>goal_instance->context = transition.next\<close> through the pointer the lookup returned.\<close>

definition client_set_context :: "GoalId \<Rightarrow> ClientGoalContext \<Rightarrow> ClientGoalInstance list \<Rightarrow> ClientGoalInstance list" where
  "client_set_context g c goals = update_first (\<lambda>x. cgi_id x = g) (\<lambda>x. x\<lparr>cgi_context := c\<rparr>) goals"

section \<open>Initialisation and lifecycle\<close>

fun client_initialize_actions ::
    "'w pdu_env \<Rightarrow> 'j json_ops \<Rightarrow> (string \<Rightarrow> bool) \<Rightarrow> ActionClientEndpointImpl ActionServicesClient
     \<Rightarrow> (ActionDefinition \<times> 'j) list \<Rightarrow> ActionClientEndpointImpl ClientActionInstance list option" where
  "client_initialize_actions E J ref s [] = Some []"
| "client_initialize_actions E J ref s ((d, j) # rest) =
     (if er_node_id (ad_client_endpoint d) \<noteq> sc_node_id s
      then client_initialize_actions E J ref s rest
      else let endpoint_id = (if er_endpoint_id (ad_client_endpoint d) = []
                              then er_node_id (ad_client_endpoint d)
                              else er_endpoint_id (ad_client_endpoint d))
      in if \<not> ref endpoint_id then None
         else if sc_impl_type s \<noteq> ''ActionClientEndpointImpl'' then None
         else (case ClientEndpoint_initialize E J j
                      (new_ActionClientEndpointImpl (ad_name d) True (sc_has_time_source s)) of
                 (False, _) \<Rightarrow> None
               | (True, ep) \<Rightarrow>
                   map_option (\<lambda>as. \<lparr>cai_action_name = ad_name d, cai_endpoint = ep, cai_goals = []\<rparr> # as)
                     (client_initialize_actions E J ref s rest)))"

text \<open>
  \<open>config\<close> is the configuration file: \<open>None\<close> when it does not open, \<open>Inl\<close> when it is not
  JSON; \<open>container\<close> is the endpoint container, reduced to which endpoints it has.
\<close>

definition client_initialize_services ::
    "'w pdu_env \<Rightarrow> 'j json_ops \<Rightarrow> (string + 'j) option \<Rightarrow> (string \<Rightarrow> bool) option
     \<Rightarrow> ActionClientEndpointImpl ActionServicesClient
     \<Rightarrow> bool \<times> ActionClientEndpointImpl ActionServicesClient" where
  "client_initialize_services E J config container s =
     (case container of
        None \<Rightarrow> (False, s)
      | Some ref \<Rightarrow>
          (case config of
             None \<Rightarrow> (False, s)
           | Some (Inl _) \<Rightarrow> (False, s)
           | Some (Inr root) \<Rightarrow>
               (case parse_configuration J root of
                  Inl _ \<Rightarrow> (False, s)
                | Inr configuration \<Rightarrow>
                    if sc_actions s \<noteq> [] then (False, s)
                    else case client_initialize_actions E J ref s
                                (zip configuration (case json_find J root ''actions'' of
                                   None \<Rightarrow> [] | Some arr \<Rightarrow> json_elements J arr)) of
                      None \<Rightarrow> (False, s)
                    | Some actions \<Rightarrow> (True, s\<lparr>sc_actions := actions\<rparr>))))"

definition ServicesClient_stop_all_services ::
    "('e, 'w) IActionClientEndpoint \<Rightarrow> 'e ActionServicesClient \<Rightarrow> 'e ActionServicesClient" where
  "ServicesClient_stop_all_services V s =
     s\<lparr>sc_actions := map (\<lambda>a. a\<lparr>cai_endpoint := cv_clear_pending_events V (cai_endpoint a)\<rparr>) (sc_actions s)\<rparr>"

definition ServicesClient_clear_all_instances ::
    "('e, 'w) IActionClientEndpoint \<Rightarrow> 'e ActionServicesClient \<Rightarrow> 'e ActionServicesClient" where
  "ServicesClient_clear_all_instances V s =
     s\<lparr>sc_actions := map (\<lambda>a. a\<lparr>cai_goals := [], cai_endpoint := cv_reset_contexts V (cai_endpoint a)\<rparr>) (sc_actions s)\<rparr>"

section \<open>Sending\<close>

text \<open>On success the Goal handle handed out is the one with ID \<open>g\<close>.\<close>

definition ServicesClient_send_goal_with_result ::
    "('e, 'w) IActionClientEndpoint \<Rightarrow> string \<Rightarrow> pdu_data \<Rightarrow> GoalId \<Rightarrow> uint64 \<Rightarrow> 'e ActionServicesClient \<Rightarrow> 'w world
     \<Rightarrow> GoalSendResult \<times> 'e ActionServicesClient \<times> 'w world" where
  "ServicesClient_send_goal_with_result V name goal_pdu g timeout_usec s w =
     (if name = [] \<or> goal_pdu = [] \<or> \<not> is_valid_goal_id g then (INVALID_ARGUMENT, s, w)
      else case client_get_action_locked s name of
        None \<Rightarrow> (ACTION_NOT_FOUND, s, w)
      | Some a \<Rightarrow>
          if client_has_goal_locked (cai_goals a) g then (DUPLICATE_GOAL, s, w)
          else (case cv_send_goal_with_result V goal_pdu g timeout_usec (cai_endpoint a) w of
                  (r, e', w') \<Rightarrow> (r, client_set_action_locked name (a\<lparr>cai_endpoint := e'\<rparr>) s, w')))"

definition ServicesClient_send_goal ::
    "('e, 'w) IActionClientEndpoint \<Rightarrow> string \<Rightarrow> pdu_data \<Rightarrow> GoalId \<Rightarrow> uint64 \<Rightarrow> 'e ActionServicesClient \<Rightarrow> 'w world
     \<Rightarrow> bool \<times> 'e ActionServicesClient \<times> 'w world" where
  "ServicesClient_send_goal V name goal_pdu g timeout_usec s w =
     (case ServicesClient_send_goal_with_result V name goal_pdu g timeout_usec s w of
        (r, s', w') \<Rightarrow> (r = SUCCESS, s', w'))"

definition ServicesClient_send_cancel ::
    "('e, 'w) IActionClientEndpoint \<Rightarrow> string \<Rightarrow> ClientGoalHandle \<Rightarrow> 'e ActionServicesClient \<Rightarrow> 'w world
     \<Rightarrow> bool \<times> 'e ActionServicesClient \<times> 'w world" where
  "ServicesClient_send_cancel V name goal s w =
     (if name = [] \<or> \<not> ClientGoalHandle_valid goal then (False, s, w)
      else case client_get_action_locked s name of
        None \<Rightarrow> (False, s, w)
      | Some a \<Rightarrow>
          (case client_get_goal_locked (cai_goals a) (client_goal_id goal) of
             None \<Rightarrow> (False, s, w)
           | Some goal_instance \<Rightarrow>
               let transition = transition_client_goal (cgi_context goal_instance) (client_goal_event REQUEST_CANCEL)
               in if ct_kind transition = CT_ERROR then (False, s, w)
                  else if ct_kind transition \<noteq> CT_TRANSITIONED then (False, s, w)
                  else (case cv_send_cancel V (client_goal_id goal) (cai_endpoint a) w of
                          (False, e', w') \<Rightarrow> (False, client_set_action_locked name (a\<lparr>cai_endpoint := e'\<rparr>) s, w')
                        | (True, e', w') \<Rightarrow>
                            (True, client_set_action_locked name
                               (a\<lparr>cai_endpoint := e',
                                  cai_goals := client_set_context (client_goal_id goal) (ct_next transition) (cai_goals a)\<rparr>) s, w'))))"

definition ServicesClient_create_goal_buffer ::
    "('e, 'w) IActionClientEndpoint \<Rightarrow> string \<Rightarrow> 'e ActionServicesClient \<Rightarrow> 'w world \<Rightarrow> pdu_data option" where
  "ServicesClient_create_goal_buffer V name s w =
     (if name = [] then None
      else case client_get_action_locked s name of
        None \<Rightarrow> None
      | Some a \<Rightarrow> cv_create_goal_buffer V (cai_endpoint a) w)"

section \<open>Polling\<close>

text \<open>
  The four event handlers. The returned type is the type of the returned event: an error
  stamps \<open>ERROR\<close> on the event, \<open>NONE\<close> leaves \<open>event_out\<close> empty.
\<close>

definition handle_goal_response_locked ::
    "ClientGoalInstance list \<Rightarrow> ClientEvent \<Rightarrow> ClientEvent \<times> ClientGoalInstance list" where
  "handle_goal_response_locked goals event =
     (if \<not> ClientGoalHandle_valid (ce_goal event)
         \<or> (ce_decision event \<noteq> ACCEPTED \<and> ce_decision event \<noteq> REJECTED)
      then (event\<lparr>ce_type := CE_ERROR\<rparr>, goals)
      else if ce_decision event = ACCEPTED
      then if client_has_goal_locked goals (client_goal_id (ce_goal event))
           then (event\<lparr>ce_type := CE_ERROR\<rparr>, goals)
           else (event, goals @ [\<lparr>cgi_goal = ce_goal event, cgi_context = initial_ClientGoalContext\<rparr>])
      else (event, goals))"

text \<open>
  The shared part of the other three: look the Goal up, run the state machine, and on a
  transition continue with \<open>commit\<close>.
\<close>

definition client_step_goal ::
    "ClientGoalInstance list \<Rightarrow> ClientEvent \<Rightarrow> ClientGoalEvent \<Rightarrow> (ClientGoalContext \<Rightarrow> ClientGoalInstance list)
     \<Rightarrow> ClientEvent \<times> ClientGoalInstance list" where
  "client_step_goal goals event state_event commit =
     (case client_get_goal_locked goals (client_goal_id (ce_goal event)) of
        None \<Rightarrow> (event\<lparr>ce_type := CE_ERROR\<rparr>, goals)
      | Some goal_instance \<Rightarrow>
          let transition = transition_client_goal (cgi_context goal_instance) state_event
          in if ct_kind transition = CT_ERROR then (event\<lparr>ce_type := CE_ERROR\<rparr>, goals)
             else if ct_kind transition = CT_NOP then (empty_ClientEvent, goals)
             else (event, commit (ct_next transition)))"

definition handle_feedback_locked ::
    "ClientGoalInstance list \<Rightarrow> ClientEvent \<Rightarrow> ClientEvent \<times> ClientGoalInstance list" where
  "handle_feedback_locked goals event =
     (if \<not> ClientGoalHandle_valid (ce_goal event) then (event\<lparr>ce_type := CE_ERROR\<rparr>, goals)
      else client_step_goal goals event
             \<lparr>cge_type = FEEDBACK_RECEIVED, cge_terminal_status = TS_UNSPECIFIED,
              cge_feedback_sequence = ce_feedback_sequence event\<rparr>
             (\<lambda>c. client_set_context (client_goal_id (ce_goal event)) c goals))"

definition handle_cancel_response_locked ::
    "ClientGoalInstance list \<Rightarrow> ClientEvent \<Rightarrow> ClientEvent \<times> ClientGoalInstance list" where
  "handle_cancel_response_locked goals event =
     (if \<not> ClientGoalHandle_valid (ce_goal event)
         \<or> (ce_decision event \<noteq> ACCEPTED \<and> ce_decision event \<noteq> REJECTED)
      then (event\<lparr>ce_type := CE_ERROR\<rparr>, goals)
      else client_step_goal goals event
             (client_goal_event (if ce_decision event = ACCEPTED then CANCEL_RESPONSE_ACCEPTED
                                 else CANCEL_RESPONSE_REJECTED))
             (\<lambda>c. client_set_context (client_goal_id (ce_goal event)) c goals))"

definition handle_result_locked ::
    "ClientGoalInstance list \<Rightarrow> ClientEvent \<Rightarrow> ClientEvent \<times> ClientGoalInstance list" where
  "handle_result_locked goals event =
     (if \<not> ClientGoalHandle_valid (ce_goal event) then (event\<lparr>ce_type := CE_ERROR\<rparr>, goals)
      else client_step_goal goals event
             \<lparr>cge_type = RESULT_RECEIVED, cge_terminal_status = ce_terminal_status event,
              cge_feedback_sequence = 0\<rparr>
             (\<lambda>c. client_remove_goal_locked (client_goal_id (ce_goal event)) goals))"

text \<open>The \<open>switch\<close> of \<open>poll\<close>.\<close>

definition client_dispatch ::
    "ClientGoalInstance list \<Rightarrow> ClientEvent \<Rightarrow> ClientEvent \<times> ClientGoalInstance list" where
  "client_dispatch goals event =
     (case ce_type event of
        CE_GOAL_RESPONSE \<Rightarrow> handle_goal_response_locked goals event
      | CE_FEEDBACK \<Rightarrow> handle_feedback_locked goals event
      | CE_CANCEL_RESPONSE \<Rightarrow> handle_cancel_response_locked goals event
      | CE_RESULT \<Rightarrow> handle_result_locked goals event
      | _ \<Rightarrow> (event\<lparr>ce_type := CE_ERROR\<rparr>, goals))"

text \<open>The loop over the Actions; \<open>None\<close> is the return of \<open>NONE\<close> at its end.\<close>

fun client_poll_actions ::
    "('e, 'w) IActionClientEndpoint \<Rightarrow> 'e ClientActionInstance list \<Rightarrow> 'w world
     \<Rightarrow> (string \<times> ClientEvent) option \<times> 'e ClientActionInstance list" where
  "client_poll_actions V [] w = (None, [])"
| "client_poll_actions V (a # as) w =
     (case cv_poll V (cai_endpoint a) w of
        (ev, e') \<Rightarrow>
          let a' = a\<lparr>cai_endpoint := e'\<rparr>;
              event = ev\<lparr>ce_action_name := cai_action_name a\<rparr>
          in if ce_type ev = CE_NONE
             then (case client_poll_actions V as w of (r, as') \<Rightarrow> (r, a' # as'))
             else if ce_type ev = CE_ERROR \<or> ce_type ev = CE_TIMEOUT
             then (Some (cai_action_name a, event), a' # as)
             else (case client_dispatch (cai_goals a) event of
                     (out, goals') \<Rightarrow>
                       if ce_type out = CE_NONE
                       then (case client_poll_actions V as w of (r, as') \<Rightarrow> (r, a'\<lparr>cai_goals := goals'\<rparr> # as'))
                       else (Some (cai_action_name a, out), a'\<lparr>cai_goals := goals'\<rparr> # as)))"

definition ServicesClient_poll ::
    "('e, 'w) IActionClientEndpoint \<Rightarrow> 'e ActionServicesClient \<Rightarrow> 'w world
     \<Rightarrow> (string \<times> ClientEvent) option \<times> 'e ActionServicesClient" where
  "ServicesClient_poll V s w =
     (case client_poll_actions V (sc_actions s) w of (r, as') \<Rightarrow> (r, s\<lparr>sc_actions := as'\<rparr>))"

end
