(* ===== verification/Services_Client_Sync.thy ===== *)
theory Services_Client_Sync
  imports Action_Services_Client
begin

text \<open>
  The client services and the client endpoint keep two states for one accepted Goal: a state
  machine context and a packet binding, both with a Feedback counter. This theory shows that
  the context is a function of the binding in every reachable state, so that no event the
  endpoint delivers is dropped or turned into an error by the services. The lemmas are
  proved in the locale \<open>action_client_endpoint\<close> and reach the code through its interpretation.
\<close>

section \<open>Agreement\<close>

text \<open>The context that belongs to a binding; a binding before its acceptance has none.\<close>

fun expected_context :: "ClientBindingState \<times> uint32 \<Rightarrow> ClientGoalContext option" where
  "expected_context (CB_ACCEPTED, q) = Some (initial_ClientGoalContext\<lparr>cg_next_feedback_sequence := q\<rparr>)"
| "expected_context (AWAITING_CANCEL_RESPONSE, q) =
     Some (initial_ClientGoalContext\<lparr>cg_cancel_response_pending := True, cg_next_feedback_sequence := q\<rparr>)"
| "expected_context (CB_CANCELING, q) =
     Some (initial_ClientGoalContext\<lparr>cg_state := CANCELING, cg_next_feedback_sequence := q\<rparr>)"
| "expected_context (AWAITING_GOAL_RESPONSE, q) = None"
| "expected_context (GOAL_RESPONSE_TIMED_OUT, q) = None"

definition goals_agree :: "client_view \<Rightarrow> ClientGoalInstance list \<Rightarrow> bool" where
  "goals_agree u goals \<longleftrightarrow> distinct (map cgi_id goals)
     \<and> (\<forall>g. map_option cgi_context (client_get_goal_locked goals g) = Option.bind (u g) expected_context)"

definition client_action_sync :: "('e \<Rightarrow> bool) \<Rightarrow> ('e \<Rightarrow> client_view) \<Rightarrow> 'e ClientActionInstance \<Rightarrow> bool" where
  "client_action_sync ok view a \<longleftrightarrow> ok (cai_endpoint a) \<and> goals_agree (view (cai_endpoint a)) (cai_goals a)"

definition client_services_sync :: "('e \<Rightarrow> bool) \<Rightarrow> ('e \<Rightarrow> client_view) \<Rightarrow> 'e ActionServicesClient \<Rightarrow> bool" where
  "client_services_sync ok view s \<longleftrightarrow> list_all (client_action_sync ok view) (sc_actions s)"

section \<open>Goal vectors\<close>

lemma client_get_goal_Nil [simp]: "client_get_goal_locked [] g = None"
  by (simp add: client_get_goal_locked_def)

lemma client_get_goal_set_context:
  "client_get_goal_locked (client_set_context g c goals) g' =
     (if g' = g then map_option (\<lambda>x. x\<lparr>cgi_context := c\<rparr>) (client_get_goal_locked goals g)
      else client_get_goal_locked goals g')"
  by (induction goals) (auto simp: client_get_goal_locked_def client_set_context_def)

lemma client_set_context_ids: "map cgi_id (client_set_context g c goals) = map cgi_id goals"
  unfolding client_set_context_def by (rule map_update_first) simp

lemma client_get_goal_snoc:
  "client_get_goal_locked (goals @ [x]) g' =
     (case client_get_goal_locked goals g' of None \<Rightarrow> if cgi_id x = g' then Some x else None | Some y \<Rightarrow> Some y)"
  by (simp add: client_get_goal_locked_def find_snoc)

lemma client_get_goal_None_iff: "client_get_goal_locked goals g = None \<longleftrightarrow> g \<notin> cgi_id ` set goals"
  by (auto simp: client_get_goal_locked_def find_None_iff)

lemma client_get_goal_remove:
  assumes "distinct (map cgi_id goals)"
  shows "client_get_goal_locked (client_remove_goal_locked g goals) g' =
    (if g' = g then None else client_get_goal_locked goals g')"
  using find_remove_first_same [OF assms, of g]
    find_remove_first_other [of "\<lambda>x. cgi_id x = g" "\<lambda>x. cgi_id x = g'" goals]
  by (auto simp: client_get_goal_locked_def client_remove_goal_locked_def)

lemma goals_agreeD:
  "goals_agree u goals \<Longrightarrow> map_option cgi_context (client_get_goal_locked goals g) = Option.bind (u g) expected_context"
  by (simp add: goals_agree_def)

text \<open>The four ways in which the services follow a change of the endpoint.\<close>

lemma goals_agree_set_context:
  assumes "goals_agree u goals" and "client_get_goal_locked goals g = Some x" and "expected_context v = Some c"
  shows "goals_agree (u(g \<mapsto> v)) (client_set_context g c goals)"
  using assms by (auto simp: goals_agree_def client_set_context_ids client_get_goal_set_context)

lemma goals_agree_snoc:
  assumes "goals_agree u goals" and new: "client_get_goal_locked goals (client_goal_id h) = None"
  shows "goals_agree (u(client_goal_id h \<mapsto> (CB_ACCEPTED, 0)))
     (goals @ [\<lparr>cgi_goal = h, cgi_context = initial_ClientGoalContext\<rparr>])"
proof -
  let ?x = "\<lparr>cgi_goal = h, cgi_context = initial_ClientGoalContext\<rparr>"
  have "client_get_goal_locked (goals @ [?x]) g' =
      (if g' = client_goal_id h then Some ?x else client_get_goal_locked goals g')" for g'
    using new by (simp add: client_get_goal_snoc split: option.splits)
  moreover have "expected_context (CB_ACCEPTED, 0) = Some initial_ClientGoalContext"
    by (simp add: initial_ClientGoalContext_def)
  ultimately show ?thesis
    using assms by (simp add: goals_agree_def client_get_goal_None_iff)
qed

lemma goals_agree_remove:
  assumes "goals_agree u goals"
  shows "goals_agree (u(g := None)) (client_remove_goal_locked g goals)"
proof -
  have d: "distinct (map cgi_id goals)" using assms by (simp add: goals_agree_def)
  have "distinct (map cgi_id (client_remove_goal_locked g goals))"
    unfolding client_remove_goal_locked_def by (rule distinct_map_remove_first [OF d])
  then show ?thesis using assms by (simp add: goals_agree_def client_get_goal_remove [OF d])
qed

lemma goals_agree_unaccepted:
  assumes "goals_agree u goals" and "Option.bind (u g) expected_context = None" and "Option.bind v expected_context = None"
  shows "goals_agree (u(g := v)) goals"
  using assms by (simp add: goals_agree_def)

section \<open>No event is lost\<close>

lemma result_transition:
  assumes "expected_context (s, q) = Some c" and "result_expected s t"
  shows "ct_kind (transition_client_goal c \<lparr>cge_type = RESULT_RECEIVED, cge_terminal_status = t,
    cge_feedback_sequence = 0\<rparr>) = CT_TRANSITIONED"
  using assms by (cases s) (auto simp: result_expected_def client_sm_defs initial_ClientGoalContext_def)

text \<open>
  The services handle an event the contract allows: they pass it on as it is, and their Goals
  follow the endpoint's change.
\<close>

lemma dispatch_delivers:
  assumes agree: "goals_agree u goals" and eff: "client_poll_effect u ev u'"
    and type: "ce_type ev \<notin> {CE_NONE, CE_ERROR, CE_TIMEOUT}"
    and d: "client_dispatch goals ev = (out, goals')"
  shows "out = ev \<and> goals_agree u' goals'"
proof -
  define g where "g = client_goal_id (ce_goal ev)"
  have valid: "ClientGoalHandle_valid (ce_goal ev)"
    using eff type by (auto simp: client_poll_effect_def ClientGoalHandle_valid_def Let_def split: ClientEventType.splits)
  note at_g = goals_agreeD [OF agree, of g]
  note defs = client_dispatch_def handle_goal_response_locked_def handle_feedback_locked_def
    handle_cancel_response_locked_def handle_result_locked_def client_step_goal_def client_has_goal_locked_def
    client_poll_effect_def g_def [symmetric] client_goal_event_def
  have known: "\<exists>x. client_get_goal_locked goals g = Some x \<and> cgi_context x = c"
    if "u g = Some v" "expected_context v = Some c" for v c
    using at_g that by auto
  show ?thesis
  proof (cases "ce_type ev")
    case CE_GOAL_RESPONSE
    then have u: "u g = Some (AWAITING_GOAL_RESPONSE, 0)" using eff by (auto simp: defs Let_def)
    then have new: "client_get_goal_locked goals g = None" using at_g by simp
    show ?thesis
      using d eff CE_GOAL_RESPONSE valid new goals_agree_snoc [OF agree, of "ce_goal ev", folded g_def, OF new]
        goals_agree_unaccepted [OF agree, of g None] u
      by (auto simp: defs Let_def split: if_splits)
  next
    case CE_FEEDBACK
    then obtain s where s: "s \<in> {CB_ACCEPTED, AWAITING_CANCEL_RESPONSE, CB_CANCELING}"
      "u g = Some (s, ce_feedback_sequence ev)" "u' = u(g \<mapsto> (s, ce_feedback_sequence ev + 1))"
      using eff by (auto simp: defs Let_def)
    then obtain c where c: "expected_context (s, ce_feedback_sequence ev) = Some c"
      "expected_context (s, ce_feedback_sequence ev + 1) = Some (c\<lparr>cg_next_feedback_sequence := ce_feedback_sequence ev + 1\<rparr>)"
      "is_valid_client_context c" "cg_state c \<noteq> FINISHING" "cg_next_feedback_sequence c = ce_feedback_sequence ev"
      by (auto simp: is_valid_client_context_def is_client_goal_state_def initial_ClientGoalContext_def)
    obtain x where x: "client_get_goal_locked goals g = Some x" "cgi_context x = c" using known [OF s(2) c(1)] by blast
    show ?thesis
      using d CE_FEEDBACK valid x c goals_agree_set_context [OF agree x(1) c(2)] s(3)
      by (auto simp: defs transition_client_goal_def client_result_def Let_def)
  next
    case CE_CANCEL_RESPONSE
    then obtain q where q: "u g = Some (AWAITING_CANCEL_RESPONSE, q)"
      "ce_decision ev = ACCEPTED \<and> u' = u(g \<mapsto> (CB_CANCELING, q)) \<or> ce_decision ev = REJECTED \<and> u' = u(g \<mapsto> (CB_ACCEPTED, q))"
      using eff by (auto simp: defs Let_def)
    obtain x where x: "client_get_goal_locked goals g = Some x"
      "cgi_context x = initial_ClientGoalContext\<lparr>cg_cancel_response_pending := True, cg_next_feedback_sequence := q\<rparr>"
      using known [OF q(1)] by auto
    show ?thesis
      using d CE_CANCEL_RESPONSE valid x q(2)
        goals_agree_set_context [OF agree x(1), of "(CB_CANCELING, q)"]
        goals_agree_set_context [OF agree x(1), of "(CB_ACCEPTED, q)"]
      by (auto simp: defs client_sm_defs initial_ClientGoalContext_def)
  next
    case CE_RESULT
    then obtain s q where s: "u g = Some (s, q)" "result_expected s (ce_terminal_status ev)" "u' = u(g := None)"
      using eff by (auto simp: defs Let_def)
    then obtain c where "expected_context (s, q) = Some c" by (cases s) (auto simp: result_expected_def)
    then obtain x where x: "client_get_goal_locked goals g = Some x" "expected_context (s, q) = Some (cgi_context x)"
      using known [OF s(1)] by auto
    from result_transition [OF x(2) s(2)]
    show ?thesis
      using d CE_RESULT valid x s(3) goals_agree_remove [OF agree, of g] by (auto simp: defs Let_def)
  qed (use type in auto)
qed

lemma client_services_sync_set:
  "client_services_sync ok view s \<Longrightarrow> client_action_sync ok view a \<Longrightarrow>
   client_services_sync ok view (client_set_action_locked n a s)"
  using set_update_first_subset [of "\<lambda>x. cai_action_name x = n" "\<lambda>_. a" "sc_actions s"]
  by (auto simp: client_services_sync_def client_set_action_locked_def list_all_iff)

lemma client_services_sync_get:
  "client_services_sync ok view s \<Longrightarrow> client_get_action_locked s n = Some a \<Longrightarrow> client_action_sync ok view a"
  by (auto simp: client_services_sync_def client_get_action_locked_def list_all_iff dest: find_SomeD)

text \<open>Writing back an unchanged instance changes nothing.\<close>

lemma client_set_action_id:
  "client_get_action_locked s n = Some a \<Longrightarrow> client_set_action_locked n a s = s"
  unfolding client_get_action_locked_def client_set_action_locked_def by (simp add: update_first_id)

lemma poll_effect_action_name [simp]:
  "client_poll_effect u (ev\<lparr>ce_action_name := n\<rparr>) u' = client_poll_effect u ev u'"
  by (simp add: client_poll_effect_def Let_def cong: ClientEventType.case_cong)

text \<open>The event that polling one Action's endpoint yields, with the Action's name on it.\<close>

definition polled :: "('e, 'w) IActionClientEndpoint \<Rightarrow> 'w world \<Rightarrow> 'e ClientActionInstance \<Rightarrow> ClientEvent" where
  "polled V w a = (fst (cv_poll V (cai_endpoint a) w))\<lparr>ce_action_name := cai_action_name a\<rparr>"

section \<open>Every operation keeps the agreement\<close>

context action_client_endpoint
begin

abbreviation async :: "'e ClientActionInstance \<Rightarrow> bool" where
  "async \<equiv> client_action_sync ok view"

abbreviation ssync :: "'e ActionServicesClient \<Rightarrow> bool" where
  "ssync \<equiv> client_services_sync ok view"

lemma poll_actions_delivers:
  "list_all async as \<Longrightarrow> client_poll_actions V as w = (r, as') \<Longrightarrow>
   list_all async as' \<and> map cai_action_name as' = map cai_action_name as
   \<and> r = map_option (\<lambda>a. (cai_action_name a, polled V w a)) (List.find (\<lambda>a. ce_type (polled V w a) \<noteq> CE_NONE) as)"
proof (induction as arbitrary: r as')
  case (Cons a as)
  obtain ev e' where p: "cv_poll V (cai_endpoint a) w = (ev, e')" by (cases "cv_poll V (cai_endpoint a) w")
  obtain r2 as2 where rec: "client_poll_actions V as w = (r2, as2)" by (cases "client_poll_actions V as w")
  obtain out goals' where d: "client_dispatch (cai_goals a) (polled V w a) = (out, goals')"
    by (cases "client_dispatch (cai_goals a) (polled V w a)")
  have a: "ok (cai_endpoint a)" "goals_agree (view (cai_endpoint a)) (cai_goals a)"
    using Cons.prems(1) by (simp_all add: client_action_sync_def)
  note law = poll [OF a(1) p]
  have ev: "polled V w a = ev\<lparr>ce_action_name := cai_action_name a\<rparr>" by (simp add: polled_def p)
  show ?case
  proof (cases "ce_type ev \<in> {CE_NONE, CE_ERROR, CE_TIMEOUT}")
    case True
    have "goals_agree (view e') (cai_goals a)"
      using True law a(2) goals_agree_unaccepted [OF a(2), of "client_goal_id (ce_goal ev)" "Some (GOAL_RESPONSE_TIMED_OUT, 0)"]
      by (auto simp: client_poll_effect_def Let_def)
    then show ?thesis
      using True Cons.prems Cons.IH [OF _ rec] p rec law ev by (auto simp: client_action_sync_def)
  next
    case False
    have "client_poll_effect (view (cai_endpoint a)) (polled V w a) (view e')" using law by (simp add: ev)
    from dispatch_delivers [OF a(2) this _ d] False have "out = polled V w a" "goals_agree (view e') goals'"
      by (simp_all add: ev)
    then show ?thesis
      using False Cons.prems p d law ev by (auto simp: client_action_sync_def)
  qed
qed simp

lemma poll_delivers:
  assumes "ssync s" and "ServicesClient_poll V s w = (r, s')"
  shows "ssync s' \<and> r = map_option (\<lambda>a. (cai_action_name a, polled V w a))
    (List.find (\<lambda>a. ce_type (polled V w a) \<noteq> CE_NONE) (sc_actions s))"
  using assms poll_actions_delivers [of "sc_actions s" w]
  by (auto simp: ServicesClient_poll_def client_services_sync_def split: prod.splits)

lemma send_goal_sync:
  assumes s: "ssync s" and r: "ServicesClient_send_goal_with_result V n d g t s w = (r, s', w')"
  shows "ssync s' \<and> (r \<noteq> SUCCESS \<longrightarrow> s' = s)"
proof (cases "client_get_action_locked s n")
  case (Some a)
  obtain r1 e' w1 where e: "cv_send_goal_with_result V d g t (cai_endpoint a) w = (r1, e', w1)"
    by (cases "cv_send_goal_with_result V d g t (cai_endpoint a) w")
  have a: "ok (cai_endpoint a)" "goals_agree (view (cai_endpoint a)) (cai_goals a)"
    using client_services_sync_get [OF s Some] by (simp_all add: client_action_sync_def)
  note law = send_goal [OF a(1) e]
  have "goals_agree (view e') (cai_goals a)"
    using law a(2) goals_agree_unaccepted [OF a(2), of g "Some (AWAITING_GOAL_RESPONSE, 0)"] by (auto split: if_splits)
  then have "ssync (client_set_action_locked n (a\<lparr>cai_endpoint := e'\<rparr>) s)"
    using client_services_sync_set [OF s] law by (simp add: client_action_sync_def)
  moreover have "r1 \<noteq> SUCCESS \<Longrightarrow> client_set_action_locked n (a\<lparr>cai_endpoint := e'\<rparr>) s = s"
    using law client_set_action_id [OF Some] by simp
  ultimately show ?thesis
    using r s Some e by (auto simp: ServicesClient_send_goal_with_result_def split: if_splits)
qed (use r s in \<open>auto simp: ServicesClient_send_goal_with_result_def split: if_splits\<close>)

text \<open>
  A Cancel goes out exactly when the application may send one: the services' state machine
  and the endpoint agree, so only the transport can still make it fail.
\<close>

lemma send_cancel_sync:
  assumes s: "ssync s" and r: "ServicesClient_send_cancel V n h s w = (r, s', w')"
  shows "ssync s' \<and> (\<not> r \<longrightarrow> s' = s)"
proof (cases "\<exists>a x. client_get_action_locked s n = Some a
    \<and> client_get_goal_locked (cai_goals a) (client_goal_id h) = Some x
    \<and> ct_kind (transition_client_goal (cgi_context x) (client_goal_event REQUEST_CANCEL)) = CT_TRANSITIONED")
  case True
  then obtain a x where a: "client_get_action_locked s n = Some a"
    and x: "client_get_goal_locked (cai_goals a) (client_goal_id h) = Some x"
    and t: "ct_kind (transition_client_goal (cgi_context x) (client_goal_event REQUEST_CANCEL)) = CT_TRANSITIONED"
    by blast
  let ?g = "client_goal_id h" and ?c = "ct_next (transition_client_goal (cgi_context x) (client_goal_event REQUEST_CANCEL))"
  have sync: "ok (cai_endpoint a)" "goals_agree (view (cai_endpoint a)) (cai_goals a)"
    using client_services_sync_get [OF s a] by (simp_all add: client_action_sync_def)
  obtain r1 e' w1 where e: "cv_send_cancel V ?g (cai_endpoint a) w = (r1, e', w1)"
    by (cases "cv_send_cancel V ?g (cai_endpoint a) w")
  note law = send_cancel [OF sync(1) e]
  have "goals_agree (view e') (client_set_context ?g ?c (cai_goals a))" if r1
  proof -
    from law that obtain q where q: "view (cai_endpoint a) ?g = Some (CB_ACCEPTED, q)"
      "view e' = (view (cai_endpoint a))(?g \<mapsto> (AWAITING_CANCEL_RESPONSE, q))" by auto
    have "cgi_context x = initial_ClientGoalContext\<lparr>cg_next_feedback_sequence := q\<rparr>"
      using goals_agreeD [OF sync(2), of ?g] x q(1) by simp
    then have "expected_context (AWAITING_CANCEL_RESPONSE, q) = Some ?c"
      by (simp add: client_sm_defs client_goal_event_def initial_ClientGoalContext_def)
    from goals_agree_set_context [OF sync(2) x this] q(2) show ?thesis by simp
  qed
  then show ?thesis
    using r s a x t e law client_services_sync_set [OF s] client_set_action_id [OF a]
    by (auto simp: ServicesClient_send_cancel_def client_action_sync_def split: if_splits bool.splits)
next
  case False
  then show ?thesis
    using r s by (auto simp: ServicesClient_send_cancel_def Let_def split: if_splits option.splits)
qed

lemma lifecycle_sync:
  assumes "ssync s"
  shows "ssync (ServicesClient_stop_all_services V s)" and "ssync (ServicesClient_clear_all_instances V s)"
proof -
  have "async (a\<lparr>cai_endpoint := cv_clear_pending_events V (cai_endpoint a)\<rparr>)"
    and "async (a\<lparr>cai_goals := [], cai_endpoint := cv_reset_contexts V (cai_endpoint a)\<rparr>)" if "async a" for a
    using that clear [of "cai_endpoint a"] reset [of "cai_endpoint a"]
    by (simp_all add: client_action_sync_def goals_agree_def)
  with assms show "ssync (ServicesClient_stop_all_services V s)" and "ssync (ServicesClient_clear_all_instances V s)"
    by (simp_all add: client_services_sync_def ServicesClient_stop_all_services_def
        ServicesClient_clear_all_instances_def list_all_iff)
qed

end

end
