(* ===== verification/Client_Endpoint_Examples.thy ===== *)
theory Client_Endpoint_Examples
  imports Client_Endpoint_Properties Server_Endpoint_Examples
begin

text \<open>
  Concrete runs of the client endpoint on the example registry: a two-slot client, a Goal
  sent on slot 0, a failed send, a timeout. The witnesses of the client endpoint's properties
  apply them at these points.
\<close>

definition example_client :: ActionClientEndpointImpl where
  "example_client = (new_ActionClientEndpointImpl ''Move'' True True)\<lparr>
     cl_action_definition := Some example_definition,
     cl_slot_routing := map (slot_routing example_env ''Move'' example_definition) [0, 1],
     cl_slot_owners := [None, None], cl_initialized := True,
     cl_subscriptions := concat (map (\<lambda>i. [(channel_key ''Move'' i RESPONSE, i, PK_RESPONSE),
       (channel_key ''Move'' i FEEDBACK, i, PK_FEEDBACK)]) [0, 1])\<rparr>"

definition awaiting_binding :: ClientPacketBinding where
  "awaiting_binding = \<lparr>cb_goal_id = g0, cb_slot_index = 0, cb_state = AWAITING_GOAL_RESPONSE,
     cb_sent_at_usec = 0, cb_timeout_usec = 5, cb_next_feedback_sequence = 0\<rparr>"

definition bound_client :: "ClientPacketBinding \<Rightarrow> ActionClientEndpointImpl" where
  "bound_client b = example_client\<lparr>cl_slot_owners := [Some g0, None], cl_packet_bindings := [(g0, b)]\<rparr>"

definition sent_goal :: pdu_data where
  "sent_goal = overwrite 8 ([1, 1] @ [0, 0] @ g0 @ [0, 0, 0, 0]) body_packet"

lemmas client_example_simps = bound_client_def example_client_def new_ActionClientEndpointImpl_def Let_def

lemma example_client_initialize:
  "ClientEndpoint_initialize example_env value_json_ops example_action
     (new_ActionClientEndpointImpl ''Move'' True True) = (True, example_client)"
proof -
  have "packet_types_supported example_env example_definition"
    by (simp add: packet_types_supported_def type_supported_def example_definition_def)
       (simp add: example_env_def supported_packet_capacity_def aligned_size_def INT_MAX_def)
  then show ?thesis
    unfolding client_initialize_closed_form
    by (intro exI [of _ example_definition])
      (simp add: parse_example_action new_ActionClientEndpointImpl_def example_client_def Let_def
        upt_rec example_definition_def numeral_2_eq_2)
qed

lemma example_client_inv: "client_endpoint_inv example_client"
  using client_initialize_inv [OF new_client_endpoint_inv, of example_env value_json_ops example_action "''Move''" True True]
  by (simp add: example_client_initialize)

lemma bound_client_inv:
  "client_binding_ok g0 b \<Longrightarrow> cb_slot_index b = 0 \<Longrightarrow> client_endpoint_inv (bound_client b)"
  by (auto simp: client_endpoint_inv_def slot_table_def sm_ok_def sm_find_def client_example_simps
      at_def less_Suc_eq split: if_splits)

lemma example_time [simp]: "get_microseconds example_env t = 0"
  by (simp add: example_env_def)

lemma example_reserve:
  "ClientEndpoint_reserve example_env g0 5 example_client w = (Inr 0, bound_client awaiting_binding)"
  by (simp add: ClientEndpoint_reserve_def sm_emplace_def awaiting_binding_def client_example_simps)

lemma example_transmit:
  "ClientEndpoint_transmit_goal example_env (slot_routing example_env ''Move'' example_definition 0) g0 body_packet w =
     (case endpoint_send example_env (channel_key ''Move'' 0 REQUEST) (take 40 sent_goal) w of
        (False, w') \<Rightarrow> (Some TRANSPORT_ERROR, w') | (True, w') \<Rightarrow> (None, w'))"
  by (simp add: ClientEndpoint_transmit_goal_def client_validate_eq write_request_header_def body_packet_def
      example_convertors sent_goal_def request_header_def protocol_constants)

lemma example_send_goal:
  "ClientEndpoint_send_goal_with_result example_env body_packet g0 5 example_client w_ok =
     (SUCCESS, bound_client awaiting_binding,
      \<lparr>transport = [], outbox = [(channel_key ''Move'' 0 REQUEST, take 40 sent_goal)]\<rparr>)"
  "ClientEndpoint_send_goal_with_result example_env body_packet g0 5 example_client w_fail =
     (TRANSPORT_ERROR, client_release_binding_locked g0 (bound_client awaiting_binding), w_ok)"
proof -
  have r: "cl_slot_routing (bound_client awaiting_binding) ! 0 = slot_routing example_env ''Move'' example_definition 0"
    by (simp add: client_example_simps)
  show "ClientEndpoint_send_goal_with_result example_env body_packet g0 5 example_client w_ok =
     (SUCCESS, bound_client awaiting_binding,
      \<lparr>transport = [], outbox = [(channel_key ''Move'' 0 REQUEST, take 40 sent_goal)]\<rparr>)"
   "ClientEndpoint_send_goal_with_result example_env body_packet g0 5 example_client w_fail =
     (TRANSPORT_ERROR, client_release_binding_locked g0 (bound_client awaiting_binding), w_ok)"
    by (simp_all add: ClientEndpoint_send_goal_with_result_def example_reserve r example_transmit w_ok_def w_fail_def)
qed

section \<open>Witnesses\<close>

theorem client_endpoint_slots_consistent_witness:
  "\<exists>b. sm_find (cl_packet_bindings (foldl (\<lambda>s (w, op). client_exec example_env w s op) example_client
      [(w_ok, C_Reserve g0 5), (w_ok, C_Timeouts 9)])) g0 = Some b \<and> cb_slot_index b = 0"
proof -
  let ?ops = "[(w_ok, C_Reserve g0 5), (w_ok, C_Timeouts 9)]"
  have "at (cl_slot_owners (foldl (\<lambda>s (w, op). client_exec example_env w s op) example_client ?ops)) 0 = Some (Some g0)"
    by (simp add: example_reserve ClientEndpoint_timeouts_def at_def split: option.splits)
      (simp add: client_example_simps)
  with client_endpoint_slots_consistent [where E = example_env and J = value_json_ops and name = "''Move''"
      and ep = True and ts = True and j = example_action and ops = ?ops]
  show ?thesis unfolding example_client_initialize Let_def snd_conv by blast
qed

theorem client_failed_send_leaves_no_trace_witness:
  "snd (ClientEndpoint_send_goal_with_result example_env body_packet g0 5 example_client w_fail) = (example_client, w_ok)
   \<and> outbox w_ok = outbox w_fail"
  using client_failed_send_leaves_no_trace [OF example_client_inv, THEN conjunct1, THEN mp, OF conjI,
      OF example_send_goal(2)] example_send_goal(2)
  by simp

theorem client_send_goal_outcome_witness:
  "at (cl_slot_owners example_client) 0 = Some None
   \<and> at (cl_slot_owners (bound_client awaiting_binding)) 0 = Some (Some g0)
   \<and> fst (ClientEndpoint_send_goal_with_result example_env body_packet g0 5 (bound_client awaiting_binding) w_ok) = DUPLICATE_GOAL"
proof -
  have inv: "client_endpoint_inv (bound_client awaiting_binding)"
    by (rule bound_client_inv) (simp_all add: client_binding_ok_def awaiting_binding_def)
  obtain r st' w' where r: "ClientEndpoint_send_goal_with_result example_env body_packet g0 5 (bound_client awaiting_binding) w_ok = (r, st', w')"
    by (metis surj_pair)
  have "cl_initialized (bound_client awaiting_binding)" "sm_find (cl_packet_bindings (bound_client awaiting_binding)) g0 \<noteq> None"
    by (simp_all add: client_example_simps sm_find_def)
  with client_send_goal_outcome [OF inv r] have "r = DUPLICATE_GOAL" by simp
  with r show ?thesis by (simp add: at_def client_example_simps)
qed

theorem client_server_routing_agree_witness:
  "cl_slot_routing example_client = sv_slot_routing example_server
   \<and> map fst (sv_subscriptions example_server) = map sr_request (cl_slot_routing example_client)"
  using client_server_routing_agree [OF _ _ _ _ example_client_initialize example_initialize]
  by (simp add: new_ActionClientEndpointImpl_def new_ActionServerEndpointImpl_def)

theorem client_requests_reach_server_witness:
  "ServerEndpoint_handle example_env \<lparr>pp_slot_index = 0, pp_pdu = take 40 sent_goal\<rparr> example_server w_ok =
     (goal_event example_server SE_GOAL_REQUEST g0 (take 40 sent_goal), bound_server (new_binding g0 0), w_ok)"
proof -
  have "sv_slot_routing example_server = cl_slot_routing example_client"
    by (simp add: client_example_simps example_simps)
  from client_requests_reach_server [OF registry_ok_example example_client_inv g0_valid(2) this,
      where v = w_ok, THEN conjunct1, THEN mp, OF example_send_goal(1)]
  obtain i bytes where i: "at (cl_slot_owners (bound_client awaiting_binding)) i = Some (Some g0)"
    and bytes: "bytes = take 40 sent_goal"
    and h: "sm_find (sv_packet_bindings example_server) g0 = None \<and> sv_slot_owners example_server ! i = None \<longrightarrow>
       ServerEndpoint_handle example_env \<lparr>pp_slot_index = i, pp_pdu = bytes\<rparr> example_server w_ok =
       (goal_event example_server SE_GOAL_REQUEST g0 bytes,
        example_server\<lparr>sv_slot_owners := (sv_slot_owners example_server)[i := Some g0],
          sv_packet_bindings := sm_emplace g0 (new_binding g0 i) (sv_packet_bindings example_server)\<rparr>, w_ok)"
    by (auto simp: w_ok_def)
  from i have "i = 0" by (auto simp: at_def client_example_simps less_Suc_eq split: if_splits)
  with h bytes show ?thesis
    by (simp add: bound_server_def sm_emplace_def) (simp add: example_simps)
qed

theorem client_timeout_iff_witness:
  "ClientEndpoint_timeouts 9 (bound_client awaiting_binding) =
     (client_goal_event_out (bound_client awaiting_binding) CE_TIMEOUT g0,
      bound_client (awaiting_binding\<lparr>cb_state := GOAL_RESPONSE_TIMED_OUT\<rparr>))"
proof -
  have inv: "client_endpoint_inv (bound_client awaiting_binding)"
    by (rule bound_client_inv) (simp_all add: client_binding_ok_def awaiting_binding_def)
  have init: "cl_initialized (bound_client awaiting_binding)" by (simp add: client_example_simps)
  have find: "sm_find (cl_packet_bindings (bound_client awaiting_binding)) g =
      (if g = g0 then Some awaiting_binding else None)" for g
    by (simp add: client_example_simps sm_find_def)
  obtain ev st' where t: "ClientEndpoint_timeouts 9 (bound_client awaiting_binding) = (ev, st')"
    by (metis surj_pair)
  have "cb_state awaiting_binding = AWAITING_GOAL_RESPONSE" "cb_timeout_usec awaiting_binding \<noteq> 0"
    "unat (cb_sent_at_usec awaiting_binding) + unat (cb_timeout_usec awaiting_binding) \<le> unat (9 :: uint64)"
    by (simp_all add: awaiting_binding_def)
  with client_timeout_iff [OF inv init t] find have "ev = client_goal_event_out (bound_client awaiting_binding) CE_TIMEOUT g0"
    "st' = (bound_client awaiting_binding)\<lparr>cl_packet_bindings := sm_update g0
       (\<lambda>b. b\<lparr>cb_state := GOAL_RESPONSE_TIMED_OUT\<rparr>) (cl_packet_bindings (bound_client awaiting_binding))\<rparr>"
    by (auto split: if_splits)
  with t show ?thesis by (simp add: bound_client_def sm_update_def)
qed

theorem client_timed_out_goal_quarantined_witness:
  "at (cl_slot_owners (foldl (\<lambda>s (w, op). client_exec example_env w s op)
      (bound_client (awaiting_binding\<lparr>cb_state := GOAL_RESPONSE_TIMED_OUT\<rparr>))
      [(w_ok, C_Timeouts 9), (w_ok, C_Unreserve [3])])) 0 = Some (Some g0)"
proof -
  let ?b = "awaiting_binding\<lparr>cb_state := GOAL_RESPONSE_TIMED_OUT\<rparr>"
  have inv: "client_endpoint_inv (bound_client ?b)"
    by (rule bound_client_inv) (simp_all add: client_binding_ok_def awaiting_binding_def)
  have find: "sm_find (cl_packet_bindings (bound_client ?b)) g0 = Some ?b"
    by (simp add: client_example_simps sm_find_def)
  from client_timed_out_goal_quarantined [OF inv find, of "[(w_ok, C_Timeouts 9), (w_ok, C_Unreserve [3])]" example_env]
  show ?thesis by (simp add: awaiting_binding_def g0_def)
qed

end
