(* ===== verification/Services_Client_Properties.thy ===== *)
theory Services_Client_Properties
  imports Services_Client_Sync Client_Endpoint_Examples
begin

text \<open>
  Properties of the Action client services over the packet endpoint implementation, for
  every sequence of packet deliveries, polls, sends and lifecycle calls.
\<close>

section \<open>Runs of the services\<close>

datatype client_services_op =
    CSvc_Recv string nat PendingPacketKind pdu_data
  | CSvc_Poll
  | CSvc_Send_Goal string pdu_data GoalId uint64
  | CSvc_Send_Cancel string ClientGoalHandle
  | CSvc_Stop
  | CSvc_Clear

type_synonym 'w client_services_cfg = "ActionClientEndpointImpl ActionServicesClient \<times> 'w world"

text \<open>
  \<open>CSvc_Recv\<close> is the transport delivering a packet to an Action's endpoint. Each operation
  finds its own clock and transport state: the world of a step is part of the run.
\<close>

fun client_services_exec ::
    "'w pdu_env \<Rightarrow> ActionClientEndpointImpl ActionServicesClient \<Rightarrow> 'w world \<times> client_services_op
     \<Rightarrow> ActionClientEndpointImpl ActionServicesClient" where
  "client_services_exec E s (w, CSvc_Recv n i k d) =
     (case client_get_action_locked s n of
        None \<Rightarrow> s
      | Some a \<Rightarrow> client_set_action_locked n (a\<lparr>cai_endpoint := ClientEndpoint_on_recv i k d (cai_endpoint a)\<rparr>) s)"
| "client_services_exec E s (w, CSvc_Poll) = snd (ServicesClient_poll (client_endpoint_vtable E) s w)"
| "client_services_exec E s (w, CSvc_Send_Goal n d g t) =
     fst (snd (ServicesClient_send_goal_with_result (client_endpoint_vtable E) n d g t s w))"
| "client_services_exec E s (w, CSvc_Send_Cancel n h) =
     fst (snd (ServicesClient_send_cancel (client_endpoint_vtable E) n h s w))"
| "client_services_exec E s (w, CSvc_Stop) = ServicesClient_stop_all_services (client_endpoint_vtable E) s"
| "client_services_exec E s (w, CSvc_Clear) = ServicesClient_clear_all_instances (client_endpoint_vtable E) s"

abbreviation client_sync :: "ActionClientEndpointImpl ActionServicesClient \<Rightarrow> bool" where
  "client_sync \<equiv> client_services_sync client_endpoint_inv client_endpoint_view"

lemma client_services_exec_sync: "client_sync s \<Longrightarrow> client_sync (client_services_exec E s x)"
proof (cases x)
  case (Pair w op)
  assume s: "client_sync s"
  show ?thesis
  proof (cases op)
    case (CSvc_Recv n i k d)
    have "client_action_sync client_endpoint_inv client_endpoint_view
        (a\<lparr>cai_endpoint := ClientEndpoint_on_recv i k d (cai_endpoint a)\<rparr>)"
      if "client_get_action_locked s n = Some a" for a
      using client_services_sync_get [OF s that] client_exec_inv [of "cai_endpoint a" E w "C_Recv i k d"]
      by (simp add: client_action_sync_def ClientEndpoint_on_recv_def)
    then show ?thesis
      using Pair CSvc_Recv s client_services_sync_set [OF s] by (auto split: option.splits)
  next
    case CSvc_Poll
    then show ?thesis using Pair client_impl.poll_delivers [OF s] by (metis client_services_exec.simps(2) prod.collapse)
  next
    case (CSvc_Send_Goal n d g t)
    then show ?thesis using Pair client_impl.send_goal_sync [OF s] by (metis client_services_exec.simps(3) prod.collapse)
  next
    case (CSvc_Send_Cancel n h)
    then show ?thesis using Pair client_impl.send_cancel_sync [OF s] by (metis client_services_exec.simps(4) prod.collapse)
  qed (use Pair s in \<open>simp_all add: client_impl.lifecycle_sync\<close>)
qed

lemma client_services_run_sync: "client_sync s \<Longrightarrow> client_sync (foldl (client_services_exec E) s ops)"
  by (induction ops arbitrary: s) (simp_all add: client_services_exec_sync)

lemma client_initialize_actions_sync:
  "client_initialize_actions E J ref s ds = Some as \<Longrightarrow>
   list_all (client_action_sync client_endpoint_inv client_endpoint_view) as"
proof (induction ds arbitrary: as)
  case (Cons dj ds)
  obtain d j where dj: "dj = (d, j)" by (cases dj)
  show ?case
  proof (cases "er_node_id (ad_client_endpoint d) = sc_node_id s")
    case True
    obtain ep as' where e: "ClientEndpoint_initialize E J j
        (new_ActionClientEndpointImpl (ad_name d) True (sc_has_time_source s)) = (True, ep)"
      "client_initialize_actions E J ref s ds = Some as'"
      "as = \<lparr>cai_action_name = ad_name d, cai_endpoint = ep, cai_goals = []\<rparr> # as'"
      using Cons.prems True dj by (auto simp: Let_def split: if_splits prod.splits bool.splits)
    have "client_endpoint_inv ep"
      using client_initialize_inv [OF new_client_endpoint_inv, of E J j "ad_name d" True "sc_has_time_source s"] e(1)
      by simp
    moreover have "client_endpoint_view ep = (\<lambda>g. None)"
      using e(1) unfolding client_initialize_closed_form
      by (auto simp: Let_def client_endpoint_view_def new_ActionClientEndpointImpl_def fun_eq_iff)
    ultimately show ?thesis
      using Cons.IH [OF e(2)] by (simp add: e(3) client_action_sync_def goals_agree_def)
  qed (use Cons dj in simp)
qed simp

lemma client_initialize_services_sync:
  "client_initialize_services E J config container s0 = (True, s1) \<Longrightarrow> client_sync s1"
  using client_initialize_actions_sync
  by (fastforce simp: client_initialize_services_def client_services_sync_def split: if_splits option.splits sum.splits)

section \<open>Properties\<close>

text \<open>
  C14 (refinement): in every reachable state the client services' context of a Goal is exactly
  the one that belongs to the state of its packet binding: accepted, waiting for a Cancel
  Response, or canceling, with the same next Feedback number; and a Goal has a context if and
  only if its binding is past the Goal Response.
\<close>

theorem client_services_and_endpoint_agree:
  assumes "client_initialize_services E J config container s0 = (True, s1)"
    and "foldl (client_services_exec E) s1 ops = s"
    and "client_get_action_locked s name = Some a"
  shows "distinct (map cgi_id (cai_goals a)) \<and>
    map_option cgi_context (client_get_goal_locked (cai_goals a) g) =
      (case sm_find (cl_packet_bindings (cai_endpoint a)) g of
         None \<Rightarrow> None
       | Some b \<Rightarrow> expected_context (cb_state b, cb_next_feedback_sequence b))"
proof -
  have "client_sync s"
    using client_services_run_sync [OF client_initialize_services_sync [OF assms(1)]] assms(2) by blast
  from client_services_sync_get [OF this assms(3)] show ?thesis
    by (simp add: client_action_sync_def goals_agree_def client_endpoint_view_def split: option.splits)
qed

text \<open>
  C22 (safety): in every reachable state, \<open>poll\<close> returns the first event that one of the
  Actions' endpoints has, with its type and contents unchanged, and returns nothing only
  when no endpoint has one: no event is swallowed as late or out of order and none becomes an
  error, whatever packets arrived.
\<close>

theorem client_services_poll_delivers:
  assumes "client_initialize_services E J config container s0 = (True, s1)"
    and "foldl (client_services_exec E) s1 ops = s"
    and "ServicesClient_poll (client_endpoint_vtable E) s w = (r, s')"
  shows "r = map_option (\<lambda>a. (cai_action_name a, polled (client_endpoint_vtable E) w a))
      (List.find (\<lambda>a. ce_type (fst (ClientEndpoint_poll E (cai_endpoint a) w)) \<noteq> CE_NONE) (sc_actions s))
    \<and> (\<forall>n ev. r = Some (n, ev) \<longrightarrow> ce_type ev \<noteq> CE_ERROR)"
proof -
  have s: "client_sync s"
    using client_services_run_sync [OF client_initialize_services_sync [OF assms(1)]] assms(2) by blast
  have type: "ce_type (polled (client_endpoint_vtable E) w a) = ce_type (fst (ClientEndpoint_poll E (cai_endpoint a) w))" for a
    by (simp add: polled_def client_endpoint_vtable_def)
  have "ce_type (fst (ClientEndpoint_poll E (cai_endpoint a) w)) \<noteq> CE_ERROR" if "a \<in> set (sc_actions s)" for a
  proof -
    have "client_endpoint_inv (cai_endpoint a)"
      using s that by (auto simp: client_services_sync_def client_action_sync_def list_all_iff)
    from client_poll_law [OF this, of E w] show ?thesis
      by (cases "ClientEndpoint_poll E (cai_endpoint a) w") (auto simp: client_poll_effect_def Let_def)
  qed
  then show ?thesis
    using client_impl.poll_delivers [OF s assms(3)] by (auto simp: type dest!: find_SomeD)
qed

text \<open>
  In every reachable state, a Goal or Cancel send that the services refuse or that
  fails in the endpoint or the transport leaves the services and all endpoints as they were;
  and a Cancel for a Goal that the services hold as executing, with no Cancel outstanding,
  is handed to the endpoint, which then refuses it only for want of a packet or transport.
\<close>

theorem client_services_failed_send_unchanged:
  assumes "client_initialize_services E J config container s0 = (True, s1)"
    and "foldl (client_services_exec E) s1 ops = s"
  shows "(ServicesClient_send_goal_with_result (client_endpoint_vtable E) n d g t s w = (r, s', w') \<and> r \<noteq> SUCCESS \<longrightarrow> s' = s)
    \<and> (ServicesClient_send_cancel (client_endpoint_vtable E) n h s w = (False, s', w') \<longrightarrow> s' = s)
    \<and> (client_get_action_locked s n = Some a \<and> client_get_goal_locked (cai_goals a) g = Some x
        \<and> cg_state (cgi_context x) = EXECUTING \<and> \<not> cg_cancel_response_pending (cgi_context x) \<longrightarrow>
       (\<exists>b. sm_find (cl_packet_bindings (cai_endpoint a)) g = Some b \<and> cb_state b = CB_ACCEPTED))"
proof -
  have s: "client_sync s"
    using client_services_run_sync [OF client_initialize_services_sync [OF assms(1)]] assms(2) by blast
  have "\<exists>b. sm_find (cl_packet_bindings (cai_endpoint a)) g = Some b \<and> cb_state b = CB_ACCEPTED"
    if a: "client_get_action_locked s n = Some a" and x: "client_get_goal_locked (cai_goals a) g = Some x"
      and c: "cg_state (cgi_context x) = EXECUTING" "\<not> cg_cancel_response_pending (cgi_context x)"
  proof -
    have "Option.bind (client_endpoint_view (cai_endpoint a) g) expected_context = Some (cgi_context x)"
      using client_services_sync_get [OF s a] x
        goals_agreeD [of "client_endpoint_view (cai_endpoint a)" "cai_goals a" g] by (simp add: client_action_sync_def)
    then obtain b where b: "sm_find (cl_packet_bindings (cai_endpoint a)) g = Some b"
      "expected_context (cb_state b, cb_next_feedback_sequence b) = Some (cgi_context x)"
      by (auto simp: client_endpoint_view_def bind_eq_Some_conv)
    with c show ?thesis by (cases "cb_state b") (auto simp: initial_ClientGoalContext_def dest!: sym [of _ "cgi_context x"])
  qed
  then show ?thesis using client_impl.send_goal_sync [OF s] client_impl.send_cancel_sync [OF s] by blast
qed

section \<open>A concrete run\<close>

definition example_client_services ::
    "ActionClientEndpointImpl \<Rightarrow> ClientGoalInstance list \<Rightarrow> ActionClientEndpointImpl ActionServicesClient" where
  "example_client_services ep goals = \<lparr>sc_node_id = ''c'', sc_client_name = ''app'',
     sc_impl_type = ''ActionClientEndpointImpl'', sc_has_time_source = True,
     sc_actions = [\<lparr>cai_action_name = ''Move'', cai_endpoint = ep, cai_goals = goals\<rparr>]\<rparr>"

definition fresh_client_services :: "ActionClientEndpointImpl ActionServicesClient" where
  "fresh_client_services = \<lparr>sc_node_id = ''c'', sc_client_name = ''app'',
     sc_impl_type = ''ActionClientEndpointImpl'', sc_has_time_source = True, sc_actions = []\<rparr>"

definition example_client_root :: json_value where
  "example_client_root = JObject [(''actions'', JArray [example_action])]"

definition accept_packet :: pdu_data where
  "accept_packet = [170, 8, 32, 40, 0, 0, 0, 0] @ [1, 1, 1, 0] @ g0 @ replicate 12 0"

definition accepted_client_goal :: ClientGoalInstance where
  "accepted_client_goal = \<lparr>cgi_goal = \<lparr>client_goal_id = g0\<rparr>, cgi_context = initial_ClientGoalContext\<rparr>"

definition accept_event :: ClientEvent where
  "accept_event = empty_ClientEvent\<lparr>ce_type := CE_GOAL_RESPONSE, ce_action_name := ''Move'',
     ce_goal := \<lparr>client_goal_id = g0\<rparr>, ce_decision := ACCEPTED, ce_pdu := accept_packet\<rparr>"

lemmas client_services_simps = example_client_services_def client_get_action_locked_def client_set_action_locked_def
  client_get_goal_locked_def client_has_goal_locked_def accepted_client_goal_def client_endpoint_vtable_def

lemma example_client_services_initialize:
  "client_initialize_services example_env value_json_ops (Some (Inr example_client_root)) (Some (\<lambda>_. True)) fresh_client_services =
     (True, example_client_services example_client [])"
proof -
  have "parse_configuration value_json_ops example_client_root = Inr [example_definition]"
    by (simp add: parse_configuration_def example_client_root_def value_json_ops_def)
      (simp add: parse_example_action value_json_ops_def [symmetric])
  moreover have "json_find value_json_ops example_client_root ''actions'' = Some (JArray [example_action])"
    "json_elements value_json_ops (JArray [example_action]) = [example_action]"
    by (simp_all add: value_json_ops_def example_client_root_def)
  moreover have "er_node_id (ad_client_endpoint example_definition) = ''c''" "ad_name example_definition = ''Move''"
    by (simp_all add: example_definition_def)
  ultimately show ?thesis
    by (simp add: client_initialize_services_def fresh_client_services_def Let_def example_client_initialize
        example_client_services_def)
qed

lemma example_client_poll:
  "ClientEndpoint_poll example_env (ClientEndpoint_on_recv 0 PK_RESPONSE accept_packet (bound_client awaiting_binding)) w =
     (accept_event, bound_client (awaiting_binding\<lparr>cb_state := CB_ACCEPTED\<rparr>))"
proof -
  have "client_validate_packet_capacity example_env accept_packet 24 8 True = Some 40"
    "has_valid_packet_prefix example_env accept_packet 24"
    by (simp_all add: accept_packet_def client_validate_eq)
  moreover have "pdu2cpp_ActionResponseHeader example_env accept_packet =
      Some (response_header g0 RESPONSE_KIND_GOAL (decision_code ACCEPTED))"
    by (simp add: example_convertors accept_packet_def g0_def response_header_def protocol_constants)
  ultimately show ?thesis
    by (simp add: ClientEndpoint_poll_def ClientEndpoint_on_recv_def ClientEndpoint_handle_def decode_response_header_def
        handle_response_def client_example_simps sm_find_def sm_update_def awaiting_binding_def response_header_def
        decision_of_code_def client_goal_event_out_def accept_event_def)
qed

definition example_client_ops :: "(bool list world \<times> client_services_op) list" where
  "example_client_ops = [(w_ok, CSvc_Send_Goal ''Move'' body_packet g0 5), (w_ok, CSvc_Recv ''Move'' 0 PK_RESPONSE accept_packet)]"

lemma example_client_run:
  "foldl (client_services_exec example_env) (example_client_services example_client []) example_client_ops =
     example_client_services (ClientEndpoint_on_recv 0 PK_RESPONSE accept_packet (bound_client awaiting_binding)) []"
proof -
  have "body_packet \<noteq> []" by (simp add: body_packet_def)
  then show ?thesis
    by (simp add: example_client_ops_def ServicesClient_send_goal_with_result_def client_services_simps example_send_goal)
qed

lemma example_client_services_poll:
  "ServicesClient_poll (client_endpoint_vtable example_env)
     (example_client_services (ClientEndpoint_on_recv 0 PK_RESPONSE accept_packet (bound_client awaiting_binding)) []) w =
   (Some (''Move'', accept_event),
    example_client_services (bound_client (awaiting_binding\<lparr>cb_state := CB_ACCEPTED\<rparr>)) [accepted_client_goal])"
  by (simp add: ServicesClient_poll_def client_services_simps example_client_poll Let_def client_dispatch_def
      handle_goal_response_locked_def ClientGoalHandle_valid_def accept_event_def)

theorem client_services_and_endpoint_agree_witness:
  "map_option cgi_context (client_get_goal_locked [accepted_client_goal] g0) = expected_context (CB_ACCEPTED, 0)"
proof -
  let ?s = "example_client_services (bound_client (awaiting_binding\<lparr>cb_state := CB_ACCEPTED\<rparr>)) [accepted_client_goal]"
  have run: "foldl (client_services_exec example_env) (example_client_services example_client [])
      (example_client_ops @ [(w_ok, CSvc_Poll)]) = ?s"
    by (simp add: example_client_run example_client_services_poll)
  have act: "client_get_action_locked ?s ''Move'' = Some \<lparr>cai_action_name = ''Move'',
      cai_endpoint = bound_client (awaiting_binding\<lparr>cb_state := CB_ACCEPTED\<rparr>), cai_goals = [accepted_client_goal]\<rparr>"
    by (simp add: client_services_simps)
  from client_services_and_endpoint_agree [OF example_client_services_initialize run act, of g0]
  show ?thesis by (simp add: bound_client_def sm_find_def awaiting_binding_def del: expected_context.simps)
qed

theorem client_services_poll_delivers_witness:
  "fst (ServicesClient_poll (client_endpoint_vtable example_env)
     (foldl (client_services_exec example_env) (example_client_services example_client []) example_client_ops) w_ok)
     = Some (''Move'', accept_event) \<and> ce_type accept_event \<noteq> CE_ERROR"
proof -
  from client_services_poll_delivers [OF example_client_services_initialize refl, of example_client_ops w_ok]
    example_client_services_poll [of w_ok]
  show ?thesis unfolding example_client_run by simp
qed

theorem client_services_failed_send_unchanged_witness:
  "fst (ServicesClient_send_cancel (client_endpoint_vtable example_env) ''Move'' \<lparr>client_goal_id = g0\<rparr>
      (foldl (client_services_exec example_env) (example_client_services example_client []) example_client_ops) w_ok) = False
   \<and> fst (snd (ServicesClient_send_cancel (client_endpoint_vtable example_env) ''Move'' \<lparr>client_goal_id = g0\<rparr>
      (foldl (client_services_exec example_env) (example_client_services example_client []) example_client_ops) w_ok))
      = foldl (client_services_exec example_env) (example_client_services example_client []) example_client_ops"
proof -
  let ?s = "foldl (client_services_exec example_env) (example_client_services example_client []) example_client_ops"
  have op: "\<exists>w'. ServicesClient_send_cancel (client_endpoint_vtable example_env) ''Move'' \<lparr>client_goal_id = g0\<rparr> ?s w_ok
      = (False, ?s, w')"
    unfolding example_client_run by (simp add: ServicesClient_send_cancel_def client_services_simps)
  then obtain w' where w': "ServicesClient_send_cancel (client_endpoint_vtable example_env) ''Move'' \<lparr>client_goal_id = g0\<rparr> ?s w_ok
      = (False, ?s, w')" by blast
  from client_services_failed_send_unchanged [OF example_client_services_initialize refl, THEN conjunct2, THEN conjunct1,
      THEN mp, OF w'] w' show ?thesis by simp
qed

end
