(* ===== verification/Action_Mux.thy ===== *)
theory Action_Mux
  imports Action_Services_Server "HOL-Library.Multiset"
begin

text \<open>
  The multiplexing Action server, \<open>src/action_services_mux_server.cpp\<close>. Every accepted
  connection is an endpoint with Action services of its own; the application sees only
  Action name and Goal, so the server keeps a table of which connection owns which Goal, and
  keeps a disconnected connection as long as a Goal it accepted is not completed.

  The services of a connection are used through the table \<open>connection_services\<close> of the
  operations that the code calls; \<open>action_connection_services\<close> is the table of
  \<open>ActionServicesServer\<close>. \<open>EndpointCommMultiplexer\<close> belongs to another repository: what it
  returns is an argument of the operations, as is the set of endpoints taken since the last
  poll (\<open>None\<close> is a null pointer). The server and endpoint of a slot are released only when
  the slot leaves the table, so their null checks are not modelled. All operations hold the
  mutex of the object.
\<close>

section \<open>Data\<close>

datatype GoalOwnerState = OWNER_PENDING | OWNER_ACTIVE

record GoalOwner =
  go_action_name :: string
  go_goal_id :: GoalId
  go_connection_id :: uint64
  go_state :: GoalOwnerState

record ('e, 's, 'w) ActionConnectionSlot =
  acs_connection_id :: uint64
  acs_endpoint :: 'e
  acs_world :: "'w world"
  acs_server :: 's
  acs_disconnected :: bool
  acs_orphaned :: bool
  acs_disconnect_processed :: bool
  acs_retired :: bool

record ('e, 's, 'w) ActionServicesMuxServer =
  amx_node_id :: string
  amx_action_config_path :: string
  amx_endpoint_mux_config_path :: string
  amx_impl_type :: string
  amx_delta_time_usec :: uint64
  amx_mux :: "size_t option"
  amx_slots :: "('e, 's, 'w) ActionConnectionSlot list"
  amx_owners :: "GoalOwner list"
  amx_next_connection_id :: uint64
  amx_started :: bool
  amx_closed :: "'e list"

text \<open>
  \<open>cs_new\<close> constructs the services, initialises them on the endpoint and starts them; \<open>None\<close>
  when that fails. \<open>cs_receive\<close> is the receive callback that the initialisation registers with
  the endpoint, for the packets of one slot of one Action.
\<close>

record ('s, 'w) connection_services =
  cs_new :: "string \<Rightarrow> string \<Rightarrow> string \<Rightarrow> 's option"
  cs_poll :: "'s \<Rightarrow> 'w world \<Rightarrow> (string \<times> ServerEvent) option \<times> 's \<times> 'w world"
  cs_accept_goal :: "string \<Rightarrow> GoalId \<Rightarrow> 's \<Rightarrow> 'w world \<Rightarrow> bool \<times> 's \<times> 'w world"
  cs_reject_goal :: "string \<Rightarrow> GoalId \<Rightarrow> 's \<Rightarrow> 'w world \<Rightarrow> bool \<times> 's \<times> 'w world"
  cs_accept_cancel :: "string \<Rightarrow> GoalId \<Rightarrow> 's \<Rightarrow> 'w world \<Rightarrow> bool \<times> 's \<times> 'w world"
  cs_reject_cancel :: "string \<Rightarrow> GoalId \<Rightarrow> 's \<Rightarrow> 'w world \<Rightarrow> bool \<times> 's \<times> 'w world"
  cs_create_feedback_buffer :: "string \<Rightarrow> 's \<Rightarrow> 'w world \<Rightarrow> pdu_data option"
  cs_create_result_buffer :: "string \<Rightarrow> 's \<Rightarrow> 'w world \<Rightarrow> pdu_data option"
  cs_send_feedback :: "string \<Rightarrow> GoalId \<Rightarrow> pdu_data \<Rightarrow> 's \<Rightarrow> 'w world \<Rightarrow> bool \<times> 's \<times> 'w world"
  cs_complete :: "string \<Rightarrow> GoalId \<Rightarrow> TerminalStatus \<Rightarrow> pdu_data \<Rightarrow> 's \<Rightarrow> 'w world \<Rightarrow> bool \<times> 's \<times> 'w world"
  cs_complete_locally :: "string \<Rightarrow> GoalId \<Rightarrow> TerminalStatus \<Rightarrow> pdu_data \<Rightarrow> 's \<Rightarrow> 'w world \<Rightarrow> bool \<times> 's \<times> 'w world"
  cs_discard_pending_goal :: "string \<Rightarrow> GoalId \<Rightarrow> 's \<Rightarrow> bool \<times> 's"
  cs_stop_all_services :: "'s \<Rightarrow> 's"
  cs_clear_all_instances :: "'s \<Rightarrow> 's"
  cs_notify_transport_disconnected :: "'s \<Rightarrow> 's"
  cs_receive :: "string \<Rightarrow> nat \<Rightarrow> pdu_data \<Rightarrow> 's \<Rightarrow> 's"

text \<open>\<open>config\<close> is the configuration file at a path, as in \<open>initialize_services_impl\<close>.\<close>

definition action_connection_services ::
    "'w pdu_env \<Rightarrow> 'j json_ops \<Rightarrow> (string \<Rightarrow> (string + 'j) option) \<Rightarrow> bool
     \<Rightarrow> (ActionServerEndpointImpl ActionServicesServer, 'w) connection_services" where
  "action_connection_services E J config has_time_source =
     (let V = server_endpoint_vtable E in
      \<lparr>cs_new = (\<lambda>node_id path impl_type.
         case initialize_services_impl E J (config path) None True
                \<lparr>ss_node_id = node_id, ss_impl_type = impl_type, ss_has_time_source = has_time_source,
                 ss_actions = [], ss_pending_runtime_events = []\<rparr> of
           (True, s) \<Rightarrow> Some s
         | (False, s) \<Rightarrow> None),
       cs_poll = ServicesServer_poll V,
       cs_accept_goal = ServicesServer_accept_goal V,
       cs_reject_goal = ServicesServer_reject_goal V,
       cs_accept_cancel = ServicesServer_accept_cancel V,
       cs_reject_cancel = ServicesServer_reject_cancel V,
       cs_create_feedback_buffer = ServicesServer_create_feedback_buffer V,
       cs_create_result_buffer = ServicesServer_create_result_buffer V,
       cs_send_feedback = ServicesServer_send_feedback V,
       cs_complete = ServicesServer_complete V,
       cs_complete_locally = ServicesServer_complete_locally V,
       cs_discard_pending_goal = ServicesServer_discard_pending_goal V,
       cs_stop_all_services = ServicesServer_stop_all_services V,
       cs_clear_all_instances = ServicesServer_clear_all_instances V,
       cs_notify_transport_disconnected = ServicesServer_notify_transport_disconnected,
       cs_receive = (\<lambda>name i d s.
         case get_action_locked s name of
           None \<Rightarrow> s
         | Some a \<Rightarrow> set_action_locked name (a\<lparr>ai_endpoint := ServerEndpoint_on_recv i d (ai_endpoint a)\<rparr>) s)\<rparr>)"

definition new_ActionServicesMuxServer ::
    "string \<Rightarrow> string \<Rightarrow> string \<Rightarrow> string \<Rightarrow> uint64 \<Rightarrow> ('e, 's, 'w) ActionServicesMuxServer" where
  "new_ActionServicesMuxServer node_id action_config_path endpoint_mux_config_path impl_type delta_time_usec =
     \<lparr>amx_node_id = node_id, amx_action_config_path = action_config_path,
      amx_endpoint_mux_config_path = endpoint_mux_config_path, amx_impl_type = impl_type,
      amx_delta_time_usec = delta_time_usec, amx_mux = None, amx_slots = [], amx_owners = [],
      amx_next_connection_id = 1, amx_started = False, amx_closed = []\<rparr>"

section \<open>Lookup\<close>

definition amx_find_slot :: "('e, 's, 'w) ActionServicesMuxServer \<Rightarrow> uint64 \<Rightarrow> ('e, 's, 'w) ActionConnectionSlot option" where
  "amx_find_slot m i = List.find (\<lambda>s. acs_connection_id s = i) (amx_slots m)"

definition amx_set_slot ::
    "uint64 \<Rightarrow> ('e, 's, 'w) ActionConnectionSlot \<Rightarrow> ('e, 's, 'w) ActionServicesMuxServer \<Rightarrow> ('e, 's, 'w) ActionServicesMuxServer" where
  "amx_set_slot i slot m = m\<lparr>amx_slots := update_first (\<lambda>s. acs_connection_id s = i) (\<lambda>_. slot) (amx_slots m)\<rparr>"

definition is_owner :: "string \<Rightarrow> GoalId \<Rightarrow> GoalOwner \<Rightarrow> bool" where
  "is_owner name g ow \<longleftrightarrow> go_action_name ow = name \<and> go_goal_id ow = g"

definition find_owner :: "GoalOwner list \<Rightarrow> string \<Rightarrow> GoalId \<Rightarrow> GoalOwner option" where
  "find_owner owners name g = List.find (is_owner name g) owners"

definition find_active_owner :: "GoalOwner list \<Rightarrow> string \<Rightarrow> GoalId \<Rightarrow> GoalOwner option" where
  "find_active_owner owners name g =
     (case find_owner owners name g of
        None \<Rightarrow> None
      | Some ow \<Rightarrow> if go_state ow = OWNER_ACTIVE then Some ow else None)"

definition remove_owner :: "string \<Rightarrow> GoalId \<Rightarrow> GoalOwner list \<Rightarrow> GoalOwner list" where
  "remove_owner name g owners = remove_first (is_owner name g) owners"

text \<open>\<open>owner->state = GoalOwnerState::ACTIVE\<close> through the pointer \<open>find_owner_\<close> returned.\<close>

definition activate_owner :: "string \<Rightarrow> GoalId \<Rightarrow> GoalOwner list \<Rightarrow> GoalOwner list" where
  "activate_owner name g owners = update_first (is_owner name g) (\<lambda>ow. ow\<lparr>go_state := OWNER_ACTIVE\<rparr>) owners"

section \<open>Lifecycle\<close>

definition ActionMux_initialize ::
    "(string \<Rightarrow> size_t option) \<Rightarrow> ('e, 's, 'w) ActionServicesMuxServer \<Rightarrow> bool \<times> ('e, 's, 'w) ActionServicesMuxServer" where
  "ActionMux_initialize mux_open m =
     (if amx_mux m \<noteq> None then (True, m)
      else if amx_node_id m = [] \<or> amx_action_config_path m = [] \<or> amx_endpoint_mux_config_path m = []
        \<or> amx_impl_type m = [] \<or> amx_delta_time_usec m = 0 then (False, m)
      else case mux_open (amx_endpoint_mux_config_path m) of
        None \<Rightarrow> (False, m)
      | Some expected \<Rightarrow> if expected = 0 then (False, m) else (True, m\<lparr>amx_mux := Some expected\<rparr>))"

definition ActionMux_start :: "bool \<Rightarrow> ('e, 's, 'w) ActionServicesMuxServer \<Rightarrow> bool \<times> ('e, 's, 'w) ActionServicesMuxServer" where
  "ActionMux_start mux_starts m =
     (if amx_started m then (True, m)
      else if amx_mux m = None \<or> \<not> mux_starts then (False, m)
      else (True, m\<lparr>amx_started := True\<rparr>))"

text \<open>\<open>close_slot_\<close> of every slot: the endpoint is stopped and closed, the services released.\<close>

definition ActionMux_stop :: "('e, 's, 'w) ActionServicesMuxServer \<Rightarrow> ('e, 's, 'w) ActionServicesMuxServer" where
  "ActionMux_stop m =
     m\<lparr>amx_owners := [], amx_slots := [], amx_mux := None, amx_started := False,
       amx_closed := amx_closed m @ map acs_endpoint (amx_slots m)\<rparr>"

section \<open>Connections\<close>

definition connected_slot_count :: "('e, 's, 'w) ActionServicesMuxServer \<Rightarrow> nat" where
  "connected_slot_count m = length (filter (\<lambda>s. \<not> acs_disconnected s) (amx_slots m))"

definition action_accept_connection ::
    "('s, 'w) connection_services \<Rightarrow> size_t \<Rightarrow> ('e \<times> 'w world) option \<Rightarrow> ('e, 's, 'w) ActionServicesMuxServer
     \<Rightarrow> ('e, 's, 'w) ActionServicesMuxServer" where
  "action_accept_connection M capacity endpoint m =
     (case endpoint of
        None \<Rightarrow> m
      | Some (e, w) \<Rightarrow>
          if connected_slot_count m \<ge> unat capacity then m\<lparr>amx_closed := amx_closed m @ [e]\<rparr>
          else let m1 = m\<lparr>amx_next_connection_id := amx_next_connection_id m + 1\<rparr>
               in case cs_new M (amx_node_id m) (amx_action_config_path m) (amx_impl_type m) of
                    None \<Rightarrow> m1\<lparr>amx_closed := amx_closed m1 @ [e]\<rparr>
                  | Some server \<Rightarrow>
                      m1\<lparr>amx_slots := amx_slots m1 @ [\<lparr>acs_connection_id = amx_next_connection_id m, acs_endpoint = e,
                          acs_world = w, acs_server = server, acs_disconnected = False, acs_orphaned = False,
                          acs_disconnect_processed = False, acs_retired = False\<rparr>]\<rparr>)"

definition action_accept_new_connections ::
    "('s, 'w) connection_services \<Rightarrow> size_t \<Rightarrow> ('e \<times> 'w world) option list \<Rightarrow> ('e, 's, 'w) ActionServicesMuxServer
     \<Rightarrow> ('e, 's, 'w) ActionServicesMuxServer" where
  "action_accept_new_connections M capacity endpoints m = fold (action_accept_connection M capacity) endpoints m"

text \<open>The callbacks of an endpoint: it has disconnected, or a packet has arrived for connection \<open>i\<close>.\<close>

definition ActionMux_on_disconnected :: "'e \<Rightarrow> ('e, 's, 'w) ActionServicesMuxServer \<Rightarrow> ('e, 's, 'w) ActionServicesMuxServer" where
  "ActionMux_on_disconnected e m =
     m\<lparr>amx_slots := map (\<lambda>s. if acs_endpoint s = e then s\<lparr>acs_disconnected := True\<rparr> else s) (amx_slots m)\<rparr>"

definition ActionMux_receive ::
    "('s, 'w) connection_services \<Rightarrow> uint64 \<Rightarrow> string \<Rightarrow> nat \<Rightarrow> pdu_data \<Rightarrow> ('e, 's, 'w) ActionServicesMuxServer
     \<Rightarrow> ('e, 's, 'w) ActionServicesMuxServer" where
  "ActionMux_receive M i name k d m =
     (case amx_find_slot m i of
        None \<Rightarrow> m
      | Some slot \<Rightarrow> amx_set_slot i (slot\<lparr>acs_server := cs_receive M name k d (acs_server slot)\<rparr>) m)"

text \<open>
  The inner loop of \<open>process_disconnected_\<close> for connection \<open>i\<close>: pending Goals are discarded
  and forgotten, active ones kept. The first result says whether there is an active one.
\<close>

fun discard_pending_owners ::
    "('s, 'w) connection_services \<Rightarrow> uint64 \<Rightarrow> GoalOwner list \<Rightarrow> 's \<Rightarrow> bool \<times> GoalOwner list \<times> 's" where
  "discard_pending_owners M i [] s = (False, [], s)"
| "discard_pending_owners M i (ow # owners) s =
     (if go_connection_id ow \<noteq> i
      then (case discard_pending_owners M i owners s of (a, os, s') \<Rightarrow> (a, ow # os, s'))
      else if go_state ow = OWNER_ACTIVE
      then (case discard_pending_owners M i owners s of (a, os, s') \<Rightarrow> (True, ow # os, s'))
      else discard_pending_owners M i owners (snd (cs_discard_pending_goal M (go_action_name ow) (go_goal_id ow) s)))"

definition process_disconnected_slot ::
    "('s, 'w) connection_services \<Rightarrow> GoalOwner list \<Rightarrow> ('e, 's, 'w) ActionConnectionSlot
     \<Rightarrow> GoalOwner list \<times> ('e, 's, 'w) ActionConnectionSlot" where
  "process_disconnected_slot M owners slot =
     (if \<not> acs_disconnected slot \<or> acs_disconnect_processed slot then (owners, slot)
      else case discard_pending_owners M (acs_connection_id slot) owners (acs_server slot) of
        (has_active_owner, owners', server) \<Rightarrow>
          let slot1 = slot\<lparr>acs_disconnect_processed := True, acs_server := cs_stop_all_services M server\<rparr>
          in if has_active_owner
             then (owners', slot1\<lparr>acs_orphaned := True,
                     acs_server := cs_notify_transport_disconnected M (acs_server slot1)\<rparr>)
             else (owners', slot1\<lparr>acs_server := cs_clear_all_instances M (acs_server slot1), acs_retired := True\<rparr>))"

fun process_disconnected_slots ::
    "('s, 'w) connection_services \<Rightarrow> GoalOwner list \<Rightarrow> ('e, 's, 'w) ActionConnectionSlot list
     \<Rightarrow> GoalOwner list \<times> ('e, 's, 'w) ActionConnectionSlot list" where
  "process_disconnected_slots M owners [] = (owners, [])"
| "process_disconnected_slots M owners (slot # slots) =
     (case process_disconnected_slot M owners slot of
        (owners1, slot') \<Rightarrow>
          (case process_disconnected_slots M owners1 slots of
             (owners2, slots') \<Rightarrow> (owners2, slot' # slots')))"

definition process_disconnected ::
    "('s, 'w) connection_services \<Rightarrow> ('e, 's, 'w) ActionServicesMuxServer \<Rightarrow> ('e, 's, 'w) ActionServicesMuxServer" where
  "process_disconnected M m =
     (case process_disconnected_slots M (amx_owners m) (amx_slots m) of
        (owners, slots) \<Rightarrow> m\<lparr>amx_owners := owners, amx_slots := slots\<rparr>)"

definition reclaim_orphaned_slot ::
    "('s, 'w) connection_services \<Rightarrow> uint64 \<Rightarrow> ('e, 's, 'w) ActionServicesMuxServer \<Rightarrow> ('e, 's, 'w) ActionServicesMuxServer" where
  "reclaim_orphaned_slot M i m =
     (if list_ex (\<lambda>ow. go_connection_id ow = i) (amx_owners m) then m
      else m\<lparr>amx_slots := update_first (\<lambda>s. acs_connection_id s = i \<and> acs_orphaned s)
               (\<lambda>s. s\<lparr>acs_server := cs_clear_all_instances M (acs_server s), acs_retired := True\<rparr>) (amx_slots m)\<rparr>)"

section \<open>Polling\<close>

text \<open>
  The loop over the slots. A Goal Request for a Goal that already has an owner is rejected on
  its own connection and the loop goes on; a new one gets an owner.
\<close>

fun action_poll_slots ::
    "('s, 'w) connection_services \<Rightarrow> GoalOwner list \<Rightarrow> ('e, 's, 'w) ActionConnectionSlot list
     \<Rightarrow> (string \<times> ServerEvent) option \<times> GoalOwner list \<times> ('e, 's, 'w) ActionConnectionSlot list" where
  "action_poll_slots M owners [] = (None, owners, [])"
| "action_poll_slots M owners (slot # slots) =
     (if acs_retired slot
      then (case action_poll_slots M owners slots of (r, os, ss) \<Rightarrow> (r, os, slot # ss))
      else case cs_poll M (acs_server slot) (acs_world slot) of
        (None, s', w') \<Rightarrow>
          (case action_poll_slots M owners slots of
             (r, os, ss) \<Rightarrow> (r, os, slot\<lparr>acs_server := s', acs_world := w'\<rparr> # ss))
      | (Some (name, ev), s', w') \<Rightarrow>
          let slot' = slot\<lparr>acs_server := s', acs_world := w'\<rparr>; g = server_goal_id (se_goal ev)
          in if se_type ev \<noteq> SE_GOAL_REQUEST then (Some (name, ev), owners, slot' # slots)
             else if find_owner owners name g \<noteq> None
             then (case cs_reject_goal M name g s' w' of
                     (_, s'', w'') \<Rightarrow>
                       (case action_poll_slots M owners slots of
                          (r, os, ss) \<Rightarrow> (r, os, slot\<lparr>acs_server := s'', acs_world := w''\<rparr> # ss)))
             else (Some (name, ev),
                   owners @ [\<lparr>go_action_name = name, go_goal_id = g, go_connection_id = acs_connection_id slot,
                              go_state = OWNER_PENDING\<rparr>],
                   slot' # slots))"

definition ActionMux_poll ::
    "('s, 'w) connection_services \<Rightarrow> ('e \<times> 'w world) option list \<Rightarrow> ('e, 's, 'w) ActionServicesMuxServer
     \<Rightarrow> (string \<times> ServerEvent) option \<times> ('e, 's, 'w) ActionServicesMuxServer" where
  "ActionMux_poll M endpoints m =
     (case amx_mux m of
        None \<Rightarrow> (None, m)
      | Some capacity \<Rightarrow>
          if \<not> amx_started m then (None, m)
          else let m1 = process_disconnected M (action_accept_new_connections M capacity endpoints m)
               in case action_poll_slots M (amx_owners m1) (amx_slots m1) of
                    (Some r, os, ss) \<Rightarrow> (Some r, m1\<lparr>amx_owners := os, amx_slots := ss\<rparr>)
                  | (None, os, ss) \<Rightarrow> (None, process_disconnected M (m1\<lparr>amx_owners := os, amx_slots := ss\<rparr>)))"

section \<open>Goal operations\<close>

definition ActionMux_accept_goal ::
    "('s, 'w) connection_services \<Rightarrow> string \<Rightarrow> GoalId \<Rightarrow> ('e, 's, 'w) ActionServicesMuxServer \<Rightarrow> bool \<times> ('e, 's, 'w) ActionServicesMuxServer" where
  "ActionMux_accept_goal M name g m =
     (case find_owner (amx_owners m) name g of
        None \<Rightarrow> (False, m)
      | Some ow \<Rightarrow>
          if go_state ow \<noteq> OWNER_PENDING then (False, m)
          else case amx_find_slot m (go_connection_id ow) of
            None \<Rightarrow> (False, m)
          | Some slot \<Rightarrow>
              if acs_disconnected slot then (False, m)
              else case cs_accept_goal M name g (acs_server slot) (acs_world slot) of
                (r, s', w') \<Rightarrow>
                  let m1 = amx_set_slot (go_connection_id ow) (slot\<lparr>acs_server := s', acs_world := w'\<rparr>) m
                  in if \<not> r then (False, m1)
                     else (True, m1\<lparr>amx_owners := activate_owner name g (amx_owners m1)\<rparr>))"

definition ActionMux_reject_goal ::
    "('s, 'w) connection_services \<Rightarrow> string \<Rightarrow> GoalId \<Rightarrow> ('e, 's, 'w) ActionServicesMuxServer \<Rightarrow> bool \<times> ('e, 's, 'w) ActionServicesMuxServer" where
  "ActionMux_reject_goal M name g m =
     (case find_owner (amx_owners m) name g of
        None \<Rightarrow> (False, m)
      | Some ow \<Rightarrow>
          if go_state ow \<noteq> OWNER_PENDING then (False, m)
          else case amx_find_slot m (go_connection_id ow) of
            None \<Rightarrow> (False, m)
          | Some slot \<Rightarrow>
              if acs_disconnected slot then (False, m)
              else case cs_reject_goal M name g (acs_server slot) (acs_world slot) of
                (r, s', w') \<Rightarrow>
                  let m1 = amx_set_slot (go_connection_id ow) (slot\<lparr>acs_server := s', acs_world := w'\<rparr>) m
                  in if \<not> r then (False, m1)
                     else (True, m1\<lparr>amx_owners := remove_owner name g (amx_owners m1)\<rparr>))"

text \<open>\<open>route_active_goal_\<close> with the operation as a parameter.\<close>

definition route_active_goal ::
    "(string \<Rightarrow> GoalId \<Rightarrow> 's \<Rightarrow> 'w world \<Rightarrow> bool \<times> 's \<times> 'w world) \<Rightarrow> string \<Rightarrow> GoalId
     \<Rightarrow> ('e, 's, 'w) ActionServicesMuxServer \<Rightarrow> bool \<times> ('e, 's, 'w) ActionServicesMuxServer" where
  "route_active_goal operation name g m =
     (case find_active_owner (amx_owners m) name g of
        None \<Rightarrow> (False, m)
      | Some ow \<Rightarrow>
          (case amx_find_slot m (go_connection_id ow) of
             None \<Rightarrow> (False, m)
           | Some slot \<Rightarrow>
               (case operation name g (acs_server slot) (acs_world slot) of
                  (r, s', w') \<Rightarrow>
                    (r, amx_set_slot (go_connection_id ow) (slot\<lparr>acs_server := s', acs_world := w'\<rparr>) m))))"

definition ActionMux_accept_cancel ::
    "('s, 'w) connection_services \<Rightarrow> string \<Rightarrow> GoalId \<Rightarrow> ('e, 's, 'w) ActionServicesMuxServer \<Rightarrow> bool \<times> ('e, 's, 'w) ActionServicesMuxServer" where
  "ActionMux_accept_cancel M = route_active_goal (cs_accept_cancel M)"

definition ActionMux_reject_cancel ::
    "('s, 'w) connection_services \<Rightarrow> string \<Rightarrow> GoalId \<Rightarrow> ('e, 's, 'w) ActionServicesMuxServer \<Rightarrow> bool \<times> ('e, 's, 'w) ActionServicesMuxServer" where
  "ActionMux_reject_cancel M = route_active_goal (cs_reject_cancel M)"

text \<open>\<open>find_any_server_\<close>: the services of the first slot.\<close>

definition ActionMux_create_feedback_buffer ::
    "('s, 'w) connection_services \<Rightarrow> string \<Rightarrow> ('e, 's, 'w) ActionServicesMuxServer \<Rightarrow> pdu_data option" where
  "ActionMux_create_feedback_buffer M name m =
     (case amx_slots m of [] \<Rightarrow> None | slot # _ \<Rightarrow> cs_create_feedback_buffer M name (acs_server slot) (acs_world slot))"

definition ActionMux_create_result_buffer ::
    "('s, 'w) connection_services \<Rightarrow> string \<Rightarrow> ('e, 's, 'w) ActionServicesMuxServer \<Rightarrow> pdu_data option" where
  "ActionMux_create_result_buffer M name m =
     (case amx_slots m of [] \<Rightarrow> None | slot # _ \<Rightarrow> cs_create_result_buffer M name (acs_server slot) (acs_world slot))"

definition ActionMux_send_feedback ::
    "('s, 'w) connection_services \<Rightarrow> string \<Rightarrow> GoalId \<Rightarrow> pdu_data \<Rightarrow> ('e, 's, 'w) ActionServicesMuxServer
     \<Rightarrow> bool \<times> ('e, 's, 'w) ActionServicesMuxServer" where
  "ActionMux_send_feedback M name g feedback_pdu m =
     (case find_active_owner (amx_owners m) name g of
        None \<Rightarrow> (False, m)
      | Some ow \<Rightarrow>
          (case amx_find_slot m (go_connection_id ow) of
             None \<Rightarrow> (False, m)
           | Some slot \<Rightarrow>
               if acs_disconnected slot then (False, m)
               else (case cs_send_feedback M name g feedback_pdu (acs_server slot) (acs_world slot) of
                       (r, s', w') \<Rightarrow>
                         (r, amx_set_slot (go_connection_id ow) (slot\<lparr>acs_server := s', acs_world := w'\<rparr>) m))))"

definition ActionMux_complete ::
    "('s, 'w) connection_services \<Rightarrow> string \<Rightarrow> GoalId \<Rightarrow> TerminalStatus \<Rightarrow> pdu_data \<Rightarrow> ('e, 's, 'w) ActionServicesMuxServer
     \<Rightarrow> bool \<times> ('e, 's, 'w) ActionServicesMuxServer" where
  "ActionMux_complete M name g status result_pdu m =
     (case find_active_owner (amx_owners m) name g of
        None \<Rightarrow> (False, m)
      | Some ow \<Rightarrow>
          (case amx_find_slot m (go_connection_id ow) of
             None \<Rightarrow> (False, m)
           | Some slot \<Rightarrow>
               (case (if acs_disconnected slot then cs_complete_locally M else cs_complete M)
                       name g status result_pdu (acs_server slot) (acs_world slot) of
                  (completed, s', w') \<Rightarrow>
                    let m1 = amx_set_slot (go_connection_id ow) (slot\<lparr>acs_server := s', acs_world := w'\<rparr>) m
                    in if \<not> completed then (False, m1)
                       else (True, reclaim_orphaned_slot M (go_connection_id ow)
                                     (m1\<lparr>amx_owners := remove_owner name g (amx_owners m1)\<rparr>)))))"

definition ActionMux_connected_count :: "('e, 's, 'w) ActionServicesMuxServer \<Rightarrow> nat" where
  "ActionMux_connected_count m = length (filter (\<lambda>s. \<not> acs_disconnected s) (amx_slots m))"

definition ActionMux_expected_count :: "('e, 's, 'w) ActionServicesMuxServer \<Rightarrow> size_t" where
  "ActionMux_expected_count m = (case amx_mux m of None \<Rightarrow> 0 | Some n \<Rightarrow> n)"

definition ActionMux_is_ready :: "('e, 's, 'w) ActionServicesMuxServer \<Rightarrow> bool" where
  "ActionMux_is_ready m \<longleftrightarrow>
     amx_started m \<and> (case amx_mux m of None \<Rightarrow> False | Some n \<Rightarrow> connected_slot_count m \<ge> unat n)"

end
