(* ===== verification/Action_Mux_Contract.thy ===== *)
theory Action_Mux_Contract
  imports Action_Mux Services_Server_Properties
begin

text \<open>
  What the multiplexing Action server relies on of the services of a connection, and that
  \<open>ActionServicesServer\<close> provides it: which operations change the set of Goals the services
  have accepted and not yet completed, and how.
\<close>

section \<open>The contract\<close>

type_synonym goal_key = "string \<times> GoalId"

locale connection_contract =
  fixes M :: "('s, 'w) connection_services"
    and ok :: "'s \<Rightarrow> bool"
    and active :: "'s \<Rightarrow> goal_key set"
  assumes new: "cs_new M n p i = Some s \<Longrightarrow> ok s \<and> active s = {}"
    and poll: "ok s \<Longrightarrow> cs_poll M s w = (ev, s', w') \<Longrightarrow> ok s' \<and> active s' = active s"
    and accept_goal: "ok s \<Longrightarrow> cs_accept_goal M n g s w = (r, s', w') \<Longrightarrow>
      ok s' \<and> active s' = (if r then insert (n, g) (active s) else active s)"
    and reject_goal: "ok s \<Longrightarrow> cs_reject_goal M n g s w = (r, s', w') \<Longrightarrow> ok s' \<and> active s' = active s"
    and accept_cancel: "ok s \<Longrightarrow> cs_accept_cancel M n g s w = (r, s', w') \<Longrightarrow> ok s' \<and> active s' = active s"
    and reject_cancel: "ok s \<Longrightarrow> cs_reject_cancel M n g s w = (r, s', w') \<Longrightarrow> ok s' \<and> active s' = active s"
    and send_feedback: "ok s \<Longrightarrow> cs_send_feedback M n g d s w = (r, s', w') \<Longrightarrow> ok s' \<and> active s' = active s"
    and complete: "ok s \<Longrightarrow> cs_complete M n g t d s w = (r, s', w') \<Longrightarrow>
      ok s' \<and> active s' = (if r then active s - {(n, g)} else active s)"
    and complete_locally: "ok s \<Longrightarrow> cs_complete_locally M n g t d s w = (r, s', w') \<Longrightarrow>
      ok s' \<and> active s' = (if r then active s - {(n, g)} else active s)"
    and discard: "ok s \<Longrightarrow> cs_discard_pending_goal M n g s = (r, s') \<Longrightarrow> ok s' \<and> active s' = active s"
    and stop: "ok s \<Longrightarrow> ok (cs_stop_all_services M s) \<and> active (cs_stop_all_services M s) = active s"
    and clear: "ok s \<Longrightarrow> ok (cs_clear_all_instances M s) \<and> active (cs_clear_all_instances M s) = {}"
    and notify: "ok s \<Longrightarrow> ok (cs_notify_transport_disconnected M s)
      \<and> active (cs_notify_transport_disconnected M s) = active s"
    and receive: "ok s \<Longrightarrow> ok (cs_receive M n k d s) \<and> active (cs_receive M n k d s) = active s"

section \<open>Accepted Goals of the services\<close>

definition accepted_goals :: "'e ActionServicesServer \<Rightarrow> goal_key set" where
  "accepted_goals s = {(n, g). \<exists>a. get_action_locked s n = Some a \<and> has_goal_locked (ai_goals a) g}"

lemma get_action_name: "get_action_locked s n = Some a \<Longrightarrow> ai_action_name a = n"
  by (auto simp: get_action_locked_def dest: find_SomeD)

lemma get_set_action:
  assumes "get_action_locked s n = Some a" and "ai_action_name a' = n"
  shows "get_action_locked (set_action_locked n a' s) m = (if m = n then Some a' else get_action_locked s m)"
  using assms find_update_first_same [of "\<lambda>x. ai_action_name x = n" "ss_actions s" a "\<lambda>_. a'"]
    find_update_first_other [of "\<lambda>x. ai_action_name x = n" "\<lambda>x. ai_action_name x = m" "\<lambda>_. a'" "ss_actions s"]
  by (auto simp: get_action_locked_def set_action_locked_def)

lemma accepted_set_action:
  assumes "get_action_locked s n = Some a" and "ai_action_name a' = n"
  shows "accepted_goals (set_action_locked n a' s) =
    {(m, g). if m = n then has_goal_locked (ai_goals a') g else (m, g) \<in> accepted_goals s}"
  using assms(1) by (auto simp: accepted_goals_def get_set_action [OF assms] split: if_splits)

lemma accepted_same_goals:
  assumes "get_action_locked s n = Some a" and "\<And>g. has_goal_locked (ai_goals a') g = has_goal_locked (ai_goals a) g"
    and "ai_action_name a' = ai_action_name a"
  shows "accepted_goals (set_action_locked n a' s) = accepted_goals s"
  using assms accepted_set_action [OF assms(1), of a'] get_action_name [OF assms(1)]
  by (auto simp: accepted_goals_def)

lemma has_goal_set_context [simp]: "has_goal_locked (set_context g c goals) g' = has_goal_locked goals g'"
  by (simp add: has_goal_locked_def get_goal_set_context)

lemma has_goal_snoc:
  "has_goal_locked (goals @ [\<lparr>gi_goal = g, gi_context = c\<rparr>]) g' \<longleftrightarrow> g' = g \<or> has_goal_locked goals g'"
  by (auto simp: has_goal_locked_def get_goal_snoc split: option.splits)

lemma has_goal_remove:
  "distinct (map gi_goal goals) \<Longrightarrow> has_goal_locked (remove_goal_locked g goals) g' \<longleftrightarrow> g' \<noteq> g \<and> has_goal_locked goals g'"
  by (auto simp: has_goal_locked_def get_goal_remove)

lemma accepted_accept_goal:
  assumes "ServicesServer_accept_goal V n g s w = (r, s', w')"
  shows "accepted_goals s' = (if r then insert (n, g) (accepted_goals s) else accepted_goals s)"
proof (cases "get_action_locked s n")
  case None
  with assms show ?thesis by (auto simp: ServicesServer_accept_goal_def split: if_splits)
next
  case (Some a)
  note name = get_action_name [OF Some]
  have "accepted_goals (set_action_locked n (a\<lparr>ai_endpoint := e, ai_goals := ai_goals a\<rparr>) s) = accepted_goals s" for e
    by (rule accepted_same_goals [OF Some]) simp_all
  moreover have "accepted_goals (set_action_locked n (a\<lparr>ai_endpoint := e, ai_goals := ai_goals a @ [\<lparr>gi_goal = g, gi_context = c\<rparr>]\<rparr>) s)
      = insert (n, g) (accepted_goals s)" for e c
    using Some name by (subst accepted_set_action [OF Some]) (auto simp: has_goal_snoc accepted_goals_def)
  ultimately show ?thesis
    using assms Some by (auto simp: ServicesServer_accept_goal_def Let_def split: if_splits prod.splits bool.splits)
qed

lemma accepted_endpoint_only:
  "get_action_locked s n = Some a \<Longrightarrow> accepted_goals (set_action_locked n (a\<lparr>ai_endpoint := e\<rparr>) s) = accepted_goals s"
  by (rule accepted_same_goals) simp_all

lemma accepted_context_only:
  "get_action_locked s n = Some a \<Longrightarrow>
   accepted_goals (set_action_locked n (a\<lparr>ai_endpoint := e, ai_goals := set_context g c (ai_goals a)\<rparr>) s) = accepted_goals s"
  by (rule accepted_same_goals) simp_all

lemma accepted_goals_only:
  "get_action_locked s n = Some a \<Longrightarrow>
   accepted_goals (set_action_locked n (a\<lparr>ai_goals := set_context g c (ai_goals a)\<rparr>) s) = accepted_goals s"
  by (rule accepted_same_goals) simp_all

lemma accepted_unchanged:
  "ServicesServer_reject_goal V n g s w = (r, s', w') \<Longrightarrow> accepted_goals s' = accepted_goals s"
  "ServicesServer_accept_cancel V n g s w = (r, s', w') \<Longrightarrow> accepted_goals s' = accepted_goals s"
  "ServicesServer_reject_cancel V n g s w = (r, s', w') \<Longrightarrow> accepted_goals s' = accepted_goals s"
  "ServicesServer_send_feedback V n g d s w = (r, s', w') \<Longrightarrow> accepted_goals s' = accepted_goals s"
  "ServicesServer_discard_pending_goal V n g s = (r, s') \<Longrightarrow> accepted_goals s' = accepted_goals s"
  by (auto simp: ServicesServer_reject_goal_def ServicesServer_accept_cancel_def ServicesServer_reject_cancel_def
      ServicesServer_send_feedback_def ServicesServer_discard_pending_goal_def Let_def
      accepted_endpoint_only accepted_context_only accepted_goals_only
      split: if_splits option.splits prod.splits bool.splits)

lemma complete_goal_goals:
  assumes "complete_goal_locked V a x t d loc w = (r, a', w')" and "gi_goal x = g" and "distinct (map gi_goal (ai_goals a))"
  shows "ai_action_name a' = ai_action_name a"
    and "has_goal_locked (ai_goals a') g' \<longleftrightarrow> has_goal_locked (ai_goals a) g' \<and> \<not> (r \<and> g' = g)"
  using assms
  by (auto simp: complete_goal_locked_def Let_def has_goal_remove split: if_splits prod.splits bool.splits CompleteResult.splits)

lemma accepted_complete:
  assumes "complete_common V loc n g t d s w = (r, s', w')" and "services_sync okf view s"
  shows "accepted_goals s' = (if r then accepted_goals s - {(n, g)} else accepted_goals s)"
proof (cases "get_action_locked s n")
  case None
  with assms(1) show ?thesis by (auto simp: complete_common_def split: if_splits)
next
  case (Some a)
  note name = get_action_name [OF Some]
  have d: "distinct (map gi_goal (ai_goals a))"
    using services_sync_get [OF assms(2) Some] by (simp add: action_sync_def goals_match_def)
  show ?thesis
  proof (cases "get_goal_locked (ai_goals a) g")
    case None
    with Some assms(1) show ?thesis by (auto simp: complete_common_def split: if_splits)
  next
    case (Some x)
    obtain r1 a' w1 where c: "complete_goal_locked V a x t d loc w = (r1, a', w1)" by (metis surj_pair)
    note c' = complete_goal_goals [OF c get_goal_id [OF Some] d]
    have "(m, g') \<in> accepted_goals (set_action_locked n a' s) \<longleftrightarrow>
        (m, g') \<in> (if r1 then accepted_goals s - {(n, g)} else accepted_goals s)" for m g'
      unfolding accepted_set_action [OF \<open>get_action_locked s n = Some a\<close> c'(1) [unfolded name]]
      using c'(2) [of g'] \<open>get_action_locked s n = Some a\<close> by (simp add: accepted_goals_def)
    then have "accepted_goals (set_action_locked n a' s) = (if r1 then accepted_goals s - {(n, g)} else accepted_goals s)"
      by (simp only: set_eq_iff split_paired_All) simp
    then show ?thesis
      using assms(1) Some \<open>get_action_locked s n = Some a\<close> c by (auto simp: complete_common_def split: if_splits)
  qed
qed

lemma handle_cancel_goals:
  "handle_cancel_event_locked goals t ev = (out, goals') \<Longrightarrow> has_goal_locked goals' g = has_goal_locked goals g"
  by (auto simp: handle_cancel_event_locked_def Let_def split: option.splits if_splits)

lemma accepted_runtime_field [simp]:
  "accepted_goals (s\<lparr>ss_pending_runtime_events := evs\<rparr>) = accepted_goals s"
  "get_action_locked (s\<lparr>ss_pending_runtime_events := evs\<rparr>) n = get_action_locked s n"
  by (simp_all add: accepted_goals_def get_action_locked_def)

lemma accepted_poll_runtime: "poll_runtime s evs = (r, s') \<Longrightarrow> accepted_goals s' = accepted_goals s"
proof (induction evs arbitrary: s r s')
  case (Cons ev evs)
  show ?case
  proof (cases "get_action_locked s (se_action_name ev)")
    case None
    then show ?thesis using Cons by simp
  next
    case (Some a)
    obtain out goals' where h: "handle_cancel_event_locked (ai_goals a) SE_RUNTIME_CANCEL_REQUEST ev = (out, goals')"
      by (metis surj_pair)
    have "accepted_goals (set_action_locked (se_action_name ev) (a\<lparr>ai_goals := goals'\<rparr>) s) = accepted_goals s"
      by (rule accepted_same_goals [OF Some]) (simp_all add: handle_cancel_goals [OF h])
    then show ?thesis using Cons Some h by (auto split: if_splits)
  qed
qed auto

text \<open>A list of instances with the same names and, name by name, the same Goals.\<close>

lemma accepted_same_list:
  assumes "list_all2 (\<lambda>a b. ai_action_name b = ai_action_name a \<and> (\<forall>g. has_goal_locked (ai_goals b) g = has_goal_locked (ai_goals a) g))
      (ss_actions s) as"
  shows "accepted_goals (s\<lparr>ss_actions := as\<rparr>) = accepted_goals s"
proof -
  have "rel_option (\<lambda>a b. \<forall>g. has_goal_locked (ai_goals b) g = has_goal_locked (ai_goals a) g)
      (List.find (\<lambda>a. ai_action_name a = n) (ss_actions s)) (List.find (\<lambda>a. ai_action_name a = n) as)" for n
    using assms by (induction rule: list_all2_induct) auto
  then have rel: "rel_option (\<lambda>a b. \<forall>g. has_goal_locked (ai_goals b) g = has_goal_locked (ai_goals a) g)
      (get_action_locked s n) (get_action_locked (s\<lparr>ss_actions := as\<rparr>) n)" for n
    by (simp add: get_action_locked_def)
  have "(n, g) \<in> accepted_goals (s\<lparr>ss_actions := as\<rparr>) \<longleftrightarrow> (n, g) \<in> accepted_goals s" for n g
    using rel [of n] by (cases "get_action_locked s n"; cases "get_action_locked (s\<lparr>ss_actions := as\<rparr>) n")
      (auto simp: accepted_goals_def)
  then show ?thesis by (simp only: set_eq_iff split_paired_All) simp
qed

lemma poll_endpoints_goals:
  "poll_endpoints V as w = (r, as', w') \<Longrightarrow>
   list_all2 (\<lambda>a b. ai_action_name b = ai_action_name a \<and> (\<forall>g. has_goal_locked (ai_goals b) g = has_goal_locked (ai_goals a) g)) as as'"
proof (induction as arbitrary: w r as' w')
  case (Cons a as)
  have refl: "list_all2 (\<lambda>a b. ai_action_name b = ai_action_name a \<and> (\<forall>g. has_goal_locked (ai_goals b) g = has_goal_locked (ai_goals a) g)) as as"
    by (rule list_all2_refl) simp
  show ?case
    using Cons refl handle_cancel_goals
    by (auto simp: Let_def split: prod.splits if_splits)
qed simp

lemma accepted_poll:
  assumes "ServicesServer_poll V s w = (r, s', w')"
  shows "accepted_goals s' = accepted_goals s"
proof -
  obtain r1 s1 where p: "poll_runtime s (ss_pending_runtime_events s) = (r1, s1)" by (metis surj_pair)
  obtain r2 as w2 where q: "poll_endpoints V (ss_actions s1) w = (r2, as, w2)" by (metis surj_pair)
  show ?thesis
    using assms p q accepted_poll_runtime [OF p] accepted_same_list [OF poll_endpoints_goals [OF q]]
    by (cases r1) (auto simp: ServicesServer_poll_def)
qed

lemma accepted_lifecycle:
  "accepted_goals (ServicesServer_stop_all_services V s) = accepted_goals s"
  "accepted_goals (ServicesServer_clear_all_instances V s) = {}"
  "accepted_goals (ServicesServer_notify_transport_disconnected s) = accepted_goals s"
proof -
  have find_map: "List.find (\<lambda>a. ai_action_name a = n) (map f as) = map_option f (List.find (\<lambda>a. ai_action_name a = n) as)"
    if "\<And>a. ai_action_name (f a) = ai_action_name a" for f n and as :: "'a ActionInstance list"
    by (induction as) (auto simp: that)
  show "accepted_goals (ServicesServer_stop_all_services V s) = accepted_goals s"
    "accepted_goals (ServicesServer_clear_all_instances V s) = {}"
    by (auto simp: accepted_goals_def get_action_locked_def ServicesServer_stop_all_services_def
        ServicesServer_clear_all_instances_def find_map has_goal_locked_def)
  show "accepted_goals (ServicesServer_notify_transport_disconnected s) = accepted_goals s"
    by (simp add: ServicesServer_notify_transport_disconnected_def)
qed

lemma accepted_new:
  assumes "initialize_services_impl E J config container ov s0 = (True, s1)" and "ss_actions s0 = []"
  shows "accepted_goals s1 = {}"
proof -
  have "initialize_actions E J ref b s0 ds = Some as \<Longrightarrow> list_all (\<lambda>a. ai_goals a = []) as" for ref b ds as
    by (induction ds arbitrary: as) (auto simp: Let_def split: if_splits prod.splits bool.splits)
  then have "list_all (\<lambda>a. ai_goals a = []) (ss_actions s1)"
    using assms by (fastforce simp: initialize_services_impl_def split: if_splits option.splits sum.splits)
  then show ?thesis
    by (auto simp: accepted_goals_def get_action_locked_def list_all_iff has_goal_locked_def dest: find_SomeD)
qed

section \<open>The services provide the contract\<close>

lemma receive_contract:
  assumes "impl_sync s"
  shows "impl_sync (cs_receive (action_connection_services E J config b) n k d s)
    \<and> accepted_goals (cs_receive (action_connection_services E J config b) n k d s) = accepted_goals s"
  using services_exec_sync [of "(s, w)" E "Svc_Recv n k d" for w] assms
  by (auto simp: action_connection_services_def Let_def accepted_endpoint_only split: option.splits)

interpretation connection: connection_contract "action_connection_services E J config b" impl_sync accepted_goals
  for E :: "'w pdu_env" and J :: "'j json_ops" and config b
proof unfold_locales
  fix n p i and s :: "ActionServerEndpointImpl ActionServicesServer"
  assume "cs_new (action_connection_services E J config b) n p i = Some s"
  then show "impl_sync s \<and> accepted_goals s = {}"
    using initialize_services_sync accepted_new
    by (fastforce simp: action_connection_services_def Let_def split: prod.splits bool.splits)
next
  fix s n k d
  assume "impl_sync s"
  then show "impl_sync (cs_receive (action_connection_services E J config b) n k d s)
    \<and> accepted_goals (cs_receive (action_connection_services E J config b) n k d s) = accepted_goals s"
    by (rule receive_contract)
qed (auto simp: action_connection_services_def Let_def accepted_lifecycle impl.lifecycle_sync
    ServicesServer_complete_def ServicesServer_complete_locally_def
    dest: accepted_poll accepted_accept_goal accepted_unchanged accepted_complete impl.poll_sync impl.accept_goal_sync
      impl.reject_goal_sync impl.accept_cancel_sync impl.reject_cancel_sync impl.send_feedback_sync impl.complete_sync
      impl.discard_pending_goal_sync simp del: split_paired_All)

end
