(* ===== verification/Connection_Table.thy ===== *)
theory Connection_Table
  imports Prelude
begin

text \<open>
  Connection numbers, as both multiplexing servers hand them out: a 64-bit counter, and a
  table of slots searched by number. While the counter does not wrap, the numbers in the
  table are distinct and below the counter, and a number that left the table never returns.
\<close>

definition fresh_ids :: "('s \<Rightarrow> uint64) \<Rightarrow> uint64 \<Rightarrow> 's list \<Rightarrow> bool" where
  "fresh_ids cid next slots \<longleftrightarrow> distinct (map cid slots) \<and> (\<forall>s\<in>set slots. cid s < next)"

definition issued_and_gone :: "('s \<Rightarrow> uint64) \<Rightarrow> uint64 \<Rightarrow> 's list \<Rightarrow> uint64 \<Rightarrow> bool" where
  "issued_and_gone cid next slots i \<longleftrightarrow> i < next \<and> i \<notin> cid ` set slots"

lemma fresh_ids_Nil [simp]: "fresh_ids cid next []"
  by (simp add: fresh_ids_def)

lemma next_id_greater: "unat next + 1 < 2 ^ 64 \<Longrightarrow> next < next + (1 :: uint64)"
  by (simp add: word_less_nat_alt unat_word_ariths)

lemma fresh_ids_skip: "fresh_ids cid next slots \<Longrightarrow> next < next' \<Longrightarrow> fresh_ids cid next' slots"
  by (auto simp: fresh_ids_def)

lemma fresh_ids_push:
  "fresh_ids cid next slots \<Longrightarrow> next < next' \<Longrightarrow> cid s = next \<Longrightarrow> fresh_ids cid next' (slots @ [s])"
  by (auto simp: fresh_ids_def)

lemma fresh_ids_filter: "fresh_ids cid next slots \<Longrightarrow> fresh_ids cid next (filter P slots)"
  by (auto simp: fresh_ids_def distinct_map_filter)

lemma fresh_ids_same: "map cid slots' = map cid slots \<Longrightarrow> fresh_ids cid next slots' = fresh_ids cid next slots"
proof -
  assume m: "map cid slots' = map cid slots"
  then have "cid ` set slots' = cid ` set slots" by (metis list.set_map)
  then have "(\<forall>s\<in>set slots'. cid s < next) = (\<forall>s\<in>set slots. cid s < next)" by (metis image_iff)
  with m show ?thesis by (simp add: fresh_ids_def)
qed

lemma gone_same: "map cid slots' = map cid slots \<Longrightarrow> issued_and_gone cid next slots' i = issued_and_gone cid next slots i"
  unfolding issued_and_gone_def by (metis list.set_map)

lemma gone_filter: "issued_and_gone cid next slots i \<Longrightarrow> issued_and_gone cid next (filter P slots) i"
  by (auto simp: issued_and_gone_def)

lemma gone_push:
  "issued_and_gone cid next slots i \<Longrightarrow> next < next' \<Longrightarrow> cid s = next \<Longrightarrow> issued_and_gone cid next' (slots @ [s]) i"
  by (auto simp: issued_and_gone_def)

lemma gone_skip: "issued_and_gone cid next slots i \<Longrightarrow> next < next' \<Longrightarrow> issued_and_gone cid next' slots i"
  by (auto simp: issued_and_gone_def)

lemma gone_not_found: "issued_and_gone cid next slots i \<Longrightarrow> List.find (\<lambda>s. cid s = i) slots = None"
  by (auto simp: issued_and_gone_def find_None_iff)

lemma found_unique:
  assumes "fresh_ids cid next slots" and "List.find (\<lambda>s. cid s = i) slots = Some s"
  shows "s' \<in> set slots \<Longrightarrow> cid s' = i \<Longrightarrow> s' = s"
  using assms find_SomeD [OF assms(2)] by (auto simp: fresh_ids_def distinct_map dest: inj_onD)

text \<open>Writing back a slot found by its number.\<close>

lemma map_update_found:
  assumes "List.find P xs = Some x" and "f y = f x"
  shows "map f (update_first P (\<lambda>_. y) xs) = map f xs"
  using assms by (induction xs) (auto split: if_splits)

text \<open>When only one element can satisfy the condition, the first update is the update of all.\<close>

lemma update_first_unique:
  assumes "distinct (map f xs)" and "\<And>x. P x \<Longrightarrow> f x = k"
  shows "update_first P g xs = map (\<lambda>x. if P x then g x else x) xs"
  using assms(1)
proof (induction xs)
  case (Cons x xs)
  have "map (\<lambda>y. if P y then g y else y) xs = xs" if "P x"
    using Cons.prems assms(2) that by (intro map_idI) (auto simp: image_iff)
  then show ?case using Cons by auto
qed simp

end
