(* ===== verification/Action_Mux_Invariant.thy ===== *)
theory Action_Mux_Invariant
  imports Action_Mux_Contract Connection_Table
begin

text \<open>
  The table of Goal owners of the multiplexing Action server against the services of its
  connections. The lemmas are proved from the contract of the services only.
\<close>

section \<open>Owners\<close>

abbreviation owner_key :: "GoalOwner \<Rightarrow> goal_key" where
  "owner_key ow \<equiv> (go_action_name ow, go_goal_id ow)"

text \<open>The Goals that the table lists as active on a connection.\<close>

definition owned :: "GoalOwner list \<Rightarrow> uint64 \<Rightarrow> goal_key set" where
  "owned owners i = owner_key ` {ow \<in> set owners. go_connection_id ow = i \<and> go_state ow = OWNER_ACTIVE}"

definition owners_ok :: "('e, 's, 'w) ActionConnectionSlot list \<Rightarrow> GoalOwner list \<Rightarrow> bool" where
  "owners_ok slots owners \<longleftrightarrow>
     distinct (map owner_key owners) \<and> (\<forall>ow\<in>set owners. go_connection_id ow \<in> acs_connection_id ` set slots)"

lemma find_owner_Some:
  assumes "distinct (map owner_key owners)"
  shows "find_owner owners n g = Some ow \<longleftrightarrow> ow \<in> set owners \<and> owner_key ow = (n, g)"
proof -
  have "is_owner n g = (\<lambda>x. owner_key x = (n, g))" by (simp add: is_owner_def fun_eq_iff)
  then show ?thesis using find_key_iff [OF assms, of "(n, g)" ow] by (simp add: find_owner_def)
qed

lemma find_owner_None: "find_owner owners n g = None \<longleftrightarrow> (n, g) \<notin> owner_key ` set owners"
  by (auto simp: find_owner_def find_None_iff is_owner_def)

lemma owner_key_unique:
  "\<lbrakk>distinct (map owner_key owners); ow \<in> set owners; ow' \<in> set owners; owner_key ow = owner_key ow'\<rbrakk> \<Longrightarrow> ow = ow'"
  by (auto simp: distinct_map inj_on_def)

lemma owned_snoc_pending:
  "go_state ow = OWNER_PENDING \<Longrightarrow> owned (owners @ [ow]) i = owned owners i"
  by (auto simp: owned_def)

lemma set_remove_owner:
  "distinct (map owner_key owners) \<Longrightarrow> set (remove_owner n g owners) = {ow \<in> set owners. owner_key ow \<noteq> (n, g)}"
  unfolding remove_owner_def by (induction owners) (auto simp: is_owner_def image_iff)

lemma set_activate_owner:
  assumes "distinct (map owner_key owners)"
  shows "set (activate_owner n g owners) =
    (\<lambda>ow. if owner_key ow = (n, g) then ow\<lparr>go_state := OWNER_ACTIVE\<rparr> else ow) ` set owners"
proof -
  have "activate_owner n g owners = map (\<lambda>ow. if is_owner n g ow then ow\<lparr>go_state := OWNER_ACTIVE\<rparr> else ow) owners"
    unfolding activate_owner_def by (rule update_first_unique [OF assms, of _ "(n, g)"]) (simp add: is_owner_def)
  moreover have "is_owner n g = (\<lambda>ow. owner_key ow = (n, g))" by (simp add: is_owner_def fun_eq_iff)
  ultimately show ?thesis by simp
qed

lemma activate_keys: "map owner_key (activate_owner n g owners) = map owner_key owners"
  "map go_connection_id (activate_owner n g owners) = map go_connection_id owners"
  unfolding activate_owner_def by (induction owners) auto

lemma owned_iff:
  "k \<in> owned owners i \<longleftrightarrow> (\<exists>ow\<in>set owners. owner_key ow = k \<and> go_connection_id ow = i \<and> go_state ow = OWNER_ACTIVE)"
  unfolding owned_def by blast

lemma owned_activate:
  assumes "distinct (map owner_key owners)" and "find_owner owners n g = Some ow"
  shows "owned (activate_owner n g owners) i = (if i = go_connection_id ow then insert (n, g) (owned owners i) else owned owners i)"
proof (rule set_eqI)
  fix k
  have ow: "ow \<in> set owners" "owner_key ow = (n, g)" using assms by (simp_all add: find_owner_Some)
  have unique: "o' = ow" if "o' \<in> set owners" "owner_key o' = (n, g)" for o'
    using owner_key_unique [OF assms(1) that(1) ow(1)] that(2) ow(2) by simp
  have "k \<in> owned (activate_owner n g owners) i \<longleftrightarrow>
      (\<exists>o'\<in>set owners. owner_key o' = k \<and> go_connection_id o' = i \<and> (go_state o' = OWNER_ACTIVE \<or> k = (n, g)))"
    unfolding owned_iff set_activate_owner [OF assms(1)] bex_simps by (rule bex_cong) auto
  also have "\<dots> \<longleftrightarrow> k \<in> (if i = go_connection_id ow then insert (n, g) (owned owners i) else owned owners i)"
  proof (cases "k = (n, g)")
    case True
    have "(\<exists>o'\<in>set owners. owner_key o' = k \<and> go_connection_id o' = i \<and> (go_state o' = OWNER_ACTIVE \<or> k = (n, g)))
        \<longleftrightarrow> go_connection_id ow = i"
      using ow unique True by metis
    moreover have "k \<in> owned owners i \<Longrightarrow> go_connection_id ow = i"
      using unique True unfolding owned_iff by metis
    ultimately show ?thesis using True by auto
  next
    case False
    then show ?thesis by (auto simp: owned_iff)
  qed
  finally show "k \<in> owned (activate_owner n g owners) i \<longleftrightarrow>
      k \<in> (if i = go_connection_id ow then insert (n, g) (owned owners i) else owned owners i)" .
qed

lemma owned_remove:
  assumes "distinct (map owner_key owners)" and "find_owner owners n g = Some ow"
  shows "owned (remove_owner n g owners) i = (if i = go_connection_id ow then owned owners i - {(n, g)} else owned owners i)"
proof (rule set_eqI)
  fix k
  have ow: "ow \<in> set owners" "owner_key ow = (n, g)" using assms by (simp_all add: find_owner_Some)
  have unique: "o' = ow" if "o' \<in> set owners" "owner_key o' = (n, g)" for o'
    using owner_key_unique [OF assms(1) that(1) ow(1)] that(2) ow(2) by simp
  have "k \<in> owned (remove_owner n g owners) i \<longleftrightarrow> k \<in> owned owners i \<and> k \<noteq> (n, g)"
    unfolding owned_iff set_remove_owner [OF assms(1)] by auto
  also have "\<dots> \<longleftrightarrow> k \<in> (if i = go_connection_id ow then owned owners i - {(n, g)} else owned owners i)"
  proof -
    have "k \<in> owned owners i \<Longrightarrow> k = (n, g) \<Longrightarrow> go_connection_id ow = i"
      using unique unfolding owned_iff by metis
    then show ?thesis by auto
  qed
  finally show "k \<in> owned (remove_owner n g owners) i \<longleftrightarrow>
      k \<in> (if i = go_connection_id ow then owned owners i - {(n, g)} else owned owners i)" .
qed

lemma remove_owner_keys: "distinct (map owner_key owners) \<Longrightarrow> distinct (map owner_key (remove_owner n g owners))"
  unfolding remove_owner_def by (rule distinct_map_remove_first)

section \<open>The invariant\<close>

definition amx_inv ::
    "('s \<Rightarrow> bool) \<Rightarrow> ('s \<Rightarrow> goal_key set) \<Rightarrow> 'e list \<Rightarrow> ('e, 's, 'w) ActionServicesMuxServer \<Rightarrow> bool" where
  "amx_inv ok active es m \<longleftrightarrow>
     fresh_ids acs_connection_id (amx_next_connection_id m) (amx_slots m)
     \<and> unat (amx_next_connection_id m) \<le> length es + 1
     \<and> mset (map acs_endpoint (amx_slots m)) + mset (amx_closed m) = mset es
     \<and> owners_ok (amx_slots m) (amx_owners m)
     \<and> (\<forall>s\<in>set (amx_slots m). ok (acs_server s) \<and> active (acs_server s) = owned (amx_owners m) (acs_connection_id s))
     \<and> (case amx_mux m of None \<Rightarrow> amx_slots m = [] | Some n \<Rightarrow> connected_slot_count m \<le> unat n)"

text \<open>The static columns of the table of slots.\<close>

definition slot_columns :: "('e, 's, 'w) ActionConnectionSlot list \<Rightarrow> (uint64 \<times> 'e \<times> bool) list" where
  "slot_columns = map (\<lambda>s. (acs_connection_id s, acs_endpoint s, acs_disconnected s))"

lemma slot_columns_eq:
  assumes "slot_columns ss = slot_columns ts"
  shows "map acs_connection_id ss = map acs_connection_id ts" "map acs_endpoint ss = map acs_endpoint ts"
    "length (filter (\<lambda>s. \<not> acs_disconnected s) ss) = length (filter (\<lambda>s. \<not> acs_disconnected s) ts)"
    "acs_connection_id ` set ss = acs_connection_id ` set ts"
proof -
  have "map fst (slot_columns ss) = map fst (slot_columns ts)"
    "map (fst \<circ> snd) (slot_columns ss) = map (fst \<circ> snd) (slot_columns ts)" using assms by simp_all
  then show ids: "map acs_connection_id ss = map acs_connection_id ts" and "map acs_endpoint ss = map acs_endpoint ts"
    by (simp_all add: slot_columns_def comp_def)
  have "length (filter (\<lambda>x. \<not> snd (snd x)) (slot_columns ss)) = length (filter (\<lambda>x. \<not> snd (snd x)) (slot_columns ts))"
    using assms by simp
  then show "length (filter (\<lambda>s. \<not> acs_disconnected s) ss) = length (filter (\<lambda>s. \<not> acs_disconnected s) ts)"
    by (simp add: slot_columns_def filter_map comp_def)
  show "acs_connection_id ` set ss = acs_connection_id ` set ts" using ids by (metis list.set_map)
qed

lemma amx_inv_replace:
  assumes "amx_inv ok active es m" and "slot_columns ss = slot_columns (amx_slots m)"
    and "distinct (map owner_key os)" and "\<forall>ow\<in>set os. go_connection_id ow \<in> acs_connection_id ` set (amx_slots m)"
    and "\<forall>s\<in>set ss. ok (acs_server s) \<and> active (acs_server s) = owned os (acs_connection_id s)"
  shows "amx_inv ok active es (m\<lparr>amx_owners := os, amx_slots := ss\<rparr>)"
proof -
  note c = slot_columns_eq [OF assms(2)]
  have "ss = [] \<longleftrightarrow> amx_slots m = []" using assms(2) by (auto simp: slot_columns_def)
  then show ?thesis
    using assms c fresh_ids_same [OF c(1)]
    by (auto simp: amx_inv_def owners_ok_def connected_slot_count_def split: option.splits)
qed

lemma amx_inv_slots:
  assumes "amx_inv ok active es m"
    and ids: "map acs_connection_id ss = map acs_connection_id (amx_slots m)" and "map acs_endpoint ss = map acs_endpoint (amx_slots m)"
    and "length (filter (\<lambda>s. \<not> acs_disconnected s) ss) \<le> connected_slot_count m"
    and "\<forall>s\<in>set ss. ok (acs_server s) \<and> active (acs_server s) = owned (amx_owners m) (acs_connection_id s)"
  shows "amx_inv ok active es (m\<lparr>amx_slots := ss\<rparr>)"
proof -
  have "ss = [] \<longleftrightarrow> amx_slots m = []" using ids by auto
  moreover have "acs_connection_id ` set ss = acs_connection_id ` set (amx_slots m)" using ids by (metis list.set_map)
  ultimately show ?thesis
    using assms fresh_ids_same [OF ids]
    by (auto simp: amx_inv_def owners_ok_def connected_slot_count_def split: option.splits)
qed

text \<open>One slot rewritten, with the owners following.\<close>

lemma amx_inv_set_slot:
  assumes inv: "amx_inv ok active es m" and f: "amx_find_slot m i = Some slot"
    and slot': "acs_connection_id slot' = acs_connection_id slot" "acs_endpoint slot' = acs_endpoint slot"
      "acs_disconnected slot' = acs_disconnected slot" "ok (acs_server slot')" "active (acs_server slot') = owned os i"
    and os: "distinct (map owner_key os)" "\<forall>ow\<in>set os. go_connection_id ow \<in> acs_connection_id ` set (amx_slots m)"
      "\<And>j. j \<noteq> i \<Longrightarrow> owned os j = owned (amx_owners m) j"
  shows "amx_inv ok active es ((amx_set_slot i slot' m)\<lparr>amx_owners := os\<rparr>)"
proof -
  let ?ss = "update_first (\<lambda>s. acs_connection_id s = i) (\<lambda>_. slot') (amx_slots m)"
  have id: "acs_connection_id slot = i" using f by (auto simp: amx_find_slot_def dest: find_SomeD)
  have cols: "slot_columns ?ss = slot_columns (amx_slots m)"
    unfolding slot_columns_def by (rule map_update_found) (use f slot' in \<open>auto simp: amx_find_slot_def\<close>)
  have "?ss = map (\<lambda>s. if acs_connection_id s = i then slot' else s) (amx_slots m)"
    by (rule update_first_unique [where f = acs_connection_id and k = i]) (use inv in \<open>simp_all add: amx_inv_def fresh_ids_def\<close>)
  then have sub: "s = slot' \<or> s \<in> set (amx_slots m) \<and> acs_connection_id s \<noteq> i" if "s \<in> set ?ss" for s
    using that by (auto split: if_splits)
  have "\<forall>s\<in>set ?ss. ok (acs_server s) \<and> active (acs_server s) = owned os (acs_connection_id s)"
  proof
    fix s assume "s \<in> set ?ss"
    then consider "s = slot'" | "s \<in> set (amx_slots m)" "acs_connection_id s \<noteq> i" using sub by blast
    then show "ok (acs_server s) \<and> active (acs_server s) = owned os (acs_connection_id s)"
      using slot' id inv os(3) by cases (auto simp: amx_inv_def)
  qed
  moreover have "m\<lparr>amx_owners := os, amx_slots := ?ss\<rparr> = (amx_set_slot i slot' m)\<lparr>amx_owners := os\<rparr>"
    by (cases m) (simp add: amx_set_slot_def)
  ultimately show ?thesis using amx_inv_replace [OF inv cols os(1,2)] by simp
qed

end
