(* ===== verification/Action_Mux_Steps.thy ===== *)
theory Action_Mux_Steps
  imports Action_Mux_Invariant
begin

text \<open>Every operation of the multiplexing Action server keeps the invariant of its tables.\<close>

context connection_contract
begin

abbreviation inv :: "'e list \<Rightarrow> ('e, 's, 'w) ActionServicesMuxServer \<Rightarrow> bool" where
  "inv \<equiv> amx_inv ok active"

lemma inv_slot:
  assumes "inv es m" and "amx_find_slot m i = Some slot"
  shows "acs_connection_id slot = i" "ok (acs_server slot)" "active (acs_server slot) = owned (amx_owners m) i"
proof -
  have "slot \<in> set (amx_slots m)" "acs_connection_id slot = i"
    using assms(2) by (auto simp: amx_find_slot_def dest: find_SomeD)
  then show "acs_connection_id slot = i" "ok (acs_server slot)" "active (acs_server slot) = owned (amx_owners m) i"
    using assms(1) by (auto simp: amx_inv_def)
qed

lemma inv_slots:
  assumes "inv es m"
  shows "\<forall>s\<in>set (amx_slots m). ok (acs_server s) \<and> active (acs_server s) = owned (amx_owners m) (acs_connection_id s)"
  using assms unfolding amx_inv_def by blast

lemma inv_owners:
  assumes "inv es m"
  shows "distinct (map owner_key (amx_owners m))"
    and "\<forall>ow\<in>set (amx_owners m). go_connection_id ow \<in> acs_connection_id ` set (amx_slots m)"
  using assms by (auto simp: amx_inv_def owners_ok_def)

text \<open>A step of one connection that leaves the accepted Goals alone.\<close>

lemma inv_server_step:
  assumes "inv es m" and "amx_find_slot m i = Some slot" and "ok s'" and "active s' = active (acs_server slot)"
  shows "inv es (amx_set_slot i (slot\<lparr>acs_server := s', acs_world := w'\<rparr>) m)"
proof -
  have "inv es ((amx_set_slot i (slot\<lparr>acs_server := s', acs_world := w'\<rparr>) m)\<lparr>amx_owners := amx_owners m\<rparr>)"
    by (rule amx_inv_set_slot [OF assms(1,2)]) (use assms inv_slot [OF assms(1,2)] inv_owners [OF assms(1)] in simp_all)
  moreover have "(amx_set_slot i (slot\<lparr>acs_server := s', acs_world := w'\<rparr>) m)\<lparr>amx_owners := amx_owners m\<rparr>
      = amx_set_slot i (slot\<lparr>acs_server := s', acs_world := w'\<rparr>) m"
    by (simp add: amx_set_slot_def)
  ultimately show ?thesis by simp
qed

lemma amx_owners_set_slot [simp]: "amx_owners (amx_set_slot i slot m) = amx_owners m"
  by (simp add: amx_set_slot_def)

lemma inv_step:
  assumes "inv es m" and "amx_find_slot m i = Some slot" and "f (acs_server slot) (acs_world slot) = (r, s', w')"
    and "\<And>s w r s' w'. ok s \<Longrightarrow> f s w = (r, s', w') \<Longrightarrow> ok s' \<and> active s' = active s"
  shows "inv es (amx_set_slot i (slot\<lparr>acs_server := s', acs_world := w'\<rparr>) m)"
  using assms(4) [OF inv_slot(2) [OF assms(1,2)] assms(3)] inv_server_step [OF assms(1,2)] by blast

lemma route_inv:
  assumes "inv es m"
    and "\<And>s w r s' w'. ok s \<Longrightarrow> operation n g s w = (r, s', w') \<Longrightarrow> ok s' \<and> active s' = active s"
  shows "inv es (snd (route_active_goal operation n g m))"
  unfolding route_active_goal_def
  using assms(1) inv_step [OF assms(1), where f = "operation n g", OF _ _ assms(2)]
  by (simp split: option.splits prod.splits)

lemma cancel_inv:
  assumes "inv es m"
  shows "inv es (snd (ActionMux_accept_cancel M n g m))" "inv es (snd (ActionMux_reject_cancel M n g m))"
  unfolding ActionMux_accept_cancel_def ActionMux_reject_cancel_def
  by (rule route_inv [OF assms accept_cancel], assumption+) (rule route_inv [OF assms reject_cancel])

lemma mux_send_feedback_inv:
  assumes "inv es m"
  shows "inv es (snd (ActionMux_send_feedback M n g d m))"
  unfolding ActionMux_send_feedback_def
  using assms inv_step [OF assms, where f = "cs_send_feedback M n g d", OF _ _ send_feedback]
  by (simp split: option.splits prod.splits)

lemma mux_accept_goal_inv:
  assumes "inv es m"
  shows "inv es (snd (ActionMux_accept_goal M n g m))"
proof (cases "\<exists>ow slot. find_owner (amx_owners m) n g = Some ow \<and> amx_find_slot m (go_connection_id ow) = Some slot")
  case False
  then show ?thesis using assms by (auto simp: ActionMux_accept_goal_def split: option.splits)
next
  case True
  then obtain ow slot where ow: "find_owner (amx_owners m) n g = Some ow" and slot: "amx_find_slot m (go_connection_id ow) = Some slot"
    by blast
  obtain r s' w' where op: "cs_accept_goal M n g (acs_server slot) (acs_world slot) = (r, s', w')" by (metis surj_pair)
  note i = inv_slot [OF assms slot] and o = inv_owners [OF assms]
  note law = accept_goal [OF i(2) op]
  have set_conn: "go_connection_id ` set (activate_owner n g (amx_owners m)) = go_connection_id ` set (amx_owners m)"
    using activate_keys(2) [of n g "amx_owners m"] by (metis list.set_map)
  have conn: "\<forall>ow\<in>set (activate_owner n g (amx_owners m)). go_connection_id ow \<in> acs_connection_id ` set (amx_slots m)"
  proof -
    have "go_connection_id ` set (activate_owner n g (amx_owners m)) \<subseteq> acs_connection_id ` set (amx_slots m)"
      unfolding set_conn using o(2) by blast
    then show ?thesis by blast
  qed
  have "inv es ((amx_set_slot (go_connection_id ow) (slot\<lparr>acs_server := s', acs_world := w'\<rparr>) m)
      \<lparr>amx_owners := activate_owner n g (amx_owners m)\<rparr>)" if r
    by (rule amx_inv_set_slot [OF assms slot])
      (use law i that o conn activate_keys(1) [of n g "amx_owners m"] in \<open>simp_all add: owned_activate [OF o(1) ow]\<close>)
  moreover have "inv es (amx_set_slot (go_connection_id ow) (slot\<lparr>acs_server := s', acs_world := w'\<rparr>) m)" if "\<not> r"
    using inv_server_step [OF assms slot] law that by simp
  ultimately show ?thesis using assms ow slot op by (auto simp: ActionMux_accept_goal_def Let_def)
qed

lemma remove_inv:
  assumes "inv es m" and "find_owner (amx_owners m) n g = Some ow" and "amx_find_slot m (go_connection_id ow) = Some slot"
    and "ok s'" and "active s' = active (acs_server slot) - {(n, g)}"
  shows "inv es ((amx_set_slot (go_connection_id ow) (slot\<lparr>acs_server := s', acs_world := w'\<rparr>) m)
      \<lparr>amx_owners := remove_owner n g (amx_owners m)\<rparr>)"
  by (rule amx_inv_set_slot [OF assms(1,3)])
    (use assms inv_slot [OF assms(1,3)] inv_owners [OF assms(1)] in
      \<open>auto simp: owned_remove remove_owner_keys set_remove_owner\<close>)

lemma mux_reject_goal_inv:
  assumes "inv es m"
  shows "inv es (snd (ActionMux_reject_goal M n g m))"
proof (cases "\<exists>ow slot. find_owner (amx_owners m) n g = Some ow \<and> go_state ow = OWNER_PENDING
    \<and> amx_find_slot m (go_connection_id ow) = Some slot")
  case False
  then show ?thesis using assms by (auto simp: ActionMux_reject_goal_def split: option.splits GoalOwnerState.splits)
next
  case True
  then obtain ow slot where ow: "find_owner (amx_owners m) n g = Some ow" "go_state ow = OWNER_PENDING"
    and slot: "amx_find_slot m (go_connection_id ow) = Some slot"
    by blast
  obtain r s' w' where op: "cs_reject_goal M n g (acs_server slot) (acs_world slot) = (r, s', w')" by (metis surj_pair)
  note i = inv_slot [OF assms slot]
  note law = reject_goal [OF i(2) op]
  have o: "ow \<in> set (amx_owners m)" "owner_key ow = (n, g)" using ow(1) inv_owners(1) [OF assms] by (simp_all add: find_owner_Some)
  have "(n, g) \<notin> owned (amx_owners m) (go_connection_id ow)"
    using owner_key_unique [OF inv_owners(1) [OF assms] o(1)] o(2) ow(2) unfolding owned_iff by (metis GoalOwnerState.distinct(1))
  then have "active s' = active (acs_server slot) - {(n, g)}" using law i by simp
  then show ?thesis
    using assms ow slot op law remove_inv [OF assms ow(1) slot] inv_server_step [OF assms slot]
    by (auto simp: ActionMux_reject_goal_def Let_def)
qed

lemma reclaim_inv:
  assumes "inv es m"
  shows "inv es (reclaim_orphaned_slot M i m)"
proof (cases "list_ex (\<lambda>ow. go_connection_id ow = i) (amx_owners m)")
  case True
  then show ?thesis using assms by (simp add: reclaim_orphaned_slot_def)
next
  case False
  then have none: "owned (amx_owners m) i = {}" by (auto simp: owned_def list_ex_iff)
  let ?f = "\<lambda>s. s\<lparr>acs_server := cs_clear_all_instances M (acs_server s), acs_retired := True\<rparr>"
  let ?ss = "update_first (\<lambda>s. acs_connection_id s = i \<and> acs_orphaned s) ?f (amx_slots m)"
  have "slot_columns ?ss = slot_columns (amx_slots m)"
    unfolding slot_columns_def by (rule map_update_first) simp
  moreover have "\<forall>s\<in>set ?ss. ok (acs_server s) \<and> active (acs_server s) = owned (amx_owners m) (acs_connection_id s)"
  proof
    fix s assume "s \<in> set ?ss"
    then consider "s \<in> set (amx_slots m)" | t where "t \<in> set (amx_slots m)" "acs_connection_id t = i" "s = ?f t"
      using set_update_first_subset [of "\<lambda>s. acs_connection_id s = i \<and> acs_orphaned s" ?f "amx_slots m"] by blast
    then show "ok (acs_server s) \<and> active (acs_server s) = owned (amx_owners m) (acs_connection_id s)"
      using assms clear none by cases (auto simp: amx_inv_def)
  qed
  ultimately have "inv es (m\<lparr>amx_owners := amx_owners m, amx_slots := ?ss\<rparr>)"
    using amx_inv_replace [OF assms] inv_owners [OF assms] by blast
  then show ?thesis using False by (simp add: reclaim_orphaned_slot_def)
qed

lemma mux_complete_inv:
  assumes "inv es m"
  shows "inv es (snd (ActionMux_complete M n g t d m))"
proof (cases "\<exists>ow slot. find_active_owner (amx_owners m) n g = Some ow \<and> amx_find_slot m (go_connection_id ow) = Some slot")
  case False
  then show ?thesis using assms by (auto simp: ActionMux_complete_def split: option.splits)
next
  case True
  then obtain ow slot where ow: "find_active_owner (amx_owners m) n g = Some ow" and slot: "amx_find_slot m (go_connection_id ow) = Some slot"
    by blast
  have f: "find_owner (amx_owners m) n g = Some ow"
    using ow by (auto simp: find_active_owner_def split: option.splits if_splits)
  obtain r s' w' where op: "(if acs_disconnected slot then cs_complete_locally M else cs_complete M) n g t d (acs_server slot) (acs_world slot) = (r, s', w')"
    by (metis surj_pair)
  have law: "ok s' \<and> active s' = (if r then active (acs_server slot) - {(n, g)} else active (acs_server slot))"
  proof (cases "acs_disconnected slot")
    case True
    with complete_locally [OF inv_slot(2) [OF assms slot]] op show ?thesis by simp
  next
    case False
    with complete [OF inv_slot(2) [OF assms slot]] op show ?thesis by simp
  qed
  show ?thesis
  proof (cases r)
    case True
    with law have "ok s'" "active s' = active (acs_server slot) - {(n, g)}" by simp_all
    from reclaim_inv [OF remove_inv [OF assms f slot this]] True op ow slot show ?thesis
      by (simp add: ActionMux_complete_def Let_def)
  next
    case False
    with law inv_server_step [OF assms slot] op ow slot show ?thesis by (simp add: ActionMux_complete_def Let_def)
  qed
qed

end

end
