(* ===== verification/Action_Mux_Poll.thy ===== *)
theory Action_Mux_Poll
  imports Action_Mux_Steps
begin

text \<open>
  The connection side of the multiplexing Action server: accepting endpoints, processing
  disconnects and the poll that runs both, against the invariant of its tables.
\<close>

section \<open>Discarding the pending Goals of a connection\<close>

definition survives :: "uint64 \<Rightarrow> GoalOwner \<Rightarrow> bool" where
  "survives i ow \<longleftrightarrow> go_connection_id ow \<noteq> i \<or> go_state ow = OWNER_ACTIVE"

lemma owned_Nil [simp]: "owned [] i = {}"
  by (simp add: owned_def)

lemma owned_Cons [simp]:
  "owned (ow # os) i =
     (if go_connection_id ow = i \<and> go_state ow = OWNER_ACTIVE then insert (owner_key ow) (owned os i) else owned os i)"
  by (auto simp: owned_def)

lemma discard_pending_owners_table:
  "discard_pending_owners M i os s = (a, os', s') \<Longrightarrow>
   os' = filter (survives i) os \<and> (a \<longleftrightarrow> owned os i \<noteq> {})"
proof (induction os arbitrary: s a os')
  case (Cons ow os)
  show ?case
  proof (cases "survives i ow")
    case True
    obtain a1 os1 s1 where r: "discard_pending_owners M i os s = (a1, os1, s1)" by (metis surj_pair)
    with True Cons.prems have "s1 = s'" by (auto simp: survives_def split: if_splits)
    with Cons.IH [of s a1 os1] r True Cons.prems show ?thesis by (auto simp: survives_def split: if_splits)
  next
    case False
    then have f: "go_connection_id ow = i" "go_state ow \<noteq> OWNER_ACTIVE" by (simp_all add: survives_def)
    with Cons.prems
    have "discard_pending_owners M i os (snd (cs_discard_pending_goal M (go_action_name ow) (go_goal_id ow) s)) = (a, os', s')"
      by simp
    from Cons.IH [OF this] f False show ?thesis by simp
  qed
qed simp

lemma owned_filter_survives [simp]: "owned (filter (survives i) os) j = owned os j"
  by (auto simp: owned_def survives_def)

lemma process_disconnected_slot_columns:
  "process_disconnected_slot M os slot = (os', slot') \<Longrightarrow>
   acs_connection_id slot' = acs_connection_id slot \<and> acs_endpoint slot' = acs_endpoint slot
   \<and> acs_disconnected slot' = acs_disconnected slot"
  by (auto simp: process_disconnected_slot_def Let_def split: if_splits prod.splits)

lemma process_disconnected_slot_owners:
  "process_disconnected_slot M os slot = (os', slot') \<Longrightarrow> os' = os \<or> os' = filter (survives (acs_connection_id slot)) os"
  by (auto simp: process_disconnected_slot_def Let_def split: if_splits prod.splits
      dest: discard_pending_owners_table)

lemma process_disconnected_slots_table:
  "process_disconnected_slots M os ss = (os', ss') \<Longrightarrow>
   slot_columns ss' = slot_columns ss \<and> set os' \<subseteq> set os \<and> (\<forall>j. owned os' j = owned os j)
   \<and> (distinct (map owner_key os) \<longrightarrow> distinct (map owner_key os'))"
proof (induction ss arbitrary: os os' ss')
  case (Cons slot ss)
  obtain os1 slot1 where p: "process_disconnected_slot M os slot = (os1, slot1)" by (cases "process_disconnected_slot M os slot")
  obtain os2 ss2 where q: "process_disconnected_slots M os1 ss = (os2, ss2)" by (cases "process_disconnected_slots M os1 ss")
  have "set os1 \<subseteq> set os \<and> (\<forall>j. owned os1 j = owned os j) \<and> (distinct (map owner_key os) \<longrightarrow> distinct (map owner_key os1))"
    using process_disconnected_slot_owners [OF p] by (auto simp: distinct_map_filter)
  with Cons.IH [OF q] process_disconnected_slot_columns [OF p] Cons.prems p q
  show ?case by (auto simp: slot_columns_def)
qed simp

section \<open>The slots\<close>

context connection_contract
begin

abbreviation server_ok :: "GoalOwner list \<Rightarrow> ('e, 's, 'w) ActionConnectionSlot \<Rightarrow> bool" where
  "server_ok os s \<equiv> ok (acs_server s) \<and> active (acs_server s) = owned os (acs_connection_id s)"

lemma discard_pending_owners_server:
  "discard_pending_owners M i os s = (a, os', s') \<Longrightarrow> ok s \<Longrightarrow> ok s' \<and> active s' = active s"
proof (induction os arbitrary: s a os')
  case (Cons ow os)
  obtain r t where d: "cs_discard_pending_goal M (go_action_name ow) (go_goal_id ow) s = (r, t)" by (metis surj_pair)
  from discard [OF Cons.prems(2) d] Cons d show ?case by (fastforce split: if_splits prod.splits)
qed simp

lemma process_disconnected_slot_server:
  assumes "process_disconnected_slot M os slot = (os', slot')" and "server_ok os slot"
  shows "server_ok os slot'"
proof (cases "acs_disconnected slot \<and> \<not> acs_disconnect_processed slot")
  case False
  with assms show ?thesis by (auto simp: process_disconnected_slot_def)
next
  case True
  obtain a os1 s1 where d: "discard_pending_owners M (acs_connection_id slot) os (acs_server slot) = (a, os1, s1)"
    by (metis surj_pair)
  have s1: "ok s1" "active s1 = owned os (acs_connection_id slot)"
    using discard_pending_owners_server [OF d] assms(2) by simp_all
  have a: "a \<longleftrightarrow> owned os (acs_connection_id slot) \<noteq> {}" using discard_pending_owners_table [OF d] by simp
  note st = stop [OF s1(1)]
  note nt = notify [OF conjunct1 [OF st]] and cl = clear [OF conjunct1 [OF st]]
  show ?thesis
  proof (cases a)
    case True
    with \<open>acs_disconnected slot \<and> \<not> acs_disconnect_processed slot\<close> assms(1) d
    have "acs_server slot' = cs_notify_transport_disconnected M (cs_stop_all_services M s1)"
      "acs_connection_id slot' = acs_connection_id slot"
      by (auto simp: process_disconnected_slot_def Let_def)
    then show ?thesis using nt st s1 by simp
  next
    case False
    with \<open>acs_disconnected slot \<and> \<not> acs_disconnect_processed slot\<close> assms(1) d
    have "acs_server slot' = cs_clear_all_instances M (cs_stop_all_services M s1)"
      "acs_connection_id slot' = acs_connection_id slot"
      by (auto simp: process_disconnected_slot_def Let_def)
    then show ?thesis using cl a False by simp
  qed
qed

lemma process_disconnected_slots_server:
  "process_disconnected_slots M os ss = (os', ss') \<Longrightarrow> \<forall>s\<in>set ss. server_ok os s \<Longrightarrow> \<forall>s\<in>set ss'. server_ok os s"
proof (induction ss arbitrary: os os' ss')
  case (Cons slot ss)
  obtain os1 slot1 where p: "process_disconnected_slot M os slot = (os1, slot1)" by (cases "process_disconnected_slot M os slot")
  obtain os2 ss2 where q: "process_disconnected_slots M os1 ss = (os2, ss2)" by (cases "process_disconnected_slots M os1 ss")
  have own: "owned os1 j = owned os j" for j using process_disconnected_slot_owners [OF p] by auto
  have "\<forall>s\<in>set ss2. server_ok os1 s" by (rule Cons.IH [OF q]) (use Cons.prems(2) own in simp)
  with process_disconnected_slot_server [OF p] Cons.prems p q own show ?case by auto
qed simp

lemma process_disconnected_inv:
  assumes "inv es m"
  shows "inv es (process_disconnected M m)"
proof -
  obtain os ss where p: "process_disconnected_slots M (amx_owners m) (amx_slots m) = (os, ss)" by (metis surj_pair)
  note t = process_disconnected_slots_table [OF p]
  have "\<forall>s\<in>set ss. server_ok (amx_owners m) s"
    using process_disconnected_slots_server [OF p] assms by (simp add: amx_inv_def)
  then have "inv es (m\<lparr>amx_owners := os, amx_slots := ss\<rparr>)"
    using t inv_owners [OF assms] by (intro amx_inv_replace [OF assms]) auto
  then show ?thesis using p by (simp add: process_disconnected_def)
qed

section \<open>Polling the connections\<close>

lemma poll_slots_inv:
  assumes "action_poll_slots M os ss = (r, os', ss')" and "\<forall>s\<in>set ss. server_ok os s"
  shows "slot_columns ss' = slot_columns ss \<and> (\<forall>s\<in>set ss'. server_ok os s)
    \<and> (os' = os \<or> (\<exists>ow. os' = os @ [ow] \<and> go_state ow = OWNER_PENDING \<and> owner_key ow \<notin> owner_key ` set os
          \<and> go_connection_id ow \<in> acs_connection_id ` set ss))"
  using assms
proof (induction ss arbitrary: r os' ss')
  case (Cons slot ss)
  obtain r1 os1 ss1 where rest: "action_poll_slots M os ss = (r1, os1, ss1)" by (metis surj_pair)
  from Cons.IH [OF rest] Cons.prems(2)
  have IH: "slot_columns ss1 = slot_columns ss" "\<forall>s\<in>set ss1. server_ok os s"
    "os1 = os \<or> (\<exists>ow. os1 = os @ [ow] \<and> go_state ow = OWNER_PENDING \<and> owner_key ow \<notin> owner_key ` set os
          \<and> go_connection_id ow \<in> acs_connection_id ` set (slot # ss))" by auto
  have slot: "server_ok os slot" using Cons.prems(2) by simp
  obtain ev s1 w1 where p: "cs_poll M (acs_server slot) (acs_world slot) = (ev, s1, w1)" by (metis surj_pair)
  from poll [OF _ p] slot have s1: "ok s1" "active s1 = owned os (acs_connection_id slot)" by simp_all
  consider "acs_retired slot" | "\<not> acs_retired slot" "ev = None"
    | n e where "ev = Some (n, e)" "\<not> acs_retired slot" by (cases ev) auto
  then show ?case
  proof cases
    case 1
    with Cons.prems(1) rest IH slot show ?thesis by (auto simp: slot_columns_def)
  next
    case 2
    with Cons.prems(1) rest p IH s1 show ?thesis by (auto simp: slot_columns_def)
  next
    case ev: 3
    let ?g = "server_goal_id (se_goal e)"
    obtain q s2 w2 where rj: "cs_reject_goal M n ?g s1 w1 = (q, s2, w2)" by (metis surj_pair)
    from reject_goal [OF s1(1) rj] s1 have s2: "ok s2" "active s2 = owned os (acs_connection_id slot)" by simp_all
    consider "se_type e \<noteq> SE_GOAL_REQUEST" | "se_type e = SE_GOAL_REQUEST" "find_owner os n ?g \<noteq> None"
      | "se_type e = SE_GOAL_REQUEST" "find_owner os n ?g = None" by blast
    then show ?thesis
    proof cases
      case 1
      with Cons.prems p ev s1 show ?thesis by (auto simp: slot_columns_def Let_def)
    next
      case 2
      with Cons.prems(1) p ev rj rest IH s2 show ?thesis by (auto simp: slot_columns_def Let_def)
    next
      case 3
      with Cons.prems p ev s1 show ?thesis by (auto simp: slot_columns_def Let_def find_owner_None)
    qed
  qed
qed simp

lemma poll_slots_keeps:
  assumes "inv es m" and "action_poll_slots M (amx_owners m) (amx_slots m) = (r, os, ss)"
  shows "inv es (m\<lparr>amx_owners := os, amx_slots := ss\<rparr>)"
proof -
  have p: "slot_columns ss = slot_columns (amx_slots m)" "\<forall>s\<in>set ss. server_ok (amx_owners m) s"
    "os = amx_owners m \<or> (\<exists>ow. os = amx_owners m @ [ow] \<and> go_state ow = OWNER_PENDING \<and> owner_key ow \<notin> owner_key ` set (amx_owners m)
          \<and> go_connection_id ow \<in> acs_connection_id ` set (amx_slots m))"
    using poll_slots_inv [OF assms(2) inv_slots [OF assms(1)]] by blast+
  note o = inv_owners [OF assms(1)]
  have "distinct (map owner_key os) \<and> (\<forall>ow\<in>set os. go_connection_id ow \<in> acs_connection_id ` set (amx_slots m))
    \<and> (\<forall>j. owned os j = owned (amx_owners m) j)"
  proof (cases "os = amx_owners m")
    case True
    with o show ?thesis by simp
  next
    case False
    with p(3) obtain ow where ow: "os = amx_owners m @ [ow]" "go_state ow = OWNER_PENDING"
      "owner_key ow \<notin> owner_key ` set (amx_owners m)" "go_connection_id ow \<in> acs_connection_id ` set (amx_slots m)" by blast
    then have "distinct (map owner_key os)" using o(1) by (simp add: distinct_append)
    moreover have "\<forall>ow\<in>set os. go_connection_id ow \<in> acs_connection_id ` set (amx_slots m)"
      using o(2) ow(1,4) by (metis Un_iff empty_iff insert_iff list.set(1,2) set_append)
    ultimately show ?thesis using owned_snoc_pending [OF ow(2)] ow(1) by simp
  qed
  then show ?thesis using p(1,2) by (intro amx_inv_replace [OF assms(1)]) simp_all
qed

section \<open>New connections\<close>

lemma accept_connection_inv:
  assumes "inv es m" and "amx_mux m = Some n" and "length es + 2 < 2 ^ 64"
  shows "inv (es @ (case x of None \<Rightarrow> [] | Some (e, w) \<Rightarrow> [e])) (action_accept_connection M n x m)
    \<and> amx_mux (action_accept_connection M n x m) = Some n"
proof -
  have nx: "unat (amx_next_connection_id m) + 1 < 2 ^ 64" using assms(1,3) by (simp add: amx_inv_def)
  have un: "unat (amx_next_connection_id m + 1) = unat (amx_next_connection_id m) + 1"
    using nx by (simp add: unat_word_ariths)
  have "amx_next_connection_id m \<notin> acs_connection_id ` set (amx_slots m)"
    using assms(1) by (auto simp: amx_inv_def fresh_ids_def)
  then have "go_connection_id ow \<noteq> amx_next_connection_id m" if "ow \<in> set (amx_owners m)" for ow
    using inv_owners(2) [OF assms(1)] that by metis
  then have own: "owned (amx_owners m) (amx_next_connection_id m) = {}" by (auto simp: owned_def)
  show ?thesis
    using assms next_id_greater [OF nx] un own new [of "amx_node_id m" "amx_action_config_path m" "amx_impl_type m"]
    by (auto simp: amx_inv_def owners_ok_def action_accept_connection_def connected_slot_count_def Let_def
        intro: fresh_ids_push fresh_ids_skip split: option.splits)
qed

lemma accept_connections_inv:
  assumes "inv es m" and "amx_mux m = Some n" and "length es + length (map fst (List.map_filter id xs)) + 1 < 2 ^ 64"
  shows "inv (es @ map fst (List.map_filter id xs)) (action_accept_new_connections M n xs m)"
  using assms unfolding action_accept_new_connections_def
proof (induction xs arbitrary: es m)
  case (Cons x xs)
  show ?case
  proof (cases x)
    case None
    with Cons show ?thesis by (simp add: action_accept_connection_def map_filter_simps)
  next
    case (Some y)
    obtain e w where y: "y = (e, w)" by (cases y)
    have len: "length es + 2 < 2 ^ 64" using Cons.prems(3) Some by (simp add: map_filter_simps)
    from accept_connection_inv [OF Cons.prems(1,2) len, of x] Some y
    have "inv (es @ [e]) (action_accept_connection M n x m)" "amx_mux (action_accept_connection M n x m) = Some n"
      by simp_all
    from Cons.IH [OF this] Cons.prems(3) Some y show ?thesis by (simp add: map_filter_simps)
  qed
qed (simp add: map_filter_simps)

lemma mux_poll_inv:
  assumes "inv es m" and "amx_mux m = Some n" "amx_started m"
    and "length es + length (map fst (List.map_filter id xs)) + 1 < 2 ^ 64"
  shows "inv (es @ map fst (List.map_filter id xs)) (snd (ActionMux_poll M xs m))"
proof -
  let ?m = "process_disconnected M (action_accept_new_connections M n xs m)"
  have i: "inv (es @ map fst (List.map_filter id xs)) ?m"
    using process_disconnected_inv [OF accept_connections_inv [OF assms(1,2,4)]] .
  obtain r os ss where p: "action_poll_slots M (amx_owners ?m) (amx_slots ?m) = (r, os, ss)" by (metis surj_pair)
  note k = poll_slots_keeps [OF i p]
  show ?thesis
  proof (cases r)
    case None
    with process_disconnected_inv [OF k] assms(2,3) p show ?thesis by (simp add: ActionMux_poll_def Let_def)
  next
    case (Some a)
    with k assms(2,3) p show ?thesis by (simp add: ActionMux_poll_def Let_def)
  qed
qed

section \<open>The remaining operations\<close>

lemma receive_inv: "inv es m \<Longrightarrow> inv es (ActionMux_receive M i n k d m)"
proof (cases "amx_find_slot m i")
  case (Some slot)
  assume inv: "inv es m"
  note s = inv_slot [OF inv Some]
  from inv_server_step [OF inv Some, of "cs_receive M n k d (acs_server slot)" "acs_world slot"] receive [OF s(2)] Some
  show ?thesis by (simp add: ActionMux_receive_def)
qed (simp add: ActionMux_receive_def)

lemma on_disconnected_inv:
  fixes m :: "('e, 's, 'w) ActionServicesMuxServer" and e :: 'e
  assumes "inv es m"
  shows "inv es (ActionMux_on_disconnected e m)"
proof -
  let ?f = "\<lambda>s :: ('e, 's, 'w) ActionConnectionSlot. if acs_endpoint s = e then s\<lparr>acs_disconnected := True\<rparr> else s"
  have count: "length (filter (\<lambda>s. \<not> acs_disconnected s) (map ?f ss)) \<le> length (filter (\<lambda>s. \<not> acs_disconnected s) ss)" for ss
    by (induction ss) auto
  have ids: "map acs_connection_id (map ?f ss) = map acs_connection_id ss" "map acs_endpoint (map ?f ss) = map acs_endpoint ss" for ss
    by (induction ss) auto
  have ok: "\<forall>s\<in>set (map ?f (amx_slots m)). server_ok (amx_owners m) s"
  proof
    fix s assume "s \<in> set (map ?f (amx_slots m))"
    then obtain t where "t \<in> set (amx_slots m)" "s = ?f t" unfolding set_map by (rule imageE)
    with inv_slots [OF assms] show "server_ok (amx_owners m) s" by simp
  qed
  from amx_inv_slots [OF assms ids _ ok] count show ?thesis
    by (simp only: ActionMux_on_disconnected_def connected_slot_count_def)
qed

lemma lifecycle_inv:
  assumes "inv es m"
  shows "inv es (snd (ActionMux_initialize f m))" "inv es (snd (ActionMux_start b m))" "inv es (ActionMux_stop m)"
  using assms
  by (auto simp: amx_inv_def owners_ok_def ActionMux_initialize_def ActionMux_start_def ActionMux_stop_def
      connected_slot_count_def add.commute split: option.splits)

end

end
