(* ===== verification/Action_Mux_Lifecycle.thy ===== *)
theory Action_Mux_Lifecycle
  imports Action_Mux_Poll
begin

text \<open>
  What becomes of a disconnected connection: it is kept while the table of owners still names
  it and retired when it does not. The lemmas hold for any services of the connections.
\<close>

section \<open>The fate of a slot\<close>

abbreviation owning :: "GoalOwner list \<Rightarrow> uint64 set" where
  "owning owners \<equiv> go_connection_id ` set owners"

lemma owning_iff: "i \<in> owning owners \<longleftrightarrow> (\<exists>ow\<in>set owners. go_connection_id ow = i)"
  by auto

definition slot_life :: "GoalOwner list \<Rightarrow> ('e, 's, 'w) ActionConnectionSlot \<Rightarrow> bool" where
  "slot_life owners s \<longleftrightarrow>
     (acs_retired s \<longrightarrow> acs_connection_id s \<notin> owning owners)
     \<and> (acs_disconnect_processed s \<longrightarrow> acs_disconnected s
          \<and> (acs_retired s \<or> acs_orphaned s \<and> acs_connection_id s \<in> owning owners))"

definition slot_flags :: "('e, 's, 'w) ActionConnectionSlot \<Rightarrow> uint64 \<times> bool \<times> bool \<times> bool \<times> bool" where
  "slot_flags s = (acs_connection_id s, acs_disconnected s, acs_orphaned s, acs_disconnect_processed s, acs_retired s)"

definition amx_life :: "('e, 's, 'w) ActionServicesMuxServer \<Rightarrow> bool" where
  "amx_life m \<longleftrightarrow> (\<forall>s\<in>set (amx_slots m). slot_life (amx_owners m) s)"

lemma slot_life_flags: "slot_flags s = slot_flags t \<Longrightarrow> slot_life os s = slot_life os t"
  by (simp add: slot_flags_def slot_life_def)

lemma slot_life_owning: "acs_connection_id s \<in> owning os' \<longleftrightarrow> acs_connection_id s \<in> owning os \<Longrightarrow> slot_life os' s = slot_life os s"
  by (simp add: slot_life_def)

lemma life_flags:
  assumes "map slot_flags ss' = map slot_flags ss"
  shows "(\<forall>s\<in>set ss'. slot_life os s) = (\<forall>s\<in>set ss. slot_life os s)"
  using assms
proof (induction ss arbitrary: ss')
  case (Cons s ss)
  then obtain t ts where "ss' = t # ts" by (cases ss') auto
  with Cons slot_life_flags [of t s] show ?case by auto
qed simp

lemma life_set_slot:
  assumes "amx_life m" and "amx_find_slot m i = Some slot" and "owning os = owning (amx_owners m)"
  shows "amx_life ((amx_set_slot i (slot\<lparr>acs_server := s', acs_world := w'\<rparr>) m)\<lparr>amx_owners := os\<rparr>)"
proof -
  let ?ss = "update_first (\<lambda>s. acs_connection_id s = i) (\<lambda>_. slot\<lparr>acs_server := s', acs_world := w'\<rparr>) (amx_slots m)"
  have "map slot_flags ?ss = map slot_flags (amx_slots m)"
    by (rule map_update_found) (use assms(2) in \<open>simp_all add: amx_find_slot_def slot_flags_def\<close>)
  from life_flags [OF this, of "amx_owners m"] assms show ?thesis
    by (simp add: amx_life_def amx_set_slot_def slot_life_def)
qed

lemma life_server_step:
  "amx_life m \<Longrightarrow> amx_find_slot m i = Some slot \<Longrightarrow> amx_life (amx_set_slot i (slot\<lparr>acs_server := s', acs_world := w'\<rparr>) m)"
  using life_set_slot [of m i slot "amx_owners m"] by (simp add: amx_life_def amx_set_slot_def)

section \<open>Disconnects\<close>

lemma owning_survives: "j \<noteq> i \<Longrightarrow> j \<in> owning (filter (survives i) os) \<longleftrightarrow> j \<in> owning os"
  by (auto simp: survives_def)

lemma owning_survives_same: "i \<in> owning (filter (survives i) os) \<longleftrightarrow> owned os i \<noteq> {}"
  by (auto simp: survives_def owned_def)

lemma process_slot_life:
  assumes "process_disconnected_slot M os slot = (os', slot')" and "slot_life os slot"
  shows "slot_life os' slot' \<and> (acs_disconnected slot' \<longrightarrow> acs_disconnect_processed slot')"
proof (cases "acs_disconnected slot \<and> \<not> acs_disconnect_processed slot")
  case False
  with assms show ?thesis by (auto simp: process_disconnected_slot_def)
next
  case True
  obtain a os1 s1 where d: "discard_pending_owners M (acs_connection_id slot) os (acs_server slot) = (a, os1, s1)"
    by (metis surj_pair)
  have o: "os1 = filter (survives (acs_connection_id slot)) os" "a \<longleftrightarrow> owned os (acs_connection_id slot) \<noteq> {}"
    using discard_pending_owners_table [OF d] by simp_all
  have "acs_connection_id slot \<in> owning os1 \<longleftrightarrow> a" using o owning_survives_same by blast
  moreover have "a \<Longrightarrow> \<not> acs_retired slot"
  proof -
    assume a
    then obtain ow where "ow \<in> set os" "go_connection_id ow = acs_connection_id slot"
      using o(2) unfolding owned_def by blast
    then show "\<not> acs_retired slot" using assms(2) unfolding slot_life_def by (metis imageI)
  qed
  ultimately show ?thesis
    using True assms(1) d by (cases a) (auto simp: process_disconnected_slot_def slot_life_def Let_def)
qed

lemma process_slot_owning:
  assumes "process_disconnected_slot M os slot = (os', slot')" and "i \<noteq> acs_connection_id slot"
  shows "i \<in> owning os' \<longleftrightarrow> i \<in> owning os"
  using process_disconnected_slot_owners [OF assms(1)] owning_survives [OF assms(2), of os] by metis

lemma process_slots_owning:
  "process_disconnected_slots M os ss = (os', ss') \<Longrightarrow> i \<notin> acs_connection_id ` set ss \<Longrightarrow> i \<in> owning os' \<longleftrightarrow> i \<in> owning os"
proof (induction ss arbitrary: os os' ss')
  case (Cons slot ss)
  obtain os1 slot1 where p: "process_disconnected_slot M os slot = (os1, slot1)" by (cases "process_disconnected_slot M os slot")
  obtain os2 ss2 where q: "process_disconnected_slots M os1 ss = (os2, ss2)" by (cases "process_disconnected_slots M os1 ss")
  have "i \<in> owning os1 \<longleftrightarrow> i \<in> owning os"
    by (rule process_slot_owning [OF p]) (use Cons.prems(2) in simp)
  with Cons.IH [OF q] Cons.prems p q show ?case by simp
qed simp

lemma process_slots_life:
  "process_disconnected_slots M os ss = (os', ss') \<Longrightarrow> distinct (map acs_connection_id ss) \<Longrightarrow> \<forall>s\<in>set ss. slot_life os s \<Longrightarrow>
   \<forall>s\<in>set ss'. slot_life os' s \<and> (acs_disconnected s \<longrightarrow> acs_disconnect_processed s)"
proof (induction ss arbitrary: os os' ss')
  case (Cons slot ss)
  obtain os1 slot1 where p: "process_disconnected_slot M os slot = (os1, slot1)" by (cases "process_disconnected_slot M os slot")
  obtain os2 ss2 where q: "process_disconnected_slots M os1 ss = (os2, ss2)" by (cases "process_disconnected_slots M os1 ss")
  have id: "acs_connection_id slot1 = acs_connection_id slot" using process_disconnected_slot_columns [OF p] by simp
  have "slot_life os1 s" if "s \<in> set ss" for s
  proof -
    have "acs_connection_id s \<noteq> acs_connection_id slot" using Cons.prems(2) imageI [OF that, of acs_connection_id] by auto
    then have "acs_connection_id s \<in> owning os1 \<longleftrightarrow> acs_connection_id s \<in> owning os"
      by (rule process_slot_owning [OF p])
    then have "slot_life os1 s = slot_life os s" by (rule slot_life_owning)
    with Cons.prems(3) that show ?thesis by simp
  qed
  with Cons.IH [OF q] Cons.prems(2)
  have rest: "\<forall>s\<in>set ss2. slot_life os2 s \<and> (acs_disconnected s \<longrightarrow> acs_disconnect_processed s)" by simp
  have "acs_connection_id slot1 \<in> owning os2 \<longleftrightarrow> acs_connection_id slot1 \<in> owning os1"
    using process_slots_owning [OF q, of "acs_connection_id slot"] Cons.prems(2) id by simp
  then have "slot_life os2 slot1 = slot_life os1 slot1" by (rule slot_life_owning)
  with rest process_slot_life [OF p] Cons.prems(1,3) p q show ?case by auto
qed simp

lemma process_disconnected_life:
  assumes "amx_life m" and "distinct (map acs_connection_id (amx_slots m))"
  shows "amx_life (process_disconnected M m)"
    and "\<forall>s\<in>set (amx_slots (process_disconnected M m)). acs_disconnected s \<longrightarrow> acs_disconnect_processed s"
proof -
  obtain os ss where p: "process_disconnected_slots M (amx_owners m) (amx_slots m) = (os, ss)" by (metis surj_pair)
  from process_slots_life [OF p assms(2)] assms(1) p
  show "amx_life (process_disconnected M m)"
    "\<forall>s\<in>set (amx_slots (process_disconnected M m)). acs_disconnected s \<longrightarrow> acs_disconnect_processed s"
    by (auto simp: amx_life_def process_disconnected_def)
qed

section \<open>Polling and new connections\<close>

lemma poll_slots_flags:
  "action_poll_slots M os ss = (r, os', ss') \<Longrightarrow>
   map slot_flags ss' = map slot_flags ss
   \<and> (os' = os \<or> (\<exists>ow s. os' = os @ [ow] \<and> s \<in> set ss \<and> acs_connection_id s = go_connection_id ow \<and> \<not> acs_retired s))"
proof (induction ss arbitrary: r os' ss')
  case (Cons slot ss)
  obtain r1 os1 ss1 where rest: "action_poll_slots M os ss = (r1, os1, ss1)" by (metis surj_pair)
  from Cons.IH [OF rest] have IH: "map slot_flags ss1 = map slot_flags ss"
    "os1 = os \<or> (\<exists>ow s. os1 = os @ [ow] \<and> s \<in> set (slot # ss) \<and> acs_connection_id s = go_connection_id ow \<and> \<not> acs_retired s)"
    by auto
  have fl: "slot_flags (slot\<lparr>acs_server := s', acs_world := w'\<rparr>) = slot_flags slot" for s' w'
    by (simp add: slot_flags_def)
  obtain ev s1 w1 where p: "cs_poll M (acs_server slot) (acs_world slot) = (ev, s1, w1)" by (metis surj_pair)
  consider "acs_retired slot" | "\<not> acs_retired slot" "ev = None"
    | n e where "ev = Some (n, e)" "\<not> acs_retired slot" by (cases ev) auto
  then show ?case
  proof cases
    case 3
    obtain q s2 w2 where rj: "cs_reject_goal M n (server_goal_id (se_goal e)) s1 w1 = (q, s2, w2)" by (metis surj_pair)
    consider "se_type e \<noteq> SE_GOAL_REQUEST" | "se_type e = SE_GOAL_REQUEST" "find_owner os n (server_goal_id (se_goal e)) \<noteq> None"
      | "se_type e = SE_GOAL_REQUEST" "find_owner os n (server_goal_id (se_goal e)) = None" by blast
    then show ?thesis
    proof cases
      case 1
      with Cons.prems p 3 fl show ?thesis by (auto simp: Let_def)
    next
      case 2
      then have "os' = os1" "ss' = slot\<lparr>acs_server := s2, acs_world := w2\<rparr> # ss1"
        using Cons.prems p 3 rj rest by (auto simp: Let_def)
      with IH fl show ?thesis by simp
    next
      case c: 3
      then have "os' = os @ [\<lparr>go_action_name = n, go_goal_id = server_goal_id (se_goal e),
            go_connection_id = acs_connection_id slot, go_state = OWNER_PENDING\<rparr>]"
        "ss' = slot\<lparr>acs_server := s1, acs_world := w1\<rparr> # ss"
        using Cons.prems p 3 by (auto simp: Let_def)
      with 3 fl show ?thesis by auto
    qed
  qed (use Cons.prems rest IH p fl in auto)
qed simp

lemma poll_slots_life:
  assumes "amx_life m" and "distinct (map acs_connection_id (amx_slots m))"
    and "action_poll_slots M (amx_owners m) (amx_slots m) = (r, os, ss)"
  shows "amx_life (m\<lparr>amx_owners := os, amx_slots := ss\<rparr>)"
proof -
  note p = poll_slots_flags [OF assms(3)]
  have "slot_life os s" if s: "s \<in> set (amx_slots m)" for s
  proof (cases "os = amx_owners m")
    case True
    with assms(1) s show ?thesis by (simp add: amx_life_def)
  next
    case False
    with p obtain ow t where t: "os = amx_owners m @ [ow]" "t \<in> set (amx_slots m)"
      "acs_connection_id t = go_connection_id ow" "\<not> acs_retired t" by blast
    have "s = t" if "acs_connection_id s = go_connection_id ow"
      using that t(2,3) s assms(2) by (simp add: distinct_map inj_on_def)
    with t assms(1) s show ?thesis by (auto simp: amx_life_def slot_life_def)
  qed
  with life_flags [OF conjunct1 [OF p], of os] show ?thesis by (simp add: amx_life_def)
qed

lemma accept_connection_life: "amx_life m \<Longrightarrow> amx_life (action_accept_connection M n x m)"
  by (auto simp: action_accept_connection_def amx_life_def slot_life_def Let_def split: option.splits)

lemma accept_connections_life: "amx_life m \<Longrightarrow> amx_life (action_accept_new_connections M n xs m)"
  unfolding action_accept_new_connections_def
  by (induction xs arbitrary: m) (simp_all add: accept_connection_life)

lemma on_disconnected_life: "amx_life m \<Longrightarrow> amx_life (ActionMux_on_disconnected e m)"
  by (auto simp: amx_life_def slot_life_def ActionMux_on_disconnected_def)

section \<open>Goal operations\<close>

lemma set_slot_slots:
  assumes "distinct (map acs_connection_id (amx_slots m))"
    and "s \<in> set (amx_slots (amx_set_slot i slot' m))"
  shows "s = slot' \<or> s \<in> set (amx_slots m) \<and> acs_connection_id s \<noteq> i"
proof -
  have "amx_slots (amx_set_slot i slot' m) = map (\<lambda>s. if acs_connection_id s = i then slot' else s) (amx_slots m)"
    using update_first_unique [OF assms(1), of "\<lambda>s. acs_connection_id s = i" i] by (simp add: amx_set_slot_def)
  then show ?thesis using assms(2) by (auto split: if_splits)
qed

lemma life_found:
  "amx_life m \<Longrightarrow> amx_find_slot m i = Some slot \<Longrightarrow> slot_life (amx_owners m) slot \<and> acs_connection_id slot = i"
  by (auto simp: amx_life_def amx_find_slot_def dest: find_SomeD)

lemma simple_steps_life:
  assumes "amx_life m"
  shows "amx_life (snd (route_active_goal f n g m))" "amx_life (snd (ActionMux_send_feedback M n g d m))"
    "amx_life (ActionMux_receive M i n k d m)"
    "amx_life (snd (ActionMux_initialize fo m))" "amx_life (snd (ActionMux_start b m))" "amx_life (ActionMux_stop m)"
proof -
  show "amx_life (snd (route_active_goal f n g m))" "amx_life (snd (ActionMux_send_feedback M n g d m))"
    using assms life_server_step [OF assms]
    by (simp_all add: route_active_goal_def ActionMux_send_feedback_def split: option.splits prod.splits)
  have "amx_life (amx_set_slot i (slot\<lparr>acs_server := s'\<rparr>) m)" if "amx_find_slot m i = Some slot" for slot s'
    using life_server_step [OF assms that, where w' = "acs_world slot" and s' = s'] by simp
  then show "amx_life (ActionMux_receive M i n k d m)"
    using assms by (simp add: ActionMux_receive_def split: option.splits)
  show "amx_life (snd (ActionMux_initialize fo m))" "amx_life (snd (ActionMux_start b m))" "amx_life (ActionMux_stop m)"
    using assms by (auto simp: amx_life_def ActionMux_initialize_def ActionMux_start_def ActionMux_stop_def split: option.splits)
qed

lemma owning_activate [simp]: "owning (activate_owner n g os) = owning os"
  using activate_keys(2) [of n g os] by (metis list.set_map)

lemma accept_goal_life: "amx_life m \<Longrightarrow> amx_life (snd (ActionMux_accept_goal M n g m))"
  using life_set_slot [of m _ _ "activate_owner n g (amx_owners m)"] life_server_step [of m]
  by (simp add: ActionMux_accept_goal_def Let_def split: option.splits prod.splits)

lemma owning_remove:
  assumes "distinct (map owner_key os)" and "find_owner os n g = Some ow" and "j \<noteq> go_connection_id ow"
  shows "j \<in> owning (remove_owner n g os) \<longleftrightarrow> j \<in> owning os"
proof -
  have ow: "ow \<in> set os" "owner_key ow = (n, g)" using assms(1,2) by (simp_all add: find_owner_Some)
  have "o' = ow" if "o' \<in> set os" "owner_key o' = (n, g)" for o'
    using owner_key_unique [OF assms(1) that(1) ow(1)] that(2) ow(2) by simp
  then show ?thesis using assms(3) unfolding set_remove_owner [OF assms(1)] by auto
qed

text \<open>Removing an owner: only the slot of its connection is concerned.\<close>

lemma remove_owner_life:
  assumes "amx_life m" and "distinct (map owner_key (amx_owners m))" and "find_owner (amx_owners m) n g = Some ow"
    and "s \<in> set (amx_slots m)" and "acs_connection_id s \<noteq> go_connection_id ow"
  shows "slot_life (remove_owner n g (amx_owners m)) s"
  using assms owning_remove [OF assms(2,3,5)] slot_life_owning [of s "remove_owner n g (amx_owners m)" "amx_owners m"]
  by (simp add: amx_life_def)

text \<open>The slot of an owner is not retired; the others are not concerned by its removal.\<close>

lemma remove_owner_slots:
  assumes "amx_life m" and "distinct (map acs_connection_id (amx_slots m))" and "distinct (map owner_key (amx_owners m))"
    and "find_owner (amx_owners m) n g = Some ow" and "amx_find_slot m (go_connection_id ow) = Some slot"
    and "s \<in> set (amx_slots (amx_set_slot (go_connection_id ow) (slot\<lparr>acs_server := s', acs_world := w'\<rparr>) m))"
  shows "(acs_connection_id s \<noteq> go_connection_id ow \<longrightarrow> slot_life (remove_owner n g (amx_owners m)) s)
    \<and> (acs_connection_id s = go_connection_id ow \<longrightarrow> \<not> acs_retired s \<and> acs_disconnected s = acs_disconnected slot
        \<and> (acs_disconnect_processed s \<longrightarrow> acs_disconnected s \<and> acs_orphaned s))"
proof -
  note f = life_found [OF assms(1,5)]
  have "ow \<in> set (amx_owners m)" using assms(3,4) by (simp add: find_owner_Some)
  then have "\<not> acs_retired slot" using f by (auto simp: slot_life_def)
  then show ?thesis
    using set_slot_slots [OF assms(2,6)] remove_owner_life [OF assms(1,3,4)] f by (auto simp: slot_life_def)
qed

lemma reject_goal_life:
  assumes "amx_life m" and "distinct (map acs_connection_id (amx_slots m))" and "distinct (map owner_key (amx_owners m))"
  shows "amx_life (snd (ActionMux_reject_goal M n g m))"
proof -
  have "amx_life ((amx_set_slot (go_connection_id ow) (slot\<lparr>acs_server := s', acs_world := w'\<rparr>) m)
      \<lparr>amx_owners := remove_owner n g (amx_owners m)\<rparr>)"
    if a: "find_owner (amx_owners m) n g = Some ow" "amx_find_slot m (go_connection_id ow) = Some slot" "\<not> acs_disconnected slot"
    for ow slot s' w'
  proof -
    have "slot_life (remove_owner n g (amx_owners m)) s"
      if "s \<in> set (amx_slots (amx_set_slot (go_connection_id ow) (slot\<lparr>acs_server := s', acs_world := w'\<rparr>) m))" for s
      using remove_owner_slots [OF assms a(1,2) that] a(3) unfolding slot_life_def by blast
    then show ?thesis by (simp add: amx_life_def)
  qed
  with assms(1) life_server_step [OF assms(1)] show ?thesis
    by (simp add: ActionMux_reject_goal_def Let_def split: option.splits prod.splits)
qed

lemma complete_life:
  assumes "amx_life m" and "distinct (map acs_connection_id (amx_slots m))" and "distinct (map owner_key (amx_owners m))"
  shows "amx_life (snd (ActionMux_complete M n g t d m))"
proof -
  have reclaimed: "amx_life (reclaim_orphaned_slot M (go_connection_id ow)
      ((amx_set_slot (go_connection_id ow) (slot\<lparr>acs_server := s', acs_world := w'\<rparr>) m)
        \<lparr>amx_owners := remove_owner n g (amx_owners m)\<rparr>))" (is "amx_life (reclaim_orphaned_slot M ?i ?m)")
    if a: "find_owner (amx_owners m) n g = Some ow" "amx_find_slot m (go_connection_id ow) = Some slot" for ow slot s' w'
  proof -
    let ?os = "remove_owner n g (amx_owners m)"
    note r = remove_owner_slots [OF assms a, where s' = s' and w' = w']
    have ids: "map acs_connection_id (amx_slots ?m) = map acs_connection_id (amx_slots m)"
      unfolding amx_set_slot_def using a(2) by (simp add: amx_find_slot_def map_update_found [of _ _ slot])
    show ?thesis
    proof (cases "?i \<in> owning ?os")
      case True
      then have "slot_life ?os s" if "s \<in> set (amx_slots ?m)" for s
        using r [of s] that unfolding slot_life_def by auto
      moreover have "reclaim_orphaned_slot M ?i ?m = ?m"
        using True by (auto simp: reclaim_orphaned_slot_def list_ex_iff)
      ultimately show ?thesis by (simp add: amx_life_def)
    next
      case False
      let ?f = "\<lambda>s. s\<lparr>acs_server := cs_clear_all_instances M (acs_server s), acs_retired := True\<rparr>"
      have ss: "amx_slots (reclaim_orphaned_slot M ?i ?m) =
          map (\<lambda>s. if acs_connection_id s = ?i \<and> acs_orphaned s then ?f s else s) (amx_slots ?m)"
        using False assms(2) ids update_first_unique [of acs_connection_id "amx_slots ?m" "\<lambda>s. acs_connection_id s = ?i \<and> acs_orphaned s" ?i ?f]
        by (auto simp: reclaim_orphaned_slot_def list_ex_iff image_iff)
      have "slot_life ?os s" if s: "s \<in> set (amx_slots (reclaim_orphaned_slot M ?i ?m))" for s
      proof -
        from s obtain u where u: "u \<in> set (amx_slots ?m)" "s = (if acs_connection_id u = ?i \<and> acs_orphaned u then ?f u else u)"
          unfolding ss by auto
        then show ?thesis using r [of u] False unfolding slot_life_def by auto
      qed
      moreover have "amx_owners (reclaim_orphaned_slot M ?i ?m) = ?os" by (simp add: reclaim_orphaned_slot_def)
      ultimately show ?thesis by (simp add: amx_life_def)
    qed
  qed
  have "amx_life (snd (ActionMux_complete M n g t d m))"
    if "find_active_owner (amx_owners m) n g = Some ow" "amx_find_slot m (go_connection_id ow) = Some slot" for ow slot
  proof -
    have "find_owner (amx_owners m) n g = Some ow"
      using that(1) by (auto simp: find_active_owner_def split: option.splits if_splits)
    from reclaimed [OF this that(2)] life_server_step [OF assms(1) that(2)] that show ?thesis
      by (simp add: ActionMux_complete_def Let_def split: prod.splits)
  qed
  with assms(1) show ?thesis by (simp add: ActionMux_complete_def split: option.splits)
qed

end
