(* ===== verification/Action_Mux_Properties.thy ===== *)
theory Action_Mux_Properties
  imports Action_Mux_Lifecycle
begin

text \<open>
  The multiplexing Action server over any sequence of its operations, of disconnects and of
  received packets: who owns a Goal, that an accepted Goal cannot be claimed by another
  connection, and that a disconnected connection is not leaked.
\<close>

section \<open>Runs\<close>

datatype ('e, 'w) action_mux_op =
    AmxInitialize "size_t option"
  | AmxStart bool
  | AmxStop
  | AmxPoll "('e \<times> 'w world) option list"
  | AmxAcceptGoal string GoalId
  | AmxRejectGoal string GoalId
  | AmxAcceptCancel string GoalId
  | AmxRejectCancel string GoalId
  | AmxFeedback string GoalId pdu_data
  | AmxComplete string GoalId TerminalStatus pdu_data
  | AmxDisconnected 'e
  | AmxReceive uint64 string nat pdu_data

fun action_mux_step ::
    "('s, 'w) connection_services \<Rightarrow> ('e, 's, 'w) ActionServicesMuxServer \<Rightarrow> ('e, 'w) action_mux_op
     \<Rightarrow> ('e, 's, 'w) ActionServicesMuxServer" where
  "action_mux_step M m (AmxInitialize n) = snd (ActionMux_initialize (\<lambda>_. n) m)"
| "action_mux_step M m (AmxStart b) = snd (ActionMux_start b m)"
| "action_mux_step M m AmxStop = ActionMux_stop m"
| "action_mux_step M m (AmxPoll es) = snd (ActionMux_poll M es m)"
| "action_mux_step M m (AmxAcceptGoal n g) = snd (ActionMux_accept_goal M n g m)"
| "action_mux_step M m (AmxRejectGoal n g) = snd (ActionMux_reject_goal M n g m)"
| "action_mux_step M m (AmxAcceptCancel n g) = snd (ActionMux_accept_cancel M n g m)"
| "action_mux_step M m (AmxRejectCancel n g) = snd (ActionMux_reject_cancel M n g m)"
| "action_mux_step M m (AmxFeedback n g d) = snd (ActionMux_send_feedback M n g d m)"
| "action_mux_step M m (AmxComplete n g t d) = snd (ActionMux_complete M n g t d m)"
| "action_mux_step M m (AmxDisconnected e) = ActionMux_on_disconnected e m"
| "action_mux_step M m (AmxReceive i n k d) = ActionMux_receive M i n k d m"

text \<open>The endpoints a step takes from the multiplexer.\<close>

fun action_mux_taken :: "('e, 's, 'w) ActionServicesMuxServer \<Rightarrow> ('e, 'w) action_mux_op \<Rightarrow> 'e list" where
  "action_mux_taken m (AmxPoll es) =
     (if amx_mux m \<noteq> None \<and> amx_started m then map fst (List.map_filter id es) else [])"
| "action_mux_taken m _ = []"

fun action_mux_run ::
    "('s, 'w) connection_services \<Rightarrow> ('e, 'w) action_mux_op list \<Rightarrow> 'e list \<times> ('e, 's, 'w) ActionServicesMuxServer
     \<Rightarrow> 'e list \<times> ('e, 's, 'w) ActionServicesMuxServer" where
  "action_mux_run M [] (es, m) = (es, m)"
| "action_mux_run M (x # xs) (es, m) = action_mux_run M xs (es @ action_mux_taken m x, action_mux_step M m x)"

lemma action_mux_run_length: "action_mux_run M xs (es, m) = (es', m') \<Longrightarrow> length es \<le> length es'"
  by (induction xs arbitrary: es m) fastforce+

lemma action_mux_run_append:
  "action_mux_run M (xs @ ys) c = action_mux_run M ys (action_mux_run M xs c)"
  by (induction xs arbitrary: c) (auto split: prod.splits)

section \<open>Reported Goal Requests\<close>

lemma poll_slots_goal_request:
  "action_poll_slots M os ss = (Some (n, ev), os', ss') \<Longrightarrow> se_type ev = SE_GOAL_REQUEST \<Longrightarrow>
   (n, server_goal_id (se_goal ev)) \<notin> owner_key ` set os
   \<and> (\<exists>i. os' = os @ [\<lparr>go_action_name = n, go_goal_id = server_goal_id (se_goal ev), go_connection_id = i, go_state = OWNER_PENDING\<rparr>])"
proof (induction ss arbitrary: os' ss')
  case (Cons slot ss)
  obtain r1 os1 ss1 where rest: "action_poll_slots M os ss = (r1, os1, ss1)" by (metis surj_pair)
  obtain e s1 w1 where p: "cs_poll M (acs_server slot) (acs_world slot) = (e, s1, w1)" by (metis surj_pair)
  show ?case
  proof (cases "r1 = Some (n, ev) \<and> os' = os1")
    case True
    with Cons.IH rest Cons.prems(2) show ?thesis by simp
  next
    case False
    obtain n1 ev1 where e: "e = Some (n1, ev1)" "\<not> acs_retired slot"
      using False Cons.prems(1) rest p by (cases e) (auto split: if_splits)
    obtain q s2 w2 where rj: "cs_reject_goal M n1 (server_goal_id (se_goal ev1)) s1 w1 = (q, s2, w2)" by (metis surj_pair)
    have "n1 = n \<and> ev1 = ev \<and> find_owner os n (server_goal_id (se_goal ev)) = None"
      using False Cons.prems p e rest rj by (auto simp: Let_def split: if_splits)
    with Cons.prems p e show ?thesis by (auto simp: Let_def find_owner_None)
  qed
qed simp

section \<open>The invariant over runs\<close>

context connection_contract
begin

abbreviation good :: "'e list \<Rightarrow> ('e, 's, 'w) ActionServicesMuxServer \<Rightarrow> bool" where
  "good es m \<equiv> inv es m \<and> amx_life m"

lemma inv_distinct: "inv es m \<Longrightarrow> distinct (map acs_connection_id (amx_slots m))"
  by (simp add: amx_inv_def fresh_ids_def)

lemma poll_life:
  assumes "good es m" and "amx_mux m = Some n" "amx_started m"
    and "length es + length (map fst (List.map_filter id xs)) + 1 < 2 ^ 64"
    and "ActionMux_poll M xs m = (r, m')"
  shows "amx_life m'"
    and "r = None \<Longrightarrow> \<forall>s\<in>set (amx_slots m'). acs_disconnected s \<longrightarrow> acs_disconnect_processed s"
proof -
  let ?a = "action_accept_new_connections M n xs m"
  let ?m = "process_disconnected M ?a"
  let ?es = "es @ map fst (List.map_filter id xs)"
  have ia: "inv ?es ?a" using accept_connections_inv [OF _ assms(2,4)] assms(1) by simp
  note im = process_disconnected_inv [OF ia]
  have la: "amx_life ?a" using accept_connections_life assms(1) by blast
  note lm = process_disconnected_life(1) [OF la inv_distinct [OF ia], of M]
  obtain q os ss where p: "action_poll_slots M (amx_owners ?m) (amx_slots ?m) = (q, os, ss)" by (metis surj_pair)
  note k = poll_slots_life [OF lm inv_distinct [OF im] p] and ik = inv_distinct [OF poll_slots_keeps [OF im p]]
  from p assms(2,3,5) consider a where "q = Some a" "r = Some a" "m' = ?m\<lparr>amx_owners := os, amx_slots := ss\<rparr>"
    | "q = None" "r = None" "m' = process_disconnected M (?m\<lparr>amx_owners := os, amx_slots := ss\<rparr>)"
    by (cases q) (simp_all add: ActionMux_poll_def Let_def)
  then show "amx_life m'" and "r = None \<Longrightarrow> \<forall>s\<in>set (amx_slots m'). acs_disconnected s \<longrightarrow> acs_disconnect_processed s"
    using k process_disconnected_life [OF k ik] by (cases; simp)+
qed

lemma step_good:
  assumes "good es m" and "length es + length (action_mux_taken m x) + 1 < 2 ^ 64"
  shows "good (es @ action_mux_taken m x) (action_mux_step M m x)"
proof -
  note d = inv_distinct [OF conjunct1 [OF assms(1)]] inv_owners(1) [OF conjunct1 [OF assms(1)]]
  show ?thesis
  proof (cases x)
    case (AmxPoll xs)
    show ?thesis
    proof (cases "\<exists>n. amx_mux m = Some n \<and> amx_started m")
      case False
      then show ?thesis using assms(1) AmxPoll by (auto simp: ActionMux_poll_def split: option.splits)
    next
      case True
      then obtain n where n: "amx_mux m = Some n" "amx_started m" by blast
      obtain r m' where p: "ActionMux_poll M xs m = (r, m')" by (cases "ActionMux_poll M xs m")
      have len: "length es + length (map fst (List.map_filter id xs)) + 1 < 2 ^ 64" using assms(2) AmxPoll n by simp
      from mux_poll_inv [OF conjunct1 [OF assms(1)] n len] poll_life(1) [OF assms(1) n len p] AmxPoll n p
      show ?thesis by simp
    qed
  next
    case (AmxComplete n g t d)
    with mux_complete_inv [OF conjunct1 [OF assms(1)]] complete_life [OF conjunct2 [OF assms(1)] d]
    show ?thesis by simp
  next
    case (AmxRejectGoal n g)
    with mux_reject_goal_inv [OF conjunct1 [OF assms(1)]] reject_goal_life [OF conjunct2 [OF assms(1)] d]
    show ?thesis by simp
  next
    case (AmxAcceptCancel n g)
    with cancel_inv(1) [OF conjunct1 [OF assms(1)]] simple_steps_life(1) [OF conjunct2 [OF assms(1)]] show ?thesis by (simp add: ActionMux_accept_cancel_def)
  next
    case (AmxRejectCancel n g)
    with cancel_inv(2) [OF conjunct1 [OF assms(1)]] simple_steps_life(1) [OF conjunct2 [OF assms(1)]] show ?thesis by (simp add: ActionMux_reject_cancel_def)
  qed (use assms(1) in \<open>simp_all add: mux_accept_goal_inv accept_goal_life mux_send_feedback_inv receive_inv on_disconnected_inv
      on_disconnected_life lifecycle_inv simple_steps_life\<close>)
qed

lemma run_good:
  assumes "good es m" and "action_mux_run M xs (es, m) = (es', m')" and "length es' + 1 < 2 ^ 64"
  shows "good es' m'"
  using assms
proof (induction xs arbitrary: es m)
  case (Cons x xs)
  have "length (es @ action_mux_taken m x) \<le> length es'"
    using action_mux_run_length [of M xs "es @ action_mux_taken m x" "action_mux_step M m x" es' m'] Cons.prems(2) by simp
  then have "good (es @ action_mux_taken m x) (action_mux_step M m x)"
    using step_good [OF Cons.prems(1), of x] Cons.prems(3) by simp
  from Cons.IH [OF this] Cons.prems show ?case by simp
qed simp

lemma new_good: "good [] (new_ActionServicesMuxServer a b c d t)"
  by (simp add: amx_inv_def amx_life_def owners_ok_def connected_slot_count_def new_ActionServicesMuxServer_def)

text \<open>What a poll that reports a Goal Request has done.\<close>

lemma poll_goal_request:
  assumes "good es m" and "length es + length xs + 1 < 2 ^ 64"
    and "ActionMux_poll M xs m = (Some (n, ev), m')" and "se_type ev = SE_GOAL_REQUEST"
  shows "(\<forall>i. owned (amx_owners m') i = owned (amx_owners m) i \<and> (n, server_goal_id (se_goal ev)) \<notin> owned (amx_owners m) i)
    \<and> (\<exists>ow. find_owner (amx_owners m') n (server_goal_id (se_goal ev)) = Some ow \<and> go_state ow = OWNER_PENDING)"
proof -
  let ?g = "server_goal_id (se_goal ev)"
  obtain k where k: "amx_mux m = Some k" "amx_started m"
    using assms(3) by (auto simp: ActionMux_poll_def split: option.splits if_splits)
  let ?a = "action_accept_new_connections M k xs m"
  let ?m = "process_disconnected M ?a"
  have owners: "amx_owners ?a = amx_owners m"
    unfolding action_accept_new_connections_def
    by (induction xs arbitrary: m) (simp_all add: action_accept_connection_def Let_def split: option.splits prod.splits)
  obtain os ss where pd: "process_disconnected_slots M (amx_owners m) (amx_slots ?a) = (os, ss)" by (metis surj_pair)
  have os: "amx_owners ?m = os" using pd owners by (simp add: process_disconnected_def)
  obtain r os' ss' where p: "action_poll_slots M os (amx_slots ?m) = (r, os', ss')" by (metis surj_pair)
  have r: "r = Some (n, ev)" "amx_owners m' = os'"
    using assms(3) k p os by (auto simp: ActionMux_poll_def Let_def split: option.splits)
  from poll_slots_goal_request [OF p [unfolded r] assms(4)]
  obtain i where i: "(n, ?g) \<notin> owner_key ` set os"
    "os' = os @ [\<lparr>go_action_name = n, go_goal_id = ?g, go_connection_id = i, go_state = OWNER_PENDING\<rparr>]" by blast
  have own: "owned os j = owned (amx_owners m) j" for j
    using process_disconnected_slots_table [OF pd] by blast
  have "find_owner os' n ?g = Some \<lparr>go_action_name = n, go_goal_id = ?g, go_connection_id = i, go_state = OWNER_PENDING\<rparr>"
    using i find_owner_None [of os n ?g] by (simp add: find_owner_def find_snoc is_owner_def)
  moreover have "owned os' j = owned (amx_owners m) j" for j
    using i(2) own owned_snoc_pending by simp
  moreover have "(n, ?g) \<notin> owned (amx_owners m) j" for j
    using i(1) own [of j] unfolding owned_def by auto
  ultimately show ?thesis using r(2) by auto
qed

end

section \<open>Properties\<close>

text \<open>
  C4 (invariant): over any run in which fewer than \<open>2 ^ 64 - 1\<close> endpoints are taken from the
  multiplexer, connection numbers are distinct, a Goal has at most one owner, the Goals that
  the services of a connection have accepted and not completed are exactly those the table
  lists as active on that connection, every endpoint taken is in the table or closed exactly
  once, and no more connections are up than expected.
\<close>

theorem action_mux_owners_consistent:
  fixes m :: "('e, ActionServerEndpointImpl ActionServicesServer, 'w) ActionServicesMuxServer"
  assumes "action_mux_run (action_connection_services E J config b) xs
      ([], new_ActionServicesMuxServer node path mux_path impl t) = (es, m)"
    and "length es + 1 < 2 ^ 64"
  shows "distinct (map acs_connection_id (amx_slots m))
    \<and> distinct (map (\<lambda>ow. (go_action_name ow, go_goal_id ow)) (amx_owners m))
    \<and> (\<forall>slot\<in>set (amx_slots m). accepted_goals (acs_server slot) = owned (amx_owners m) (acs_connection_id slot))
    \<and> mset (map acs_endpoint (amx_slots m)) + mset (amx_closed m) = mset es
    \<and> ActionMux_connected_count m \<le> unat (ActionMux_expected_count m)"
proof -
  have "amx_inv impl_sync accepted_goals es m"
    using connection.run_good [OF connection.new_good assms] by blast
  then show ?thesis
    by (auto simp: amx_inv_def fresh_ids_def owners_ok_def connected_slot_count_def ActionMux_connected_count_def
        ActionMux_expected_count_def split: option.splits)
qed

text \<open>
  C15 (safety): a Goal Request that a poll reports is for a Goal that no connection has in
  progress. The request of another client with the identifier of a Goal in progress is never
  reported. After the poll the Goal has a pending owner, and the Goals in progress are owned
  as before.
\<close>

theorem action_mux_goal_not_hijacked:
  fixes m :: "('e, ActionServerEndpointImpl ActionServicesServer, 'w) ActionServicesMuxServer"
  assumes "action_mux_run (action_connection_services E J config b) ops
      ([], new_ActionServicesMuxServer node path mux_path impl t) = (es, m)"
    and "length es + length xs + 1 < 2 ^ 64"
    and "ActionMux_poll (action_connection_services E J config b) xs m = (Some (n, ev), m')"
    and "se_type ev = SE_GOAL_REQUEST"
  shows "(\<forall>slot\<in>set (amx_slots m). (n, server_goal_id (se_goal ev)) \<notin> accepted_goals (acs_server slot))
    \<and> (\<exists>ow. find_owner (amx_owners m') n (server_goal_id (se_goal ev)) = Some ow \<and> go_state ow = OWNER_PENDING)
    \<and> (\<forall>i. owned (amx_owners m') i = owned (amx_owners m) i)"
proof -
  have g: "amx_inv impl_sync accepted_goals es m \<and> amx_life m"
    using connection.run_good [OF connection.new_good assms(1)] assms(2) by simp
  from connection.poll_goal_request [OF g assms(2-4)] connection.inv_slots [OF conjunct1 [OF g]]
  show ?thesis by simp
qed

text \<open>
  C23 (liveness): when a poll finds nothing more to report, every disconnected connection is
  either retired, with no Goal left in its services, or kept because the table still names it
  as the owner of a Goal. No disconnected connection is kept for nothing.
\<close>

theorem action_mux_disconnected_settled:
  fixes m :: "('e, ActionServerEndpointImpl ActionServicesServer, 'w) ActionServicesMuxServer"
  assumes "action_mux_run (action_connection_services E J config b) ops
      ([], new_ActionServicesMuxServer node path mux_path impl t) = (es, m)"
    and "length es + length xs + 1 < 2 ^ 64" and "amx_mux m \<noteq> None" and "amx_started m"
    and "ActionMux_poll (action_connection_services E J config b) xs m = (None, m')"
    and "slot \<in> set (amx_slots m')" and "acs_disconnected slot"
  shows "if acs_retired slot
    then accepted_goals (acs_server slot) = {} \<and> (\<forall>ow\<in>set (amx_owners m'). go_connection_id ow \<noteq> acs_connection_id slot)
    else acs_orphaned slot \<and> (\<exists>ow\<in>set (amx_owners m'). go_connection_id ow = acs_connection_id slot)"
proof -
  have g: "amx_inv impl_sync accepted_goals es m \<and> amx_life m"
    using connection.run_good [OF connection.new_good assms(1)] assms(2) by simp
  obtain k where k: "amx_mux m = Some k" using assms(3) by blast
  have "length (List.map_filter id xs) \<le> length xs" by (induction xs) (auto simp: map_filter_simps split: option.splits)
  then have len: "length es + length (map fst (List.map_filter id xs)) + 1 < 2 ^ 64" using assms(2) by simp
  note life = connection.poll_life [OF g k assms(4) len assms(5)]
  have "amx_inv impl_sync accepted_goals (es @ map fst (List.map_filter id xs)) m'"
    using connection.mux_poll_inv [OF conjunct1 [OF g] k assms(4) len] assms(5) by (metis snd_conv)
  from connection.inv_slots [OF this] assms(6) have "accepted_goals (acs_server slot) = owned (amx_owners m') (acs_connection_id slot)"
    by blast
  moreover have "slot_life (amx_owners m') slot" "acs_disconnect_processed slot"
    using life assms(6,7) by (auto simp: amx_life_def)
  ultimately show ?thesis by (cases "acs_retired slot") (auto simp: slot_life_def owning_iff owned_def simp del: image_iff)
qed

end
