(* ===== verification/Action_Mux_Examples.thy ===== *)
theory Action_Mux_Examples
  imports Action_Mux_Properties
begin

text \<open>
  A run of the multiplexing Action server on the example Action: one connection is accepted,
  sends a Goal that is accepted, and disconnects.
\<close>

abbreviation "example_connection \<equiv>
  action_connection_services example_env value_json_ops (\<lambda>_. Some (Inr example_root)) True"

abbreviation example_mux :: "(nat, ActionServerEndpointImpl ActionServicesServer, bool list) ActionServicesMuxServer" where
  "example_mux \<equiv> new_ActionServicesMuxServer ''s'' ''p'' ''x'' ''ActionServerEndpointImpl'' 1"

definition mux_slot :: "ActionServerEndpointImpl ActionServicesServer \<Rightarrow> bool list world \<Rightarrow> bool
    \<Rightarrow> (nat, ActionServerEndpointImpl ActionServicesServer, bool list) ActionConnectionSlot" where
  "mux_slot s w disconnected = \<lparr>acs_connection_id = 1, acs_endpoint = 7, acs_world = w, acs_server = s, acs_disconnected = disconnected,
     acs_orphaned = False, acs_disconnect_processed = False, acs_retired = False\<rparr>"

definition mux_state :: "GoalOwner list \<Rightarrow> (nat, ActionServerEndpointImpl ActionServicesServer, bool list) ActionConnectionSlot
    \<Rightarrow> (nat, ActionServerEndpointImpl ActionServicesServer, bool list) ActionServicesMuxServer" where
  "mux_state owners slot = example_mux\<lparr>amx_mux := Some 2, amx_started := True, amx_slots := [slot], amx_owners := owners,
     amx_next_connection_id := 2\<rparr>"

lemma example_cs_new: "cs_new example_connection ''s'' p ''ActionServerEndpointImpl'' = Some (example_services example_server [])"
  using example_services_initialize by (simp add: action_connection_services_def Let_def fresh_services_def)

lemma idle_poll:
  "cs_poll example_connection (example_services example_server []) w = (None, example_services example_server [], w)"
  by (simp add: action_connection_services_def Let_def ServicesServer_poll_def services_simps ServerEndpoint_poll_def
      ServerEndpoint_take_def example_server_def new_ActionServerEndpointImpl_def empty_ServerEvent_def)

definition connect_script :: "(nat, bool list) action_mux_op list" where
  "connect_script = [AmxInitialize (Some 2), AmxStart True, AmxPoll [None, Some (7, w_ok)]]"

lemma connect_run:
  "action_mux_run example_connection connect_script ([], example_mux) =
     ([7], mux_state [] (mux_slot (example_services example_server []) w_ok False))"
  by (simp add: connect_script_def ActionMux_initialize_def ActionMux_start_def ActionMux_poll_def new_ActionServicesMuxServer_def
      action_accept_new_connections_def action_accept_connection_def connected_slot_count_def example_cs_new Let_def
      process_disconnected_def process_disconnected_slot_def idle_poll map_filter_simps mux_state_def mux_slot_def)

definition request_script :: "(nat, bool list) action_mux_op list" where
  "request_script = connect_script @ [AmxReceive 1 ''Move'' 0 goal_packet]"

abbreviation "received_services \<equiv>
  fst (services_exec example_env (example_services example_server [], w_ok) (Svc_Recv ''Move'' 0 goal_packet))"

lemma request_run:
  "action_mux_run example_connection request_script ([], example_mux) = ([7], mux_state [] (mux_slot received_services w_ok False))"
  using connect_run
  by (simp add: request_script_def action_mux_run_append ActionMux_receive_def amx_find_slot_def amx_set_slot_def mux_state_def
      mux_slot_def)
    (simp add: action_connection_services_def Let_def services_simps)

definition pending_owner :: GoalOwner where
  "pending_owner = \<lparr>go_action_name = ''Move'', go_goal_id = g0, go_connection_id = 1, go_state = OWNER_PENDING\<rparr>"

lemma example_cs_poll:
  "cs_poll example_connection received_services w_ok =
     (Some (''Move'', goal_event example_server SE_GOAL_REQUEST g0 goal_packet),
      example_services (bound_server (new_binding g0 0)) [], w_ok)"
  using example_services_poll by (simp add: action_connection_services_def Let_def)

lemma request_event:
  "se_type (goal_event example_server SE_GOAL_REQUEST g0 goal_packet) = SE_GOAL_REQUEST"
  "server_goal_id (se_goal (goal_event example_server SE_GOAL_REQUEST g0 goal_packet)) = g0"
  by (simp_all add: goal_event_def)

lemma request_poll:
  "ActionMux_poll example_connection [] (mux_state [] (mux_slot received_services w_ok False)) =
     (Some (''Move'', goal_event example_server SE_GOAL_REQUEST g0 goal_packet),
      mux_state [pending_owner] (mux_slot (example_services (bound_server (new_binding g0 0)) []) w_ok False))"
  using example_cs_poll request_event
  by (simp add: ActionMux_poll_def mux_state_def mux_slot_def action_accept_new_connections_def process_disconnected_def
      process_disconnected_slot_def find_owner_def pending_owner_def Let_def)

definition accept_script :: "(nat, bool list) action_mux_op list" where
  "accept_script = request_script @ [AmxPoll [], AmxAcceptGoal ''Move'' g0]"

lemma accept_run:
  "\<exists>w. action_mux_run example_connection accept_script ([], example_mux) =
     ([7], mux_state [pending_owner\<lparr>go_state := OWNER_ACTIVE\<rparr>]
        (mux_slot (example_services (bound_server accepted_binding) [executing_goal]) w False))"
proof -
  let ?m = "mux_state [pending_owner] (mux_slot (example_services (bound_server (new_binding g0 0)) []) w_ok False)"
  obtain box where "cs_accept_goal example_connection ''Move'' g0 (example_services (bound_server (new_binding g0 0)) []) w_ok =
      (True, example_services (bound_server accepted_binding) [executing_goal], \<lparr>transport = [], outbox = box\<rparr>)"
    using example_services_accept by (auto simp: action_connection_services_def Let_def)
  then have "snd (ActionMux_accept_goal example_connection ''Move'' g0 ?m) =
      mux_state [pending_owner\<lparr>go_state := OWNER_ACTIVE\<rparr>]
        (mux_slot (example_services (bound_server accepted_binding) [executing_goal]) \<lparr>transport = [], outbox = box\<rparr> False)"
    by (simp add: ActionMux_accept_goal_def mux_state_def mux_slot_def find_owner_def is_owner_def pending_owner_def amx_find_slot_def
        amx_set_slot_def activate_owner_def Let_def)
  then show ?thesis
    unfolding accept_script_def action_mux_run_append request_run using request_poll by (auto simp: map_filter_simps)
qed

theorem action_mux_owners_consistent_witness:
  "\<exists>es m. action_mux_run example_connection accept_script ([], example_mux) = (es, m)
     \<and> length (amx_slots m) = 1
     \<and> (\<forall>slot\<in>set (amx_slots m). accepted_goals (acs_server slot) = {(''Move'', g0)})"
proof -
  obtain w where r: "action_mux_run example_connection accept_script ([], example_mux) =
     ([7], mux_state [pending_owner\<lparr>go_state := OWNER_ACTIVE\<rparr>]
        (mux_slot (example_services (bound_server accepted_binding) [executing_goal]) w False))"
    using accept_run by blast
  from action_mux_owners_consistent [OF r] r show ?thesis
    by (simp add: mux_state_def mux_slot_def pending_owner_def)
qed

theorem action_mux_goal_not_hijacked_witness:
  "\<exists>es m m' ev. action_mux_run example_connection request_script ([], example_mux) = (es, m)
     \<and> ActionMux_poll example_connection [] m = (Some (''Move'', ev), m')
     \<and> (\<exists>ow. find_owner (amx_owners m') ''Move'' g0 = Some ow \<and> go_state ow = OWNER_PENDING)"
  using action_mux_goal_not_hijacked [OF request_run _ request_poll] request_event request_run request_poll by simp

definition leave_script :: "(nat, bool list) action_mux_op list" where
  "leave_script = connect_script @ [AmxDisconnected 7]"

lemma leave_run:
  "action_mux_run example_connection leave_script ([], example_mux) =
     ([7], mux_state [] (mux_slot (example_services example_server []) w_ok True))"
  using connect_run by (simp add: leave_script_def action_mux_run_append ActionMux_on_disconnected_def mux_state_def mux_slot_def)

theorem action_mux_disconnected_settled_witness:
  "\<exists>m' slot. ActionMux_poll example_connection [] (mux_state [] (mux_slot (example_services example_server []) w_ok True)) = (None, m')
     \<and> amx_slots m' = [slot] \<and> acs_retired slot \<and> accepted_goals (acs_server slot) = {}"
proof -
  let ?m = "mux_state [] (mux_slot (example_services example_server []) w_ok True)"
  obtain m' slot where p: "ActionMux_poll example_connection [] ?m = (None, m')"
    and s: "amx_slots m' = [slot]" "acs_disconnected slot" "acs_retired slot"
    by (simp add: ActionMux_poll_def mux_state_def mux_slot_def action_accept_new_connections_def process_disconnected_def
        process_disconnected_slot_def Let_def)
  have "amx_mux ?m \<noteq> None" "amx_started ?m" by (simp_all add: mux_state_def)
  from action_mux_disconnected_settled [OF leave_run _ this p _ s(2)] s p show ?thesis by simp
qed

end
