(* ===== verification/Rpc_Types.thy ===== *)
theory Rpc_Types
  imports Prelude "HOL-Library.Char_ord"
begin

text \<open>
  The types of the RPC runtime (\<open>include/hakoniwa/pdu/rpc/rpc_types.hpp\<close> and the endpoint
  headers), the environment its endpoints run in, and the buffers they build.

  The PDU convertors, the PDU definition table and the byte transport belong to other
  repositories and are the fields of the record \<open>rpc_env\<close>. A convertor writes into the object
  it is given, so reading a packet takes the previous header and writing one takes the
  buffer. What a lookup in the definition table returns depends on the definitions that were
  added, in order; the sequence of \<open>add_definition\<close> calls is part of the world.
\<close>

section \<open>Types\<close>

datatype RpcServerEventType = RSE_NONE | RSE_REQUEST_IN | RSE_REQUEST_CANCEL

datatype RpcClientEventType = RCE_NONE | RCE_RESPONSE_IN | RCE_RESPONSE_CANCEL | RCE_RESPONSE_TIMEOUT

definition HAKO_SERVICE_OPERATION_CODE_REQUEST :: byte where "HAKO_SERVICE_OPERATION_CODE_REQUEST = 0"
definition HAKO_SERVICE_OPERATION_CODE_CANCEL :: byte where "HAKO_SERVICE_OPERATION_CODE_CANCEL = 1"
definition HAKO_SERVICE_OPERATION_NUM :: byte where "HAKO_SERVICE_OPERATION_NUM = 2"

definition HAKO_SERVICE_STATUS_DONE :: byte where "HAKO_SERVICE_STATUS_DONE = 3"
definition HAKO_SERVICE_STATUS_ERROR :: byte where "HAKO_SERVICE_STATUS_ERROR = 4"

type_synonym int32 = "32 word"

definition HAKO_SERVICE_RESULT_CODE_OK :: int32 where "HAKO_SERVICE_RESULT_CODE_OK = 0"
definition HAKO_SERVICE_RESULT_CODE_ERROR :: int32 where "HAKO_SERVICE_RESULT_CODE_ERROR = 1"
definition HAKO_SERVICE_RESULT_CODE_CANCELED :: int32 where "HAKO_SERVICE_RESULT_CODE_CANCELED = 2"
definition HAKO_SERVICE_RESULT_CODE_INVALID :: int32 where "HAKO_SERVICE_RESULT_CODE_INVALID = 3"
definition HAKO_SERVICE_RESULT_CODE_BUSY :: int32 where "HAKO_SERVICE_RESULT_CODE_BUSY = 4"
definition HAKO_SERVICE_RESULT_CODE_NUM :: int where "HAKO_SERVICE_RESULT_CODE_NUM = 6"

lemmas rpc_constants = HAKO_SERVICE_OPERATION_CODE_REQUEST_def HAKO_SERVICE_OPERATION_CODE_CANCEL_def
  HAKO_SERVICE_OPERATION_NUM_def HAKO_SERVICE_STATUS_DONE_def HAKO_SERVICE_STATUS_ERROR_def HAKO_SERVICE_RESULT_CODE_OK_def
  HAKO_SERVICE_RESULT_CODE_ERROR_def HAKO_SERVICE_RESULT_CODE_CANCELED_def
  HAKO_SERVICE_RESULT_CODE_INVALID_def HAKO_SERVICE_RESULT_CODE_BUSY_def HAKO_SERVICE_RESULT_CODE_NUM_def

record ServiceRequestHeader =
  rqs_request_id :: uint32
  rqs_service_name :: string
  rqs_client_name :: string
  rqs_opcode :: byte
  rqs_status_poll_interval_msec :: uint32

record ServiceResponseHeader =
  rss_request_id :: uint32
  rss_service_name :: string
  rss_client_name :: string
  rss_status :: byte
  rss_processing_percentage :: byte
  rss_result_code :: int32

record RpcRequest =
  rr_client_name :: string
  rr_header :: ServiceRequestHeader
  rr_pdu :: pdu_data

record RpcResponse =
  rp_header :: ServiceResponseHeader
  rp_pdu :: pdu_data

text \<open>\<open>PduKey\<close>: robot (the service) and PDU name; \<open>PduResolvedKey\<close>: robot and channel.\<close>

type_synonym rpc_key = "string \<times> string"
type_synonym rpc_resolved_key = "string \<times> int"

record PduDef =
  pd_org_name :: string
  pd_name :: string
  pd_channel_id :: int
  pd_pdu_size :: size_t
  pd_method_type :: string

text \<open>\<open>None\<close> is the null pointer of \<open>get_pdu_definition()\<close>.\<close>

type_synonym rpc_defs = "(string \<times> PduDef) list option"

section \<open>The environment\<close>

record 'w rpc_env =
  request_pdu2cpp :: "pdu_data \<Rightarrow> ServiceRequestHeader \<Rightarrow> ServiceRequestHeader"
  request_cpp2pdu :: "ServiceRequestHeader \<Rightarrow> pdu_data \<Rightarrow> pdu_data"
  response_pdu2cpp :: "pdu_data \<Rightarrow> ServiceResponseHeader \<Rightarrow> ServiceResponseHeader"
  response_cpp2pdu :: "ServiceResponseHeader \<Rightarrow> pdu_data \<Rightarrow> pdu_data"
  get_pdu_size :: "rpc_defs \<Rightarrow> rpc_key \<Rightarrow> size_t"
  get_pdu_name :: "rpc_defs \<Rightarrow> rpc_resolved_key \<Rightarrow> string"
  rpc_transmit :: "rpc_key \<Rightarrow> pdu_data \<Rightarrow> 'w \<Rightarrow> bool \<times> 'w"
  rpc_microseconds :: "'w \<Rightarrow> uint64"

text \<open>The world: the transport, the definition table, and (ghost) the packets taken, in order.\<close>

record 'w rpc_world =
  rw_transport :: 'w
  rw_defs :: rpc_defs
  rw_outbox :: "(rpc_key \<times> pdu_data) list"

definition rpc_send :: "'w rpc_env \<Rightarrow> rpc_key \<Rightarrow> pdu_data \<Rightarrow> 'w rpc_world \<Rightarrow> bool \<times> 'w rpc_world" where
  "rpc_send E key bytes w =
     (case rpc_transmit E key bytes (rw_transport w) of
        (True, t) \<Rightarrow> (True, w\<lparr>rw_transport := t, rw_outbox := rw_outbox w @ [(key, bytes)]\<rparr>)
      | (False, t) \<Rightarrow> (False, w\<lparr>rw_transport := t\<rparr>))"

text \<open>\<open>pdu_def->add_definition(service, def)\<close>.\<close>

definition add_definition :: "string \<Rightarrow> PduDef \<Rightarrow> 'w rpc_world \<Rightarrow> 'w rpc_world" where
  "add_definition service d w = w\<lparr>rw_defs := map_option (\<lambda>ds. ds @ [(service, d)]) (rw_defs w)\<rparr>"

lemma rpc_send_outbox:
  "rpc_send E k p w = (r, w') \<Longrightarrow> rw_outbox w' = rw_outbox w @ (if r then [(k, p)] else []) \<and> rw_defs w' = rw_defs w"
  by (auto simp: rpc_send_def split: prod.splits bool.splits)

section \<open>JSON\<close>

text \<open>
  The service configuration is read through these accessors, each as the code calls it:
  \<open>None\<close> is a JSON exception, which the callers catch (\<open>operator[]\<close> on a constant object has
  no defined result for a missing key; the accessor then has none either). \<open>rj_member_list\<close>
  is the range of the loop over \<open>config[key]\<close> of the mutable top-level object, where a missing
  key becomes null and null has no elements.
\<close>

record 'j rpc_json =
  rj_at :: "'j \<Rightarrow> string \<Rightarrow> 'j option"
  rj_contains :: "'j \<Rightarrow> string \<Rightarrow> bool"
  rj_is_array :: "'j \<Rightarrow> bool"
  rj_elements :: "'j \<Rightarrow> 'j list"
  rj_member_list :: "'j \<Rightarrow> string \<Rightarrow> 'j list option"
  rj_string :: "'j \<Rightarrow> string option"
  rj_size :: "'j \<Rightarrow> size_t option"
  rj_channel :: "'j \<Rightarrow> int option"
  rj_value_bool :: "'j \<Rightarrow> string \<Rightarrow> bool \<Rightarrow> bool option"
  rj_value_int :: "'j \<Rightarrow> string \<Rightarrow> int \<Rightarrow> int option"

definition rj_at_string :: "'j rpc_json \<Rightarrow> 'j \<Rightarrow> string \<Rightarrow> string option" where
  "rj_at_string J j k = Option.bind (rj_at J j k) (rj_string J)"

definition rj_at_channel :: "'j rpc_json \<Rightarrow> 'j \<Rightarrow> string \<Rightarrow> int option" where
  "rj_at_channel J j k = Option.bind (rj_at J j k) (rj_channel J)"

text \<open>\<open>service_config["pduSize"][a]["baseSize"] + service_config["pduSize"][b]["heapSize"] + meta\<close>.\<close>

definition rpc_pdu_size :: "'j rpc_json \<Rightarrow> 'j \<Rightarrow> string \<Rightarrow> string \<Rightarrow> int \<Rightarrow> size_t option" where
  "rpc_pdu_size J config a b meta =
     (case Option.bind (rj_at J config ''pduSize'') (\<lambda>s.
             Option.bind (rj_at J s a) (\<lambda>x. Option.bind (rj_at J x ''baseSize'') (rj_size J))) of
        None \<Rightarrow> None
      | Some base \<Rightarrow>
          (case Option.bind (rj_at J config ''pduSize'') (\<lambda>s.
                  Option.bind (rj_at J s b) (\<lambda>x. Option.bind (rj_at J x ''heapSize'') (rj_size J))) of
             None \<Rightarrow> None
           | Some heap \<Rightarrow> Some (base + heap + word_of_int meta)))"

definition rpc_def :: "string \<Rightarrow> string \<Rightarrow> int \<Rightarrow> size_t \<Rightarrow> PduDef" where
  "rpc_def service org_name channel pdu_size =
     \<lparr>pd_org_name = org_name, pd_name = service @ ''_'' @ org_name, pd_channel_id = channel,
      pd_pdu_size = pdu_size, pd_method_type = ''RPC''\<rparr>"

end
