(* ===== verification/Rpc_Client_Endpoint.thy ===== *)
theory Rpc_Client_Endpoint
  imports Rpc_Types
begin

text \<open>
  The RPC client endpoint, \<open>src/rpc_client_endpoint_impl.cpp\<close> and its header: one call at a
  time, numbered; responses are queued by the receive callback, and \<open>poll\<close> takes the first
  one with the number of the current call. All operations hold the object's mutex, except
  \<open>create_request_buffer\<close>, which takes the next number without it.
\<close>

section \<open>Data\<close>

datatype ClientState = CLIENT_STATE_IDLE | CLIENT_STATE_RUNNING | CLIENT_STATE_CANCELLING

record ClientProcessingStatus =
  cps_request_id :: uint32
  cps_state :: ClientState

record PendingResponse =
  ps_pdu_key :: rpc_key
  ps_pdu_data :: pdu_data

record RpcClientEndpointImpl =
  rcl_service_name :: string
  rcl_client_name :: string
  rcl_has_endpoint :: bool
  rcl_client_state :: ClientProcessingStatus
  rcl_pending_responses :: "PendingResponse list"
  rcl_current_timeout_usec :: uint64
  rcl_request_start_time_usec :: uint64
  rcl_current_request_id :: uint64
  rcl_subscriptions :: "rpc_resolved_key list"

definition new_RpcClientEndpointImpl :: "string \<Rightarrow> string \<Rightarrow> bool \<Rightarrow> RpcClientEndpointImpl" where
  "new_RpcClientEndpointImpl service client has_endpoint =
     \<lparr>rcl_service_name = service, rcl_client_name = client, rcl_has_endpoint = has_endpoint,
      rcl_client_state = \<lparr>cps_request_id = 0, cps_state = CLIENT_STATE_IDLE\<rparr>,
      rcl_pending_responses = [], rcl_current_timeout_usec = 0, rcl_request_start_time_usec = 0,
      rcl_current_request_id = 0, rcl_subscriptions = []\<rparr>"

definition set_client_state :: "ClientState \<Rightarrow> RpcClientEndpointImpl \<Rightarrow> RpcClientEndpointImpl" where
  "set_client_state s st = st\<lparr>rcl_client_state := (rcl_client_state st)\<lparr>cps_state := s\<rparr>\<rparr>"

section \<open>Initialisation\<close>

text \<open>The body of the loop for this client's own entry; \<open>None\<close> is a JSON exception.\<close>

definition rpc_subscribe_client ::
    "'j rpc_json \<Rightarrow> 'j \<Rightarrow> int \<Rightarrow> 'j \<Rightarrow> RpcClientEndpointImpl \<Rightarrow> 'w rpc_world
     \<Rightarrow> bool \<times> RpcClientEndpointImpl \<times> 'w rpc_world" where
  "rpc_subscribe_client J config meta c st w =
     (let service = rcl_service_name st; client = rcl_client_name st in
      case rj_at_channel J c ''requestChannelId'' of
        None \<Rightarrow> (False, st, w)
      | Some req_channel \<Rightarrow>
          (case rpc_pdu_size J config ''server'' ''client'' meta of
             None \<Rightarrow> (False, st, w)
           | Some req_size \<Rightarrow>
               let w1 = add_definition service (rpc_def service (client @ ''Req'') req_channel req_size) w
               in case rj_at_channel J c ''responseChannelId'' of
                    None \<Rightarrow> (False, st, w1)
                  | Some res_channel \<Rightarrow>
                      (case rpc_pdu_size J config ''client'' ''server'' meta of
                         None \<Rightarrow> (False, st, w1)
                       | Some res_size \<Rightarrow>
                           (True, st\<lparr>rcl_subscriptions := rcl_subscriptions st @ [(service, res_channel)]\<rparr>,
                            add_definition service (rpc_def service (client @ ''Res'') res_channel res_size) w1))))"

fun rpc_find_client ::
    "'j rpc_json \<Rightarrow> 'j \<Rightarrow> int \<Rightarrow> 'j list \<Rightarrow> RpcClientEndpointImpl \<Rightarrow> 'w rpc_world
     \<Rightarrow> bool \<times> RpcClientEndpointImpl \<times> 'w rpc_world" where
  "rpc_find_client J config meta [] st w = (False, st, w)"
| "rpc_find_client J config meta (c # cs) st w =
     (case rj_at_string J c ''name'' of
        None \<Rightarrow> (False, st, w)
      | Some name \<Rightarrow>
          if name = rcl_client_name st then rpc_subscribe_client J config meta c st w
          else rpc_find_client J config meta cs st w)"

definition RpcClient_initialize ::
    "'j rpc_json \<Rightarrow> 'j \<Rightarrow> int \<Rightarrow> RpcClientEndpointImpl \<Rightarrow> 'w rpc_world
     \<Rightarrow> bool \<times> RpcClientEndpointImpl \<times> 'w rpc_world" where
  "RpcClient_initialize J config meta st w =
     (if \<not> rcl_has_endpoint st then (False, st, w)
      else case rj_at_string J config ''name'' of
        None \<Rightarrow> (False, st, w)
      | Some name \<Rightarrow>
          if name \<noteq> rcl_service_name st then (False, st, w)
          else if rw_defs w = None then (False, st, w)
          else case rj_at J config ''clients'' of
            None \<Rightarrow> (False, st, w)
          | Some cs \<Rightarrow> rpc_find_client J config meta (rj_elements J cs) st w)"

text \<open>The receive callback: only the PDU named after this client is taken.\<close>

definition RpcClient_on_recv ::
    "'w rpc_env \<Rightarrow> rpc_resolved_key \<Rightarrow> pdu_data \<Rightarrow> RpcClientEndpointImpl \<Rightarrow> 'w rpc_world \<Rightarrow> RpcClientEndpointImpl" where
  "RpcClient_on_recv E key data st w =
     (if \<not> rcl_has_endpoint st then st
      else if get_pdu_name E (rw_defs w) key \<noteq> rcl_client_name st @ ''Res'' then st
      else st\<lparr>rcl_pending_responses := rcl_pending_responses st
               @ [\<lparr>ps_pdu_key = (fst key, rcl_client_name st @ ''Res''), ps_pdu_data = data\<rparr>]\<rparr>)"

section \<open>Requests\<close>

text \<open>
  The number of a request is the 64-bit counter, incremented, except for a Cancel, which
  carries the number of the current call; the header member has 32 bits.
\<close>

definition request_service_header :: "RpcClientEndpointImpl \<Rightarrow> byte \<Rightarrow> uint32 \<Rightarrow> ServiceRequestHeader" where
  "request_service_header st opcode i =
     \<lparr>rqs_request_id = i, rqs_service_name = rcl_service_name st, rqs_client_name = rcl_client_name st,
      rqs_opcode = opcode, rqs_status_poll_interval_msec = 0\<rparr>"

definition RpcClient_create_request_buffer ::
    "'w rpc_env \<Rightarrow> byte \<Rightarrow> bool \<Rightarrow> pdu_data \<Rightarrow> RpcClientEndpointImpl \<Rightarrow> 'w rpc_world \<Rightarrow> pdu_data \<times> RpcClientEndpointImpl" where
  "RpcClient_create_request_buffer E opcode is_cancel_request pdu st w =
     (let n = unat (get_pdu_size E (rw_defs w) (rcl_service_name st, rcl_client_name st @ ''Req''));
          st' = (if is_cancel_request then st
                 else st\<lparr>rcl_current_request_id := rcl_current_request_id st + 1\<rparr>);
          request_id = (if is_cancel_request then ucast (cps_request_id (rcl_client_state st))
                        else rcl_current_request_id st')
      in (request_cpp2pdu E (request_service_header st opcode (ucast request_id)) (resize n 0 pdu), st'))"

definition RpcClient_send_request ::
    "'w rpc_env \<Rightarrow> pdu_data \<Rightarrow> RpcClientEndpointImpl \<Rightarrow> 'w rpc_world \<Rightarrow> bool \<times> 'w rpc_world" where
  "RpcClient_send_request E pdu st w = rpc_send E (rcl_service_name st, rcl_client_name st @ ''Req'') pdu w"

definition RpcClient_call ::
    "'w rpc_env \<Rightarrow> pdu_data \<Rightarrow> uint64 \<Rightarrow> RpcClientEndpointImpl \<Rightarrow> 'w rpc_world
     \<Rightarrow> bool \<times> RpcClientEndpointImpl \<times> 'w rpc_world" where
  "RpcClient_call E pdu timeout_usec st w =
     (if cps_state (rcl_client_state st) \<noteq> CLIENT_STATE_IDLE then (False, st, w)
      else let st1 = st\<lparr>rcl_client_state := \<lparr>cps_request_id = ucast (rcl_current_request_id st),
                                            cps_state = CLIENT_STATE_RUNNING\<rparr>,
                       rcl_current_timeout_usec := timeout_usec,
                       rcl_request_start_time_usec := rpc_microseconds E (rw_transport w)\<rparr>
           in case RpcClient_send_request E pdu st1 w of
                (False, w') \<Rightarrow> (False, set_client_state CLIENT_STATE_IDLE st1, w')
              | (True, w') \<Rightarrow> (True, st1, w'))"

definition RpcClient_send_cancel_request ::
    "'w rpc_env \<Rightarrow> RpcClientEndpointImpl \<Rightarrow> 'w rpc_world \<Rightarrow> bool \<times> RpcClientEndpointImpl \<times> 'w rpc_world" where
  "RpcClient_send_cancel_request E st w =
     (if cps_state (rcl_client_state st) \<noteq> CLIENT_STATE_RUNNING then (False, st, w)
      else case RpcClient_create_request_buffer E HAKO_SERVICE_OPERATION_CODE_CANCEL True [] st w of
        (pdu, st1) \<Rightarrow>
          (case RpcClient_send_request E pdu st1 w of
             (True, w') \<Rightarrow> (True, set_client_state CLIENT_STATE_CANCELLING st1, w')
           | (False, w') \<Rightarrow> (False, st1, w')))"

section \<open>Responses\<close>

definition RpcClient_validate_header :: "ServiceResponseHeader \<Rightarrow> RpcClientEndpointImpl \<Rightarrow> bool" where
  "RpcClient_validate_header header st =
     (if rss_service_name header \<noteq> rcl_service_name st then False
      else if rss_client_name header \<noteq> rcl_client_name st then False
      else if rss_request_id header \<noteq> cps_request_id (rcl_client_state st) then False
      else if sint (rss_result_code header) \<ge> HAKO_SERVICE_RESULT_CODE_NUM then False
      else True)"

definition handle_cancel_response :: "RpcClientEndpointImpl \<Rightarrow> RpcClientEventType \<times> RpcClientEndpointImpl" where
  "handle_cancel_response st = (RCE_RESPONSE_CANCEL, set_client_state CLIENT_STATE_IDLE st)"

definition handle_response_in ::
    "ServiceResponseHeader \<Rightarrow> RpcClientEndpointImpl \<Rightarrow> RpcClientEventType \<times> RpcClientEndpointImpl" where
  "handle_response_in header st =
     (if \<not> RpcClient_validate_header header st then (RCE_NONE, set_client_state CLIENT_STATE_IDLE st)
      else if rss_result_code header = HAKO_SERVICE_RESULT_CODE_CANCELED then handle_cancel_response st
      else (RCE_RESPONSE_IN, set_client_state CLIENT_STATE_IDLE st))"

text \<open>
  The loop over the pending responses: the first one with the current number, its decoded
  header, and the rest of the queue. \<open>h\<close> is the uninitialised header the conversion fills.
\<close>

fun take_response ::
    "'w rpc_env \<Rightarrow> ServiceResponseHeader \<Rightarrow> uint32 \<Rightarrow> PendingResponse list
     \<Rightarrow> (RpcResponse \<times> PendingResponse list) option" where
  "take_response E h i [] = None"
| "take_response E h i (p # ps) =
     (let header = response_pdu2cpp E (ps_pdu_data p) h
      in if rss_request_id header = i
         then Some (\<lparr>rp_header = header, rp_pdu = ps_pdu_data p\<rparr>, ps)
         else map_option (\<lambda>(r, rest). (r, p # rest)) (take_response E h i ps))"

definition response_timeout :: "uint64 \<Rightarrow> RpcClientEndpointImpl \<Rightarrow> bool" where
  "response_timeout now st \<longleftrightarrow>
     cps_state (rcl_client_state st) = CLIENT_STATE_RUNNING
     \<and> rcl_current_timeout_usec st > 0
     \<and> now - rcl_request_start_time_usec st > rcl_current_timeout_usec st"

definition RpcClient_poll ::
    "'w rpc_env \<Rightarrow> ServiceResponseHeader \<Rightarrow> RpcResponse \<Rightarrow> RpcClientEndpointImpl \<Rightarrow> 'w rpc_world
     \<Rightarrow> RpcClientEventType \<times> RpcResponse \<times> RpcClientEndpointImpl" where
  "RpcClient_poll E h response st w =
     (if cps_state (rcl_client_state st) = CLIENT_STATE_IDLE then (RCE_NONE, response, st)
      else if response_timeout (rpc_microseconds E (rw_transport w)) st
      then (RCE_RESPONSE_TIMEOUT, response, st)
      else case take_response E h (cps_request_id (rcl_client_state st)) (rcl_pending_responses st) of
        None \<Rightarrow> (RCE_NONE, response, st)
      | Some (r, rest) \<Rightarrow>
          (case handle_response_in (rp_header r) (st\<lparr>rcl_pending_responses := rest\<rparr>) of
             (ev, st') \<Rightarrow> (ev, r, st')))"

definition RpcClient_clear_pending_responses :: "RpcClientEndpointImpl \<Rightarrow> RpcClientEndpointImpl" where
  "RpcClient_clear_pending_responses st = st\<lparr>rcl_pending_responses := []\<rparr>"

end
