(* ===== verification/Rpc_Client_Properties.thy ===== *)
theory Rpc_Client_Properties
  imports Rpc_Client_Endpoint
begin

text \<open>
  The RPC client endpoint: which response a poll delivers, when a call times out, how a
  response that arrives after a timeout is still delivered once a cancel was sent, and that
  the responses of an earlier call are never taken for the current one.
\<close>

section \<open>The response queue\<close>

definition response_id :: "'w rpc_env \<Rightarrow> ServiceResponseHeader \<Rightarrow> PendingResponse \<Rightarrow> uint32" where
  "response_id E h p = rss_request_id (response_pdu2cpp E (ps_pdu_data p) h)"

lemma take_response_hit:
  "\<lbrakk>\<forall>x\<in>set xs. response_id E h x \<noteq> i; response_id E h p = i\<rbrakk>
   \<Longrightarrow> take_response E h i (xs @ p # ys)
     = Some (\<lparr>rp_header = response_pdu2cpp E (ps_pdu_data p) h, rp_pdu = ps_pdu_data p\<rparr>, xs @ ys)"
  by (induction xs) (auto simp: response_id_def Let_def)

lemma take_response_miss: "take_response E h i xs = None \<longleftrightarrow> (\<forall>x\<in>set xs. response_id E h x \<noteq> i)"
  by (induction xs) (auto simp: response_id_def Let_def)

lemma take_response_SomeD:
  assumes "take_response E h i xs = Some (r, rest)"
  shows "rss_request_id (rp_header r) = i"
    and "\<exists>ys p zs. xs = ys @ p # zs \<and> rest = ys @ zs \<and> rp_pdu r = ps_pdu_data p"
proof -
  from assms obtain x where "x \<in> set xs" "response_id E h x = i"
    using take_response_miss [of E h i xs] by fastforce
  then obtain ys p zs where "xs = ys @ p # zs" "response_id E h p = i" "\<forall>x\<in>set ys. response_id E h x \<noteq> i"
    using split_list_first_prop [of xs "\<lambda>x. response_id E h x = i"] by blast
  with assms take_response_hit [of ys E h i p zs]
  show "rss_request_id (rp_header r) = i"
    and "\<exists>ys p zs. xs = ys @ p # zs \<and> rest = ys @ zs \<and> rp_pdu r = ps_pdu_data p"
    by (auto simp: response_id_def)
qed

lemma set_client_state_other [simp]:
  "rcl_pending_responses (set_client_state s st) = rcl_pending_responses st"
  "rcl_client_state (set_client_state s st) = (rcl_client_state st)\<lparr>cps_state := s\<rparr>"
  "rcl_current_request_id (set_client_state s st) = rcl_current_request_id st"
  "rcl_current_timeout_usec (set_client_state s st) = rcl_current_timeout_usec st"
  "rcl_request_start_time_usec (set_client_state s st) = rcl_request_start_time_usec st"
  by (simp_all add: set_client_state_def)

text \<open>The event a response with the current number gives.\<close>

definition response_event :: "RpcClientEndpointImpl \<Rightarrow> ServiceResponseHeader \<Rightarrow> RpcClientEventType" where
  "response_event st rh =
     (if rss_service_name rh \<noteq> rcl_service_name st \<or> rss_client_name rh \<noteq> rcl_client_name st
        \<or> sint (rss_result_code rh) \<ge> HAKO_SERVICE_RESULT_CODE_NUM then RCE_NONE
      else if rss_result_code rh = HAKO_SERVICE_RESULT_CODE_CANCELED then RCE_RESPONSE_CANCEL
      else RCE_RESPONSE_IN)"

lemma handle_response_in_event:
  "rss_request_id rh = cps_request_id (rcl_client_state st)
   \<Longrightarrow> handle_response_in rh st = (response_event st rh, set_client_state CLIENT_STATE_IDLE st)"
  by (auto simp: handle_response_in_def response_event_def RpcClient_validate_header_def handle_cancel_response_def)

lemma response_event_other [simp]:
  "response_event (st\<lparr>rcl_pending_responses := ps\<rparr>) rh = response_event st rh"
  "response_event (set_client_state s st) rh = response_event st rh"
  by (simp_all add: response_event_def set_client_state_def)

lemma client_poll_hit:
  assumes "cps_state (rcl_client_state st) \<noteq> CLIENT_STATE_IDLE"
    and "\<not> response_timeout (rpc_microseconds E (rw_transport w)) st"
    and "rcl_pending_responses st = xs @ p # ys"
    and "\<forall>x\<in>set xs. response_id E h x \<noteq> cps_request_id (rcl_client_state st)"
    and "response_id E h p = cps_request_id (rcl_client_state st)"
    and "rh = response_pdu2cpp E (ps_pdu_data p) h"
  shows "RpcClient_poll E h r st w =
    (response_event st rh, \<lparr>rp_header = rh, rp_pdu = ps_pdu_data p\<rparr>,
     set_client_state CLIENT_STATE_IDLE (st\<lparr>rcl_pending_responses := xs @ ys\<rparr>))"
  using assms take_response_hit [OF assms(4,5), of ys]
  by (simp add: RpcClient_poll_def handle_response_in_event response_id_def)

section \<open>Properties\<close>

text \<open>
  When a call is in progress and has not timed out, a poll takes the first
  queued response with the number of the call, leaves the others in order, ends the call and
  returns RESPONSE_CANCEL or RESPONSE_IN after the result code; a response that names another
  service or client, or an unknown result code, also ends the call but gives no event. When
  no queued response has the number, nothing changes.
\<close>

theorem rpc_client_poll_takes_matching_response:
  assumes "cps_state (rcl_client_state st) \<noteq> CLIENT_STATE_IDLE"
    and "\<not> response_timeout (rpc_microseconds E (rw_transport w)) st"
    and "i = cps_request_id (rcl_client_state st)"
    and "rcl_pending_responses st = xs @ ys" and "\<forall>x\<in>set xs. response_id E h x \<noteq> i"
  shows "case ys of
      [] \<Rightarrow> RpcClient_poll E h r st w = (RCE_NONE, r, st)
    | p # zs \<Rightarrow> response_id E h p = i \<longrightarrow>
        RpcClient_poll E h r st w =
          (response_event st (response_pdu2cpp E (ps_pdu_data p) h),
           \<lparr>rp_header = response_pdu2cpp E (ps_pdu_data p) h, rp_pdu = ps_pdu_data p\<rparr>,
           set_client_state CLIENT_STATE_IDLE (st\<lparr>rcl_pending_responses := xs @ zs\<rparr>))"
proof (cases ys)
  case Nil
  with assms have "take_response E h (cps_request_id (rcl_client_state st)) (rcl_pending_responses st) = None"
    by (simp add: take_response_miss)
  with assms Nil show ?thesis by (simp add: RpcClient_poll_def)
next
  case (Cons p zs)
  with assms client_poll_hit [of st E w xs p zs h] show ?thesis by simp
qed

text \<open>
  C36 (bounds): a poll reports a timeout exactly when a call is running, has a nonzero timeout,
  and the 64-bit difference of the clock and the start of the call exceeds it. As the
  difference is taken modulo \<open>2 ^ 64\<close>, a clock that reads earlier than the start of the call
  counts as almost \<open>2 ^ 64\<close> microseconds. A timeout changes nothing in the endpoint.
\<close>

theorem rpc_client_timeout_iff:
  "(fst (RpcClient_poll E h r st w) = RCE_RESPONSE_TIMEOUT \<longleftrightarrow> RpcClient_poll E h r st w = (RCE_RESPONSE_TIMEOUT, r, st))
   \<and> (RpcClient_poll E h r st w = (RCE_RESPONSE_TIMEOUT, r, st) \<longleftrightarrow>
      cps_state (rcl_client_state st) = CLIENT_STATE_RUNNING
      \<and> 0 < uint (rcl_current_timeout_usec st)
      \<and> uint (rcl_current_timeout_usec st)
          < (uint (rpc_microseconds E (rw_transport w)) - uint (rcl_request_start_time_usec st)) mod 2 ^ 64)"
proof -
  have "response_timeout (rpc_microseconds E (rw_transport w)) st \<longleftrightarrow>
      cps_state (rcl_client_state st) = CLIENT_STATE_RUNNING
      \<and> 0 < uint (rcl_current_timeout_usec st)
      \<and> uint (rcl_current_timeout_usec st)
          < (uint (rpc_microseconds E (rw_transport w)) - uint (rcl_request_start_time_usec st)) mod 2 ^ 64"
    by (simp add: response_timeout_def word_less_def uint_word_ariths)
  moreover have "fst (handle_response_in rh s) \<noteq> RCE_RESPONSE_TIMEOUT" for rh s
    by (simp add: handle_response_in_def handle_cancel_response_def)
  then have "fst (RpcClient_poll E h r st w) = RCE_RESPONSE_TIMEOUT \<longleftrightarrow> response_timeout (rpc_microseconds E (rw_transport w)) st"
    "response_timeout (rpc_microseconds E (rw_transport w)) st \<Longrightarrow> RpcClient_poll E h r st w = (RCE_RESPONSE_TIMEOUT, r, st)"
    by (auto simp: RpcClient_poll_def response_timeout_def split: option.splits prod.splits) (metis fst_conv)+
  ultimately show ?thesis by (metis fst_conv)
qed

text \<open>
  C37 (liveness): a response that arrives after the timeout event is not lost. While the call
  keeps running every poll repeats the timeout; once a cancel request has been sent, the next
  poll delivers the response, and it is RESPONSE_IN when the server answered normally.
\<close>

theorem rpc_client_late_response_delivered_after_cancel:
  assumes "response_timeout now st" and "now \<le> rpc_microseconds E (rw_transport w)"
    and "rcl_request_start_time_usec st \<le> now"
    and "\<forall>x\<in>set (rcl_pending_responses st). response_id E h x \<noteq> cps_request_id (rcl_client_state st)"
    and "RpcClient_on_recv E key data st w = st1" and "rcl_has_endpoint st"
    and "get_pdu_name E (rw_defs w) key = rcl_client_name st @ ''Res''"
    and "rh = response_pdu2cpp E data h" and "rss_request_id rh = cps_request_id (rcl_client_state st)"
    and "RpcClient_send_cancel_request E st1 w = (True, st2, w')"
  shows "RpcClient_poll E h r st1 w = (RCE_RESPONSE_TIMEOUT, r, st1)
    \<and> RpcClient_poll E h r st2 w' =
       (response_event st rh, \<lparr>rp_header = rh, rp_pdu = data\<rparr>,
        set_client_state CLIENT_STATE_IDLE (st2\<lparr>rcl_pending_responses := rcl_pending_responses st\<rparr>))"
proof -
  let ?p = "\<lparr>ps_pdu_key = (fst key, rcl_client_name st @ ''Res''), ps_pdu_data = data\<rparr>"
  have st1: "st1 = st\<lparr>rcl_pending_responses := rcl_pending_responses st @ [?p]\<rparr>"
    using assms(5-7) by (auto simp: RpcClient_on_recv_def)
  then have st2: "st2 = set_client_state CLIENT_STATE_CANCELLING st1"
    using assms(10) by (auto simp: RpcClient_send_cancel_request_def RpcClient_create_request_buffer_def
        split: if_splits prod.splits bool.splits)
  have "now - rcl_request_start_time_usec st \<le> rpc_microseconds E (rw_transport w) - rcl_request_start_time_usec st"
    using assms(2,3) by (simp add: word_le_nat_alt unat_sub)
  with assms(1) st1 have "response_timeout (rpc_microseconds E (rw_transport w)) st1"
    by (auto simp: response_timeout_def)
  then have first: "RpcClient_poll E h r st1 w = (RCE_RESPONSE_TIMEOUT, r, st1)"
    by (simp add: RpcClient_poll_def response_timeout_def)
  have "RpcClient_poll E h r st2 w' =
      (response_event st2 rh, \<lparr>rp_header = rh, rp_pdu = ps_pdu_data ?p\<rparr>,
       set_client_state CLIENT_STATE_IDLE (st2\<lparr>rcl_pending_responses := rcl_pending_responses st @ []\<rparr>))"
    by (rule client_poll_hit) (use assms st1 st2 in \<open>simp_all add: response_timeout_def response_id_def\<close>)
  moreover have "response_event st2 rh = response_event st rh" using st1 st2 by simp
  ultimately show ?thesis using first by simp
qed

section \<open>Numbers of calls\<close>

text \<open>The number of requests created by \<open>n\<close> calls of \<open>create_request_buffer\<close>.\<close>

fun create_requests :: "'w rpc_env \<Rightarrow> byte \<Rightarrow> pdu_data list \<Rightarrow> RpcClientEndpointImpl \<Rightarrow> 'w rpc_world \<Rightarrow> RpcClientEndpointImpl" where
  "create_requests E opcode [] st w = st"
| "create_requests E opcode (p # ps) st w =
     create_requests E opcode ps (snd (RpcClient_create_request_buffer E opcode False p st w)) w"

lemma create_requests_id:
  "rcl_current_request_id (create_requests E opcode ps st w) = rcl_current_request_id st + of_nat (length ps)
   \<and> rcl_pending_responses (create_requests E opcode ps st w) = rcl_pending_responses st
   \<and> rcl_client_state (create_requests E opcode ps st w) = rcl_client_state st"
  by (induction ps arbitrary: st) (simp_all add: RpcClient_create_request_buffer_def Let_def)

lemma ucast_offset_distinct:
  assumes "0 < n" and "n < 2 ^ 32"
  shows "(ucast (k + of_nat n :: uint64) :: uint32) \<noteq> ucast k"
proof
  assume "(ucast (k + of_nat n :: uint64) :: uint32) = ucast k"
  then have "unat (ucast (k + of_nat n :: uint64) :: uint32) = unat (ucast k :: uint32)" by simp
  then have "(unat k + n) mod 2 ^ 64 mod 2 ^ 32 = unat k mod 2 ^ 32"
    by (simp add: unsigned_ucast_eq take_bit_eq_mod unat_word_ariths unat_of_nat mod_add_right_eq)
  then have "(unat k + n) mod 2 ^ 32 = unat k mod 2 ^ 32" by (simp add: mod_mod_cancel)
  then have "2 ^ 32 dvd n" using mod_eq_dvd_iff_nat [of "unat k" "unat k + n" "2 ^ 32"] by simp
  with assms show False by (simp add: nat_dvd_not_less)
qed

text \<open>
  C29 (safety): a call made after fewer than \<open>2 ^ 32\<close> further requests were created has
  another number than the call before, so a response to the earlier call is never delivered
  as the response of the later one, whatever else is in the queue.
\<close>

theorem rpc_client_stale_response_not_delivered:
  assumes "0 < length ps" and "length ps < 2 ^ 32"
    and "i = cps_request_id (rcl_client_state st)" and "i = ucast (rcl_current_request_id st)"
    and "RpcClient_call E p t (create_requests E opcode ps st w) w = (True, st1, w1)"
    and "RpcClient_poll E h r (st1\<lparr>rcl_pending_responses := qs\<rparr>) w2 = (ev, r', st2)"
  shows "cps_request_id (rcl_client_state st1) \<noteq> i
    \<and> (ev = RCE_RESPONSE_IN \<or> ev = RCE_RESPONSE_CANCEL \<longrightarrow>
         rss_request_id (rp_header r') = cps_request_id (rcl_client_state st1) \<and> rss_request_id (rp_header r') \<noteq> i)"
proof -
  have "cps_request_id (rcl_client_state st1) = ucast (rcl_current_request_id st + of_nat (length ps))"
    using assms(5) create_requests_id [of E opcode ps st w]
    by (auto simp: RpcClient_call_def Let_def split: if_splits prod.splits bool.splits)
  with ucast_offset_distinct [OF assms(1,2)] assms(4) have "cps_request_id (rcl_client_state st1) \<noteq> i" by simp
  moreover have "rss_request_id (rp_header r') = cps_request_id (rcl_client_state st1)"
    if "ev = RCE_RESPONSE_IN \<or> ev = RCE_RESPONSE_CANCEL"
    using that assms(6) take_response_SomeD(1) [of E h "cps_request_id (rcl_client_state st1)" qs]
    by (auto simp: RpcClient_poll_def split: if_splits option.splits prod.splits)
  ultimately show ?thesis by auto
qed

end
