(* ===== verification/Rpc_Server_Endpoint.thy ===== *)
theory Rpc_Server_Endpoint
  imports Rpc_Types
begin

text \<open>
  The RPC server endpoint, \<open>src/rpc_server_endpoint_impl.cpp\<close> and its header: one request at a
  time per client, tracked by a state per client name; requests are queued by the receive
  callback and handled by \<open>poll\<close>. All operations hold the object's (recursive) mutex. The
  static list of instances only serves a callback that is never registered and is left out.
\<close>

section \<open>Data\<close>

datatype ServerState = SERVER_STATE_IDLE | SERVER_STATE_RUNNING | SERVER_STATE_CANCELLING

record ServerProcessingStatus =
  sps_request_id :: uint32
  sps_state :: ServerState

record PendingRequest =
  pr_pdu_key :: rpc_key
  pr_pdu_data :: pdu_data

record RpcServerEndpointImpl =
  rsv_service_name :: string
  rsv_has_endpoint :: bool
  rsv_server_states :: "(string, ServerProcessingStatus) std_map"
  rsv_registered_clients :: "string list"
  rsv_pending_requests :: "PendingRequest list"
  rsv_max_clients :: size_t
  rsv_dynamic_client :: bool
  rsv_dynamic_request_channel_id :: int
  rsv_dynamic_response_channel_id :: int
  rsv_dynamic_request_pdu_size :: size_t
  rsv_dynamic_response_pdu_size :: size_t
  rsv_subscriptions :: "rpc_resolved_key list"

definition new_RpcServerEndpointImpl :: "string \<Rightarrow> bool \<Rightarrow> RpcServerEndpointImpl" where
  "new_RpcServerEndpointImpl service has_endpoint =
     \<lparr>rsv_service_name = service, rsv_has_endpoint = has_endpoint, rsv_server_states = [],
      rsv_registered_clients = [], rsv_pending_requests = [], rsv_max_clients = 0,
      rsv_dynamic_client = False, rsv_dynamic_request_channel_id = 0, rsv_dynamic_response_channel_id = 0,
      rsv_dynamic_request_pdu_size = 0, rsv_dynamic_response_pdu_size = 0, rsv_subscriptions = []\<rparr>"

text \<open>
  \<open>server_states_[name].state = s; server_states_[name].request_id = id\<close>: \<open>operator[]\<close>
  creates the entry when it is missing.
\<close>

definition set_status :: "string \<Rightarrow> ServerState \<Rightarrow> uint32 \<Rightarrow> RpcServerEndpointImpl \<Rightarrow> RpcServerEndpointImpl" where
  "set_status client s i st =
     st\<lparr>rsv_server_states := sm_update client (\<lambda>_. \<lparr>sps_request_id = i, sps_state = s\<rparr>)
          (sm_emplace client \<lparr>sps_request_id = i, sps_state = s\<rparr> (rsv_server_states st))\<rparr>"

section \<open>Initialisation\<close>

text \<open>
  The body of the loop over \<open>clients\<close> for a client that is not skipped; a JSON exception ends
  it with what was done so far.
\<close>

definition rpc_register_client ::
    "'j rpc_json \<Rightarrow> 'j \<Rightarrow> string \<Rightarrow> int \<Rightarrow> 'j \<Rightarrow> string \<Rightarrow> RpcServerEndpointImpl \<Rightarrow> 'w rpc_world
     \<Rightarrow> bool \<times> RpcServerEndpointImpl \<times> 'w rpc_world" where
  "rpc_register_client J config service meta c client st w =
     (let st1 = set_status client SERVER_STATE_IDLE 0
                  (st\<lparr>rsv_registered_clients := rsv_registered_clients st @ [client]\<rparr>)
      in case rj_at_channel J c ''requestChannelId'' of
           None \<Rightarrow> (False, st1, w)
         | Some req_channel \<Rightarrow>
             (case rpc_pdu_size J config ''server'' ''client'' meta of
                None \<Rightarrow> (False, st1, w)
              | Some req_size \<Rightarrow>
                  let w1 = add_definition service (rpc_def service (client @ ''Req'') req_channel req_size) w
                  in case rj_at_channel J c ''responseChannelId'' of
                       None \<Rightarrow> (False, st1, w1)
                     | Some res_channel \<Rightarrow>
                         (case rpc_pdu_size J config ''client'' ''server'' meta of
                            None \<Rightarrow> (False, st1, w1)
                          | Some res_size \<Rightarrow>
                              (True, st1\<lparr>rsv_subscriptions := rsv_subscriptions st1 @ [(service, req_channel)]\<rparr>,
                               add_definition service (rpc_def service (client @ ''Res'') res_channel res_size) w1))))"

text \<open>The loop; \<open>node\<close> is the optional filter on the client's node.\<close>

fun rpc_register_clients ::
    "'j rpc_json \<Rightarrow> 'j \<Rightarrow> string \<Rightarrow> int \<Rightarrow> string option \<Rightarrow> 'j list \<Rightarrow> RpcServerEndpointImpl \<Rightarrow> 'w rpc_world
     \<Rightarrow> bool \<times> RpcServerEndpointImpl \<times> 'w rpc_world" where
  "rpc_register_clients J config service meta node [] st w = (True, st, w)"
| "rpc_register_clients J config service meta node (c # cs) st w =
     (case rj_at_string J c ''name'' of
        None \<Rightarrow> (False, st, w)
      | Some client \<Rightarrow>
          if \<not> rj_contains J c ''client_endpoint'' then (False, st, w)
          else case rj_at J c ''client_endpoint'' of
            None \<Rightarrow> (False, st, w)
          | Some ep \<Rightarrow>
              if \<not> rj_contains J ep ''nodeId'' then (False, st, w)
              else if node \<noteq> None \<and> Option.bind (rj_at J ep ''nodeId'') (rj_string J) \<noteq> node
              then rpc_register_clients J config service meta node cs st w
              else case rpc_register_client J config service meta c client st w of
                (False, st', w') \<Rightarrow> (False, st', w')
              | (True, st', w') \<Rightarrow> rpc_register_clients J config service meta node cs st' w')"

definition rpc_initialize_dynamic ::
    "'j rpc_json \<Rightarrow> 'j \<Rightarrow> string \<Rightarrow> int \<Rightarrow> RpcServerEndpointImpl \<Rightarrow> 'w rpc_world
     \<Rightarrow> bool \<times> RpcServerEndpointImpl \<times> 'w rpc_world" where
  "rpc_initialize_dynamic J config service meta st w =
     (case rj_at_channel J config ''requestChannelId'' of
        None \<Rightarrow> (False, st, w)
      | Some req_channel \<Rightarrow>
          let st1 = st\<lparr>rsv_dynamic_request_channel_id := req_channel\<rparr>
          in case rj_at_channel J config ''responseChannelId'' of
               None \<Rightarrow> (False, st1, w)
             | Some res_channel \<Rightarrow>
                 let st2 = st1\<lparr>rsv_dynamic_response_channel_id := res_channel\<rparr>
                 in case rpc_pdu_size J config ''server'' ''client'' meta of
                      None \<Rightarrow> (False, st2, w)
                    | Some req_size \<Rightarrow>
                        let st3 = st2\<lparr>rsv_dynamic_request_pdu_size := req_size\<rparr>
                        in case rpc_pdu_size J config ''client'' ''server'' meta of
                             None \<Rightarrow> (False, st3, w)
                           | Some res_size \<Rightarrow>
                               (True, st3\<lparr>rsv_dynamic_response_pdu_size := res_size,
                                  rsv_subscriptions := rsv_subscriptions st3 @ [(service, req_channel)]\<rparr>,
                                add_definition service (rpc_def service ''Req'' req_channel req_size) w))"

definition RpcServer_initialize ::
    "'j rpc_json \<Rightarrow> 'j \<Rightarrow> int \<Rightarrow> string option \<Rightarrow> RpcServerEndpointImpl \<Rightarrow> 'w rpc_world
     \<Rightarrow> bool \<times> RpcServerEndpointImpl \<times> 'w rpc_world" where
  "RpcServer_initialize J config meta client_node_id st w =
     (if \<not> rsv_has_endpoint st then (False, st, w)
      else case Option.bind (rj_at J config ''maxClients'') (rj_size J) of
        None \<Rightarrow> (False, st, w)
      | Some max_clients \<Rightarrow>
          let st1 = st\<lparr>rsv_max_clients := max_clients\<rparr>
          in case rj_at_string J config ''name'' of
               None \<Rightarrow> (False, st1, w)
             | Some service \<Rightarrow>
                 if rj_at_string J config ''type'' = None then (False, st1, w)
                 else if rw_defs w = None then (False, st1, w)
                 else case rj_value_bool J config ''dynamicClient'' False of
                   None \<Rightarrow> (False, st1, w)
                 | Some dynamic \<Rightarrow>
                     let st2 = st1\<lparr>rsv_dynamic_client := dynamic\<rparr>
                     in if dynamic then rpc_initialize_dynamic J config service meta st2 w
                        else case rj_at J config ''clients'' of
                          None \<Rightarrow> (False, st2, w)
                        | Some cs \<Rightarrow> rpc_register_clients J config service meta client_node_id (rj_elements J cs) st2 w)"

text \<open>The receive callback of a subscription: queue the bytes under the resolved PDU name.\<close>

definition RpcServer_on_recv ::
    "'w rpc_env \<Rightarrow> rpc_resolved_key \<Rightarrow> pdu_data \<Rightarrow> RpcServerEndpointImpl \<Rightarrow> 'w rpc_world \<Rightarrow> RpcServerEndpointImpl" where
  "RpcServer_on_recv E key data st w =
     (if \<not> rsv_has_endpoint st then st
      else st\<lparr>rsv_pending_requests := rsv_pending_requests st
               @ [\<lparr>pr_pdu_key = (fst key, get_pdu_name E (rw_defs w) key), pr_pdu_data = data\<rparr>]\<rparr>)"

section \<open>Replies\<close>

definition reply_header :: "ServiceRequestHeader \<Rightarrow> byte \<Rightarrow> int32 \<Rightarrow> ServiceResponseHeader" where
  "reply_header header status result_code =
     \<lparr>rss_request_id = rqs_request_id header, rss_service_name = rqs_service_name header,
      rss_client_name = rqs_client_name header, rss_status = status, rss_processing_percentage = 100,
      rss_result_code = result_code\<rparr>"

definition RpcServer_create_reply_buffer ::
    "'w rpc_env \<Rightarrow> ServiceRequestHeader \<Rightarrow> byte \<Rightarrow> int32 \<Rightarrow> pdu_data \<Rightarrow> 'w rpc_world \<Rightarrow> pdu_data" where
  "RpcServer_create_reply_buffer E header status result_code pdu w =
     (let n = unat (get_pdu_size E (rw_defs w) (rqs_service_name header, rqs_client_name header @ ''Res''))
      in response_cpp2pdu E (reply_header header status result_code) (resize n 0 pdu))"

definition RpcServer_send_reply ::
    "'w rpc_env \<Rightarrow> string \<Rightarrow> pdu_data \<Rightarrow> RpcServerEndpointImpl \<Rightarrow> 'w rpc_world
     \<Rightarrow> RpcServerEndpointImpl \<times> 'w rpc_world" where
  "RpcServer_send_reply E client pdu st w =
     (case sm_find (rsv_server_states st) client of
        None \<Rightarrow> (st, w)
      | Some s \<Rightarrow>
          if sps_state s = SERVER_STATE_IDLE then (st, w)
          else (set_status client SERVER_STATE_IDLE 0 st,
                snd (rpc_send E (rsv_service_name st, client @ ''Res'') pdu w)))"

definition RpcServer_send_cancel_reply ::
    "'w rpc_env \<Rightarrow> string \<Rightarrow> pdu_data \<Rightarrow> RpcServerEndpointImpl \<Rightarrow> 'w rpc_world
     \<Rightarrow> RpcServerEndpointImpl \<times> 'w rpc_world" where
  "RpcServer_send_cancel_reply E client pdu st w =
     (case sm_find (rsv_server_states st) client of
        None \<Rightarrow> (st, w)
      | Some s \<Rightarrow>
          if sps_state s \<noteq> SERVER_STATE_CANCELLING then (st, w)
          else (set_status client SERVER_STATE_IDLE 0 st,
                snd (rpc_send E (rsv_service_name st, client @ ''Res'') pdu w)))"

definition RpcServer_send_error_reply ::
    "'w rpc_env \<Rightarrow> ServiceRequestHeader \<Rightarrow> int32 \<Rightarrow> RpcServerEndpointImpl \<Rightarrow> 'w rpc_world
     \<Rightarrow> RpcServerEndpointImpl \<times> 'w rpc_world" where
  "RpcServer_send_error_reply E header result_code st w =
     RpcServer_send_reply E (rqs_client_name header)
       (RpcServer_create_reply_buffer E header HAKO_SERVICE_STATUS_ERROR result_code [] w) st w"

section \<open>Polling\<close>

definition ensure_dynamic_client ::
    "string \<Rightarrow> RpcServerEndpointImpl \<Rightarrow> 'w rpc_world \<Rightarrow> bool \<times> RpcServerEndpointImpl \<times> 'w rpc_world" where
  "ensure_dynamic_client client st w =
     (if client = [] then (False, st, w)
      else if sm_find (rsv_server_states st) client \<noteq> None then (True, st, w)
      else if length (rsv_registered_clients st) \<ge> unat (rsv_max_clients st) then (False, st, w)
      else if rw_defs w = None then (False, st, w)
      else (True, set_status client SERVER_STATE_IDLE 0
                    (st\<lparr>rsv_registered_clients := rsv_registered_clients st @ [client]\<rparr>),
            add_definition (rsv_service_name st)
              (rpc_def (rsv_service_name st) (client @ ''Res'') (rsv_dynamic_response_channel_id st)
                 (rsv_dynamic_response_pdu_size st))
              (add_definition (rsv_service_name st)
                 (rpc_def (rsv_service_name st) (client @ ''Req'') (rsv_dynamic_request_channel_id st)
                    (rsv_dynamic_request_pdu_size st)) w)))"

definition RpcServer_validate_header ::
    "ServiceRequestHeader \<Rightarrow> RpcServerEndpointImpl \<Rightarrow> 'w rpc_world \<Rightarrow> bool \<times> RpcServerEndpointImpl \<times> 'w rpc_world" where
  "RpcServer_validate_header header st w =
     (if rqs_service_name header \<noteq> rsv_service_name st then (False, st, w)
      else if rsv_dynamic_client st then ensure_dynamic_client (rqs_client_name header) st w
      else if rqs_client_name header \<notin> set (rsv_registered_clients st) then (False, st, w)
      else if rqs_opcode header \<ge> HAKO_SERVICE_OPERATION_NUM then (False, st, w)
      else (True, st, w))"

text \<open>
  \<open>server_states_[client_name]\<close> as a value. \<open>poll\<close> has made sure that the entry exists when the
  two handlers read it.
\<close>

definition status_of :: "string \<Rightarrow> RpcServerEndpointImpl \<Rightarrow> ServerProcessingStatus" where
  "status_of client st =
     (case sm_find (rsv_server_states st) client of
        None \<Rightarrow> \<lparr>sps_request_id = 0, sps_state = SERVER_STATE_IDLE\<rparr>
      | Some s \<Rightarrow> s)"

definition handle_request_in ::
    "'w rpc_env \<Rightarrow> RpcRequest \<Rightarrow> RpcServerEndpointImpl \<Rightarrow> 'w rpc_world
     \<Rightarrow> RpcServerEventType \<times> RpcRequest \<times> RpcServerEndpointImpl \<times> 'w rpc_world" where
  "handle_request_in E request st w =
     (let header = rr_header request; client = rqs_client_name header; s = status_of client st
      in (case sps_state s of
             SERVER_STATE_IDLE \<Rightarrow>
               (RSE_REQUEST_IN, request\<lparr>rr_client_name := client\<rparr>,
                set_status client SERVER_STATE_RUNNING (rqs_request_id header) st, w)
           | _ \<Rightarrow> (case RpcServer_send_error_reply E header HAKO_SERVICE_RESULT_CODE_BUSY st w of
                    (st', w') \<Rightarrow> (RSE_NONE, request, st', w'))))"

definition rpc_handle_cancel_request ::
    "'w rpc_env \<Rightarrow> RpcRequest \<Rightarrow> RpcServerEndpointImpl \<Rightarrow> 'w rpc_world
     \<Rightarrow> RpcServerEventType \<times> RpcRequest \<times> RpcServerEndpointImpl \<times> 'w rpc_world" where
  "rpc_handle_cancel_request E request st w =
     (let header = rr_header request; client = rqs_client_name header; s = status_of client st
      in (case sps_state s of
             SERVER_STATE_RUNNING \<Rightarrow>
               if sps_request_id s \<noteq> rqs_request_id header
               then (case RpcServer_send_error_reply E header HAKO_SERVICE_RESULT_CODE_INVALID st w of
                       (st', w') \<Rightarrow> (RSE_NONE, request, st', w'))
               else (RSE_REQUEST_CANCEL, request, set_status client SERVER_STATE_CANCELLING (sps_request_id s) st, w)
           | SERVER_STATE_IDLE \<Rightarrow> (RSE_NONE, request, st, w)
           | SERVER_STATE_CANCELLING \<Rightarrow>
               (case RpcServer_send_error_reply E header HAKO_SERVICE_RESULT_CODE_BUSY st w of
                  (st', w') \<Rightarrow> (RSE_NONE, request, st', w'))))"

text \<open>\<open>poll\<close> after the front request was taken and decoded into \<open>request\<close>.\<close>

definition RpcServer_process ::
    "'w rpc_env \<Rightarrow> RpcRequest \<Rightarrow> RpcServerEndpointImpl \<Rightarrow> 'w rpc_world
     \<Rightarrow> RpcServerEventType \<times> RpcRequest \<times> RpcServerEndpointImpl \<times> 'w rpc_world" where
  "RpcServer_process E request st w =
     (let header = rr_header request in
      case RpcServer_validate_header header st w of
        (False, st1, w1) \<Rightarrow>
          (case RpcServer_send_error_reply E header HAKO_SERVICE_RESULT_CODE_ERROR st1 w1 of
             (st2, w2) \<Rightarrow> (RSE_NONE, request, st2, w2))
      | (True, st1, w1) \<Rightarrow>
          if sm_find (rsv_server_states st1) (rqs_client_name header) = None
          then (case RpcServer_send_error_reply E header HAKO_SERVICE_RESULT_CODE_INVALID st1 w1 of
                  (st2, w2) \<Rightarrow> (RSE_NONE, request, st2, w2))
          else if rqs_opcode header = HAKO_SERVICE_OPERATION_CODE_CANCEL
          then rpc_handle_cancel_request E request st1 w1
          else handle_request_in E request st1 w1)"

definition RpcServer_poll ::
    "'w rpc_env \<Rightarrow> RpcRequest \<Rightarrow> RpcServerEndpointImpl \<Rightarrow> 'w rpc_world
     \<Rightarrow> RpcServerEventType \<times> RpcRequest \<times> RpcServerEndpointImpl \<times> 'w rpc_world" where
  "RpcServer_poll E request st w =
     (case rsv_pending_requests st of
        [] \<Rightarrow> (RSE_NONE, request, st, w)
      | p # ps \<Rightarrow>
          RpcServer_process E
            (request\<lparr>rr_pdu := pr_pdu_data p, rr_header := request_pdu2cpp E (pr_pdu_data p) (rr_header request)\<rparr>)
            (st\<lparr>rsv_pending_requests := ps\<rparr>) w)"

definition RpcServer_clear_pending_requests :: "RpcServerEndpointImpl \<Rightarrow> RpcServerEndpointImpl" where
  "RpcServer_clear_pending_requests st = st\<lparr>rsv_pending_requests := []\<rparr>"

end
