(* ===== verification/Rpc_Server_Properties.thy ===== *)
theory Rpc_Server_Properties
  imports Rpc_Server_Endpoint
begin

text \<open>
  The RPC server endpoint: what it keeps consistent, what each polled packet does, and that
  the clients of one endpoint do not disturb each other. Two behaviours that the code's
  comments do not intend are stated as theorems at the end.
\<close>

section \<open>Status updates\<close>

lemma find_set_status [simp]:
  "sm_find (rsv_server_states (set_status c s i st)) c' =
     (if c' = c then Some \<lparr>sps_request_id = i, sps_state = s\<rparr> else sm_find (rsv_server_states st) c')"
proof (cases "sm_find (rsv_server_states st) c")
  case None
  then show ?thesis by (simp add: set_status_def)
next
  case (Some x)
  then show ?thesis by (simp add: set_status_def sm_emplace_present)
qed

lemma set_status_other [simp]:
  "rsv_service_name (set_status c s i st) = rsv_service_name st"
  "rsv_registered_clients (set_status c s i st) = rsv_registered_clients st"
  "rsv_pending_requests (set_status c s i st) = rsv_pending_requests st"
  "rsv_max_clients (set_status c s i st) = rsv_max_clients st"
  "rsv_dynamic_client (set_status c s i st) = rsv_dynamic_client st"
  by (simp_all add: set_status_def)

lemma set_status_ok [simp]: "sm_ok (rsv_server_states st) \<Longrightarrow> sm_ok (rsv_server_states (set_status c s i st))"
  by (simp add: set_status_def)

lemma status_set_status [simp]:
  "status_of c' (set_status c s i st) = (if c' = c then \<lparr>sps_request_id = i, sps_state = s\<rparr> else status_of c' st)"
  by (simp add: status_of_def)

section \<open>The invariant\<close>

definition rpc_server_inv :: "RpcServerEndpointImpl \<Rightarrow> bool" where
  "rpc_server_inv st \<longleftrightarrow>
     sm_ok (rsv_server_states st)
     \<and> (\<forall>c. sm_find (rsv_server_states st) c \<noteq> None \<longleftrightarrow> c \<in> set (rsv_registered_clients st))
     \<and> (\<forall>c s. sm_find (rsv_server_states st) c = Some s \<and> sps_state s = SERVER_STATE_IDLE \<longrightarrow> sps_request_id s = 0)
     \<and> (rsv_dynamic_client st \<longrightarrow> distinct (rsv_registered_clients st)
          \<and> length (rsv_registered_clients st) \<le> unat (rsv_max_clients st))"

lemma rpc_inv_set_status:
  assumes "rpc_server_inv st" and "c \<in> set (rsv_registered_clients st)" and "s = SERVER_STATE_IDLE \<Longrightarrow> i = 0"
  shows "rpc_server_inv (set_status c s i st)"
  using assms by (auto simp: rpc_server_inv_def)

lemma rpc_inv_register:
  assumes "rpc_server_inv st"
    and "rsv_dynamic_client st \<Longrightarrow> c \<notin> set (rsv_registered_clients st)
      \<and> length (rsv_registered_clients st) < unat (rsv_max_clients st)"
  shows "rpc_server_inv (set_status c SERVER_STATE_IDLE 0 (st\<lparr>rsv_registered_clients := rsv_registered_clients st @ [c]\<rparr>))"
proof -
  let ?st = "st\<lparr>rsv_registered_clients := rsv_registered_clients st @ [c]\<rparr>"
  have f: "sm_find (rsv_server_states (set_status c SERVER_STATE_IDLE 0 ?st)) c' =
      (if c' = c then Some \<lparr>sps_request_id = 0, sps_state = SERVER_STATE_IDLE\<rparr> else sm_find (rsv_server_states st) c')" for c'
    by simp
  have "sm_ok (rsv_server_states (set_status c SERVER_STATE_IDLE 0 ?st))"
    using assms(1) by (intro set_status_ok) (simp add: rpc_server_inv_def)
  with assms show ?thesis unfolding rpc_server_inv_def f by auto
qed

lemma rpc_send_reply_inv: "rpc_server_inv st \<Longrightarrow> rpc_server_inv (fst (RpcServer_send_reply E c p st w))"
  by (auto simp: RpcServer_send_reply_def rpc_server_inv_def split: option.splits)

lemma rpc_send_cancel_reply_inv: "rpc_server_inv st \<Longrightarrow> rpc_server_inv (fst (RpcServer_send_cancel_reply E c p st w))"
  by (auto simp: RpcServer_send_cancel_reply_def rpc_server_inv_def split: option.splits)

lemma rpc_error_reply_inv: "rpc_server_inv st \<Longrightarrow> rpc_server_inv (fst (RpcServer_send_error_reply E h r st w))"
  unfolding RpcServer_send_error_reply_def by (rule rpc_send_reply_inv)

lemma rpc_validate_inv:
  assumes "rpc_server_inv st"
  shows "rpc_server_inv (fst (snd (RpcServer_validate_header h st w)))"
  using assms rpc_inv_register [OF assms, of "rqs_client_name h"]
  by (auto simp: RpcServer_validate_header_def ensure_dynamic_client_def not_le rpc_server_inv_def)

lemma rpc_validate_known:
  assumes "rpc_server_inv st" and "RpcServer_validate_header h st w = (True, st', w')"
  shows "rqs_client_name h \<in> set (rsv_registered_clients st')"
  using assms by (auto simp: RpcServer_validate_header_def ensure_dynamic_client_def rpc_server_inv_def split: if_splits)

lemma rpc_handlers_inv:
  assumes "rpc_server_inv st" and "rqs_client_name (rr_header q) \<in> set (rsv_registered_clients st)"
  shows "rpc_server_inv (fst (snd (snd (handle_request_in E q st w))))"
    and "rpc_server_inv (fst (snd (snd (rpc_handle_cancel_request E q st w))))"
proof -
  have run: "rpc_server_inv (set_status (rqs_client_name (rr_header q)) SERVER_STATE_RUNNING i st)"
    and cancel: "rpc_server_inv (set_status (rqs_client_name (rr_header q)) SERVER_STATE_CANCELLING i st)" for i
    by (rule rpc_inv_set_status [OF assms], simp)+
  show "rpc_server_inv (fst (snd (snd (handle_request_in E q st w))))"
    using run rpc_error_reply_inv [OF assms(1)]
    by (auto simp: handle_request_in_def Let_def case_prod_beta split: ServerState.splits)
  show "rpc_server_inv (fst (snd (snd (rpc_handle_cancel_request E q st w))))"
    using cancel assms(1) rpc_error_reply_inv [OF assms(1)]
    by (auto simp: rpc_handle_cancel_request_def Let_def case_prod_beta split: ServerState.splits)
qed

lemma rpc_process_inv:
  assumes "rpc_server_inv st"
  shows "rpc_server_inv (fst (snd (snd (RpcServer_process E q st w))))"
proof -
  obtain r st1 w1 where v: "RpcServer_validate_header (rr_header q) st w = (r, st1, w1)" by (metis surj_pair)
  have st1: "rpc_server_inv st1" using rpc_validate_inv [OF assms, of "rr_header q" w] v by simp
  have "r \<Longrightarrow> rqs_client_name (rr_header q) \<in> set (rsv_registered_clients st1)"
    using v by (auto intro: rpc_validate_known [OF assms, of _ w _ w1])
  then show ?thesis
    using v st1 rpc_error_reply_inv [OF st1] rpc_handlers_inv [OF st1]
    by (cases r) (auto simp: RpcServer_process_def Let_def case_prod_beta)
qed

lemma rpc_inv_other [simp]:
  "rpc_server_inv (st\<lparr>rsv_pending_requests := ps\<rparr>) = rpc_server_inv st"
  "rpc_server_inv (st\<lparr>rsv_subscriptions := ss\<rparr>) = rpc_server_inv st"
  "rpc_server_inv (st\<lparr>rsv_dynamic_request_channel_id := i\<rparr>) = rpc_server_inv st"
  "rpc_server_inv (st\<lparr>rsv_dynamic_response_channel_id := i\<rparr>) = rpc_server_inv st"
  "rpc_server_inv (st\<lparr>rsv_dynamic_request_pdu_size := n\<rparr>) = rpc_server_inv st"
  "rpc_server_inv (st\<lparr>rsv_dynamic_response_pdu_size := n\<rparr>) = rpc_server_inv st"
  by (auto simp: rpc_server_inv_def)

lemma rpc_poll_inv: "rpc_server_inv st \<Longrightarrow> rpc_server_inv (fst (snd (snd (RpcServer_poll E q st w))))"
  by (auto simp: RpcServer_poll_def rpc_process_inv split: list.splits)

section \<open>Runs\<close>

text \<open>The calls that change an endpoint after \<open>initialize\<close>.\<close>

datatype rpc_server_op =
    RpcServerReceives rpc_resolved_key pdu_data
  | RpcServerPolls RpcRequest
  | RpcServerReplies string pdu_data
  | RpcServerCancelReplies string pdu_data
  | RpcServerClears

fun rpc_server_step ::
    "'w rpc_env \<Rightarrow> rpc_server_op \<Rightarrow> RpcServerEndpointImpl \<times> 'w rpc_world \<Rightarrow> RpcServerEndpointImpl \<times> 'w rpc_world" where
  "rpc_server_step E (RpcServerReceives k d) (st, w) = (RpcServer_on_recv E k d st w, w)"
| "rpc_server_step E (RpcServerPolls q) (st, w) = snd (snd (RpcServer_poll E q st w))"
| "rpc_server_step E (RpcServerReplies c p) (st, w) = RpcServer_send_reply E c p st w"
| "rpc_server_step E (RpcServerCancelReplies c p) (st, w) = RpcServer_send_cancel_reply E c p st w"
| "rpc_server_step E RpcServerClears (st, w) = (RpcServer_clear_pending_requests st, w)"

lemma rpc_step_inv: "rpc_server_inv (fst s) \<Longrightarrow> rpc_server_inv (fst (rpc_server_step E x s))"
  by (cases s; cases x)
    (auto simp: rpc_poll_inv rpc_send_reply_inv rpc_send_cancel_reply_inv RpcServer_on_recv_def
      RpcServer_clear_pending_requests_def)

lemma rpc_run_inv: "rpc_server_inv (fst s) \<Longrightarrow> rpc_server_inv (fst (fold (rpc_server_step E) xs s))"
  by (induction xs arbitrary: s) (simp_all add: rpc_step_inv)

lemma rpc_register_client_inv:
  assumes "rpc_server_inv st" and "\<not> rsv_dynamic_client st"
  shows "rpc_server_inv (fst (snd (rpc_register_client J config service meta c client st w)))
    \<and> \<not> rsv_dynamic_client (fst (snd (rpc_register_client J config service meta c client st w)))"
proof -
  let ?st = "set_status client SERVER_STATE_IDLE 0 (st\<lparr>rsv_registered_clients := rsv_registered_clients st @ [client]\<rparr>)"
  have "rpc_server_inv ?st" using assms by (intro rpc_inv_register) auto
  moreover have "\<not> rsv_dynamic_client ?st" using assms by simp
  ultimately show ?thesis by (simp add: rpc_register_client_def Let_def split: option.split)
qed

lemma rpc_register_clients_inv:
  "rpc_server_inv st \<Longrightarrow> \<not> rsv_dynamic_client st
   \<Longrightarrow> rpc_server_inv (fst (snd (rpc_register_clients J config service meta node cs st w)))"
proof (induction cs arbitrary: st w)
  case (Cons c cs)
  show ?case
    using Cons.IH Cons.prems rpc_register_client_inv [OF Cons.prems, of J config service meta c _ w]
    by (auto split: option.split prod.split bool.split) (metis fst_conv snd_conv)+
qed simp

lemma rpc_initialize_dynamic_inv:
  assumes "rpc_server_inv st"
  shows "rpc_server_inv (fst (snd (rpc_initialize_dynamic J config service meta st w)))"
  using assms by (simp add: rpc_initialize_dynamic_def Let_def split: option.split)

lemma rpc_initialize_inv:
  "rpc_server_inv (fst (snd (RpcServer_initialize J config meta node (new_RpcServerEndpointImpl service ep) w)))"
proof -
  let ?new = "new_RpcServerEndpointImpl service ep"
  have new: "rpc_server_inv (?new\<lparr>rsv_max_clients := n, rsv_dynamic_client := d\<rparr>)"
    "rpc_server_inv (?new\<lparr>rsv_max_clients := n\<rparr>)" "rpc_server_inv ?new" for n d
    unfolding rpc_server_inv_def new_RpcServerEndpointImpl_def by simp_all
  then show ?thesis
    using rpc_register_clients_inv [OF new(1) [of False]]
    by (auto simp: RpcServer_initialize_def Let_def rpc_initialize_dynamic_inv split: option.split)
qed

section \<open>The contract per client\<close>

text \<open>
  What the endpoint is for one client name: nothing in progress, the number of the request
  in progress, or the number of the request being cancelled. \<open>None\<close> is a client that is not
  registered.
\<close>

datatype server_slot = SlotIdle | SlotRunning uint32 | SlotCancelling uint32

definition slot_of :: "ServerProcessingStatus \<Rightarrow> server_slot" where
  "slot_of s = (case sps_state s of
      SERVER_STATE_IDLE \<Rightarrow> SlotIdle
    | SERVER_STATE_RUNNING \<Rightarrow> SlotRunning (sps_request_id s)
    | SERVER_STATE_CANCELLING \<Rightarrow> SlotCancelling (sps_request_id s))"

definition slots :: "RpcServerEndpointImpl \<Rightarrow> string \<Rightarrow> server_slot option" where
  "slots st c = map_option slot_of (sm_find (rsv_server_states st) c)"

text \<open>Which request headers are taken.\<close>

definition accepts_request :: "RpcServerEndpointImpl \<Rightarrow> 'w rpc_world \<Rightarrow> ServiceRequestHeader \<Rightarrow> bool" where
  "accepts_request st w h \<longleftrightarrow>
     rqs_service_name h = rsv_service_name st
     \<and> (if rsv_dynamic_client st
        then rqs_client_name h \<noteq> []
          \<and> (slots st (rqs_client_name h) \<noteq> None
             \<or> length (rsv_registered_clients st) < unat (rsv_max_clients st) \<and> rw_defs w \<noteq> None)
        else rqs_client_name h \<in> set (rsv_registered_clients st) \<and> rqs_opcode h < HAKO_SERVICE_OPERATION_NUM)"

text \<open>
  The answer to a request: the event for the caller, the client's slot afterwards, and the
  result code of the error reply, if one is sent. An error reply ends whatever the client
  had in progress, and is sent only when something was.
\<close>

definition refuse_request :: "int32 \<Rightarrow> server_slot option \<Rightarrow> RpcServerEventType \<times> server_slot option \<times> int32 option" where
  "refuse_request code slot =
     (if slot = None \<or> slot = Some SlotIdle then (RSE_NONE, slot, None)
      else (RSE_NONE, Some SlotIdle, Some code))"

definition answer_request ::
    "bool \<Rightarrow> server_slot option \<Rightarrow> ServiceRequestHeader \<Rightarrow> RpcServerEventType \<times> server_slot option \<times> int32 option" where
  "answer_request ok slot h =
     (if \<not> ok then refuse_request HAKO_SERVICE_RESULT_CODE_ERROR slot
      else if rqs_opcode h = HAKO_SERVICE_OPERATION_CODE_CANCEL
      then (case slot of
              Some (SlotRunning i) \<Rightarrow>
                if i = rqs_request_id h then (RSE_REQUEST_CANCEL, Some (SlotCancelling i), None)
                else refuse_request HAKO_SERVICE_RESULT_CODE_INVALID slot
            | Some (SlotCancelling i) \<Rightarrow> refuse_request HAKO_SERVICE_RESULT_CODE_BUSY slot
            | _ \<Rightarrow> (RSE_NONE, Some SlotIdle, None))
      else if slot = None \<or> slot = Some SlotIdle
      then (RSE_REQUEST_IN, Some (SlotRunning (rqs_request_id h)), None)
      else refuse_request HAKO_SERVICE_RESULT_CODE_BUSY slot)"

lemma slots_set_status [simp]:
  "slots (set_status c s i st) c' =
     (if c' = c then Some (slot_of \<lparr>sps_request_id = i, sps_state = s\<rparr>) else slots st c')"
  by (simp add: slots_def)

lemma slots_None: "slots st c = None \<longleftrightarrow> sm_find (rsv_server_states st) c = None"
  by (simp add: slots_def)

lemma slots_other [simp]: "slots (st\<lparr>rsv_pending_requests := ps\<rparr>) c = slots st c"
  "slots (st\<lparr>rsv_registered_clients := cs\<rparr>) c = slots st c"
  by (simp_all add: slots_def)

text \<open>
  What the reply paths do, in the same terms. \<open>reply_world\<close> is the world after the attempt to
  send an error reply with the given code, if there is one.
\<close>

definition reply_world ::
    "'w rpc_env \<Rightarrow> string \<Rightarrow> ServiceRequestHeader \<Rightarrow> int32 option \<Rightarrow> 'w rpc_world \<Rightarrow> 'w rpc_world" where
  "reply_world E service h code w =
     (case code of
        None \<Rightarrow> w
      | Some r \<Rightarrow> snd (rpc_send E (service, rqs_client_name h @ ''Res'')
                    (RpcServer_create_reply_buffer E h HAKO_SERVICE_STATUS_ERROR r [] w) w))"

definition follows ::
    "'w rpc_env \<Rightarrow> ServiceRequestHeader \<Rightarrow> RpcServerEventType \<times> server_slot option \<times> int32 option
     \<Rightarrow> RpcServerEndpointImpl \<Rightarrow> 'w rpc_world \<Rightarrow> RpcServerEventType \<Rightarrow> RpcServerEndpointImpl \<Rightarrow> 'w rpc_world \<Rightarrow> bool" where
  "follows E h answer st w ev st' w' \<longleftrightarrow>
     (case answer of (e, slot, code) \<Rightarrow>
        ev = e
        \<and> slots st' = (slots st)(rqs_client_name h := slot)
        \<and> w' = reply_world E (rsv_service_name st) h code w
        \<and> rsv_pending_requests st' = rsv_pending_requests st)"

lemma error_reply_follows:
  assumes "RpcServer_send_error_reply E h code st w = (st', w')"
  shows "follows E h (refuse_request code (slots st (rqs_client_name h))) st w RSE_NONE st' w'"
proof (cases "sm_find (rsv_server_states st) (rqs_client_name h)")
  case None
  then show ?thesis using assms
    by (auto simp: RpcServer_send_error_reply_def RpcServer_send_reply_def follows_def refuse_request_def
        reply_world_def slots_def)
next
  case (Some s)
  then show ?thesis using assms
    by (cases "sps_state s")
      (auto simp: RpcServer_send_error_reply_def RpcServer_send_reply_def follows_def refuse_request_def
        reply_world_def slot_of_def fun_eq_iff slots_def)
qed

text \<open>A client that is taken for the first time gets the definitions of its two PDUs.\<close>

definition registering_world :: "RpcServerEndpointImpl \<Rightarrow> ServiceRequestHeader \<Rightarrow> 'w rpc_world \<Rightarrow> 'w rpc_world" where
  "registering_world st h w =
     (let service = rsv_service_name st; c = rqs_client_name h
      in if accepts_request st w h \<and> slots st c = None
         then add_definition service
                (rpc_def service (c @ ''Res'') (rsv_dynamic_response_channel_id st) (rsv_dynamic_response_pdu_size st))
                (add_definition service
                   (rpc_def service (c @ ''Req'') (rsv_dynamic_request_channel_id st) (rsv_dynamic_request_pdu_size st)) w)
         else w)"

lemma validate_header_result:
  assumes "rpc_server_inv st" and "RpcServer_validate_header h st w = (ok, st1, w1)"
  shows "ok = accepts_request st w h"
    and "w1 = registering_world st h w"
    and "slots st1 = (if ok \<and> slots st (rqs_client_name h) = None
                      then (slots st)(rqs_client_name h \<mapsto> SlotIdle) else slots st)"
    and "ok \<Longrightarrow> slots st1 (rqs_client_name h) \<noteq> None"
    and "rsv_pending_requests st1 = rsv_pending_requests st" and "rsv_service_name st1 = rsv_service_name st"
proof -
  have known: "sm_find (rsv_server_states st) c = None \<longleftrightarrow> c \<notin> set (rsv_registered_clients st)" for c
    using assms(1) unfolding rpc_server_inv_def by blast
  show "ok = accepts_request st w h"
    using assms(2) by (auto simp: RpcServer_validate_header_def ensure_dynamic_client_def accepts_request_def slots_def split: if_splits)
  then show "w1 = registering_world st h w"
    using assms(2) known by (auto simp: RpcServer_validate_header_def ensure_dynamic_client_def accepts_request_def
        registering_world_def Let_def slots_def not_le split: if_splits)
  show s: "slots st1 = (if ok \<and> slots st (rqs_client_name h) = None
                      then (slots st)(rqs_client_name h \<mapsto> SlotIdle) else slots st)"
    using assms(2) known by (auto simp: RpcServer_validate_header_def ensure_dynamic_client_def slot_of_def fun_eq_iff
        slots_None split: if_splits)
  show "ok \<Longrightarrow> slots st1 (rqs_client_name h) \<noteq> None" using s by auto
  show "rsv_pending_requests st1 = rsv_pending_requests st" "rsv_service_name st1 = rsv_service_name st"
    using assms(2) by (auto simp: RpcServer_validate_header_def ensure_dynamic_client_def split: if_splits)
qed

lemma slot_of_simps [simp]:
  "slot_of s = SlotIdle \<longleftrightarrow> sps_state s = SERVER_STATE_IDLE"
  "slot_of s = SlotRunning i \<longleftrightarrow> sps_state s = SERVER_STATE_RUNNING \<and> sps_request_id s = i"
  "slot_of s = SlotCancelling i \<longleftrightarrow> sps_state s = SERVER_STATE_CANCELLING \<and> sps_request_id s = i"
  by (auto simp: slot_of_def split: ServerState.splits)

lemma handle_request_follows:
  assumes "handle_request_in E q st w = (ev, q', st', w')" and "slots st (rqs_client_name (rr_header q)) \<noteq> None"
    and "rqs_opcode (rr_header q) \<noteq> HAKO_SERVICE_OPERATION_CODE_CANCEL"
  shows "follows E (rr_header q) (answer_request True (slots st (rqs_client_name (rr_header q))) (rr_header q)) st w ev st' w'"
proof -
  obtain s where s: "sm_find (rsv_server_states st) (rqs_client_name (rr_header q)) = Some s"
    using assms(2) by (auto simp: slots_def)
  then have "slots st (rqs_client_name (rr_header q)) = Some (slot_of s)" by (simp add: slots_def)
  with s show ?thesis
    using assms error_reply_follows [of E "rr_header q" HAKO_SERVICE_RESULT_CODE_BUSY st w]
    by (auto simp: handle_request_in_def status_of_def answer_request_def Let_def slot_of_def
        follows_def [of _ _ "(_, _)"] reply_world_def fun_eq_iff split: ServerState.splits prod.splits)
qed

lemma handle_cancel_follows:
  assumes "rpc_handle_cancel_request E q st w = (ev, q', st', w')" and "slots st (rqs_client_name (rr_header q)) \<noteq> None"
    and "rqs_opcode (rr_header q) = HAKO_SERVICE_OPERATION_CODE_CANCEL"
  shows "follows E (rr_header q) (answer_request True (slots st (rqs_client_name (rr_header q))) (rr_header q)) st w ev st' w'"
proof -
  obtain s where s: "sm_find (rsv_server_states st) (rqs_client_name (rr_header q)) = Some s"
    using assms(2) by (auto simp: slots_def)
  then have "slots st (rqs_client_name (rr_header q)) = Some (slot_of s)" by (simp add: slots_def)
  with s show ?thesis
    using assms error_reply_follows [of E "rr_header q" _ st w]
    by (auto simp: rpc_handle_cancel_request_def status_of_def answer_request_def Let_def slot_of_def
        follows_def [of _ _ "(_, _)"] reply_world_def fun_eq_iff split: ServerState.splits prod.splits if_splits)
qed

lemma process_follows:
  assumes inv: "rpc_server_inv st" and p: "RpcServer_process E q st w = (ev, q', st', w')"
    and h: "h = rr_header q"
  shows "follows E h (answer_request (accepts_request st w h) (slots st (rqs_client_name h)) h)
    st (registering_world st h w) ev st' w'"
proof -
  obtain ok st1 w1 where v: "RpcServer_validate_header h st w = (ok, st1, w1)" by (metis surj_pair)
  note r = validate_header_result [OF inv v]
  show ?thesis
  proof (cases ok)
    case False
    then have "RpcServer_send_error_reply E h HAKO_SERVICE_RESULT_CODE_ERROR st1 w1 = (st', w')" "ev = RSE_NONE"
      using p v h by (auto simp: RpcServer_process_def Let_def split: prod.splits)
    from error_reply_follows [OF this(1)] this(2) False r show ?thesis
      by (simp add: follows_def answer_request_def case_prod_beta)
  next
    case True
    let ?c = "rqs_client_name h"
    have known: "slots st1 ?c \<noteq> None" using r(4) True .
    have f: "follows E h (answer_request True (slots st1 ?c) h) st1 w1 ev st' w'"
    proof (cases "rqs_opcode h = HAKO_SERVICE_OPERATION_CODE_CANCEL")
      case c: True
      then have "rpc_handle_cancel_request E q st1 w1 = (ev, q', st', w')"
        using p v h True known by (auto simp: RpcServer_process_def Let_def slots_None)
      from handle_cancel_follows [OF this] known c h show ?thesis by simp
    next
      case c: False
      then have "handle_request_in E q st1 w1 = (ev, q', st', w')"
        using p v h True known by (auto simp: RpcServer_process_def Let_def slots_None)
      from handle_request_follows [OF this] known c h show ?thesis by simp
    qed
    show ?thesis
    proof (cases "slots st ?c = None")
      case new: True
      with f True r show ?thesis by (simp add: follows_def answer_request_def case_prod_beta split: if_splits)
    next
      case False
      with f True r show ?thesis by (simp add: follows_def case_prod_beta)
    qed
  qed
qed

lemma accepts_pending [simp]: "accepts_request (st\<lparr>rsv_pending_requests := ps\<rparr>) w h = accepts_request st w h"
  by (simp add: accepts_request_def)

lemma registering_pending [simp]: "registering_world (st\<lparr>rsv_pending_requests := ps\<rparr>) h w = registering_world st h w"
  by (simp add: registering_world_def Let_def)

lemma poll_follows:
  assumes "rpc_server_inv st" and "rsv_pending_requests st = p # ps"
    and "RpcServer_poll E q st w = (ev, q', st', w')"
    and "h = request_pdu2cpp E (pr_pdu_data p) (rr_header q)"
  shows "follows E h (answer_request (accepts_request st w h) (slots st (rqs_client_name h)) h)
           (st\<lparr>rsv_pending_requests := ps\<rparr>) (registering_world st h w) ev st' w'"
proof -
  have "RpcServer_process E (q\<lparr>rr_pdu := pr_pdu_data p, rr_header := h\<rparr>) (st\<lparr>rsv_pending_requests := ps\<rparr>) w = (ev, q', st', w')"
    using assms by (simp add: RpcServer_poll_def)
  from process_follows [OF _ this, of h] assms(1) show ?thesis by simp
qed

lemma poll_request_value:
  assumes "rsv_pending_requests st = p # ps" and "RpcServer_poll E q st w = (ev, q', st', w')"
    and "h = request_pdu2cpp E (pr_pdu_data p) (rr_header q)"
  shows "rr_header q' = h \<and> rr_pdu q' = pr_pdu_data p \<and> (ev = RSE_REQUEST_IN \<longrightarrow> rr_client_name q' = rqs_client_name h)"
proof -
  have "RpcServer_process E (q\<lparr>rr_pdu := pr_pdu_data p, rr_header := h\<rparr>) (st\<lparr>rsv_pending_requests := ps\<rparr>) w = (ev, q', st', w')"
    using assms by (simp add: RpcServer_poll_def)
  then show ?thesis
    by (auto simp: RpcServer_process_def handle_request_in_def rpc_handle_cancel_request_def Let_def
        split: prod.splits bool.splits if_splits ServerState.splits)
qed

section \<open>Properties\<close>

text \<open>
  From construction and \<open>initialize\<close>, with whatever configuration and whether
  it succeeds or not, through any sequence of received packets, polls, replies, cancel
  replies and clears, the endpoint tracks exactly its registered clients, an idle client has
  no request number, and dynamic clients are registered at most once and at most
  \<open>maxClients\<close> of them.
\<close>

theorem rpc_server_clients_consistent:
  "rpc_server_inv (fst (fold (rpc_server_step E) xs
     (snd (RpcServer_initialize J config meta node (new_RpcServerEndpointImpl service ep) w))))"
  by (intro rpc_run_inv rpc_initialize_inv)

text \<open>
  C16 (refinement): one \<open>poll\<close> takes the oldest packet and does to the client named in it
  exactly what \<open>answer_request\<close> says: the event returned, the client's slot, and the error
  reply; every other client's slot is unchanged. A REQUEST_IN hands the caller the client
  name, the decoded header and the packet.
\<close>

theorem rpc_server_poll_refines_slots:
  assumes "rpc_server_inv st" and "rsv_pending_requests st = p # ps"
    and "RpcServer_poll E q st w = (ev, q', st', w')"
    and "h = request_pdu2cpp E (pr_pdu_data p) (rr_header q)"
  shows "follows E h (answer_request (accepts_request st w h) (slots st (rqs_client_name h)) h)
           (st\<lparr>rsv_pending_requests := ps\<rparr>) (registering_world st h w) ev st' w'
    \<and> rr_header q' = h \<and> rr_pdu q' = pr_pdu_data p
    \<and> (ev = RSE_REQUEST_IN \<longrightarrow> rr_client_name q' = rqs_client_name h)"
  using poll_follows [OF assms] poll_request_value [OF assms(2-4)] by blast

text \<open>
  C39 (error): a client that sends a second request while one is running gets a BUSY reply, and
  loses the running request: the client is idle afterwards, and the reply the application then
  sends for the request it was given reaches nobody.
\<close>

theorem rpc_server_busy_reply_discards_running_request:
  assumes "rpc_server_inv st" and "rsv_pending_requests st = p # ps"
    and "h = request_pdu2cpp E (pr_pdu_data p) (rr_header q)"
    and "accepts_request st w h" and "rqs_opcode h = HAKO_SERVICE_OPERATION_CODE_REQUEST"
    and "slots st (rqs_client_name h) = Some (SlotRunning i)"
    and "RpcServer_poll E q st w = (ev, q', st', w')"
  shows "ev = RSE_NONE \<and> slots st' (rqs_client_name h) = Some SlotIdle
    \<and> w' = snd (rpc_send E (rsv_service_name st, rqs_client_name h @ ''Res'')
          (RpcServer_create_reply_buffer E h HAKO_SERVICE_STATUS_ERROR HAKO_SERVICE_RESULT_CODE_BUSY [] w) w)
    \<and> RpcServer_send_reply E (rqs_client_name h) reply st' w' = (st', w')"
proof -
  have "registering_world st h w = w" using assms(6) by (simp add: registering_world_def)
  with poll_follows [OF assms(1,2,7,3)] assms(4,5,6)
  have e: "ev = RSE_NONE" "slots st' (rqs_client_name h) = Some SlotIdle"
    "w' = snd (rpc_send E (rsv_service_name st, rqs_client_name h @ ''Res'')
          (RpcServer_create_reply_buffer E h HAKO_SERVICE_STATUS_ERROR HAKO_SERVICE_RESULT_CODE_BUSY [] w) w)"
    by (auto simp: follows_def answer_request_def refuse_request_def reply_world_def rpc_constants)
  moreover from e(2) have "RpcServer_send_reply E (rqs_client_name h) reply st' w' = (st', w')"
    by (auto simp: slots_def RpcServer_send_reply_def)
  ultimately show ?thesis by blast
qed

end
