(* ===== verification/Rpc_Call.thy ===== *)
theory Rpc_Call
  imports Rpc_Client_Properties Rpc_Server_Properties Example_Bytes
begin

text \<open>
  A call from a client endpoint to a server endpoint and back, and the concrete environment
  on which the theorems about the RPC endpoints are evaluated.
\<close>

section \<open>The convertors\<close>

text \<open>
  What the RPC endpoints rely on of the generated PDU convertors: a header whose two names
  fit their fixed-size fields, written into a buffer that has room for the header, is read
  back as it was, whatever the object it is read into held before.
\<close>

definition fits_name :: "nat \<Rightarrow> string \<Rightarrow> bool" where
  "fits_name m s \<longleftrightarrow> length s < m \<and> char_of (0 :: nat) \<notin> set s"

definition rpc_codec_ok :: "'w rpc_env \<Rightarrow> nat \<Rightarrow> nat \<Rightarrow> bool" where
  "rpc_codec_ok E m n \<longleftrightarrow>
     (\<forall>h b h0. fits_name m (rqs_service_name h) \<and> fits_name m (rqs_client_name h) \<and> n \<le> length b
        \<longrightarrow> request_pdu2cpp E (request_cpp2pdu E h b) h0 = h)
   \<and> (\<forall>h b h0. fits_name m (rss_service_name h) \<and> fits_name m (rss_client_name h) \<and> n \<le> length b
        \<longrightarrow> response_pdu2cpp E (response_cpp2pdu E h b) h0 = h)"

section \<open>An example environment\<close>

text \<open>
  Headers at the start of the buffer, names in zero-terminated fields of fixed size, here eight bytes, PDUs of
  40 bytes, resolved by channel: channel 1 carries requests and channel 2 responses of the
  client \<open>C\<close>. The transport is a script of send results with a clock.
\<close>

definition name_field :: "nat \<Rightarrow> string \<Rightarrow> byte list" where
  "name_field k s = take k (map (\<lambda>c. of_nat (of_char c)) s @ replicate k 0)"

definition read_name :: "nat \<Rightarrow> byte list \<Rightarrow> string" where
  "read_name k bs = map (\<lambda>b. char_of (unat b)) (takeWhile (\<lambda>b. b \<noteq> 0) (take k bs))"

definition rpc_example :: "(bool list \<times> uint64) rpc_env" where
  "rpc_example = \<lparr>
     request_pdu2cpp = (\<lambda>b h. \<lparr>rqs_request_id = of_le32 (take 4 b), rqs_service_name = read_name 8 (drop 9 b),
       rqs_client_name = read_name 8 (drop 17 b), rqs_opcode = byte_at b 4,
       rqs_status_poll_interval_msec = of_le32 (take 4 (drop 5 b))\<rparr>),
     request_cpp2pdu = (\<lambda>h. overwrite 0 (le32 (rqs_request_id h) @ [rqs_opcode h]
       @ le32 (rqs_status_poll_interval_msec h) @ name_field 8 (rqs_service_name h) @ name_field 8 (rqs_client_name h))),
     response_pdu2cpp = (\<lambda>b h. \<lparr>rss_request_id = of_le32 (take 4 b), rss_service_name = read_name 8 (drop 10 b),
       rss_client_name = read_name 8 (drop 18 b), rss_status = byte_at b 4, rss_processing_percentage = byte_at b 5,
       rss_result_code = of_le32 (take 4 (drop 6 b))\<rparr>),
     response_cpp2pdu = (\<lambda>h. overwrite 0 (le32 (rss_request_id h) @ [rss_status h, rss_processing_percentage h]
       @ le32 (rss_result_code h) @ name_field 8 (rss_service_name h) @ name_field 8 (rss_client_name h))),
     get_pdu_size = (\<lambda>defs key. 40),
     get_pdu_name = (\<lambda>defs key. if snd key = 1 then ''CReq'' else ''CRes''),
     rpc_transmit = (\<lambda>key bytes (s, t). case s of [] \<Rightarrow> (True, ([], t)) | b # bs \<Rightarrow> (b, (bs, t))),
     rpc_microseconds = snd\<rparr>"

lemma length_name_field [simp]: "length (name_field k s) = k"
  by (simp add: name_field_def)

lemma read_name_field:
  assumes "fits_name k s"
  shows "read_name k (name_field k s @ bs) = s"
proof -
  have u: "unat (of_nat (of_char c) :: byte) = of_char c" for c by (simp add: unat_of_nat)
  have nz: "(of_nat (of_char c) :: byte) \<noteq> 0" if "c \<in> set s" for c
  proof
    assume "(of_nat (of_char c) :: byte) = 0"
    then have "of_char c = (0 :: nat)" using u [of c] by simp
    then have "c = char_of (0 :: nat)" by (metis char_of_char)
    with that assms show False by (simp add: fits_name_def)
  qed
  let ?bs = "map (\<lambda>c. of_nat (of_char c)) s :: byte list"
  have "name_field k s = ?bs @ replicate (k - length s) 0"
    using assms by (simp add: name_field_def fits_name_def)
  moreover have "0 < k - length s" using assms by (simp add: fits_name_def)
  then obtain j where "k - length s = Suc j" by (metis gr0_conv_Suc)
  moreover have "takeWhile (\<lambda>b. b \<noteq> 0) (?bs @ 0 # cs) = ?bs" for cs
    using nz by (subst takeWhile_append2) auto
  moreover have "take k (name_field k s @ bs) = name_field k s" by simp
  moreover have "char_of (unat (of_nat (of_char c) :: byte)) = c" for c by (simp add: u)
  ultimately show ?thesis by (simp add: read_name_def comp_def)
qed

lemma rpc_codec_ok_example: "rpc_codec_ok rpc_example 8 26"
proof -
  have "request_pdu2cpp rpc_example (request_cpp2pdu rpc_example h b) h0 = h"
    if "fits_name 8 (rqs_service_name h)" "fits_name 8 (rqs_client_name h)" for h b h0
    using that by (simp add: rpc_example_def overwrite_def of_le32_le32 read_name_field byte_at_def nth_append)
  moreover have "response_pdu2cpp rpc_example (response_cpp2pdu rpc_example h b) h0 = h"
    if "fits_name 8 (rss_service_name h)" "fits_name 8 (rss_client_name h)" for h b h0
    using that by (simp add: rpc_example_def overwrite_def of_le32_le32 read_name_field byte_at_def nth_append)
  ultimately show ?thesis by (simp add: rpc_codec_ok_def)
qed

section \<open>One call\<close>

text \<open>The request a client creates and sends, as the server reads it.\<close>

lemma created_request_readable:
  assumes "rpc_codec_ok E m n" and "fits_name m (rcl_service_name cl)" and "fits_name m (rcl_client_name cl)"
    and "n \<le> unat (get_pdu_size E (rw_defs w) (rcl_service_name cl, rcl_client_name cl @ ''Req''))"
    and "RpcClient_create_request_buffer E opcode False body cl w = (req, cl1)"
  shows "request_pdu2cpp E req h0 = request_service_header cl opcode (ucast (rcl_current_request_id cl1))"
    and "cl1 = cl\<lparr>rcl_current_request_id := rcl_current_request_id cl + 1\<rparr>"
  using assms by (auto simp: RpcClient_create_request_buffer_def Let_def rpc_codec_ok_def request_service_header_def resize_def)

lemma created_reply_readable:
  assumes "rpc_codec_ok E m n" and "fits_name m (rqs_service_name h)" and "fits_name m (rqs_client_name h)"
    and "n \<le> unat (get_pdu_size E (rw_defs w) (rqs_service_name h, rqs_client_name h @ ''Res''))"
  shows "response_pdu2cpp E (RpcServer_create_reply_buffer E h status code body w) h0 = reply_header h status code"
  using assms by (simp add: RpcServer_create_reply_buffer_def rpc_codec_ok_def reply_header_def Let_def resize_def)

lemma call_accepted:
  assumes "RpcClient_call E pdu t cl w = (True, cl', w')"
  shows "cl' = cl\<lparr>rcl_client_state := \<lparr>cps_request_id = ucast (rcl_current_request_id cl), cps_state = CLIENT_STATE_RUNNING\<rparr>,
      rcl_current_timeout_usec := t, rcl_request_start_time_usec := rpc_microseconds E (rw_transport w)\<rparr>"
    and "rw_outbox w' = rw_outbox w @ [((rcl_service_name cl, rcl_client_name cl @ ''Req''), pdu)]"
  using assms
  by (auto simp: RpcClient_call_def Let_def RpcClient_send_request_def rpc_send_outbox split: if_splits prod.splits bool.splits)

text \<open>An idle, registered client's request, polled from an otherwise empty queue.\<close>

lemma server_takes_request:
  assumes inv: "rpc_server_inv sv" and sv: "rsv_has_endpoint sv" "rsv_pending_requests sv = []"
    and h: "request_pdu2cpp E req (rr_header q) = h" "rqs_service_name h = rsv_service_name sv"
      "slots sv (rqs_client_name h) = Some SlotIdle" "rqs_client_name h \<noteq> []"
      "rqs_opcode h = HAKO_SERVICE_OPERATION_CODE_REQUEST"
    and poll: "RpcServer_poll E q (RpcServer_on_recv E key req sv w) w = (ev, q', sv', w')"
  shows "ev = RSE_REQUEST_IN \<and> q' = \<lparr>rr_client_name = rqs_client_name h, rr_header = h, rr_pdu = req\<rparr>
    \<and> slots sv' = (slots sv)(rqs_client_name h \<mapsto> SlotRunning (rqs_request_id h))
    \<and> w' = w \<and> rsv_service_name sv' = rsv_service_name sv"
proof -
  let ?p = "\<lparr>pr_pdu_key = (fst key, get_pdu_name E (rw_defs w) key), pr_pdu_data = req\<rparr>"
  let ?sv = "RpcServer_on_recv E key req sv w"
  have recv: "?sv = sv\<lparr>rsv_pending_requests := [?p]\<rparr>" using sv by (simp add: RpcServer_on_recv_def)
  have "rqs_client_name h \<in> set (rsv_registered_clients sv)"
    using inv h(3) by (auto simp: rpc_server_inv_def slots_def)
  then have acc: "accepts_request sv w h"
    using h by (simp add: accepts_request_def rpc_constants)
  then have reg: "registering_world sv h w = w" using h(3) by (simp add: registering_world_def)
  have f: "follows E h (answer_request True (Some SlotIdle) h) (?sv\<lparr>rsv_pending_requests := []\<rparr>) w ev sv' w'"
    using poll_follows [of ?sv ?p "[]" E q w ev q' sv' w' h] recv inv poll h acc reg by simp
  then have ev: "ev = RSE_REQUEST_IN" by (simp add: follows_def answer_request_def h rpc_constants)
  have name: "rsv_service_name sv' = rsv_service_name sv"
    using poll inv h acc recv
    by (auto simp: RpcServer_poll_def RpcServer_process_def handle_request_in_def rpc_handle_cancel_request_def
        ev Let_def RpcServer_validate_header_def ensure_dynamic_client_def
        split: if_splits bool.splits ServerState.splits prod.splits)
  from poll_request_value [of ?sv ?p "[]" E q w ev q' sv' w' h] recv poll h ev
  have "rr_client_name q' = rqs_client_name h" "rr_header q' = h" "rr_pdu q' = req" by auto
  then have "q' = \<lparr>rr_client_name = rqs_client_name h, rr_header = h, rr_pdu = req\<rparr>" by simp
  with f ev name show ?thesis
    by (simp add: follows_def answer_request_def h rpc_constants reply_world_def recv fun_eq_iff)
qed

lemma server_replies:
  assumes "slots sv c = Some (SlotRunning i)" and "RpcServer_send_reply E c rep sv w = (sv', w')"
  shows "slots sv' = (slots sv)(c \<mapsto> SlotIdle)" and "w' = snd (rpc_send E (rsv_service_name sv, c @ ''Res'') rep w)"
proof -
  obtain s where "sm_find (rsv_server_states sv) c = Some s" "sps_state s = SERVER_STATE_RUNNING"
    using assms(1) by (auto simp: slots_def)
  then have "sv' = set_status c SERVER_STATE_IDLE 0 sv \<and> w' = snd (rpc_send E (rsv_service_name sv, c @ ''Res'') rep w)"
    using assms(2) by (simp add: RpcServer_send_reply_def)
  then show "slots sv' = (slots sv)(c \<mapsto> SlotIdle)" and "w' = snd (rpc_send E (rsv_service_name sv, c @ ''Res'') rep w)"
    by (auto simp: fun_eq_iff slot_of_def)
qed

section \<open>Properties\<close>

text \<open>
  C5 (roundtrip): a call from an idle client to a server on which that client is idle. When
  the request is created and the call is accepted, the request packet is the one that goes
  out; the server, given that packet, reports REQUEST_IN with the client's name, the header
  and the packet; the reply it creates from that request is what it hands to the transport on
  the client's response PDU; and the client, given that reply within the timeout, reports
  RESPONSE_IN with exactly the reply's header and packet. Both are idle again afterwards.
\<close>

theorem rpc_call_roundtrip:
  assumes codec: "rpc_codec_ok E m n"
    and service: "service = rcl_service_name cl" "fits_name m service"
    and client: "client = rcl_client_name cl" "fits_name m client" "client \<noteq> []"
    and sizes: "n \<le> unat (get_pdu_size E (rw_defs wc) (service, client @ ''Req''))"
      "n \<le> unat (get_pdu_size E (rw_defs ws) (service, client @ ''Res''))"
    and created: "RpcClient_create_request_buffer E HAKO_SERVICE_OPERATION_CODE_REQUEST False body cl wc = (req, cl1)"
    and called: "RpcClient_call E req timeout cl1 wc = (True, cl2, wc1)"
    and server: "rpc_server_inv sv" "rsv_has_endpoint sv" "rsv_service_name sv = service"
      "slots sv client = Some SlotIdle" "rsv_pending_requests sv = []"
    and polled: "RpcServer_poll E q (RpcServer_on_recv E key req sv ws) ws = (ev, q', sv1, ws1)"
    and replied: "rep = RpcServer_create_reply_buffer E (rr_header q') status code body' ws1"
      "RpcServer_send_reply E (rr_client_name q') rep sv1 ws1 = (sv2, ws2)"
    and response: "rcl_has_endpoint cl" "get_pdu_name E (rw_defs wc2) rkey = client @ ''Res''"
      "\<forall>x\<in>set (rcl_pending_responses cl). response_id E h x \<noteq> cps_request_id (rcl_client_state cl2)"
      "\<not> response_timeout (rpc_microseconds E (rw_transport wc2)) cl2"
    and code: "sint code < HAKO_SERVICE_RESULT_CODE_NUM" "code \<noteq> HAKO_SERVICE_RESULT_CODE_CANCELED"
  shows "rw_outbox wc1 = rw_outbox wc @ [((service, client @ ''Req''), req)]
    \<and> ev = RSE_REQUEST_IN \<and> rr_client_name q' = client \<and> rr_pdu q' = req
    \<and> rqs_request_id (rr_header q') = cps_request_id (rcl_client_state cl2)
    \<and> ws2 = snd (rpc_send E (service, client @ ''Res'') rep ws) \<and> slots sv2 = slots sv
    \<and> RpcClient_poll E h r (RpcClient_on_recv E rkey rep cl2 wc2) wc2 =
        (RCE_RESPONSE_IN, \<lparr>rp_header = reply_header (rr_header q') status code, rp_pdu = rep\<rparr>,
         set_client_state CLIENT_STATE_IDLE cl2)"
proof -
  let ?h = "request_service_header cl HAKO_SERVICE_OPERATION_CODE_REQUEST (ucast (rcl_current_request_id cl1))"
  have req: "request_pdu2cpp E req h0 = ?h" for h0
    using created_request_readable(1) [OF codec _ _ _ created] service client sizes(1) by simp
  have cl1: "cl1 = cl\<lparr>rcl_current_request_id := rcl_current_request_id cl + 1\<rparr>"
    using created_request_readable(2) [OF codec _ _ _ created] service client sizes(1) by simp
  note call = call_accepted [OF called]
  have hd: "rqs_service_name ?h = service" "rqs_client_name ?h = client"
    "rqs_opcode ?h = HAKO_SERVICE_OPERATION_CODE_REQUEST"
    "rqs_request_id ?h = cps_request_id (rcl_client_state cl2)"
    using service client cl1 call by (simp_all add: request_service_header_def)
  have sv1: "ev = RSE_REQUEST_IN \<and> q' = \<lparr>rr_client_name = client, rr_header = ?h, rr_pdu = req\<rparr>
      \<and> slots sv1 = (slots sv)(client \<mapsto> SlotRunning (rqs_request_id ?h)) \<and> ws1 = ws \<and> rsv_service_name sv1 = service"
    using server_takes_request [OF server(1,2,5) req _ _ _ hd(3) polled] hd server client(3) by simp
  have sv2: "slots sv2 = slots sv" "ws2 = snd (rpc_send E (service, client @ ''Res'') rep ws)"
    using server_replies [of sv1 client _ E rep ws1 sv2 ws2] sv1 replied(2) server(4) by (auto simp: fun_eq_iff)
  have rep: "response_pdu2cpp E rep h0 = reply_header ?h status code" for h0
    using created_reply_readable [OF codec, of ?h] hd service client sizes(2) replied(1) sv1 by simp
  let ?p = "\<lparr>ps_pdu_key = (fst rkey, client @ ''Res''), ps_pdu_data = rep\<rparr>"
  let ?cl3 = "RpcClient_on_recv E rkey rep cl2 wc2"
  have cl3: "?cl3 = cl2\<lparr>rcl_pending_responses := rcl_pending_responses cl @ [?p]\<rparr>"
    using response(1,2) client(1) cl1 call by (simp add: RpcClient_on_recv_def)
  have "RpcClient_poll E h r ?cl3 wc2 =
      (response_event ?cl3 (reply_header ?h status code), \<lparr>rp_header = reply_header ?h status code, rp_pdu = ps_pdu_data ?p\<rparr>,
       set_client_state CLIENT_STATE_IDLE (?cl3\<lparr>rcl_pending_responses := rcl_pending_responses cl @ []\<rparr>))"
    by (rule client_poll_hit)
      (use response(3,4) rep cl3 call hd in \<open>simp_all add: response_id_def reply_header_def response_timeout_def\<close>)
  moreover have "response_event ?cl3 (reply_header ?h status code) = RCE_RESPONSE_IN"
    using code cl3 call cl1 hd service client by (simp add: response_event_def reply_header_def)
  moreover have "?cl3\<lparr>rcl_pending_responses := rcl_pending_responses cl @ []\<rparr> = cl2"
    using cl3 call cl1 by simp
  ultimately show ?thesis using sv1 sv2 call cl1 hd service client by simp
qed

section \<open>Examples\<close>

definition rpc_example_world :: "uint64 \<Rightarrow> (bool list \<times> uint64) rpc_world" where
  "rpc_example_world now = \<lparr>rw_transport = ([], now), rw_defs = Some [], rw_outbox = []\<rparr>"

definition rpc_example_client :: RpcClientEndpointImpl where
  "rpc_example_client = new_RpcClientEndpointImpl ''S'' ''C'' True"

definition rpc_example_server :: RpcServerEndpointImpl where
  "rpc_example_server = set_status ''C'' SERVER_STATE_IDLE 0
     ((new_RpcServerEndpointImpl ''S'' True)\<lparr>rsv_registered_clients := [''C''], rsv_max_clients := 1\<rparr>)"

definition rpc_example_request :: "pdu_data \<times> RpcClientEndpointImpl" where
  "rpc_example_request =
     RpcClient_create_request_buffer rpc_example HAKO_SERVICE_OPERATION_CODE_REQUEST False [] rpc_example_client (rpc_example_world 0)"

definition rpc_example_calling :: RpcClientEndpointImpl where
  "rpc_example_calling = fst (snd (RpcClient_call rpc_example (fst rpc_example_request) 100 (snd rpc_example_request) (rpc_example_world 0)))"

definition rpc_empty_request :: RpcRequest where
  "rpc_empty_request = \<lparr>rr_client_name = [], rr_header = \<lparr>rqs_request_id = 0, rqs_service_name = [],
     rqs_client_name = [], rqs_opcode = 0, rqs_status_poll_interval_msec = 0\<rparr>, rr_pdu = []\<rparr>"

definition rpc_empty_header :: ServiceResponseHeader where
  "rpc_empty_header = \<lparr>rss_request_id = 0, rss_service_name = [], rss_client_name = [], rss_status = 0,
     rss_processing_percentage = 0, rss_result_code = 0\<rparr>"

definition rpc_empty_response :: RpcResponse where
  "rpc_empty_response = \<lparr>rp_header = rpc_empty_header, rp_pdu = []\<rparr>"

definition rpc_example_polled :: "RpcServerEventType \<times> RpcRequest \<times> RpcServerEndpointImpl \<times> (bool list \<times> uint64) rpc_world" where
  "rpc_example_polled = RpcServer_poll rpc_example rpc_empty_request
     (RpcServer_on_recv rpc_example (''S'', 1) (fst rpc_example_request) rpc_example_server (rpc_example_world 5)) (rpc_example_world 5)"

lemma example_server_ok:
  "rpc_server_inv rpc_example_server" "rsv_has_endpoint rpc_example_server" "rsv_service_name rpc_example_server = ''S''"
  "slots rpc_example_server ''C'' = Some SlotIdle" "rsv_pending_requests rpc_example_server = []"
proof -
  have "rpc_server_inv (new_RpcServerEndpointImpl ''S'' True)"
    by (simp add: rpc_server_inv_def new_RpcServerEndpointImpl_def)
  then have "rpc_server_inv ((new_RpcServerEndpointImpl ''S'' True)\<lparr>rsv_max_clients := 1\<rparr>)"
    by (simp add: rpc_server_inv_def new_RpcServerEndpointImpl_def)
  from rpc_inv_register [OF this, of "''C''"] show "rpc_server_inv rpc_example_server"
    by (simp add: rpc_example_server_def new_RpcServerEndpointImpl_def)
  show "rsv_has_endpoint rpc_example_server" "rsv_service_name rpc_example_server = ''S''"
    "slots rpc_example_server ''C'' = Some SlotIdle" "rsv_pending_requests rpc_example_server = []"
    by (simp_all add: rpc_example_server_def set_status_def new_RpcServerEndpointImpl_def slots_def slot_of_def)
qed

lemma example_call:
  "RpcClient_call rpc_example (fst rpc_example_request) 100 (snd rpc_example_request) (rpc_example_world 0)
    = (True, rpc_example_calling, (rpc_example_world 0)\<lparr>rw_outbox := [((''S'', ''CReq''), fst rpc_example_request)]\<rparr>)"
  by (simp add: rpc_example_calling_def RpcClient_call_def RpcClient_send_request_def rpc_send_def rpc_example_def
      rpc_example_world_def rpc_example_request_def RpcClient_create_request_buffer_def rpc_example_client_def
      new_RpcClientEndpointImpl_def Let_def)

lemma example_calling:
  "rcl_pending_responses rpc_example_calling = []" "rcl_client_state rpc_example_calling = \<lparr>cps_request_id = 1, cps_state = CLIENT_STATE_RUNNING\<rparr>"
  "rcl_current_timeout_usec rpc_example_calling = 100" "rcl_request_start_time_usec rpc_example_calling = 0"
  "rcl_has_endpoint rpc_example_calling" "rcl_client_name rpc_example_calling = ''C''" "rcl_service_name rpc_example_calling = ''S''"
  "rcl_current_request_id rpc_example_calling = 1"
  by (simp_all add: rpc_example_calling_def RpcClient_call_def RpcClient_send_request_def rpc_send_def rpc_example_def
      rpc_example_world_def rpc_example_request_def RpcClient_create_request_buffer_def rpc_example_client_def
      new_RpcClientEndpointImpl_def Let_def)

lemma example_names: "fits_name 8 ''S''" "fits_name 8 ''C''"
  by (simp_all add: fits_name_def char_of_def)

theorem rpc_call_roundtrip_witness:
  "fst (RpcClient_poll rpc_example rpc_empty_header rpc_empty_response
     (RpcClient_on_recv rpc_example (''S'', 2)
        (RpcServer_create_reply_buffer rpc_example (rr_header (fst (snd rpc_example_polled))) 2 0 [] (rpc_example_world 5))
        rpc_example_calling (rpc_example_world 9))
     (rpc_example_world 9)) = RCE_RESPONSE_IN"
proof -
  obtain ev q' sv1 ws1 where p: "rpc_example_polled = (ev, q', sv1, ws1)" by (metis surj_pair)
  obtain sv2 ws2 where s: "RpcServer_send_reply rpc_example (rr_client_name q')
      (RpcServer_create_reply_buffer rpc_example (rr_header q') 2 0 [] ws1) sv1 ws1 = (sv2, ws2)" by (metis surj_pair)
  have same: "RpcServer_create_reply_buffer rpc_example h 2 0 [] v = RpcServer_create_reply_buffer rpc_example h 2 0 [] (rpc_example_world 5)" for h v
    by (simp add: RpcServer_create_reply_buffer_def rpc_example_def)
  have cl: "''C'' = rcl_client_name rpc_example_client" "''S'' = rcl_service_name rpc_example_client"
    "rcl_has_endpoint rpc_example_client"
    "\<forall>x\<in>set (rcl_pending_responses rpc_example_client). response_id rpc_example rpc_empty_header x \<noteq> cps_request_id (rcl_client_state rpc_example_calling)"
    by (simp_all add: rpc_example_client_def new_RpcClientEndpointImpl_def)
  have env: "26 \<le> unat (get_pdu_size rpc_example d k)" "get_pdu_name rpc_example d (''S'', 2) = ''C'' @ ''Res''" for d k
    by (simp_all add: rpc_example_def)
  have time: "\<not> response_timeout (rpc_microseconds rpc_example (rw_transport (rpc_example_world 9))) rpc_example_calling"
    by (simp add: response_timeout_def rpc_example_def rpc_example_world_def example_calling)
  have created: "RpcClient_create_request_buffer rpc_example HAKO_SERVICE_OPERATION_CODE_REQUEST False [] rpc_example_client (rpc_example_world 0)
      = (fst rpc_example_request, snd rpc_example_request)"
    by (simp add: rpc_example_request_def)
  have code: "sint (0 :: int32) < HAKO_SERVICE_RESULT_CODE_NUM" "(0 :: int32) \<noteq> HAKO_SERVICE_RESULT_CODE_CANCELED"
    by (simp_all add: rpc_constants)
  from rpc_call_roundtrip [OF rpc_codec_ok_example cl(2) example_names(1) cl(1) example_names(2) _ env(1) env(1)
      created example_call example_server_ok p [unfolded rpc_example_polled_def] refl s cl(3) env(2) cl(4) time code, of rpc_empty_response]
  have "fst (RpcClient_poll rpc_example rpc_empty_header rpc_empty_response
     (RpcClient_on_recv rpc_example (''S'', 2) (RpcServer_create_reply_buffer rpc_example (rr_header q') 2 0 [] ws1)
        rpc_example_calling (rpc_example_world 9)) (rpc_example_world 9)) = RCE_RESPONSE_IN"
    by simp
  then show ?thesis unfolding same [of "rr_header q'" ws1] by (simp add: p)
qed

definition rpc_example_busy :: "RpcServerEndpointImpl" where
  "rpc_example_busy = (set_status ''C'' SERVER_STATE_RUNNING 7 rpc_example_server)
     \<lparr>rsv_pending_requests := [\<lparr>pr_pdu_key = (''S'', ''CReq''), pr_pdu_data = fst rpc_example_request\<rparr>]\<rparr>"

lemma example_busy:
  "rpc_server_inv rpc_example_busy" "slots rpc_example_busy ''C'' = Some (SlotRunning 7)"
  "rsv_service_name rpc_example_busy = ''S''" "rsv_registered_clients rpc_example_busy = [''C'']"
  "\<not> rsv_dynamic_client rpc_example_busy"
  "rsv_pending_requests rpc_example_busy = [\<lparr>pr_pdu_key = (''S'', ''CReq''), pr_pdu_data = fst rpc_example_request\<rparr>]"
proof -
  have "''C'' \<in> set (rsv_registered_clients rpc_example_server)" by (simp add: rpc_example_server_def)
  from rpc_inv_set_status [OF example_server_ok(1) this, of SERVER_STATE_RUNNING 7]
  show "rpc_server_inv rpc_example_busy" by (simp add: rpc_example_busy_def)
qed (simp_all add: rpc_example_busy_def rpc_example_server_def slot_of_def new_RpcServerEndpointImpl_def)

lemma example_request_header:
  "request_pdu2cpp rpc_example (fst rpc_example_request) h0 = request_service_header rpc_example_client HAKO_SERVICE_OPERATION_CODE_REQUEST 1"
proof -
  have "RpcClient_create_request_buffer rpc_example HAKO_SERVICE_OPERATION_CODE_REQUEST False [] rpc_example_client (rpc_example_world 0)
      = (fst rpc_example_request, snd rpc_example_request)" by (simp add: rpc_example_request_def)
  moreover have "26 \<le> unat (get_pdu_size rpc_example d k)" for d k by (simp add: rpc_example_def)
  moreover have "rcl_current_request_id rpc_example_client = 0" "rcl_service_name rpc_example_client = ''S''" "rcl_client_name rpc_example_client = ''C''"
    by (simp_all add: rpc_example_client_def new_RpcClientEndpointImpl_def)
  ultimately show ?thesis
    using created_request_readable [OF rpc_codec_ok_example, of rpc_example_client "rpc_example_world 0"
        HAKO_SERVICE_OPERATION_CODE_REQUEST "[]" "fst rpc_example_request" "snd rpc_example_request"]
    by (simp add: example_names)
qed

theorem rpc_server_poll_refines_slots_witness:
  "\<exists>ev q' st' w'. RpcServer_poll rpc_example rpc_empty_request rpc_example_busy (rpc_example_world 5) = (ev, q', st', w')
    \<and> ev = RSE_NONE \<and> slots st' ''C'' = Some SlotIdle"
proof -
  obtain ev q' st' w' where p: "RpcServer_poll rpc_example rpc_empty_request rpc_example_busy (rpc_example_world 5) = (ev, q', st', w')"
    by (metis surj_pair)
  from rpc_server_poll_refines_slots [OF example_busy(1,6) p refl] p show ?thesis
    by (simp add: example_request_header request_service_header_def rpc_example_client_def new_RpcClientEndpointImpl_def
        follows_def answer_request_def refuse_request_def accepts_request_def example_busy rpc_constants)
qed

theorem rpc_server_busy_reply_discards_running_request_witness:
  "\<exists>st' w'. snd (snd (RpcServer_poll rpc_example rpc_empty_request rpc_example_busy (rpc_example_world 5))) = (st', w')
    \<and> RpcServer_send_reply rpc_example ''C'' [1, 2, 3] st' w' = (st', w')"
proof -
  obtain ev q' st' w' where p: "RpcServer_poll rpc_example rpc_empty_request rpc_example_busy (rpc_example_world 5) = (ev, q', st', w')"
    by (metis surj_pair)
  let ?h = "request_service_header rpc_example_client HAKO_SERVICE_OPERATION_CODE_REQUEST 1"
  have h: "rqs_client_name ?h = ''C''" "rqs_service_name ?h = ''S''" "rqs_opcode ?h = HAKO_SERVICE_OPERATION_CODE_REQUEST"
    by (simp_all add: request_service_header_def rpc_example_client_def new_RpcClientEndpointImpl_def)
  have "accepts_request rpc_example_busy (rpc_example_world 5) ?h"
    unfolding accepts_request_def h by (simp add: example_busy rpc_constants)
  with rpc_server_busy_reply_discards_running_request [OF example_busy(1,6) _ _ h(3) _ p, of 7 "[1, 2, 3]"]
  have "RpcServer_send_reply rpc_example ''C'' [1, 2, 3] st' w' = (st', w')"
    by (auto simp: example_request_header h example_busy)
  with p show ?thesis by (metis snd_conv)
qed

definition example_response :: "uint32 \<Rightarrow> int32 \<Rightarrow> pdu_data" where
  "example_response i code = response_cpp2pdu rpc_example
     \<lparr>rss_request_id = i, rss_service_name = ''S'', rss_client_name = ''C'', rss_status = 2,
      rss_processing_percentage = 100, rss_result_code = code\<rparr> (replicate 40 0)"

lemma example_response_header:
  "response_pdu2cpp rpc_example (example_response i code) h0 =
     \<lparr>rss_request_id = i, rss_service_name = ''S'', rss_client_name = ''C'', rss_status = 2,
      rss_processing_percentage = 100, rss_result_code = code\<rparr>"
  using rpc_codec_ok_example example_names by (simp add: rpc_codec_ok_def example_response_def)

lemma example_clock [simp]: "rpc_microseconds rpc_example (rw_transport (rpc_example_world t)) = t"
  by (simp add: rpc_example_def rpc_example_world_def)

theorem rpc_client_poll_takes_matching_response_witness:
  "fst (RpcClient_poll rpc_example rpc_empty_header rpc_empty_response
     (rpc_example_calling\<lparr>rcl_pending_responses :=
        [\<lparr>ps_pdu_key = (''S'', ''CRes''), ps_pdu_data = example_response 9 0\<rparr>,
         \<lparr>ps_pdu_key = (''S'', ''CRes''), ps_pdu_data = example_response 1 2\<rparr>]\<rparr>) (rpc_example_world 9)) = RCE_RESPONSE_CANCEL"
  using rpc_client_poll_takes_matching_response [of
      "rpc_example_calling\<lparr>rcl_pending_responses :=
        [\<lparr>ps_pdu_key = (''S'', ''CRes''), ps_pdu_data = example_response 9 0\<rparr>,
         \<lparr>ps_pdu_key = (''S'', ''CRes''), ps_pdu_data = example_response 1 2\<rparr>]\<rparr>" rpc_example "rpc_example_world 9" 1
      "[\<lparr>ps_pdu_key = (''S'', ''CRes''), ps_pdu_data = example_response 9 0\<rparr>]"
      "[\<lparr>ps_pdu_key = (''S'', ''CRes''), ps_pdu_data = example_response 1 2\<rparr>]" rpc_empty_header rpc_empty_response]
  by (simp add: example_calling response_id_def example_response_header response_timeout_def response_event_def rpc_constants)

theorem rpc_client_late_response_delivered_after_cancel_witness:
  "\<exists>st1 st2 w'. st1 = RpcClient_on_recv rpc_example (''S'', 2) (example_response 1 0) rpc_example_calling (rpc_example_world 300)
    \<and> RpcClient_send_cancel_request rpc_example st1 (rpc_example_world 300) = (True, st2, w')
    \<and> fst (RpcClient_poll rpc_example rpc_empty_header rpc_empty_response st1 (rpc_example_world 300)) = RCE_RESPONSE_TIMEOUT
    \<and> fst (RpcClient_poll rpc_example rpc_empty_header rpc_empty_response st2 w') = RCE_RESPONSE_IN"
proof -
  let ?st1 = "RpcClient_on_recv rpc_example (''S'', 2) (example_response 1 0) rpc_example_calling (rpc_example_world 300)"
  obtain ok st2 w' where c: "RpcClient_send_cancel_request rpc_example ?st1 (rpc_example_world 300) = (ok, st2, w')"
    by (metis surj_pair)
  have name: "get_pdu_name rpc_example d (''S'', 2) = rcl_client_name rpc_example_calling @ ''Res''" for d
    by (simp add: rpc_example_def example_calling)
  have "ok"
    using c by (auto simp: RpcClient_send_cancel_request_def RpcClient_on_recv_def name example_calling RpcClient_create_request_buffer_def
        Let_def RpcClient_send_request_def rpc_send_def rpc_example_world_def rpc_example_def split: prod.splits if_splits)
  with c rpc_client_late_response_delivered_after_cancel [of 200 rpc_example_calling rpc_example "rpc_example_world 300"
      rpc_empty_header "(''S'', 2)" "example_response 1 0", OF _ _ _ _ refl _ name refl _ _]
  show ?thesis
    by (simp add: example_calling response_timeout_def example_response_header response_event_def rpc_constants)
qed

theorem rpc_client_stale_response_not_delivered_witness:
  "\<exists>st1 w1. RpcClient_call rpc_example [] 100 (create_requests rpc_example 0 [[]] (set_client_state CLIENT_STATE_IDLE rpc_example_calling) (rpc_example_world 0))
     (rpc_example_world 0) = (True, st1, w1) \<and> cps_request_id (rcl_client_state st1) \<noteq> 1"
proof -
  let ?st = "set_client_state CLIENT_STATE_IDLE rpc_example_calling"
  obtain ok st1 w1 where c: "RpcClient_call rpc_example [] 100 (create_requests rpc_example 0 [[]] ?st (rpc_example_world 0)) (rpc_example_world 0) = (ok, st1, w1)"
    by (metis surj_pair)
  obtain ev r' st2 where p: "RpcClient_poll rpc_example rpc_empty_header rpc_empty_response (st1\<lparr>rcl_pending_responses := []\<rparr>) w1 = (ev, r', st2)"
    by (metis surj_pair)
  have "ok"
    using c create_requests_id [of rpc_example 0 "[[]]" ?st "rpc_example_world 0"]
    by (auto simp: RpcClient_call_def Let_def RpcClient_send_request_def rpc_send_def rpc_example_world_def
        rpc_example_def split: prod.splits if_splits)
  with c p rpc_client_stale_response_not_delivered [of "[[]]" 1 ?st rpc_example "[]" 100 0 "rpc_example_world 0" st1 w1]
  show ?thesis by (simp add: example_calling)
qed

end
