(* ===== verification/Rpc_Services.thy ===== *)
theory Rpc_Services
  imports Rpc_Client_Endpoint Rpc_Server_Endpoint
begin

text \<open>
  The RPC services, \<open>src/rpc_services_server.cpp\<close> and \<open>src/rpc_services_client.cpp\<close>: one RPC
  endpoint per configured service, kept in a map by service name.

  Each RPC endpoint works on one communication endpoint; several may share one. An endpoint
  is a reference of type \<open>'e\<close>, and the worlds of all of them are a function of it. The
  endpoint container is a lookup from endpoint ids to references. The \<open>endpoint_container_\<close>
  members are only read by the function that sets them.
\<close>

type_synonym ('e, 'w) rpc_worlds = "'e \<Rightarrow> 'w rpc_world"

text \<open>\<open>rpc_endpoints_[key] = value\<close>.\<close>

definition sm_assign :: "'k::linorder \<Rightarrow> 'v \<Rightarrow> ('k, 'v) std_map \<Rightarrow> ('k, 'v) std_map" where
  "sm_assign k v m = sm_update k (\<lambda>_. v) (sm_emplace k v m)"

lemma sm_find_assign [simp]: "sm_find (sm_assign k v m) k' = (if k' = k then Some v else sm_find m k')"
  by (cases "sm_find m k") (simp_all add: sm_assign_def sm_emplace_present)

lemma sm_ok_assign [simp]: "sm_ok m \<Longrightarrow> sm_ok (sm_assign k v m)"
  by (simp add: sm_assign_def)

text \<open>Reading and parsing the configuration file: \<open>None\<close> when it cannot be opened or parsed.\<close>

type_synonym 'j config_file = "string \<Rightarrow> 'j option"

section \<open>Server\<close>

record 'e RpcServicesServer =
  rsvc_node_id :: string
  rsvc_impl_type :: string
  rsvc_service_config_path :: string
  rsvc_rpc_endpoints :: "(string, 'e \<times> RpcServerEndpointImpl) std_map"

definition new_RpcServicesServer :: "string \<Rightarrow> string \<Rightarrow> string \<Rightarrow> 'e RpcServicesServer" where
  "new_RpcServicesServer node_id impl_type path =
     \<lparr>rsvc_node_id = node_id, rsvc_impl_type = impl_type, rsvc_service_config_path = path, rsvc_rpc_endpoints = []\<rparr>"

definition RpcServicesServer_stop_all_services :: "'e RpcServicesServer \<Rightarrow> 'e RpcServicesServer" where
  "RpcServicesServer_stop_all_services s =
     s\<lparr>rsvc_rpc_endpoints := map (\<lambda>(n, e, st). (n, e, RpcServer_clear_pending_requests st)) (rsvc_rpc_endpoints s)\<rparr>"

text \<open>The search for this node in \<open>server_endpoints\<close>; \<open>None\<close> is an exception, \<open>Some None\<close> not found.\<close>

fun find_server_endpoint :: "'j rpc_json \<Rightarrow> string \<Rightarrow> 'j list \<Rightarrow> string option option" where
  "find_server_endpoint J node [] = Some None"
| "find_server_endpoint J node (ep # eps) =
     (case rj_at J ep ''nodeId'' of
        None \<Rightarrow> None
      | Some n \<Rightarrow>
          if rj_string J n \<noteq> Some node then find_server_endpoint J node eps
          else map_option Some (rj_at_string J ep ''endpointId''))"

definition server_pdu_endpoint ::
    "'j rpc_json \<Rightarrow> string \<Rightarrow> (string \<Rightarrow> 'e option) \<Rightarrow> 'e option \<Rightarrow> 'j \<Rightarrow> 'e option" where
  "server_pdu_endpoint J node container endpoint_override entry =
     (case endpoint_override of
        Some e \<Rightarrow> Some e
      | None \<Rightarrow>
          if \<not> rj_contains J entry ''server_endpoints'' then None
          else case rj_at J entry ''server_endpoints'' of
            None \<Rightarrow> None
          | Some eps \<Rightarrow>
              if \<not> rj_is_array J eps then None
              else case find_server_endpoint J node (rj_elements J eps) of
                Some (Some i) \<Rightarrow> container i
              | _ \<Rightarrow> None)"

text \<open>The loop over the service entries; any failure ends it.\<close>

fun server_initialize_entries ::
    "'j rpc_json \<Rightarrow> int \<Rightarrow> (string \<Rightarrow> 'e option) \<Rightarrow> 'e option \<Rightarrow> string option \<Rightarrow> 'j list
     \<Rightarrow> 'e RpcServicesServer \<Rightarrow> ('e, 'w) rpc_worlds \<Rightarrow> bool \<times> 'e RpcServicesServer \<times> ('e, 'w) rpc_worlds" where
  "server_initialize_entries J meta container endpoint_override client_node_id [] s ws = (True, s, ws)"
| "server_initialize_entries J meta container endpoint_override client_node_id (entry # entries) s ws =
     (case rj_at_string J entry ''name'' of
        None \<Rightarrow> (False, s, ws)
      | Some name \<Rightarrow>
          (case server_pdu_endpoint J (rsvc_node_id s) container endpoint_override entry of
             None \<Rightarrow> (False, s, ws)
           | Some e \<Rightarrow>
               if rsvc_impl_type s \<noteq> ''RpcServerEndpointImpl'' then (False, s, ws)
               else (case RpcServer_initialize J entry meta client_node_id (new_RpcServerEndpointImpl name True) (ws e) of
                       (False, st, w) \<Rightarrow> (False, s, ws(e := w))
                     | (True, st, w) \<Rightarrow>
                         server_initialize_entries J meta container endpoint_override client_node_id entries
                           (s\<lparr>rsvc_rpc_endpoints := sm_assign name (e, st) (rsvc_rpc_endpoints s)\<rparr>) (ws(e := w)))))"

definition RpcServicesServer_initialize_services_impl ::
    "'j rpc_json \<Rightarrow> 'j config_file \<Rightarrow> (string \<Rightarrow> 'e option) option \<Rightarrow> 'e option \<Rightarrow> string option
     \<Rightarrow> 'e RpcServicesServer \<Rightarrow> ('e, 'w) rpc_worlds \<Rightarrow> bool \<times> 'e RpcServicesServer \<times> ('e, 'w) rpc_worlds" where
  "RpcServicesServer_initialize_services_impl J file container endpoint_override client_node_id s ws =
     (if container = None \<and> endpoint_override = None then (False, s, ws)
      else case file (rsvc_service_config_path s) of
        None \<Rightarrow> (False, s, ws)
      | Some config \<Rightarrow>
          (case (rj_value_int J config ''pduMetaDataSize'' 24, rj_member_list J config ''services'') of
             (Some meta, Some entries) \<Rightarrow>
               (case server_initialize_entries J meta (case container of None \<Rightarrow> (\<lambda>_. None) | Some c \<Rightarrow> c)
                       endpoint_override client_node_id entries s ws of
                  (True, s', ws') \<Rightarrow> (True, s', ws')
                | (False, s', ws') \<Rightarrow> (False, RpcServicesServer_stop_all_services s', ws'))
           | _ \<Rightarrow> (False, RpcServicesServer_stop_all_services s, ws)))"

definition RpcServicesServer_start_all_services :: "'e RpcServicesServer \<Rightarrow> bool \<times> 'e RpcServicesServer" where
  "RpcServicesServer_start_all_services s = (True, s)"

text \<open>
  \<open>poll\<close>: the endpoints in the order of their names until one gives an event. The request
  object is the same for all of them.
\<close>

fun poll_server_endpoints ::
    "'w rpc_env \<Rightarrow> RpcRequest \<Rightarrow> (string, 'e \<times> RpcServerEndpointImpl) std_map \<Rightarrow> ('e, 'w) rpc_worlds
     \<Rightarrow> RpcServerEventType \<times> RpcRequest \<times> (string, 'e \<times> RpcServerEndpointImpl) std_map \<times> ('e, 'w) rpc_worlds" where
  "poll_server_endpoints E q [] ws = (RSE_NONE, q, [], ws)"
| "poll_server_endpoints E q ((n, e, st) # xs) ws =
     (case RpcServer_poll E q st (ws e) of
        (ev, q', st', w') \<Rightarrow>
          if ev \<noteq> RSE_NONE then (ev, q', (n, e, st') # xs, ws(e := w'))
          else (case poll_server_endpoints E q' xs (ws(e := w')) of
                  (ev2, q2, ys, ws2) \<Rightarrow> (ev2, q2, (n, e, st') # ys, ws2)))"

definition RpcServicesServer_poll ::
    "'w rpc_env \<Rightarrow> RpcRequest \<Rightarrow> 'e RpcServicesServer \<Rightarrow> ('e, 'w) rpc_worlds
     \<Rightarrow> RpcServerEventType \<times> RpcRequest \<times> 'e RpcServicesServer \<times> ('e, 'w) rpc_worlds" where
  "RpcServicesServer_poll E q s ws =
     (case poll_server_endpoints E q (rsvc_rpc_endpoints s) ws of
        (ev, q', xs, ws') \<Rightarrow> (ev, q', s\<lparr>rsvc_rpc_endpoints := xs\<rparr>, ws'))"

text \<open>A reply operation goes to the endpoint of the service named in the header.\<close>

definition RpcServicesServer_create_reply_buffer ::
    "'w rpc_env \<Rightarrow> ServiceRequestHeader \<Rightarrow> byte \<Rightarrow> int32 \<Rightarrow> pdu_data \<Rightarrow> 'e RpcServicesServer \<Rightarrow> ('e, 'w) rpc_worlds \<Rightarrow> pdu_data" where
  "RpcServicesServer_create_reply_buffer E header status result_code pdu s ws =
     (case sm_find (rsvc_rpc_endpoints s) (rqs_service_name header) of
        None \<Rightarrow> pdu
      | Some (e, st) \<Rightarrow> RpcServer_create_reply_buffer E header status result_code pdu (ws e))"

definition RpcServicesServer_send_reply ::
    "'w rpc_env \<Rightarrow> ServiceRequestHeader \<Rightarrow> pdu_data \<Rightarrow> 'e RpcServicesServer \<Rightarrow> ('e, 'w) rpc_worlds
     \<Rightarrow> 'e RpcServicesServer \<times> ('e, 'w) rpc_worlds" where
  "RpcServicesServer_send_reply E header pdu s ws =
     (case sm_find (rsvc_rpc_endpoints s) (rqs_service_name header) of
        None \<Rightarrow> (s, ws)
      | Some (e, st) \<Rightarrow>
          (case RpcServer_send_reply E (rqs_client_name header) pdu st (ws e) of
             (st', w') \<Rightarrow> (s\<lparr>rsvc_rpc_endpoints := sm_update (rqs_service_name header) (\<lambda>_. (e, st')) (rsvc_rpc_endpoints s)\<rparr>,
                          ws(e := w'))))"

definition RpcServicesServer_send_cancel_reply ::
    "'w rpc_env \<Rightarrow> ServiceRequestHeader \<Rightarrow> pdu_data \<Rightarrow> 'e RpcServicesServer \<Rightarrow> ('e, 'w) rpc_worlds
     \<Rightarrow> 'e RpcServicesServer \<times> ('e, 'w) rpc_worlds" where
  "RpcServicesServer_send_cancel_reply E header pdu s ws =
     (case sm_find (rsvc_rpc_endpoints s) (rqs_service_name header) of
        None \<Rightarrow> (s, ws)
      | Some (e, st) \<Rightarrow>
          (case RpcServer_send_cancel_reply E (rqs_client_name header) pdu st (ws e) of
             (st', w') \<Rightarrow> (s\<lparr>rsvc_rpc_endpoints := sm_update (rqs_service_name header) (\<lambda>_. (e, st')) (rsvc_rpc_endpoints s)\<rparr>,
                          ws(e := w'))))"

definition RpcServicesServer_clear_all_instances :: "'e RpcServicesServer \<Rightarrow> 'e RpcServicesServer" where
  "RpcServicesServer_clear_all_instances s =
     s\<lparr>rsvc_rpc_endpoints := map (\<lambda>(n, e, st). (n, e, RpcServer_clear_pending_requests st)) (rsvc_rpc_endpoints s)\<rparr>"

text \<open>A packet received on an endpoint by the subscription of a service.\<close>

definition RpcServicesServer_receive ::
    "'w rpc_env \<Rightarrow> string \<Rightarrow> rpc_resolved_key \<Rightarrow> pdu_data \<Rightarrow> 'e RpcServicesServer \<Rightarrow> ('e, 'w) rpc_worlds \<Rightarrow> 'e RpcServicesServer" where
  "RpcServicesServer_receive E service key data s ws =
     s\<lparr>rsvc_rpc_endpoints := sm_update service (\<lambda>(e, st). (e, RpcServer_on_recv E key data st (ws e))) (rsvc_rpc_endpoints s)\<rparr>"

section \<open>Client\<close>

record 'e RpcServicesClient =
  rcvc_node_id :: string
  rcvc_client_name :: string
  rcvc_config_path :: string
  rcvc_rpc_endpoints :: "(string, 'e \<times> RpcClientEndpointImpl) std_map"

definition new_RpcServicesClient :: "string \<Rightarrow> string \<Rightarrow> string \<Rightarrow> 'e RpcServicesClient" where
  "new_RpcServicesClient node_id client_name path =
     \<lparr>rcvc_node_id = node_id, rcvc_client_name = client_name, rcvc_config_path = path, rcvc_rpc_endpoints = []\<rparr>"

definition RpcServicesClient_stop_all_services :: "'e RpcServicesClient \<Rightarrow> 'e RpcServicesClient" where
  "RpcServicesClient_stop_all_services s =
     s\<lparr>rcvc_rpc_endpoints := map (\<lambda>(n, e, st). (n, e, RpcClient_clear_pending_responses st)) (rcvc_rpc_endpoints s)\<rparr>"

text \<open>
  The search for this client in \<open>clients\<close>: the node and endpoint of the first entry with its
  name. \<open>None\<close> is an exception, \<open>Some None\<close> not found.
\<close>

fun find_client_endpoint :: "'j rpc_json \<Rightarrow> string \<Rightarrow> 'j list \<Rightarrow> (string \<times> string) option option" where
  "find_client_endpoint J name [] = Some None"
| "find_client_endpoint J name (c # cs) =
     (case rj_at J c ''name'' of
        None \<Rightarrow> None
      | Some n \<Rightarrow>
          if rj_string J n \<noteq> Some name then find_client_endpoint J name cs
          else case rj_at J c ''client_endpoint'' of
            None \<Rightarrow> None
          | Some ep \<Rightarrow>
              (case (rj_at_string J ep ''nodeId'', rj_at_string J ep ''endpointId'') of
                 (Some node, Some i) \<Rightarrow> Some (Some (node, i))
               | _ \<Rightarrow> None))"

fun client_initialize_entries ::
    "'j rpc_json \<Rightarrow> int \<Rightarrow> (string \<Rightarrow> 'e option) \<Rightarrow> 'j list \<Rightarrow> 'e RpcServicesClient \<Rightarrow> ('e, 'w) rpc_worlds
     \<Rightarrow> bool \<times> 'e RpcServicesClient \<times> ('e, 'w) rpc_worlds" where
  "client_initialize_entries J meta container [] s ws = (True, s, ws)"
| "client_initialize_entries J meta container (entry # entries) s ws =
     (case rj_at_string J entry ''name'' of
        None \<Rightarrow> (False, s, ws)
      | Some service \<Rightarrow>
          (case rj_at J entry ''clients'' of
             None \<Rightarrow> (False, s, ws)
           | Some cs \<Rightarrow>
               (case find_client_endpoint J (rcvc_client_name s) (rj_elements J cs) of
                  None \<Rightarrow> (False, s, ws)
                | Some None \<Rightarrow> client_initialize_entries J meta container entries s ws
                | Some (Some (node, i)) \<Rightarrow>
                    if node \<noteq> rcvc_node_id s then client_initialize_entries J meta container entries s ws
                    else (case container i of
                            None \<Rightarrow> (False, s, ws)
                          | Some e \<Rightarrow>
                              (case RpcClient_initialize J entry meta
                                      (new_RpcClientEndpointImpl service (rcvc_client_name s) True) (ws e) of
                                 (False, st, w) \<Rightarrow> (False, s, ws(e := w))
                               | (True, st, w) \<Rightarrow>
                                   client_initialize_entries J meta container entries
                                     (s\<lparr>rcvc_rpc_endpoints := sm_assign service (e, st) (rcvc_rpc_endpoints s)\<rparr>)
                                     (ws(e := w)))))))"

definition RpcServicesClient_initialize_services ::
    "'j rpc_json \<Rightarrow> 'j config_file \<Rightarrow> (string \<Rightarrow> 'e option) \<Rightarrow> 'e RpcServicesClient \<Rightarrow> ('e, 'w) rpc_worlds
     \<Rightarrow> bool \<times> 'e RpcServicesClient \<times> ('e, 'w) rpc_worlds" where
  "RpcServicesClient_initialize_services J file container s ws =
     (case file (rcvc_config_path s) of
        None \<Rightarrow> (False, s, ws)
      | Some config \<Rightarrow>
          (case (rj_value_int J config ''pduMetaDataSize'' 24, rj_member_list J config ''services'') of
             (Some meta, Some entries) \<Rightarrow>
               (case client_initialize_entries J meta container entries s ws of
                  (True, s', ws') \<Rightarrow> (True, s', ws')
                | (False, s', ws') \<Rightarrow> (False, RpcServicesClient_stop_all_services s', ws'))
           | _ \<Rightarrow> (False, RpcServicesClient_stop_all_services s, ws)))"

definition RpcServicesClient_start_all_services :: "'e RpcServicesClient \<Rightarrow> bool \<times> 'e RpcServicesClient" where
  "RpcServicesClient_start_all_services s = (True, s)"

definition RpcServicesClient_call ::
    "'w rpc_env \<Rightarrow> string \<Rightarrow> pdu_data \<Rightarrow> uint64 \<Rightarrow> 'e RpcServicesClient \<Rightarrow> ('e, 'w) rpc_worlds
     \<Rightarrow> bool \<times> 'e RpcServicesClient \<times> ('e, 'w) rpc_worlds" where
  "RpcServicesClient_call E service pdu timeout_usec s ws =
     (case sm_find (rcvc_rpc_endpoints s) service of
        None \<Rightarrow> (False, s, ws)
      | Some (e, st) \<Rightarrow>
          (case RpcClient_call E pdu timeout_usec st (ws e) of
             (ok, st', w') \<Rightarrow>
               (ok, s\<lparr>rcvc_rpc_endpoints := sm_update service (\<lambda>_. (e, st')) (rcvc_rpc_endpoints s)\<rparr>, ws(e := w'))))"

text \<open>
  \<open>poll\<close>: the endpoints in the order of their names until one gives an event, together with
  the name of its service. \<open>h\<close> is the uninitialised header of each endpoint's loop.
\<close>

fun poll_client_endpoints ::
    "'w rpc_env \<Rightarrow> ServiceResponseHeader \<Rightarrow> string \<Rightarrow> RpcResponse \<Rightarrow> (string, 'e \<times> RpcClientEndpointImpl) std_map
     \<Rightarrow> ('e, 'w) rpc_worlds
     \<Rightarrow> RpcClientEventType \<times> string \<times> RpcResponse \<times> (string, 'e \<times> RpcClientEndpointImpl) std_map" where
  "poll_client_endpoints E h service r [] ws = (RCE_NONE, service, r, [])"
| "poll_client_endpoints E h service r ((n, e, st) # xs) ws =
     (case RpcClient_poll E h r st (ws e) of
        (ev, r', st') \<Rightarrow>
          if ev \<noteq> RCE_NONE then (ev, n, r', (n, e, st') # xs)
          else (case poll_client_endpoints E h service r' xs ws of
                  (ev2, service2, r2, ys) \<Rightarrow> (ev2, service2, r2, (n, e, st') # ys)))"

definition RpcServicesClient_poll ::
    "'w rpc_env \<Rightarrow> ServiceResponseHeader \<Rightarrow> string \<Rightarrow> RpcResponse \<Rightarrow> 'e RpcServicesClient \<Rightarrow> ('e, 'w) rpc_worlds
     \<Rightarrow> RpcClientEventType \<times> string \<times> RpcResponse \<times> 'e RpcServicesClient" where
  "RpcServicesClient_poll E h service r s ws =
     (case poll_client_endpoints E h service r (rcvc_rpc_endpoints s) ws of
        (ev, service', r', xs) \<Rightarrow> (ev, service', r', s\<lparr>rcvc_rpc_endpoints := xs\<rparr>))"

definition RpcServicesClient_send_cancel_request ::
    "'w rpc_env \<Rightarrow> string \<Rightarrow> 'e RpcServicesClient \<Rightarrow> ('e, 'w) rpc_worlds
     \<Rightarrow> bool \<times> 'e RpcServicesClient \<times> ('e, 'w) rpc_worlds" where
  "RpcServicesClient_send_cancel_request E service s ws =
     (case sm_find (rcvc_rpc_endpoints s) service of
        None \<Rightarrow> (False, s, ws)
      | Some (e, st) \<Rightarrow>
          (case RpcClient_send_cancel_request E st (ws e) of
             (ok, st', w') \<Rightarrow>
               (ok, s\<lparr>rcvc_rpc_endpoints := sm_update service (\<lambda>_. (e, st')) (rcvc_rpc_endpoints s)\<rparr>, ws(e := w'))))"

text \<open>
  \<open>create_request_buffer(service, opcode, pdu)\<close>; the overload without an operation code is the
  one for \<open>HAKO_SERVICE_OPERATION_CODE_REQUEST\<close>.
\<close>

definition RpcServicesClient_create_request_buffer ::
    "'w rpc_env \<Rightarrow> string \<Rightarrow> byte \<Rightarrow> pdu_data \<Rightarrow> 'e RpcServicesClient \<Rightarrow> ('e, 'w) rpc_worlds
     \<Rightarrow> bool \<times> pdu_data \<times> 'e RpcServicesClient" where
  "RpcServicesClient_create_request_buffer E service opcode pdu s ws =
     (case sm_find (rcvc_rpc_endpoints s) service of
        None \<Rightarrow> (False, pdu, s)
      | Some (e, st) \<Rightarrow>
          (case RpcClient_create_request_buffer E opcode (opcode = HAKO_SERVICE_OPERATION_CODE_CANCEL) pdu st (ws e) of
             (pdu', st') \<Rightarrow>
               (True, pdu', s\<lparr>rcvc_rpc_endpoints := sm_update service (\<lambda>_. (e, st')) (rcvc_rpc_endpoints s)\<rparr>)))"

definition RpcServicesClient_clear_all_instances :: "'e RpcServicesClient \<Rightarrow> 'e RpcServicesClient" where
  "RpcServicesClient_clear_all_instances s =
     s\<lparr>rcvc_rpc_endpoints := map (\<lambda>(n, e, st). (n, e, RpcClient_clear_pending_responses st)) (rcvc_rpc_endpoints s)\<rparr>"

end
