(* ===== verification/Rpc_Services_Properties.thy ===== *)
theory Rpc_Services_Properties
  imports Rpc_Services Rpc_Call
begin

text \<open>
  The RPC services over the RPC endpoints: the endpoints stay consistent and keep their
  service, a poll makes progress on every queued packet, and a reply finds the endpoint and
  the client its request came from.
\<close>

section \<open>The invariant\<close>

definition services_endpoint_ok :: "string \<times> 'e \<times> RpcServerEndpointImpl \<Rightarrow> bool" where
  "services_endpoint_ok x \<longleftrightarrow> (case x of (n, e, st) \<Rightarrow> rpc_server_inv st \<and> rsv_service_name st = n)"

definition rpc_services_ok :: "'e RpcServicesServer \<Rightarrow> bool" where
  "rpc_services_ok s \<longleftrightarrow>
     sm_ok (rsvc_rpc_endpoints s) \<and> (\<forall>x\<in>set (rsvc_rpc_endpoints s). services_endpoint_ok x)"

lemma set_sm_update: "set (sm_update k f m) \<subseteq> set m \<union> {(k, f v) | v. (k, v) \<in> set m}"
  unfolding sm_update_def by (induction m) auto

lemma set_sm_emplace: "set (sm_emplace k v m) \<subseteq> insert (k, v) (set m)"
  by (auto simp: sm_emplace_def set_insort_key split: option.splits)

lemma services_ok_assign:
  assumes "rpc_services_ok s" and "services_endpoint_ok (n, v)"
  shows "rpc_services_ok (s\<lparr>rsvc_rpc_endpoints := sm_assign n v (rsvc_rpc_endpoints s)\<rparr>)"
  using assms set_sm_update [of n "\<lambda>_. v" "sm_emplace n v (rsvc_rpc_endpoints s)"]
    set_sm_emplace [of n v "rsvc_rpc_endpoints s"]
  by (auto simp: rpc_services_ok_def sm_assign_def)

lemma services_ok_update:
  assumes "rpc_services_ok s" and "services_endpoint_ok (n, v)"
  shows "rpc_services_ok (s\<lparr>rsvc_rpc_endpoints := sm_update n (\<lambda>_. v) (rsvc_rpc_endpoints s)\<rparr>)"
  using assms set_sm_update [of n "\<lambda>_. v" "rsvc_rpc_endpoints s"]
  by (auto simp: rpc_services_ok_def)

lemma services_ok_find:
  "rpc_services_ok s \<Longrightarrow> sm_find (rsvc_rpc_endpoints s) n = Some (e, st) \<Longrightarrow>
   rpc_server_inv st \<and> rsv_service_name st = n"
  using sm_find_in_set [of "rsvc_rpc_endpoints s" n "(e, st)"]
  by (auto simp: rpc_services_ok_def services_endpoint_ok_def)

section \<open>Endpoints keep their service\<close>

lemma send_reply_service [simp]: "rsv_service_name (fst (RpcServer_send_reply E c p st w)) = rsv_service_name st"
  "rsv_service_name (fst (RpcServer_send_cancel_reply E c p st w)) = rsv_service_name st"
  "rsv_service_name (fst (RpcServer_send_error_reply E h r st w)) = rsv_service_name st"
  by (simp_all add: RpcServer_send_reply_def RpcServer_send_cancel_reply_def RpcServer_send_error_reply_def
      split: option.splits)

lemma validate_service [simp]: "rsv_service_name (fst (snd (RpcServer_validate_header h st w))) = rsv_service_name st"
  by (simp add: RpcServer_validate_header_def ensure_dynamic_client_def)

lemma handlers_service [simp]:
  "rsv_service_name (fst (snd (snd (handle_request_in E q st w)))) = rsv_service_name st"
  "rsv_service_name (fst (snd (snd (rpc_handle_cancel_request E q st w)))) = rsv_service_name st"
  by (simp_all add: handle_request_in_def rpc_handle_cancel_request_def Let_def case_prod_beta split: ServerState.split)

lemma process_service [simp]: "rsv_service_name (fst (snd (snd (RpcServer_process E q st w)))) = rsv_service_name st"
  by (simp add: RpcServer_process_def Let_def case_prod_beta split: bool.split)

lemma poll_service: "rsv_service_name (fst (snd (snd (RpcServer_poll E q st w)))) = rsv_service_name st"
  by (simp add: RpcServer_poll_def split: list.split)

lemma poll_endpoint_ok:
  assumes "RpcServer_poll E q st w = (ev, q', st', w')" and "services_endpoint_ok (n, e, st)"
  shows "services_endpoint_ok (n, e, st')"
  using assms rpc_poll_inv [of st E q w] poll_service [of E q st w] by (auto simp: services_endpoint_ok_def)

lemma poll_consumes:
  assumes "RpcServer_poll E q st w = (ev, q', st', w')" and "rpc_server_inv st"
  shows "length (rsv_pending_requests st') = length (rsv_pending_requests st) - 1"
proof (cases "rsv_pending_requests st")
  case Nil
  with assms show ?thesis by (simp add: RpcServer_poll_def)
next
  case (Cons p ps)
  from poll_follows [OF assms(2) Cons assms(1) refl] Cons show ?thesis
    by (auto simp: follows_def split: prod.splits)
qed

section \<open>One poll\<close>

definition queued :: "(string, 'e \<times> RpcServerEndpointImpl) std_map \<Rightarrow> nat" where
  "queued xs = (\<Sum>(n, e, st)\<leftarrow>xs. length (rsv_pending_requests st))"

lemma queued_simps [simp]:
  "queued [] = 0" "queued ((n, e, st) # xs) = length (rsv_pending_requests st) + queued xs"
  by (simp_all add: queued_def)

lemma poll_endpoints_effect:
  assumes "poll_server_endpoints E q xs ws = (ev, q', ys, ws')" and "\<forall>x\<in>set xs. services_endpoint_ok x"
  shows "map fst ys = map fst xs \<and> (\<forall>y\<in>set ys. services_endpoint_ok y) \<and> (queued ys < queued xs \<or> queued ys = 0)"
  using assms
proof (induction xs arbitrary: q ws ev q' ys ws')
  case (Cons x xs)
  obtain n e st where x: "x = (n, e, st)" by (cases x) auto
  obtain ev1 q1 st1 w1 where p: "RpcServer_poll E q st (ws e) = (ev1, q1, st1, w1)" by (metis surj_pair)
  have ok: "services_endpoint_ok (n, e, st1)" by (rule poll_endpoint_ok [OF p]) (use Cons.prems(2) x in simp)
  have len: "length (rsv_pending_requests st1) = length (rsv_pending_requests st) - 1"
    using poll_consumes [OF p] Cons.prems(2) x by (simp add: services_endpoint_ok_def)
  show ?case
  proof (cases "ev1 = RSE_NONE")
    case False
    moreover have "rsv_pending_requests st \<noteq> []" using p False by (auto simp: RpcServer_poll_def)
    then have "length (rsv_pending_requests st1) < length (rsv_pending_requests st)" using len by (cases "rsv_pending_requests st") simp_all
    ultimately show ?thesis using Cons.prems x p ok by auto
  next
    case True
    obtain ev2 q2 zs ws2 where r: "poll_server_endpoints E q1 xs (ws(e := w1)) = (ev2, q2, zs, ws2)" by (metis surj_pair)
    have "map fst zs = map fst xs \<and> (\<forall>y\<in>set zs. services_endpoint_ok y) \<and> (queued zs < queued xs \<or> queued zs = 0)"
      using Cons.IH [OF r] Cons.prems(2) by simp
    then show ?thesis using Cons.prems(1) x p True r ok len by auto
  qed
qed simp

text \<open>The endpoint an event came from, and that the endpoints keep their names and references.\<close>

lemma poll_endpoints_event:
  assumes "poll_server_endpoints E q xs ws = (ev, q', ys, ws')" and "ev \<noteq> RSE_NONE"
  shows "\<exists>n e st st' q0 w0. (n, e, st) \<in> set xs \<and> (n, e, st') \<in> set ys
    \<and> RpcServer_poll E q0 st w0 = (ev, q', st', ws' e)"
  using assms
proof (induction xs arbitrary: q ws ev q' ys ws')
  case (Cons x xs)
  obtain n e st where x: "x = (n, e, st)" by (cases x) auto
  obtain ev1 q1 st1 w1 where p: "RpcServer_poll E q st (ws e) = (ev1, q1, st1, w1)" by (metis surj_pair)
  show ?case
  proof (cases "ev1 = RSE_NONE")
    case False
    then have "ev = ev1" "q' = q1" "ys = (n, e, st1) # xs" "ws' = ws(e := w1)" using Cons.prems(1) x p by auto
    then show ?thesis using p x by (intro exI [of _ n] exI [of _ e] exI [of _ st] exI [of _ st1]) auto
  next
    case True
    obtain ev2 q2 zs ws2 where r: "poll_server_endpoints E q1 xs (ws(e := w1)) = (ev2, q2, zs, ws2)" by (metis surj_pair)
    then have "ev = ev2" "q' = q2" "ys = (n, e, st1) # zs" "ws' = ws2" using Cons.prems(1) x p True by auto
    with Cons.IH [OF r] Cons.prems(2) x show ?thesis by simp blast
  qed
qed simp

lemma services_poll_ok:
  assumes "rpc_services_ok s" and "RpcServicesServer_poll E q s ws = (ev, q', s', ws')"
  shows "rpc_services_ok s'" and "queued (rsvc_rpc_endpoints s') < queued (rsvc_rpc_endpoints s) \<or> queued (rsvc_rpc_endpoints s') = 0"
proof -
  obtain ys where p: "poll_server_endpoints E q (rsvc_rpc_endpoints s) ws = (ev, q', ys, ws')"
    and s': "s' = s\<lparr>rsvc_rpc_endpoints := ys\<rparr>"
    using assms(2) by (auto simp: RpcServicesServer_poll_def split: prod.splits)
  from poll_endpoints_effect [OF p] assms(1)
  show "rpc_services_ok s'" "queued (rsvc_rpc_endpoints s') < queued (rsvc_rpc_endpoints s) \<or> queued (rsvc_rpc_endpoints s') = 0"
    by (auto simp: rpc_services_ok_def s' sm_ok_def)
qed

section \<open>Initialisation\<close>

lemma initialize_service:
  "rsv_service_name (fst (snd (RpcServer_initialize J config meta node (new_RpcServerEndpointImpl name ep) w))) = name"
proof -
  have cs: "rsv_service_name (fst (snd (rpc_register_clients J config service meta node cs st w))) = rsv_service_name st"
    for service cs st and w :: "'a rpc_world"
  proof (induction cs arbitrary: st w)
    case (Cons c cs)
    have "rsv_service_name (fst (snd (rpc_register_client J config service meta c client st w))) = rsv_service_name st" for client
      by (simp add: rpc_register_client_def Let_def split: option.split)
    with Cons show ?case
      by (auto split: option.split prod.split bool.split) (metis fst_conv snd_conv)+
  qed simp
  have "rsv_service_name (fst (snd (rpc_initialize_dynamic J config service meta st w))) = rsv_service_name st"
    for service st and w :: "'a rpc_world"
    by (simp add: rpc_initialize_dynamic_def Let_def split: option.split)
  then show ?thesis
    by (auto simp: RpcServer_initialize_def Let_def cs new_RpcServerEndpointImpl_def split: option.split)
qed

lemma initialize_entries_ok:
  fixes s :: "'e RpcServicesServer" and ws :: "('e, 'w) rpc_worlds"
  shows "rpc_services_ok s \<Longrightarrow>
   rpc_services_ok (fst (snd (server_initialize_entries J meta container ov node entries s ws)))"
proof (induction entries arbitrary: s ws)
  case (Cons entry entries)
  have ok: "services_endpoint_ok (name, e, st)"
    if "RpcServer_initialize J entry meta node (new_RpcServerEndpointImpl name True) w = (r, st, w')" for name r st and e :: 'e and w w' :: "'w rpc_world"
    using initialize_service [of J entry meta node name True w] that
      rpc_initialize_inv [of J entry meta node name True w]
    by (simp add: services_endpoint_ok_def)
  then show ?case
    using Cons services_ok_assign [OF Cons.prems] by (auto split: option.split prod.split bool.split)
qed simp

lemma services_ok_stop: "rpc_services_ok s \<Longrightarrow> rpc_services_ok (RpcServicesServer_stop_all_services s)"
  by (auto simp: rpc_services_ok_def RpcServicesServer_stop_all_services_def services_endpoint_ok_def sm_ok_def
      RpcServer_clear_pending_requests_def comp_def case_prod_beta)

lemma services_initialize_ok:
  "rpc_services_ok (fst (snd (RpcServicesServer_initialize_services_impl J file container ov node
     (new_RpcServicesServer node_id impl path) ws)))"
proof -
  have "rpc_services_ok (new_RpcServicesServer node_id impl path)"
    by (simp add: rpc_services_ok_def new_RpcServicesServer_def)
  then show ?thesis
    by (auto simp: RpcServicesServer_initialize_services_impl_def case_prod_beta initialize_entries_ok services_ok_stop
        split: option.split bool.split)
qed

section \<open>Runs\<close>

datatype rpc_services_op =
    RpcServicesReceive string rpc_resolved_key pdu_data
  | RpcServicesPoll RpcRequest
  | RpcServicesReply ServiceRequestHeader pdu_data
  | RpcServicesCancelReply ServiceRequestHeader pdu_data
  | RpcServicesStop
  | RpcServicesClear

fun rpc_services_step ::
    "'w rpc_env \<Rightarrow> rpc_services_op \<Rightarrow> 'e RpcServicesServer \<times> ('e, 'w) rpc_worlds \<Rightarrow> 'e RpcServicesServer \<times> ('e, 'w) rpc_worlds" where
  "rpc_services_step E (RpcServicesReceive n k d) (s, ws) = (RpcServicesServer_receive E n k d s ws, ws)"
| "rpc_services_step E (RpcServicesPoll q) (s, ws) = snd (snd (RpcServicesServer_poll E q s ws))"
| "rpc_services_step E (RpcServicesReply h p) (s, ws) = RpcServicesServer_send_reply E h p s ws"
| "rpc_services_step E (RpcServicesCancelReply h p) (s, ws) = RpcServicesServer_send_cancel_reply E h p s ws"
| "rpc_services_step E RpcServicesStop (s, ws) = (RpcServicesServer_stop_all_services s, ws)"
| "rpc_services_step E RpcServicesClear (s, ws) = (RpcServicesServer_clear_all_instances s, ws)"

lemma services_receive_ok:
  assumes "rpc_services_ok s"
  shows "rpc_services_ok (RpcServicesServer_receive E n k d s ws)"
proof -
  have "services_endpoint_ok (n', e, RpcServer_on_recv E k d st w)" if "services_endpoint_ok (n', e, st)" for n' e st w
    using that by (simp add: services_endpoint_ok_def RpcServer_on_recv_def)
  then show ?thesis
    using assms set_sm_update [of n "\<lambda>(e, st). (e, RpcServer_on_recv E k d st (ws e))" "rsvc_rpc_endpoints s"]
    by (fastforce simp: rpc_services_ok_def RpcServicesServer_receive_def split: prod.splits)
qed

lemma services_reply_ok:
  assumes "rpc_services_ok s"
  shows "rpc_services_ok (fst (RpcServicesServer_send_reply E h p s ws))"
    and "rpc_services_ok (fst (RpcServicesServer_send_cancel_reply E h p s ws))"
proof -
  have f: "services_endpoint_ok (rqs_service_name h, e, fst (RpcServer_send_reply E c p st w))"
    "services_endpoint_ok (rqs_service_name h, e, fst (RpcServer_send_cancel_reply E c p st w))"
    if "sm_find (rsvc_rpc_endpoints s) (rqs_service_name h) = Some (e, st)" for c e st w
    using services_ok_find [OF assms that]
    by (simp_all add: services_endpoint_ok_def rpc_send_reply_inv rpc_send_cancel_reply_inv)
  show "rpc_services_ok (fst (RpcServicesServer_send_reply E h p s ws))"
    and "rpc_services_ok (fst (RpcServicesServer_send_cancel_reply E h p s ws))"
    using assms f services_ok_update [OF assms]
    by (auto simp: RpcServicesServer_send_reply_def RpcServicesServer_send_cancel_reply_def case_prod_beta split: option.splits)
qed

lemma services_step_ok:
  assumes "rpc_services_ok (fst c)"
  shows "rpc_services_ok (fst (rpc_services_step E x c))"
proof (cases c)
  case (Pair s ws)
  have "rpc_services_ok (fst (snd (snd (RpcServicesServer_poll E q s ws))))" for q
    using services_poll_ok(1) [of s E q ws] assms Pair by (metis fst_conv prod.collapse)
  then show ?thesis
    using assms Pair services_ok_stop [of s]
    by (cases x) (simp_all add: services_receive_ok services_reply_ok RpcServicesServer_clear_all_instances_def
        RpcServicesServer_stop_all_services_def)
qed

lemma services_run_ok: "rpc_services_ok (fst c) \<Longrightarrow> rpc_services_ok (fst (fold (rpc_services_step E) xs c))"
  by (induction xs arbitrary: c) (simp_all add: services_step_ok)

section \<open>Properties\<close>

text \<open>
  C31 (liveness): polling drains the queues. From any reachable state of the services, as
  many polls as there are queued packets (whatever request object each is given) leave no
  packet queued at any endpoint, even when every poll reports an event after the first
  endpoint it tries.
\<close>

theorem rpc_services_polls_drain:
  assumes "(s, ws) = fold (rpc_services_step E) xs
      (snd (RpcServicesServer_initialize_services_impl J file container ov node (new_RpcServicesServer node_id impl path) ws0))"
    and "queued (rsvc_rpc_endpoints s) \<le> length qs"
  shows "queued (rsvc_rpc_endpoints (fst (fold (\<lambda>q c. rpc_services_step E (RpcServicesPoll q) c) qs (s, ws)))) = 0"
proof -
  have drain: "queued (rsvc_rpc_endpoints (fst (fold (\<lambda>q c. rpc_services_step E (RpcServicesPoll q) c) qs c))) = 0"
    if "rpc_services_ok (fst c)" "queued (rsvc_rpc_endpoints (fst c)) \<le> length qs" for c
    using that
  proof (induction qs arbitrary: c)
    case (Cons q qs)
    obtain s ws where c: "c = (s, ws)" by (cases c)
    obtain ev q' s' ws' where p: "RpcServicesServer_poll E q s ws = (ev, q', s', ws')" by (metis surj_pair)
    note ok = services_poll_ok [OF _ p]
    have "rpc_services_ok s'" "queued (rsvc_rpc_endpoints s') \<le> length qs" using ok Cons.prems c by auto
    then show ?case using Cons.IH [of "(s', ws')"] c p by simp
  qed simp
  have "rpc_services_ok s" using services_run_ok [OF services_initialize_ok] assms(1) by (metis fst_conv)
  with drain [of "(s, ws)"] assms(2) show ?thesis by simp
qed

text \<open>
  C30 (safety): a request reported by the services belongs to the service named in its header,
  whose endpoint now holds the client as running with the number of the request; the reply
  the application sends with that header goes to the transport of exactly that endpoint, on
  the response PDU of exactly that client, the client is idle again, and the state of every
  other service is untouched.
\<close>

theorem rpc_services_reply_routed:
  assumes "rpc_services_ok s" and "RpcServicesServer_poll E q s ws = (RSE_REQUEST_IN, q', s', ws')"
    and "n = rqs_service_name (rr_header q')" and "c = rqs_client_name (rr_header q')"
    and "RpcServicesServer_send_reply E (rr_header q') reply s' ws' = (s2, ws2)"
  shows "\<exists>e st st2. sm_find (rsvc_rpc_endpoints s') n = Some (e, st)
    \<and> slots st c = Some (SlotRunning (rqs_request_id (rr_header q'))) \<and> rr_client_name q' = c
    \<and> sm_find (rsvc_rpc_endpoints s2) n = Some (e, st2) \<and> slots st2 = (slots st)(c \<mapsto> SlotIdle)
    \<and> ws2 = ws'(e := snd (rpc_send E (n, c @ ''Res'') reply (ws' e)))
    \<and> (\<forall>m. m \<noteq> n \<longrightarrow> sm_find (rsvc_rpc_endpoints s2) m = sm_find (rsvc_rpc_endpoints s') m)"
proof -
  obtain ys where p: "poll_server_endpoints E q (rsvc_rpc_endpoints s) ws = (RSE_REQUEST_IN, q', ys, ws')"
    and s': "s' = s\<lparr>rsvc_rpc_endpoints := ys\<rparr>"
    using assms(2) by (auto simp: RpcServicesServer_poll_def split: prod.splits)
  from poll_endpoints_event [OF p] obtain k e st0 st q0 w0 where ev: "(k, e, st0) \<in> set (rsvc_rpc_endpoints s)"
    "(k, e, st) \<in> set ys" "RpcServer_poll E q0 st0 w0 = (RSE_REQUEST_IN, q', st, ws' e)" by auto
  have inv: "rpc_server_inv st0" and k: "rsv_service_name st0 = k"
    using assms(1) ev(1) by (auto simp: rpc_services_ok_def services_endpoint_ok_def)
  obtain x xs where pend: "rsv_pending_requests st0 = x # xs"
    using ev(3) by (cases "rsv_pending_requests st0") (simp_all add: RpcServer_poll_def)
  note val = poll_request_value [OF pend ev(3) refl]
  have f: "follows E (rr_header q') (answer_request (accepts_request st0 w0 (rr_header q')) (slots st0 c) (rr_header q'))
      (st0\<lparr>rsv_pending_requests := xs\<rparr>) (registering_world st0 (rr_header q') w0) RSE_REQUEST_IN st (ws' e)"
    using poll_follows [OF inv pend ev(3) refl] val assms(4) by simp
  then have acc: "accepts_request st0 w0 (rr_header q')"
    by (auto simp: follows_def answer_request_def refuse_request_def split: if_splits)
  then have n: "n = k" using k assms(3) by (simp add: accepts_request_def)
  have run: "slots st c = Some (SlotRunning (rqs_request_id (rr_header q')))"
    using f acc assms(4)
    by (auto simp: follows_def answer_request_def refuse_request_def split: if_splits option.splits server_slot.splits)
  have s_ok: "rpc_services_ok s'" by (rule services_poll_ok(1) [OF assms(1,2)])
  then have find: "sm_find (rsvc_rpc_endpoints s') n = Some (e, st)"
    using ev(2) n s' sm_find_in_set [of ys k "(e, st)"] by (simp add: rpc_services_ok_def)
  obtain st2 w2 where r: "RpcServer_send_reply E c reply st (ws' e) = (st2, w2)" by (metis surj_pair)
  have name: "rsv_service_name st = n" using services_ok_find [OF s_ok find] by simp
  have "s2 = s'\<lparr>rsvc_rpc_endpoints := sm_update n (\<lambda>_. (e, st2)) (rsvc_rpc_endpoints s')\<rparr>" "ws2 = ws'(e := w2)"
    using assms(3-5) find r by (auto simp: RpcServicesServer_send_reply_def)
  then show ?thesis
    using find run val server_replies [OF run r] name assms(4)
    by (intro exI [of _ e] exI [of _ st] exI [of _ st2]) simp
qed

end
