(* ===== verification/Rpc_Services_Examples.thy ===== *)
theory Rpc_Services_Examples
  imports Rpc_Services_Properties Action_Configuration
begin

text \<open>
  A concrete configuration of the RPC services with one service \<open>S\<close> and one client \<open>C\<close>, and
  the theorems about the services evaluated on it.
\<close>

definition value_rpc_json :: "json_value rpc_json" where
  "value_rpc_json = \<lparr>
     rj_at = (\<lambda>j k. case j of JObject kvs \<Rightarrow> map_of kvs k | _ \<Rightarrow> None),
     rj_contains = (\<lambda>j k. case j of JObject kvs \<Rightarrow> map_of kvs k \<noteq> None | _ \<Rightarrow> False),
     rj_is_array = (\<lambda>j. case j of JArray _ \<Rightarrow> True | _ \<Rightarrow> False),
     rj_elements = (\<lambda>j. case j of JArray xs \<Rightarrow> xs | _ \<Rightarrow> []),
     rj_member_list = (\<lambda>j k. case j of
        JObject kvs \<Rightarrow> (case map_of kvs k of None \<Rightarrow> Some [] | Some (JArray xs) \<Rightarrow> Some xs | Some v \<Rightarrow> Some [v])
      | _ \<Rightarrow> None),
     rj_string = (\<lambda>j. case j of JString t \<Rightarrow> Some t | _ \<Rightarrow> None),
     rj_size = (\<lambda>j. case j of JUnsigned n \<Rightarrow> Some (of_nat n) | _ \<Rightarrow> None),
     rj_channel = (\<lambda>j. case j of JUnsigned n \<Rightarrow> Some (int n) | _ \<Rightarrow> None),
     rj_value_bool = (\<lambda>j k d. case j of JObject kvs \<Rightarrow> (case map_of kvs k of None \<Rightarrow> Some d | Some _ \<Rightarrow> None) | _ \<Rightarrow> None),
     rj_value_int = (\<lambda>j k d. case j of JObject kvs \<Rightarrow> (case map_of kvs k of None \<Rightarrow> Some d | Some (JUnsigned n) \<Rightarrow> Some (int n) | Some _ \<Rightarrow> None) | _ \<Rightarrow> None)\<rparr>"

definition rpc_example_config :: json_value where
  "rpc_example_config = JObject [(''services'', JArray [JObject [
     (''name'', JString ''S''), (''type'', JString ''pkg/S''), (''maxClients'', JUnsigned 1),
     (''pduSize'', JObject [(''server'', JObject [(''baseSize'', JUnsigned 40), (''heapSize'', JUnsigned 0)]),
        (''client'', JObject [(''baseSize'', JUnsigned 40), (''heapSize'', JUnsigned 0)])]),
     (''clients'', JArray [JObject [(''name'', JString ''C''), (''requestChannelId'', JUnsigned 1),
        (''responseChannelId'', JUnsigned 2), (''client_endpoint'', JObject [(''nodeId'', JString ''c'')])]])]])]"

definition rpc_example_services :: "bool \<times> unit RpcServicesServer \<times> (unit, bool list \<times> uint64) rpc_worlds" where
  "rpc_example_services = RpcServicesServer_initialize_services_impl value_rpc_json (\<lambda>_. Some rpc_example_config) None (Some ()) None
     (new_RpcServicesServer ''n'' ''RpcServerEndpointImpl'' ''p'') (\<lambda>_. rpc_example_world 5)"

lemma example_services_ok:
  "fst rpc_example_services"
  "map (\<lambda>(n, e, st). (n, rsv_registered_clients st, rsv_subscriptions st, rsv_pending_requests st)) (rsvc_rpc_endpoints (fst (snd rpc_example_services)))
     = [(''S'', [''C''], [(''S'', 1)], [])]"
  unfolding rpc_example_services_def
  by (simp_all add: RpcServicesServer_initialize_services_impl_def value_rpc_json_def rpc_example_config_def
      new_RpcServicesServer_def server_pdu_endpoint_def rj_at_string_def rj_at_channel_def RpcServer_initialize_def
      rpc_register_client_def rpc_pdu_size_def new_RpcServerEndpointImpl_def rpc_example_world_def set_status_def
      sm_assign_def sm_emplace_def sm_update_def sm_find_def Let_def add_definition_def)

theorem rpc_services_polls_drain_witness:
  "\<exists>s ws. (s, ws) = fold (rpc_services_step rpc_example) [RpcServicesReceive ''S'' (''S'', 1) (fst rpc_example_request)] (snd rpc_example_services)
    \<and> queued (rsvc_rpc_endpoints s) \<le> 1
    \<and> queued (rsvc_rpc_endpoints (fst (rpc_services_step rpc_example (RpcServicesPoll rpc_empty_request) (s, ws)))) = 0"
proof -
  obtain s ws where run: "(s, ws) = fold (rpc_services_step rpc_example) [RpcServicesReceive ''S'' (''S'', 1) (fst rpc_example_request)] (snd rpc_example_services)"
    by (metis surj_pair)
  obtain s0 ws0 where i: "snd rpc_example_services = (s0, ws0)" by (cases "snd rpc_example_services")
  obtain st where s0: "rsvc_rpc_endpoints s0 = [(''S'', (), st)]" "rsv_pending_requests st = []"
    using example_services_ok(2) i by (auto simp: map_eq_Cons_conv)
  then have q: "queued (rsvc_rpc_endpoints s) \<le> length [rpc_empty_request]"
    using run i by (simp add: RpcServicesServer_receive_def sm_update_def RpcServer_on_recv_def)
  from rpc_services_polls_drain [OF run [unfolded rpc_example_services_def] this] run q show ?thesis
    by (intro exI [of _ s] exI [of _ ws]) simp
qed

definition rpc_requested_services :: "unit RpcServicesServer" where
  "rpc_requested_services = (new_RpcServicesServer ''n'' ''RpcServerEndpointImpl'' ''p'')
     \<lparr>rsvc_rpc_endpoints := [(''S'', (), RpcServer_on_recv rpc_example (''S'', 1) (fst rpc_example_request) rpc_example_server (rpc_example_world 5))]\<rparr>"

lemma rpc_requested_poll:
  "\<exists>r sv. RpcServicesServer_poll rpc_example rpc_empty_request rpc_requested_services (\<lambda>_. rpc_example_world 5)
      = (RSE_REQUEST_IN, r, rpc_requested_services\<lparr>rsvc_rpc_endpoints := [(''S'', (), sv)]\<rparr>, \<lambda>_. rpc_example_world 5)
    \<and> rr_pdu r = fst rpc_example_request \<and> rr_header r = request_service_header rpc_example_client HAKO_SERVICE_OPERATION_CODE_REQUEST 1"
proof -
  let ?sv = "RpcServer_on_recv rpc_example (''S'', 1) (fst rpc_example_request) rpc_example_server (rpc_example_world 5)"
  let ?h = "request_service_header rpc_example_client HAKO_SERVICE_OPERATION_CODE_REQUEST 1"
  have h: "rqs_client_name ?h = ''C''" "rqs_service_name ?h = ''S''" "rqs_opcode ?h = HAKO_SERVICE_OPERATION_CODE_REQUEST"
    by (simp_all add: request_service_header_def rpc_example_client_def new_RpcClientEndpointImpl_def)
  obtain ev r sv w where p: "RpcServer_poll rpc_example rpc_empty_request ?sv (rpc_example_world 5) = (ev, r, sv, w)"
    by (metis surj_pair)
  have "ev = RSE_REQUEST_IN" "r = \<lparr>rr_client_name = ''C'', rr_header = ?h, rr_pdu = fst rpc_example_request\<rparr>" "w = rpc_example_world 5"
    using server_takes_request [OF example_server_ok(1,2,5) example_request_header _ _ _ h(3) p] h example_server_ok by simp_all
  then show ?thesis using p by (auto simp: RpcServicesServer_poll_def rpc_requested_services_def fun_eq_iff)
qed

lemma rpc_requested_ok: "rpc_services_ok rpc_requested_services" "queued (rsvc_rpc_endpoints rpc_requested_services) = 1"
  using example_server_ok
  by (simp_all add: rpc_services_ok_def rpc_requested_services_def services_endpoint_ok_def sm_ok_def RpcServer_on_recv_def)

theorem rpc_services_reply_routed_witness:
  "\<exists>q' s' ws' s2 ws2. RpcServicesServer_poll rpc_example rpc_empty_request rpc_requested_services (\<lambda>_. rpc_example_world 5)
      = (RSE_REQUEST_IN, q', s', ws')
    \<and> RpcServicesServer_send_reply rpc_example (rr_header q') [1, 2] s' ws' = (s2, ws2)
    \<and> rw_outbox (ws2 ()) = [((''S'', ''CRes''), [1, 2])]"
proof -
  let ?h = "request_service_header rpc_example_client HAKO_SERVICE_OPERATION_CODE_REQUEST 1"
  have h: "rqs_client_name ?h = ''C''" "rqs_service_name ?h = ''S''"
    by (simp_all add: request_service_header_def rpc_example_client_def new_RpcClientEndpointImpl_def)
  obtain q' s' where poll: "RpcServicesServer_poll rpc_example rpc_empty_request rpc_requested_services (\<lambda>_. rpc_example_world 5)
      = (RSE_REQUEST_IN, q', s', \<lambda>_. rpc_example_world 5)" and q': "rr_header q' = ?h"
    using rpc_requested_poll by blast
  obtain s2 ws2 where r: "RpcServicesServer_send_reply rpc_example (rr_header q') [1, 2] s' (\<lambda>_. rpc_example_world 5) = (s2, ws2)"
    by (metis surj_pair)
  from rpc_services_reply_routed [OF rpc_requested_ok(1) poll refl refl r]
  have "ws2 () = snd (rpc_send rpc_example (''S'', ''CRes'') [1, 2] (rpc_example_world 5))"
    using q' h by auto
  then have "rw_outbox (ws2 ()) = [((''S'', ''CRes''), [1, 2])]"
    by (simp add: rpc_send_def rpc_example_def rpc_example_world_def)
  with poll r show ?thesis by blast
qed

end
