(* ===== verification/Rpc_Mux.thy ===== *)
theory Rpc_Mux
  imports Rpc_Services "HOL-Library.Multiset"
begin

text \<open>
  The multiplexing RPC server, \<open>src/rpc_services_mux_server.cpp\<close>: every accepted connection is
  an endpoint of its own with its own RPC services, under a connection number that replies
  name.

  \<open>EndpointCommMultiplexer\<close> is not part of this repository. What it returns is an argument of
  the operations: the expected number of connections when it opens, whether it starts, and
  the endpoints taken since the last poll, each a reference with its world (\<open>None\<close> is a null
  pointer). The references of the endpoints that were stopped and closed are recorded in
  \<open>rmx_closed\<close>. A slot leaves the table when its server and endpoint are released, so both
  are present in every slot of the table; the null checks are not modelled.
\<close>

section \<open>Data\<close>

record ('e, 'w) RpcConnectionSlot =
  rcs_connection_id :: uint64
  rcs_endpoint :: 'e
  rcs_world :: "'w rpc_world"
  rcs_server :: "unit RpcServicesServer"
  rcs_disconnected :: bool

record RpcMuxRequest =
  rmq_connection_id :: uint64
  rmq_request :: RpcRequest

record ('e, 'w) RpcServicesMuxServer =
  rmx_node_id :: string
  rmx_impl_type :: string
  rmx_service_config_path :: string
  rmx_endpoint_mux_config_path :: string
  rmx_delta_time_usec :: uint64
  rmx_mux :: "size_t option"
  rmx_slots :: "('e, 'w) RpcConnectionSlot list"
  rmx_next_connection_id :: uint64
  rmx_started :: bool
  rmx_closed :: "'e list"

text \<open>\<open>rmx_mux\<close> is the multiplexer with its expected count; \<open>None\<close> is the null pointer.\<close>

definition new_RpcServicesMuxServer :: "string \<Rightarrow> string \<Rightarrow> string \<Rightarrow> string \<Rightarrow> uint64 \<Rightarrow> ('e, 'w) RpcServicesMuxServer" where
  "new_RpcServicesMuxServer node_id impl_type service_config_path endpoint_mux_config_path delta_time_usec =
     \<lparr>rmx_node_id = node_id, rmx_impl_type = impl_type, rmx_service_config_path = service_config_path,
      rmx_endpoint_mux_config_path = endpoint_mux_config_path, rmx_delta_time_usec = delta_time_usec,
      rmx_mux = None, rmx_slots = [], rmx_next_connection_id = 1, rmx_started = False, rmx_closed = []\<rparr>"

section \<open>Lifecycle\<close>

text \<open>\<open>mux_open\<close> is the expected count after \<open>open(path)\<close>, \<open>None\<close> when that fails.\<close>

definition RpcMux_initialize ::
    "(string \<Rightarrow> size_t option) \<Rightarrow> ('e, 'w) RpcServicesMuxServer \<Rightarrow> bool \<times> ('e, 'w) RpcServicesMuxServer" where
  "RpcMux_initialize mux_open m =
     (if rmx_mux m \<noteq> None then (True, m)
      else if rmx_node_id m = [] \<or> rmx_impl_type m = [] \<or> rmx_service_config_path m = []
        \<or> rmx_endpoint_mux_config_path m = [] \<or> rmx_delta_time_usec m = 0 then (False, m)
      else case mux_open (rmx_endpoint_mux_config_path m) of
        None \<Rightarrow> (False, m)
      | Some expected \<Rightarrow> if expected = 0 then (False, m) else (True, m\<lparr>rmx_mux := Some expected\<rparr>))"

definition RpcMux_start :: "bool \<Rightarrow> ('e, 'w) RpcServicesMuxServer \<Rightarrow> bool \<times> ('e, 'w) RpcServicesMuxServer" where
  "RpcMux_start mux_starts m =
     (if rmx_started m then (True, m)
      else if rmx_mux m = None then (False, m)
      else if \<not> mux_starts then (False, m)
      else (True, m\<lparr>rmx_started := True\<rparr>))"

text \<open>\<open>close_slot_\<close> stops and releases the slot's services and closes its endpoint.\<close>

definition rpc_close_slot :: "('e, 'w) RpcConnectionSlot \<Rightarrow> ('e, 'w) RpcServicesMuxServer \<Rightarrow> ('e, 'w) RpcServicesMuxServer" where
  "rpc_close_slot slot m = m\<lparr>rmx_closed := rmx_closed m @ [rcs_endpoint slot]\<rparr>"

definition RpcMux_stop :: "('e, 'w) RpcServicesMuxServer \<Rightarrow> ('e, 'w) RpcServicesMuxServer" where
  "RpcMux_stop m =
     (fold rpc_close_slot (rmx_slots m) m)\<lparr>rmx_slots := [], rmx_mux := None, rmx_started := False\<rparr>"

section \<open>Connections\<close>

text \<open>
  One endpoint of \<open>accept_new_connections_\<close>: closed at once when the table is full or its
  services cannot be initialised. The number is used up in the second case.
\<close>

definition rpc_accept_connection ::
    "'j rpc_json \<Rightarrow> 'j config_file \<Rightarrow> size_t \<Rightarrow> ('e \<times> 'w rpc_world) option \<Rightarrow> ('e, 'w) RpcServicesMuxServer
     \<Rightarrow> ('e, 'w) RpcServicesMuxServer" where
  "rpc_accept_connection J file capacity endpoint m =
     (case endpoint of
        None \<Rightarrow> m
      | Some (e, w) \<Rightarrow>
          if length (rmx_slots m) \<ge> unat capacity then m\<lparr>rmx_closed := rmx_closed m @ [e]\<rparr>
          else let m1 = m\<lparr>rmx_next_connection_id := rmx_next_connection_id m + 1\<rparr>
               in case RpcServicesServer_initialize_services_impl J file None (Some ()) None
                         (new_RpcServicesServer (rmx_node_id m) (rmx_impl_type m) (rmx_service_config_path m)) (\<lambda>_. w) of
                    (False, server, ws) \<Rightarrow> m1\<lparr>rmx_closed := rmx_closed m1 @ [e]\<rparr>
                  | (True, server, ws) \<Rightarrow>
                      (case RpcServicesServer_start_all_services server of
                         (False, server') \<Rightarrow> m1\<lparr>rmx_closed := rmx_closed m1 @ [e]\<rparr>
                       | (True, server') \<Rightarrow>
                           m1\<lparr>rmx_slots := rmx_slots m1 @ [\<lparr>rcs_connection_id = rmx_next_connection_id m, rcs_endpoint = e,
                               rcs_world = ws (), rcs_server = server', rcs_disconnected = False\<rparr>]\<rparr>))"

definition rpc_accept_new_connections ::
    "'j rpc_json \<Rightarrow> 'j config_file \<Rightarrow> size_t \<Rightarrow> ('e \<times> 'w rpc_world) option list \<Rightarrow> ('e, 'w) RpcServicesMuxServer
     \<Rightarrow> ('e, 'w) RpcServicesMuxServer" where
  "rpc_accept_new_connections J file capacity endpoints m = fold (rpc_accept_connection J file capacity) endpoints m"

definition rpc_cleanup_disconnected :: "('e, 'w) RpcServicesMuxServer \<Rightarrow> ('e, 'w) RpcServicesMuxServer" where
  "rpc_cleanup_disconnected m =
     (fold rpc_close_slot (filter rcs_disconnected (rmx_slots m)) m)
       \<lparr>rmx_slots := filter (\<lambda>s. \<not> rcs_disconnected s) (rmx_slots m)\<rparr>"

text \<open>The endpoint's disconnect callback, and a packet received by its services.\<close>

definition RpcMux_on_disconnected :: "'e \<Rightarrow> ('e, 'w) RpcServicesMuxServer \<Rightarrow> ('e, 'w) RpcServicesMuxServer" where
  "RpcMux_on_disconnected e m =
     m\<lparr>rmx_slots := map (\<lambda>s. if rcs_endpoint s = e then s\<lparr>rcs_disconnected := True\<rparr> else s) (rmx_slots m)\<rparr>"

definition rpc_find_slot :: "('e, 'w) RpcServicesMuxServer \<Rightarrow> uint64 \<Rightarrow> ('e, 'w) RpcConnectionSlot option" where
  "rpc_find_slot m i = List.find (\<lambda>s. rcs_connection_id s = i) (rmx_slots m)"

definition rpc_set_slot :: "uint64 \<Rightarrow> ('e, 'w) RpcConnectionSlot \<Rightarrow> ('e, 'w) RpcServicesMuxServer \<Rightarrow> ('e, 'w) RpcServicesMuxServer" where
  "rpc_set_slot i slot m = m\<lparr>rmx_slots := update_first (\<lambda>s. rcs_connection_id s = i) (\<lambda>_. slot) (rmx_slots m)\<rparr>"

definition RpcMux_receive ::
    "'w rpc_env \<Rightarrow> uint64 \<Rightarrow> string \<Rightarrow> rpc_resolved_key \<Rightarrow> pdu_data \<Rightarrow> ('e, 'w) RpcServicesMuxServer \<Rightarrow> ('e, 'w) RpcServicesMuxServer" where
  "RpcMux_receive E i service key data m =
     (case rpc_find_slot m i of
        None \<Rightarrow> m
      | Some slot \<Rightarrow>
          rpc_set_slot i (slot\<lparr>rcs_server := RpcServicesServer_receive E service key data (rcs_server slot) (\<lambda>_. rcs_world slot)\<rparr>) m)"

section \<open>Polling and replies\<close>

text \<open>The loop over the slots. \<open>q\<close> is the default request each slot's poll starts from.\<close>

fun rpc_poll_slots ::
    "'w rpc_env \<Rightarrow> RpcRequest \<Rightarrow> ('e, 'w) RpcConnectionSlot list
     \<Rightarrow> (RpcServerEventType \<times> RpcMuxRequest) option \<times> ('e, 'w) RpcConnectionSlot list" where
  "rpc_poll_slots E q [] = (None, [])"
| "rpc_poll_slots E q (slot # slots) =
     (case RpcServicesServer_poll E q (rcs_server slot) (\<lambda>_. rcs_world slot) of
        (ev, candidate, server, ws) \<Rightarrow>
          let slot' = slot\<lparr>rcs_server := server, rcs_world := ws ()\<rparr>
          in if ev \<noteq> RSE_NONE
             then (Some (ev, \<lparr>rmq_connection_id = rcs_connection_id slot, rmq_request = candidate\<rparr>), slot' # slots)
             else (case rpc_poll_slots E q slots of (r, slots') \<Rightarrow> (r, slot' # slots')))"

definition RpcMux_poll ::
    "'w rpc_env \<Rightarrow> 'j rpc_json \<Rightarrow> 'j config_file \<Rightarrow> RpcRequest \<Rightarrow> ('e \<times> 'w rpc_world) option list
     \<Rightarrow> ('e, 'w) RpcServicesMuxServer
     \<Rightarrow> (RpcServerEventType \<times> RpcMuxRequest) option \<times> ('e, 'w) RpcServicesMuxServer" where
  "RpcMux_poll E J file q endpoints m =
     (case rmx_mux m of
        None \<Rightarrow> (None, m)
      | Some capacity \<Rightarrow>
          if \<not> rmx_started m then (None, m)
          else let m1 = rpc_cleanup_disconnected (rpc_accept_new_connections J file capacity endpoints m)
               in case rpc_poll_slots E q (rmx_slots m1) of
                    (Some r, slots) \<Rightarrow> (Some r, m1\<lparr>rmx_slots := slots\<rparr>)
                  | (None, slots) \<Rightarrow> (None, rpc_cleanup_disconnected (m1\<lparr>rmx_slots := slots\<rparr>)))"

definition RpcMux_create_reply_buffer ::
    "'w rpc_env \<Rightarrow> RpcMuxRequest \<Rightarrow> byte \<Rightarrow> int32 \<Rightarrow> pdu_data \<Rightarrow> ('e, 'w) RpcServicesMuxServer \<Rightarrow> bool \<times> pdu_data" where
  "RpcMux_create_reply_buffer E request status result_code pdu m =
     (case rpc_find_slot m (rmq_connection_id request) of
        None \<Rightarrow> (False, pdu)
      | Some slot \<Rightarrow>
          let pdu' = RpcServicesServer_create_reply_buffer E (rr_header (rmq_request request)) status result_code pdu
                       (rcs_server slot) (\<lambda>_. rcs_world slot)
          in (pdu' \<noteq> [], pdu'))"

definition RpcMux_send_reply ::
    "'w rpc_env \<Rightarrow> RpcMuxRequest \<Rightarrow> pdu_data \<Rightarrow> ('e, 'w) RpcServicesMuxServer \<Rightarrow> bool \<times> ('e, 'w) RpcServicesMuxServer" where
  "RpcMux_send_reply E request pdu m =
     (case rpc_find_slot m (rmq_connection_id request) of
        None \<Rightarrow> (False, m)
      | Some slot \<Rightarrow>
          (case RpcServicesServer_send_reply E (rr_header (rmq_request request)) pdu (rcs_server slot) (\<lambda>_. rcs_world slot) of
             (server, ws) \<Rightarrow>
               (True, rpc_set_slot (rmq_connection_id request) (slot\<lparr>rcs_server := server, rcs_world := ws ()\<rparr>) m)))"

definition RpcMux_send_cancel_reply ::
    "'w rpc_env \<Rightarrow> RpcMuxRequest \<Rightarrow> pdu_data \<Rightarrow> ('e, 'w) RpcServicesMuxServer \<Rightarrow> bool \<times> ('e, 'w) RpcServicesMuxServer" where
  "RpcMux_send_cancel_reply E request pdu m =
     (case rpc_find_slot m (rmq_connection_id request) of
        None \<Rightarrow> (False, m)
      | Some slot \<Rightarrow>
          (case RpcServicesServer_send_cancel_reply E (rr_header (rmq_request request)) pdu (rcs_server slot) (\<lambda>_. rcs_world slot) of
             (server, ws) \<Rightarrow>
               (True, rpc_set_slot (rmq_connection_id request) (slot\<lparr>rcs_server := server, rcs_world := ws ()\<rparr>) m)))"

definition RpcMux_connected_count :: "('e, 'w) RpcServicesMuxServer \<Rightarrow> nat" where
  "RpcMux_connected_count m = length (rmx_slots m)"

definition RpcMux_expected_count :: "('e, 'w) RpcServicesMuxServer \<Rightarrow> size_t" where
  "RpcMux_expected_count m = (case rmx_mux m of None \<Rightarrow> 0 | Some n \<Rightarrow> n)"

definition RpcMux_is_ready :: "bool \<Rightarrow> ('e, 'w) RpcServicesMuxServer \<Rightarrow> bool" where
  "RpcMux_is_ready mux_ready m \<longleftrightarrow> rmx_started m \<and> rmx_mux m \<noteq> None \<and> mux_ready"

end
