(* ===== verification/Rpc_Mux_Properties.thy ===== *)
theory Rpc_Mux_Properties
  imports Rpc_Mux Connection_Table Rpc_Services_Examples
begin

text \<open>
  The multiplexing RPC server over any sequence of polls, replies, disconnects and restarts:
  connection numbers are unique, no accepted endpoint is lost, and a reply for a connection
  that is gone is refused and reaches nobody.
\<close>

section \<open>Runs\<close>

datatype ('e, 'w) rpc_mux_op =
    RpcMuxInitialize "size_t option"
  | RpcMuxStart bool
  | RpcMuxStop
  | RpcMuxPoll RpcRequest "('e \<times> 'w rpc_world) option list"
  | RpcMuxReply RpcMuxRequest pdu_data
  | RpcMuxCancelReply RpcMuxRequest pdu_data
  | RpcMuxDisconnected 'e
  | RpcMuxReceive uint64 string rpc_resolved_key pdu_data

fun rpc_mux_step ::
    "'w rpc_env \<Rightarrow> 'j rpc_json \<Rightarrow> 'j config_file \<Rightarrow> ('e, 'w) RpcServicesMuxServer \<Rightarrow> ('e, 'w) rpc_mux_op
     \<Rightarrow> ('e, 'w) RpcServicesMuxServer" where
  "rpc_mux_step E J file m (RpcMuxInitialize n) = snd (RpcMux_initialize (\<lambda>_. n) m)"
| "rpc_mux_step E J file m (RpcMuxStart b) = snd (RpcMux_start b m)"
| "rpc_mux_step E J file m RpcMuxStop = RpcMux_stop m"
| "rpc_mux_step E J file m (RpcMuxPoll q es) = snd (RpcMux_poll E J file q es m)"
| "rpc_mux_step E J file m (RpcMuxReply r p) = snd (RpcMux_send_reply E r p m)"
| "rpc_mux_step E J file m (RpcMuxCancelReply r p) = snd (RpcMux_send_cancel_reply E r p m)"
| "rpc_mux_step E J file m (RpcMuxDisconnected e) = RpcMux_on_disconnected e m"
| "rpc_mux_step E J file m (RpcMuxReceive i n k d) = RpcMux_receive E i n k d m"

text \<open>The endpoints a step takes from the multiplexer.\<close>

fun rpc_mux_taken :: "('e, 'w) RpcServicesMuxServer \<Rightarrow> ('e, 'w) rpc_mux_op \<Rightarrow> 'e list" where
  "rpc_mux_taken m (RpcMuxPoll q es) =
     (if rmx_mux m \<noteq> None \<and> rmx_started m then map fst (List.map_filter id es) else [])"
| "rpc_mux_taken m _ = []"

fun rpc_mux_run ::
    "'w rpc_env \<Rightarrow> 'j rpc_json \<Rightarrow> 'j config_file \<Rightarrow> ('e, 'w) rpc_mux_op list \<Rightarrow> 'e list \<times> ('e, 'w) RpcServicesMuxServer
     \<Rightarrow> 'e list \<times> ('e, 'w) RpcServicesMuxServer" where
  "rpc_mux_run E J file [] (es, m) = (es, m)"
| "rpc_mux_run E J file (x # xs) (es, m) = rpc_mux_run E J file xs (es @ rpc_mux_taken m x, rpc_mux_step E J file m x)"

lemma rpc_mux_run_snoc:
  "rpc_mux_run E J file (xs @ [x]) c = rpc_mux_run E J file [x] (rpc_mux_run E J file xs c)"
  by (induction xs arbitrary: c) (auto split: prod.splits)

section \<open>The invariant\<close>

abbreviation "fresh_slots m \<equiv> fresh_ids rcs_connection_id (rmx_next_connection_id m) (rmx_slots m)"

definition rpc_mux_inv :: "'e list \<Rightarrow> ('e, 'w) RpcServicesMuxServer \<Rightarrow> bool" where
  "rpc_mux_inv es m \<longleftrightarrow>
     fresh_slots m
     \<and> unat (rmx_next_connection_id m) \<le> length es + 1
     \<and> mset (map rcs_endpoint (rmx_slots m)) + mset (rmx_closed m) = mset es
     \<and> (case rmx_mux m of None \<Rightarrow> rmx_slots m = [] | Some n \<Rightarrow> length (rmx_slots m) \<le> unat n)"

lemma fold_close_slot:
  "rmx_closed (fold rpc_close_slot ss m) = rmx_closed m @ map rcs_endpoint ss"
  "rmx_slots (fold rpc_close_slot ss m) = rmx_slots m" "rmx_mux (fold rpc_close_slot ss m) = rmx_mux m"
  "rmx_next_connection_id (fold rpc_close_slot ss m) = rmx_next_connection_id m"
  "rmx_started (fold rpc_close_slot ss m) = rmx_started m"
  by (induction ss arbitrary: m) (simp_all add: rpc_close_slot_def)

lemma mset_filter_parts: "mset (map f (filter P xs)) + mset (map f (filter (\<lambda>x. \<not> P x) xs)) = mset (map f xs)"
  by (induction xs) auto

lemma cleanup_inv: "rpc_mux_inv es m \<Longrightarrow> rpc_mux_inv es (rpc_cleanup_disconnected m)"
proof -
  assume inv: "rpc_mux_inv es m"
  let ?m = "rpc_cleanup_disconnected m"
  have parts: "rmx_slots ?m = filter (\<lambda>s. \<not> rcs_disconnected s) (rmx_slots m)"
    "rmx_closed ?m = rmx_closed m @ map rcs_endpoint (filter rcs_disconnected (rmx_slots m))"
    by (simp_all add: rpc_cleanup_disconnected_def fold_close_slot)
  have "mset (map rcs_endpoint (filter (\<lambda>s. \<not> rcs_disconnected s) (rmx_slots m)))
      + (mset (rmx_closed m) + mset (map rcs_endpoint (filter rcs_disconnected (rmx_slots m))))
      = mset (map rcs_endpoint (rmx_slots m)) + mset (rmx_closed m)"
    by (subst mset_filter_parts [of rcs_endpoint rcs_disconnected "rmx_slots m", symmetric]) (simp only: ac_simps)
  then have "mset (map rcs_endpoint (rmx_slots ?m)) + mset (rmx_closed ?m) = mset es"
    using inv unfolding parts mset_append by (simp only: rpc_mux_inv_def)
  moreover have "length (rmx_slots ?m) \<le> length (rmx_slots m)"
    by (simp add: rpc_cleanup_disconnected_def)
  moreover have "rmx_mux ?m = rmx_mux m" "fresh_slots ?m" "rmx_next_connection_id ?m = rmx_next_connection_id m"
    using inv by (simp_all add: rpc_mux_inv_def rpc_cleanup_disconnected_def fold_close_slot fresh_ids_filter)
  ultimately show ?thesis using inv unfolding rpc_mux_inv_def by (auto split: option.splits)
qed

text \<open>Rewriting slots without touching their numbers and endpoints.\<close>

definition same_table :: "('e, 'w) RpcConnectionSlot list \<Rightarrow> ('e, 'w) RpcConnectionSlot list \<Rightarrow> bool" where
  "same_table xs ys \<longleftrightarrow> map rcs_connection_id ys = map rcs_connection_id xs \<and> map rcs_endpoint ys = map rcs_endpoint xs"

lemma same_table_inv: "rpc_mux_inv es m \<Longrightarrow> same_table (rmx_slots m) ss \<Longrightarrow> rpc_mux_inv es (m\<lparr>rmx_slots := ss\<rparr>)"
  using fresh_ids_same [of rcs_connection_id ss "rmx_slots m"] map_eq_imp_length_eq [of rcs_endpoint ss rcs_endpoint "rmx_slots m"]
  by (auto simp: rpc_mux_inv_def same_table_def split: option.splits)

lemma set_slot_table:
  assumes "rpc_find_slot m i = Some slot" and "rcs_endpoint slot' = rcs_endpoint slot"
    and "rcs_connection_id slot' = rcs_connection_id slot"
  shows "same_table (rmx_slots m) (rmx_slots (rpc_set_slot i slot' m))"
  using assms by (simp add: same_table_def rpc_set_slot_def rpc_find_slot_def map_update_found [of _ _ slot])

lemma poll_slots_table: "same_table ss (snd (rpc_poll_slots E q ss))"
  by (induction ss) (auto simp: same_table_def Let_def split: prod.splits)

lemma accept_inv:
  assumes "rpc_mux_inv es m" and "rmx_mux m = Some n" and "length es + 2 < 2 ^ 64"
  shows "rpc_mux_inv (es @ (case x of None \<Rightarrow> [] | Some (e, w) \<Rightarrow> [e])) (rpc_accept_connection J file n x m)
    \<and> rmx_mux (rpc_accept_connection J file n x m) = Some n"
proof -
  have "unat (rmx_next_connection_id m) + 1 < 2 ^ 64" using assms(1,3) by (simp add: rpc_mux_inv_def)
  note next_id = next_id_greater [OF this]
  then have "unat (rmx_next_connection_id m + 1) = unat (rmx_next_connection_id m) + 1"
    using \<open>unat (rmx_next_connection_id m) + 1 < 2 ^ 64\<close> by (simp add: unat_word_ariths)
  with assms next_id show ?thesis
    by (auto simp: rpc_mux_inv_def rpc_accept_connection_def Let_def RpcServicesServer_start_all_services_def
        intro: fresh_ids_push fresh_ids_skip split: option.splits prod.splits bool.splits)
qed

lemma accept_all_inv:
  assumes "rpc_mux_inv es m" and "rmx_mux m = Some n" and "length es + length (map fst (List.map_filter id xs)) + 1 < 2 ^ 64"
  shows "rpc_mux_inv (es @ map fst (List.map_filter id xs)) (rpc_accept_new_connections J file n xs m)"
  using assms unfolding rpc_accept_new_connections_def
proof (induction xs arbitrary: es m)
  case (Cons x xs)
  have len: "length es + 2 < 2 ^ 64 \<or> x = None" using Cons.prems(3) by (cases x) (auto simp: map_filter_simps)
  let ?es = "es @ (case x of None \<Rightarrow> [] | Some (e, w) \<Rightarrow> [e])"
  have "rpc_mux_inv ?es (rpc_accept_connection J file n x m) \<and> rmx_mux (rpc_accept_connection J file n x m) = Some n"
  proof (cases x)
    case None
    then show ?thesis using Cons.prems by (simp add: rpc_accept_connection_def)
  next
    case (Some y)
    then show ?thesis using accept_inv [OF Cons.prems(1,2), of x] len by simp
  qed
  moreover have "?es @ map fst (List.map_filter id xs) = es @ map fst (List.map_filter id (x # xs))"
    by (cases x) (auto simp: map_filter_simps)
  ultimately show ?case
    using Cons.IH [of ?es "rpc_accept_connection J file n x m"] Cons.prems(3)
    by (cases x) (auto simp: map_filter_simps)
qed (simp add: map_filter_simps)

lemma rpc_mux_poll_inv:
  assumes "rpc_mux_inv es m" and "length es + length (rpc_mux_taken m (RpcMuxPoll q xs)) + 1 < 2 ^ 64"
  shows "rpc_mux_inv (es @ rpc_mux_taken m (RpcMuxPoll q xs)) (snd (RpcMux_poll E J file q xs m))"
proof (cases "\<exists>n. rmx_mux m = Some n \<and> rmx_started m")
  case False
  then show ?thesis using assms by (auto simp: RpcMux_poll_def split: option.splits)
next
  case True
  then obtain n where n: "rmx_mux m = Some n" "rmx_started m" by blast
  let ?m = "rpc_cleanup_disconnected (rpc_accept_new_connections J file n xs m)"
  let ?es = "es @ rpc_mux_taken m (RpcMuxPoll q xs)"
  have i1: "rpc_mux_inv ?es ?m"
    using cleanup_inv [OF accept_all_inv [OF assms(1) n(1), where xs = xs and J = J]] assms(2) n by simp
  obtain r ss where p: "rpc_poll_slots E q (rmx_slots ?m) = (r, ss)" by (cases "rpc_poll_slots E q (rmx_slots ?m)")
  have "rpc_mux_inv ?es (?m\<lparr>rmx_slots := ss\<rparr>)"
    using same_table_inv [OF i1] poll_slots_table [of "rmx_slots ?m" E q] p by simp
  with cleanup_inv [OF this] n p show ?thesis
    by (auto simp: RpcMux_poll_def Let_def split: option.splits)
qed

lemma other_steps_inv:
  assumes "rpc_mux_inv es m"
  shows "rpc_mux_inv es (snd (RpcMux_initialize f m))" "rpc_mux_inv es (snd (RpcMux_start b m))" "rpc_mux_inv es (RpcMux_stop m)"
    "rpc_mux_inv es (snd (RpcMux_send_reply E r p m))" "rpc_mux_inv es (snd (RpcMux_send_cancel_reply E r p m))"
    "rpc_mux_inv es (RpcMux_on_disconnected e m)" "rpc_mux_inv es (RpcMux_receive E i s k d m)"
proof -
  have set_slot: "rpc_mux_inv es (rpc_set_slot i slot' m)"
    if "rpc_find_slot m i = Some slot" "rcs_endpoint slot' = rcs_endpoint slot" "rcs_connection_id slot' = rcs_connection_id slot"
    for i slot slot'
    using same_table_inv [OF assms set_slot_table [OF that]] by (simp add: rpc_set_slot_def)
  show "rpc_mux_inv es (snd (RpcMux_initialize f m))" "rpc_mux_inv es (snd (RpcMux_start b m))"
    using assms by (auto simp: RpcMux_initialize_def RpcMux_start_def rpc_mux_inv_def split: option.splits)
  show "rpc_mux_inv es (RpcMux_stop m)"
    using assms by (auto simp: RpcMux_stop_def rpc_mux_inv_def fold_close_slot add.commute)
  show "rpc_mux_inv es (snd (RpcMux_send_reply E r p m))" "rpc_mux_inv es (snd (RpcMux_send_cancel_reply E r p m))"
    "rpc_mux_inv es (RpcMux_receive E i s k d m)"
    using assms set_slot
    by (auto simp: RpcMux_send_reply_def RpcMux_send_cancel_reply_def RpcMux_receive_def split: option.splits prod.splits)
  have "same_table (rmx_slots m) (rmx_slots (RpcMux_on_disconnected e m))"
    by (simp add: same_table_def RpcMux_on_disconnected_def)
  from same_table_inv [OF assms this] show "rpc_mux_inv es (RpcMux_on_disconnected e m)"
    by (simp add: RpcMux_on_disconnected_def)
qed

lemma step_inv:
  assumes "rpc_mux_inv es m" and "length es + length (rpc_mux_taken m x) + 1 < 2 ^ 64"
  shows "rpc_mux_inv (es @ rpc_mux_taken m x) (rpc_mux_step E J file m x)"
proof (cases x)
  case (RpcMuxPoll q xs)
  with rpc_mux_poll_inv [OF assms(1), of q xs E J "file"] assms(2) show ?thesis by (simp only: rpc_mux_step.simps)
qed (use other_steps_inv [OF assms(1)] in simp_all)

lemma run_inv:
  assumes "rpc_mux_inv es m" and "rpc_mux_run E J file xs (es, m) = (es', m')" and "length es' + 1 < 2 ^ 64"
  shows "rpc_mux_inv es' m' \<and> length es \<le> length es'"
  using assms
proof (induction xs arbitrary: es m)
  case (Cons x xs)
  have le: "length es \<le> length es'" if "rpc_mux_run E J file xs (es, m) = (es', m')" for es m
    using that by (induction xs arbitrary: es m) fastforce+
  have "length (es @ rpc_mux_taken m x) \<le> length es'" using le [of "es @ rpc_mux_taken m x" "rpc_mux_step E J file m x"] Cons.prems(2) by simp
  then have "rpc_mux_inv (es @ rpc_mux_taken m x) (rpc_mux_step E J file m x)"
    using step_inv [OF Cons.prems(1), of x] Cons.prems(3) by simp
  from Cons.IH [OF this] Cons.prems show ?case by simp
qed simp

lemma new_mux_inv: "rpc_mux_inv [] (new_RpcServicesMuxServer a b c d t)"
  by (simp add: rpc_mux_inv_def new_RpcServicesMuxServer_def)

section \<open>Connections that are gone\<close>

abbreviation "gone m i \<equiv> issued_and_gone rcs_connection_id (rmx_next_connection_id m) (rmx_slots m) i"

lemma gone_accept:
  assumes "gone m i" and "unat (rmx_next_connection_id m) + 1 < 2 ^ 64"
  shows "gone (rpc_accept_connection J file n x m) i"
  using assms(1) next_id_greater [OF assms(2)]
  by (auto simp: rpc_accept_connection_def Let_def RpcServicesServer_start_all_services_def
      intro: gone_push gone_skip split: option.splits prod.splits bool.splits)

lemma gone_accept_all:
  assumes "rpc_mux_inv es m" and "rmx_mux m = Some n" and "length es + length (map fst (List.map_filter id xs)) + 1 < 2 ^ 64"
    and "gone m i"
  shows "gone (rpc_accept_new_connections J file n xs m) i"
  using assms unfolding rpc_accept_new_connections_def
proof (induction xs arbitrary: es m)
  case (Cons x xs)
  show ?case
  proof (cases x)
    case None
    with Cons.IH [OF Cons.prems(1,2) _ Cons.prems(4)] Cons.prems(3) show ?thesis
      by (simp add: rpc_accept_connection_def map_filter_simps)
  next
    case (Some y)
    obtain e w where y: "y = (e, w)" by (cases y)
    have len: "length es + 2 < 2 ^ 64" using Cons.prems(3) Some by (simp add: map_filter_simps)
    have n1: "unat (rmx_next_connection_id m) + 1 < 2 ^ 64" using Cons.prems(1) len by (simp add: rpc_mux_inv_def)
    from accept_inv [OF Cons.prems(1,2) len, of x J "file"] Some y
    have "rpc_mux_inv (es @ [e]) (rpc_accept_connection J file n x m)" "rmx_mux (rpc_accept_connection J file n x m) = Some n"
      by simp_all
    from Cons.IH [OF this _ gone_accept [OF Cons.prems(4) n1]] Cons.prems(3) Some y show ?thesis
      by (simp add: map_filter_simps)
  qed
qed simp

lemma gone_cleanup: "gone m i \<Longrightarrow> gone (rpc_cleanup_disconnected m) i"
  by (simp add: rpc_cleanup_disconnected_def fold_close_slot gone_filter)

lemma gone_table: "gone m i \<Longrightarrow> same_table (rmx_slots m) ss \<Longrightarrow> gone (m\<lparr>rmx_slots := ss\<rparr>) i"
  using gone_same [of rcs_connection_id ss "rmx_slots m"] by (simp add: same_table_def)

lemma gone_step:
  assumes "rpc_mux_inv es m" and "length es + length (rpc_mux_taken m x) + 1 < 2 ^ 64" and "gone m i"
  shows "gone (rpc_mux_step E J file m x) i"
proof -
  have set_slot: "gone (rpc_set_slot k slot' m) i"
    if "rpc_find_slot m k = Some slot" "rcs_endpoint slot' = rcs_endpoint slot" "rcs_connection_id slot' = rcs_connection_id slot"
    for k slot slot'
    using gone_table [OF assms(3) set_slot_table [OF that]] by (simp add: rpc_set_slot_def)
  show ?thesis
  proof (cases x)
    case (RpcMuxPoll q xs)
    show ?thesis
    proof (cases "\<exists>n. rmx_mux m = Some n \<and> rmx_started m")
      case False
      then show ?thesis using assms(3) RpcMuxPoll by (auto simp: RpcMux_poll_def split: option.splits)
    next
      case True
      then obtain n where n: "rmx_mux m = Some n" "rmx_started m" by blast
      let ?m = "rpc_cleanup_disconnected (rpc_accept_new_connections J file n xs m)"
      have g: "gone ?m i"
        using gone_cleanup [OF gone_accept_all [OF assms(1) n(1) _ assms(3)]] assms(2) n RpcMuxPoll by simp
      obtain r ss where p: "rpc_poll_slots E q (rmx_slots ?m) = (r, ss)" by (cases "rpc_poll_slots E q (rmx_slots ?m)")
      have "gone (?m\<lparr>rmx_slots := ss\<rparr>) i"
        using gone_table [OF g] poll_slots_table [of "rmx_slots ?m" E q] p by simp
      with gone_cleanup [OF this] n p RpcMuxPoll show ?thesis
        by (auto simp: RpcMux_poll_def Let_def split: option.splits)
    qed
  next
    case (RpcMuxDisconnected e)
    have "same_table (rmx_slots m) (rmx_slots (RpcMux_on_disconnected e m))"
      by (simp add: same_table_def RpcMux_on_disconnected_def)
    from gone_table [OF assms(3) this] RpcMuxDisconnected show ?thesis by (simp add: RpcMux_on_disconnected_def)
  qed (use assms(3) set_slot in \<open>auto simp: RpcMux_initialize_def RpcMux_start_def RpcMux_stop_def RpcMux_send_reply_def
      RpcMux_send_cancel_reply_def RpcMux_receive_def fold_close_slot issued_and_gone_def split: option.splits prod.splits\<close>)
qed

lemma gone_run:
  assumes "rpc_mux_inv es m" and "rpc_mux_run E J file xs (es, m) = (es', m')" and "length es' + 1 < 2 ^ 64" and "gone m i"
  shows "gone m' i"
  using assms
proof (induction xs arbitrary: es m)
  case (Cons x xs)
  let ?m = "rpc_mux_step E J file m x"
  have le: "length es \<le> length es'" if "rpc_mux_run E J file xs (es, m) = (es', m')" for es m
    using that by (induction xs arbitrary: es m) fastforce+
  have len: "length es + length (rpc_mux_taken m x) + 1 < 2 ^ 64" using le [of "es @ rpc_mux_taken m x" ?m] Cons.prems(2,3) by simp
  from Cons.IH [OF step_inv [OF Cons.prems(1) len] _ Cons.prems(3) gone_step [OF Cons.prems(1) len Cons.prems(4)]] Cons.prems(2)
  show ?case by simp
qed simp

section \<open>Properties\<close>

text \<open>
  C32 (invariant): over any run in which fewer than \<open>2 ^ 64 - 1\<close> endpoints are taken from the
  multiplexer, the connections in the table have distinct numbers and are at most as many as
  expected, and every endpoint taken is either in the table or has been stopped and closed,
  exactly once.
\<close>

theorem rpc_mux_connections_consistent:
  assumes "rpc_mux_run E J file xs ([], new_RpcServicesMuxServer node impl path mux_path t) = (es, m)"
    and "length es + 1 < 2 ^ 64"
  shows "distinct (map rcs_connection_id (rmx_slots m))
    \<and> mset (map rcs_endpoint (rmx_slots m)) + mset (rmx_closed m) = mset es
    \<and> RpcMux_connected_count m \<le> unat (RpcMux_expected_count m)"
  using run_inv [OF new_mux_inv assms]
  by (auto simp: rpc_mux_inv_def fresh_ids_def RpcMux_connected_count_def RpcMux_expected_count_def split: option.splits)

text \<open>
  Once the connection of a request has left the table, no reply for it is ever
  accepted again: whatever happens afterwards, including new connections from the same
  client, the reply operations return false and change nothing.
\<close>

theorem rpc_mux_reply_to_gone_connection_refused:
  assumes "rpc_mux_run E J file xs ([], new_RpcServicesMuxServer node impl path mux_path t) = (es, m)"
    and "rmq_connection_id r < rmx_next_connection_id m" and "rpc_find_slot m (rmq_connection_id r) = None"
    and "rpc_mux_run E J file ys (es, m) = (es', m')" and "length es' + 1 < 2 ^ 64"
  shows "RpcMux_send_reply E r p m' = (False, m') \<and> RpcMux_send_cancel_reply E r p m' = (False, m')
    \<and> RpcMux_create_reply_buffer E r status code p m' = (False, p)"
proof -
  have le: "length es \<le> length es'"
    using assms(4) by (induction ys arbitrary: es m) fastforce+
  then have inv: "rpc_mux_inv es m" using run_inv [OF new_mux_inv assms(1)] assms(5) by simp
  have "gone m (rmq_connection_id r)"
    using assms(2,3) by (auto simp: issued_and_gone_def rpc_find_slot_def find_None_iff)
  from gone_not_found [OF gone_run [OF inv assms(4,5) this]] have "rpc_find_slot m' (rmq_connection_id r) = None"
    by (simp add: rpc_find_slot_def)
  then show ?thesis by (simp add: RpcMux_send_reply_def RpcMux_send_cancel_reply_def RpcMux_create_reply_buffer_def)
qed

section \<open>A concrete run\<close>

definition rpc_mux_example :: "(nat, bool list \<times> uint64) RpcServicesMuxServer" where
  "rpc_mux_example = new_RpcServicesMuxServer ''n'' ''RpcServerEndpointImpl'' ''p'' ''x'' 1"

definition rpc_mux_script :: "(nat, bool list \<times> uint64) rpc_mux_op list" where
  "rpc_mux_script = [RpcMuxInitialize (Some 1), RpcMuxStart True,
     RpcMuxPoll rpc_empty_request [Some (7, rpc_example_world 5), Some (8, rpc_example_world 5)]]"

lemma idle_services_poll:
  "queued xs = 0 \<Longrightarrow> poll_server_endpoints E q xs ws = (RSE_NONE, q, xs, ws)"
  by (induction xs) (auto simp: RpcServer_poll_def)

lemma rpc_mux_script_run:
  "\<exists>m. rpc_mux_run rpc_example value_rpc_json (\<lambda>_. Some rpc_example_config) rpc_mux_script ([], rpc_mux_example) = ([7, 8], m)
    \<and> map rcs_connection_id (rmx_slots m) = [1] \<and> map rcs_endpoint (rmx_slots m) = [7] \<and> rmx_closed m = [8]
    \<and> rmx_mux m = Some 1 \<and> rmx_started m \<and> rmx_next_connection_id m = 2"
proof -
  obtain s ws where i: "RpcServicesServer_initialize_services_impl value_rpc_json (\<lambda>_. Some rpc_example_config) None (Some ()) None
     (new_RpcServicesServer ''n'' ''RpcServerEndpointImpl'' ''p'') (\<lambda>_. rpc_example_world 5) = (True, s, ws)"
    using example_services_ok(1) by (metis rpc_example_services_def prod.collapse)
  have "queued (rsvc_rpc_endpoints s) = 0"
    using example_services_ok(2) i by (auto simp: rpc_example_services_def map_eq_Cons_conv queued_def)
  then have "RpcServicesServer_poll rpc_example rpc_empty_request s (\<lambda>_. ws ()) = (RSE_NONE, rpc_empty_request, s, \<lambda>_. ws ())"
    by (simp add: RpcServicesServer_poll_def idle_services_poll)
  with i show ?thesis
    by (simp add: rpc_mux_script_def rpc_mux_example_def RpcMux_initialize_def RpcMux_start_def RpcMux_poll_def
        new_RpcServicesMuxServer_def rpc_accept_new_connections_def rpc_accept_connection_def
        RpcServicesServer_start_all_services_def rpc_cleanup_disconnected_def map_filter_simps Let_def)
qed

theorem rpc_mux_connections_consistent_witness:
  "\<exists>m. rpc_mux_run rpc_example value_rpc_json (\<lambda>_. Some rpc_example_config) rpc_mux_script ([], rpc_mux_example) = ([7, 8], m)
    \<and> mset (map rcs_endpoint (rmx_slots m)) + mset (rmx_closed m) = {#7, 8#}"
proof -
  obtain m where "rpc_mux_run rpc_example value_rpc_json (\<lambda>_. Some rpc_example_config) rpc_mux_script ([], rpc_mux_example) = ([7, 8], m)"
    using rpc_mux_script_run by blast
  with rpc_mux_connections_consistent [OF this [unfolded rpc_mux_example_def]] show ?thesis by simp
qed

theorem rpc_mux_reply_to_gone_connection_refused_witness:
  "\<exists>es m. rpc_mux_run rpc_example value_rpc_json (\<lambda>_. Some rpc_example_config)
       (rpc_mux_script @ [RpcMuxStop]) ([], rpc_mux_example) = (es, m)
     \<and> RpcMux_send_reply rpc_example \<lparr>rmq_connection_id = 1, rmq_request = rpc_empty_request\<rparr> [1]
         (snd (RpcMux_initialize (\<lambda>_. Some 1) m)) = (False, snd (RpcMux_initialize (\<lambda>_. Some 1) m))"
proof -
  let ?file = "\<lambda>_. Some rpc_example_config"
  obtain m0 where m0: "rpc_mux_run rpc_example value_rpc_json ?file rpc_mux_script ([], rpc_mux_example) = ([7, 8], m0)"
    "rmx_next_connection_id m0 = 2"
    using rpc_mux_script_run by blast
  have m: "rpc_mux_run rpc_example value_rpc_json ?file (rpc_mux_script @ [RpcMuxStop]) ([], rpc_mux_example) = ([7, 8], RpcMux_stop m0)"
    using m0 rpc_mux_run_snoc [of rpc_example value_rpc_json ?file rpc_mux_script RpcMuxStop "([], rpc_mux_example)"] by simp
  have stop: "rmx_slots (RpcMux_stop m0) = []" "rmx_next_connection_id (RpcMux_stop m0) = 2"
    using m0(2) by (simp_all add: RpcMux_stop_def fold_close_slot)
  have init: "rpc_mux_run rpc_example value_rpc_json ?file [RpcMuxInitialize (Some 1)] ([7, 8], RpcMux_stop m0)
      = ([7, 8], snd (RpcMux_initialize (\<lambda>_. Some 1) (RpcMux_stop m0)))" by simp
  from rpc_mux_reply_to_gone_connection_refused [OF m [unfolded rpc_mux_example_def] _ _ init,
      of "\<lparr>rmq_connection_id = 1, rmq_request = rpc_empty_request\<rparr>" "[1]"] stop m
  show ?thesis by (simp add: rpc_find_slot_def)
qed

end
