(* ===== verification/C_Buffers.thy ===== *)
theory C_Buffers
  imports Prelude
begin

text \<open>
  What the C APIs share: text arguments, name fields and byte buffers of the caller. A C
  pointer is an option, \<open>None\<close> for \<open>NULL\<close>, and \<open>Some x\<close> for a pointer to a \<open>x\<close>; an output
  parameter is returned with its new contents. A name field is the array of its characters.
\<close>

abbreviation NUL :: char where
  "NUL \<equiv> CHR 0x00"

text \<open>A C string is given without its terminator; the empty string starts with it.\<close>

definition valid_text :: "string option \<Rightarrow> bool" where
  "valid_text value = (case value of None \<Rightarrow> False | Some s \<Rightarrow> s \<noteq> [])"

lemma valid_text_Some [simp]: "valid_text (Some s) \<longleftrightarrow> s \<noteq> []"
  by (simp add: valid_text_def)

lemma valid_textE: "valid_text t \<Longrightarrow> (\<And>s. t = Some s \<Longrightarrow> s \<noteq> [] \<Longrightarrow> P) \<Longrightarrow> P"
  by (cases t) (auto simp: valid_text_def)

text \<open>\<open>copy_name(dst, sizeof(dst), src)\<close>, and what a C caller reads back.\<close>

definition copy_name :: "char list \<Rightarrow> string \<Rightarrow> char list" where
  "copy_name dst src =
     (if dst = [] then dst
      else let count = min (length dst - 1) (length src)
           in take count src @ NUL # drop (count + 1) dst)"

definition c_string :: "char list \<Rightarrow> string" where
  "c_string field = takeWhile (\<lambda>c. c \<noteq> NUL) field"

lemma length_copy_name [simp]: "length (copy_name dst src) = length dst"
  by (cases dst) (auto simp: copy_name_def Let_def)

lemma c_string_copy_name:
  assumes "dst \<noteq> []" and "NUL \<notin> set src"
  shows "c_string (copy_name dst src) = take (length dst - 1) src"
proof -
  let ?c = "min (length dst - 1) (length src)"
  have "\<forall>c\<in>set (take ?c src). c \<noteq> NUL" using assms(2) set_take_subset [of ?c src] by blast
  then have "c_string (copy_name dst src) = take ?c src"
    using assms(1) by (simp add: c_string_def copy_name_def Let_def takeWhile_append2)
  also have "\<dots> = take (length dst - 1) src" by (cases "length src \<le> length dst - 1") simp_all
  finally show ?thesis .
qed

definition zero_name :: "nat \<Rightarrow> char list" where
  "zero_name capacity = replicate capacity NUL"

text \<open>\<open>make_pdu\<close>: the bytes at a pointer; a size of 0 does not read it.\<close>

definition make_pdu :: "pdu_data option \<Rightarrow> nat \<Rightarrow> pdu_data" where
  "make_pdu data pdu_size = (if pdu_size = 0 then [] else take pdu_size (case data of None \<Rightarrow> [] | Some d \<Rightarrow> d))"

text \<open>
  The two ways a packet reaches the caller, before each API maps the outcome to its own error
  code: into a buffer of the caller, or into a block from \<open>malloc\<close> (which may fail).
\<close>

datatype copy_outcome = COPY_OK | COPY_INVALID_ARGUMENT | COPY_TOO_SMALL | COPY_NO_MEMORY

definition copy_pdu ::
    "pdu_data \<Rightarrow> pdu_data option \<Rightarrow> nat \<Rightarrow> nat option \<Rightarrow> copy_outcome \<times> pdu_data option \<times> nat option" where
  "copy_pdu src dst capacity out_size =
     (case out_size of
        None \<Rightarrow> (COPY_INVALID_ARGUMENT, dst, None)
      | Some _ \<Rightarrow>
          if length src > capacity \<or> src \<noteq> [] \<and> dst = None then (COPY_TOO_SMALL, dst, Some (length src))
          else (COPY_OK, (if src = [] then dst else map_option (\<lambda>d. src @ drop (length src) d) dst), Some (length src)))"

definition allocate_pdu ::
    "(nat \<Rightarrow> bool) \<Rightarrow> pdu_data \<Rightarrow> pdu_data option option \<Rightarrow> nat option
     \<Rightarrow> copy_outcome \<times> pdu_data option option \<times> nat option" where
  "allocate_pdu malloc src out_buffer out_size =
     (if out_buffer = None \<or> out_size = None then (COPY_INVALID_ARGUMENT, out_buffer, out_size)
      else if src = [] then (COPY_OK, Some None, Some 0)
      else if \<not> malloc (length src) then (COPY_NO_MEMORY, Some None, Some 0)
      else (COPY_OK, Some (Some src), Some (length src)))"

text \<open>The bytes that the caller finds: the first \<open>size\<close> of its buffer, or the block.\<close>

definition copied :: "pdu_data option \<Rightarrow> nat option \<Rightarrow> pdu_data" where
  "copied dst out_size = (case (dst, out_size) of (Some d, Some n) \<Rightarrow> take n d | _ \<Rightarrow> [])"

definition allocated :: "pdu_data option option \<Rightarrow> nat option \<Rightarrow> pdu_data" where
  "allocated buffer out_size = (case (buffer, out_size) of (Some (Some d), Some n) \<Rightarrow> take n d | _ \<Rightarrow> [])"

lemma copy_pdu_ok_iff:
  "copy_pdu src dst capacity (Some n) = (COPY_OK, dst', size') \<Longrightarrow>
     size' = Some (length src) \<and> copied dst' size' = src \<and> length src \<le> capacity"
  by (cases dst) (auto simp: copy_pdu_def copied_def split: if_splits)

lemma copy_pdu_fits: "length src \<le> capacity \<Longrightarrow> fst (copy_pdu src (Some d) capacity (Some n)) = COPY_OK"
  by (simp add: copy_pdu_def)

lemma copy_pdu_not_invalid: "fst (copy_pdu src dst capacity (Some n)) \<in> {COPY_OK, COPY_TOO_SMALL}"
  by (simp add: copy_pdu_def)

lemma allocate_pdu_ok:
  "allocate_pdu malloc src (Some b) (Some n) = (COPY_OK, b', size') \<Longrightarrow> size' = Some (length src) \<and> allocated b' size' = src"
  by (auto simp: allocate_pdu_def allocated_def split: if_splits)

end
