(* ===== verification/C_Action.thy ===== *)
theory C_Action
  imports C_Buffers Action_Services_Client Action_Mux
begin

text \<open>
  The C API of the Action runtime, \<open>src/c_action.cpp\<close>: opaque handles around the client
  services, the server services and the multiplexing server, argument checks, error codes, and
  one event that a handle keeps when the caller's buffer was too small for it.

  A handle argument is an option, \<open>None\<close> for \<open>NULL\<close>, and is returned with its new contents. The
  results of \<open>EndpointContainer\<close>, which belongs to another repository, are arguments. The
  operations of the services do not throw in the model, so the \<open>catch\<close> branches are not reached;
  \<open>malloc\<close> may fail. A poll holds the handle's mutex and is one step.
\<close>

section \<open>Enumerations and structures\<close>

datatype hako_pdu_action_error_t =
    HAKO_PDU_ACTION_OK
  | HAKO_PDU_ACTION_ERROR_INVALID_ARGUMENT
  | HAKO_PDU_ACTION_ERROR_INITIALIZE
  | HAKO_PDU_ACTION_ERROR_START
  | HAKO_PDU_ACTION_ERROR_NOT_RUNNING
  | HAKO_PDU_ACTION_ERROR_SEND
  | HAKO_PDU_ACTION_ERROR_BUFFER_TOO_SMALL
  | HAKO_PDU_ACTION_ERROR_NOT_FOUND
  | HAKO_PDU_ACTION_ERROR_INVALID_STATE
  | HAKO_PDU_ACTION_ERROR_DUPLICATE_GOAL
  | HAKO_PDU_ACTION_ERROR_NO_FREE_SLOT
  | HAKO_PDU_ACTION_ERROR_INVALID_PACKET
  | HAKO_PDU_ACTION_ERROR_INTERNAL

datatype hako_pdu_action_client_event_t =
    HAKO_PDU_ACTION_CLIENT_EVENT_NONE
  | HAKO_PDU_ACTION_CLIENT_EVENT_GOAL_RESPONSE
  | HAKO_PDU_ACTION_CLIENT_EVENT_FEEDBACK
  | HAKO_PDU_ACTION_CLIENT_EVENT_CANCEL_RESPONSE
  | HAKO_PDU_ACTION_CLIENT_EVENT_RESULT
  | HAKO_PDU_ACTION_CLIENT_EVENT_TIMEOUT
  | HAKO_PDU_ACTION_CLIENT_EVENT_ERROR

datatype hako_pdu_action_server_event_t =
    HAKO_PDU_ACTION_SERVER_EVENT_NONE
  | HAKO_PDU_ACTION_SERVER_EVENT_GOAL_REQUEST
  | HAKO_PDU_ACTION_SERVER_EVENT_CANCEL_REQUEST
  | HAKO_PDU_ACTION_SERVER_EVENT_RUNTIME_CANCEL_REQUEST
  | HAKO_PDU_ACTION_SERVER_EVENT_ERROR

datatype hako_pdu_action_terminal_status_t =
    HAKO_PDU_ACTION_TERMINAL_UNSPECIFIED
  | HAKO_PDU_ACTION_TERMINAL_SUCCEEDED
  | HAKO_PDU_ACTION_TERMINAL_CANCELED
  | HAKO_PDU_ACTION_TERMINAL_ABORTED

datatype hako_pdu_action_decision_t =
    HAKO_PDU_ACTION_DECISION_UNSPECIFIED
  | HAKO_PDU_ACTION_DECISION_ACCEPTED
  | HAKO_PDU_ACTION_DECISION_REJECTED

datatype hako_pdu_action_runtime_cancel_cause_t =
    HAKO_PDU_ACTION_RUNTIME_CANCEL_UNSPECIFIED
  | HAKO_PDU_ACTION_RUNTIME_CANCEL_TRANSPORT_DISCONNECTED
  | HAKO_PDU_ACTION_RUNTIME_CANCEL_SERVER_SHUTDOWN
  | HAKO_PDU_ACTION_RUNTIME_CANCEL_INTERNAL_POLICY

record hako_pdu_action_client_event_info_t =
  aci_action_name :: "char list"
  aci_goal :: GoalId
  aci_decision :: hako_pdu_action_decision_t
  aci_terminal_status :: hako_pdu_action_terminal_status_t
  aci_feedback_sequence :: uint32
  aci_pdu_size :: nat

record hako_pdu_action_server_event_info_t =
  asi_action_name :: "char list"
  asi_goal :: GoalId
  asi_runtime_cancel_cause :: hako_pdu_action_runtime_cancel_cause_t
  asi_pdu_size :: nat

text \<open>
  The \<open>static_cast\<close>s of \<open>fill_client_info\<close> and \<open>fill_server_info\<close>: the C and the C++ enumerations
  number their values alike.
\<close>

fun cast_decision :: "Decision \<Rightarrow> hako_pdu_action_decision_t" where
  "cast_decision DECISION_UNSPECIFIED = HAKO_PDU_ACTION_DECISION_UNSPECIFIED"
| "cast_decision ACCEPTED = HAKO_PDU_ACTION_DECISION_ACCEPTED"
| "cast_decision REJECTED = HAKO_PDU_ACTION_DECISION_REJECTED"

fun cast_terminal_status :: "TerminalStatus \<Rightarrow> hako_pdu_action_terminal_status_t" where
  "cast_terminal_status TS_UNSPECIFIED = HAKO_PDU_ACTION_TERMINAL_UNSPECIFIED"
| "cast_terminal_status SUCCEEDED = HAKO_PDU_ACTION_TERMINAL_SUCCEEDED"
| "cast_terminal_status CANCELED = HAKO_PDU_ACTION_TERMINAL_CANCELED"
| "cast_terminal_status ABORTED = HAKO_PDU_ACTION_TERMINAL_ABORTED"

fun cast_cancel_cause :: "RuntimeCancelCause \<Rightarrow> hako_pdu_action_runtime_cancel_cause_t" where
  "cast_cancel_cause CAUSE_UNSPECIFIED = HAKO_PDU_ACTION_RUNTIME_CANCEL_UNSPECIFIED"
| "cast_cancel_cause CAUSE_TRANSPORT_DISCONNECTED = HAKO_PDU_ACTION_RUNTIME_CANCEL_TRANSPORT_DISCONNECTED"
| "cast_cancel_cause CAUSE_SERVER_SHUTDOWN = HAKO_PDU_ACTION_RUNTIME_CANCEL_SERVER_SHUTDOWN"
| "cast_cancel_cause CAUSE_INTERNAL_POLICY = HAKO_PDU_ACTION_RUNTIME_CANCEL_INTERNAL_POLICY"

abbreviation HAKO_PDU_ACTION_NAME_MAX :: nat where
  "HAKO_PDU_ACTION_NAME_MAX \<equiv> 128"

definition zero_client_info :: hako_pdu_action_client_event_info_t where
  "zero_client_info = \<lparr>aci_action_name = zero_name HAKO_PDU_ACTION_NAME_MAX, aci_goal = replicate 16 0,
     aci_decision = HAKO_PDU_ACTION_DECISION_UNSPECIFIED,
     aci_terminal_status = HAKO_PDU_ACTION_TERMINAL_UNSPECIFIED, aci_feedback_sequence = 0, aci_pdu_size = 0\<rparr>"

definition zero_server_info :: hako_pdu_action_server_event_info_t where
  "zero_server_info = \<lparr>asi_action_name = zero_name HAKO_PDU_ACTION_NAME_MAX, asi_goal = replicate 16 0,
     asi_runtime_cancel_cause = HAKO_PDU_ACTION_RUNTIME_CANCEL_UNSPECIFIED, asi_pdu_size = 0\<rparr>"

definition fill_client_info :: "string \<Rightarrow> ClientEvent \<Rightarrow> hako_pdu_action_client_event_info_t" where
  "fill_client_info action_name event =
     \<lparr>aci_action_name = copy_name (zero_name HAKO_PDU_ACTION_NAME_MAX) action_name,
      aci_goal = client_goal_id (ce_goal event), aci_decision = cast_decision (ce_decision event),
      aci_terminal_status = cast_terminal_status (ce_terminal_status event), aci_feedback_sequence = ce_feedback_sequence event,
      aci_pdu_size = length (ce_pdu event)\<rparr>"

definition fill_server_info :: "string \<Rightarrow> ServerEvent \<Rightarrow> hako_pdu_action_server_event_info_t" where
  "fill_server_info action_name event =
     \<lparr>asi_action_name = copy_name (zero_name HAKO_PDU_ACTION_NAME_MAX) action_name,
      asi_goal = server_goal_id (se_goal event), asi_runtime_cancel_cause = cast_cancel_cause (se_runtime_cancel_cause event),
      asi_pdu_size = length (se_pdu event)\<rparr>"

section \<open>Conversions\<close>

fun map_client_event :: "ClientEventType \<Rightarrow> hako_pdu_action_client_event_t" where
  "map_client_event CE_GOAL_RESPONSE = HAKO_PDU_ACTION_CLIENT_EVENT_GOAL_RESPONSE"
| "map_client_event CE_FEEDBACK = HAKO_PDU_ACTION_CLIENT_EVENT_FEEDBACK"
| "map_client_event CE_CANCEL_RESPONSE = HAKO_PDU_ACTION_CLIENT_EVENT_CANCEL_RESPONSE"
| "map_client_event CE_RESULT = HAKO_PDU_ACTION_CLIENT_EVENT_RESULT"
| "map_client_event CE_TIMEOUT = HAKO_PDU_ACTION_CLIENT_EVENT_TIMEOUT"
| "map_client_event CE_ERROR = HAKO_PDU_ACTION_CLIENT_EVENT_ERROR"
| "map_client_event CE_NONE = HAKO_PDU_ACTION_CLIENT_EVENT_NONE"

fun map_server_event :: "ServerEventType \<Rightarrow> hako_pdu_action_server_event_t" where
  "map_server_event SE_GOAL_REQUEST = HAKO_PDU_ACTION_SERVER_EVENT_GOAL_REQUEST"
| "map_server_event SE_CANCEL_REQUEST = HAKO_PDU_ACTION_SERVER_EVENT_CANCEL_REQUEST"
| "map_server_event SE_RUNTIME_CANCEL_REQUEST = HAKO_PDU_ACTION_SERVER_EVENT_RUNTIME_CANCEL_REQUEST"
| "map_server_event SE_ERROR = HAKO_PDU_ACTION_SERVER_EVENT_ERROR"
| "map_server_event SE_NONE = HAKO_PDU_ACTION_SERVER_EVENT_NONE"

fun to_cpp_status :: "hako_pdu_action_terminal_status_t \<Rightarrow> TerminalStatus" where
  "to_cpp_status HAKO_PDU_ACTION_TERMINAL_SUCCEEDED = SUCCEEDED"
| "to_cpp_status HAKO_PDU_ACTION_TERMINAL_CANCELED = CANCELED"
| "to_cpp_status HAKO_PDU_ACTION_TERMINAL_ABORTED = ABORTED"
| "to_cpp_status HAKO_PDU_ACTION_TERMINAL_UNSPECIFIED = TS_UNSPECIFIED"

fun map_goal_send_result :: "GoalSendResult \<Rightarrow> hako_pdu_action_error_t" where
  "map_goal_send_result SUCCESS = HAKO_PDU_ACTION_OK"
| "map_goal_send_result INVALID_ARGUMENT = HAKO_PDU_ACTION_ERROR_INVALID_ARGUMENT"
| "map_goal_send_result ACTION_NOT_FOUND = HAKO_PDU_ACTION_ERROR_NOT_FOUND"
| "map_goal_send_result NOT_INITIALIZED = HAKO_PDU_ACTION_ERROR_INITIALIZE"
| "map_goal_send_result DUPLICATE_GOAL = HAKO_PDU_ACTION_ERROR_DUPLICATE_GOAL"
| "map_goal_send_result NO_FREE_SLOT = HAKO_PDU_ACTION_ERROR_NO_FREE_SLOT"
| "map_goal_send_result INVALID_PACKET = HAKO_PDU_ACTION_ERROR_INVALID_PACKET"
| "map_goal_send_result TRANSPORT_ERROR = HAKO_PDU_ACTION_ERROR_SEND"

text \<open>The error code that \<open>copy_pdu\<close> and \<open>allocate_pdu\<close> of this file return.\<close>

fun action_copy_error :: "copy_outcome \<Rightarrow> hako_pdu_action_error_t" where
  "action_copy_error COPY_OK = HAKO_PDU_ACTION_OK"
| "action_copy_error COPY_INVALID_ARGUMENT = HAKO_PDU_ACTION_ERROR_INVALID_ARGUMENT"
| "action_copy_error COPY_TOO_SMALL = HAKO_PDU_ACTION_ERROR_BUFFER_TOO_SMALL"
| "action_copy_error COPY_NO_MEMORY = HAKO_PDU_ACTION_ERROR_INTERNAL"

section \<open>Handles\<close>

record ('s, 'ev) hako_pdu_action_mux_server_handle =
  ah_services :: "'s option"
  ah_pending_event :: "(string \<times> 'ev) option"
  ah_started :: bool

text \<open>The handles of client and server also hold the endpoint container; only whether it is set matters.\<close>

record ('s, 'ev) hako_pdu_action_handle = "('s, 'ev) hako_pdu_action_mux_server_handle" +
  ah_endpoints :: bool

type_synonym 'e hako_pdu_action_client_handle = "('e ActionServicesClient, ClientEvent) hako_pdu_action_handle"
type_synonym 'e hako_pdu_action_server_handle = "('e ActionServicesServer, ServerEvent) hako_pdu_action_handle"

abbreviation running :: "('s, 'ev, 'm) hako_pdu_action_mux_server_handle_scheme \<Rightarrow> bool" where
  "running h \<equiv> ah_started h \<and> ah_services h \<noteq> None"

section \<open>Lifecycle\<close>

abbreviation time_source_name :: "string option \<Rightarrow> string" where
  "time_source_name t \<equiv> (if valid_text t then the t else ''real'')"

text \<open>
  \<open>container_initialize\<close> is whether the endpoint container initialises, \<open>container\<close> which endpoints
  it then has, \<open>config\<close> the configuration file at a path, \<open>time_source\<close> whether a time source of a
  name and step is made.
\<close>

definition hako_pdu_action_client_create ::
    "'w pdu_env \<Rightarrow> 'j json_ops \<Rightarrow> (string \<Rightarrow> (string + 'j) option) \<Rightarrow> (string \<Rightarrow> string \<Rightarrow> bool) \<Rightarrow> (string \<Rightarrow> bool)
     \<Rightarrow> (string \<Rightarrow> uint64 \<Rightarrow> bool) \<Rightarrow> string option \<Rightarrow> string option \<Rightarrow> string option \<Rightarrow> string option \<Rightarrow> uint64 \<Rightarrow> string option
     \<Rightarrow> ActionClientEndpointImpl hako_pdu_action_client_handle option" where
  "hako_pdu_action_client_create E J config container_initialize container time_source
       node_id client_name action_config_path endpoint_config_path delta_time_usec time_source_type =
     (if \<not> valid_text node_id \<or> \<not> valid_text client_name \<or> \<not> valid_text action_config_path \<or> \<not> valid_text endpoint_config_path
      then None
      else if \<not> container_initialize (the node_id) (the endpoint_config_path) then None
      else case client_initialize_services E J (config (the action_config_path)) (Some container)
                  \<lparr>sc_node_id = the node_id, sc_client_name = the client_name, sc_impl_type = ''ActionClientEndpointImpl'',
                   sc_has_time_source = time_source (time_source_name time_source_type) delta_time_usec, sc_actions = []\<rparr> of
        (False, _) \<Rightarrow> None
      | (True, s) \<Rightarrow> Some \<lparr>ah_services = Some s, ah_pending_event = None, ah_started = False, ah_endpoints = True\<rparr>)"

definition hako_pdu_action_server_create ::
    "'w pdu_env \<Rightarrow> 'j json_ops \<Rightarrow> (string \<Rightarrow> (string + 'j) option) \<Rightarrow> (string \<Rightarrow> string \<Rightarrow> bool) \<Rightarrow> (string \<Rightarrow> bool)
     \<Rightarrow> (string \<Rightarrow> uint64 \<Rightarrow> bool) \<Rightarrow> string option \<Rightarrow> string option \<Rightarrow> string option \<Rightarrow> uint64 \<Rightarrow> string option
     \<Rightarrow> ActionServerEndpointImpl hako_pdu_action_server_handle option" where
  "hako_pdu_action_server_create E J config container_initialize container time_source
       node_id action_config_path endpoint_config_path delta_time_usec time_source_type =
     (if \<not> valid_text node_id \<or> \<not> valid_text action_config_path \<or> \<not> valid_text endpoint_config_path then None
      else if \<not> container_initialize (the node_id) (the endpoint_config_path) then None
      else case initialize_services_impl E J (config (the action_config_path)) (Some container) False
                  \<lparr>ss_node_id = the node_id, ss_impl_type = ''ActionServerEndpointImpl'',
                   ss_has_time_source = time_source (time_source_name time_source_type) delta_time_usec,
                   ss_actions = [], ss_pending_runtime_events = []\<rparr> of
        (False, _) \<Rightarrow> None
      | (True, s) \<Rightarrow> Some \<lparr>ah_services = Some s, ah_pending_event = None, ah_started = False, ah_endpoints = True\<rparr>)"

definition hako_pdu_action_mux_server_create ::
    "(string \<Rightarrow> size_t option) \<Rightarrow> string option \<Rightarrow> string option \<Rightarrow> string option \<Rightarrow> uint64
     \<Rightarrow> (('e, 's, 'w) ActionServicesMuxServer, ServerEvent) hako_pdu_action_mux_server_handle option" where
  "hako_pdu_action_mux_server_create mux_open node_id action_config_path endpoint_mux_config_path delta_time_usec =
     (if \<not> valid_text node_id \<or> \<not> valid_text action_config_path \<or> \<not> valid_text endpoint_mux_config_path \<or> delta_time_usec = 0
      then None
      else case ActionMux_initialize mux_open
                  (new_ActionServicesMuxServer (the node_id) (the action_config_path) (the endpoint_mux_config_path)
                     ''ActionServerEndpointImpl'' delta_time_usec) of
        (False, _) \<Rightarrow> None
      | (True, m) \<Rightarrow> Some \<lparr>ah_services = Some m, ah_pending_event = None, ah_started = False\<rparr>)"

text \<open>\<open>start_all_services\<close> of both services only returns true.\<close>

definition ServicesServer_start_all_services :: "'e ActionServicesServer \<Rightarrow> bool" where
  "ServicesServer_start_all_services s = True"

definition ServicesClient_start_all_services :: "'e ActionServicesClient \<Rightarrow> bool" where
  "ServicesClient_start_all_services s = True"

text \<open>\<open>start_all\<close> is the result of the container; \<open>start_services\<close> that of the services.\<close>

definition c_start ::
    "('s \<Rightarrow> bool) \<Rightarrow> bool \<Rightarrow> ('s, 'ev) hako_pdu_action_handle option
     \<Rightarrow> hako_pdu_action_error_t \<times> ('s, 'ev) hako_pdu_action_handle option" where
  "c_start start_services start_all handle =
     (case handle of
        None \<Rightarrow> (HAKO_PDU_ACTION_ERROR_INVALID_ARGUMENT, None)
      | Some h \<Rightarrow>
          if ah_started h then (HAKO_PDU_ACTION_OK, Some h)
          else if \<not> ah_endpoints h then (HAKO_PDU_ACTION_ERROR_INITIALIZE, Some h)
          else case ah_services h of
            None \<Rightarrow> (HAKO_PDU_ACTION_ERROR_INITIALIZE, Some h)
          | Some s \<Rightarrow>
              if \<not> start_all then (HAKO_PDU_ACTION_ERROR_START, Some h)
              else if \<not> start_services s then (HAKO_PDU_ACTION_ERROR_START, Some h)
              else (HAKO_PDU_ACTION_OK, Some (h\<lparr>ah_started := True\<rparr>)))"

definition hako_pdu_action_client_start ::
    "bool \<Rightarrow> 'e hako_pdu_action_client_handle option \<Rightarrow> hako_pdu_action_error_t \<times> 'e hako_pdu_action_client_handle option" where
  "hako_pdu_action_client_start = c_start ServicesClient_start_all_services"

definition hako_pdu_action_server_start ::
    "bool \<Rightarrow> 'e hako_pdu_action_server_handle option \<Rightarrow> hako_pdu_action_error_t \<times> 'e hako_pdu_action_server_handle option" where
  "hako_pdu_action_server_start = c_start ServicesServer_start_all_services"

definition hako_pdu_action_mux_server_start ::
    "bool \<Rightarrow> (('e, 's, 'w) ActionServicesMuxServer, 'ev) hako_pdu_action_mux_server_handle option
     \<Rightarrow> hako_pdu_action_error_t \<times> (('e, 's, 'w) ActionServicesMuxServer, 'ev) hako_pdu_action_mux_server_handle option" where
  "hako_pdu_action_mux_server_start mux_starts handle =
     (case handle of
        None \<Rightarrow> (HAKO_PDU_ACTION_ERROR_INVALID_ARGUMENT, None)
      | Some h \<Rightarrow>
          if ah_started h then (HAKO_PDU_ACTION_OK, Some h)
          else case ah_services h of
            None \<Rightarrow> (HAKO_PDU_ACTION_ERROR_INITIALIZE, Some h)
          | Some m \<Rightarrow>
              (case ActionMux_start mux_starts m of
                 (False, m') \<Rightarrow> (HAKO_PDU_ACTION_ERROR_START, Some (h\<lparr>ah_services := Some m'\<rparr>))
               | (True, m') \<Rightarrow> (HAKO_PDU_ACTION_OK, Some (h\<lparr>ah_services := Some m', ah_started := True\<rparr>))))"

text \<open>
  \<open>stop_client\<close>, \<open>stop_server\<close> and \<open>stop_mux_server\<close>: they go on after a failure of the container
  (\<open>stop_all\<close>) and report it.
\<close>

definition stop_client ::
    "('e, 'w) IActionClientEndpoint \<Rightarrow> bool \<Rightarrow> 'e hako_pdu_action_client_handle \<Rightarrow> bool \<times> 'e hako_pdu_action_client_handle" where
  "stop_client V stop_all h =
     (ah_endpoints h \<longrightarrow> stop_all,
      h\<lparr>ah_services := map_option (\<lambda>s. ServicesClient_clear_all_instances V (ServicesClient_stop_all_services V s)) (ah_services h),
        ah_pending_event := None, ah_started := False\<rparr>)"

definition stop_server ::
    "('e, 'w) IActionServerEndpoint \<Rightarrow> bool \<Rightarrow> 'e hako_pdu_action_server_handle \<Rightarrow> bool \<times> 'e hako_pdu_action_server_handle" where
  "stop_server V stop_all h =
     (ah_endpoints h \<longrightarrow> stop_all,
      h\<lparr>ah_services := map_option (\<lambda>s. ServicesServer_clear_all_instances V (ServicesServer_stop_all_services V s)) (ah_services h),
        ah_pending_event := None, ah_started := False\<rparr>)"

definition stop_mux_server ::
    "(('e, 's, 'w) ActionServicesMuxServer, 'ev) hako_pdu_action_mux_server_handle
     \<Rightarrow> bool \<times> (('e, 's, 'w) ActionServicesMuxServer, 'ev) hako_pdu_action_mux_server_handle" where
  "stop_mux_server h =
     (True, h\<lparr>ah_services := map_option ActionMux_stop (ah_services h), ah_pending_event := None, ah_started := False\<rparr>)"

abbreviation stopped :: "bool \<times> 'h \<Rightarrow> hako_pdu_action_error_t \<times> 'h option" where
  "stopped r \<equiv> (if fst r then HAKO_PDU_ACTION_OK else HAKO_PDU_ACTION_ERROR_INTERNAL, Some (snd r))"

definition hako_pdu_action_client_stop ::
    "('e, 'w) IActionClientEndpoint \<Rightarrow> bool \<Rightarrow> 'e hako_pdu_action_client_handle option
     \<Rightarrow> hako_pdu_action_error_t \<times> 'e hako_pdu_action_client_handle option" where
  "hako_pdu_action_client_stop V stop_all handle =
     (case handle of None \<Rightarrow> (HAKO_PDU_ACTION_ERROR_INVALID_ARGUMENT, None) | Some h \<Rightarrow> stopped (stop_client V stop_all h))"

definition hako_pdu_action_server_stop ::
    "('e, 'w) IActionServerEndpoint \<Rightarrow> bool \<Rightarrow> 'e hako_pdu_action_server_handle option
     \<Rightarrow> hako_pdu_action_error_t \<times> 'e hako_pdu_action_server_handle option" where
  "hako_pdu_action_server_stop V stop_all handle =
     (case handle of None \<Rightarrow> (HAKO_PDU_ACTION_ERROR_INVALID_ARGUMENT, None) | Some h \<Rightarrow> stopped (stop_server V stop_all h))"

definition hako_pdu_action_mux_server_stop ::
    "(('e, 's, 'w) ActionServicesMuxServer, 'ev) hako_pdu_action_mux_server_handle option
     \<Rightarrow> hako_pdu_action_error_t \<times> (('e, 's, 'w) ActionServicesMuxServer, 'ev) hako_pdu_action_mux_server_handle option" where
  "hako_pdu_action_mux_server_stop handle =
     (case handle of None \<Rightarrow> (HAKO_PDU_ACTION_ERROR_INVALID_ARGUMENT, None) | Some h \<Rightarrow> stopped (stop_mux_server h))"

text \<open>\<open>is_running\<close> of client and server; \<open>running_all\<close> is the answer of the container.\<close>

definition c_is_running ::
    "bool \<Rightarrow> ('s, 'ev) hako_pdu_action_handle option \<Rightarrow> bool option \<Rightarrow> hako_pdu_action_error_t \<times> bool option" where
  "c_is_running running_all handle out_running =
     (case (handle, out_running) of
        (Some h, Some _) \<Rightarrow> (HAKO_PDU_ACTION_OK, Some (ah_started h \<and> ah_endpoints h \<and> running_all))
      | _ \<Rightarrow> (HAKO_PDU_ACTION_ERROR_INVALID_ARGUMENT, out_running))"

definition hako_pdu_action_client_is_running ::
    "bool \<Rightarrow> 'e hako_pdu_action_client_handle option \<Rightarrow> bool option \<Rightarrow> hako_pdu_action_error_t \<times> bool option" where
  "hako_pdu_action_client_is_running = c_is_running"

definition hako_pdu_action_server_is_running ::
    "bool \<Rightarrow> 'e hako_pdu_action_server_handle option \<Rightarrow> bool option \<Rightarrow> hako_pdu_action_error_t \<times> bool option" where
  "hako_pdu_action_server_is_running = c_is_running"

end
