(* ===== verification/C_Action_Calls.thy ===== *)
theory C_Action_Calls
  imports C_Action
begin

text \<open>
  The calls of \<open>src/c_action.cpp\<close> on a running handle: Goal operations, packet buffers and
  polling, for the client, the server and the multiplexing server.

  Calls of the same shape are instances of one definition: \<open>c_goal_op\<close> for the operations on a
  Goal, \<open>c_create_buffer\<close> for the buffers, \<open>c_poll\<close> for polling. \<open>'x\<close> is what the services work on
  beside their own state, the world of client and server; the multiplexing server keeps a world
  for each connection itself.
\<close>

section \<open>Goal operations\<close>

text \<open>\<open>payload\<close> says whether the further arguments of the call, a packet or a status, are acceptable.\<close>

definition c_goal_op ::
    "bool \<Rightarrow> (string \<Rightarrow> GoalId \<Rightarrow> 's \<Rightarrow> 'x \<Rightarrow> bool \<times> 's \<times> 'x)
     \<Rightarrow> ('s, 'ev, 'm) hako_pdu_action_mux_server_handle_scheme option \<Rightarrow> string option \<Rightarrow> GoalId option \<Rightarrow> 'x
     \<Rightarrow> hako_pdu_action_error_t \<times> ('s, 'ev, 'm) hako_pdu_action_mux_server_handle_scheme option \<times> 'x" where
  "c_goal_op payload op handle action_name goal x =
     (case (handle, goal) of
        (Some h, Some g) \<Rightarrow>
          if \<not> valid_text action_name \<or> \<not> payload then (HAKO_PDU_ACTION_ERROR_INVALID_ARGUMENT, handle, x)
          else if \<not> ah_started h then (HAKO_PDU_ACTION_ERROR_NOT_RUNNING, handle, x)
          else (case ah_services h of
                  None \<Rightarrow> (HAKO_PDU_ACTION_ERROR_NOT_RUNNING, handle, x)
                | Some s \<Rightarrow>
                    if \<not> is_valid_goal_id g then (HAKO_PDU_ACTION_ERROR_INVALID_ARGUMENT, handle, x)
                    else (case op (the action_name) g s x of
                            (r, s', x') \<Rightarrow>
                              (if r then HAKO_PDU_ACTION_OK else HAKO_PDU_ACTION_ERROR_INVALID_STATE,
                               Some (h\<lparr>ah_services := Some s'\<rparr>), x')))
      | _ \<Rightarrow> (HAKO_PDU_ACTION_ERROR_INVALID_ARGUMENT, handle, x))"

text \<open>A packet argument that the calls accept.\<close>

abbreviation some_pdu :: "pdu_data option \<Rightarrow> nat \<Rightarrow> bool" where
  "some_pdu pdu pdu_size \<equiv> pdu \<noteq> None \<and> pdu_size \<noteq> 0"

definition hako_pdu_action_client_cancel_goal where
  "hako_pdu_action_client_cancel_goal V =
     c_goal_op True (\<lambda>name g. ServicesClient_send_cancel V name \<lparr>client_goal_id = g\<rparr>)"

definition hako_pdu_action_server_accept_goal where
  "hako_pdu_action_server_accept_goal V = c_goal_op True (ServicesServer_accept_goal V)"

definition hako_pdu_action_server_reject_goal where
  "hako_pdu_action_server_reject_goal V = c_goal_op True (ServicesServer_reject_goal V)"

definition hako_pdu_action_server_accept_cancel where
  "hako_pdu_action_server_accept_cancel V = c_goal_op True (ServicesServer_accept_cancel V)"

definition hako_pdu_action_server_reject_cancel where
  "hako_pdu_action_server_reject_cancel V = c_goal_op True (ServicesServer_reject_cancel V)"

definition hako_pdu_action_server_send_feedback where
  "hako_pdu_action_server_send_feedback V pdu pdu_size =
     c_goal_op (some_pdu pdu pdu_size) (\<lambda>name g. ServicesServer_send_feedback V name g (make_pdu pdu pdu_size))"

definition valid_status :: "hako_pdu_action_terminal_status_t \<Rightarrow> bool" where
  "valid_status status \<longleftrightarrow>
     status = HAKO_PDU_ACTION_TERMINAL_SUCCEEDED \<or> status = HAKO_PDU_ACTION_TERMINAL_CANCELED
     \<or> status = HAKO_PDU_ACTION_TERMINAL_ABORTED"

definition hako_pdu_action_server_complete where
  "hako_pdu_action_server_complete V status pdu pdu_size =
     c_goal_op (some_pdu pdu pdu_size \<and> valid_status status)
       (\<lambda>name g. ServicesServer_complete V name g (to_cpp_status status) (make_pdu pdu pdu_size))"

text \<open>An operation of the multiplexing server, which needs no further state.\<close>

abbreviation mux_op :: "('m \<Rightarrow> bool \<times> 'm) \<Rightarrow> 'm \<Rightarrow> unit \<Rightarrow> bool \<times> 'm \<times> unit" where
  "mux_op f \<equiv> (\<lambda>m _. case f m of (r, m') \<Rightarrow> (r, m', ()))"

definition hako_pdu_action_mux_server_accept_goal where
  "hako_pdu_action_mux_server_accept_goal M = c_goal_op True (\<lambda>name g. mux_op (ActionMux_accept_goal M name g))"

definition hako_pdu_action_mux_server_reject_goal where
  "hako_pdu_action_mux_server_reject_goal M = c_goal_op True (\<lambda>name g. mux_op (ActionMux_reject_goal M name g))"

definition hako_pdu_action_mux_server_accept_cancel where
  "hako_pdu_action_mux_server_accept_cancel M = c_goal_op True (\<lambda>name g. mux_op (ActionMux_accept_cancel M name g))"

definition hako_pdu_action_mux_server_reject_cancel where
  "hako_pdu_action_mux_server_reject_cancel M = c_goal_op True (\<lambda>name g. mux_op (ActionMux_reject_cancel M name g))"

definition hako_pdu_action_mux_server_send_feedback where
  "hako_pdu_action_mux_server_send_feedback M pdu pdu_size =
     c_goal_op (some_pdu pdu pdu_size)
       (\<lambda>name g. mux_op (ActionMux_send_feedback M name g (make_pdu pdu pdu_size)))"

definition hako_pdu_action_mux_server_complete where
  "hako_pdu_action_mux_server_complete M status pdu pdu_size =
     c_goal_op (some_pdu pdu pdu_size \<and> valid_status status)
       (\<lambda>name g. mux_op (ActionMux_complete M name g (to_cpp_status status) (make_pdu pdu pdu_size)))"

text \<open>
  \<open>send_goal\<close>. \<open>out_goal\<close> is cleared first; the handle that the services return on success holds
  the identifier of the call.
\<close>

definition hako_pdu_action_client_send_goal ::
    "('e, 'w) IActionClientEndpoint \<Rightarrow> 'e hako_pdu_action_client_handle option \<Rightarrow> string option \<Rightarrow> pdu_data option \<Rightarrow> nat
     \<Rightarrow> GoalId option \<Rightarrow> GoalId option \<Rightarrow> uint64 \<Rightarrow> 'w world
     \<Rightarrow> hako_pdu_action_error_t \<times> GoalId option \<times> 'e hako_pdu_action_client_handle option \<times> 'w world" where
  "hako_pdu_action_client_send_goal V handle action_name pdu pdu_size goal_id out_goal timeout_usec w =
     (let zeroed = map_option (\<lambda>_. replicate 16 0) out_goal
      in case (handle, goal_id) of
        (Some h, Some g) \<Rightarrow>
          if \<not> valid_text action_name \<or> \<not> some_pdu pdu pdu_size \<or> out_goal = None
          then (HAKO_PDU_ACTION_ERROR_INVALID_ARGUMENT, zeroed, handle, w)
          else if \<not> ah_started h then (HAKO_PDU_ACTION_ERROR_NOT_RUNNING, zeroed, handle, w)
          else (case ah_services h of
                  None \<Rightarrow> (HAKO_PDU_ACTION_ERROR_NOT_RUNNING, zeroed, handle, w)
                | Some s \<Rightarrow>
                    if \<not> is_valid_goal_id g then (HAKO_PDU_ACTION_ERROR_INVALID_ARGUMENT, zeroed, handle, w)
                    else (case ServicesClient_send_goal_with_result V (the action_name) (make_pdu pdu pdu_size) g timeout_usec s w of
                            (r, s', w') \<Rightarrow>
                              if r \<noteq> SUCCESS
                              then (map_goal_send_result r, zeroed, Some (h\<lparr>ah_services := Some s'\<rparr>), w')
                              else (HAKO_PDU_ACTION_OK, Some g, Some (h\<lparr>ah_services := Some s'\<rparr>), w')))
      | _ \<Rightarrow> (HAKO_PDU_ACTION_ERROR_INVALID_ARGUMENT, zeroed, handle, w))"

section \<open>Buffers\<close>

text \<open>
  \<open>usable\<close> is the check of the output arguments, \<open>copy\<close> one of the two ways a packet reaches the
  caller, \<open>out\<close> the output arguments as the call leaves them when it fails before that.
\<close>

definition c_create_buffer ::
    "bool \<Rightarrow> (pdu_data \<Rightarrow> copy_outcome \<times> 'b \<times> nat option) \<Rightarrow> 'b \<times> nat option
     \<Rightarrow> (string \<Rightarrow> 's \<Rightarrow> pdu_data option) \<Rightarrow> ('s, 'ev, 'm) hako_pdu_action_mux_server_handle_scheme option \<Rightarrow> string option
     \<Rightarrow> hako_pdu_action_error_t \<times> 'b \<times> nat option" where
  "c_create_buffer usable copy out create handle action_name =
     (case handle of
        None \<Rightarrow> (HAKO_PDU_ACTION_ERROR_INVALID_ARGUMENT, out)
      | Some h \<Rightarrow>
          if \<not> valid_text action_name \<or> \<not> usable then (HAKO_PDU_ACTION_ERROR_INVALID_ARGUMENT, out)
          else if \<not> ah_started h then (HAKO_PDU_ACTION_ERROR_NOT_RUNNING, out)
          else case ah_services h of
            None \<Rightarrow> (HAKO_PDU_ACTION_ERROR_NOT_RUNNING, out)
          | Some s \<Rightarrow>
              (case create (the action_name) s of
                 None \<Rightarrow> (HAKO_PDU_ACTION_ERROR_NOT_FOUND, out)
               | Some pdu \<Rightarrow> (case copy pdu of (r, b, n) \<Rightarrow> (action_copy_error r, b, n))))"

definition c_create_into where
  "c_create_into create handle action_name buffer capacity out_size =
     c_create_buffer (out_size \<noteq> None) (\<lambda>pdu. copy_pdu pdu buffer capacity out_size) (buffer, out_size) create handle action_name"

definition c_create_alloc where
  "c_create_alloc malloc create handle action_name out_buffer out_size =
     c_create_buffer (out_buffer \<noteq> None \<and> out_size \<noteq> None) (\<lambda>pdu. allocate_pdu malloc pdu out_buffer out_size)
       (map_option (\<lambda>_. None) out_buffer, map_option (\<lambda>_. 0) out_size) create handle action_name"

definition hako_pdu_action_client_create_goal_buffer where
  "hako_pdu_action_client_create_goal_buffer V w = c_create_into (\<lambda>name s. ServicesClient_create_goal_buffer V name s w)"

definition hako_pdu_action_client_create_goal_buffer_alloc where
  "hako_pdu_action_client_create_goal_buffer_alloc malloc V w =
     c_create_alloc malloc (\<lambda>name s. ServicesClient_create_goal_buffer V name s w)"

definition hako_pdu_action_server_create_feedback_buffer where
  "hako_pdu_action_server_create_feedback_buffer V w =
     c_create_into (\<lambda>name s. ServicesServer_create_feedback_buffer V name s w)"

definition hako_pdu_action_server_create_feedback_buffer_alloc where
  "hako_pdu_action_server_create_feedback_buffer_alloc malloc V w =
     c_create_alloc malloc (\<lambda>name s. ServicesServer_create_feedback_buffer V name s w)"

definition hako_pdu_action_server_create_result_buffer where
  "hako_pdu_action_server_create_result_buffer V w =
     c_create_into (\<lambda>name s. ServicesServer_create_result_buffer V name s w)"

definition hako_pdu_action_server_create_result_buffer_alloc where
  "hako_pdu_action_server_create_result_buffer_alloc malloc V w =
     c_create_alloc malloc (\<lambda>name s. ServicesServer_create_result_buffer V name s w)"

definition hako_pdu_action_mux_server_create_feedback_buffer where
  "hako_pdu_action_mux_server_create_feedback_buffer M = c_create_into (ActionMux_create_feedback_buffer M)"

definition hako_pdu_action_mux_server_create_feedback_buffer_alloc where
  "hako_pdu_action_mux_server_create_feedback_buffer_alloc malloc M =
     c_create_alloc malloc (ActionMux_create_feedback_buffer M)"

definition hako_pdu_action_mux_server_create_result_buffer where
  "hako_pdu_action_mux_server_create_result_buffer M = c_create_into (ActionMux_create_result_buffer M)"

definition hako_pdu_action_mux_server_create_result_buffer_alloc where
  "hako_pdu_action_mux_server_create_result_buffer_alloc malloc M =
     c_create_alloc malloc (ActionMux_create_result_buffer M)"

section \<open>Polling\<close>

text \<open>
  What differs between the polls of client and server: the services, the event codes and the
  information structure.
\<close>

record ('s, 'x, 'ev, 'i, 'c) poll_ops =
  p_poll :: "'s \<Rightarrow> 'x \<Rightarrow> (string \<times> 'ev) option \<times> 's \<times> 'x"
  p_none :: 'c
  p_code :: "'ev \<Rightarrow> 'c"
  p_is_error :: "'ev \<Rightarrow> bool"
  p_zero_info :: 'i
  p_fill_info :: "string \<Rightarrow> 'ev \<Rightarrow> 'i"
  p_pdu :: "'ev \<Rightarrow> pdu_data"

text \<open>The output parameters of a poll.\<close>

record ('i, 'b) poll_out =
  po_info :: "'i option"
  po_buffer :: 'b
  po_size :: "nat option"
  po_error :: "hako_pdu_action_error_t option"

definition set_error :: "hako_pdu_action_error_t \<Rightarrow> ('i, 'b) poll_out \<Rightarrow> ('i, 'b) poll_out" where
  "set_error e out = out\<lparr>po_error := map_option (\<lambda>_. e) (po_error out)\<rparr>"

definition set_info :: "'i \<Rightarrow> ('i, 'b) poll_out \<Rightarrow> ('i, 'b) poll_out" where
  "set_info i out = out\<lparr>po_info := map_option (\<lambda>_. i) (po_info out)\<rparr>"

text \<open>The event that is in the handle after the services were asked for one if it had none.\<close>

definition c_fetch ::
    "('s, 'x, 'ev, 'i, 'c) poll_ops \<Rightarrow> 's \<Rightarrow> ('s, 'ev, 'm) hako_pdu_action_mux_server_handle_scheme \<Rightarrow> 'x
     \<Rightarrow> ('s, 'ev, 'm) hako_pdu_action_mux_server_handle_scheme \<times> 'x" where
  "c_fetch P s h x =
     (case ah_pending_event h of
        Some _ \<Rightarrow> (h, x)
      | None \<Rightarrow> (case p_poll P s x of (r, s', x') \<Rightarrow> (h\<lparr>ah_services := Some s', ah_pending_event := r\<rparr>, x')))"

text \<open>\<open>reset\<close> clears the output buffer on entry, \<open>usable\<close> checks it, \<open>copy\<close> fills it.\<close>

definition c_poll ::
    "('s, 'x, 'ev, 'i, 'c) poll_ops \<Rightarrow> ('b \<Rightarrow> 'b) \<Rightarrow> ('b \<Rightarrow> bool)
     \<Rightarrow> (pdu_data \<Rightarrow> 'b \<Rightarrow> nat option \<Rightarrow> copy_outcome \<times> 'b \<times> nat option)
     \<Rightarrow> ('s, 'ev, 'm) hako_pdu_action_mux_server_handle_scheme option \<Rightarrow> ('i, 'b) poll_out \<Rightarrow> 'x
     \<Rightarrow> 'c \<times> ('i, 'b) poll_out \<times> ('s, 'ev, 'm) hako_pdu_action_mux_server_handle_scheme option \<times> 'x" where
  "c_poll P reset usable copy handle out x =
     (let out0 = set_info (p_zero_info P) (set_error HAKO_PDU_ACTION_OK
                   (out\<lparr>po_buffer := reset (po_buffer out), po_size := map_option (\<lambda>_. 0) (po_size out)\<rparr>))
      in case handle of
        None \<Rightarrow> (p_none P, set_error HAKO_PDU_ACTION_ERROR_INVALID_ARGUMENT out0, None, x)
      | Some h \<Rightarrow>
          if po_info out = None \<or> \<not> usable (po_buffer out) \<or> po_size out = None
          then (p_none P, set_error HAKO_PDU_ACTION_ERROR_INVALID_ARGUMENT out0, handle, x)
          else if \<not> ah_started h
          then (p_none P, set_error HAKO_PDU_ACTION_ERROR_NOT_RUNNING out0, handle, x)
          else case ah_services h of
            None \<Rightarrow> (p_none P, set_error HAKO_PDU_ACTION_ERROR_NOT_RUNNING out0, handle, x)
          | Some s \<Rightarrow>
              (case c_fetch P s h x of
                 (h1, x1) \<Rightarrow>
                   (case ah_pending_event h1 of
                      None \<Rightarrow> (p_none P, out0, Some h1, x1)
                    | Some (name, event) \<Rightarrow>
                        (case copy (p_pdu P event) (po_buffer out0) (po_size out0) of
                           (r, b, n) \<Rightarrow>
                             let out1 = (set_info (p_fill_info P name event) out0)\<lparr>po_buffer := b, po_size := n\<rparr>
                             in if r \<noteq> COPY_OK
                                then (p_none P, set_error (action_copy_error r) out1, Some h1, x1)
                                else (p_code P event,
                                      (if p_is_error P event then set_error HAKO_PDU_ACTION_ERROR_INTERNAL out1 else out1),
                                      Some (h1\<lparr>ah_pending_event := None\<rparr>), x1)))))"

definition c_poll_into where
  "c_poll_into P capacity = c_poll P id (\<lambda>_. True) (\<lambda>pdu buffer out_size. copy_pdu pdu buffer capacity out_size)"

definition c_poll_alloc where
  "c_poll_alloc P malloc = c_poll P (map_option (\<lambda>_. None)) (\<lambda>b. b \<noteq> None) (allocate_pdu malloc)"

definition client_poll_ops ::
    "('e, 'w) IActionClientEndpoint
     \<Rightarrow> ('e ActionServicesClient, 'w world, ClientEvent, hako_pdu_action_client_event_info_t, hako_pdu_action_client_event_t) poll_ops" where
  "client_poll_ops V =
     \<lparr>p_poll = (\<lambda>s w. case ServicesClient_poll V s w of (r, s') \<Rightarrow> (r, s', w)), p_none = HAKO_PDU_ACTION_CLIENT_EVENT_NONE,
      p_code = (\<lambda>ev. map_client_event (ce_type ev)), p_is_error = (\<lambda>ev. ce_type ev = CE_ERROR),
      p_zero_info = zero_client_info, p_fill_info = fill_client_info, p_pdu = ce_pdu\<rparr>"

definition server_event_ops ::
    "('s \<Rightarrow> 'x \<Rightarrow> (string \<times> ServerEvent) option \<times> 's \<times> 'x)
     \<Rightarrow> ('s, 'x, ServerEvent, hako_pdu_action_server_event_info_t, hako_pdu_action_server_event_t) poll_ops" where
  "server_event_ops poll =
     \<lparr>p_poll = poll, p_none = HAKO_PDU_ACTION_SERVER_EVENT_NONE,
      p_code = (\<lambda>ev. map_server_event (se_type ev)), p_is_error = (\<lambda>ev. se_type ev = SE_ERROR),
      p_zero_info = zero_server_info, p_fill_info = fill_server_info, p_pdu = se_pdu\<rparr>"

text \<open>The poll of the multiplexing server takes the endpoints that connected since the last one.\<close>

definition mux_poll_ops where
  "mux_poll_ops M = server_event_ops (\<lambda>m endpoints. case ActionMux_poll M endpoints m of (r, m') \<Rightarrow> (r, m', endpoints))"

definition hako_pdu_action_client_poll where
  "hako_pdu_action_client_poll V = c_poll_into (client_poll_ops V)"

definition hako_pdu_action_client_poll_alloc where
  "hako_pdu_action_client_poll_alloc V = c_poll_alloc (client_poll_ops V)"

definition hako_pdu_action_server_poll where
  "hako_pdu_action_server_poll V = c_poll_into (server_event_ops (ServicesServer_poll V))"

definition hako_pdu_action_server_poll_alloc where
  "hako_pdu_action_server_poll_alloc V = c_poll_alloc (server_event_ops (ServicesServer_poll V))"

definition hako_pdu_action_mux_server_poll where
  "hako_pdu_action_mux_server_poll M = c_poll_into (mux_poll_ops M)"

definition hako_pdu_action_mux_server_poll_alloc where
  "hako_pdu_action_mux_server_poll_alloc M = c_poll_alloc (mux_poll_ops M)"

section \<open>Observation of the multiplexing server\<close>

definition hako_pdu_action_mux_server_connected_count where
  "hako_pdu_action_mux_server_connected_count handle =
     (case handle of None \<Rightarrow> 0 | Some h \<Rightarrow> (case ah_services h of None \<Rightarrow> 0 | Some m \<Rightarrow> ActionMux_connected_count m))"

definition hako_pdu_action_mux_server_expected_count where
  "hako_pdu_action_mux_server_expected_count handle =
     (case handle of None \<Rightarrow> 0 | Some h \<Rightarrow> (case ah_services h of None \<Rightarrow> 0 | Some m \<Rightarrow> ActionMux_expected_count m))"

definition hako_pdu_action_mux_server_is_ready where
  "hako_pdu_action_mux_server_is_ready handle =
     (case handle of None \<Rightarrow> False | Some h \<Rightarrow> (case ah_services h of None \<Rightarrow> False | Some m \<Rightarrow> ActionMux_is_ready m))"

end
