(* ===== verification/C_Action_Properties.thy ===== *)
theory C_Action_Properties
  imports C_Action_Calls Services_Client_Properties Action_Mux_Examples
begin

text \<open>
  What a C caller sees of the events: every event the services hand out is delivered exactly
  once and in order, whatever the buffers of the caller and the outcome of \<open>malloc\<close>.

  The locale \<open>event_source\<close> is the contract of the services that the polls rely on; it is
  interpreted on the client services, the server services and the multiplexing server.
\<close>

section \<open>A sequence of polls\<close>

datatype 'i poll_call =
    POLL "('i, pdu_data option) poll_out" nat
  | POLL_ALLOC "('i, pdu_data option option) poll_out" "nat \<Rightarrow> bool"

text \<open>Whether a call has its pointers: otherwise it is refused.\<close>

fun has_pointers :: "'i poll_call \<Rightarrow> bool" where
  "has_pointers (POLL out _) \<longleftrightarrow> po_info out \<noteq> None \<and> po_size out \<noteq> None"
| "has_pointers (POLL_ALLOC out _) \<longleftrightarrow> po_info out \<noteq> None \<and> po_buffer out \<noteq> None \<and> po_size out \<noteq> None"

text \<open>What a call gives the caller: nothing when the event code is \<open>NONE\<close>.\<close>

definition report :: "'c \<Rightarrow> 'c \<Rightarrow> 'i option \<Rightarrow> pdu_data \<Rightarrow> ('c \<times> 'i option \<times> pdu_data) list" where
  "report none code info bytes = (if code = none then [] else [(code, info, bytes)])"

fun poll_step where
  "poll_step none poll poll_alloc (POLL out capacity) h x =
     (case poll capacity (Some h) out x of
        (code, out', h', _) \<Rightarrow> (report none code (po_info out') (copied (po_buffer out') (po_size out')), the h'))"
| "poll_step none poll poll_alloc (POLL_ALLOC out malloc) h x =
     (case poll_alloc malloc (Some h) out x of
        (code, out', h', _) \<Rightarrow> (report none code (po_info out') (allocated (po_buffer out') (po_size out')), the h'))"

text \<open>The event that a call takes from the services: only a call that is not refused asks them, and only without a pending event.\<close>

definition taken_by where
  "taken_by source call h x =
     (if ah_started h \<and> has_pointers call \<and> ah_pending_event h = None
      then (case ah_services h of None \<Rightarrow> None | Some s \<Rightarrow> source s x)
      else None)"

abbreviation opt_list :: "'a option \<Rightarrow> 'a list" where
  "opt_list r \<equiv> (case r of None \<Rightarrow> [] | Some e \<Rightarrow> [e])"

text \<open>
  Each call comes with a change of the services before it, by other calls or by packets that
  arrive, and with its own \<open>x\<close>. The result is what was taken, what was delivered, and the handle.
\<close>

fun poll_session where
  "poll_session source none poll poll_alloc [] h = ([], [], h)"
| "poll_session source none poll poll_alloc ((change, x, call) # rest) h =
     (let h0 = h\<lparr>ah_services := change (ah_services h)\<rparr>
      in case poll_step none poll poll_alloc call h0 x of
        (d, h1) \<Rightarrow>
          (case poll_session source none poll poll_alloc rest h1 of
             (ts, ds, h2) \<Rightarrow> (opt_list (taken_by source call h0 x) @ ts, d @ ds, h2)))"

section \<open>The contract of the services\<close>

text \<open>What the caller is to see of an event, and that a pending event is one it sees.\<close>

definition shown :: "('s, 'x, 'ev, 'i, 'c) poll_ops \<Rightarrow> string \<times> 'ev \<Rightarrow> 'c \<times> 'i option \<times> pdu_data" where
  "shown P e = (p_code P (snd e), Some (p_fill_info P (fst e) (snd e)), p_pdu P (snd e))"

definition coded :: "('s, 'x, 'ev, 'i, 'c) poll_ops \<Rightarrow> ('s, 'ev, 'm) hako_pdu_action_mux_server_handle_scheme \<Rightarrow> bool" where
  "coded P h \<longleftrightarrow> (\<forall>name ev. ah_pending_event h = Some (name, ev) \<longrightarrow> p_code P ev \<noteq> p_none P)"

locale event_source =
  fixes P :: "('s, 'x, 'ev, 'i, 'c) poll_ops"
  assumes poll_code: "p_poll P s x = (Some (name, ev), s', x') \<Longrightarrow> p_code P ev \<noteq> p_none P"
text \<open>A poll that is not refused, in the cases of the pending event and of the copy.\<close>

lemma c_poll_answered:
  assumes "ah_started h" and "ah_services h = Some s" and "po_info out \<noteq> None" and "usable (po_buffer out)" and "po_size out \<noteq> None"
    and "c_fetch P s h x = (h1, x1)" and "c_poll P reset usable copy (Some h) out x = (c, out', h', x')"
  shows "case ah_pending_event h1 of
      None \<Rightarrow> c = p_none P \<and> h' = Some h1
    | Some (name, ev) \<Rightarrow>
        (case copy (p_pdu P ev) (reset (po_buffer out)) (Some 0) of
           (r, b, n) \<Rightarrow>
             po_info out' = Some (p_fill_info P name ev) \<and> po_buffer out' = b \<and> po_size out' = n
             \<and> (if r = COPY_OK then c = p_code P ev \<and> h' = Some (h1\<lparr>ah_pending_event := None\<rparr>)
                else c = p_none P \<and> h' = Some h1 \<and> po_error out' = map_option (\<lambda>_. action_copy_error r) (po_error out)))"
proof -
  obtain i k where ik: "po_info out = Some i" "po_size out = Some k" using assms(3,5) by auto
  show ?thesis using assms ik
    by (auto simp: c_poll_def Let_def set_info_def set_error_def option.map_comp comp_def split: option.splits prod.splits if_splits)
qed

lemma c_poll_refused:
  assumes "\<not> (ah_started h \<and> ah_services h \<noteq> None \<and> po_info out \<noteq> None \<and> usable (po_buffer out) \<and> po_size out \<noteq> None)"
    and "c_poll P reset usable copy (Some h) out x = (c, out', h', x')"
  shows "c = p_none P \<and> h' = Some h"
  using assms by (auto simp: c_poll_def Let_def split: option.splits if_splits)

lemma c_fetch_cases:
  assumes "c_fetch P s h x = (h1, x1)" and "ah_services h = Some s"
  shows "ah_pending_event h1 = (case ah_pending_event h of None \<Rightarrow> fst (p_poll P s x) | Some e \<Rightarrow> Some e)"
  using assms by (auto simp: c_fetch_def split: option.splits prod.splits)


context event_source
begin

text \<open>One poll keeps the balance of events taken, pending and delivered.\<close>

lemma c_poll_balance:
  assumes copy: "\<And>src b n b' n'. usable b \<Longrightarrow> copy src (reset b) (Some n) = (COPY_OK, b', n') \<Longrightarrow> bytes b' n' = src"
    and poll: "c_poll P reset usable copy (Some h) out x = (c, out', h', x')" and coded: "coded P h"
    and taken: "t = (if ah_started h \<and> po_info out \<noteq> None \<and> usable (po_buffer out) \<and> po_size out \<noteq> None
        \<and> ah_pending_event h = None then (case ah_services h of None \<Rightarrow> None | Some s \<Rightarrow> fst (p_poll P s x)) else None)"
  shows "map (shown P) (opt_list (ah_pending_event h) @ opt_list t)
      = report (p_none P) c (po_info out') (bytes (po_buffer out') (po_size out')) @ map (shown P) (opt_list (ah_pending_event (the h')))"
    and "coded P (the h')"
proof -
  let ?ok = "ah_started h \<and> ah_services h \<noteq> None \<and> po_info out \<noteq> None \<and> usable (po_buffer out) \<and> po_size out \<noteq> None"
  let ?goal = "map (shown P) (opt_list (ah_pending_event h) @ opt_list t)
      = report (p_none P) c (po_info out') (bytes (po_buffer out') (po_size out')) @ map (shown P) (opt_list (ah_pending_event (the h')))
      \<and> coded P (the h')"
  have ?goal
  proof (cases ?ok)
    case False
    then have "c = p_none P" "h' = Some h" using c_poll_refused [OF _ poll] by auto
    moreover have "t = None" using False taken by (auto split: option.splits)
    ultimately show ?thesis using coded by (simp add: report_def)
  next
    case True
    then obtain s where s: "ah_services h = Some s" by auto
    obtain h1 x1 where f: "c_fetch P s h x = (h1, x1)" by fastforce
    have pend: "opt_list (ah_pending_event h) @ opt_list t = opt_list (ah_pending_event h1)"
      using c_fetch_cases [OF f s] True s taken by (cases "ah_pending_event h") auto
    have coded1: "coded P h1"
      using c_fetch_cases [OF f s] coded poll_code [of s x]
      by (cases "ah_pending_event h"; cases "p_poll P s x") (auto simp: coded_def)
    show ?thesis
    proof (cases "ah_pending_event h1")
      case None
      then have "c = p_none P" "h' = Some h1" using c_poll_answered [OF _ s _ _ _ f poll] True by auto
      then show ?thesis using pend None coded1 by (simp add: report_def)
    next
      case (Some e)
      obtain name ev where e: "e = (name, ev)" by fastforce
      obtain r b n where r: "copy (p_pdu P ev) (reset (po_buffer out)) (Some 0) = (r, b, n)" by (metis prod_cases3)
      have a: "po_info out' = Some (p_fill_info P name ev)" "po_buffer out' = b" "po_size out' = n"
        "if r = COPY_OK then c = p_code P ev \<and> h' = Some (h1\<lparr>ah_pending_event := None\<rparr>) else c = p_none P \<and> h' = Some h1"
        using c_poll_answered [OF _ s _ _ _ f poll] True Some e r by (auto split: if_splits)
      show ?thesis
      proof (cases "r = COPY_OK")
        case ok: True
        then have "bytes b n = p_pdu P ev" using copy r True by blast
        moreover have "p_code P ev \<noteq> p_none P" using coded1 Some e by (auto simp: coded_def)
        ultimately show ?thesis using a ok pend Some e by (simp add: report_def shown_def coded_def)
      next
        case False
        then show ?thesis using a pend Some e coded1 by (simp add: report_def)
      qed
    qed
  qed
  then show "map (shown P) (opt_list (ah_pending_event h) @ opt_list t)
      = report (p_none P) c (po_info out') (bytes (po_buffer out') (po_size out')) @ map (shown P) (opt_list (ah_pending_event (the h')))"
    and "coded P (the h')" by simp_all
qed

text \<open>The same for a call of either kind, and for a session.\<close>

lemma poll_step_balance:
  assumes "poll_step (p_none P) (c_poll_into P) (c_poll_alloc P) call h x = (d, h')" and "coded P h"
    and "t = taken_by (\<lambda>s x. fst (p_poll P s x)) call h x"
  shows "map (shown P) (opt_list (ah_pending_event h) @ opt_list t) = d @ map (shown P) (opt_list (ah_pending_event h')) \<and> coded P h'"
proof (cases call)
  case (POLL out capacity)
  obtain c out' h1 x' where p: "c_poll_into P capacity (Some h) out x = (c, out', h1, x')" by (metis prod_cases4)
  have ok: "\<And>src b n b' n'. copy_pdu src (id b) capacity (Some n) = (COPY_OK, b', n') \<Longrightarrow> copied b' n' = src"
    using copy_pdu_ok_iff by fastforce
  show ?thesis
    using c_poll_balance [where bytes = copied, OF ok p [unfolded c_poll_into_def] assms(2) refl] assms(1,3) p POLL
    by (auto simp: taken_by_def)
next
  case (POLL_ALLOC out malloc)
  obtain c out' h1 x' where p: "c_poll_alloc P malloc (Some h) out x = (c, out', h1, x')" by (metis prod_cases4)
  have ok: "\<And>src b n b' n'. b \<noteq> None \<Longrightarrow> allocate_pdu malloc src (map_option (\<lambda>_. None) b) (Some n) = (COPY_OK, b', n') \<Longrightarrow> allocated b' n' = src"
    using allocate_pdu_ok by fastforce
  show ?thesis
    using c_poll_balance [where bytes = allocated, OF ok p [unfolded c_poll_alloc_def] assms(2) refl] assms(1,3) p POLL_ALLOC
    by (auto simp: taken_by_def conj_ac)
qed

lemma poll_session_balance:
  assumes "poll_session (\<lambda>s x. fst (p_poll P s x)) (p_none P) (c_poll_into P) (c_poll_alloc P) calls h = (ts, ds, h')" and "coded P h"
  shows "map (shown P) (opt_list (ah_pending_event h) @ ts) = ds @ map (shown P) (opt_list (ah_pending_event h'))"
  using assms
proof (induction calls arbitrary: h ts ds)
  case (Cons c rest)
  obtain change x call where c: "c = (change, x, call)" by (metis prod_cases3)
  let ?h0 = "h\<lparr>ah_services := change (ah_services h)\<rparr>"
  obtain d h1 where d: "poll_step (p_none P) (c_poll_into P) (c_poll_alloc P) call ?h0 x = (d, h1)" by fastforce
  obtain ts1 ds1 h2 where r: "poll_session (\<lambda>s x. fst (p_poll P s x)) (p_none P) (c_poll_into P) (c_poll_alloc P) rest h1 = (ts1, ds1, h2)"
    by (metis prod_cases3)
  have h0: "coded P ?h0" using Cons.prems(2) by (simp add: coded_def)
  have s: "ts = opt_list (taken_by (\<lambda>s x. fst (p_poll P s x)) call ?h0 x) @ ts1" "ds = d @ ds1" "h' = h2"
    using Cons.prems(1) c d r by (auto simp: Let_def)
  have one: "map (shown P) (opt_list (ah_pending_event h)) @ map (shown P) (opt_list (taken_by (\<lambda>s x. fst (p_poll P s x)) call ?h0 x))
      = d @ map (shown P) (opt_list (ah_pending_event h1))" and h1: "coded P h1"
    using poll_step_balance [OF d h0 refl] by simp_all
  have "map (shown P) (opt_list (ah_pending_event h) @ ts) = (d @ map (shown P) (opt_list (ah_pending_event h1))) @ map (shown P) ts1"
    unfolding s one [symmetric] by simp
  also have "\<dots> = d @ map (shown P) (opt_list (ah_pending_event h1) @ ts1)" by simp
  also have "\<dots> = ds @ map (shown P) (opt_list (ah_pending_event h'))" unfolding Cons.IH [OF r [folded s(3)] h1] s by simp
  finally show ?case .
qed simp

end


section \<open>The services fulfil the contract\<close>

lemma client_poll_actions_type:
  "client_poll_actions V as w = (Some (name, ev), as') \<Longrightarrow> ce_type ev \<noteq> CE_NONE"
  by (induction as arbitrary: as') (auto simp: Let_def split: prod.splits if_splits)

lemma poll_runtime_type: "poll_runtime s evs = (Some (name, ev), s') \<Longrightarrow> se_type ev \<noteq> SE_NONE"
  by (induction s evs rule: poll_runtime.induct) (auto split: option.splits prod.splits if_splits)

lemma poll_endpoints_type: "poll_endpoints V as w = (Some (name, ev), as', w') \<Longrightarrow> se_type ev \<noteq> SE_NONE"
  by (induction as arbitrary: w as' w') (auto simp: Let_def split: prod.splits if_splits)

lemma ServicesServer_poll_type: "ServicesServer_poll V s w = (Some (name, ev), s', w') \<Longrightarrow> se_type ev \<noteq> SE_NONE"
  by (auto simp: ServicesServer_poll_def dest: poll_runtime_type poll_endpoints_type split: option.splits prod.splits)

lemma action_poll_slots_type:
  assumes typed: "\<forall>s w name ev s' w'. cs_poll M s w = (Some (name, ev), s', w') \<longrightarrow> se_type ev \<noteq> SE_NONE"
  shows "action_poll_slots M owners slots = (Some (name, ev), owners', slots') \<Longrightarrow> se_type ev \<noteq> SE_NONE"
proof (induction slots arbitrary: owners' slots')
  case (Cons slot slots)
  then show ?case
    by (auto simp: Let_def dest: typed [rule_format] split: prod.splits if_splits option.splits)
qed simp

lemma ActionMux_poll_type:
  assumes "ActionMux_poll (action_connection_services E J config t) endpoints m = (Some (name, ev), m')"
  shows "se_type ev \<noteq> SE_NONE"
proof -
  have "\<forall>s w name ev s' w'. cs_poll (action_connection_services E J config t) s w = (Some (name, ev), s', w') \<longrightarrow> se_type ev \<noteq> SE_NONE"
    by (auto simp: action_connection_services_def Let_def dest: ServicesServer_poll_type)
  note typed = action_poll_slots_type [OF this]
  show ?thesis using assms
    by (auto simp: ActionMux_poll_def Let_def dest: typed split: option.splits prod.splits if_splits)
qed

lemma map_client_event_none [simp]: "map_client_event t = HAKO_PDU_ACTION_CLIENT_EVENT_NONE \<longleftrightarrow> t = CE_NONE"
  by (cases t) simp_all

lemma map_server_event_none [simp]: "map_server_event t = HAKO_PDU_ACTION_SERVER_EVENT_NONE \<longleftrightarrow> t = SE_NONE"
  by (cases t) simp_all

interpretation client_source: event_source "client_poll_ops V" for V :: "('e, 'w) IActionClientEndpoint"
  by unfold_locales
    (auto simp: client_poll_ops_def ServicesClient_poll_def dest: client_poll_actions_type split: prod.splits)

interpretation server_source: event_source "server_event_ops (ServicesServer_poll V)" for V :: "('e, 'w) IActionServerEndpoint"
  by unfold_locales (auto simp: server_event_ops_def dest: ServicesServer_poll_type)

interpretation mux_source: event_source "mux_poll_ops (action_connection_services E J config t)"
  for E :: "'w pdu_env" and J :: "'j json_ops" and config t
  by unfold_locales (auto simp: mux_poll_ops_def server_event_ops_def dest: ActionMux_poll_type split: prod.splits)

section \<open>Events are neither lost nor repeated\<close>

text \<open>What the caller receives for an event of the services.\<close>

definition client_report :: "string \<times> ClientEvent \<Rightarrow> hako_pdu_action_client_event_t \<times> hako_pdu_action_client_event_info_t option \<times> pdu_data" where
  "client_report e = (map_client_event (ce_type (snd e)), Some (fill_client_info (fst e) (snd e)), ce_pdu (snd e))"

definition server_report :: "string \<times> ServerEvent \<Rightarrow> hako_pdu_action_server_event_t \<times> hako_pdu_action_server_event_info_t option \<times> pdu_data" where
  "server_report e = (map_server_event (se_type (snd e)), Some (fill_server_info (fst e) (snd e)), se_pdu (snd e))"

definition client_session where
  "client_session V = poll_session (\<lambda>s w. fst (ServicesClient_poll V s w)) HAKO_PDU_ACTION_CLIENT_EVENT_NONE
     (hako_pdu_action_client_poll V) (hako_pdu_action_client_poll_alloc V)"

definition server_session where
  "server_session V = poll_session (\<lambda>s w. fst (ServicesServer_poll V s w)) HAKO_PDU_ACTION_SERVER_EVENT_NONE
     (hako_pdu_action_server_poll V) (hako_pdu_action_server_poll_alloc V)"

definition mux_session where
  "mux_session M = poll_session (\<lambda>m endpoints. fst (ActionMux_poll M endpoints m)) HAKO_PDU_ACTION_SERVER_EVENT_NONE
     (hako_pdu_action_mux_server_poll M) (hako_pdu_action_mux_server_poll_alloc M)"

lemma client_shown: "shown (client_poll_ops V) = client_report"
  by (rule ext) (simp add: shown_def client_report_def client_poll_ops_def)

lemma server_shown: "shown (server_event_ops (ServicesServer_poll V)) = server_report"
  by (rule ext) (simp add: shown_def server_report_def server_event_ops_def)

lemma mux_shown: "shown (mux_poll_ops (action_connection_services E J config t)) = server_report"
  by (rule ext) (simp add: shown_def server_report_def mux_poll_ops_def server_event_ops_def)


text \<open>
  The same for a handle of the multiplexing server on the services of the code:
  over any sequence of polls and any changes of the server between them, nothing that the
  server reported, a Goal Request, a cancel or a runtime cancel of a disconnected client, is
  lost or reported twice.
\<close>

theorem mux_polls_lossless:
  assumes "ah_pending_event h = None"
    and "mux_session (action_connection_services E J config t) calls h = (taken, delivered, h')"
  shows "map server_report taken = delivered @ map server_report (opt_list (ah_pending_event h'))"
proof -
  let ?P = "mux_poll_ops (action_connection_services E J config t)"
  have "poll_session (\<lambda>s w. fst (p_poll ?P s w)) (p_none ?P) (c_poll_into ?P) (c_poll_alloc ?P) calls h = (taken, delivered, h')"
    using assms(2)
    by (simp add: mux_session_def hako_pdu_action_mux_server_poll_def hako_pdu_action_mux_server_poll_alloc_def
          mux_poll_ops_def server_event_ops_def case_prod_unfold)
  from mux_source.poll_session_balance [OF this] assms(1)
  show ?thesis by (simp add: coded_def mux_shown)
qed

lemma server_polls_lossless:
  assumes "ah_pending_event h = None" and "server_session V calls h = (taken, delivered, h')"
  shows "map server_report taken = delivered @ map server_report (opt_list (ah_pending_event h'))"
proof -
  let ?P = "server_event_ops (ServicesServer_poll V)"
  have "poll_session (\<lambda>s w. fst (p_poll ?P s w)) (p_none ?P) (c_poll_into ?P) (c_poll_alloc ?P) calls h = (taken, delivered, h')"
    using assms(2)
    by (simp add: server_session_def hako_pdu_action_server_poll_def hako_pdu_action_server_poll_alloc_def server_event_ops_def)
  from server_source.poll_session_balance [OF this] assms(1)
  show ?thesis by (simp add: coded_def server_shown)
qed

section \<open>Asking again with a larger buffer\<close>

lemma action_copy_error_too_small [simp]:
  "action_copy_error r = HAKO_PDU_ACTION_ERROR_BUFFER_TOO_SMALL \<longleftrightarrow> r = COPY_TOO_SMALL"
  by (cases r) simp_all

lemma c_poll_too_small:
  assumes poll: "c_poll_into P capacity (Some h) out x = (c, out1, Some h1, x1)"
    and small: "po_error out1 = Some HAKO_PDU_ACTION_ERROR_BUFFER_TOO_SMALL"
  shows "c = p_none P \<and> ah_started h1
     \<and> (\<exists>name ev. ah_pending_event h1 = Some (name, ev) \<and> po_size out1 = Some (length (p_pdu P ev))
          \<and> po_info out1 = Some (p_fill_info P name ev))"
proof -
  have e: "po_error out1 = Some HAKO_PDU_ACTION_ERROR_BUFFER_TOO_SMALL \<Longrightarrow> ?thesis"
    using poll
    by (auto simp: c_poll_into_def c_poll_def Let_def set_error_def set_info_def copy_pdu_def c_fetch_def
        split: option.splits prod.splits if_splits)
  show ?thesis using e small by simp
qed

lemma c_poll_pending:
  assumes "ah_started h" and "ah_services h = Some s" and "ah_pending_event h = Some (name, ev)" and "length (p_pdu P ev) \<le> capacity"
    and "po_info out \<noteq> None" and "po_buffer out \<noteq> None" and "po_size out \<noteq> None"
    and "c_poll_into P capacity (Some h) out x = (c, out', h', x')"
  shows "c = p_code P ev \<and> po_info out' = Some (p_fill_info P name ev) \<and> po_size out' = Some (length (p_pdu P ev))
     \<and> copied (po_buffer out') (po_size out') = p_pdu P ev \<and> h' = Some (h\<lparr>ah_pending_event := None\<rparr>) \<and> x' = x"
proof -
  obtain i b k where o: "po_info out = Some i" "po_buffer out = Some b" "po_size out = Some k" using assms(5-7) by auto
  show ?thesis using assms(1-4,8) o
    by (auto simp: c_poll_into_def c_poll_def Let_def set_error_def set_info_def copy_pdu_def c_fetch_def copied_def
        split: if_splits)
qed

text \<open>
  A poll of a server handle that fails with \<open>BUFFER_TOO_SMALL\<close> delivers nothing
  and reports the size that is needed, and the next poll with a buffer of that size delivers
  the event it could not: whatever happened to the services in between, they are not asked,
  and the world is left alone.
\<close>

theorem server_poll_again:
  assumes "hako_pdu_action_server_poll V capacity (Some h) out w = (c, out1, Some h1, w1)"
    and "po_error out1 = Some HAKO_PDU_ACTION_ERROR_BUFFER_TOO_SMALL" and "po_size out1 = Some n" and "n \<le> capacity2"
    and "po_info out2 \<noteq> None" and "po_buffer out2 \<noteq> None" and "po_size out2 \<noteq> None"
    and "hako_pdu_action_server_poll V capacity2 (Some (h1\<lparr>ah_services := Some s\<rparr>)) out2 w2 = (c2, out3, h3, w3)"
  shows "c = HAKO_PDU_ACTION_SERVER_EVENT_NONE
     \<and> (\<exists>name ev. ah_pending_event h1 = Some (name, ev) \<and> c2 = map_server_event (se_type ev)
          \<and> po_info out3 = Some (fill_server_info name ev) \<and> po_size out3 = Some n \<and> copied (po_buffer out3) (po_size out3) = se_pdu ev)
     \<and> h3 = Some (h1\<lparr>ah_services := Some s, ah_pending_event := None\<rparr>) \<and> w3 = w2"
proof -
  let ?P = "server_event_ops (ServicesServer_poll V)"
  have ops: "p_none ?P = HAKO_PDU_ACTION_SERVER_EVENT_NONE" "p_pdu ?P = se_pdu" "p_fill_info ?P = fill_server_info"
    "p_code ?P = (\<lambda>ev. map_server_event (se_type ev))"
    by (simp_all add: server_event_ops_def)
  obtain name ev where ev: "c = p_none ?P" "ah_started h1" "ah_pending_event h1 = Some (name, ev)" "n = length (se_pdu ev)"
    using c_poll_too_small [OF assms(1) [unfolded hako_pdu_action_server_poll_def] assms(2)] assms(3) ops by auto
  with c_poll_pending [OF _ _ _ _ assms(5-7) assms(8) [unfolded hako_pdu_action_server_poll_def], of s name ev] assms(4)
  show ?thesis by (auto simp: ops)
qed

section \<open>Stopping\<close>

lemma c_goal_op_not_started:
  "\<not> ah_started h \<Longrightarrow> \<exists>e. c_goal_op payload op (Some h) name goal x = (e, Some h, x)
     \<and> (e = HAKO_PDU_ACTION_ERROR_INVALID_ARGUMENT \<or> e = HAKO_PDU_ACTION_ERROR_NOT_RUNNING)"
  by (auto simp: c_goal_op_def split: option.splits)

lemma c_poll_not_started:
  "\<not> ah_started h \<Longrightarrow> \<exists>out'. c_poll P reset usable copy (Some h) out x = (p_none P, out', Some h, x)"
  by (auto simp: c_poll_def Let_def split: option.splits)

lemma ActionMux_stop_start: "ActionMux_start b (ActionMux_stop m) = (False, ActionMux_stop m)"
  by (simp add: ActionMux_start_def ActionMux_stop_def)

text \<open>
  Stopping a handle of the multiplexing server is final. Its connections are
  closed, the event that was pending is gone, a new start is refused with \<open>ERROR_START\<close> (or
  \<open>ERROR_INITIALIZE\<close> when it never had a server), and a poll or a Goal operation after it
  changes nothing.
\<close>

theorem action_stop_is_final:
  "\<exists>h1. hako_pdu_action_mux_server_stop (Some h) = (HAKO_PDU_ACTION_OK, Some h1)
     \<and> ah_pending_event h1 = None
     \<and> map_option (\<lambda>m. (amx_slots m, amx_owners m, amx_closed m)) (ah_services h1) =
         map_option (\<lambda>m. ([], [], amx_closed m @ map acs_endpoint (amx_slots m))) (ah_services h)
     \<and> hako_pdu_action_mux_server_start b (Some h1) =
         (if ah_services h = None then HAKO_PDU_ACTION_ERROR_INITIALIZE else HAKO_PDU_ACTION_ERROR_START, Some h1)
     \<and> (\<exists>out'. hako_pdu_action_mux_server_poll M capacity (Some h1) out endpoints =
          (HAKO_PDU_ACTION_SERVER_EVENT_NONE, out', Some h1, endpoints))
     \<and> (\<exists>e. hako_pdu_action_mux_server_accept_goal M (Some h1) name goal () = (e, Some h1, ())
          \<and> (e = HAKO_PDU_ACTION_ERROR_INVALID_ARGUMENT \<or> e = HAKO_PDU_ACTION_ERROR_NOT_RUNNING))
     \<and> (\<exists>e. hako_pdu_action_mux_server_complete M status pdu pdu_size (Some h1) name goal () = (e, Some h1, ())
          \<and> (e = HAKO_PDU_ACTION_ERROR_INVALID_ARGUMENT \<or> e = HAKO_PDU_ACTION_ERROR_NOT_RUNNING))"
    (is "\<exists>h1. ?P h1")
proof -
  let ?h = "snd (stop_mux_server h)"
  have not_started: "\<not> ah_started ?h" by (simp add: stop_mux_server_def)
  have "?P ?h"
  proof (intro conjI)
    show "hako_pdu_action_mux_server_stop (Some h) = (HAKO_PDU_ACTION_OK, Some ?h)" "ah_pending_event ?h = None"
      by (simp_all add: hako_pdu_action_mux_server_stop_def stop_mux_server_def)
    show "map_option (\<lambda>m. (amx_slots m, amx_owners m, amx_closed m)) (ah_services ?h) =
        map_option (\<lambda>m. ([], [], amx_closed m @ map acs_endpoint (amx_slots m))) (ah_services h)"
      by (cases "ah_services h") (simp_all add: stop_mux_server_def ActionMux_stop_def)
    show "hako_pdu_action_mux_server_start b (Some ?h) =
        (if ah_services h = None then HAKO_PDU_ACTION_ERROR_INITIALIZE else HAKO_PDU_ACTION_ERROR_START, Some ?h)"
      by (cases "ah_services h") (simp_all add: hako_pdu_action_mux_server_start_def stop_mux_server_def ActionMux_stop_start)
    show "\<exists>out'. hako_pdu_action_mux_server_poll M capacity (Some ?h) out endpoints =
        (HAKO_PDU_ACTION_SERVER_EVENT_NONE, out', Some ?h, endpoints)"
      using c_poll_not_started [OF not_started, of "mux_poll_ops M"]
      by (simp add: hako_pdu_action_mux_server_poll_def c_poll_into_def mux_poll_ops_def server_event_ops_def)
    show "\<exists>e. hako_pdu_action_mux_server_accept_goal M (Some ?h) name goal () = (e, Some ?h, ())
        \<and> (e = HAKO_PDU_ACTION_ERROR_INVALID_ARGUMENT \<or> e = HAKO_PDU_ACTION_ERROR_NOT_RUNNING)"
      unfolding hako_pdu_action_mux_server_accept_goal_def by (rule c_goal_op_not_started [OF not_started])
    show "\<exists>e. hako_pdu_action_mux_server_complete M status pdu pdu_size (Some ?h) name goal () = (e, Some ?h, ())
        \<and> (e = HAKO_PDU_ACTION_ERROR_INVALID_ARGUMENT \<or> e = HAKO_PDU_ACTION_ERROR_NOT_RUNNING)"
      unfolding hako_pdu_action_mux_server_complete_def by (rule c_goal_op_not_started [OF not_started])
  qed
  then show ?thesis by blast
qed

section \<open>Examples\<close>

definition example_out :: "'i \<Rightarrow> ('i, pdu_data option) poll_out" where
  "example_out i = \<lparr>po_info = Some i, po_buffer = Some (replicate 64 0), po_size = Some 0, po_error = Some HAKO_PDU_ACTION_OK\<rparr>"

definition example_alloc_out :: "'i \<Rightarrow> ('i, pdu_data option option) poll_out" where
  "example_alloc_out i = \<lparr>po_info = Some i, po_buffer = Some None, po_size = Some 0, po_error = None\<rparr>"

definition running_handle :: "'s \<Rightarrow> ('s, 'ev) hako_pdu_action_handle" where
  "running_handle s = \<lparr>ah_services = Some s, ah_pending_event = None, ah_started = True, ah_endpoints = True\<rparr>"

lemmas c_poll_simps = c_poll_into_def c_poll_alloc_def c_poll_def c_fetch_def set_error_def set_info_def copy_pdu_def allocate_pdu_def
  taken_by_def report_def example_out_def example_alloc_out_def copied_def allocated_def

lemma example_lengths [simp]: "length accept_packet = 40" "length goal_packet = 40" "accept_packet \<noteq> []" "goal_packet \<noteq> []"
  by (simp_all add: accept_packet_def goal_packet_def g0_def)

abbreviation "responded_services \<equiv>
  example_client_services (ClientEndpoint_on_recv 0 PK_RESPONSE accept_packet (bound_client awaiting_binding)) []"

text \<open>A Goal Response reaches the caller on the second poll, with a larger buffer.\<close>

lemma example_client_session:
  "client_session (client_endpoint_vtable example_env)
     [(id, w_ok, POLL (example_out zero_client_info) 8), (id, w_ok, POLL (example_out zero_client_info) 64)] (running_handle responded_services)
   = ([(''Move'', accept_event)], [client_report (''Move'', accept_event)],
      running_handle (example_client_services (bound_client (awaiting_binding\<lparr>cb_state := CB_ACCEPTED\<rparr>)) [accepted_client_goal]))"
  using example_client_services_poll [of w_ok]
  by (simp add: client_session_def hako_pdu_action_client_poll_def hako_pdu_action_client_poll_alloc_def c_poll_simps client_poll_ops_def
      running_handle_def client_report_def Let_def accept_event_def)


text \<open>A Goal Request waits in the handle while \<open>malloc\<close> fails.\<close>

definition mux_handle :: "'s \<Rightarrow> (string \<times> 'ev) option \<Rightarrow> ('s, 'ev) hako_pdu_action_mux_server_handle" where
  "mux_handle m e = \<lparr>ah_services = Some m, ah_pending_event = e, ah_started = True\<rparr>"

abbreviation "request_of_g0 \<equiv> goal_event example_server SE_GOAL_REQUEST g0 goal_packet"

lemma request_pdu [simp]: "se_pdu request_of_g0 = goal_packet"
  by (simp add: goal_event_def)

lemma example_mux_session:
  "mux_session example_connection [(id, [], POLL_ALLOC (example_alloc_out zero_server_info) (\<lambda>_. False))]
     (mux_handle (mux_state [] (mux_slot received_services w_ok False)) None)
   = ([(''Move'', request_of_g0)], [],
      mux_handle (mux_state [pending_owner] (mux_slot (example_services (bound_server (new_binding g0 0)) []) w_ok False))
        (Some (''Move'', request_of_g0)))"
  using request_poll
  by (simp add: mux_session_def hako_pdu_action_mux_server_poll_alloc_def c_poll_simps mux_poll_ops_def server_event_ops_def
      mux_handle_def Let_def)

theorem mux_polls_lossless_witness:
  "\<exists>delivered h'. mux_session example_connection [(id, [], POLL_ALLOC (example_alloc_out zero_server_info) (\<lambda>_. False))]
       (mux_handle (mux_state [] (mux_slot received_services w_ok False)) None) = ([(''Move'', request_of_g0)], delivered, h')
   \<and> [server_report (''Move'', request_of_g0)] = delivered @ map server_report (opt_list (ah_pending_event h'))"
  using mux_polls_lossless [OF _ example_mux_session] example_mux_session by (simp add: mux_handle_def)

lemma example_server_polls:
  "\<exists>out1 h1 out3 h3. hako_pdu_action_server_poll (server_endpoint_vtable example_env) 8 (Some (running_handle received_services))
       (example_out zero_server_info) w_ok = (HAKO_PDU_ACTION_SERVER_EVENT_NONE, out1, Some h1, w_ok)
     \<and> po_error out1 = Some HAKO_PDU_ACTION_ERROR_BUFFER_TOO_SMALL \<and> po_size out1 = Some 40
     \<and> hako_pdu_action_server_poll (server_endpoint_vtable example_env) 40 (Some (h1\<lparr>ah_services := Some (example_services example_server [])\<rparr>))
         (example_out zero_server_info) w_ok = (HAKO_PDU_ACTION_SERVER_EVENT_GOAL_REQUEST, out3, h3, w_ok)"
  using example_services_poll request_event(1)
  by (simp add: hako_pdu_action_server_poll_def c_poll_simps server_event_ops_def running_handle_def Let_def)

theorem server_poll_again_witness:
  "\<exists>out1 h1 out3 h3. hako_pdu_action_server_poll (server_endpoint_vtable example_env) 8 (Some (running_handle received_services))
       (example_out zero_server_info) w_ok = (HAKO_PDU_ACTION_SERVER_EVENT_NONE, out1, Some h1, w_ok)
     \<and> po_error out1 = Some HAKO_PDU_ACTION_ERROR_BUFFER_TOO_SMALL \<and> po_size out1 = Some 40
     \<and> hako_pdu_action_server_poll (server_endpoint_vtable example_env) 40 (Some (h1\<lparr>ah_services := Some (example_services example_server [])\<rparr>))
         (example_out zero_server_info) w_ok = (HAKO_PDU_ACTION_SERVER_EVENT_GOAL_REQUEST, out3, h3, w_ok)
     \<and> h3 = Some (h1\<lparr>ah_services := Some (example_services example_server []), ah_pending_event := None\<rparr>)"
proof -
  obtain out1 h1 out3 h3 where p: "hako_pdu_action_server_poll (server_endpoint_vtable example_env) 8 (Some (running_handle received_services))
      (example_out zero_server_info) w_ok = (HAKO_PDU_ACTION_SERVER_EVENT_NONE, out1, Some h1, w_ok)"
    "po_error out1 = Some HAKO_PDU_ACTION_ERROR_BUFFER_TOO_SMALL" "po_size out1 = Some 40"
    and q: "hako_pdu_action_server_poll (server_endpoint_vtable example_env) 40 (Some (h1\<lparr>ah_services := Some (example_services example_server [])\<rparr>))
         (example_out zero_server_info) w_ok = (HAKO_PDU_ACTION_SERVER_EVENT_GOAL_REQUEST, out3, h3, w_ok)"
    using example_server_polls by blast
  have "po_info (example_out zero_server_info) \<noteq> None" "po_buffer (example_out zero_server_info) \<noteq> None"
    "po_size (example_out zero_server_info) \<noteq> None" by (simp_all add: example_out_def)
  from server_poll_again [OF p order_refl this q] p q show ?thesis by blast
qed

end
