(* ===== verification/C_Rpc.thy ===== *)
theory C_Rpc
  imports C_Buffers Rpc_Mux
begin

text \<open>
  The C API of the RPC runtime, \<open>src/c_rpc.cpp\<close>, \<open>src/c_rpc_alloc.cpp\<close>, \<open>src/c_rpc_cancel.cpp\<close> and
  \<open>src/c_rpc_mux.cpp\<close>: handles around the RPC services and the multiplexing RPC server. A server
  handle names every request that it reports with a token, and a reply names the token.

  The conventions are those of the Action C API: a pointer is an option, a handle is returned
  with its new contents, the results of \<open>EndpointContainer\<close> are arguments, the time source is
  assumed to be made, and no operation of the services throws. \<open>'x\<close> is what the services work on
  beside their own state: the worlds of the endpoints for the static server, the endpoints that
  connected for the multiplexing server. \<open>destroy\<close> is \<open>stop\<close> and the release of the memory.
\<close>

section \<open>Enumerations and structures\<close>

datatype hako_pdu_rpc_error_t =
    HAKO_PDU_RPC_OK
  | HAKO_PDU_RPC_ERROR_INVALID_ARGUMENT
  | HAKO_PDU_RPC_ERROR_INITIALIZE
  | HAKO_PDU_RPC_ERROR_START
  | HAKO_PDU_RPC_ERROR_NOT_RUNNING
  | HAKO_PDU_RPC_ERROR_CALL
  | HAKO_PDU_RPC_ERROR_BUFFER_TOO_SMALL
  | HAKO_PDU_RPC_ERROR_NOT_FOUND
  | HAKO_PDU_RPC_ERROR_INTERNAL

datatype hako_pdu_rpc_client_event_t =
    HAKO_PDU_RPC_CLIENT_EVENT_NONE
  | HAKO_PDU_RPC_CLIENT_EVENT_RESPONSE_IN
  | HAKO_PDU_RPC_CLIENT_EVENT_RESPONSE_CANCEL
  | HAKO_PDU_RPC_CLIENT_EVENT_RESPONSE_TIMEOUT

datatype hako_pdu_rpc_server_event_t =
    HAKO_PDU_RPC_SERVER_EVENT_NONE
  | HAKO_PDU_RPC_SERVER_EVENT_REQUEST_IN
  | HAKO_PDU_RPC_SERVER_EVENT_REQUEST_CANCEL

record hako_pdu_rpc_response_info_t =
  rsi_service_name :: "char list"
  rsi_pdu_size :: nat

record hako_pdu_rpc_request_info_t =
  rqi_request_token :: uint64
  rqi_service_name :: "char list"
  rqi_client_name :: "char list"
  rqi_pdu_size :: nat

fun rpc_map_client_event :: "RpcClientEventType \<Rightarrow> hako_pdu_rpc_client_event_t" where
  "rpc_map_client_event RCE_RESPONSE_IN = HAKO_PDU_RPC_CLIENT_EVENT_RESPONSE_IN"
| "rpc_map_client_event RCE_RESPONSE_CANCEL = HAKO_PDU_RPC_CLIENT_EVENT_RESPONSE_CANCEL"
| "rpc_map_client_event RCE_RESPONSE_TIMEOUT = HAKO_PDU_RPC_CLIENT_EVENT_RESPONSE_TIMEOUT"
| "rpc_map_client_event RCE_NONE = HAKO_PDU_RPC_CLIENT_EVENT_NONE"

fun rpc_map_server_event :: "RpcServerEventType \<Rightarrow> hako_pdu_rpc_server_event_t" where
  "rpc_map_server_event RSE_REQUEST_IN = HAKO_PDU_RPC_SERVER_EVENT_REQUEST_IN"
| "rpc_map_server_event RSE_REQUEST_CANCEL = HAKO_PDU_RPC_SERVER_EVENT_REQUEST_CANCEL"
| "rpc_map_server_event RSE_NONE = HAKO_PDU_RPC_SERVER_EVENT_NONE"

text \<open>The error code that \<open>copy_pdu\<close> and \<open>allocate_pdu\<close> of these files return.\<close>

fun rpc_copy_error :: "copy_outcome \<Rightarrow> hako_pdu_rpc_error_t" where
  "rpc_copy_error COPY_OK = HAKO_PDU_RPC_OK"
| "rpc_copy_error COPY_INVALID_ARGUMENT = HAKO_PDU_RPC_ERROR_INVALID_ARGUMENT"
| "rpc_copy_error COPY_TOO_SMALL = HAKO_PDU_RPC_ERROR_BUFFER_TOO_SMALL"
| "rpc_copy_error COPY_NO_MEMORY = HAKO_PDU_RPC_ERROR_INTERNAL"

section \<open>Handles\<close>

record 's hako_pdu_rpc_client_handle =
  ch_endpoints :: bool
  ch_rpc :: "'s option"
  ch_started :: bool

record ('s, 'q) hako_pdu_rpc_mux_server_handle =
  rh_rpc :: "'s option"
  rh_next_token :: uint64
  rh_pending_requests :: "(uint64, 'q) std_map"
  rh_started :: bool

record ('s, 'q) hako_pdu_rpc_server_handle = "('s, 'q) hako_pdu_rpc_mux_server_handle" +
  rh_endpoints :: bool

text \<open>\<open>release_client\<close> and \<open>release_server\<close>; the token counter is kept.\<close>

definition release_client :: "'s hako_pdu_rpc_client_handle \<Rightarrow> 's hako_pdu_rpc_client_handle" where
  "release_client h = h\<lparr>ch_rpc := None, ch_endpoints := False, ch_started := False\<rparr>"

definition release_server :: "('s, 'q) hako_pdu_rpc_server_handle \<Rightarrow> ('s, 'q) hako_pdu_rpc_server_handle" where
  "release_server h = h\<lparr>rh_pending_requests := [], rh_rpc := None, rh_endpoints := False, rh_started := False\<rparr>"

section \<open>Lifecycle\<close>

definition hako_pdu_rpc_client_create ::
    "'j rpc_json \<Rightarrow> 'j config_file \<Rightarrow> (string \<Rightarrow> string \<Rightarrow> bool) \<Rightarrow> (string \<Rightarrow> 'e option)
     \<Rightarrow> string option \<Rightarrow> string option \<Rightarrow> string option \<Rightarrow> string option \<Rightarrow> ('e, 'w) rpc_worlds
     \<Rightarrow> 'e RpcServicesClient hako_pdu_rpc_client_handle option \<times> ('e, 'w) rpc_worlds" where
  "hako_pdu_rpc_client_create J config container_initialize container node_id client_name service_config_path endpoint_config_path ws =
     (if \<not> valid_text node_id \<or> \<not> valid_text client_name \<or> \<not> valid_text service_config_path \<or> \<not> valid_text endpoint_config_path
      then (None, ws)
      else if \<not> container_initialize (the node_id) (the endpoint_config_path) then (None, ws)
      else case RpcServicesClient_initialize_services J config container
                  (new_RpcServicesClient (the node_id) (the client_name) (the service_config_path)) ws of
        (False, _, ws') \<Rightarrow> (None, ws')
      | (True, s, ws') \<Rightarrow> (Some \<lparr>ch_endpoints = True, ch_rpc = Some s, ch_started = False\<rparr>, ws'))"

definition hako_pdu_rpc_server_create ::
    "'j rpc_json \<Rightarrow> 'j config_file \<Rightarrow> (string \<Rightarrow> string \<Rightarrow> bool) \<Rightarrow> (string \<Rightarrow> 'e option)
     \<Rightarrow> string option \<Rightarrow> string option \<Rightarrow> string option \<Rightarrow> ('e, 'w) rpc_worlds
     \<Rightarrow> ('e RpcServicesServer, RpcRequest) hako_pdu_rpc_server_handle option \<times> ('e, 'w) rpc_worlds" where
  "hako_pdu_rpc_server_create J config container_initialize container node_id service_config_path endpoint_config_path ws =
     (if \<not> valid_text node_id \<or> \<not> valid_text service_config_path \<or> \<not> valid_text endpoint_config_path then (None, ws)
      else if \<not> container_initialize (the node_id) (the endpoint_config_path) then (None, ws)
      else case RpcServicesServer_initialize_services_impl J config (Some container) None None
                  (new_RpcServicesServer (the node_id) ''RpcServerEndpointImpl'' (the service_config_path)) ws of
        (False, _, ws') \<Rightarrow> (None, ws')
      | (True, s, ws') \<Rightarrow>
          (Some \<lparr>rh_rpc = Some s, rh_next_token = 1, rh_pending_requests = [], rh_started = False, rh_endpoints = True\<rparr>, ws'))"

definition hako_pdu_rpc_mux_server_create ::
    "(string \<Rightarrow> size_t option) \<Rightarrow> string option \<Rightarrow> string option \<Rightarrow> string option \<Rightarrow> uint64
     \<Rightarrow> (('e, 'w) RpcServicesMuxServer, RpcMuxRequest) hako_pdu_rpc_mux_server_handle option" where
  "hako_pdu_rpc_mux_server_create mux_open node_id service_config_path endpoint_mux_config_path delta_time_usec =
     (if \<not> valid_text node_id \<or> \<not> valid_text service_config_path \<or> \<not> valid_text endpoint_mux_config_path \<or> delta_time_usec = 0
      then None
      else case RpcMux_initialize mux_open
                  (new_RpcServicesMuxServer (the node_id) ''RpcServerEndpointImpl'' (the service_config_path)
                     (the endpoint_mux_config_path) delta_time_usec) of
        (False, _) \<Rightarrow> None
      | (True, m) \<Rightarrow> Some \<lparr>rh_rpc = Some m, rh_next_token = 1, rh_pending_requests = [], rh_started = False\<rparr>)"

definition hako_pdu_rpc_client_start ::
    "bool \<Rightarrow> 'e RpcServicesClient hako_pdu_rpc_client_handle option
     \<Rightarrow> hako_pdu_rpc_error_t \<times> 'e RpcServicesClient hako_pdu_rpc_client_handle option" where
  "hako_pdu_rpc_client_start start_all handle =
     (case handle of
        None \<Rightarrow> (HAKO_PDU_RPC_ERROR_INVALID_ARGUMENT, None)
      | Some h \<Rightarrow>
          if ch_started h then (HAKO_PDU_RPC_OK, handle)
          else if \<not> ch_endpoints h then (HAKO_PDU_RPC_ERROR_INITIALIZE, handle)
          else case ch_rpc h of
            None \<Rightarrow> (HAKO_PDU_RPC_ERROR_INITIALIZE, handle)
          | Some s \<Rightarrow>
              if \<not> start_all then (HAKO_PDU_RPC_ERROR_START, handle)
              else (case RpcServicesClient_start_all_services s of
                      (False, s') \<Rightarrow> (HAKO_PDU_RPC_ERROR_START, Some (h\<lparr>ch_rpc := Some s'\<rparr>))
                    | (True, s') \<Rightarrow> (HAKO_PDU_RPC_OK, Some (h\<lparr>ch_rpc := Some s', ch_started := True\<rparr>))))"

definition hako_pdu_rpc_server_start ::
    "bool \<Rightarrow> ('e RpcServicesServer, 'q) hako_pdu_rpc_server_handle option
     \<Rightarrow> hako_pdu_rpc_error_t \<times> ('e RpcServicesServer, 'q) hako_pdu_rpc_server_handle option" where
  "hako_pdu_rpc_server_start start_all handle =
     (case handle of
        None \<Rightarrow> (HAKO_PDU_RPC_ERROR_INVALID_ARGUMENT, None)
      | Some h \<Rightarrow>
          if rh_started h then (HAKO_PDU_RPC_OK, handle)
          else if \<not> rh_endpoints h then (HAKO_PDU_RPC_ERROR_INITIALIZE, handle)
          else case rh_rpc h of
            None \<Rightarrow> (HAKO_PDU_RPC_ERROR_INITIALIZE, handle)
          | Some s \<Rightarrow>
              if \<not> start_all then (HAKO_PDU_RPC_ERROR_START, handle)
              else (case RpcServicesServer_start_all_services s of
                      (False, s') \<Rightarrow> (HAKO_PDU_RPC_ERROR_START, Some (h\<lparr>rh_rpc := Some s'\<rparr>))
                    | (True, s') \<Rightarrow> (HAKO_PDU_RPC_OK, Some (h\<lparr>rh_rpc := Some s', rh_started := True\<rparr>))))"

definition hako_pdu_rpc_mux_server_start ::
    "bool \<Rightarrow> (('e, 'w) RpcServicesMuxServer, 'q) hako_pdu_rpc_mux_server_handle option
     \<Rightarrow> hako_pdu_rpc_error_t \<times> (('e, 'w) RpcServicesMuxServer, 'q) hako_pdu_rpc_mux_server_handle option" where
  "hako_pdu_rpc_mux_server_start mux_starts handle =
     (case handle of
        None \<Rightarrow> (HAKO_PDU_RPC_ERROR_INVALID_ARGUMENT, None)
      | Some h \<Rightarrow>
          if rh_started h then (HAKO_PDU_RPC_OK, handle)
          else case rh_rpc h of
            None \<Rightarrow> (HAKO_PDU_RPC_ERROR_INITIALIZE, handle)
          | Some m \<Rightarrow>
              (case RpcMux_start mux_starts m of
                 (False, m') \<Rightarrow> (HAKO_PDU_RPC_ERROR_START, Some (h\<lparr>rh_rpc := Some m'\<rparr>))
               | (True, m') \<Rightarrow> (HAKO_PDU_RPC_OK, Some (h\<lparr>rh_rpc := Some m', rh_started := True\<rparr>))))"

text \<open>
  The services are stopped and cleared before they are released, so their last state is gone
  with the handle's pointer to them.
\<close>

definition stop_client_rpc :: "'e RpcServicesClient hako_pdu_rpc_client_handle \<Rightarrow> 'e RpcServicesClient hako_pdu_rpc_client_handle" where
  "stop_client_rpc h =
     h\<lparr>ch_rpc := map_option (\<lambda>s. RpcServicesClient_clear_all_instances (RpcServicesClient_stop_all_services s)) (ch_rpc h)\<rparr>"

definition stop_server_rpc ::
    "('e RpcServicesServer, 'q) hako_pdu_rpc_server_handle \<Rightarrow> ('e RpcServicesServer, 'q) hako_pdu_rpc_server_handle" where
  "stop_server_rpc h =
     h\<lparr>rh_rpc := map_option (\<lambda>s. RpcServicesServer_clear_all_instances (RpcServicesServer_stop_all_services s)) (rh_rpc h)\<rparr>"

definition hako_pdu_rpc_client_stop ::
    "'e RpcServicesClient hako_pdu_rpc_client_handle option
     \<Rightarrow> hako_pdu_rpc_error_t \<times> 'e RpcServicesClient hako_pdu_rpc_client_handle option" where
  "hako_pdu_rpc_client_stop handle =
     (case handle of
        None \<Rightarrow> (HAKO_PDU_RPC_ERROR_INVALID_ARGUMENT, None)
      | Some h \<Rightarrow> (HAKO_PDU_RPC_OK, Some (release_client (stop_client_rpc h))))"

definition hako_pdu_rpc_server_stop ::
    "('e RpcServicesServer, 'q) hako_pdu_rpc_server_handle option
     \<Rightarrow> hako_pdu_rpc_error_t \<times> ('e RpcServicesServer, 'q) hako_pdu_rpc_server_handle option" where
  "hako_pdu_rpc_server_stop handle =
     (case handle of
        None \<Rightarrow> (HAKO_PDU_RPC_ERROR_INVALID_ARGUMENT, None)
      | Some h \<Rightarrow> (HAKO_PDU_RPC_OK, Some (release_server (stop_server_rpc h))))"

definition hako_pdu_rpc_stop_pair ::
    "('e RpcServicesServer, 'q) hako_pdu_rpc_server_handle option \<Rightarrow> 'd RpcServicesClient hako_pdu_rpc_client_handle option
     \<Rightarrow> hako_pdu_rpc_error_t \<times> ('e RpcServicesServer, 'q) hako_pdu_rpc_server_handle option
        \<times> 'd RpcServicesClient hako_pdu_rpc_client_handle option" where
  "hako_pdu_rpc_stop_pair server client =
     (case (server, client) of
        (Some s, Some c) \<Rightarrow>
          (HAKO_PDU_RPC_OK, Some (release_server (stop_server_rpc s)), Some (release_client (stop_client_rpc c)))
      | _ \<Rightarrow> (HAKO_PDU_RPC_ERROR_INVALID_ARGUMENT, server, client))"

text \<open>The released server is the second result: its endpoints were closed.\<close>

definition hako_pdu_rpc_mux_server_stop ::
    "(('e, 'w) RpcServicesMuxServer, 'q) hako_pdu_rpc_mux_server_handle option
     \<Rightarrow> hako_pdu_rpc_error_t \<times> ('e, 'w) RpcServicesMuxServer option
        \<times> (('e, 'w) RpcServicesMuxServer, 'q) hako_pdu_rpc_mux_server_handle option" where
  "hako_pdu_rpc_mux_server_stop handle =
     (case handle of
        None \<Rightarrow> (HAKO_PDU_RPC_ERROR_INVALID_ARGUMENT, None, None)
      | Some h \<Rightarrow>
          (HAKO_PDU_RPC_OK, map_option RpcMux_stop (rh_rpc h),
           Some (h\<lparr>rh_pending_requests := [], rh_rpc := None, rh_started := False\<rparr>)))"

end
