(* ===== verification/C_Rpc_Calls.thy ===== *)
theory C_Rpc_Calls
  imports C_Rpc
begin

text \<open>
  The calls of the RPC C API on a running handle. The static server and the multiplexing server
  share the frames \<open>rpc_server_poll\<close>, \<open>rpc_create_reply\<close> and \<open>rpc_reply\<close>; every call of the interface
  is an instance. \<open>q\<close>, \<open>r\<close> and \<open>h\<close> stand for the default request, response and header that a
  poll of the services starts from.
\<close>

section \<open>Output parameters\<close>

record ('i, 'b) rpc_out =
  ro_info :: "'i option"
  ro_buffer :: 'b
  ro_size :: "nat option"
  ro_error :: "hako_pdu_rpc_error_t option"

definition rpc_set_error :: "hako_pdu_rpc_error_t \<Rightarrow> ('i, 'b) rpc_out \<Rightarrow> ('i, 'b) rpc_out" where
  "rpc_set_error e out = out\<lparr>ro_error := map_option (\<lambda>_. e) (ro_error out)\<rparr>"

text \<open>What an \<open>_alloc\<close> call does first to its buffer and size (\<open>reset_output\<close>).\<close>

definition reset_output :: "('i, 'a option option) rpc_out \<Rightarrow> ('i, 'a option option) rpc_out" where
  "reset_output out = out\<lparr>ro_buffer := map_option (\<lambda>_. None) (ro_buffer out), ro_size := map_option (\<lambda>_. 0) (ro_size out)\<rparr>"

section \<open>Client\<close>

text \<open>The frame of \<open>call\<close> and \<open>cancel\<close>.\<close>

definition rpc_client_op ::
    "bool \<Rightarrow> (string \<Rightarrow> 's \<Rightarrow> 'x \<Rightarrow> bool \<times> 's \<times> 'x) \<Rightarrow> 's hako_pdu_rpc_client_handle option \<Rightarrow> string option \<Rightarrow> 'x
     \<Rightarrow> hako_pdu_rpc_error_t \<times> 's hako_pdu_rpc_client_handle option \<times> 'x" where
  "rpc_client_op payload op handle service_name x =
     (case handle of
        None \<Rightarrow> (HAKO_PDU_RPC_ERROR_INVALID_ARGUMENT, handle, x)
      | Some h \<Rightarrow>
          if \<not> valid_text service_name \<or> \<not> payload then (HAKO_PDU_RPC_ERROR_INVALID_ARGUMENT, handle, x)
          else if \<not> ch_started h then (HAKO_PDU_RPC_ERROR_NOT_RUNNING, handle, x)
          else case ch_rpc h of
            None \<Rightarrow> (HAKO_PDU_RPC_ERROR_NOT_RUNNING, handle, x)
          | Some s \<Rightarrow>
              (case op (the service_name) s x of
                 (ok, s', x') \<Rightarrow>
                   (if ok then HAKO_PDU_RPC_OK else HAKO_PDU_RPC_ERROR_CALL, Some (h\<lparr>ch_rpc := Some s'\<rparr>), x')))"

definition hako_pdu_rpc_client_call where
  "hako_pdu_rpc_client_call E pdu pdu_size timeout_usec =
     rpc_client_op (\<not> (pdu_size > 0 \<and> pdu = None))
       (\<lambda>name. RpcServicesClient_call E name (make_pdu pdu pdu_size) timeout_usec)"

definition hako_pdu_rpc_client_cancel where
  "hako_pdu_rpc_client_cancel E = rpc_client_op True (RpcServicesClient_send_cancel_request E)"

text \<open>The request buffer; making it gives the client's next request number, also when the copy fails.\<close>

definition rpc_create_request ::
    "'w rpc_env \<Rightarrow> bool \<Rightarrow> (pdu_data \<Rightarrow> copy_outcome \<times> 'b \<times> nat option) \<Rightarrow> 'b \<times> nat option
     \<Rightarrow> 'e RpcServicesClient hako_pdu_rpc_client_handle option \<Rightarrow> string option \<Rightarrow> ('e, 'w) rpc_worlds
     \<Rightarrow> hako_pdu_rpc_error_t \<times> ('b \<times> nat option) \<times> 'e RpcServicesClient hako_pdu_rpc_client_handle option" where
  "rpc_create_request E usable copy out handle service_name ws =
     (case handle of
        None \<Rightarrow> (HAKO_PDU_RPC_ERROR_INVALID_ARGUMENT, out, handle)
      | Some h \<Rightarrow>
          if \<not> valid_text service_name \<or> \<not> usable then (HAKO_PDU_RPC_ERROR_INVALID_ARGUMENT, out, handle)
          else if \<not> ch_started h then (HAKO_PDU_RPC_ERROR_NOT_RUNNING, out, handle)
          else case ch_rpc h of
            None \<Rightarrow> (HAKO_PDU_RPC_ERROR_NOT_RUNNING, out, handle)
          | Some s \<Rightarrow>
              (case RpcServicesClient_create_request_buffer E (the service_name) HAKO_SERVICE_OPERATION_CODE_REQUEST [] s ws of
                 (False, _, s') \<Rightarrow> (HAKO_PDU_RPC_ERROR_NOT_FOUND, out, Some (h\<lparr>ch_rpc := Some s'\<rparr>))
               | (True, pdu, s') \<Rightarrow>
                   (case copy pdu of (r, b, n) \<Rightarrow> (rpc_copy_error r, (b, n), Some (h\<lparr>ch_rpc := Some s'\<rparr>)))))"

definition hako_pdu_rpc_client_create_request_buffer where
  "hako_pdu_rpc_client_create_request_buffer E handle service_name buffer capacity out_size =
     rpc_create_request E (out_size \<noteq> None) (\<lambda>pdu. copy_pdu pdu buffer capacity out_size) (buffer, out_size) handle service_name"

definition hako_pdu_rpc_client_create_request_buffer_alloc where
  "hako_pdu_rpc_client_create_request_buffer_alloc E malloc handle service_name out_buffer out_size =
     rpc_create_request E (out_buffer \<noteq> None \<and> out_size \<noteq> None) (\<lambda>pdu. allocate_pdu malloc pdu out_buffer out_size)
       (map_option (\<lambda>_. None) out_buffer, map_option (\<lambda>_. 0) out_size) handle service_name"

text \<open>Polling: the response is consumed by the services before the copy is tried.\<close>

definition rpc_client_poll ::
    "'w rpc_env \<Rightarrow> ServiceResponseHeader \<Rightarrow> RpcResponse
     \<Rightarrow> ((hako_pdu_rpc_response_info_t, 'b) rpc_out \<Rightarrow> (hako_pdu_rpc_response_info_t, 'b) rpc_out) \<Rightarrow> ('b \<Rightarrow> bool)
     \<Rightarrow> (pdu_data \<Rightarrow> 'b \<Rightarrow> nat option \<Rightarrow> copy_outcome \<times> 'b \<times> nat option)
     \<Rightarrow> 'e RpcServicesClient hako_pdu_rpc_client_handle option \<Rightarrow> (hako_pdu_rpc_response_info_t, 'b) rpc_out \<Rightarrow> ('e, 'w) rpc_worlds
     \<Rightarrow> hako_pdu_rpc_client_event_t \<times> (hako_pdu_rpc_response_info_t, 'b) rpc_out
        \<times> 'e RpcServicesClient hako_pdu_rpc_client_handle option" where
  "rpc_client_poll E header r0 reset usable copy handle out ws =
     (let out0 = rpc_set_error HAKO_PDU_RPC_OK (reset out)
      in case (handle, ro_info out) of
        (Some h, Some info) \<Rightarrow>
          if \<not> usable (ro_buffer out) \<or> ro_size out = None
          then (HAKO_PDU_RPC_CLIENT_EVENT_NONE, rpc_set_error HAKO_PDU_RPC_ERROR_INVALID_ARGUMENT out0, handle)
          else if \<not> ch_started h
          then (HAKO_PDU_RPC_CLIENT_EVENT_NONE, rpc_set_error HAKO_PDU_RPC_ERROR_NOT_RUNNING out0, handle)
          else (case ch_rpc h of
                  None \<Rightarrow> (HAKO_PDU_RPC_CLIENT_EVENT_NONE, rpc_set_error HAKO_PDU_RPC_ERROR_NOT_RUNNING out0, handle)
                | Some s \<Rightarrow>
                    (case RpcServicesClient_poll E header [] r0 s ws of
                       (event, service_name, response, s') \<Rightarrow>
                         let h1 = h\<lparr>ch_rpc := Some s'\<rparr>
                         in if event = RCE_NONE
                            then (HAKO_PDU_RPC_CLIENT_EVENT_NONE, out0\<lparr>ro_size := Some 0\<rparr>, Some h1)
                            else (case copy (rp_pdu response) (ro_buffer out0) (ro_size out0) of
                                    (r, b, n) \<Rightarrow>
                                      let out1 = out0\<lparr>ro_buffer := b, ro_size := n\<rparr>
                                      in if r \<noteq> COPY_OK
                                         then (HAKO_PDU_RPC_CLIENT_EVENT_NONE, rpc_set_error (rpc_copy_error r) out1, Some h1)
                                         else (rpc_map_client_event event,
                                               out1\<lparr>ro_info := Some (info\<lparr>rsi_service_name := copy_name (rsi_service_name info) service_name,
                                                                         rsi_pdu_size := length (rp_pdu response)\<rparr>)\<rparr>,
                                               Some h1))))
      | _ \<Rightarrow> (HAKO_PDU_RPC_CLIENT_EVENT_NONE, rpc_set_error HAKO_PDU_RPC_ERROR_INVALID_ARGUMENT out0, handle))"

definition hako_pdu_rpc_client_poll where
  "hako_pdu_rpc_client_poll E header r0 capacity =
     rpc_client_poll E header r0 id (\<lambda>_. True) (\<lambda>pdu buffer out_size. copy_pdu pdu buffer capacity out_size)"

definition hako_pdu_rpc_client_poll_alloc where
  "hako_pdu_rpc_client_poll_alloc E header r0 malloc =
     rpc_client_poll E header r0 reset_output (\<lambda>b. b \<noteq> None) (allocate_pdu malloc)"

section \<open>Server: tokens\<close>

text \<open>\<open>store_request\<close>: the next token names the request; the counter wraps around.\<close>

definition store_request ::
    "('q \<Rightarrow> RpcRequest) \<Rightarrow> 'q \<Rightarrow> hako_pdu_rpc_request_info_t \<Rightarrow> ('s, 'q, 'm) hako_pdu_rpc_mux_server_handle_scheme
     \<Rightarrow> hako_pdu_rpc_request_info_t \<times> ('s, 'q, 'm) hako_pdu_rpc_mux_server_handle_scheme" where
  "store_request request_of q info h =
     (let token = rh_next_token h; request = request_of q
      in (info\<lparr>rqi_request_token := token,
               rqi_service_name := copy_name (rqi_service_name info) (rqs_service_name (rr_header request)),
               rqi_client_name := copy_name (rqi_client_name info) (rr_client_name request),
               rqi_pdu_size := length (rr_pdu request)\<rparr>,
          h\<lparr>rh_next_token := token + 1, rh_pending_requests := sm_emplace token q (rh_pending_requests h)\<rparr>))"

definition find_request :: "uint64 \<Rightarrow> ('s, 'q, 'm) hako_pdu_rpc_mux_server_handle_scheme \<Rightarrow> 'q option" where
  "find_request token h = sm_find (rh_pending_requests h) token"

definition take_request ::
    "uint64 \<Rightarrow> ('s, 'q, 'm) hako_pdu_rpc_mux_server_handle_scheme
     \<Rightarrow> ('q \<times> ('s, 'q, 'm) hako_pdu_rpc_mux_server_handle_scheme) option" where
  "take_request token h =
     (case sm_find (rh_pending_requests h) token of
        None \<Rightarrow> None
      | Some q \<Rightarrow> Some (q, h\<lparr>rh_pending_requests := sm_erase token (rh_pending_requests h)\<rparr>))"

section \<open>Server: polling\<close>

definition rpc_server_poll ::
    "('s \<Rightarrow> 'x \<Rightarrow> (RpcServerEventType \<times> 'q) option \<times> 's \<times> 'x) \<Rightarrow> ('q \<Rightarrow> RpcRequest)
     \<Rightarrow> ((hako_pdu_rpc_request_info_t, 'b) rpc_out \<Rightarrow> (hako_pdu_rpc_request_info_t, 'b) rpc_out) \<Rightarrow> ('b \<Rightarrow> bool)
     \<Rightarrow> (pdu_data \<Rightarrow> 'b \<Rightarrow> nat option \<Rightarrow> copy_outcome \<times> 'b \<times> nat option)
     \<Rightarrow> ('s, 'q, 'm) hako_pdu_rpc_mux_server_handle_scheme option \<Rightarrow> (hako_pdu_rpc_request_info_t, 'b) rpc_out \<Rightarrow> 'x
     \<Rightarrow> hako_pdu_rpc_server_event_t \<times> (hako_pdu_rpc_request_info_t, 'b) rpc_out
        \<times> ('s, 'q, 'm) hako_pdu_rpc_mux_server_handle_scheme option \<times> 'x" where
  "rpc_server_poll poll request_of reset usable copy handle out x =
     (let out0 = rpc_set_error HAKO_PDU_RPC_OK (reset out)
      in case (handle, ro_info out) of
        (Some h, Some info) \<Rightarrow>
          if \<not> usable (ro_buffer out) \<or> ro_size out = None
          then (HAKO_PDU_RPC_SERVER_EVENT_NONE, rpc_set_error HAKO_PDU_RPC_ERROR_INVALID_ARGUMENT out0, handle, x)
          else if \<not> rh_started h
          then (HAKO_PDU_RPC_SERVER_EVENT_NONE, rpc_set_error HAKO_PDU_RPC_ERROR_NOT_RUNNING out0, handle, x)
          else (case rh_rpc h of
                  None \<Rightarrow> (HAKO_PDU_RPC_SERVER_EVENT_NONE, rpc_set_error HAKO_PDU_RPC_ERROR_NOT_RUNNING out0, handle, x)
                | Some s \<Rightarrow>
                    (case poll s x of
                       (None, s', x') \<Rightarrow>
                         (HAKO_PDU_RPC_SERVER_EVENT_NONE, out0\<lparr>ro_size := Some 0\<rparr>, Some (h\<lparr>rh_rpc := Some s'\<rparr>), x')
                     | (Some (event, q), s', x') \<Rightarrow>
                         (case copy (rr_pdu (request_of q)) (ro_buffer out0) (ro_size out0) of
                            (r, b, n) \<Rightarrow>
                              let h1 = h\<lparr>rh_rpc := Some s'\<rparr>; out1 = out0\<lparr>ro_buffer := b, ro_size := n\<rparr>
                              in if r \<noteq> COPY_OK
                                 then (HAKO_PDU_RPC_SERVER_EVENT_NONE, rpc_set_error (rpc_copy_error r) out1, Some h1, x')
                                 else (case store_request request_of q info h1 of
                                         (info', h2) \<Rightarrow>
                                           (rpc_map_server_event event, out1\<lparr>ro_info := Some info'\<rparr>, Some h2, x')))))
      | _ \<Rightarrow> (HAKO_PDU_RPC_SERVER_EVENT_NONE, rpc_set_error HAKO_PDU_RPC_ERROR_INVALID_ARGUMENT out0, handle, x))"

text \<open>The polls of the two servers in the form that the frame uses.\<close>

definition static_poll ::
    "'w rpc_env \<Rightarrow> RpcRequest \<Rightarrow> 'e RpcServicesServer \<Rightarrow> ('e, 'w) rpc_worlds
     \<Rightarrow> (RpcServerEventType \<times> RpcRequest) option \<times> 'e RpcServicesServer \<times> ('e, 'w) rpc_worlds" where
  "static_poll E q s ws =
     (case RpcServicesServer_poll E q s ws of
        (event, request, s', ws') \<Rightarrow> (if event = RSE_NONE then None else Some (event, request), s', ws'))"

definition mux_poll where
  "mux_poll E J config q m endpoints = (case RpcMux_poll E J config q endpoints m of (r, m') \<Rightarrow> (r, m', endpoints))"

definition hako_pdu_rpc_server_poll where
  "hako_pdu_rpc_server_poll E q capacity =
     rpc_server_poll (static_poll E q) id id (\<lambda>_. True) (\<lambda>pdu buffer out_size. copy_pdu pdu buffer capacity out_size)"

definition hako_pdu_rpc_server_poll_alloc where
  "hako_pdu_rpc_server_poll_alloc E q malloc =
     rpc_server_poll (static_poll E q) id reset_output (\<lambda>b. b \<noteq> None) (allocate_pdu malloc)"

definition hako_pdu_rpc_mux_server_poll where
  "hako_pdu_rpc_mux_server_poll E J config q capacity =
     rpc_server_poll (mux_poll E J config q) rmq_request id (\<lambda>_. True)
       (\<lambda>pdu buffer out_size. copy_pdu pdu buffer capacity out_size)"

definition hako_pdu_rpc_mux_server_poll_alloc where
  "hako_pdu_rpc_mux_server_poll_alloc E J config q malloc =
     rpc_server_poll (mux_poll E J config q) rmq_request reset_output (\<lambda>b. b \<noteq> None) (allocate_pdu malloc)"

section \<open>Server: replies\<close>

text \<open>\<open>create\<close> gives no packet when the multiplexing server no longer knows the connection.\<close>

definition rpc_create_reply ::
    "bool \<Rightarrow> (pdu_data \<Rightarrow> copy_outcome \<times> 'b \<times> nat option) \<Rightarrow> 'b \<times> nat option \<Rightarrow> ('q \<Rightarrow> 's \<Rightarrow> pdu_data option)
     \<Rightarrow> ('s, 'q, 'm) hako_pdu_rpc_mux_server_handle_scheme option \<Rightarrow> uint64 \<Rightarrow> hako_pdu_rpc_error_t \<times> 'b \<times> nat option" where
  "rpc_create_reply usable copy out create handle token =
     (case handle of
        None \<Rightarrow> (HAKO_PDU_RPC_ERROR_INVALID_ARGUMENT, out)
      | Some h \<Rightarrow>
          if \<not> usable then (HAKO_PDU_RPC_ERROR_INVALID_ARGUMENT, out)
          else if \<not> rh_started h then (HAKO_PDU_RPC_ERROR_NOT_RUNNING, out)
          else case rh_rpc h of
            None \<Rightarrow> (HAKO_PDU_RPC_ERROR_NOT_RUNNING, out)
          | Some s \<Rightarrow>
              (case find_request token h of
                 None \<Rightarrow> (HAKO_PDU_RPC_ERROR_NOT_FOUND, out)
               | Some q \<Rightarrow>
                   (case create q s of
                      None \<Rightarrow> (HAKO_PDU_RPC_ERROR_NOT_FOUND, out)
                    | Some pdu \<Rightarrow> (case copy pdu of (r, b, n) \<Rightarrow> (rpc_copy_error r, b, n)))))"

definition rpc_create_reply_into where
  "rpc_create_reply_into create handle token buffer capacity out_size =
     rpc_create_reply (out_size \<noteq> None) (\<lambda>pdu. copy_pdu pdu buffer capacity out_size) (buffer, out_size) create handle token"

definition rpc_create_reply_alloc where
  "rpc_create_reply_alloc malloc create handle token out_buffer out_size =
     rpc_create_reply (out_buffer \<noteq> None \<and> out_size \<noteq> None) (\<lambda>pdu. allocate_pdu malloc pdu out_buffer out_size)
       (map_option (\<lambda>_. None) out_buffer, map_option (\<lambda>_. 0) out_size) create handle token"

definition static_create where
  "static_create E status result_code ws q s =
     Some (RpcServicesServer_create_reply_buffer E (rr_header q) status result_code [] s ws)"

definition mux_create where
  "mux_create E status result_code q m =
     (case RpcMux_create_reply_buffer E q status result_code [] m of (ok, pdu) \<Rightarrow> if ok then Some pdu else None)"

definition hako_pdu_rpc_server_create_reply_buffer where
  "hako_pdu_rpc_server_create_reply_buffer E status result_code ws = rpc_create_reply_into (static_create E status result_code ws)"

definition hako_pdu_rpc_server_create_reply_buffer_alloc where
  "hako_pdu_rpc_server_create_reply_buffer_alloc malloc E status result_code ws =
     rpc_create_reply_alloc malloc (static_create E status result_code ws)"

definition hako_pdu_rpc_mux_server_create_reply_buffer where
  "hako_pdu_rpc_mux_server_create_reply_buffer E status result_code = rpc_create_reply_into (mux_create E status result_code)"

definition hako_pdu_rpc_mux_server_create_reply_buffer_alloc where
  "hako_pdu_rpc_mux_server_create_reply_buffer_alloc malloc E status result_code =
     rpc_create_reply_alloc malloc (mux_create E status result_code)"

text \<open>A reply takes the request out of the table before it is sent.\<close>

definition rpc_reply ::
    "('q \<Rightarrow> pdu_data \<Rightarrow> 's \<Rightarrow> 'x \<Rightarrow> bool \<times> 's \<times> 'x) \<Rightarrow> ('s, 'q, 'm) hako_pdu_rpc_mux_server_handle_scheme option
     \<Rightarrow> uint64 \<Rightarrow> pdu_data option \<Rightarrow> nat \<Rightarrow> 'x
     \<Rightarrow> hako_pdu_rpc_error_t \<times> ('s, 'q, 'm) hako_pdu_rpc_mux_server_handle_scheme option \<times> 'x" where
  "rpc_reply send handle token pdu pdu_size x =
     (case handle of
        None \<Rightarrow> (HAKO_PDU_RPC_ERROR_INVALID_ARGUMENT, handle, x)
      | Some h \<Rightarrow>
          if pdu_size > 0 \<and> pdu = None then (HAKO_PDU_RPC_ERROR_INVALID_ARGUMENT, handle, x)
          else if \<not> rh_started h then (HAKO_PDU_RPC_ERROR_NOT_RUNNING, handle, x)
          else case rh_rpc h of
            None \<Rightarrow> (HAKO_PDU_RPC_ERROR_NOT_RUNNING, handle, x)
          | Some s \<Rightarrow>
              (case take_request token h of
                 None \<Rightarrow> (HAKO_PDU_RPC_ERROR_NOT_FOUND, handle, x)
               | Some (q, h1) \<Rightarrow>
                   (case send q (make_pdu pdu pdu_size) s x of
                      (ok, s', x') \<Rightarrow>
                        (if ok then HAKO_PDU_RPC_OK else HAKO_PDU_RPC_ERROR_CALL, Some (h1\<lparr>rh_rpc := Some s'\<rparr>), x'))))"

abbreviation always_sent :: "'s \<times> 'x \<Rightarrow> bool \<times> 's \<times> 'x" where
  "always_sent r \<equiv> (True, fst r, snd r)"

definition hako_pdu_rpc_server_send_reply where
  "hako_pdu_rpc_server_send_reply E = rpc_reply (\<lambda>q pdu s ws. always_sent (RpcServicesServer_send_reply E (rr_header q) pdu s ws))"

definition hako_pdu_rpc_server_send_cancel_reply where
  "hako_pdu_rpc_server_send_cancel_reply E =
     rpc_reply (\<lambda>q pdu s ws. always_sent (RpcServicesServer_send_cancel_reply E (rr_header q) pdu s ws))"

definition hako_pdu_rpc_mux_server_send_reply where
  "hako_pdu_rpc_mux_server_send_reply E =
     rpc_reply (\<lambda>q pdu m (_ :: unit). case RpcMux_send_reply E q pdu m of (ok, m') \<Rightarrow> (ok, m', ()))"

definition hako_pdu_rpc_mux_server_send_cancel_reply where
  "hako_pdu_rpc_mux_server_send_cancel_reply E =
     rpc_reply (\<lambda>q pdu m (_ :: unit). case RpcMux_send_cancel_reply E q pdu m of (ok, m') \<Rightarrow> (ok, m', ()))"

section \<open>Observation of the multiplexing server\<close>

definition hako_pdu_rpc_mux_server_connected_count where
  "hako_pdu_rpc_mux_server_connected_count handle =
     (case handle of None \<Rightarrow> 0 | Some h \<Rightarrow> (case rh_rpc h of None \<Rightarrow> 0 | Some m \<Rightarrow> RpcMux_connected_count m))"

definition hako_pdu_rpc_mux_server_expected_count where
  "hako_pdu_rpc_mux_server_expected_count handle =
     (case handle of None \<Rightarrow> 0 | Some h \<Rightarrow> (case rh_rpc h of None \<Rightarrow> 0 | Some m \<Rightarrow> RpcMux_expected_count m))"

definition hako_pdu_rpc_mux_server_is_ready where
  "hako_pdu_rpc_mux_server_is_ready mux_ready handle =
     (case handle of None \<Rightarrow> False | Some h \<Rightarrow> (case rh_rpc h of None \<Rightarrow> False | Some m \<Rightarrow> RpcMux_is_ready mux_ready m))"

end
