(* ===== verification/C_Rpc_Properties.thy ===== *)
theory C_Rpc_Properties
  imports C_Rpc_Calls Rpc_Mux_Properties
begin

text \<open>
  The tokens of the RPC C API, and what a failed copy does to a request.

  \<open>token_run\<close> is the step relation of a server handle: polls of both kinds, replies of both kinds,
  and changes of the services by others. It records which request was reported under which token
  and which request was answered under which token. The locale \<open>token_server\<close> says what the
  calls of a server do to the table of pending requests, and is interpreted on the static and on
  the multiplexing server.
\<close>

section \<open>Runs of a server handle\<close>

abbreviation delivered_send :: "hako_pdu_rpc_error_t \<Rightarrow> bool" where
  "delivered_send e \<equiv> e = HAKO_PDU_RPC_OK \<or> e = HAKO_PDU_RPC_ERROR_CALL"

inductive token_run for poll poll_alloc send_reply send_cancel_reply source where
  start: "rh_next_token h = 1 \<Longrightarrow> rh_pending_requests h = [] \<Longrightarrow>
    token_run poll poll_alloc send_reply send_cancel_reply source h [] []"
| services: "token_run poll poll_alloc send_reply send_cancel_reply source h R A \<Longrightarrow>
    token_run poll poll_alloc send_reply send_cancel_reply source (h\<lparr>rh_rpc := rpc, rh_started := started\<rparr>) R A"
| polled: "token_run poll poll_alloc send_reply send_cancel_reply source h R A \<Longrightarrow>
    poll capacity (Some h) out x = (c, out', Some h', x') \<Longrightarrow> c \<noteq> HAKO_PDU_RPC_SERVER_EVENT_NONE \<Longrightarrow>
    source h x = Some q \<Longrightarrow> ro_info out' = Some info \<Longrightarrow>
    token_run poll poll_alloc send_reply send_cancel_reply source h' (R @ [(rqi_request_token info, q)]) A"
| polled_alloc: "token_run poll poll_alloc send_reply send_cancel_reply source h R A \<Longrightarrow>
    poll_alloc malloc (Some h) out2 x = (c, out2', Some h', x') \<Longrightarrow> c \<noteq> HAKO_PDU_RPC_SERVER_EVENT_NONE \<Longrightarrow>
    source h x = Some q \<Longrightarrow> ro_info out2' = Some info \<Longrightarrow>
    token_run poll poll_alloc send_reply send_cancel_reply source h' (R @ [(rqi_request_token info, q)]) A"
| nothing: "token_run poll poll_alloc send_reply send_cancel_reply source h R A \<Longrightarrow>
    poll capacity (Some h) out x = (HAKO_PDU_RPC_SERVER_EVENT_NONE, out', Some h', x') \<Longrightarrow>
    token_run poll poll_alloc send_reply send_cancel_reply source h' R A"
| nothing_alloc: "token_run poll poll_alloc send_reply send_cancel_reply source h R A \<Longrightarrow>
    poll_alloc malloc (Some h) out2 x = (HAKO_PDU_RPC_SERVER_EVENT_NONE, out2', Some h', x') \<Longrightarrow>
    token_run poll poll_alloc send_reply send_cancel_reply source h' R A"
| answered: "token_run poll poll_alloc send_reply send_cancel_reply source h R A \<Longrightarrow>
    send_reply (Some h) token pdu pdu_size y = (e, Some h', y') \<or> send_cancel_reply (Some h) token pdu pdu_size y = (e, Some h', y') \<Longrightarrow>
    delivered_send e \<Longrightarrow> find_request token h = Some q \<Longrightarrow>
    token_run poll poll_alloc send_reply send_cancel_reply source h' R (A @ [(token, q)])"
| refused: "token_run poll poll_alloc send_reply send_cancel_reply source h R A \<Longrightarrow>
    send_reply (Some h) token pdu pdu_size y = (e, Some h', y') \<or> send_cancel_reply (Some h) token pdu pdu_size y = (e, Some h', y') \<Longrightarrow>
    \<not> delivered_send e \<Longrightarrow>
    token_run poll poll_alloc send_reply send_cancel_reply source h' R A"

text \<open>What a poll and a reply do to the table.\<close>

definition reports :: "('s, 'q, 'm) hako_pdu_rpc_mux_server_handle_scheme \<Rightarrow> hako_pdu_rpc_server_event_t \<Rightarrow> 'q option
    \<Rightarrow> hako_pdu_rpc_request_info_t option \<Rightarrow> ('s, 'q, 'm) hako_pdu_rpc_mux_server_handle_scheme \<Rightarrow> bool" where
  "reports h c source info h' \<longleftrightarrow>
     (if c = HAKO_PDU_RPC_SERVER_EVENT_NONE
      then rh_next_token h' = rh_next_token h \<and> rh_pending_requests h' = rh_pending_requests h
      else \<exists>q i. source = Some q \<and> info = Some i \<and> rqi_request_token i = rh_next_token h \<and> rh_next_token h' = rh_next_token h + 1
             \<and> rh_pending_requests h' = sm_emplace (rh_next_token h) q (rh_pending_requests h))"

definition answers :: "('s, 'q, 'm) hako_pdu_rpc_mux_server_handle_scheme \<Rightarrow> uint64 \<Rightarrow> hako_pdu_rpc_error_t
    \<Rightarrow> ('s, 'q, 'm) hako_pdu_rpc_mux_server_handle_scheme \<Rightarrow> bool" where
  "answers h token e h' \<longleftrightarrow>
     rh_next_token h' = rh_next_token h
     \<and> (if delivered_send e
        then find_request token h \<noteq> None \<and> rh_pending_requests h' = sm_erase token (rh_pending_requests h)
        else rh_pending_requests h' = rh_pending_requests h)"

text \<open>
  The table after a run: the tokens are 1, 2, 3 and so on in the order of the reports, and a
  token is pending exactly if it was reported and not answered.
\<close>

definition tokens :: "nat \<Rightarrow> uint64 list" where
  "tokens n = map of_nat [1..<Suc n]"

definition token_table :: "('s, 'q, 'm) hako_pdu_rpc_mux_server_handle_scheme \<Rightarrow> (uint64 \<times> 'q) list \<Rightarrow> (uint64 \<times> 'q) list \<Rightarrow> bool" where
  "token_table h R A \<longleftrightarrow>
     map fst R = tokens (length R) \<and> rh_next_token h = of_nat (Suc (length R)) \<and> distinct (map fst A) \<and> set A \<subseteq> set R
     \<and> (\<forall>token. find_request token h = (if token \<in> fst ` set A then None else map_of R token))"

lemma tokens_Suc: "tokens (Suc n) = tokens n @ [of_nat (Suc n)]"
  by (simp add: tokens_def)

lemma tokens_fresh:
  assumes "Suc n < 2 ^ 64"
  shows "of_nat (Suc n) \<notin> set (tokens n)"
proof
  assume "of_nat (Suc n) \<in> set (tokens n)"
  then obtain k where k: "1 \<le> k" "k \<le> n" "(of_nat (Suc n) :: uint64) = of_nat k" by (auto simp: tokens_def)
  have "unat (of_nat (Suc n) :: uint64) = Suc n" by (rule of_nat_inverse [OF refl]) (use assms in simp)
  moreover have "unat (of_nat k :: uint64) = k" by (rule of_nat_inverse [OF refl]) (use assms k in simp)
  ultimately have "Suc n = k" using k(3) by metis
  with k show False by simp
qed

lemma distinct_tokens: "n < 2 ^ 64 \<Longrightarrow> distinct (tokens n)"
  by (induction n) (simp_all add: tokens_Suc tokens_fresh [simplified] tokens_def [of 0])


section \<open>The contract of a server\<close>

locale token_server =
  fixes poll :: "nat \<Rightarrow> ('s, 'q, 'm) hako_pdu_rpc_mux_server_handle_scheme option \<Rightarrow> (hako_pdu_rpc_request_info_t, pdu_data option) rpc_out \<Rightarrow> 'x
      \<Rightarrow> hako_pdu_rpc_server_event_t \<times> (hako_pdu_rpc_request_info_t, pdu_data option) rpc_out
         \<times> ('s, 'q, 'm) hako_pdu_rpc_mux_server_handle_scheme option \<times> 'x"
    and poll_alloc :: "(nat \<Rightarrow> bool) \<Rightarrow> ('s, 'q, 'm) hako_pdu_rpc_mux_server_handle_scheme option
      \<Rightarrow> (hako_pdu_rpc_request_info_t, pdu_data option option) rpc_out \<Rightarrow> 'x
      \<Rightarrow> hako_pdu_rpc_server_event_t \<times> (hako_pdu_rpc_request_info_t, pdu_data option option) rpc_out
         \<times> ('s, 'q, 'm) hako_pdu_rpc_mux_server_handle_scheme option \<times> 'x"
    and send_reply :: "('s, 'q, 'm) hako_pdu_rpc_mux_server_handle_scheme option \<Rightarrow> uint64 \<Rightarrow> pdu_data option \<Rightarrow> nat \<Rightarrow> 'y
      \<Rightarrow> hako_pdu_rpc_error_t \<times> ('s, 'q, 'm) hako_pdu_rpc_mux_server_handle_scheme option \<times> 'y"
    and send_cancel_reply :: "('s, 'q, 'm) hako_pdu_rpc_mux_server_handle_scheme option \<Rightarrow> uint64 \<Rightarrow> pdu_data option \<Rightarrow> nat \<Rightarrow> 'y
      \<Rightarrow> hako_pdu_rpc_error_t \<times> ('s, 'q, 'm) hako_pdu_rpc_mux_server_handle_scheme option \<times> 'y"
    and source :: "('s, 'q, 'm) hako_pdu_rpc_mux_server_handle_scheme \<Rightarrow> 'x \<Rightarrow> 'q option"
  assumes poll_reports: "poll capacity (Some h) out x = (c, out', Some h', x') \<Longrightarrow> reports h c (source h x) (ro_info out') h'"
    and poll_alloc_reports: "poll_alloc malloc (Some h) out2 x = (c, out2', Some h', x') \<Longrightarrow> reports h c (source h x) (ro_info out2') h'"
    and send_reply_answers: "send_reply (Some h) token pdu pdu_size y = (e, Some h', y') \<Longrightarrow> answers h token e h'"
    and send_cancel_reply_answers: "send_cancel_reply (Some h) token pdu pdu_size y = (e, Some h', y') \<Longrightarrow> answers h token e h'"
begin

lemma table_nothing:
  "token_table h R A \<Longrightarrow> reports h HAKO_PDU_RPC_SERVER_EVENT_NONE src info h' \<Longrightarrow> token_table h' R A"
  by (simp add: token_table_def reports_def find_request_def)

lemma table_reported:
  assumes table: "token_table h R A" and "reports h c (Some q) (Some info) h'" and "c \<noteq> HAKO_PDU_RPC_SERVER_EVENT_NONE"
    and len: "Suc (length R) < 2 ^ 64"
  shows "token_table h' (R @ [(rqi_request_token info, q)]) A"
proof -
  let ?t = "of_nat (Suc (length R)) :: uint64"
  have h': "rqi_request_token info = ?t" "rh_next_token h' = ?t + 1" "rh_pending_requests h' = sm_emplace ?t q (rh_pending_requests h)"
    using assms by (auto simp: reports_def token_table_def)
  have keys: "map fst R = tokens (length R)" using table by (simp add: token_table_def)
  have fresh: "?t \<notin> fst ` set R" using tokens_fresh [OF len] keys by (metis list.set_map)
  then have "?t \<notin> fst ` set A" using table by (auto simp: token_table_def)
  moreover have none: "map_of R ?t = None" using fresh by (simp add: map_of_eq_None_iff)
  ultimately have absent: "sm_find (rh_pending_requests h) ?t = None"
    using table by (simp add: token_table_def find_request_def)
  have find: "find_request token h' = (if token \<in> fst ` set A then None else map_of (R @ [(?t, q)]) token)" for token
    using table \<open>?t \<notin> fst ` set A\<close> absent none h'(3)
    by (auto simp: token_table_def find_request_def map_add_def split: option.splits)
  show ?thesis
    using table h' find keys by (auto simp: token_table_def tokens_Suc)
qed

lemma table_answered:
  assumes table: "token_table h R A" and "answers h token e h'" and "delivered_send e" and "find_request token h = Some q"
  shows "token_table h' R (A @ [(token, q)])"
proof -
  have new: "token \<notin> fst ` set A" "map_of R token = Some q"
    using assms(1,4) by (auto simp: token_table_def split: if_splits)
  have "(token, q) \<in> set R" using new(2) by (rule map_of_SomeD)
  moreover have "find_request t h' = (if t \<in> fst ` set (A @ [(token, q)]) then None else map_of R t)" for t
    using assms by (auto simp: token_table_def answers_def find_request_def)
  ultimately show ?thesis using assms new(1) by (auto simp: token_table_def answers_def)
qed

lemma table_refused:
  "token_table h R A \<Longrightarrow> answers h token e h' \<Longrightarrow> \<not> delivered_send e \<Longrightarrow> token_table h' R A"
  by (simp add: token_table_def answers_def find_request_def)

lemma run_table:
  assumes "token_run poll poll_alloc send_reply send_cancel_reply source h R A" and "length R < 2 ^ 64 - 1"
  shows "token_table h R A"
  using assms
proof (induction rule: token_run.induct)
  case (start h)
  then show ?case by (simp add: token_table_def tokens_def find_request_def)
next
  case (services h R A rpc started)
  then show ?case by (simp add: token_table_def find_request_def)
next
  case (polled h R A capacity out x c out' h' x' q info)
  then show ?case using table_reported [of h R A c q info h'] poll_reports [OF polled.hyps(2)] by simp
next
  case (polled_alloc h R A malloc out2 x c out2' h' x' q info)
  then show ?case using table_reported [of h R A c q info h'] poll_alloc_reports [OF polled_alloc.hyps(2)] by simp
next
  case (nothing h R A capacity out x out' h' x')
  then show ?case using table_nothing poll_reports by blast
next
  case (nothing_alloc h R A malloc out2 x out2' h' x')
  then show ?case using table_nothing poll_alloc_reports by blast
next
  case (answered h R A token pdu pdu_size y e h' y' q)
  have "answers h token e h'" using answered.hyps(2) send_reply_answers send_cancel_reply_answers by blast
  from table_answered [OF answered.IH [OF answered.prems] this answered.hyps(3,4)] show ?case .
next
  case (refused h R A token pdu pdu_size y e h' y')
  have "answers h token e h'" using refused.hyps(2) send_reply_answers send_cancel_reply_answers by blast
  from table_refused [OF refused.IH [OF refused.prems] this refused.hyps(3)] show ?case .
qed

end

section \<open>Both servers keep the contract\<close>

lemma rpc_map_server_event_none [simp]: "rpc_map_server_event ev = HAKO_PDU_RPC_SERVER_EVENT_NONE \<longleftrightarrow> ev = RSE_NONE"
  by (cases ev) simp_all

definition request_source :: "('s \<Rightarrow> 'x \<Rightarrow> (RpcServerEventType \<times> 'q) option \<times> 's \<times> 'x)
    \<Rightarrow> ('s, 'q, 'm) hako_pdu_rpc_mux_server_handle_scheme \<Rightarrow> 'x \<Rightarrow> 'q option" where
  "request_source poll h x = (case rh_rpc h of None \<Rightarrow> None | Some s \<Rightarrow> map_option snd (fst (poll s x)))"

lemma rpc_server_poll_reports:
  assumes typed: "\<And>s x ev q s' x'. poll s x = (Some (ev, q), s', x') \<Longrightarrow> ev \<noteq> RSE_NONE"
    and "rpc_server_poll poll request_of reset usable copy (Some h) out x = (c, out', Some h', x')"
  shows "reports h c (request_source poll h x) (ro_info out') h'"
proof (cases "ro_info out = None \<or> \<not> usable (ro_buffer out) \<or> ro_size out = None \<or> \<not> rh_started h \<or> rh_rpc h = None")
  case True
  then show ?thesis using assms(2)
    by (auto simp: rpc_server_poll_def Let_def reports_def split: option.splits if_splits)
next
  case False
  then obtain s info where s: "rh_rpc h = Some s" "ro_info out = Some info" by auto
  obtain r s' x1 where p: "poll s x = (r, s', x1)" by (metis prod_cases3)
  show ?thesis
  proof (cases r)
    case None
    then show ?thesis using assms(2) False s p
      by (auto simp: rpc_server_poll_def Let_def reports_def)
  next
    case (Some e)
    then obtain ev q where e: "r = Some (ev, q)" by (cases e) simp
    have "ev \<noteq> RSE_NONE" using typed p e by blast
    then show ?thesis using assms(2) False s p e
      by (auto simp: rpc_server_poll_def Let_def reports_def store_request_def request_source_def split: prod.splits if_splits)
  qed
qed

lemma rpc_reply_answers:
  assumes "rpc_reply send (Some h) token pdu pdu_size x = (e, Some h', x')"
  shows "answers h token e h'"
  using assms
  by (auto simp: rpc_reply_def answers_def take_request_def find_request_def split: option.splits prod.splits if_splits)

lemma static_poll_typed: "static_poll E q s ws = (Some (ev, r), s', ws') \<Longrightarrow> ev \<noteq> RSE_NONE"
  by (auto simp: static_poll_def split: prod.splits if_splits)

lemma rpc_poll_slots_typed: "rpc_poll_slots E q ss = (Some (ev, r), ss') \<Longrightarrow> ev \<noteq> RSE_NONE"
  by (induction ss arbitrary: ss') (auto simp: Let_def split: prod.splits if_splits)

lemma mux_poll_typed: "mux_poll E J config q m es = (Some (ev, r), m', es') \<Longrightarrow> ev \<noteq> RSE_NONE"
  by (auto simp: mux_poll_def RpcMux_poll_def Let_def dest: rpc_poll_slots_typed split: option.splits prod.splits if_splits)

interpretation static_server: token_server "hako_pdu_rpc_server_poll E q" "hako_pdu_rpc_server_poll_alloc E q"
    "hako_pdu_rpc_server_send_reply E" "hako_pdu_rpc_server_send_cancel_reply E" "request_source (static_poll E q)"
  for E :: "'w rpc_env" and q
  by unfold_locales
    (simp_all add: hako_pdu_rpc_server_poll_def hako_pdu_rpc_server_poll_alloc_def hako_pdu_rpc_server_send_reply_def
      hako_pdu_rpc_server_send_cancel_reply_def rpc_server_poll_reports [OF static_poll_typed] rpc_reply_answers)

interpretation mux_server: token_server "hako_pdu_rpc_mux_server_poll E J config q" "hako_pdu_rpc_mux_server_poll_alloc E J config q"
    "hako_pdu_rpc_mux_server_send_reply E" "hako_pdu_rpc_mux_server_send_cancel_reply E" "request_source (mux_poll E J config q)"
  for E :: "'w rpc_env" and J :: "'j rpc_json" and config q
  by unfold_locales
    (simp_all add: hako_pdu_rpc_mux_server_poll_def hako_pdu_rpc_mux_server_poll_alloc_def hako_pdu_rpc_mux_server_send_reply_def
      hako_pdu_rpc_mux_server_send_cancel_reply_def rpc_server_poll_reports [OF mux_poll_typed] rpc_reply_answers)

section \<open>Tokens\<close>

abbreviation "static_run E q \<equiv> token_run (hako_pdu_rpc_server_poll E q) (hako_pdu_rpc_server_poll_alloc E q)
  (hako_pdu_rpc_server_send_reply E) (hako_pdu_rpc_server_send_cancel_reply E) (request_source (static_poll E q))"

abbreviation "mux_run E J config q \<equiv> token_run (hako_pdu_rpc_mux_server_poll E J config q) (hako_pdu_rpc_mux_server_poll_alloc E J config q)
  (hako_pdu_rpc_mux_server_send_reply E) (hako_pdu_rpc_mux_server_send_cancel_reply E) (request_source (mux_poll E J config q))"

lemma distinct_reported: "token_table h R A \<Longrightarrow> length R < 2 ^ 64 \<Longrightarrow> distinct (map fst R)"
  using distinct_tokens by (simp add: token_table_def)



section \<open>A request that did not fit\<close>

lemma rpc_copy_error_too_small [simp]: "rpc_copy_error r = HAKO_PDU_RPC_ERROR_BUFFER_TOO_SMALL \<longleftrightarrow> r = COPY_TOO_SMALL"
  by (cases r) simp_all

lemma rpc_poll_too_small:
  assumes poll: "hako_pdu_rpc_server_poll E q capacity (Some h) out ws = (c, out1, Some h1, ws1)"
    and small: "ro_error out1 = Some HAKO_PDU_RPC_ERROR_BUFFER_TOO_SMALL"
  shows "\<exists>s s' ev r. rh_rpc h = Some s \<and> RpcServicesServer_poll E q s ws = (ev, r, s', ws1) \<and> ev \<noteq> RSE_NONE
    \<and> c = HAKO_PDU_RPC_SERVER_EVENT_NONE \<and> h1 = h\<lparr>rh_rpc := Some s'\<rparr>"
proof -
  have "ro_error out1 = Some HAKO_PDU_RPC_ERROR_BUFFER_TOO_SMALL \<Longrightarrow> ?thesis"
    using poll
    by (auto simp: hako_pdu_rpc_server_poll_def rpc_server_poll_def Let_def rpc_set_error_def copy_pdu_def static_poll_def
        store_request_def split: option.splits prod.splits if_splits)
  then show ?thesis using small .
qed

text \<open>An event leaves the client that caused it busy.\<close>

lemma event_leaves_busy:
  assumes "RpcServer_poll E q st w = (ev, q', st', w')" and "rpc_server_inv st" and "ev \<noteq> RSE_NONE"
  shows "\<exists>client i. slots st' client = Some (SlotRunning i) \<or> slots st' client = Some (SlotCancelling i)"
proof -
  have "rsv_pending_requests st \<noteq> []" using assms(1,3) by (auto simp: RpcServer_poll_def)
  then obtain p ps where "rsv_pending_requests st = p # ps" by (cases "rsv_pending_requests st") simp_all
  from poll_follows [OF assms(2) this assms(1) refl] assms(3) show ?thesis
    by (auto simp: follows_def answer_request_def refuse_request_def split: if_splits option.splits server_slot.splits)
qed

lemma services_event_leaves_busy:
  assumes "RpcServicesServer_poll E q s ws = (ev, q', s', ws')" and "rpc_services_ok s" and "ev \<noteq> RSE_NONE"
  shows "\<exists>n e st client i. (n, e, st) \<in> set (rsvc_rpc_endpoints s')
    \<and> (slots st client = Some (SlotRunning i) \<or> slots st client = Some (SlotCancelling i))"
proof -
  obtain ys where p: "poll_server_endpoints E q (rsvc_rpc_endpoints s) ws = (ev, q', ys, ws')"
    and s': "s' = s\<lparr>rsvc_rpc_endpoints := ys\<rparr>"
    using assms(1) by (auto simp: RpcServicesServer_poll_def split: prod.splits)
  from poll_endpoints_event [OF p assms(3)] obtain n e st st' q0 w0
    where st: "(n, e, st) \<in> set (rsvc_rpc_endpoints s)" "(n, e, st') \<in> set ys" "RpcServer_poll E q0 st w0 = (ev, q', st', ws' e)" by blast
  have "rpc_server_inv st" using assms(2) st(1) by (auto simp: rpc_services_ok_def services_endpoint_ok_def)
  from event_leaves_busy [OF st(3) this assms(3)] st(2) s' show ?thesis by simp blast
qed


end
