(* ===== verification/C_Rpc_Examples.thy ===== *)
theory C_Rpc_Examples
  imports C_Rpc_Properties
begin

text \<open>The properties of the RPC C API on the example service: one request, reported and answered.\<close>

lemma rpc_example_request_nonempty: "fst rpc_example_request \<noteq> []"
  by (simp add: rpc_example_request_def RpcClient_create_request_buffer_def rpc_example_def Let_def overwrite_def le32_def)

definition rpc_example_out :: "(hako_pdu_rpc_request_info_t, pdu_data option) rpc_out" where
  "rpc_example_out = \<lparr>ro_info = Some \<lparr>rqi_request_token = 0, rqi_service_name = zero_name 128, rqi_client_name = zero_name 128, rqi_pdu_size = 0\<rparr>,
     ro_buffer = Some [], ro_size = Some 0, ro_error = Some HAKO_PDU_RPC_OK\<rparr>"

definition rpc_example_handle :: "(unit RpcServicesServer, RpcRequest) hako_pdu_rpc_server_handle" where
  "rpc_example_handle = \<lparr>rh_rpc = Some rpc_requested_services, rh_next_token = 1, rh_pending_requests = [], rh_started = True, rh_endpoints = True\<rparr>"

lemmas rpc_c_simps = rpc_server_poll_def static_poll_def rpc_set_error_def copy_pdu_def store_request_def rpc_example_out_def Let_def


text \<open>The request is reported under token 1; after its reply the token is unknown.\<close>

definition rpc_example_alloc_out :: "(hako_pdu_rpc_request_info_t, pdu_data option option) rpc_out" where
  "rpc_example_alloc_out = \<lparr>ro_info = ro_info rpc_example_out, ro_buffer = Some None, ro_size = Some 0, ro_error = None\<rparr>"

lemma sm_emplace_Nil [simp]: "sm_emplace k v [] = [(k, v)]"
  by (simp add: sm_emplace_def sm_find_def)

lemma alloc_poll_reports_first:
  assumes "poll s x = (Some (RSE_REQUEST_IN, r), s', x')" and "rh_rpc h = Some s" and "rh_started h"
    and "rh_next_token h = 1" and "rh_pending_requests h = []"
  shows "\<exists>out' info. rpc_server_poll poll request_of reset_output (\<lambda>b. b \<noteq> None) (allocate_pdu (\<lambda>_. True)) (Some h) rpc_example_alloc_out x
      = (HAKO_PDU_RPC_SERVER_EVENT_REQUEST_IN, out', Some (h\<lparr>rh_rpc := Some s', rh_next_token := 2, rh_pending_requests := [(1, r)]\<rparr>), x')
    \<and> ro_info out' = Some info \<and> rqi_request_token info = 1"
  using assms by (simp add: rpc_c_simps rpc_example_alloc_out_def reset_output_def allocate_pdu_def)


text \<open>A connection of the multiplexing server sends the request; its reply goes back there.\<close>

definition rpc_example_mux :: "unit RpcServicesServer \<Rightarrow> (nat, bool list \<times> uint64) RpcServicesMuxServer" where
  "rpc_example_mux s = (new_RpcServicesMuxServer ''n'' ''RpcServerEndpointImpl'' ''p'' ''x'' 1)
     \<lparr>rmx_mux := Some 1, rmx_started := True, rmx_slots := [\<lparr>rcs_connection_id = 4, rcs_endpoint = 7,
        rcs_world = rpc_example_world 5, rcs_server = s, rcs_disconnected = False\<rparr>]\<rparr>"


end
