(* ===== verification/Fibonacci_Example.thy ===== *)
theory Fibonacci_Example
  imports Services_Server_Properties Services_Client_Properties Number_Text
begin

text \<open>
  The example programs \<open>examples/action_fibonacci_server.cpp\<close> and
  \<open>examples/action_fibonacci_client.cpp\<close>: the execution of a Goal by the server, over the
  operations of the Action services, and the client's Goal ID and event loop.

  The generated convertors are the parameter \<open>fibonacci_codec\<close>. The server sleeps after each
  Feedback, and while it sleeps the threads of the transport may do anything to the services and
  to the world: \<open>pause\<close> is an arbitrary function, applied after each Feedback.
\<close>

section \<open>The server\<close>

type_synonym int32_t = "32 word"

record fibonacci_codec =
  read_order :: "pdu_data \<Rightarrow> int32_t option"
  write_feedback :: "int32_t list \<Rightarrow> pdu_data \<Rightarrow> int \<times> pdu_data"
  write_result :: "int32_t list \<Rightarrow> pdu_data \<Rightarrow> int \<times> pdu_data"

definition kActionName :: string where "kActionName = ''fibonacci''"

definition encode_feedback ::
    "fibonacci_codec \<Rightarrow> ('e, 'w) IActionServerEndpoint \<Rightarrow> 'e ActionServicesServer \<Rightarrow> 'w world \<Rightarrow> int32_t list \<Rightarrow> pdu_data option" where
  "encode_feedback C V s w sequence =
     (case ServicesServer_create_feedback_buffer V kActionName s w of
        None \<Rightarrow> None
      | Some packet \<Rightarrow> (case write_feedback C sequence packet of (n, packet') \<Rightarrow> if n > 0 then Some packet' else None))"

definition encode_result ::
    "fibonacci_codec \<Rightarrow> ('e, 'w) IActionServerEndpoint \<Rightarrow> 'e ActionServicesServer \<Rightarrow> 'w world \<Rightarrow> int32_t list \<Rightarrow> pdu_data option" where
  "encode_result C V s w sequence =
     (case ServicesServer_create_result_buffer V kActionName s w of
        None \<Rightarrow> None
      | Some packet \<Rightarrow> (case write_result C sequence packet of (n, packet') \<Rightarrow> if n > 0 then Some packet' else None))"

text \<open>The Result of a Goal that ends with \<open>status\<close>; false when it cannot be encoded or sent.\<close>

definition send_result ::
    "fibonacci_codec \<Rightarrow> ('e, 'w) IActionServerEndpoint \<Rightarrow> GoalId \<Rightarrow> TerminalStatus \<Rightarrow> int32_t list
     \<Rightarrow> 'e ActionServicesServer \<Rightarrow> 'w world \<Rightarrow> bool \<times> 'e ActionServicesServer \<times> 'w world" where
  "send_result C V g status sequence s w =
     (case encode_result C V s w sequence of
        None \<Rightarrow> (False, s, w)
      | Some packet \<Rightarrow> ServicesServer_complete V kActionName g status packet s w)"

text \<open>One Feedback of the loop.\<close>

definition send_partial ::
    "fibonacci_codec \<Rightarrow> ('e, 'w) IActionServerEndpoint \<Rightarrow> GoalId \<Rightarrow> int32_t list
     \<Rightarrow> 'e ActionServicesServer \<Rightarrow> 'w world \<Rightarrow> bool \<times> 'e ActionServicesServer \<times> 'w world" where
  "send_partial C V g sequence s w =
     (case encode_feedback C V s w sequence of
        None \<Rightarrow> (False, s, w)
      | Some packet \<Rightarrow> ServicesServer_send_feedback V kActionName g packet s w)"

text \<open>
  The loop. The two subscripts are in range because the vector has at least two elements whenever
  the body runs. Its result is the vector if every Feedback was sent.
\<close>

function feedback_loop ::
    "fibonacci_codec \<Rightarrow> ('e, 'w) IActionServerEndpoint \<Rightarrow> (nat \<Rightarrow> 'e ActionServicesServer \<times> 'w world \<Rightarrow> 'e ActionServicesServer \<times> 'w world)
     \<Rightarrow> GoalId \<Rightarrow> nat \<Rightarrow> int32_t list \<Rightarrow> 'e ActionServicesServer \<Rightarrow> 'w world
     \<Rightarrow> int32_t list option \<times> 'e ActionServicesServer \<times> 'w world" where
  "feedback_loop C V pause g order sequence s w =
     (if length sequence < order
      then let sequence' = sequence @ [sequence ! (length sequence - 1) + sequence ! (length sequence - 2)]
           in case send_partial C V g sequence' s w of
             (False, s1, w1) \<Rightarrow> (None, snd (send_result C V g ABORTED sequence' s1 w1))
           | (True, s1, w1) \<Rightarrow>
               (case pause (length sequence') (s1, w1) of
                  (s2, w2) \<Rightarrow> feedback_loop C V pause g order sequence' s2 w2)
      else (Some sequence, s, w))"
  by pat_completeness auto
termination by (relation "measure (\<lambda>(C, V, pause, g, order, sequence, s, w). order - length sequence)") auto

declare feedback_loop.simps [simp del]

definition execute_goal ::
    "fibonacci_codec \<Rightarrow> ('e, 'w) IActionServerEndpoint \<Rightarrow> (nat \<Rightarrow> 'e ActionServicesServer \<times> 'w world \<Rightarrow> 'e ActionServicesServer \<times> 'w world)
     \<Rightarrow> ServerEvent \<Rightarrow> 'e ActionServicesServer \<Rightarrow> 'w world \<Rightarrow> bool \<times> 'e ActionServicesServer \<times> 'w world" where
  "execute_goal C V pause event s w =
     (let g = server_goal_id (se_goal event)
      in case read_order C (se_pdu event) of
        None \<Rightarrow> ServicesServer_reject_goal V kActionName g s w
      | Some order \<Rightarrow>
          if sint order \<le> 0 \<or> 47 < sint order then ServicesServer_reject_goal V kActionName g s w
          else (case ServicesServer_accept_goal V kActionName g s w of
                  (False, s1, w1) \<Rightarrow> (False, s1, w1)
                | (True, s1, w1) \<Rightarrow>
                    (case feedback_loop C V pause g (nat (sint order)) (if 2 \<le> sint order then [0, 1] else [0]) s1 w1 of
                       (None, s2, w2) \<Rightarrow> (False, s2, w2)
                     | (Some sequence, s2, w2) \<Rightarrow> send_result C V g SUCCEEDED sequence s2 w2)))"

section \<open>What the server computes\<close>

fun fib :: "nat \<Rightarrow> int" where
  "fib 0 = 0"
| "fib (Suc 0) = 1"
| "fib (Suc (Suc n)) = fib (Suc n) + fib n"

definition fibs :: "nat \<Rightarrow> int list" where
  "fibs n = map fib [0..<n]"

text \<open>The reference: the Feedbacks for the given sequences of integers, one after the other.\<close>

fun send_partials ::
    "fibonacci_codec \<Rightarrow> ('e, 'w) IActionServerEndpoint \<Rightarrow> (nat \<Rightarrow> 'e ActionServicesServer \<times> 'w world \<Rightarrow> 'e ActionServicesServer \<times> 'w world)
     \<Rightarrow> GoalId \<Rightarrow> int list list \<Rightarrow> 'e ActionServicesServer \<Rightarrow> 'w world \<Rightarrow> bool \<times> 'e ActionServicesServer \<times> 'w world" where
  "send_partials C V pause g [] s w = (True, s, w)"
| "send_partials C V pause g (xs # xss) s w =
     (case send_partial C V g (map word_of_int xs) s w of
        (False, s1, w1) \<Rightarrow> (False, snd (send_result C V g ABORTED (map word_of_int xs) s1 w1))
      | (True, s1, w1) \<Rightarrow> (case pause (length xs) (s1, w1) of (s2, w2) \<Rightarrow> send_partials C V pause g xss s2 w2))"

lemma fib_nonneg: "0 \<le> fib n"
  by (induction n rule: fib.induct) auto

lemma fib_mono: "m \<le> n \<Longrightarrow> fib m \<le> fib n"
proof (induction n)
  case (Suc n)
  have "fib n \<le> fib (Suc n)" by (cases n) (simp_all add: fib_nonneg)
  with Suc show ?case by (cases "m = Suc n") auto
qed simp

fun fib_from :: "nat \<Rightarrow> int \<Rightarrow> int \<Rightarrow> int" where
  "fib_from 0 a b = a"
| "fib_from (Suc n) a b = fib_from n b (a + b)"

lemma fib_from: "fib_from n (fib m) (fib (Suc m)) = fib (n + m)"
proof (induction n arbitrary: m)
  case (Suc n)
  have "fib m + fib (Suc m) = fib (Suc (Suc m))" by simp
  then have "fib_from (Suc n) (fib m) (fib (Suc m)) = fib_from n (fib (Suc m)) (fib (Suc (Suc m)))" by (metis fib_from.simps(2))
  also have "\<dots> = fib (n + Suc m)" by (rule Suc.IH)
  finally show ?case by simp
qed simp

lemma fib_46: "fib 46 = 1836311903"
proof -
  have "fib_from 46 0 1 = 1836311903" by (simp add: eval_nat_numeral)
  then show ?thesis using fib_from [of 46 0] by (simp only: fib.simps add_0_right)
qed

lemma fib_fits: "n < 47 \<Longrightarrow> sint (word_of_int (fib n) :: int32_t) = fib n"
  using fib_mono [of n 46] fib_nonneg [of n] by (simp add: fib_46 sint_sbintrunc' signed_take_bit_int_eq_self)

lemma fibs_snoc:
  assumes "2 \<le> k"
  shows "fibs (Suc k) = fibs k @ [fibs k ! (k - 1) + fibs k ! (k - 2)]"
proof -
  obtain m where "k = Suc (Suc m)" using assms by (metis add_2_eq_Suc le_Suc_ex)
  then show ?thesis by (simp add: fibs_def nth_append)
qed

lemma length_fibs [simp]: "length (fibs n) = n"
  by (simp add: fibs_def)

lemma feedback_loop_fibs:
  assumes "2 \<le> k"
  shows "feedback_loop C V pause g n (map word_of_int (fibs k)) s w =
    (case send_partials C V pause g (map fibs [Suc k..<Suc n]) s w of
       (ok, s', w') \<Rightarrow> (if ok then Some (map word_of_int (fibs (max k n))) else None, s', w'))"
  using assms
proof (induction "n - k" arbitrary: k s w)
  case 0
  then show ?case by (simp add: feedback_loop.simps max_def)
next
  case (Suc d)
  have step: "map word_of_int (fibs k) @ [map word_of_int (fibs k) ! (k - 1) + map word_of_int (fibs k) ! (k - 2)]
      = (map word_of_int (fibs (Suc k)) :: int32_t list)"
    using Suc.prems by (simp add: fibs_snoc del: One_nat_def)
  have upt: "[Suc k..<Suc n] = Suc k # [Suc (Suc k)..<Suc n]" using Suc.hyps(2) by (subst upt_conv_Cons) auto
  have IH: "feedback_loop C V pause g n (map word_of_int (fibs (Suc k))) s' w' =
    (case send_partials C V pause g (map fibs [Suc (Suc k)..<Suc n]) s' w' of
       (ok, s', w') \<Rightarrow> (if ok then Some (map word_of_int (fibs (max (Suc k) n))) else None, s', w'))" for s' w'
    using Suc.hyps(1) [of "Suc k"] Suc.hyps(2) Suc.prems by simp
  have mx: "max (Suc k) n = max k n" using Suc.hyps(2) by simp
  have "k < n" using Suc.hyps(2) by simp
  then show ?case unfolding feedback_loop.simps [of C V pause g n "map word_of_int (fibs k)"] upt list.map send_partials.simps
    by (simp add: step Let_def IH mx del: upt_Suc One_nat_def split: prod.split bool.split)
qed

text \<open>
  C27 (termination): executing a Goal whose order is in 1 to 47 always ends, whatever the services
  answer and whatever happens while the server sleeps: after accepting the Goal it sends at most
  \<open>order - 2\<close> Feedbacks, the Fibonacci numbers of length 3, 4, up to the order, stops at the first
  that fails with the Result ABORTED, and else completes the Goal with the first \<open>order\<close> Fibonacci
  numbers and SUCCEEDED. All numbers fit 32-bit integers: no addition of the loop overflows.
\<close>

theorem fibonacci_goal_served:
  assumes "read_order C (se_pdu event) = Some order" and "0 < sint order" and "sint order \<le> 47"
    and "ServicesServer_accept_goal V kActionName (server_goal_id (se_goal event)) s w = (True, s1, w1)"
  shows "execute_goal C V pause event s w =
      (case send_partials C V pause (server_goal_id (se_goal event)) (map fibs [3..<Suc (nat (sint order))]) s1 w1 of
         (False, s2, w2) \<Rightarrow> (False, s2, w2)
       | (True, s2, w2) \<Rightarrow>
           send_result C V (server_goal_id (se_goal event)) SUCCEEDED (map word_of_int (fibs (nat (sint order)))) s2 w2)
    \<and> (\<forall>x\<in>set (fibs (nat (sint order))). sint (word_of_int x :: int32_t) = x)"
proof -
  let ?n = "nat (sint order)" and ?g = "server_goal_id (se_goal event)"
  have "feedback_loop C V pause ?g ?n (if 2 \<le> sint order then [0, 1] else [0]) s1 w1 =
      (case send_partials C V pause ?g (map fibs [3..<Suc ?n]) s1 w1 of
         (ok, s', w') \<Rightarrow> (if ok then Some (map word_of_int (fibs ?n)) else None, s', w'))"
  proof (cases "2 \<le> sint order")
    case True
    have two: "map word_of_int (fibs 2) = ([0, 1] :: int32_t list)" by (simp add: fibs_def upt_rec numeral_2_eq_2)
    have "max 2 ?n = ?n" using True by linarith
    with True show ?thesis using feedback_loop_fibs [of 2 C V pause ?g ?n s1 w1]
      unfolding two by (simp only: numeral_3_eq_3 numeral_2_eq_2 if_True order.refl)
  next
    case False
    then have "?n = 1" using assms(2) by simp
    then show ?thesis using False by (simp add: feedback_loop.simps fibs_def)
  qed
  then show ?thesis
    using assms fib_fits by (auto simp: execute_goal_def fibs_def split: prod.splits bool.splits option.splits)
qed

definition fibonacci_services :: "ActionServerEndpointImpl \<Rightarrow> ActionServerEndpointImpl ActionServicesServer" where
  "fibonacci_services ep = (example_services ep [])\<lparr>ss_actions := [\<lparr>ai_action_name = ''fibonacci'', ai_endpoint = ep, ai_goals = []\<rparr>]\<rparr>"

definition order_3 :: fibonacci_codec where
  "order_3 = \<lparr>read_order = \<lambda>_. Some 3, write_feedback = \<lambda>_ p. (1, p), write_result = \<lambda>_ p. (1, p)\<rparr>"

theorem fibonacci_goal_served_witness:
  "\<exists>s1 w1. execute_goal order_3
       (server_endpoint_vtable example_env) (\<lambda>_. id) (goal_event example_server SE_GOAL_REQUEST g0 goal_packet)
       (fibonacci_services (bound_server (new_binding g0 0))) w_ok =
     (case send_partials order_3
         (server_endpoint_vtable example_env) (\<lambda>_. id) g0 [[0, 1, 1]] s1 w1 of
        (False, s2, w2) \<Rightarrow> (False, s2, w2)
      | (True, s2, w2) \<Rightarrow> send_result order_3
          (server_endpoint_vtable example_env) g0 SUCCEEDED [0, 1, 1] s2 w2)"
proof -
  let ?C = order_3 and ?V = "server_endpoint_vtable example_env"
    and ?ev = "goal_event example_server SE_GOAL_REQUEST g0 goal_packet" and ?s = "fibonacci_services (bound_server (new_binding g0 0))"
  have g: "server_goal_id (se_goal ?ev) = g0" by (simp add: goal_event_def)
  have n3: "nat (sint (3 :: int32_t)) = 3" by simp
  have m3: "map fibs [3..<Suc 3] = [[0, 1, 1]]" "map word_of_int (fibs 3) = ([0, 1, 1] :: int32_t list)"
    by (simp_all add: fibs_def upt_rec eval_nat_numeral)
  obtain s1 w1 where acc: "ServicesServer_accept_goal ?V kActionName (server_goal_id (se_goal ?ev)) ?s w_ok = (True, s1, w1)"
    unfolding g using example_accept_ok
    by (auto simp: ServicesServer_accept_goal_def services_simps accepted_binding_def Let_def fibonacci_services_def kActionName_def)
  have "read_order ?C (se_pdu ?ev) = Some 3" "0 < sint (3 :: int32_t)" "sint (3 :: int32_t) \<le> 47" by (simp_all add: order_3_def)
  from fibonacci_goal_served [OF this acc, of "\<lambda>_. id"] show ?thesis unfolding g n3 m3 by blast
qed

section \<open>The client\<close>

text \<open>\<open>random\<close> is what the 16 calls of the random device return, cut to a byte.\<close>

definition make_goal_id :: "byte list \<Rightarrow> GoalId" where
  "make_goal_id random = (if is_valid_goal_id random then random else butlast random @ [1])"

lemma make_goal_id_valid: "length random = 16 \<Longrightarrow> is_valid_goal_id (make_goal_id random) \<and> length (make_goal_id random) = 16"
  by (auto simp: make_goal_id_def is_valid_goal_id_iff)

definition parse_order :: "string \<Rightarrow> int32_t option" where
  "parse_order text =
     (case stoll text of None \<Rightarrow> None | Some value \<Rightarrow> if value \<le> 0 \<or> 47 < value then None else Some (word_of_int value))"

text \<open>An order that the client takes from its command line is one that the server executes.\<close>

lemma parse_order_in_range: "parse_order text = Some order \<Longrightarrow> 0 < sint order \<and> sint order \<le> 47"
  by (auto simp: parse_order_def sint_sbintrunc' signed_take_bit_int_eq_self split: option.splits if_splits)

lemma parse_order_examples: "parse_order '' 12x'' = Some 12" "parse_order ''48'' = None" "parse_order ''-3'' = None" "parse_order ''x'' = None"
  by (simp_all add: parse_order_def number_text)

text \<open>
  The body of the loop for one polled event: \<open>None\<close> when it goes on and the exit code when it is
  finished. \<open>decodes\<close> tells whether a Feedback or Result packet can be decoded.
\<close>

definition client_step :: "(pdu_data \<Rightarrow> bool) \<Rightarrow> ClientEvent \<Rightarrow> int option" where
  "client_step decodes event =
     (case ce_type event of
        CE_NONE \<Rightarrow> None
      | CE_GOAL_RESPONSE \<Rightarrow> if ce_decision event \<noteq> ACCEPTED then Some 1 else None
      | CE_FEEDBACK \<Rightarrow> if \<not> decodes (ce_pdu event) then Some 1 else None
      | CE_RESULT \<Rightarrow>
          if \<not> decodes (ce_pdu event) then Some 1 else Some (if ce_terminal_status event = SUCCEEDED then 0 else 1)
      | CE_TIMEOUT \<Rightarrow> Some 1
      | CE_ERROR \<Rightarrow> Some 1
      | CE_CANCEL_RESPONSE \<Rightarrow> Some 1)"

text \<open>The loop over the events that the polls report; \<open>None\<close> while no event has ended it.\<close>

fun client_loop :: "(pdu_data \<Rightarrow> bool) \<Rightarrow> ClientEvent list \<Rightarrow> int option" where
  "client_loop decodes [] = None"
| "client_loop decodes (event # events) =
     (case client_step decodes event of None \<Rightarrow> client_loop decodes events | Some code \<Rightarrow> Some code)"

lemma client_step_success:
  "client_step decodes event = Some 0 \<longleftrightarrow> ce_type event = CE_RESULT \<and> decodes (ce_pdu event) \<and> ce_terminal_status event = SUCCEEDED"
  by (simp add: client_step_def split: ClientEventType.split)

text \<open>The client exits with 0 exactly when the first event that ends its loop is a Result with SUCCEEDED that can be decoded.\<close>

lemma client_loop_success:
  "client_loop decodes events = Some 0 \<longleftrightarrow>
     (\<exists>event after. dropWhile (\<lambda>e. client_step decodes e = None) events = event # after
        \<and> ce_type event = CE_RESULT \<and> decodes (ce_pdu event) \<and> ce_terminal_status event = SUCCEEDED)"
proof (induction events)
  case (Cons e events)
  then show ?case using client_step_success [of decodes e] by (cases "client_step decodes e") auto
qed simp

end
