(* ===== verification/Fibonacci_Programs.thy ===== *)
theory Fibonacci_Programs
  imports Fibonacci_Example C_Action
begin

text \<open>
  The main functions of the Fibonacci examples. The endpoint container is given by the results of its
  \<open>initialize\<close> and \<open>start_all\<close> and by the endpoints it has; \<open>clock\<close> tells whether the services found their
  time source; \<open>file\<close> reads a configuration file. Between two passes of a loop the threads of the transport do
  anything to the services and the world: a pause.
\<close>

type_synonym ('s, 'w) action_pause = "'s \<times> 'w world \<Rightarrow> 's \<times> 'w world"

definition argument :: "nat \<Rightarrow> string \<Rightarrow> string list \<Rightarrow> string" where
  "argument i otherwise args = (if i < length args then args ! i else otherwise)"

section \<open>The server\<close>

text \<open>One pass of the loop.\<close>

definition fibonacci_serve ::
    "fibonacci_codec \<Rightarrow> ('e, 'w) IActionServerEndpoint \<Rightarrow> (nat \<Rightarrow> 'e ActionServicesServer \<times> 'w world \<Rightarrow> 'e ActionServicesServer \<times> 'w world)
     \<Rightarrow> 'e ActionServicesServer \<Rightarrow> 'w world \<Rightarrow> 'e ActionServicesServer \<times> 'w world" where
  "fibonacci_serve C V sleep s w =
     (case ServicesServer_poll V s w of
        (Some (action_name, event), s1, w1) \<Rightarrow>
          if se_type event = SE_GOAL_REQUEST then snd (execute_goal C V sleep event s1 w1) else (s1, w1)
      | (None, s1, w1) \<Rightarrow> (s1, w1))"

text \<open>The loop until a signal sets \<open>stop_requested\<close>: as many passes as there are pauses.\<close>

fun fibonacci_server_loop ::
    "fibonacci_codec \<Rightarrow> ('e, 'w) IActionServerEndpoint \<Rightarrow> (nat \<Rightarrow> 'e ActionServicesServer \<times> 'w world \<Rightarrow> 'e ActionServicesServer \<times> 'w world)
     \<Rightarrow> ('e ActionServicesServer, 'w) action_pause list \<Rightarrow> 'e ActionServicesServer \<Rightarrow> 'w world \<Rightarrow> 'e ActionServicesServer \<times> 'w world" where
  "fibonacci_server_loop C V sleep [] s w = (s, w)"
| "fibonacci_server_loop C V sleep (pause # pauses) s w =
     (case fibonacci_serve C V sleep s w of (s1, w1) \<Rightarrow>
      case pause (s1, w1) of (s2, w2) \<Rightarrow> fibonacci_server_loop C V sleep pauses s2 w2)"

text \<open>\<open>main\<close> with the arguments after the program name: the exit code and the services at the end.\<close>

definition fibonacci_server_main ::
    "fibonacci_codec \<Rightarrow> 'w pdu_env \<Rightarrow> 'j json_ops \<Rightarrow> (string \<Rightarrow> (string + 'j) option) \<Rightarrow> (string \<Rightarrow> string \<Rightarrow> bool) \<Rightarrow> bool
     \<Rightarrow> (string \<Rightarrow> bool) \<Rightarrow> bool
     \<Rightarrow> (nat \<Rightarrow> ActionServerEndpointImpl ActionServicesServer \<times> 'w world \<Rightarrow> ActionServerEndpointImpl ActionServicesServer \<times> 'w world)
     \<Rightarrow> string list \<Rightarrow> (ActionServerEndpointImpl ActionServicesServer, 'w) action_pause list \<Rightarrow> 'w world
     \<Rightarrow> int \<times> ActionServerEndpointImpl ActionServicesServer option \<times> 'w world" where
  "fibonacci_server_main C E J file opens started container clock sleep args pauses w =
     (let V = server_endpoint_vtable E;
          action_config = argument 0 ''.hako/action/resolved-action.json'' args;
          endpoint_config = argument 1 ''.hako/action/endpoints.json'' args
      in if 2 < length args then (1, None, w)
         else if \<not> opens ''fibonacci-server'' endpoint_config then (1, None, w)
         else case initialize_services_impl E J (file action_config) (Some container) False
                \<lparr>ss_node_id = ''fibonacci-server'', ss_impl_type = ''ActionServerEndpointImpl'', ss_has_time_source = clock,
                 ss_actions = [], ss_pending_runtime_events = []\<rparr> of
           (False, s) \<Rightarrow> (1, None, w)
         | (True, s) \<Rightarrow>
             if \<not> started \<or> \<not> ServicesServer_start_all_services s then (1, None, w)
             else (case fibonacci_server_loop C V sleep pauses s w of
                     (s1, w1) \<Rightarrow> (0, Some (ServicesServer_clear_all_instances V (ServicesServer_stop_all_services V s1)), w1)))"

section \<open>The client\<close>

text \<open>
  The loop that waits for the connection, for the results of \<open>is_running_all\<close> and of the comparison
  with the deadline: true when connected, false at the deadline, \<open>None\<close> while waiting.
\<close>

fun wait_connected :: "(bool \<times> bool) list \<Rightarrow> bool option" where
  "wait_connected [] = None"
| "wait_connected ((connected, late) # rest) = (if connected then Some True else if late then Some False else wait_connected rest)"

text \<open>The loop over the events of the Goal: the exit code, \<open>None\<close> while it goes on.\<close>

fun fibonacci_client_loop ::
    "(pdu_data \<Rightarrow> bool) \<Rightarrow> ('e, 'w) IActionClientEndpoint \<Rightarrow> ('e ActionServicesClient, 'w) action_pause list
     \<Rightarrow> 'e ActionServicesClient \<Rightarrow> 'w world \<Rightarrow> int option \<times> 'e ActionServicesClient \<times> 'w world" where
  "fibonacci_client_loop decodes V [] s w = (None, s, w)"
| "fibonacci_client_loop decodes V (pause # pauses) s w =
     (case ServicesClient_poll V s w of (r, s1) \<Rightarrow>
      case client_step decodes (case r of None \<Rightarrow> empty_ClientEvent | Some (action_name, event) \<Rightarrow> event) of
        Some exit_code \<Rightarrow> (Some exit_code, s1, w)
      | None \<Rightarrow> (case pause (s1, w) of (s2, w2) \<Rightarrow> fibonacci_client_loop decodes V pauses s2 w2))"

text \<open>The Goal packet; \<open>write_order\<close> is the generated convertor.\<close>

definition encode_goal ::
    "(int32_t \<Rightarrow> pdu_data \<Rightarrow> int \<times> pdu_data) \<Rightarrow> ('e, 'w) IActionClientEndpoint \<Rightarrow> 'e ActionServicesClient \<Rightarrow> 'w world \<Rightarrow> int32_t \<Rightarrow> pdu_data option" where
  "encode_goal write_order V s w order =
     (case ServicesClient_create_goal_buffer V kActionName s w of
        None \<Rightarrow> None
      | Some goal_pdu \<Rightarrow> (case write_order order goal_pdu of (n, packet) \<Rightarrow> if n \<le> 0 then None else Some packet))"

text \<open>The part of \<open>main\<close> after the connection: encode and send the Goal, then its events, then stop.\<close>

definition run_goal ::
    "(int32_t \<Rightarrow> pdu_data \<Rightarrow> int \<times> pdu_data) \<Rightarrow> (pdu_data \<Rightarrow> bool) \<Rightarrow> ('e, 'w) IActionClientEndpoint \<Rightarrow> byte list \<Rightarrow> int32_t
     \<Rightarrow> ('e ActionServicesClient, 'w) action_pause list \<Rightarrow> 'e ActionServicesClient \<Rightarrow> 'w world
     \<Rightarrow> int option \<times> 'e ActionServicesClient \<times> 'w world" where
  "run_goal write_order decodes V random order pauses s w =
     (case encode_goal write_order V s w order of
        None \<Rightarrow> (Some 1, s, w)
      | Some goal_pdu \<Rightarrow>
          (case ServicesClient_send_goal V kActionName goal_pdu (make_goal_id random) 5000000 s w of
             (False, s1, w1) \<Rightarrow> (Some 1, s1, w1)
           | (True, s1, w1) \<Rightarrow>
               (case fibonacci_client_loop decodes V pauses s1 w1 of
                  (None, s2, w2) \<Rightarrow> (None, s2, w2)
                | (Some exit_code, s2, w2) \<Rightarrow>
                    (Some exit_code, ServicesClient_clear_all_instances V (ServicesClient_stop_all_services V s2), w2))))"

definition fibonacci_client_main ::
    "(int32_t \<Rightarrow> pdu_data \<Rightarrow> int \<times> pdu_data) \<Rightarrow> (pdu_data \<Rightarrow> bool) \<Rightarrow> 'w pdu_env \<Rightarrow> 'j json_ops \<Rightarrow> (string \<Rightarrow> (string + 'j) option)
     \<Rightarrow> (string \<Rightarrow> string \<Rightarrow> bool) \<Rightarrow> bool \<Rightarrow> (string \<Rightarrow> bool) \<Rightarrow> bool \<Rightarrow> (bool \<times> bool) list \<Rightarrow> byte list \<Rightarrow> string list
     \<Rightarrow> (ActionClientEndpointImpl ActionServicesClient, 'w) action_pause list \<Rightarrow> 'w world \<Rightarrow> int option \<times> 'w world" where
  "fibonacci_client_main write_order decodes E J file opens started container clock connection random args pauses w =
     (let V = client_endpoint_vtable E;
          action_config = argument 1 ''.hako/action/resolved-action.json'' args;
          endpoint_config = argument 2 ''.hako/action/endpoints.json'' args
      in if 3 < length args then (Some 1, w)
         else case (if args = [] then Some 10 else parse_order (args ! 0)) of
           None \<Rightarrow> (Some 1, w)
         | Some order \<Rightarrow>
             if \<not> opens ''fibonacci-client'' endpoint_config then (Some 1, w)
             else (case client_initialize_services E J (file action_config) (Some container)
                          \<lparr>sc_node_id = ''fibonacci-client'', sc_client_name = ''fibonacci-example-client'',
                           sc_impl_type = ''ActionClientEndpointImpl'', sc_has_time_source = clock, sc_actions = []\<rparr> of
                     (False, s) \<Rightarrow> (Some 1, w)
                   | (True, s) \<Rightarrow>
                       if \<not> started \<or> \<not> ServicesClient_start_all_services s then (Some 1, w)
                       else (case wait_connected connection of
                               None \<Rightarrow> (None, w)
                             | Some False \<Rightarrow> (Some 1, w)
                             | Some True \<Rightarrow>
                                 (case run_goal write_order decodes V random order pauses s w of (code, s', w') \<Rightarrow> (code, w')))))"

section \<open>What the client reports\<close>

text \<open>The events that the polls of the loop report, up to the last one it looks at.\<close>

fun polled_events ::
    "(pdu_data \<Rightarrow> bool) \<Rightarrow> ('e, 'w) IActionClientEndpoint \<Rightarrow> ('e ActionServicesClient, 'w) action_pause list
     \<Rightarrow> 'e ActionServicesClient \<Rightarrow> 'w world \<Rightarrow> ClientEvent list" where
  "polled_events decodes V [] s w = []"
| "polled_events decodes V (pause # pauses) s w =
     (case ServicesClient_poll V s w of (r, s1) \<Rightarrow>
      let event = (case r of None \<Rightarrow> empty_ClientEvent | Some (action_name, event) \<Rightarrow> event)
      in event # (if client_step decodes event = None
                  then (case pause (s1, w) of (s2, w2) \<Rightarrow> polled_events decodes V pauses s2 w2) else []))"

lemma client_loop_of_events:
  "fst (fibonacci_client_loop decodes V pauses s w) = client_loop decodes (polled_events decodes V pauses s w)"
  by (induction pauses arbitrary: s w) (auto simp: Let_def split: prod.split option.split)

lemma ends_with_result:
  "client_loop decodes (polled_events decodes V pauses s w) = Some 0 \<Longrightarrow>
   \<exists>before event. polled_events decodes V pauses s w = before @ [event]
     \<and> ce_type event = CE_RESULT \<and> decodes (ce_pdu event) \<and> ce_terminal_status event = SUCCEEDED
     \<and> (\<forall>e\<in>set before. client_step decodes e = None)"
proof (induction pauses arbitrary: s w)
  case (Cons pause pauses)
  obtain r s1 where p: "ServicesClient_poll V s w = (r, s1)" by fastforce
  obtain s2 w2 where q: "pause (s1, w) = (s2, w2)" by fastforce
  let ?ev = "case r of None \<Rightarrow> empty_ClientEvent | Some (action_name, event) \<Rightarrow> event"
  show ?case
  proof (cases "client_step decodes ?ev")
    case None
    then have "client_loop decodes (polled_events decodes V pauses s2 w2) = Some 0" using Cons.prems by (simp add: p q Let_def)
    from Cons.IH [OF this] obtain before event where "polled_events decodes V pauses s2 w2 = before @ [event]"
      "ce_type event = CE_RESULT" "decodes (ce_pdu event)" "ce_terminal_status event = SUCCEEDED" "\<forall>e\<in>set before. client_step decodes e = None"
      by blast
    with None show ?thesis by (intro exI [of _ "?ev # before"] exI [of _ event]) (simp add: p q Let_def)
  next
    case (Some code)
    then have "client_step decodes ?ev = Some 0" using Cons.prems by (simp add: p Let_def)
    then show ?thesis using client_step_success [of decodes ?ev] Some by (intro exI [of _ "[]"] exI [of _ ?ev]) (simp add: p Let_def)
  qed
qed simp

text \<open>
  The client program exits with 0 only after it sent a Goal with a valid Goal ID, for an order in 1
  to 47, and the last event it polled is a Result with SUCCEEDED that can be decoded.
\<close>

lemma fibonacci_client_success:
  assumes "fst (fibonacci_client_main write_order decodes E J file opens started container clock connection random args pauses w) = Some 0"
    and "length random = 16"
  shows "\<exists>s order packet s1 w1 before event.
     0 < sint order \<and> sint order \<le> 47 \<and> encode_goal write_order (client_endpoint_vtable E) s w order = Some packet
     \<and> is_valid_goal_id (make_goal_id random)
     \<and> ServicesClient_send_goal (client_endpoint_vtable E) kActionName packet (make_goal_id random) 5000000 s w = (True, s1, w1)
     \<and> polled_events decodes (client_endpoint_vtable E) pauses s1 w1 = before @ [event]
     \<and> ce_type event = CE_RESULT \<and> decodes (ce_pdu event) \<and> ce_terminal_status event = SUCCEEDED"
proof -
  let ?order = "if args = [] then Some 10 else parse_order (args ! 0)"
  let ?init = "client_initialize_services E J (file (argument 1 ''.hako/action/resolved-action.json'' args)) (Some container)
    \<lparr>sc_node_id = ''fibonacci-client'', sc_client_name = ''fibonacci-example-client'',
     sc_impl_type = ''ActionClientEndpointImpl'', sc_has_time_source = clock, sc_actions = []\<rparr>"
  obtain order where o: "?order = Some order"
    using assms(1) by (cases ?order) (simp_all add: fibonacci_client_main_def Let_def split: if_split_asm)
  obtain ok s where i: "?init = (ok, s)" by fastforce
  have run: "fst (run_goal write_order decodes (client_endpoint_vtable E) random order pauses s w) = Some 0"
    using assms(1) unfolding fibonacci_client_main_def Let_def o i
    by (auto split: if_split_asm bool.split_asm option.split_asm prod.split_asm)
  have range: "0 < sint order \<and> sint order \<le> 47" using o parse_order_in_range [of "args ! 0" order] by (auto split: if_splits)
  obtain packet s1 w1 where sent: "encode_goal write_order (client_endpoint_vtable E) s w order = Some packet"
    "ServicesClient_send_goal (client_endpoint_vtable E) kActionName packet (make_goal_id random) 5000000 s w = (True, s1, w1)"
    and loop: "fst (fibonacci_client_loop decodes (client_endpoint_vtable E) pauses s1 w1) = Some 0"
    using run by (auto simp: run_goal_def split: option.splits prod.splits bool.splits)
  from ends_with_result [OF loop [unfolded client_loop_of_events]] range sent make_goal_id_valid [OF assms(2)]
  show ?thesis by blast
qed

end
