(* ===== verification/Action_Call.thy ===== *)
theory Action_Call
  imports Client_Endpoint_Properties
begin

text \<open>
  The life of one Goal across both endpoints: Request, acceptance, Feedback and Result, each
  packet sent by one side, received and polled by the other.
\<close>

section \<open>Packets of the server at the client\<close>

lemma client_handles_response:
  assumes "i < length (cl_slot_routing c)" and "client_reads_response E (cl_slot_routing c ! i) bytes = Some (response_header g kind code)"
    and "is_valid_goal_id g"
  shows "ClientEndpoint_handle E \<lparr>cp_slot_index = i, cp_kind = PK_RESPONSE, cp_pdu = bytes\<rparr> c = handle_response i (response_header g kind code) bytes c"
  using assms by (auto simp: ClientEndpoint_handle_def client_reads_response_def decode_response_header_def response_header_def Let_def split: if_splits)

lemma client_handles_feedback:
  assumes "i < length (cl_slot_routing c)" and "client_reads_feedback E (cl_slot_routing c ! i) bytes = Some (feedback_header g n)"
    and "is_valid_goal_id g"
  shows "ClientEndpoint_handle E \<lparr>cp_slot_index = i, cp_kind = PK_FEEDBACK, cp_pdu = bytes\<rparr> c = handle_feedback i (feedback_header g n) bytes c"
  using assms by (auto simp: ClientEndpoint_handle_def client_reads_feedback_def decode_feedback_header_def feedback_header_def Let_def split: if_splits)

text \<open>A packet that arrives while the queue is empty is the one that the next poll handles.\<close>

lemma client_poll_received:
  assumes "cl_pending_packets c = []" and "ClientEndpoint_handle E \<lparr>cp_slot_index = i, cp_kind = kind, cp_pdu = bytes\<rparr> c = Some r"
  shows "ClientEndpoint_poll E (ClientEndpoint_on_recv i kind bytes c) w = r"
  using assms by (cases c) (simp add: ClientEndpoint_poll_def ClientEndpoint_on_recv_def split: prod.split)

lemma server_poll_received:
  assumes "sv_initialized s" and "sv_pending_packets s = []" and "sv_pending_events s = []"
  shows "ServerEndpoint_poll E (ServerEndpoint_on_recv i bytes s) w = ServerEndpoint_handle E \<lparr>pp_slot_index = i, pp_pdu = bytes\<rparr> s w"
  using assms by (cases s) (simp add: ServerEndpoint_poll_def ServerEndpoint_take_def ServerEndpoint_on_recv_def)

section \<open>A Goal in slot \<open>i\<close> on both sides\<close>

lemma insort_key_map:
  assumes "k \<notin> fst ` set m"
  shows "map (\<lambda>(k', v). (k', if k' = k then f v else v)) (insort_key fst (k, v) m) = insort_key fst (k, f v) m"
  using assms by (induction m) (force intro!: map_idI)+

lemma sm_update_emplace_new:
  "sm_find m k = None \<Longrightarrow> sm_update k f (sm_emplace k v m) = sm_emplace k (f v) m"
proof -
  assume absent: "sm_find m k = None"
  then have "k \<notin> fst ` set m" by (simp add: sm_find_def map_of_eq_None_iff)
  with absent show ?thesis by (simp add: sm_emplace_def sm_update_def insort_key_map)
qed

definition client_with :: "ActionClientEndpointImpl \<Rightarrow> ClientPacketBinding \<Rightarrow> ActionClientEndpointImpl" where
  "client_with c b = c\<lparr>cl_slot_owners := (cl_slot_owners c)[cb_slot_index b := Some (cb_goal_id b)],
     cl_packet_bindings := sm_emplace (cb_goal_id b) b (cl_packet_bindings c)\<rparr>"

definition server_with :: "ActionServerEndpointImpl \<Rightarrow> ActionPacketBinding \<Rightarrow> ActionServerEndpointImpl" where
  "server_with s b = s\<lparr>sv_slot_owners := (sv_slot_owners s)[ab_slot_index b := Some (ab_goal_id b)],
     sv_packet_bindings := sm_emplace (ab_goal_id b) b (sv_packet_bindings s)\<rparr>"

text \<open>The two sides without the Goal: the same routing, nothing queued, slot \<open>i\<close> free and the Goal unknown.\<close>

definition pair_free :: "ActionClientEndpointImpl \<Rightarrow> ActionServerEndpointImpl \<Rightarrow> nat \<Rightarrow> GoalId \<Rightarrow> bool" where
  "pair_free c s i g \<longleftrightarrow> length g = 16 \<and> is_valid_goal_id g \<and> sv_initialized s
     \<and> sv_slot_routing s = cl_slot_routing c \<and> i < length (cl_slot_routing c)
     \<and> length (cl_slot_owners c) = length (cl_slot_routing c) \<and> sv_slot_owners s = cl_slot_owners c \<and> cl_slot_owners c ! i = None
     \<and> cl_pending_packets c = [] \<and> sv_pending_packets s = [] \<and> sv_pending_events s = []
     \<and> sm_find (sv_packet_bindings s) g = None \<and> sm_find (cl_packet_bindings c) g = None"

text \<open>Between two exchanges both bindings are in the same phase and count the same Feedback.\<close>

definition lockstep :: "nat \<Rightarrow> GoalId \<Rightarrow> ActionPacketBinding \<Rightarrow> ClientPacketBinding \<Rightarrow> bool" where
  "lockstep i g b cb \<longleftrightarrow> ab_goal_id b = g \<and> ab_slot_index b = i \<and> cb_goal_id cb = g \<and> cb_slot_index cb = i
     \<and> cb_next_feedback_sequence cb = ab_next_feedback_sequence b \<and> \<not> ab_cancel_decision_pending b
     \<and> (ab_state b = AWAITING_GOAL_DECISION \<and> cb_state cb = AWAITING_GOAL_RESPONSE
        \<or> ab_state b = GOAL_ACCEPTED \<and> cb_state cb = CB_ACCEPTED \<or> ab_state b = CANCEL_ACCEPTED \<and> cb_state cb = CB_CANCELING)"

lemma with_simps [simp]:
  "cl_slot_routing (client_with c cb) = cl_slot_routing c" "cl_pending_packets (client_with c cb) = cl_pending_packets c"
  "client_goal_event_out (client_with c cb) ty g = client_goal_event_out c ty g"
  "sv_slot_routing (server_with s b) = sv_slot_routing s" "sv_initialized (server_with s b) = sv_initialized s"
  "sv_pending_packets (server_with s b) = sv_pending_packets s" "sv_pending_events (server_with s b) = sv_pending_events s"
  "goal_event (server_with s b) sty g bytes = goal_event s sty g bytes"
  by (simp_all add: client_with_def server_with_def client_goal_event_out_def goal_event_def)

lemma client_with_binding:
  assumes "sm_find (cl_packet_bindings c) (cb_goal_id b) = None"
  shows "sm_find (cl_packet_bindings (client_with c b)) (cb_goal_id b) = Some b"
    and "cb_goal_id (f b) = cb_goal_id b \<Longrightarrow> cb_slot_index (f b) = cb_slot_index b \<Longrightarrow>
      (client_with c b)\<lparr>cl_packet_bindings := sm_update (cb_goal_id b) f (cl_packet_bindings (client_with c b))\<rparr> = client_with c (f b)"
  using assms by (simp_all add: client_with_def sm_update_emplace_new)

lemma server_with_binding:
  assumes "sm_find (sv_packet_bindings s) (ab_goal_id b) = None"
  shows "sm_find (sv_packet_bindings (server_with s b)) (ab_goal_id b) = Some b"
    and "ab_goal_id (f b) = ab_goal_id b \<Longrightarrow> ab_slot_index (f b) = ab_slot_index b \<Longrightarrow>
      (server_with s b)\<lparr>sv_packet_bindings := sm_update (ab_goal_id b) f (sv_packet_bindings (server_with s b))\<rparr> = server_with s (f b)"
  using assms by (simp_all add: server_with_def sm_update_emplace_new)

lemma lockstep_bound:
  assumes "pair_free c s i g" and "lockstep i g b cb"
  shows "sm_find (sv_packet_bindings (server_with s b)) g = Some b" "sm_find (cl_packet_bindings (client_with c cb)) g = Some cb"
    and "ab_goal_id (f b) = g \<Longrightarrow> ab_slot_index (f b) = i \<Longrightarrow>
      (server_with s b)\<lparr>sv_packet_bindings := sm_update g f (sv_packet_bindings (server_with s b))\<rparr> = server_with s (f b)"
    and "cb_goal_id (f' cb) = g \<Longrightarrow> cb_slot_index (f' cb) = i \<Longrightarrow>
      (client_with c cb)\<lparr>cl_packet_bindings := sm_update g f' (cl_packet_bindings (client_with c cb))\<rparr> = client_with c (f' cb)"
  using assms server_with_binding [of s b] client_with_binding [of c cb] by (simp_all add: pair_free_def lockstep_def)

text \<open>Releasing the Goal restores both sides.\<close>

lemma released:
  assumes "pair_free c s i g" and "lockstep i g b cb"
  shows "release_binding_locked g (server_with s b) = s" "client_release_binding_locked g (client_with c cb) = c"
    and "release_binding_locked g (commit_result g (server_with s b)) = s"
proof -
  have rel: "release_binding_locked g (server_with s b') = s" if "ab_goal_id b' = g" "ab_slot_index b' = i" for b'
    using assms(1) that server_with_binding(1) [of s b']
    by (simp add: release_binding_locked_def pair_free_def) (simp add: server_with_def sm_erase_emplace list_update_same_conv)
  then show "release_binding_locked g (server_with s b) = s" using assms(2) by (simp add: lockstep_def)
  show "release_binding_locked g (commit_result g (server_with s b)) = s"
    using rel [of "b\<lparr>ab_state := RESULT_COMMITTED, ab_cancel_decision_pending := False\<rparr>"] assms
      lockstep_bound(3) [OF assms, of "\<lambda>b. b\<lparr>ab_state := RESULT_COMMITTED, ab_cancel_decision_pending := False\<rparr>"]
    by (simp add: commit_result_def lockstep_def)
  show "client_release_binding_locked g (client_with c cb) = c"
    using assms lockstep_bound(2) [OF assms]
    by (simp add: client_release_binding_locked_def pair_free_def lockstep_def)
      (simp add: client_with_def sm_erase_emplace list_update_same_conv)
qed

section \<open>The exchanges\<close>

definition sent_binding :: "'w pdu_env \<Rightarrow> GoalId \<Rightarrow> nat \<Rightarrow> uint64 \<Rightarrow> 'w world \<Rightarrow> ClientPacketBinding" where
  "sent_binding E g i t w = \<lparr>cb_goal_id = g, cb_slot_index = i, cb_state = AWAITING_GOAL_RESPONSE,
     cb_sent_at_usec = get_microseconds E (transport w), cb_timeout_usec = t, cb_next_feedback_sequence = 0\<rparr>"

lemma sent_lockstep: "lockstep i g (new_binding g i) (sent_binding E g i t w)"
  by (simp add: lockstep_def new_binding_def sent_binding_def)

text \<open>The two endpoints before the Goal.\<close>

definition idle_pair :: "ActionClientEndpointImpl \<Rightarrow> ActionServerEndpointImpl \<Rightarrow> nat \<Rightarrow> GoalId \<Rightarrow> bool" where
  "idle_pair c s i g \<longleftrightarrow> client_endpoint_inv c \<and> sv_initialized s
     \<and> sv_slot_routing s = cl_slot_routing c \<and> sv_slot_owners s = cl_slot_owners c
     \<and> cl_pending_packets c = [] \<and> sv_pending_packets s = [] \<and> sv_pending_events s = []
     \<and> sm_find (sv_packet_bindings s) g = None \<and> first_free (cl_slot_owners c) = Some i \<and> length g = 16"

text \<open>The Goal Request reserves the slot on both sides.\<close>

lemma goal_exchange:
  assumes reg: "registry_ok E" and idle: "idle_pair c s i g"
    and sent: "ClientEndpoint_send_goal_with_result E p g t c w = (SUCCESS, c', w')" "outbox w' = outbox w @ [(k, bytes)]"
  shows "pair_free c s i g \<and> k = sr_request (cl_slot_routing c ! i) \<and> c' = client_with c (sent_binding E g i t w)
    \<and> ServerEndpoint_poll E (ServerEndpoint_on_recv i bytes s) v
        = (goal_event s SE_GOAL_REQUEST g bytes, server_with s (new_binding g i), v)"
proof -
  have inv: "client_endpoint_inv c" "sv_initialized s" and g: "length g = 16" and routing: "sv_slot_routing s = cl_slot_routing c"
    and queue: "sv_pending_packets s = []" "sv_pending_events s = []" and i: "first_free (cl_slot_owners c) = Some i"
    and free: "sm_find (sv_packet_bindings s) g = None" "sv_slot_owners s = cl_slot_owners c"
    using idle by (simp_all add: idle_pair_def)
  obtain j b where r: "ClientEndpoint_reserve E g t c w = (Inr j, c')" "first_free (cl_slot_owners c) = Some j" "j < length (cl_slot_routing c)"
    and out: "outbox w' = outbox w @ [(sr_request (sv_slot_routing s ! j), b)]"
    and h: "\<And>v. ServerEndpoint_handle E \<lparr>pp_slot_index = j, pp_pdu = b\<rparr> s v = handle_goal_request E \<lparr>pp_slot_index = j, pp_pdu = b\<rparr> g s v"
    using goal_request_received [OF reg inv(1) g routing sent(1)] by metis
  have j: "j = i" using r(2) i by simp
  have b: "b = bytes" "k = sr_request (cl_slot_routing c ! i)" using out sent(2) j routing by simp_all
  have none: "cl_slot_owners c ! i = None" using first_free_at [OF i] by (simp add: at_def split: if_splits)
  have v: "is_valid_goal_id g" "sm_find (cl_packet_bindings c) g = None" using send_goal_SUCCESS [OF sent(1)] by metis+
  have "pair_free c s i g" using idle r(3) j none v inv(1) by (simp add: idle_pair_def pair_free_def client_endpoint_inv_def)
  moreover have "ServerEndpoint_poll E (ServerEndpoint_on_recv i bytes s) v = handle_goal_request E \<lparr>pp_slot_index = i, pp_pdu = bytes\<rparr> g s v"
    unfolding server_poll_received [OF inv(2) queue] using h [of v] j b(1) by simp
  moreover have "c' = client_with c (sent_binding E g i t w)"
    using r(1) i v(2) by (auto simp: ClientEndpoint_reserve_def client_with_def sent_binding_def split: if_splits)
  ultimately show ?thesis using b(2) none v free by (simp add: handle_goal_request_def server_with_def new_binding_def Let_def)
qed

text \<open>A Response of the server that the client awaits.\<close>

lemma response_exchange:
  assumes reg: "registry_ok E" and free: "pair_free c s i g" and b: "ab_goal_id b = g" "ab_slot_index b = i"
    and routing: "sv_slot_routing s' = sv_slot_routing s"
    and sent: "send_response_packet E s' b kind code p w = (True, w')" "outbox w' = outbox w @ [(k, bytes)]"
    and h: "handle_response i (response_header g kind code) bytes (client_with c cb) = Some r"
  shows "k = sr_response (cl_slot_routing c ! i) \<and> ClientEndpoint_poll E (ClientEndpoint_on_recv i PK_RESPONSE bytes (client_with c cb)) v = r"
proof -
  have g: "length g = 16" "is_valid_goal_id g" and r: "sv_slot_routing s' = cl_slot_routing c" and i: "i < length (cl_slot_routing c)"
    and queue: "cl_pending_packets c = []" using free routing by (simp_all add: pair_free_def)
  obtain bytes' where "outbox w' = outbox w @ [(sr_response (cl_slot_routing c ! i), bytes')]"
    and "client_reads_response E (cl_slot_routing c ! i) bytes' = Some (response_header g kind code)"
    using response_readable [OF reg _ sent(1)] b g r by auto
  then have "k = sr_response (cl_slot_routing c ! i)" "client_reads_response E (cl_slot_routing c ! i) bytes = Some (response_header g kind code)"
    using sent(2) by simp_all
  then show ?thesis
    using client_poll_received [of "client_with c cb" E i PK_RESPONSE bytes r v] client_handles_response [of i "client_with c cb" E bytes g kind code]
      i g(2) h queue by simp
qed

lemma control_exchange:
  assumes "send_control_response E s b kind d w = (True, w')"
  obtains p where "send_response_packet E s b kind (decision_code d) p w = (True, w')"
  using assms by (auto simp: send_control_response_def split: option.splits)

lemma accept_exchange:
  assumes reg: "registry_ok E" and free: "pair_free c s i g" and lock: "lockstep i g b cb"
    and sent: "ServerEndpoint_accept_goal E g (server_with s b) w = (True, s', w')" "outbox w' = outbox w @ [(k, bytes)]"
  shows "k = sr_response (cl_slot_routing c ! i) \<and> s' = server_with s (b\<lparr>ab_state := GOAL_ACCEPTED\<rparr>)
    \<and> lockstep i g (b\<lparr>ab_state := GOAL_ACCEPTED\<rparr>) (cb\<lparr>cb_state := CB_ACCEPTED\<rparr>)
    \<and> ClientEndpoint_poll E (ClientEndpoint_on_recv i PK_RESPONSE bytes (client_with c cb)) v
        = ((client_goal_event_out c CE_GOAL_RESPONSE g)\<lparr>ce_decision := ACCEPTED, ce_pdu := bytes\<rparr>,
           client_with c (cb\<lparr>cb_state := CB_ACCEPTED\<rparr>))"
proof -
  note bound = lockstep_bound [OF free lock]
  obtain p where send: "send_response_packet E (server_with s b) b RESPONSE_KIND_GOAL (decision_code ACCEPTED) p w = (True, w')"
    and st: "ab_state b = AWAITING_GOAL_DECISION" and s': "s' = server_with s (b\<lparr>ab_state := GOAL_ACCEPTED\<rparr>)"
    by (rule accept_goal_True [OF sent(1)]) (use bound lock in \<open>auto simp: lockstep_def elim!: control_exchange\<close>)
  have "handle_response i (response_header g RESPONSE_KIND_GOAL (decision_code ACCEPTED)) bytes (client_with c cb)
      = Some ((client_goal_event_out c CE_GOAL_RESPONSE g)\<lparr>ce_decision := ACCEPTED, ce_pdu := bytes\<rparr>, client_with c (cb\<lparr>cb_state := CB_ACCEPTED\<rparr>))"
    using lock st bound(2) bound(4) [of "\<lambda>b. b\<lparr>cb_state := CB_ACCEPTED\<rparr>"]
    by (simp add: handle_response_def response_header_def decision_of_code_def lockstep_def)
  from response_exchange [OF reg free _ _ _ send sent(2) this, of v]
  show ?thesis using s' lock st by (simp add: lockstep_def)
qed

lemma feedback_exchange:
  assumes reg: "registry_ok E" and free: "pair_free c s i g" and lock: "lockstep i g b cb"
    and sent: "ServerEndpoint_send_feedback E g p (server_with s b) w = (True, s', w')" "outbox w' = outbox w @ [(k, bytes)]"
  shows "k = sr_feedback (cl_slot_routing c ! i)
    \<and> s' = server_with s (b\<lparr>ab_next_feedback_sequence := ab_next_feedback_sequence b + 1\<rparr>)
    \<and> ab_state b \<noteq> AWAITING_GOAL_DECISION
    \<and> ClientEndpoint_poll E (ClientEndpoint_on_recv i PK_FEEDBACK bytes (client_with c cb)) v
        = ((client_goal_event_out c CE_FEEDBACK g)\<lparr>ce_feedback_sequence := ab_next_feedback_sequence b, ce_pdu := bytes\<rparr>,
           client_with c (cb\<lparr>cb_next_feedback_sequence := ab_next_feedback_sequence b + 1\<rparr>))"
proof -
  let ?n = "ab_next_feedback_sequence b" and ?c = "client_with c cb"
  note bound = lockstep_bound [OF free lock]
  have fr: "length g = 16" "is_valid_goal_id g" "i < length (cl_slot_routing ?c)" "sv_slot_routing s = cl_slot_routing c" "cl_pending_packets ?c = []"
    using free by (simp_all add: pair_free_def)
  have st: "ab_state b \<noteq> AWAITING_GOAL_DECISION"
    using sent(1) bound(1) by (auto simp: ServerEndpoint_send_feedback_def split: if_splits)
  obtain b' r bytes' where w: "sm_find (sv_packet_bindings (server_with s b)) g = Some b'"
    "r = sv_slot_routing (server_with s b) ! ab_slot_index b'" "r \<in> set (sv_slot_routing (server_with s b))"
    "outbox w' = outbox w @ [(sr_feedback r, bytes')]"
    "client_reads_feedback E r bytes' = Some (feedback_header g (ab_next_feedback_sequence b'))"
    "pdu2cpp_ActionFeedbackHeader E bytes' = Some (feedback_header g (ab_next_feedback_sequence b'))"
    "s' = (server_with s b)\<lparr>sv_packet_bindings := sm_update g
       (\<lambda>b. b\<lparr>ab_next_feedback_sequence := ab_next_feedback_sequence b + 1\<rparr>) (sv_packet_bindings (server_with s b))\<rparr>"
    by (rule feedback_send_wire [OF reg fr(1) sent(1)])
  have b': "b' = b" "bytes' = bytes" "k = sr_feedback (cl_slot_routing c ! i)" "client_reads_feedback E (cl_slot_routing ?c ! i) bytes = Some (feedback_header g ?n)"
    using w bound(1) lock fr(4) sent(2) by (simp_all add: lockstep_def)
  have "handle_feedback i (feedback_header g ?n) bytes ?c
      = Some ((client_goal_event_out c CE_FEEDBACK g)\<lparr>ce_feedback_sequence := ?n, ce_pdu := bytes\<rparr>,
          client_with c (cb\<lparr>cb_next_feedback_sequence := cb_next_feedback_sequence cb + 1\<rparr>))"
    using lock st bound(2) bound(4) [of "\<lambda>b. b\<lparr>cb_next_feedback_sequence := cb_next_feedback_sequence b + 1\<rparr>"]
    by (auto simp: handle_feedback_def feedback_header_def lockstep_def)
  with client_poll_received [OF fr(5), of E i PK_FEEDBACK bytes _ v] client_handles_feedback [OF fr(3) b'(4) fr(2)]
  show ?thesis using b'(3) st w(7) lock bound(3) [of "\<lambda>b. b\<lparr>ab_next_feedback_sequence := ab_next_feedback_sequence b + 1\<rparr>"]
    by (simp add: lockstep_def)
qed

text \<open>The Result frees the slot and the bindings of both sides.\<close>

lemma result_exchange:
  assumes reg: "registry_ok E" and free: "pair_free c s i g" and lock: "lockstep i g b cb"
    and sent: "ServerEndpoint_complete E g status p (server_with s b) w = (SENT, s', w')" "outbox w' = outbox w @ [(k, bytes)]"
  shows "k = sr_response (cl_slot_routing c ! i) \<and> s' = s
    \<and> (ab_state b = GOAL_ACCEPTED \<and> (status = SUCCEEDED \<or> status = ABORTED)
       \<or> ab_state b = CANCEL_ACCEPTED \<and> (status = CANCELED \<or> status = ABORTED))
    \<and> ClientEndpoint_poll E (ClientEndpoint_on_recv i PK_RESPONSE bytes (client_with c cb)) v
        = ((client_goal_event_out c CE_RESULT g)\<lparr>ce_terminal_status := status, ce_pdu := bytes\<rparr>, c)"
proof -
  let ?b = "b\<lparr>ab_state := RESULT_COMMITTED, ab_cancel_decision_pending := False\<rparr>" and ?s = "commit_result g (server_with s b)"
  note bound = lockstep_bound [OF free lock]
  obtain b' n where w: "sm_find (sv_packet_bindings (server_with s b)) g = Some b'"
    "validate_terminal_packet_locked E (server_with s b) b' status p = Some n"
    "send_response_packet E ?s (b'\<lparr>ab_state := RESULT_COMMITTED, ab_cancel_decision_pending := False\<rparr>) RESPONSE_KIND_RESULT
       (terminal_code status) p w = (SENT = SENT, w')"
    "s' = (if SENT = SENT then release_binding_locked g ?s else ?s)"
    by (rule complete_committed [OF sent(1)]) simp_all
  have b': "b' = b" using w(1) bound(1) by simp
  have send: "send_response_packet E ?s ?b RESPONSE_KIND_RESULT (terminal_code status) p w = (True, w')" using w(3) b' by simp
  have st: "ab_state b = GOAL_ACCEPTED \<and> (status = SUCCEEDED \<or> status = ABORTED) \<or> ab_state b = CANCEL_ACCEPTED \<and> (status = CANCELED \<or> status = ABORTED)"
    using w(2) b' by (auto simp: validate_terminal_packet_locked_def split: if_splits)
  have "handle_response i (response_header g RESPONSE_KIND_RESULT (terminal_code status)) bytes (client_with c cb)
      = Some ((client_goal_event_out c CE_RESULT g)\<lparr>ce_terminal_status := status, ce_pdu := bytes\<rparr>, c)"
    using lock st bound(2) released(2) [OF free lock]
    by (auto simp: handle_response_def response_header_def terminal_of_code_def lockstep_def protocol_constants)
  from response_exchange [OF reg free _ _ _ send sent(2) this, of v]
  show ?thesis using w(4) lock st released(3) [OF free lock] by (simp add: lockstep_def commit_result_def)
qed

text \<open>A Cancel Request, its report, and the decision on it.\<close>

lemma cancel_request_exchange:
  assumes reg: "registry_ok E" and free: "pair_free c s i g" and lock: "lockstep i g b cb"
    and sent: "ClientEndpoint_send_cancel E g (client_with c cb) w = (True, c', w')" "outbox w' = outbox w @ [(k, bytes)]"
  shows "k = sr_request (cl_slot_routing c ! i) \<and> c' = client_with c (cb\<lparr>cb_state := AWAITING_CANCEL_RESPONSE\<rparr>) \<and> ab_state b = GOAL_ACCEPTED
    \<and> ServerEndpoint_poll E (ServerEndpoint_on_recv i bytes (server_with s b)) v
        = (goal_event s SE_CANCEL_REQUEST g bytes, server_with s (b\<lparr>ab_cancel_decision_pending := True\<rparr>), v)"
proof -
  note bound = lockstep_bound [OF free lock]
  have fr: "length g = 16" "sv_slot_routing (server_with s b) = cl_slot_routing (client_with c cb)" "sv_initialized (server_with s b)"
      "sv_pending_packets (server_with s b) = []" "sv_pending_events (server_with s b) = []"
    using free by (simp_all add: pair_free_def)
  obtain cb' bytes' where r: "sm_find (cl_packet_bindings (client_with c cb)) g = Some cb'" "cb_state cb' = CB_ACCEPTED"
    "c' = (client_with c cb)\<lparr>cl_packet_bindings := sm_update g (\<lambda>b. b\<lparr>cb_state := AWAITING_CANCEL_RESPONSE\<rparr>) (cl_packet_bindings (client_with c cb))\<rparr>"
    "outbox w' = outbox w @ [(sr_request (sv_slot_routing (server_with s b) ! cb_slot_index cb'), bytes')]"
    "\<And>v. ServerEndpoint_handle E \<lparr>pp_slot_index = cb_slot_index cb', pp_pdu = bytes'\<rparr> (server_with s b) v =
       (case handle_cancel_request \<lparr>pp_slot_index = cb_slot_index cb', pp_pdu = bytes'\<rparr> g (server_with s b) of (ev, s') \<Rightarrow> (ev, s', v))"
    using cancel_request_received [OF reg fr(1,2) sent(1)] by metis
  have cb': "cb' = cb" "bytes' = bytes" and st: "ab_state b = GOAL_ACCEPTED"
    using r(1,2,4) bound(2) sent(2) lock by (auto simp: lockstep_def)
  have "handle_cancel_request \<lparr>pp_slot_index = i, pp_pdu = bytes\<rparr> g (server_with s b)
      = (goal_event s SE_CANCEL_REQUEST g bytes, server_with s (b\<lparr>ab_cancel_decision_pending := True\<rparr>))"
    using lock st bound(1) bound(3) [of "\<lambda>b. b\<lparr>ab_cancel_decision_pending := True\<rparr>"] by (simp add: handle_cancel_request_def lockstep_def)
  moreover have "c' = client_with c (cb\<lparr>cb_state := AWAITING_CANCEL_RESPONSE\<rparr>)"
    using r(3) lock bound(4) [of "\<lambda>b. b\<lparr>cb_state := AWAITING_CANCEL_RESPONSE\<rparr>"] by (simp add: lockstep_def)
  ultimately show ?thesis
    using r(4,5) cb' st sent(2) lock fr(2) server_poll_received [OF fr(3,4,5), of E i bytes v] by (simp add: lockstep_def)
qed

text \<open>The decision on a Cancel: the server accepts or rejects, both bindings follow.\<close>

definition decide_cancel ::
    "'w pdu_env \<Rightarrow> Decision \<Rightarrow> GoalId \<Rightarrow> ActionServerEndpointImpl \<Rightarrow> 'w world \<Rightarrow> bool \<times> ActionServerEndpointImpl \<times> 'w world" where
  "decide_cancel E d = (if d = ACCEPTED then ServerEndpoint_accept_cancel E else ServerEndpoint_reject_cancel E)"

lemma decide_cancel_exchange:
  assumes reg: "registry_ok E" and free: "pair_free c s i g" and lock: "lockstep i g b cb" and st: "ab_state b = GOAL_ACCEPTED"
    and d: "d = ACCEPTED \<or> d = REJECTED"
    and sent: "decide_cancel E d g (server_with s (b\<lparr>ab_cancel_decision_pending := True\<rparr>)) w = (True, s', w')" "outbox w' = outbox w @ [(k, bytes)]"
  shows "\<exists>b' cb'. k = sr_response (cl_slot_routing c ! i) \<and> s' = server_with s b' \<and> lockstep i g b' cb'
    \<and> ab_next_feedback_sequence b' = ab_next_feedback_sequence b \<and> ab_state b' = (if d = ACCEPTED then CANCEL_ACCEPTED else GOAL_ACCEPTED)
    \<and> ClientEndpoint_poll E (ClientEndpoint_on_recv i PK_RESPONSE bytes (client_with c (cb\<lparr>cb_state := AWAITING_CANCEL_RESPONSE\<rparr>))) v
        = ((client_goal_event_out c CE_CANCEL_RESPONSE g)\<lparr>ce_decision := d, ce_pdu := bytes\<rparr>, client_with c cb')"
proof -
  let ?b = "b\<lparr>ab_cancel_decision_pending := True\<rparr>" and ?cb = "cb\<lparr>cb_state := AWAITING_CANCEL_RESPONSE\<rparr>"
  let ?b' = "b\<lparr>ab_state := (if d = ACCEPTED then CANCEL_ACCEPTED else GOAL_ACCEPTED), ab_cancel_decision_pending := False\<rparr>"
    and ?cb' = "cb\<lparr>cb_state := (if d = ACCEPTED then CB_CANCELING else CB_ACCEPTED)\<rparr>"
  have ids: "ab_goal_id b = g" "ab_slot_index b = i" "cb_goal_id cb = g" "cb_slot_index cb = i" using lock by (simp_all add: lockstep_def)
  have none: "sm_find (sv_packet_bindings s) g = None" "sm_find (cl_packet_bindings c) g = None" using free by (simp_all add: pair_free_def)
  have fb: "sm_find (sv_packet_bindings (server_with s ?b)) g = Some ?b" and fc: "sm_find (cl_packet_bindings (client_with c ?cb)) g = Some ?cb"
    using server_with_binding(1) [of s ?b] client_with_binding(1) [of c ?cb] none ids by simp_all
  have up: "(server_with s ?b)\<lparr>sv_packet_bindings := sm_update g f (sv_packet_bindings (server_with s ?b))\<rparr> = server_with s ?b'" if "f ?b = ?b'" for f
    using server_with_binding(2) [of s ?b f] none ids that by simp
  obtain p where send: "send_response_packet E (server_with s ?b) ?b RESPONSE_KIND_CANCEL (decision_code d) p w = (True, w')" and s': "s' = server_with s ?b'"
  proof (cases "d = ACCEPTED")
    case True
    then have "ServerEndpoint_accept_cancel E g (server_with s ?b) w = (True, s', w')" using sent(1) by (simp add: decide_cancel_def)
    then show thesis
      by (rule accept_cancel_True)
        (use fb True st up [of "\<lambda>b. b\<lparr>ab_state := CANCEL_ACCEPTED, ab_cancel_decision_pending := False\<rparr>"] in \<open>auto elim!: control_exchange intro: that\<close>)
  next
    case False
    then have "ServerEndpoint_reject_cancel E g (server_with s ?b) w = (True, s', w')" using sent(1) by (simp add: decide_cancel_def)
    then show thesis
      by (rule reject_cancel_True)
        (use fb False d st up [of "\<lambda>b. b\<lparr>ab_cancel_decision_pending := False\<rparr>"] in \<open>auto elim!: control_exchange intro: that\<close>)
  qed
  have "handle_response i (response_header g RESPONSE_KIND_CANCEL (decision_code d)) bytes (client_with c ?cb)
      = Some ((client_goal_event_out c CE_CANCEL_RESPONSE g)\<lparr>ce_decision := d, ce_pdu := bytes\<rparr>, client_with c ?cb')"
    using d fc ids none client_with_binding(2) [of c ?cb "\<lambda>b. b\<lparr>cb_state := if d = ACCEPTED then CB_CANCELING else CB_ACCEPTED\<rparr>"]
    by (auto simp: handle_response_def response_header_def decision_of_code_def protocol_constants)
  from response_exchange [OF reg free _ _ _ send sent(2) this, of v] s' ids lock st show ?thesis
    by (intro exI [of _ ?b'] exI [of _ ?cb']) (simp add: lockstep_def)
qed

section \<open>Runs of exchanges\<close>

text \<open>
  What passes while the Goal executes: a packet with the client's report of it, or a Cancel packet with
  the server's report, its decision, the packet of the decision and the client's report.
\<close>

datatype exchanged =
    Feedback_Exchange "PduResolvedKey \<times> pdu_data" ClientEvent
  | Cancel_Exchange "PduResolvedKey \<times> pdu_data" ServerEvent Decision "PduResolvedKey \<times> pdu_data" ClientEvent

inductive exchanges ::
    "'w pdu_env \<Rightarrow> GoalId \<Rightarrow> nat \<Rightarrow> ActionClientEndpointImpl \<Rightarrow> ActionServerEndpointImpl \<Rightarrow> exchanged list
     \<Rightarrow> ActionClientEndpointImpl \<Rightarrow> ActionServerEndpointImpl \<Rightarrow> bool"
  for E g i where
  No_Exchange: "exchanges E g i c s [] c s"
| One_Feedback: "\<lbrakk>ServerEndpoint_send_feedback E g p s w = (True, s1, w'); outbox w' = outbox w @ [m];
     ClientEndpoint_poll E (ClientEndpoint_on_recv i PK_FEEDBACK (snd m) c) v = (ev, c1);
     exchanges E g i c1 s1 l c2 s2\<rbrakk> \<Longrightarrow> exchanges E g i c s (Feedback_Exchange m ev # l) c2 s2"
| One_Cancel: "\<lbrakk>ClientEndpoint_send_cancel E g c u = (True, c1, u'); outbox u' = outbox u @ [m];
     ServerEndpoint_poll E (ServerEndpoint_on_recv i (snd m) s) w = (sev, s1, w1);
     d = ACCEPTED \<or> d = REJECTED; decide_cancel E d g s1 w1 = (True, s2, w2); outbox w2 = outbox w1 @ [m'];
     ClientEndpoint_poll E (ClientEndpoint_on_recv i PK_RESPONSE (snd m') c1) v = (ev, c2);
     exchanges E g i c2 s2 l c3 s3\<rbrakk> \<Longrightarrow> exchanges E g i c s (Cancel_Exchange m sev d m' ev # l) c3 s3"

text \<open>The exchanges that the protocol wants: \<open>n\<close> is the number of the next Feedback.\<close>

fun agrees :: "ActionClientEndpointImpl \<Rightarrow> ActionServerEndpointImpl \<Rightarrow> SlotRouting \<Rightarrow> GoalId \<Rightarrow> uint32 \<Rightarrow> exchanged list \<Rightarrow> bool" where
  "agrees c s r g n [] = True"
| "agrees c s r g n (Feedback_Exchange (k, bytes) ev # l) =
     (k = sr_feedback r \<and> ev = (client_goal_event_out c CE_FEEDBACK g)\<lparr>ce_feedback_sequence := n, ce_pdu := bytes\<rparr> \<and> agrees c s r g (n + 1) l)"
| "agrees c s r g n (Cancel_Exchange (k, bytes) sev d (k', bytes') ev # l) =
     (k = sr_request r \<and> sev = goal_event s SE_CANCEL_REQUEST g bytes \<and> k' = sr_response r
      \<and> ev = (client_goal_event_out c CE_CANCEL_RESPONSE g)\<lparr>ce_decision := d, ce_pdu := bytes'\<rparr> \<and> agrees c s r g n l)"

fun cancel_accepted :: "exchanged list \<Rightarrow> bool" where
  "cancel_accepted [] = False"
| "cancel_accepted (Feedback_Exchange m ev # l) = cancel_accepted l"
| "cancel_accepted (Cancel_Exchange m sev d m' ev # l) = (d = ACCEPTED \<or> cancel_accepted l)"

lemma exchanges_lockstep:
  assumes "exchanges E g i C S l C' S'" and reg: "registry_ok E" and free: "pair_free c s i g"
    and "C = client_with c cb" "S = server_with s b" "lockstep i g b cb"
  shows "\<exists>b' cb'. C' = client_with c cb' \<and> S' = server_with s b' \<and> lockstep i g b' cb'
    \<and> agrees c s (cl_slot_routing c ! i) g (ab_next_feedback_sequence b) l
    \<and> ab_state b' = (if cancel_accepted l then CANCEL_ACCEPTED else ab_state b)"
  using assms(1,4-)
proof (induction arbitrary: b cb rule: exchanges.induct)
  case (No_Exchange C S)
  then show ?case by auto
next
  case (One_Feedback p S w S1 w' m C v ev C1 l C2 S2)
  obtain k bytes where m: "m = (k, bytes)" by fastforce
  let ?b = "b\<lparr>ab_next_feedback_sequence := ab_next_feedback_sequence b + 1\<rparr>"
    and ?cb = "cb\<lparr>cb_next_feedback_sequence := ab_next_feedback_sequence b + 1\<rparr>"
  note x = feedback_exchange [OF reg free One_Feedback.prems(3), of p w S1 w' k bytes v]
  have st: "C1 = client_with c ?cb" "S1 = server_with s ?b" "lockstep i g ?b ?cb"
    and ev: "k = sr_feedback (cl_slot_routing c ! i)"
      "ev = (client_goal_event_out c CE_FEEDBACK g)\<lparr>ce_feedback_sequence := ab_next_feedback_sequence b, ce_pdu := bytes\<rparr>"
    using x One_Feedback.hyps One_Feedback.prems m by (auto simp: lockstep_def)
  from One_Feedback.IH [OF st] obtain b' cb' where "C2 = client_with c cb'" "S2 = server_with s b'" "lockstep i g b' cb'"
    "agrees c s (cl_slot_routing c ! i) g (ab_next_feedback_sequence b + 1) l" "ab_state b' = (if cancel_accepted l then CANCEL_ACCEPTED else ab_state b)"
    by auto
  then show ?case using ev m by (intro exI [of _ b'] exI [of _ cb']) simp
next
  case (One_Cancel C u C1 u' m S w sev S1 w1 d S2 w2 m' v ev C2 l C3 S3)
  obtain k bytes k' bytes' where m: "m = (k, bytes)" "m' = (k', bytes')" by fastforce
  note x = cancel_request_exchange [OF reg free One_Cancel.prems(3), of u C1 u' k bytes w]
  have req: "k = sr_request (cl_slot_routing c ! i)" "C1 = client_with c (cb\<lparr>cb_state := AWAITING_CANCEL_RESPONSE\<rparr>)" "ab_state b = GOAL_ACCEPTED"
      "sev = goal_event s SE_CANCEL_REQUEST g bytes" "S1 = server_with s (b\<lparr>ab_cancel_decision_pending := True\<rparr>)"
    using x One_Cancel.hyps(1-3) One_Cancel.prems(1,2) m(1) by auto
  obtain b1 cb1 where d: "k' = sr_response (cl_slot_routing c ! i)" "S2 = server_with s b1" "lockstep i g b1 cb1"
      "ab_next_feedback_sequence b1 = ab_next_feedback_sequence b" "ab_state b1 = (if d = ACCEPTED then CANCEL_ACCEPTED else GOAL_ACCEPTED)"
      "ev = (client_goal_event_out c CE_CANCEL_RESPONSE g)\<lparr>ce_decision := d, ce_pdu := bytes'\<rparr>" "C2 = client_with c cb1"
    using decide_cancel_exchange [OF reg free One_Cancel.prems(3) req(3) One_Cancel.hyps(4), of w1 S2 w2 k' bytes' v]
      One_Cancel.hyps(5-7) req(2,5) m(2) by auto
  from One_Cancel.IH [OF d(7) d(2) d(3)] obtain b' cb' where "C3 = client_with c cb'" "S3 = server_with s b'" "lockstep i g b' cb'"
    "agrees c s (cl_slot_routing c ! i) g (ab_next_feedback_sequence b) l" "ab_state b' = (if cancel_accepted l then CANCEL_ACCEPTED else ab_state b1)"
    unfolding d(4) by auto
  then show ?case using d(1,5,6) req(1,3,4) m by (intro exI [of _ b'] exI [of _ cb']) simp
qed

section \<open>The whole Goal\<close>

text \<open>
  C7 (roundtrip): the life of a Goal. A client and a server endpoint with the same routing, idle
  queues and the same free slots: the client sends a Goal, the server accepts it, then Feedbacks are
  sent and Cancels requested and decided in any order and number, and the server completes the Goal, each successfully
  and each packet received and polled by the other side before the next step. Then each packet is on
  its channel of the Goal's slot, the polls report the Goal Request, the acceptance, the
  Feedbacks numbered from 0, the Cancels with their decisions and the Result with the server's status, all for that Goal and with
  the bytes that were sent; the status is CANCELED or ABORTED when a Cancel was accepted and
  SUCCEEDED or ABORTED when none was; and both endpoints end in exactly the state in which they began.
\<close>

theorem action_goal_roundtrip:
  assumes reg: "registry_ok E" and idle: "idle_pair c s i g"
    and goal: "ClientEndpoint_send_goal_with_result E p1 g t c wc = (SUCCESS, c1, wc1)" "outbox wc1 = outbox wc @ [(k1, bytes1)]"
      "ServerEndpoint_poll E (ServerEndpoint_on_recv i bytes1 s) ws = (ev1, s1, ws1)"
    and accept: "ServerEndpoint_accept_goal E g s1 ws1 = (True, s2, ws2)" "outbox ws2 = outbox ws1 @ [(k2, bytes2)]"
      "ClientEndpoint_poll E (ClientEndpoint_on_recv i PK_RESPONSE bytes2 c1) wc2 = (ev2, c2)"
    and run: "exchanges E g i c2 s2 l c3 s3"
    and result: "ServerEndpoint_complete E g status p4 s3 ws3 = (SENT, s4, ws4)" "outbox ws4 = outbox ws3 @ [(k4, bytes4)]"
      "ClientEndpoint_poll E (ClientEndpoint_on_recv i PK_RESPONSE bytes4 c3) wc4 = (ev4, c4)"
  shows "k1 = sr_request (cl_slot_routing c ! i) \<and> ev1 = goal_event s SE_GOAL_REQUEST g bytes1
    \<and> k2 = sr_response (cl_slot_routing c ! i)
    \<and> ev2 = (client_goal_event_out c CE_GOAL_RESPONSE g)\<lparr>ce_decision := ACCEPTED, ce_pdu := bytes2\<rparr>
    \<and> agrees c s (cl_slot_routing c ! i) g 0 l
    \<and> k4 = sr_response (cl_slot_routing c ! i)
    \<and> ev4 = (client_goal_event_out c CE_RESULT g)\<lparr>ce_terminal_status := status, ce_pdu := bytes4\<rparr>
    \<and> (status = ABORTED \<or> status = (if cancel_accepted l then CANCELED else SUCCEEDED))
    \<and> c4 = c \<and> s4 = s"
proof -
  let ?cb = "(sent_binding E g i t wc)\<lparr>cb_state := CB_ACCEPTED\<rparr>" and ?b = "(new_binding g i)\<lparr>ab_state := GOAL_ACCEPTED\<rparr>"
  from goal_exchange [OF reg idle goal(1,2), of ws] goal(3)
  have free: "pair_free c s i g" and x1: "k1 = sr_request (cl_slot_routing c ! i)" "ev1 = goal_event s SE_GOAL_REQUEST g bytes1"
    and st1: "c1 = client_with c (sent_binding E g i t wc)" "s1 = server_with s (new_binding g i)" by auto
  from accept_exchange [OF reg free sent_lockstep accept(1,2) [unfolded st1], of E t wc wc2] accept(3)
  have x2: "k2 = sr_response (cl_slot_routing c ! i)" "ev2 = (client_goal_event_out c CE_GOAL_RESPONSE g)\<lparr>ce_decision := ACCEPTED, ce_pdu := bytes2\<rparr>"
    and st2: "c2 = client_with c ?cb" "s2 = server_with s ?b" "lockstep i g ?b ?cb" by (auto simp: st1)
  have n: "ab_next_feedback_sequence ?b = 0" "ab_state ?b = GOAL_ACCEPTED" by (simp_all add: new_binding_def)
  obtain b cb where st3: "c3 = client_with c cb" "s3 = server_with s b" "lockstep i g b cb"
    and x3: "agrees c s (cl_slot_routing c ! i) g 0 l" "ab_state b = (if cancel_accepted l then CANCEL_ACCEPTED else GOAL_ACCEPTED)"
    using exchanges_lockstep [OF run reg free st2] unfolding n by blast
  from result_exchange [OF reg free st3(3) result(1,2) [unfolded st3], of wc4] result(3) x1 x2 x3
  show ?thesis by (auto simp: st3 split: if_splits)
qed

end
