(* ===== verification/Action_System.thy ===== *)
theory Action_System
  imports Client_Endpoint_Properties
begin

text \<open>
  A client endpoint and a server endpoint of one Action, joined by a network: the endpoints run
  the code's operations in any order, and every packet that one side sent may reach the other
  side late, never, more than once and out of order, at whoever subscribed to its channel.

  The trace records, in their order, what the applications and the endpoints did and what the
  polls reported. The theorem is that every entry of the trace has its cause before it: nothing is
  reported that the other side did not do.
\<close>

section \<open>Traces\<close>

datatype act =
    Sent_Goal GoalId
  | Sent_Cancel GoalId
  | Client_Saw ClientEvent
  | Server_Saw ServerEvent
  | Goal_Decided GoalId Decision
  | Goal_Refused GoalId
  | Cancel_Decided GoalId Decision
  | Sent_Feedback GoalId uint32
  | Completed GoalId TerminalStatus

definition server_saw :: "act list \<Rightarrow> ServerEventType \<Rightarrow> GoalId \<Rightarrow> bool" where
  "server_saw T type g \<longleftrightarrow> (\<exists>ev. Server_Saw ev \<in> set T \<and> se_type ev = type \<and> server_goal_id (se_goal ev) = g)"

definition client_saw_accepted :: "act list \<Rightarrow> GoalId \<Rightarrow> bool" where
  "client_saw_accepted T g \<longleftrightarrow> (\<exists>ev. Client_Saw ev \<in> set T \<and> ce_type ev = CE_GOAL_RESPONSE
     \<and> ce_decision ev = ACCEPTED \<and> client_goal_id (ce_goal ev) = g)"

text \<open>What must have happened before the client reports an event, and before the server does.\<close>

definition client_event_caused :: "act list \<Rightarrow> ClientEvent \<Rightarrow> bool" where
  "client_event_caused T ev \<longleftrightarrow>
     (let g = client_goal_id (ce_goal ev) in
      case ce_type ev of
        CE_NONE \<Rightarrow> True
      | CE_GOAL_RESPONSE \<Rightarrow> Sent_Goal g \<in> set T
          \<and> (ce_decision ev = ACCEPTED \<and> Goal_Decided g ACCEPTED \<in> set T
             \<or> ce_decision ev = REJECTED \<and> (Goal_Decided g REJECTED \<in> set T \<or> Goal_Refused g \<in> set T))
      | CE_CANCEL_RESPONSE \<Rightarrow> client_saw_accepted T g \<and> Cancel_Decided g (ce_decision ev) \<in> set T
      | CE_FEEDBACK \<Rightarrow> client_saw_accepted T g \<and> Sent_Feedback g (ce_feedback_sequence ev) \<in> set T
      | CE_RESULT \<Rightarrow> client_saw_accepted T g \<and> Completed g (ce_terminal_status ev) \<in> set T
      | CE_TIMEOUT \<Rightarrow> Sent_Goal g \<in> set T
      | CE_ERROR \<Rightarrow> False)"

definition server_event_caused :: "act list \<Rightarrow> ServerEvent \<Rightarrow> bool" where
  "server_event_caused T ev \<longleftrightarrow>
     (let g = server_goal_id (se_goal ev) in
      case se_type ev of
        SE_NONE \<Rightarrow> True
      | SE_GOAL_REQUEST \<Rightarrow> Sent_Goal g \<in> set T
      | SE_CANCEL_REQUEST \<Rightarrow> Goal_Decided g ACCEPTED \<in> set T \<and> Sent_Cancel g \<in> set T
      | SE_RUNTIME_CANCEL_REQUEST \<Rightarrow> False
      | SE_ERROR \<Rightarrow> False)"

fun caused :: "act list \<Rightarrow> act \<Rightarrow> bool" where
  "caused T (Sent_Goal g) = True"
| "caused T (Sent_Cancel g) = client_saw_accepted T g"
| "caused T (Client_Saw ev) = client_event_caused T ev"
| "caused T (Server_Saw ev) = server_event_caused T ev"
| "caused T (Goal_Decided g d) = server_saw T SE_GOAL_REQUEST g"
| "caused T (Goal_Refused g) = (Sent_Goal g \<in> set T)"
| "caused T (Cancel_Decided g d) = server_saw T SE_CANCEL_REQUEST g"
| "caused T (Sent_Feedback g n) = (Goal_Decided g ACCEPTED \<in> set T)"
| "caused T (Completed g s) = (Goal_Decided g ACCEPTED \<in> set T)"

definition all_caused :: "act list \<Rightarrow> bool" where
  "all_caused T \<longleftrightarrow> (\<forall>T1 a T2. T = T1 @ a # T2 \<longrightarrow> caused T1 a)"

lemma all_caused_Nil [simp]: "all_caused []"
  by (simp add: all_caused_def)

lemma all_caused_snoc [simp]: "all_caused (T @ [a]) \<longleftrightarrow> all_caused T \<and> caused T a"
proof
  assume L: "all_caused (T @ [a])"
  then have "caused T1 b" if "T = T1 @ b # T2" for T1 b T2
    using that unfolding all_caused_def by (metis append.assoc append_Cons)
  moreover have "caused T a" using L unfolding all_caused_def by blast
  ultimately show "all_caused T \<and> caused T a" by (simp add: all_caused_def)
next
  assume R: "all_caused T \<and> caused T a"
  show "all_caused (T @ [a])"
    unfolding all_caused_def
  proof (intro allI impI)
    fix T1 b T2 assume "T @ [a] = T1 @ b # T2"
    then show "caused T1 b"
      using R by (cases T2 rule: rev_cases) (simp_all add: all_caused_def)
  qed
qed

section \<open>The system\<close>

text \<open>The endpoint answers a Goal Request that it cannot take by itself: the Goals of such answers.\<close>

definition refusals :: "'w pdu_env \<Rightarrow> (PduResolvedKey \<times> pdu_data) list \<Rightarrow> act list" where
  "refusals E packets = List.map_filter
     (\<lambda>(k, bytes). map_option (\<lambda>h. Goal_Refused (rsh_goal_id h)) (decode_response_header E bytes)) packets"

inductive action_system ::
    "'w pdu_env \<Rightarrow> 'j json_ops \<Rightarrow> 'j \<Rightarrow> string
     \<Rightarrow> ActionClientEndpointImpl \<Rightarrow> 'w world \<Rightarrow> ActionServerEndpointImpl \<Rightarrow> 'w world \<Rightarrow> act list \<Rightarrow> bool"
  for E J config name where
  Start: "\<lbrakk>ClientEndpoint_initialize E J config (new_ActionClientEndpointImpl name True True) = (True, c);
     ServerEndpoint_initialize E J config (new_ActionServerEndpointImpl name True True) = (True, s);
     outbox wc = []; outbox ws = []\<rbrakk> \<Longrightarrow> action_system E J config name c wc s ws []"
| Environment: "\<lbrakk>action_system E J config name c wc s ws T; outbox wc' = outbox wc; outbox ws' = outbox ws\<rbrakk>
     \<Longrightarrow> action_system E J config name c wc' s ws' T"
| Client_Send_Goal: "\<lbrakk>action_system E J config name c wc s ws T; length g = 16;
     ClientEndpoint_send_goal_with_result E p g t c wc = (r, c', wc')\<rbrakk>
     \<Longrightarrow> action_system E J config name c' wc' s ws (T @ (if r = SUCCESS then [Sent_Goal g] else []))"
| Client_Send_Cancel: "\<lbrakk>action_system E J config name c wc s ws T; length g = 16;
     ClientEndpoint_send_cancel E g c wc = (r, c', wc')\<rbrakk>
     \<Longrightarrow> action_system E J config name c' wc' s ws (T @ (if r then [Sent_Cancel g] else []))"
| Client_Receive: "\<lbrakk>action_system E J config name c wc s ws T; (k, bytes) \<in> set (outbox ws); (k, i, kind) \<in> set (cl_subscriptions c)\<rbrakk>
     \<Longrightarrow> action_system E J config name (ClientEndpoint_on_recv i kind bytes c) wc s ws T"
| Client_Poll: "\<lbrakk>action_system E J config name c wc s ws T; ClientEndpoint_poll E c wc = (ev, c')\<rbrakk>
     \<Longrightarrow> action_system E J config name c' wc s ws (T @ [Client_Saw ev])"
| Client_Clear: "action_system E J config name c wc s ws T
     \<Longrightarrow> action_system E J config name (ClientEndpoint_clear_pending_events c) wc s ws T"
| Client_Reset: "action_system E J config name c wc s ws T
     \<Longrightarrow> action_system E J config name (ClientEndpoint_reset_contexts c) wc s ws T"
| Server_Receive: "\<lbrakk>action_system E J config name c wc s ws T; (k, bytes) \<in> set (outbox wc); (k, i) \<in> set (sv_subscriptions s)\<rbrakk>
     \<Longrightarrow> action_system E J config name c wc (ServerEndpoint_on_recv i bytes s) ws T"
| Server_Poll: "\<lbrakk>action_system E J config name c wc s ws T; ServerEndpoint_poll E s ws = (ev, s', ws')\<rbrakk>
     \<Longrightarrow> action_system E J config name c wc s' ws' (T @ [Server_Saw ev] @ refusals E (drop (length (outbox ws)) (outbox ws')))"
| Server_Accept_Goal: "\<lbrakk>action_system E J config name c wc s ws T; ServerEndpoint_accept_goal E g s ws = (r, s', ws')\<rbrakk>
     \<Longrightarrow> action_system E J config name c wc s' ws' (T @ (if r then [Goal_Decided g ACCEPTED] else []))"
| Server_Reject_Goal: "\<lbrakk>action_system E J config name c wc s ws T; ServerEndpoint_reject_goal E g s ws = (r, s', ws')\<rbrakk>
     \<Longrightarrow> action_system E J config name c wc s' ws' (T @ (if r then [Goal_Decided g REJECTED] else []))"
| Server_Accept_Cancel: "\<lbrakk>action_system E J config name c wc s ws T; ServerEndpoint_accept_cancel E g s ws = (r, s', ws')\<rbrakk>
     \<Longrightarrow> action_system E J config name c wc s' ws' (T @ (if r then [Cancel_Decided g ACCEPTED] else []))"
| Server_Reject_Cancel: "\<lbrakk>action_system E J config name c wc s ws T; ServerEndpoint_reject_cancel E g s ws = (r, s', ws')\<rbrakk>
     \<Longrightarrow> action_system E J config name c wc s' ws' (T @ (if r then [Cancel_Decided g REJECTED] else []))"
| Server_Send_Feedback: "\<lbrakk>action_system E J config name c wc s ws T; sm_find (sv_packet_bindings s) g = Some b;
     ServerEndpoint_send_feedback E g p s ws = (r, s', ws')\<rbrakk>
     \<Longrightarrow> action_system E J config name c wc s' ws' (T @ (if r then [Sent_Feedback g (ab_next_feedback_sequence b)] else []))"
| Server_Complete: "\<lbrakk>action_system E J config name c wc s ws T; ServerEndpoint_complete E g status p s ws = (r, s', ws')\<rbrakk>
     \<Longrightarrow> action_system E J config name c wc s' ws' (T @ (if r = SENT then [Completed g status] else []))"
| Server_Local: "\<lbrakk>action_system E J config name c wc s ws T;
     op \<in> {Accept_Cancel_Locally g, Complete_Locally g status p, Discard_Pending_Goal g, Clear_Pending_Events, Reset_Contexts}\<rbrakk>
     \<Longrightarrow> action_system E J config name c wc (fst (server_exec E (s, ws) op)) ws T"

section \<open>What the packets say\<close>

definition request_said :: "'w pdu_env \<Rightarrow> act list \<Rightarrow> pdu_data \<Rightarrow> bool" where
  "request_said E T bytes \<longleftrightarrow> (\<exists>g kind. decode_request_header E bytes = Some (request_header g kind) \<and> length g = 16
     \<and> (kind = REQUEST_KIND_GOAL \<and> Sent_Goal g \<in> set T \<or> kind = REQUEST_KIND_CANCEL \<and> Sent_Cancel g \<in> set T))"

definition response_meant :: "act list \<Rightarrow> GoalId \<Rightarrow> byte \<Rightarrow> byte \<Rightarrow> bool" where
  "response_meant T g kind code \<longleftrightarrow>
     kind = RESPONSE_KIND_GOAL
       \<and> (code = decision_code ACCEPTED \<and> Goal_Decided g ACCEPTED \<in> set T
          \<or> code = decision_code REJECTED \<and> (Goal_Decided g REJECTED \<in> set T \<or> Goal_Refused g \<in> set T))
   \<or> kind = RESPONSE_KIND_CANCEL \<and> (\<exists>d. code = decision_code d \<and> Cancel_Decided g d \<in> set T)
   \<or> kind = RESPONSE_KIND_RESULT \<and> (\<exists>status. code = terminal_code status \<and> Completed g status \<in> set T)"

definition response_said :: "'w pdu_env \<Rightarrow> act list \<Rightarrow> pdu_data \<Rightarrow> bool" where
  "response_said E T bytes \<longleftrightarrow>
     (\<exists>g kind code. decode_response_header E bytes = Some (response_header g kind code) \<and> response_meant T g kind code)"

definition feedback_said :: "'w pdu_env \<Rightarrow> act list \<Rightarrow> pdu_data \<Rightarrow> bool" where
  "feedback_said E T bytes \<longleftrightarrow>
     (\<exists>g n. decode_feedback_header E bytes = Some (feedback_header g n) \<and> Sent_Feedback g n \<in> set T)"

definition requests_ok :: "'w pdu_env \<Rightarrow> act list \<Rightarrow> 'w world \<Rightarrow> bool" where
  "requests_ok E T w \<longleftrightarrow> (\<forall>m\<in>set (outbox w). request_said E T (snd m))"

definition replies_ok :: "'w pdu_env \<Rightarrow> SlotRouting list \<Rightarrow> act list \<Rightarrow> 'w world \<Rightarrow> bool" where
  "replies_ok E rs T w \<longleftrightarrow> (\<forall>m\<in>set (outbox w).
     fst m \<in> sr_response ` set rs \<and> response_said E T (snd m) \<or> fst m \<in> sr_feedback ` set rs \<and> feedback_said E T (snd m))"

definition client_packet_ok :: "'w pdu_env \<Rightarrow> act list \<Rightarrow> ClientPendingPacket \<Rightarrow> bool" where
  "client_packet_ok E T p \<longleftrightarrow>
     (case cp_kind p of PK_RESPONSE \<Rightarrow> response_said E T (cp_pdu p) | PK_FEEDBACK \<Rightarrow> feedback_said E T (cp_pdu p))"

section \<open>What the bindings know\<close>

definition goal_known :: "act list \<Rightarrow> GoalId \<Rightarrow> ClientBindingState \<Rightarrow> bool" where
  "goal_known T g state \<longleftrightarrow> Sent_Goal g \<in> set T
     \<and> (state = AWAITING_GOAL_RESPONSE \<or> state = GOAL_RESPONSE_TIMED_OUT \<or> client_saw_accepted T g)"

definition client_knows :: "act list \<Rightarrow> ActionClientEndpointImpl \<Rightarrow> bool" where
  "client_knows T c \<longleftrightarrow> (\<forall>g b. sm_find (cl_packet_bindings c) g = Some b \<longrightarrow> goal_known T g (cb_state b))"

definition server_knows :: "act list \<Rightarrow> ActionServerEndpointImpl \<Rightarrow> bool" where
  "server_knows T s \<longleftrightarrow> (\<forall>g b. sm_find (sv_packet_bindings s) g = Some b \<longrightarrow>
     length g = 16 \<and> server_saw T SE_GOAL_REQUEST g
     \<and> (ab_state b = AWAITING_GOAL_DECISION \<or> Goal_Decided g ACCEPTED \<in> set T)
     \<and> (ab_cancel_decision_pending b \<longrightarrow> server_saw T SE_CANCEL_REQUEST g))"

definition client_side_ok :: "'w pdu_env \<Rightarrow> act list \<Rightarrow> ActionClientEndpointImpl \<Rightarrow> bool" where
  "client_side_ok E T c \<longleftrightarrow> client_endpoint_inv c \<and> client_knows T c \<and> (\<forall>p\<in>set (cl_pending_packets c). client_packet_ok E T p)"

definition server_side_ok :: "'w pdu_env \<Rightarrow> act list \<Rightarrow> ActionServerEndpointImpl \<Rightarrow> bool" where
  "server_side_ok E T s \<longleftrightarrow> server_endpoint_inv s \<and> sv_initialized s \<and> sv_pending_events s = [] \<and> server_knows T s
     \<and> (\<forall>p\<in>set (sv_pending_packets s). request_said E T (pp_pdu p))"

definition joined :: "ActionClientEndpointImpl \<Rightarrow> ActionServerEndpointImpl \<Rightarrow> bool" where
  "joined c s \<longleftrightarrow> cl_slot_routing c = sv_slot_routing s \<and> keys_disjoint (sv_slot_routing s)
     \<and> (\<forall>k i kind. (k, i, kind) \<in> set (cl_subscriptions c) \<longrightarrow>
          k \<in> (case kind of PK_RESPONSE \<Rightarrow> sr_response | PK_FEEDBACK \<Rightarrow> sr_feedback) ` set (sv_slot_routing s))"

text \<open>A longer trace justifies as much.\<close>

lemma said_mono:
  assumes "set T \<subseteq> set T'"
  shows "server_saw T ty g \<Longrightarrow> server_saw T' ty g" "client_saw_accepted T g \<Longrightarrow> client_saw_accepted T' g"
    "request_said E T bytes \<Longrightarrow> request_said E T' bytes" "response_said E T bytes \<Longrightarrow> response_said E T' bytes"
    "feedback_said E T bytes \<Longrightarrow> feedback_said E T' bytes"
  using assms by (auto simp: server_saw_def client_saw_accepted_def request_said_def response_said_def response_meant_def feedback_said_def) blast+

lemma ok_mono:
  assumes "set T \<subseteq> set T'"
  shows "requests_ok E T w \<Longrightarrow> requests_ok E T' w" "replies_ok E rs T w \<Longrightarrow> replies_ok E rs T' w"
    "client_side_ok E T c \<Longrightarrow> client_side_ok E T' c" "server_side_ok E T s \<Longrightarrow> server_side_ok E T' s"
proof -
  note m = said_mono [OF assms]
  show "requests_ok E T w \<Longrightarrow> requests_ok E T' w" using m(3) by (auto simp: requests_ok_def)
  show "replies_ok E rs T w \<Longrightarrow> replies_ok E rs T' w" using m(4,5) by (fastforce simp: replies_ok_def)
  show "client_side_ok E T c \<Longrightarrow> client_side_ok E T' c"
    using m(2,4,5) assms by (fastforce simp: client_side_ok_def client_knows_def goal_known_def client_packet_ok_def split: PendingPacketKind.splits)
  show "server_side_ok E T s \<Longrightarrow> server_side_ok E T' s"
    using m(1,3) assms by (fastforce simp: server_side_ok_def server_knows_def)
qed

end
