(* ===== verification/Action_System_Server.thy ===== *)
theory Action_System_Server
  imports Action_System
begin

text \<open>
  The server side of the system: every operation of the server endpoint keeps what its bindings
  and its queue know of the trace, and sends only packets that say what the operation did.
\<close>

section \<open>Server operations\<close>

lemma knows_update:
  assumes "server_knows T s" and "set T \<subseteq> set T'"
    and "\<And>b. sm_find (sv_packet_bindings s) g = Some b \<Longrightarrow>
      (ab_state (f b) = AWAITING_GOAL_DECISION \<or> Goal_Decided g ACCEPTED \<in> set T')
      \<and> (ab_cancel_decision_pending (f b) \<longrightarrow> server_saw T' SE_CANCEL_REQUEST g)"
  shows "server_knows T' (s\<lparr>sv_packet_bindings := sm_update g f (sv_packet_bindings s)\<rparr>)"
  using assms said_mono(1) [OF assms(2)] unfolding server_knows_def
  by (auto split: if_splits)

lemma knows_release: "server_knows T s \<Longrightarrow> server_knows T (release_binding_locked g s)"
  by (simp add: server_knows_def find_release)

lemma server_exec_queues:
  assumes "\<And>i d. op \<noteq> Recv i d" and "sv_pending_events (fst c) = []"
  shows "sv_pending_events (fst (server_exec E c op)) = []"
    and "set (sv_pending_packets (fst (server_exec E c op))) \<subseteq> set (sv_pending_packets (fst c))"
proof -
  have rel: "sv_pending_events (release_binding_locked g st) = sv_pending_events st
      \<and> sv_pending_packets (release_binding_locked g st) = sv_pending_packets st" for g st
    by (simp add: release_binding_locked_def Let_def split: option.splits)
  have can: "sv_pending_events (snd (handle_cancel_request p g st)) = sv_pending_events st
      \<and> sv_pending_packets (snd (handle_cancel_request p g st)) = sv_pending_packets st" for p g st
    by (simp add: handle_cancel_request_def split: option.splits)
  obtain st w where c: "c = (st, w)" by (cases c)
  have cc: "fst (snd (case handle_cancel_request p g st of (ev, st') \<Rightarrow> (ev, st', w))) = snd (handle_cancel_request p g st)" for p g
    by (simp split: prod.splits)
  have "sv_pending_events (fst (server_exec E c op)) = []
    \<and> set (sv_pending_packets (fst (server_exec E c op))) \<subseteq> set (sv_pending_packets (fst c))"
    using assms c rel can cc
    by (cases op) (auto simp: commit_result_def Let_def ServerEndpoint_take_def ServerEndpoint_handle_def handle_goal_request_def
        ServerEndpoint_accept_goal_def ServerEndpoint_reject_goal_def ServerEndpoint_accept_cancel_def
        ServerEndpoint_reject_cancel_def ServerEndpoint_accept_cancel_locally_def
        ServerEndpoint_send_feedback_def ServerEndpoint_complete_def ServerEndpoint_complete_locally_def
        ServerEndpoint_discard_pending_goal_def ServerEndpoint_clear_pending_events_def
        ServerEndpoint_reset_contexts_def split: option.splits prod.splits bool.splits list.splits)
  then show "sv_pending_events (fst (server_exec E c op)) = []"
    and "set (sv_pending_packets (fst (server_exec E c op))) \<subseteq> set (sv_pending_packets (fst c))" by simp_all
qed

text \<open>After an operation only the knowledge of the bindings remains to be shown.\<close>

lemma server_side_step:
  assumes "server_side_ok E T s" and "set T \<subseteq> set T'" and "\<And>i d. op \<noteq> Recv i d"
    and "server_knows T' (fst (server_exec E (s, w) op))"
  shows "server_side_ok E T' (fst (server_exec E (s, w) op))"
proof -
  have old: "server_endpoint_inv s" "sv_initialized s" "sv_pending_events (fst (s, w)) = []"
    "\<forall>p\<in>set (sv_pending_packets s). request_said E T (pp_pdu p)"
    using assms(1) by (simp_all add: server_side_ok_def)
  have "server_endpoint_inv (fst (server_exec E (s, w) op))" by (rule server_exec_inv) (simp add: old)
  moreover have "sv_initialized (fst (server_exec E (s, w) op))" using old(2) server_exec_static [of E "(s, w)" op] by simp
  moreover have "\<forall>p\<in>set (sv_pending_packets (fst (server_exec E (s, w) op))). request_said E T' (pp_pdu p)"
    using server_exec_queues(2) [OF assms(3) old(3), of E] old(4) said_mono(3) [OF assms(2)] by auto
  ultimately show ?thesis using server_exec_queues(1) [OF assms(3) old(3)] assms(4) by (simp add: server_side_ok_def)
qed

lemma reply_appended:
  assumes "replies_ok E rs T w" and "set T \<subseteq> set T'" and "outbox w' = outbox w @ [(k, bytes)]"
    and "k \<in> sr_response ` set rs \<and> response_said E T' bytes \<or> k \<in> sr_feedback ` set rs \<and> feedback_said E T' bytes"
  shows "replies_ok E rs T' w'"
  using ok_mono(2) [OF assms(2,1)] assms(3,4) by (auto simp: replies_ok_def)

lemma reply_none: "replies_ok E rs T w \<Longrightarrow> outbox w' = outbox w \<Longrightarrow> replies_ok E rs T w'"
  by (simp add: replies_ok_def)

lemma response_sent:
  assumes "registry_ok E" and "replies_ok E (sv_slot_routing st) T w" and "set T \<subseteq> set T'" and "length (ab_goal_id b) = 16"
    and "send_response_packet E st b kind code p w = (True, w')" and "response_meant T' (ab_goal_id b) kind code"
  shows "replies_ok E (sv_slot_routing st) T' w'"
proof -
  have "ab_slot_index b < length (sv_slot_routing st)" using send_response_True [OF assms(5)] by blast
  moreover obtain bytes where out: "outbox w' = outbox w @ [(sr_response (sv_slot_routing st ! ab_slot_index b), bytes)]"
    and rd: "client_reads_response E (sv_slot_routing st ! ab_slot_index b) bytes = Some (response_header (ab_goal_id b) kind code)"
    using response_readable [OF assms(1,4,5)] by blast
  moreover have "decode_response_header E bytes = Some (response_header (ab_goal_id b) kind code)"
    using rd by (auto simp: client_reads_response_def decode_response_header_def split: if_splits)
  then have "response_said E T' bytes" using assms(6) by (auto simp: response_said_def)
  ultimately show ?thesis using reply_appended [OF assms(2,3) out] by simp
qed

lemma control_sent:
  assumes "registry_ok E" and "replies_ok E (sv_slot_routing st) T w" and "set T \<subseteq> set T'" and "length (ab_goal_id b) = 16"
    and "send_control_response E st b kind d w = (True, w')" and "response_meant T' (ab_goal_id b) kind (decision_code d)"
  shows "replies_ok E (sv_slot_routing st) T' w'"
  using assms(5) response_sent [OF assms(1-4) _ assms(6)] by (auto simp: send_control_response_def split: option.splits)

definition server_ok :: "'w pdu_env \<Rightarrow> act list \<Rightarrow> ActionServerEndpointImpl \<Rightarrow> 'w world \<Rightarrow> bool" where
  "server_ok E T s w \<longleftrightarrow> server_side_ok E T s \<and> replies_ok E (sv_slot_routing s) T w"

lemma server_ok_binding:
  assumes "server_ok E T s w" and "sm_find (sv_packet_bindings s) g = Some b"
  shows "ab_goal_id b = g" "length g = 16" "server_saw T SE_GOAL_REQUEST g"
    "ab_state b \<noteq> AWAITING_GOAL_DECISION \<Longrightarrow> Goal_Decided g ACCEPTED \<in> set T"
    "ab_cancel_decision_pending b \<Longrightarrow> server_saw T SE_CANCEL_REQUEST g"
proof -
  have "server_endpoint_inv s" "server_knows T s" using assms(1) by (simp_all add: server_ok_def server_side_ok_def)
  then show "ab_goal_id b = g" "length g = 16" "server_saw T SE_GOAL_REQUEST g"
    "ab_state b \<noteq> AWAITING_GOAL_DECISION \<Longrightarrow> Goal_Decided g ACCEPTED \<in> set T"
    "ab_cancel_decision_pending b \<Longrightarrow> server_saw T SE_CANCEL_REQUEST g"
    using assms(2) inv_binding [of s g b] unfolding server_knows_def binding_ok_def by auto
qed

text \<open>An operation that decides something: the packet it sent, then its effect on the bindings.\<close>

lemma server_ok_step:
  assumes "server_ok E T s w" and "\<And>i d. op \<noteq> Recv i d" and "server_exec E (s, w) op = (s', w')"
    and "server_knows (T @ U) s'" and "replies_ok E (sv_slot_routing s) (T @ U) w'"
  shows "server_ok E (T @ U) s' w'"
proof -
  have "server_side_ok E (T @ U) (fst (server_exec E (s, w) op))"
    by (rule server_side_step [of E T, OF _ _ assms(2)]) (use assms in \<open>simp_all add: server_ok_def\<close>)
  then show ?thesis using assms(3,5) server_exec_static [of E "(s, w)" op] by (simp add: server_ok_def)
qed

lemma server_ok_knows: "server_ok E T s w \<Longrightarrow> server_knows (T @ U) s"
  using ok_mono(4) [of T "T @ U" E s] by (auto simp: server_ok_def server_side_ok_def)

lemma saw_append: "server_saw T ty g \<Longrightarrow> server_saw (T @ U) ty g"
  by (auto simp: server_saw_def)

lemma response_meant_intros:
  "Goal_Decided g d \<in> set T \<Longrightarrow> d \<noteq> DECISION_UNSPECIFIED \<Longrightarrow> response_meant T g RESPONSE_KIND_GOAL (decision_code d)"
  "Goal_Refused g \<in> set T \<Longrightarrow> response_meant T g RESPONSE_KIND_GOAL (decision_code REJECTED)"
  "Cancel_Decided g d \<in> set T \<Longrightarrow> response_meant T g RESPONSE_KIND_CANCEL (decision_code d)"
  "Completed g status \<in> set T \<Longrightarrow> response_meant T g RESPONSE_KIND_RESULT (terminal_code status)"
  unfolding response_meant_def by (cases d; blast)+

lemma decision_sent:
  assumes "registry_ok E" and "server_ok E T s w" and "sm_find (sv_packet_bindings s) g = Some b"
    and "send_control_response E s b kind d w = (True, w')" and "response_meant (T @ [a]) g kind (decision_code d)"
  shows "replies_ok E (sv_slot_routing s) (T @ [a]) w'"
proof (rule control_sent [OF assms(1) _ _ _ assms(4)])
  show "replies_ok E (sv_slot_routing s) T w" using assms(2) by (simp add: server_ok_def)
qed (use server_ok_binding [OF assms(2,3)] assms(5) in auto)

lemma accept_goal_ok:
  assumes "registry_ok E" and ok: "server_ok E T s w" and "ServerEndpoint_accept_goal E g s w = (True, s', w')"
  shows "server_ok E (T @ [Goal_Decided g ACCEPTED]) s' w' \<and> server_saw T SE_GOAL_REQUEST g"
proof -
  from assms(3) obtain b where b: "sm_find (sv_packet_bindings s) g = Some b"
    and send: "send_control_response E s b RESPONSE_KIND_GOAL ACCEPTED w = (True, w')"
    and s': "s' = s\<lparr>sv_packet_bindings := sm_update g (\<lambda>b. b\<lparr>ab_state := GOAL_ACCEPTED\<rparr>) (sv_packet_bindings s)\<rparr>"
    by (rule accept_goal_True)
  note k = server_ok_binding [OF ok b]
  let ?T = "T @ [Goal_Decided g ACCEPTED]"
  have "server_knows ?T s'" unfolding s'
    by (rule knows_update [OF server_ok_knows [OF ok, of "[Goal_Decided g ACCEPTED]"]]) (use k(5) b saw_append in auto)
  moreover have "replies_ok E (sv_slot_routing s) ?T w'"
    by (rule decision_sent [OF assms(1) ok b send]) (simp add: response_meant_intros(1) del: decision_code.simps)
  ultimately show ?thesis
    using server_ok_step [OF ok, of "Accept_Goal g" s' w' "[Goal_Decided g ACCEPTED]"] assms(3) k(3) by simp
qed

lemma reject_goal_ok:
  assumes "registry_ok E" and ok: "server_ok E T s w" and "ServerEndpoint_reject_goal E g s w = (True, s', w')"
  shows "server_ok E (T @ [Goal_Decided g REJECTED]) s' w' \<and> server_saw T SE_GOAL_REQUEST g"
proof -
  from assms(3) obtain b where b: "sm_find (sv_packet_bindings s) g = Some b"
    and send: "send_control_response E s b RESPONSE_KIND_GOAL REJECTED w = (True, w')"
    and s': "s' = release_binding_locked g s"
    by (rule reject_goal_True)
  note k = server_ok_binding [OF ok b]
  let ?T = "T @ [Goal_Decided g REJECTED]"
  have "server_knows ?T s'" unfolding s' by (intro knows_release server_ok_knows [OF ok])
  moreover have "replies_ok E (sv_slot_routing s) ?T w'"
    by (rule decision_sent [OF assms(1) ok b send]) (simp add: response_meant_intros(1) del: decision_code.simps)
  ultimately show ?thesis
    using server_ok_step [OF ok, of "Reject_Goal g" s' w' "[Goal_Decided g REJECTED]"] assms(3) k(3) by simp
qed

lemma accept_cancel_ok:
  assumes "registry_ok E" and ok: "server_ok E T s w" and "ServerEndpoint_accept_cancel E g s w = (True, s', w')"
  shows "server_ok E (T @ [Cancel_Decided g ACCEPTED]) s' w' \<and> server_saw T SE_CANCEL_REQUEST g"
proof -
  from assms(3) obtain b where b: "sm_find (sv_packet_bindings s) g = Some b" "ab_state b = GOAL_ACCEPTED" "ab_cancel_decision_pending b"
    and send: "send_control_response E s b RESPONSE_KIND_CANCEL ACCEPTED w = (True, w')"
    and s': "s' = s\<lparr>sv_packet_bindings := sm_update g
       (\<lambda>b. b\<lparr>ab_state := CANCEL_ACCEPTED, ab_cancel_decision_pending := False\<rparr>) (sv_packet_bindings s)\<rparr>"
    by (rule accept_cancel_True)
  note k = server_ok_binding [OF ok b(1)]
  let ?T = "T @ [Cancel_Decided g ACCEPTED]"
  have "server_knows ?T s'" unfolding s'
    by (rule knows_update [OF server_ok_knows [OF ok, of "[Cancel_Decided g ACCEPTED]"]]) (use k(4) b in auto)
  moreover have "replies_ok E (sv_slot_routing s) ?T w'"
    by (rule decision_sent [OF assms(1) ok b(1) send]) (simp add: response_meant_intros(3) del: decision_code.simps)
  ultimately show ?thesis
    using server_ok_step [OF ok, of "Accept_Cancel g" s' w' "[Cancel_Decided g ACCEPTED]"] assms(3) k(5) b(3) by simp
qed

lemma reject_cancel_ok:
  assumes "registry_ok E" and ok: "server_ok E T s w" and "ServerEndpoint_reject_cancel E g s w = (True, s', w')"
  shows "server_ok E (T @ [Cancel_Decided g REJECTED]) s' w' \<and> server_saw T SE_CANCEL_REQUEST g"
proof -
  from assms(3) obtain b where b: "sm_find (sv_packet_bindings s) g = Some b" "ab_state b = GOAL_ACCEPTED" "ab_cancel_decision_pending b"
    and send: "send_control_response E s b RESPONSE_KIND_CANCEL REJECTED w = (True, w')"
    and s': "s' = s\<lparr>sv_packet_bindings := sm_update g (\<lambda>b. b\<lparr>ab_cancel_decision_pending := False\<rparr>) (sv_packet_bindings s)\<rparr>"
    by (rule reject_cancel_True)
  note k = server_ok_binding [OF ok b(1)]
  let ?T = "T @ [Cancel_Decided g REJECTED]"
  have "server_knows ?T s'" unfolding s'
    by (rule knows_update [OF server_ok_knows [OF ok, of "[Cancel_Decided g REJECTED]"]]) (use k(4) b in auto)
  moreover have "replies_ok E (sv_slot_routing s) ?T w'"
    by (rule decision_sent [OF assms(1) ok b(1) send]) (simp add: response_meant_intros(3) del: decision_code.simps)
  ultimately show ?thesis
    using server_ok_step [OF ok, of "Reject_Cancel g" s' w' "[Cancel_Decided g REJECTED]"] assms(3) k(5) b(3) by simp
qed

lemma send_feedback_ok:
  assumes "registry_ok E" and ok: "server_ok E T s w" and b: "sm_find (sv_packet_bindings s) g = Some b"
    and "ServerEndpoint_send_feedback E g p s w = (True, s', w')"
  shows "server_ok E (T @ [Sent_Feedback g (ab_next_feedback_sequence b)]) s' w' \<and> Goal_Decided g ACCEPTED \<in> set T"
proof -
  note k = server_ok_binding [OF ok b]
  let ?T = "T @ [Sent_Feedback g (ab_next_feedback_sequence b)]"
  obtain r bytes where out: "r \<in> set (sv_slot_routing s)" "outbox w' = outbox w @ [(sr_feedback r, bytes)]"
    and rd: "client_reads_feedback E r bytes = Some (feedback_header g (ab_next_feedback_sequence b))"
    and s': "s' = s\<lparr>sv_packet_bindings := sm_update g
       (\<lambda>b. b\<lparr>ab_next_feedback_sequence := ab_next_feedback_sequence b + 1\<rparr>) (sv_packet_bindings s)\<rparr>"
    by (rule feedback_send_wire [OF assms(1) k(2) assms(4)]) (use b in auto)
  have live: "ab_state b = GOAL_ACCEPTED \<or> ab_state b = CANCEL_ACCEPTED"
    using assms(4) by (rule send_feedback_True) (use b in simp)
  have "server_knows ?T s'" unfolding s'
    by (rule knows_update [OF server_ok_knows [OF ok, of "[Sent_Feedback g (ab_next_feedback_sequence b)]"]]) (use k(4,5) b live saw_append in auto)
  moreover have "decode_feedback_header E bytes = Some (feedback_header g (ab_next_feedback_sequence b))"
    using rd by (auto simp: client_reads_feedback_def decode_feedback_header_def split: if_splits)
  then have "replies_ok E (sv_slot_routing s) ?T w'"
    using reply_appended [OF _ _ out(2), of E "sv_slot_routing s" T ?T] ok out(1) by (auto simp: server_ok_def feedback_said_def)
  ultimately show ?thesis
    using server_ok_step [OF ok, of "Send_Feedback g p" s' w' "[Sent_Feedback g (ab_next_feedback_sequence b)]"] assms(4) k(4) live by auto
qed

lemma complete_ok:
  assumes "registry_ok E" and ok: "server_ok E T s w" and "ServerEndpoint_complete E g status p s w = (r, s', w')"
  shows "server_ok E (T @ (if r = SENT then [Completed g status] else [])) s' w' \<and> (r = SENT \<longrightarrow> Goal_Decided g ACCEPTED \<in> set T)"
proof (cases "r = NOT_COMMITTED")
  case True
  then show ?thesis using refused_ops_unchanged(6) assms(2,3) by fastforce
next
  case False
  let ?U = "if r = SENT then [Completed g status] else []"
  from assms(3) False obtain b n where b: "sm_find (sv_packet_bindings s) g = Some b"
    and v: "validate_terminal_packet_locked E s b status p = Some n"
    and send: "send_response_packet E (commit_result g s)
       (b\<lparr>ab_state := RESULT_COMMITTED, ab_cancel_decision_pending := False\<rparr>) RESPONSE_KIND_RESULT (terminal_code status) p w = (r = SENT, w')"
    and s': "s' = (if r = SENT then release_binding_locked g (commit_result g s) else commit_result g s)"
    by (rule complete_committed)
  note k = server_ok_binding [OF ok b]
  have acc: "Goal_Decided g ACCEPTED \<in> set T"
    using v k(4) by (auto simp: validate_terminal_packet_locked_def Let_def split: if_splits)
  have "server_knows (T @ ?U) (commit_result g s)" unfolding commit_result_def
    by (rule knows_update [OF server_ok_knows [OF ok, of ?U]]) (use acc in auto)
  then have "server_knows (T @ ?U) s'" using s' knows_release by (cases "r = SENT") simp_all
  moreover have "replies_ok E (sv_slot_routing s) (T @ ?U) w'"
  proof (cases "r = SENT")
    case True
    have "replies_ok E (sv_slot_routing (commit_result g s)) (T @ ?U) w'"
    proof (rule response_sent [OF assms(1) _ _ _ send [unfolded True simp_thms]])
      show "replies_ok E (sv_slot_routing (commit_result g s)) T w" using ok by (simp add: server_ok_def commit_result_def)
    qed (use k True in \<open>auto simp: response_meant_intros(4) simp del: terminal_code.simps\<close>)
    then show ?thesis by (simp add: commit_result_def)
  next
    case False
    then have "outbox w' = outbox w" using send_response_outbox [OF send] by auto
    then show ?thesis using ok False by (simp add: server_ok_def replies_ok_def)
  qed
  ultimately show ?thesis
    using server_ok_step [OF ok, of "Complete g status p" s' w' ?U] assms(3) acc by simp
qed

lemma server_local_ok:
  assumes ok: "server_ok E T s w"
    and "op \<in> {Accept_Cancel_Locally g, Complete_Locally g status p, Discard_Pending_Goal g, Clear_Pending_Events, Reset_Contexts}"
  shows "server_ok E T (fst (server_exec E (s, w) op)) w"
proof -
  let ?s = "fst (server_exec E (s, w) op)"
  have w: "snd (server_exec E (s, w) op) = w" using assms(2) by auto
  have k: "server_knows T s" using server_ok_knows [OF ok, of "[]"] by simp
  have acc: "Goal_Decided g ACCEPTED \<in> set T" if "sm_find (sv_packet_bindings s) g = Some b" "ab_state b \<noteq> AWAITING_GOAL_DECISION" for b
    using server_ok_binding(4) [OF ok that] .
  have "server_knows T (commit_result g s)" if "Goal_Decided g ACCEPTED \<in> set T"
    unfolding commit_result_def by (rule knows_update [OF k]) (use that in auto)
  then have "server_knows T (snd (ServerEndpoint_complete_locally E g status p s))"
    using k acc by (auto simp: ServerEndpoint_complete_locally_def validate_terminal_packet_locked_def Let_def
        intro!: knows_release split: option.splits if_splits)
  moreover have "server_knows T (snd (ServerEndpoint_accept_cancel_locally g s))"
    using k knows_update [OF k order.refl, of g "\<lambda>b. b\<lparr>ab_state := CANCEL_ACCEPTED, ab_cancel_decision_pending := False\<rparr>"] acc
    by (auto simp: ServerEndpoint_accept_cancel_locally_def split: option.splits)
  moreover have "server_knows T (snd (ServerEndpoint_discard_pending_goal g s))"
    using k knows_release by (auto simp: ServerEndpoint_discard_pending_goal_def split: option.splits)
  moreover have "server_knows T (ServerEndpoint_clear_pending_events s)" "server_knows T (ServerEndpoint_reset_contexts s)"
    using k by (simp_all add: server_knows_def ServerEndpoint_clear_pending_events_def ServerEndpoint_reset_contexts_def)
  ultimately have "server_knows (T @ []) ?s" using assms(2) by auto
  moreover have "server_exec E (s, w) op = (?s, w)" using w by (metis prod.collapse)
  ultimately show ?thesis
    using server_ok_step [OF ok, of op ?s w "[]"] ok assms(2) by (auto simp: server_ok_def)
qed

text \<open>A refused operation and a received packet.\<close>

lemma server_ok_refused: "server_ok E T s w \<Longrightarrow> s' = s \<and> outbox w' = outbox w \<Longrightarrow> server_ok E T s' w'"
  by (simp add: server_ok_def replies_ok_def)

lemma server_receive_ok:
  assumes "server_ok E T s w" and "request_said E T bytes"
  shows "server_ok E T (ServerEndpoint_on_recv i bytes s) w"
  using assms on_recv_inv [of s i bytes]
  by (auto simp: server_ok_def server_side_ok_def server_knows_def ServerEndpoint_on_recv_def)

text \<open>Polling: a packet of the client, or an answer of the endpoint to a Goal that it cannot take.\<close>

lemma refusals_Nil [simp]: "refusals E [] = []"
  by (simp add: refusals_def map_filter_simps)

lemma error_reply_ok:
  fixes i :: nat and a :: act
  assumes "registry_ok E" and "replies_ok E (sv_slot_routing s) T w" and "length g = 16"
  defines "w' \<equiv> send_goal_error_reply E s g i w"
  defines "U \<equiv> refusals E (drop (length (outbox w)) (outbox w'))"
  shows "replies_ok E (sv_slot_routing s) (T @ a # U) w'" and "U = [] \<or> U = [Goal_Refused g]"
proof -
  obtain r v where send: "send_control_response E s (new_binding g i) RESPONSE_KIND_GOAL REJECTED w = (r, v)" by fastforce
  then have w': "w' = v" by (simp add: w'_def send_goal_error_reply_def)
  have "replies_ok E (sv_slot_routing s) (T @ a # U) w' \<and> (U = [] \<or> U = [Goal_Refused g])"
  proof (cases r)
    case True
    with send have sent: "send_control_response E s (new_binding g i) RESPONSE_KIND_GOAL REJECTED w = (True, v)" by simp
    have g: "length (ab_goal_id (new_binding g i)) = 16" "ab_goal_id (new_binding g i) = g" using assms(3) by (simp_all add: new_binding_def)
    from control_response_readable [OF assms(1) g(1) sent] obtain bytes where
      out: "outbox v = outbox w @ [(sr_response (sv_slot_routing s ! ab_slot_index (new_binding g i)), bytes)]"
      and rd: "client_reads_response E (sv_slot_routing s ! ab_slot_index (new_binding g i)) bytes
        = Some (response_header (ab_goal_id (new_binding g i)) RESPONSE_KIND_GOAL (decision_code REJECTED))" by blast
    have "decode_response_header E bytes = Some (response_header g RESPONSE_KIND_GOAL (decision_code REJECTED))"
      using rd g(2) by (auto simp: client_reads_response_def decode_response_header_def split: if_splits)
    then have U: "U = [Goal_Refused g]"
      by (simp add: U_def w' out refusals_def map_filter_simps response_header_def)
    have "replies_ok E (sv_slot_routing s) (T @ a # U) w'"
      unfolding w' by (rule control_sent [OF assms(1,2) _ g(1) sent])
        (use U g(2) in \<open>auto simp: response_meant_intros(2) simp del: decision_code.simps\<close>)
    with U show ?thesis by simp
  next
    case False
    then have "outbox w' = outbox w" using send_control_outbox [OF send] w' by auto
    then show ?thesis using ok_mono(2) [OF _ assms(2), of "T @ [a]"] by (auto simp: U_def replies_ok_def)
  qed
  then show "replies_ok E (sv_slot_routing s) (T @ a # U) w'" and "U = [] \<or> U = [Goal_Refused g]" by simp_all
qed

lemma empty_event_caused [simp]: "server_event_caused T empty_ServerEvent" "client_event_caused T empty_ClientEvent"
  by (simp_all add: server_event_caused_def client_event_caused_def empty_ServerEvent_def empty_ClientEvent_def)

definition polled_ok :: "'w pdu_env \<Rightarrow> act list \<Rightarrow> 'w world \<Rightarrow> ServerEvent \<times> ActionServerEndpointImpl \<times> 'w world \<Rightarrow> bool" where
  "polled_ok E T w r \<longleftrightarrow> (case r of (ev, s', w') \<Rightarrow>
     server_ok E (T @ Server_Saw ev # refusals E (drop (length (outbox w)) (outbox w'))) s' w' \<and> server_event_caused T ev
     \<and> (\<exists>g. Sent_Goal g \<in> set T \<and> set (refusals E (drop (length (outbox w)) (outbox w'))) \<subseteq> {Goal_Refused g}
            \<or> refusals E (drop (length (outbox w)) (outbox w')) = []))"

lemma polled_nothing: "server_ok E T s w \<Longrightarrow> polled_ok E T w (empty_ServerEvent, s, w)"
  using ok_mono(2,4) [of T "T @ [Server_Saw empty_ServerEvent]" E] by (auto simp: polled_ok_def server_ok_def)

lemma handle_ok:
  assumes reg: "registry_ok E" and ok: "server_ok E T s w" and said: "request_said E T (pp_pdu p)"
  shows "polled_ok E T w (ServerEndpoint_handle E p s w)"
proof -
  obtain g kind where h: "decode_request_header E (pp_pdu p) = Some (request_header g kind)" "length g = 16"
    and kind: "kind = REQUEST_KIND_GOAL \<and> Sent_Goal g \<in> set T \<or> kind = REQUEST_KIND_CANCEL \<and> Sent_Cancel g \<in> set T"
    using said by (auto simp: request_said_def)
  have rep: "replies_ok E (sv_slot_routing s) T w" using ok by (simp add: server_ok_def)
  have step: "polled_ok E T w (ev, s', w')"
    if x: "ServerEndpoint_handle E p s w = (ev, s', w')" and "server_event_caused T ev"
      and "U = refusals E (drop (length (outbox w)) (outbox w'))" "U = [] \<or> U = [Goal_Refused g] \<and> Sent_Goal g \<in> set T"
      and "server_knows (T @ Server_Saw ev # U) s'" "replies_ok E (sv_slot_routing s) (T @ Server_Saw ev # U) w'" for ev s' w' U
    using server_ok_step [OF ok, of "Handle p" s' w' "Server_Saw ev # U"] that by (auto simp: polled_ok_def)
  have "ServerEndpoint_handle E p s w = (empty_ServerEvent, s, w) \<or> ServerEndpoint_handle E p s w =
      (if kind = REQUEST_KIND_CANCEL then (case handle_cancel_request p g s of (ev, s') \<Rightarrow> (ev, s', w)) else handle_goal_request E p g s w)"
    using h(1) by (simp add: ServerEndpoint_handle_def Let_def request_header_def split: option.split)
  then consider "ServerEndpoint_handle E p s w = (empty_ServerEvent, s, w)"
    | (cancel) "kind = REQUEST_KIND_CANCEL" "ServerEndpoint_handle E p s w = (case handle_cancel_request p g s of (ev, s') \<Rightarrow> (ev, s', w))"
    | (goal) "kind = REQUEST_KIND_GOAL" "ServerEndpoint_handle E p s w = handle_goal_request E p g s w"
    using kind by (auto simp: protocol_constants split: if_splits)
  then show ?thesis
  proof cases
    case 1
    then show ?thesis using polled_nothing [OF ok] by simp
  next
    case cancel
    show ?thesis
    proof (cases "\<exists>b. sm_find (sv_packet_bindings s) g = Some b \<and> ab_slot_index b = pp_slot_index p
        \<and> ab_state b = GOAL_ACCEPTED \<and> \<not> ab_cancel_decision_pending b")
      case False
      then have "handle_cancel_request p g s = (empty_ServerEvent, s)"
        unfolding handle_cancel_request_def
        by (cases "sm_find (sv_packet_bindings s) g"; cases "ab_state (the (sm_find (sv_packet_bindings s) g))") auto
      then show ?thesis using cancel polled_nothing [OF ok] by simp
    next
      case True
      then obtain b where b: "sm_find (sv_packet_bindings s) g = Some b" "ab_slot_index b = pp_slot_index p"
        "ab_state b = GOAL_ACCEPTED" "\<not> ab_cancel_decision_pending b" by blast
      let ?ev = "goal_event s SE_CANCEL_REQUEST g (pp_pdu p)"
        and ?s = "s\<lparr>sv_packet_bindings := sm_update g (\<lambda>b. b\<lparr>ab_cancel_decision_pending := True\<rparr>) (sv_packet_bindings s)\<rparr>"
      have r: "ServerEndpoint_handle E p s w = (?ev, ?s, w)"
        using cancel(2) b by (simp add: handle_cancel_request_def)
      have acc: "Goal_Decided g ACCEPTED \<in> set T" using b server_ok_binding(4) [OF ok b(1)] by simp
      have "server_saw (T @ [Server_Saw ?ev]) SE_CANCEL_REQUEST g" by (auto simp: server_saw_def goal_event_def)
      then have "server_knows (T @ [Server_Saw ?ev]) ?s"
        by (intro knows_update [OF server_ok_knows [OF ok, of "[Server_Saw ?ev]"]]) (use acc in auto)
      moreover have "Sent_Cancel g \<in> set T" using kind cancel(1) by (auto simp: protocol_constants)
      ultimately show ?thesis unfolding r
        by (intro step [OF r, of "[]"]) (use acc ok_mono(2) [OF _ rep, of "T @ [Server_Saw ?ev]"] in
            \<open>auto simp: server_event_caused_def goal_event_def\<close>)
    qed
  next
    case goal
    have sent: "Sent_Goal g \<in> set T" using kind goal(1) by (auto simp: protocol_constants)
    let ?w = "send_goal_error_reply E s g (pp_slot_index p) w"
    show ?thesis
    proof (cases "sm_find (sv_packet_bindings s) g \<noteq> None \<or> sv_slot_owners s ! pp_slot_index p \<noteq> None")
      case True
      then have r: "ServerEndpoint_handle E p s w = (empty_ServerEvent, s, ?w)"
        using goal by (auto simp: handle_goal_request_def Let_def)
      show ?thesis unfolding r
        by (rule step [OF r, of "refusals E (drop (length (outbox w)) (outbox ?w))"])
          (use error_reply_ok(1) [OF reg rep h(2), where i = "pp_slot_index p" and a = "Server_Saw empty_ServerEvent"]
              error_reply_ok(2) [OF reg rep h(2), where i = "pp_slot_index p"] sent server_ok_knows [OF ok] in auto)
    next
      case False
      let ?ev = "goal_event s SE_GOAL_REQUEST g (pp_pdu p)"
        and ?s = "s\<lparr>sv_slot_owners := (sv_slot_owners s)[pp_slot_index p := Some g],
          sv_packet_bindings := sm_emplace g (new_binding g (pp_slot_index p)) (sv_packet_bindings s)\<rparr>"
      have r: "ServerEndpoint_handle E p s w = (?ev, ?s, w)" using goal False by (simp add: handle_goal_request_def Let_def)
      have "server_saw (T @ [Server_Saw ?ev]) SE_GOAL_REQUEST g" by (auto simp: server_saw_def goal_event_def)
      then have "server_knows (T @ [Server_Saw ?ev]) ?s"
        using server_ok_knows [OF ok, of "[Server_Saw ?ev]"] False h(2) by (auto simp: server_knows_def new_binding_def split: if_splits)
      then show ?thesis unfolding r
        by (intro step [OF r, of "[]"]) (use sent ok_mono(2) [OF _ rep, of "T @ [Server_Saw ?ev]"] in
            \<open>auto simp: server_event_caused_def goal_event_def\<close>)
    qed
  qed
qed

lemma server_poll_ok:
  assumes "registry_ok E" and ok: "server_ok E T s w"
  shows "polled_ok E T w (ServerEndpoint_poll E s w)"
proof -
  have s: "sv_initialized s" "sv_pending_events s = []" "\<forall>p\<in>set (sv_pending_packets s). request_said E T (pp_pdu p)"
    using ok by (simp_all add: server_ok_def server_side_ok_def)
  show ?thesis
  proof (cases "sv_pending_packets s")
    case Nil
    then show ?thesis using s polled_nothing [OF ok] by (simp add: ServerEndpoint_poll_def ServerEndpoint_take_def)
  next
    case (Cons p ps)
    have "server_ok E (T @ []) (s\<lparr>sv_pending_packets := ps\<rparr>) w"
      by (rule server_ok_step [OF ok, of Take])
        (use s Cons ok server_ok_knows [OF ok, of "[]"] in \<open>auto simp: ServerEndpoint_take_def server_ok_def server_knows_def\<close>)
    with handle_ok [OF assms(1) this [simplified]] s Cons show ?thesis
      by (simp add: ServerEndpoint_poll_def ServerEndpoint_take_def)
  qed
qed

end
