(* ===== verification/Action_System_Client.thy ===== *)
theory Action_System_Client
  imports Action_System_Server
begin

text \<open>
  The client side of the system: every operation of the client endpoint keeps what its bindings
  and its queue know of the trace, and the events it reports have their causes in the trace.
\<close>

section \<open>Client operations\<close>

definition client_ok :: "'w pdu_env \<Rightarrow> act list \<Rightarrow> ActionClientEndpointImpl \<Rightarrow> 'w world \<Rightarrow> bool" where
  "client_ok E T c w \<longleftrightarrow> client_side_ok E T c \<and> requests_ok E T w"

lemma client_ok_append: "client_ok E T c w \<Longrightarrow> client_ok E (T @ U) c w"
  using ok_mono(1,3) [of T "T @ U"] by (auto simp: client_ok_def)

lemma client_ok_known:
  assumes "client_ok E T c w" and "sm_find (cl_packet_bindings c) g = Some b"
  shows "goal_known (T @ U) g (cb_state b)"
  using client_ok_append [OF assms(1)] assms(2) by (simp add: client_ok_def client_side_ok_def client_knows_def)

lemma client_ok_saw:
  assumes "client_ok E T c w" and "sm_find (cl_packet_bindings c) g = Some b"
    and "cb_state b = CB_ACCEPTED \<or> cb_state b = AWAITING_CANCEL_RESPONSE \<or> cb_state b = CB_CANCELING"
  shows "client_saw_accepted T g"
  using client_ok_known [OF assms(1,2), of "[]"] assms(3) by (auto simp: goal_known_def)

lemma saw_accepted_append: "client_saw_accepted T g \<Longrightarrow> client_saw_accepted (T @ U) g"
  by (auto simp: client_saw_accepted_def)

lemma known_live: "goal_known T g state \<Longrightarrow> client_saw_accepted T g \<Longrightarrow> goal_known T g state'"
  by (simp add: goal_known_def)

text \<open>A step that leaves the queue alone or takes from it, and sends the given packets.\<close>

lemma client_ok_step:
  assumes "client_ok E T c w" and "client_endpoint_inv c'" and "set (cl_pending_packets c') \<subseteq> set (cl_pending_packets c)"
    and "outbox w' = outbox w @ packets" and "\<forall>m\<in>set packets. request_said E (T @ U) (snd m)"
    and "\<And>g b. sm_find (cl_packet_bindings c') g = Some b \<Longrightarrow> goal_known (T @ U) g (cb_state b)"
  shows "client_ok E (T @ U) c' w'"
  using client_ok_append [OF assms(1), of U] assms(2-6) unfolding client_ok_def client_side_ok_def client_knows_def requests_ok_def
  by auto

lemma client_ok_update:
  assumes "client_ok E T c w" and "client_endpoint_inv (c\<lparr>cl_packet_bindings := sm_update g f (cl_packet_bindings c)\<rparr>)"
    and "\<And>b. sm_find (cl_packet_bindings c) g = Some b \<Longrightarrow> goal_known (T @ U) g (cb_state (f b))"
    and "outbox w' = outbox w @ packets" and "\<forall>m\<in>set packets. request_said E (T @ U) (snd m)"
  shows "client_ok E (T @ U) (c\<lparr>cl_packet_bindings := sm_update g f (cl_packet_bindings c)\<rparr>) w'"
  by (rule client_ok_step [OF assms(1,2) _ assms(4,5)]) (use assms(3) client_ok_known [OF assms(1)] in \<open>auto split: if_splits\<close>)

lemma client_ok_release:
  assumes "client_ok E T c w"
  shows "client_ok E (T @ U) (client_release_binding_locked g c) w"
proof (rule client_ok_step [OF assms, where packets = "[]"])
  show "client_endpoint_inv (client_release_binding_locked g c)"
    by (rule client_release_inv) (use assms in \<open>simp add: client_ok_def client_side_ok_def\<close>)
qed (use client_ok_known [OF assms] in \<open>auto simp: client_release_binding_locked_def split: option.splits if_splits\<close>)

lemma send_goal_ok:
  assumes reg: "registry_ok E" and ok: "client_ok E T c w" and g: "length g = 16"
    and sent: "ClientEndpoint_send_goal_with_result E p g t c w = (r, c', w')"
  shows "client_ok E (T @ (if r = SUCCESS then [Sent_Goal g] else [])) c' w'"
proof (cases "r = SUCCESS")
  case True
  from sent [unfolded True] obtain i n q where v: "is_valid_goal_id g" "sm_find (cl_packet_bindings c) g = None"
    "first_free (cl_slot_owners c) = Some i" "ClientEndpoint_reserve E g t c w = (Inr i, c')"
    "client_validate_packet_capacity E p (sr_request_packet_base_size (cl_slot_routing c ! i))
       (sr_request_heap_capacity (cl_slot_routing c ! i)) False = Some n"
    "write_request_header E p g REQUEST_KIND_GOAL = Some q"
    and out: "outbox w' = outbox w @ [(sr_request (cl_slot_routing c ! i), take n q)]"
    by (rule send_goal_SUCCESS)
  have inv: "client_endpoint_inv c'" using ok reserve_inv [of c E g t w] v(4) by (simp add: client_ok_def client_side_ok_def)
  have "decode_request_header E (take n q) = Some (request_header g REQUEST_KIND_GOAL)"
    using request_readable [OF reg g v(1) _ v(5,6)] by simp
  then have said: "request_said E (T @ [Sent_Goal g]) (take n q)" using g by (auto simp: request_said_def)
  have "goal_known (T @ [Sent_Goal g]) g AWAITING_GOAL_RESPONSE" by (simp add: goal_known_def)
  then have "client_ok E (T @ [Sent_Goal g]) c' w'"
    by (intro client_ok_step [OF ok inv _ out])
      (use v(2-4) said client_ok_known [OF ok] in \<open>auto simp: ClientEndpoint_reserve_def split: if_splits\<close>)
  then show ?thesis using True by simp
next
  case False
  from send_goal_failed [OF _ sent False] ok show ?thesis using False
    by (auto simp: client_ok_def client_side_ok_def requests_ok_def)
qed

lemma send_cancel_ok:
  assumes reg: "registry_ok E" and ok: "client_ok E T c w" and g: "length g = 16"
    and sent: "ClientEndpoint_send_cancel E g c w = (r, c', w')"
  shows "client_ok E (T @ (if r then [Sent_Cancel g] else [])) c' w' \<and> (r \<longrightarrow> client_saw_accepted T g)"
proof (cases r)
  case True
  obtain b where v: "is_valid_goal_id g" and b: "sm_find (cl_packet_bindings c) g = Some b" "cb_state b = CB_ACCEPTED"
    and c': "ClientEndpoint_begin_cancel g c = (Some (b\<lparr>cb_state := AWAITING_CANCEL_RESPONSE\<rparr>), c')"
      "c' = c\<lparr>cl_packet_bindings := sm_update g (\<lambda>b. b\<lparr>cb_state := AWAITING_CANCEL_RESPONSE\<rparr>) (cl_packet_bindings c)\<rparr>"
    and tr: "ClientEndpoint_transmit_cancel E c' (cb_slot_index b) g w = (True, w')"
    using sent True by (auto simp: ClientEndpoint_send_cancel_def ClientEndpoint_begin_cancel_def
        split: if_splits option.splits prod.splits bool.splits)
  obtain p n q where q: "client_validate_packet_capacity E p (sr_request_packet_base_size (cl_slot_routing c' ! cb_slot_index b))
       (sr_request_heap_capacity (cl_slot_routing c' ! cb_slot_index b)) False = Some n"
    "write_request_header E p g REQUEST_KIND_CANCEL = Some q"
    and out: "outbox w' = outbox w @ [(sr_request (cl_slot_routing c' ! cb_slot_index b), take n q)]"
    using transmit_cancel_outbox [OF tr] by auto
  have inv: "client_endpoint_inv c'" using ok begin_cancel_inv [of c g] c'(1) by (simp add: client_ok_def client_side_ok_def)
  have saw: "client_saw_accepted T g" using client_ok_saw [OF ok b(1)] b(2) by simp
  have "decode_request_header E (take n q) = Some (request_header g REQUEST_KIND_CANCEL)"
    using request_readable [OF reg g v _ q] by simp
  then have said: "request_said E (T @ [Sent_Cancel g]) (take n q)" using g by (auto simp: request_said_def)
  have "goal_known (T @ [Sent_Cancel g]) g AWAITING_CANCEL_RESPONSE"
    using client_ok_known [OF ok b(1), of "[Sent_Cancel g]"] b(2) by (simp add: goal_known_def)
  then have "client_ok E (T @ [Sent_Cancel g]) c' w'"
    unfolding c'(2) by (intro client_ok_update [OF ok _ _ out]) (use inv c'(2) said in simp_all)
  then show ?thesis using True saw by simp
next
  case False
  from send_cancel_failed [of c E g w c' w'] sent ok False show ?thesis
    by (auto simp: client_ok_def client_side_ok_def requests_ok_def)
qed

text \<open>Polling: what the packet says, and what the binding of its Goal knows.\<close>

lemma meant_codes:
  "response_meant T g RESPONSE_KIND_GOAL code \<longleftrightarrow> code = decision_code ACCEPTED \<and> Goal_Decided g ACCEPTED \<in> set T
     \<or> code = decision_code REJECTED \<and> (Goal_Decided g REJECTED \<in> set T \<or> Goal_Refused g \<in> set T)"
  "response_meant T g RESPONSE_KIND_CANCEL code \<longleftrightarrow> (\<exists>d. code = decision_code d \<and> Cancel_Decided g d \<in> set T)"
  "response_meant T g RESPONSE_KIND_RESULT code \<longleftrightarrow> (\<exists>status. code = terminal_code status \<and> Completed g status \<in> set T)"
  by (auto simp: response_meant_def protocol_constants)

lemma code_decision [simp]: "decision_of_code (decision_code d) = d"
  by (cases d) (simp_all add: decision_of_code_def)

lemma code_terminal [simp]: "terminal_of_code (terminal_code status) = status"
  by (cases status) (simp_all add: terminal_of_code_def)

lemma handle_response_ok:
  assumes ok: "client_ok E T c w" and meant: "response_meant T g kind code"
    and h: "handle_response slot (response_header g kind code) pdu c = Some (ev, c')"
  shows "client_event_caused T ev \<and> client_ok E (T @ [Client_Saw ev]) c' w"
proof -
  have inv: "client_endpoint_inv c'" by (rule handle_response_inv [OF _ h]) (use ok in \<open>simp add: client_ok_def client_side_ok_def\<close>)
  obtain b where b: "sm_find (cl_packet_bindings c) g = Some b" using h by (auto simp: handle_response_def response_header_def split: option.splits)
  note known = client_ok_known [OF ok b]
  have sent: "Sent_Goal g \<in> set T" using known [of "[]"] by (simp add: goal_known_def)
  have upd: "client_ok E (T @ [Client_Saw ev]) c' w"
    if "c' = c\<lparr>cl_packet_bindings := sm_update g (\<lambda>b. b\<lparr>cb_state := state\<rparr>) (cl_packet_bindings c)\<rparr>" "client_saw_accepted (T @ [Client_Saw ev]) g" for state
    using client_ok_update [OF ok, of g "\<lambda>b. b\<lparr>cb_state := state\<rparr>" "[Client_Saw ev]" w "[]"] inv that known_live [OF known [of "[Client_Saw ev]"]]
    by simp
  from h b consider
    (goal) "kind = RESPONSE_KIND_GOAL" "ev = (client_goal_event_out c CE_GOAL_RESPONSE g)\<lparr>ce_decision := decision_of_code code, ce_pdu := pdu\<rparr>"
      "code = decision_code ACCEPTED \<and> c' = c\<lparr>cl_packet_bindings := sm_update g (\<lambda>b. b\<lparr>cb_state := CB_ACCEPTED\<rparr>) (cl_packet_bindings c)\<rparr>
        \<or> code = decision_code REJECTED \<and> c' = client_release_binding_locked g c"
    | (result) "kind = RESPONSE_KIND_RESULT" "ev = (client_goal_event_out c CE_RESULT g)\<lparr>ce_terminal_status := terminal_of_code code, ce_pdu := pdu\<rparr>"
      "cb_state b = CB_ACCEPTED \<or> cb_state b = AWAITING_CANCEL_RESPONSE \<or> cb_state b = CB_CANCELING" "c' = client_release_binding_locked g c"
    | (cancel) state where "kind = RESPONSE_KIND_CANCEL" "ev = (client_goal_event_out c CE_CANCEL_RESPONSE g)\<lparr>ce_decision := decision_of_code code, ce_pdu := pdu\<rparr>"
      "cb_state b = AWAITING_CANCEL_RESPONSE"
      "c' = c\<lparr>cl_packet_bindings := sm_update g (\<lambda>b. b\<lparr>cb_state := state\<rparr>) (cl_packet_bindings c)\<rparr>"
    unfolding handle_response_def Let_def response_header_def
    by (auto simp del: decision_code.simps terminal_code.simps split: if_splits)
  then show ?thesis
  proof cases
    case goal
    have "client_event_caused T ev" using meant sent goal(1,2,3)
      by (auto simp: meant_codes client_event_caused_def client_goal_event_out_def simp del: decision_code.simps)
    moreover have "client_ok E (T @ [Client_Saw ev]) c' w" using goal(3)
    proof
      assume a: "code = decision_code ACCEPTED \<and> c' = c\<lparr>cl_packet_bindings := sm_update g (\<lambda>b. b\<lparr>cb_state := CB_ACCEPTED\<rparr>) (cl_packet_bindings c)\<rparr>"
      then have "client_saw_accepted (T @ [Client_Saw ev]) g" using goal(2)
        by (auto simp: client_saw_accepted_def client_goal_event_out_def simp del: decision_code.simps)
      with a upd show ?thesis by blast
    qed (use client_ok_release [OF ok] in simp)
    ultimately show ?thesis by simp
  next
    case result
    then show ?thesis using meant client_ok_saw [OF ok b result(3)] client_ok_release [OF ok]
      by (auto simp: meant_codes client_event_caused_def client_goal_event_out_def simp del: terminal_code.simps)
  next
    case cancel
    have saw: "client_saw_accepted T g" using client_ok_saw [OF ok b] cancel(3) by simp
    then show ?thesis using meant cancel(1,2) upd [OF cancel(4) saw_accepted_append [OF saw]]
      by (auto simp: meant_codes client_event_caused_def client_goal_event_out_def simp del: decision_code.simps)
  qed
qed

lemma handle_feedback_ok:
  assumes ok: "client_ok E T c w" and said: "Sent_Feedback g n \<in> set T"
    and h: "handle_feedback slot (feedback_header g n) pdu c = Some (ev, c')"
  shows "client_event_caused T ev \<and> client_ok E (T @ [Client_Saw ev]) c' w"
proof -
  have inv: "client_endpoint_inv c'" by (rule handle_feedback_inv [OF _ h]) (use ok in \<open>simp add: client_ok_def client_side_ok_def\<close>)
  from h obtain b where b: "sm_find (cl_packet_bindings c) g = Some b"
    "cb_state b = CB_ACCEPTED \<or> cb_state b = AWAITING_CANCEL_RESPONSE \<or> cb_state b = CB_CANCELING"
    and ev: "ev = (client_goal_event_out c CE_FEEDBACK g)\<lparr>ce_feedback_sequence := n, ce_pdu := pdu\<rparr>"
    and c': "c' = c\<lparr>cl_packet_bindings := sm_update g (\<lambda>b. b\<lparr>cb_next_feedback_sequence := cb_next_feedback_sequence b + 1\<rparr>) (cl_packet_bindings c)\<rparr>"
    by (auto simp: handle_feedback_def Let_def feedback_header_def split: option.splits if_splits)
  have "client_ok E (T @ [Client_Saw ev]) c' w"
    unfolding c' by (rule client_ok_update [OF ok, where packets = "[]"]) (use inv c' client_ok_known [OF ok b(1)] b(1) in auto)
  then show ?thesis using client_ok_saw [OF ok b] said ev by (simp add: client_event_caused_def client_goal_event_out_def)
qed

lemma client_handle_ok:
  assumes ok: "client_ok E T c w" and p: "client_packet_ok E T p" and h: "ClientEndpoint_handle E p c = Some (ev, c')"
  shows "client_event_caused T ev \<and> client_ok E (T @ [Client_Saw ev]) c' w"
  using h
proof (cases rule: client_handle_cases)
  case (response hd)
  then show ?thesis using p handle_response_ok [OF ok] by (auto simp: client_packet_ok_def response_said_def)
next
  case (feedback hd)
  then show ?thesis using p handle_feedback_ok [OF ok] by (auto simp: client_packet_ok_def feedback_said_def)
qed

lemma timeouts_ok:
  assumes ok: "client_ok E T c w" and t: "ClientEndpoint_timeouts now c = (ev, c')"
  shows "client_event_caused T ev \<and> client_ok E (T @ [Client_Saw ev]) c' w"
proof (cases "cl_initialized c \<and> List.find (\<lambda>(g, b). response_timed_out now b) (cl_packet_bindings c) \<noteq> None")
  case False
  then have "ClientEndpoint_timeouts now c = (empty_ClientEvent, c)" unfolding ClientEndpoint_timeouts_def
    by (cases "List.find (\<lambda>(g, b). response_timed_out now b) (cl_packet_bindings c)") auto
  with t have "ev = empty_ClientEvent" "c' = c" by simp_all
  then show ?thesis using client_ok_append [OF ok] by simp
next
  case True
  have inv: "client_endpoint_inv c" "client_endpoint_inv c'"
    using ok timeouts_inv [of c now] t by (simp_all add: client_ok_def client_side_ok_def)
  from True obtain g b where f: "List.find (\<lambda>(g, b). response_timed_out now b) (cl_packet_bindings c) = Some (g, b)" by force
  have ev: "ev = client_goal_event_out c CE_TIMEOUT g"
    and c': "c' = c\<lparr>cl_packet_bindings := sm_update g (\<lambda>b. b\<lparr>cb_state := GOAL_RESPONSE_TIMED_OUT\<rparr>) (cl_packet_bindings c)\<rparr>"
    using t True f by (simp_all add: ClientEndpoint_timeouts_def)
  have "(g, b) \<in> set (cl_packet_bindings c)" using f by (auto dest!: find_SomeD)
  then have b: "sm_find (cl_packet_bindings c) g = Some b"
    using slot_table_sm [OF client_inv_table [OF inv(1)]] by (simp add: sm_find_in_set)
  have "goal_known (T @ [Client_Saw ev]) g GOAL_RESPONSE_TIMED_OUT" "Sent_Goal g \<in> set T"
    using client_ok_known [OF ok b, of "[Client_Saw ev]"] by (simp_all add: goal_known_def)
  moreover have "client_ok E (T @ [Client_Saw ev]) c' w"
    unfolding c' by (rule client_ok_update [OF ok, where packets = "[]"]) (use inv c' calculation in auto)
  ultimately show ?thesis using ev by (simp add: client_event_caused_def client_goal_event_out_def)
qed

lemma client_poll_ok:
  assumes ok: "client_ok E T c w" and poll: "ClientEndpoint_poll E c w = (ev, c')"
  shows "client_event_caused T ev \<and> client_ok E (T @ [Client_Saw ev]) c' w"
proof (cases "cl_pending_packets c")
  case Nil
  then show ?thesis using poll timeouts_ok [OF ok] by (simp add: ClientEndpoint_poll_def)
next
  case (Cons p ps)
  let ?c = "c\<lparr>cl_pending_packets := ps\<rparr>"
  have "client_endpoint_inv ?c" using ok by (simp add: client_ok_def client_side_ok_def client_endpoint_inv_def)
  then have "client_ok E (T @ []) ?c w"
    by (rule client_ok_step [OF ok, where packets = "[]"]) (use Cons client_ok_known [OF ok, of _ _ "[]"] in auto)
  then have c: "client_ok E T ?c w" by simp
  have p: "client_packet_ok E T p" using ok Cons by (simp add: client_ok_def client_side_ok_def)
  show ?thesis
    using poll Cons timeouts_ok [OF c] client_handle_ok [OF c p]
    by (auto simp: ClientEndpoint_poll_def Let_def split: option.splits prod.splits)
qed

lemma client_receive_ok:
  assumes "client_ok E T c w" and "client_packet_ok E T \<lparr>cp_slot_index = i, cp_kind = kind, cp_pdu = bytes\<rparr>"
  shows "client_ok E T (ClientEndpoint_on_recv i kind bytes c) w"
  using assms by (auto simp: client_ok_def client_side_ok_def client_knows_def ClientEndpoint_on_recv_def client_endpoint_inv_def)

lemma client_clear_ok: "client_ok E T c w \<Longrightarrow> client_ok E T (ClientEndpoint_clear_pending_events c) w"
  by (auto simp: client_ok_def client_side_ok_def client_knows_def ClientEndpoint_clear_pending_events_def client_endpoint_inv_def)

lemma client_reset_ok:
  assumes "client_ok E T c w"
  shows "client_ok E T (ClientEndpoint_reset_contexts c) w"
proof -
  have "client_endpoint_inv (client_exec E w c C_Reset)" by (rule client_exec_inv) (use assms in \<open>simp add: client_ok_def client_side_ok_def\<close>)
  then show ?thesis using assms by (simp add: client_ok_def client_side_ok_def client_knows_def ClientEndpoint_reset_contexts_def)
qed

end
