(* ===== verification/Action_System_Properties.thy ===== *)
theory Action_System_Properties
  imports Action_System_Client
begin

text \<open>
  Causality of the system: the invariant of both sides and of the packets between them, and the
  theorem that follows from it.
\<close>

section \<open>The property\<close>

text \<open>The channels stay as they were set up.\<close>

definition client_static :: "ActionClientEndpointImpl \<Rightarrow> SlotRouting list \<times> (PduResolvedKey \<times> nat \<times> PendingPacketKind) list" where
  "client_static c = (cl_slot_routing c, cl_subscriptions c)"

lemma client_static_simps [simp]:
  "client_static (c\<lparr>cl_packet_bindings := bs\<rparr>) = client_static c" "client_static (c\<lparr>cl_pending_packets := ps\<rparr>) = client_static c"
  "client_static (client_release_binding_locked g c) = client_static c"
  "client_static (ClientEndpoint_on_recv i kind bytes c) = client_static c"
  "client_static (ClientEndpoint_clear_pending_events c) = client_static c" "client_static (ClientEndpoint_reset_contexts c) = client_static c"
  "client_static (ClientEndpoint_revert_cancel g c) = client_static c"
  by (simp_all add: client_static_def client_release_binding_locked_def ClientEndpoint_on_recv_def ClientEndpoint_clear_pending_events_def
      ClientEndpoint_reset_contexts_def ClientEndpoint_revert_cancel_def split: option.splits)

lemma send_goal_static:
  assumes "ClientEndpoint_send_goal_with_result E p g t c w = (r, c', w')"
  shows "client_static c' = client_static c"
proof -
  have res: "client_static (snd (ClientEndpoint_reserve E g t c w)) = client_static c"
    by (simp add: ClientEndpoint_reserve_def client_static_def split: option.splits)
  then show ?thesis using assms
    by (auto simp: ClientEndpoint_send_goal_with_result_def split: if_splits prod.splits sum.splits option.splits)
qed

lemma send_cancel_static:
  assumes "ClientEndpoint_send_cancel E g c w = (r, c', w')"
  shows "client_static c' = client_static c"
proof -
  have res: "client_static (snd (ClientEndpoint_begin_cancel g c)) = client_static c"
    by (simp add: ClientEndpoint_begin_cancel_def split: option.splits)
  then show ?thesis using assms
    by (auto simp: ClientEndpoint_send_cancel_def split: if_splits prod.splits bool.splits option.splits)
qed

lemma handle_static: "ClientEndpoint_handle E p c = Some (ev, c') \<Longrightarrow> client_static c' = client_static c"
  by (erule client_handle_cases) (auto simp: handle_response_def handle_feedback_def Let_def split: option.splits if_splits)

lemma timeouts_static: "client_static (snd (ClientEndpoint_timeouts now c)) = client_static c"
  by (simp add: ClientEndpoint_timeouts_def split: option.split prod.split)

lemma client_poll_static: "ClientEndpoint_poll E c w = (ev, c') \<Longrightarrow> client_static c' = client_static c"
  using timeouts_static [of "get_microseconds E (transport w)"]
  by (auto simp: ClientEndpoint_poll_def Let_def dest: handle_static split: list.splits option.splits) (metis snd_conv client_static_simps(2))+

definition system_ok :: "'w pdu_env \<Rightarrow> ActionClientEndpointImpl \<Rightarrow> 'w world \<Rightarrow> ActionServerEndpointImpl \<Rightarrow> 'w world \<Rightarrow> act list \<Rightarrow> bool" where
  "system_ok E c wc s ws T \<longleftrightarrow> joined c s \<and> client_ok E T c wc \<and> server_ok E T s ws \<and> all_caused T"

lemma joined_static: "joined c s \<Longrightarrow> client_static c' = client_static c \<Longrightarrow> sv_slot_routing s' = sv_slot_routing s \<Longrightarrow> joined c' s'"
  by (simp add: joined_def client_static_def)

lemma system_start:
  assumes "ClientEndpoint_initialize E J config (new_ActionClientEndpointImpl name True True) = (True, c)"
    and "ServerEndpoint_initialize E J config (new_ActionServerEndpointImpl name True True) = (True, s)"
    and "outbox wc = []" and "outbox ws = []"
  shows "system_ok E c wc s ws []"
proof -
  let ?c = "new_ActionClientEndpointImpl name True True" and ?s = "new_ActionServerEndpointImpl name True True"
  from assms(2) obtain d where d: "parse_action J config = Inr d"
    and s: "s = ?s\<lparr>sv_action_definition := Some d, sv_slot_routing := map (slot_routing E name d) [0..<ad_slot_count d],
       sv_slot_owners := resize (ad_slot_count d) None [], sv_initialized := True,
       sv_subscriptions := map (\<lambda>i. (channel_key name i REQUEST, i)) [0..<ad_slot_count d]\<rparr>"
    unfolding initialize_closed_form by (auto simp: Let_def new_ActionServerEndpointImpl_def)
  from assms(1) d have c: "c = ?c\<lparr>cl_action_definition := Some d, cl_slot_routing := map (slot_routing E name d) [0..<ad_slot_count d],
       cl_slot_owners := resize (ad_slot_count d) None [], cl_initialized := True,
       cl_subscriptions := concat (map (\<lambda>i. [(channel_key name i RESPONSE, i, PK_RESPONSE),
         (channel_key name i FEEDBACK, i, PK_FEEDBACK)]) [0..<ad_slot_count d])\<rparr>"
    unfolding client_initialize_closed_form by (auto simp: Let_def new_ActionClientEndpointImpl_def)
  have "ad_slot_count d \<le> max_slot_count" using parse_action_Inr [OF d] by simp
  then have dis: "keys_disjoint (sv_slot_routing s)" using slot_routing_keys_disjoint [of "ad_slot_count d" E name d] s by simp
  have keys: "sr_response (slot_routing E name d i) = channel_key name i RESPONSE" "sr_feedback (slot_routing E name d i) = channel_key name i FEEDBACK" for i
    by (simp_all add: slot_routing_def Let_def)
  have "joined c s" using dis unfolding joined_def
    by (auto simp: c s keys image_image split: PendingPacketKind.splits)
  moreover have "client_endpoint_inv c"
    using client_initialize_inv [OF new_client_endpoint_inv, of E J config name True True] assms(1) by simp
  then have "client_ok E [] c wc"
    using assms(3) by (simp add: client_ok_def client_side_ok_def client_knows_def requests_ok_def c new_ActionClientEndpointImpl_def)
  moreover have "server_endpoint_inv s"
    using initialize_inv [OF new_server_endpoint_inv, of E J config name True True] assms(2) by simp
  then have "server_ok E [] s ws"
    using assms(4) by (simp add: server_ok_def server_side_ok_def server_knows_def replies_ok_def s new_ActionServerEndpointImpl_def)
  ultimately show ?thesis by (simp add: system_ok_def)
qed

lemma system_client:
  assumes "system_ok E c wc s ws T" and "client_ok E (T @ U) c' wc'" and "client_static c' = client_static c" and "all_caused (T @ U)"
  shows "system_ok E c' wc' s ws (T @ U)"
  using assms joined_static [of c s c' s] ok_mono(2,4) [of T "T @ U" E] by (auto simp: system_ok_def server_ok_def)

lemma system_server:
  assumes "system_ok E c wc s ws T" and "server_ok E (T @ U) s' ws'" and "sv_slot_routing s' = sv_slot_routing s" and "all_caused (T @ U)"
  shows "system_ok E c wc s' ws' (T @ U)"
  using assms joined_static [of c s c s'] client_ok_append [of E T c wc U] by (auto simp: system_ok_def)

lemma delivered_ok:
  assumes "system_ok E c wc s ws T" and "(k, bytes) \<in> set (outbox ws)" and "(k, i, kind) \<in> set (cl_subscriptions c)"
  shows "client_packet_ok E T \<lparr>cp_slot_index = i, cp_kind = kind, cp_pdu = bytes\<rparr>"
proof -
  have "k \<in> sr_response ` set (sv_slot_routing s) \<and> response_said E T bytes \<or> k \<in> sr_feedback ` set (sv_slot_routing s) \<and> feedback_said E T bytes"
    using assms(1,2) by (fastforce simp: system_ok_def server_ok_def replies_ok_def)
  moreover have "keys_disjoint (sv_slot_routing s)" using assms(1) by (simp add: system_ok_def joined_def)
  moreover have "k \<in> (case kind of PK_RESPONSE \<Rightarrow> sr_response | PK_FEEDBACK \<Rightarrow> sr_feedback) ` set (sv_slot_routing s)"
    using assms(1,3) by (simp add: system_ok_def joined_def)
  ultimately show ?thesis by (cases kind) (auto simp: client_packet_ok_def keys_disjoint_def)
qed

lemma refused_caused:
  assumes "\<exists>g. Sent_Goal g \<in> set T \<and> set U \<subseteq> {Goal_Refused g} \<or> U = []" and "all_caused T"
  shows "all_caused (T @ U)"
proof -
  from assms(1) have "\<forall>a\<in>set U. \<exists>g. a = Goal_Refused g \<and> Sent_Goal g \<in> set T" by fastforce
  then show ?thesis
  proof (induction U rule: rev_induct)
    case (snoc a U)
    then show ?case using all_caused_snoc [of "T @ U" a] by auto
  qed (use assms(2) in simp)
qed

lemma static_exec: "server_exec E (s, w) op = (s', w') \<Longrightarrow> sv_slot_routing s' = sv_slot_routing s"
  using server_exec_static [of E "(s, w)" op] by simp

lemma server_run_static: "sv_slot_routing (fst (server_run E x ops)) = sv_slot_routing (fst x)"
  by (induction ops arbitrary: x) (simp_all add: server_exec_static)

lemma poll_static: "sv_slot_routing (fst (snd (ServerEndpoint_poll E s w))) = sv_slot_routing s"
  unfolding poll_is_take_handle by (cases "fst (ServerEndpoint_take s)") (simp_all only: poll_front.case server_run_static fst_conv)

lemma system_step_server:
  assumes "system_ok E c wc s ws T" and "server_ok E (T @ (if r then [a] else [])) s' ws' \<and> (r \<longrightarrow> caused T a)"
    and "server_exec E (s, ws) op = (s', ws')"
  shows "system_ok E c wc s' ws' (T @ (if r then [a] else []))"
  by (rule system_server [OF assms(1)]) (use assms static_exec [OF assms(3)] in \<open>auto simp: system_ok_def\<close>)

lemma system_decision:
  assumes "system_ok E c wc s ws T" and "server_exec E (s, ws) op = (s', ws')"
    and "r \<Longrightarrow> server_ok E (T @ [a]) s' ws' \<and> caused T a" and "\<not> r \<Longrightarrow> s' = s \<and> outbox ws' = outbox ws"
  shows "system_ok E c wc s' ws' (T @ (if r then [a] else []))"
  by (rule system_step_server [OF assms(1) _ assms(2)])
    (use assms(1,3,4) server_ok_refused [of E T s ws s' ws'] in \<open>cases r; simp add: system_ok_def\<close>)

lemma system_invariant:
  assumes reg: "registry_ok E" and "action_system E J config name c wc s ws T"
  shows "system_ok E c wc s ws T"
  using assms(2)
proof (induction rule: action_system.induct)
  case Start
  then show ?case by (rule system_start)
next
  case (Environment c wc s ws T wc' ws')
  then show ?case by (simp add: system_ok_def client_ok_def server_ok_def requests_ok_def replies_ok_def)
next
  case (Client_Send_Goal c wc s ws T g p t r c' wc')
  show ?case
    by (rule system_client [OF Client_Send_Goal.IH]) (use Client_Send_Goal send_goal_ok [OF reg _ Client_Send_Goal.hyps(2,3), of T]
        send_goal_static [OF Client_Send_Goal.hyps(3)] in \<open>auto simp: system_ok_def\<close>)
next
  case (Client_Send_Cancel c wc s ws T g r c' wc')
  show ?case
    by (rule system_client [OF Client_Send_Cancel.IH]) (use Client_Send_Cancel send_cancel_ok [OF reg _ Client_Send_Cancel.hyps(2,3), of T]
        send_cancel_static [OF Client_Send_Cancel.hyps(3)] in \<open>auto simp: system_ok_def\<close>)
next
  case (Client_Receive c wc s ws T k bytes i kind)
  then show ?case using client_receive_ok [of E T c wc i kind bytes] delivered_ok [OF Client_Receive.IH Client_Receive.hyps(2,3)]
      system_client [OF Client_Receive.IH, of "[]"] by (simp add: system_ok_def)
next
  case (Client_Poll c wc s ws T ev c')
  show ?case
    by (rule system_client [OF Client_Poll.IH]) (use Client_Poll client_poll_ok [of E T c wc ev c'] client_poll_static in \<open>auto simp: system_ok_def\<close>)
next
  case (Client_Clear c wc s ws T)
  then show ?case using client_clear_ok [of E T c wc] system_client [OF Client_Clear.IH, of "[]"] by (simp add: system_ok_def)
next
  case (Client_Reset c wc s ws T)
  then show ?case using client_reset_ok [of E T c wc] system_client [OF Client_Reset.IH, of "[]"] by (simp add: system_ok_def)
next
  case (Server_Receive c wc s ws T k bytes i)
  have "request_said E T bytes" using Server_Receive.IH Server_Receive.hyps(2) by (fastforce simp: system_ok_def client_ok_def requests_ok_def)
  then show ?case using Server_Receive.IH server_receive_ok [of E T s ws bytes i] system_server [OF Server_Receive.IH, of "[]"]
    by (simp add: system_ok_def ServerEndpoint_on_recv_def)
next
  case (Server_Poll c wc s ws T ev s' ws')
  let ?U = "refusals E (drop (length (outbox ws)) (outbox ws'))"
  have p: "polled_ok E T ws (ev, s', ws')" using server_poll_ok [OF reg, of T s ws] Server_Poll by (simp add: system_ok_def)
  have "sv_slot_routing s' = sv_slot_routing s"
    using poll_static [of E s ws] Server_Poll.hyps(2) by simp
  moreover have "all_caused ((T @ [Server_Saw ev]) @ ?U)"
    by (rule refused_caused) (use p Server_Poll.IH in \<open>auto simp: polled_ok_def system_ok_def\<close>)
  ultimately show ?case using system_server [OF Server_Poll.IH, of "Server_Saw ev # ?U" s' ws'] p by (simp add: polled_ok_def)
next
  case (Server_Accept_Goal c wc s ws T g r s' ws')
  show ?case
    by (rule system_decision [OF Server_Accept_Goal.IH, of "Accept_Goal g"])
      (use Server_Accept_Goal.IH Server_Accept_Goal.hyps accept_goal_ok [OF reg, of T s ws g s' ws']
         refused_ops_unchanged(1) [of E g s ws s' ws'] in \<open>auto simp: system_ok_def\<close>)
next
  case (Server_Reject_Goal c wc s ws T g r s' ws')
  show ?case
    by (rule system_decision [OF Server_Reject_Goal.IH, of "Reject_Goal g"])
      (use Server_Reject_Goal.IH Server_Reject_Goal.hyps reject_goal_ok [OF reg, of T s ws g s' ws']
         refused_ops_unchanged(2) [of E g s ws s' ws'] in \<open>auto simp: system_ok_def\<close>)
next
  case (Server_Accept_Cancel c wc s ws T g r s' ws')
  show ?case
    by (rule system_decision [OF Server_Accept_Cancel.IH, of "Accept_Cancel g"])
      (use Server_Accept_Cancel.IH Server_Accept_Cancel.hyps accept_cancel_ok [OF reg, of T s ws g s' ws']
         refused_ops_unchanged(3) [of E g s ws s' ws'] in \<open>auto simp: system_ok_def\<close>)
next
  case (Server_Reject_Cancel c wc s ws T g r s' ws')
  show ?case
    by (rule system_decision [OF Server_Reject_Cancel.IH, of "Reject_Cancel g"])
      (use Server_Reject_Cancel.IH Server_Reject_Cancel.hyps reject_cancel_ok [OF reg, of T s ws g s' ws']
         refused_ops_unchanged(4) [of E g s ws s' ws'] in \<open>auto simp: system_ok_def\<close>)
next
  case (Server_Send_Feedback c wc s ws T g b p r s' ws')
  show ?case
    by (rule system_decision [OF Server_Send_Feedback.IH, of "Send_Feedback g p"])
      (use Server_Send_Feedback.IH Server_Send_Feedback.hyps send_feedback_ok [OF reg, of T s ws g b p s' ws']
         refused_ops_unchanged(5) [of E g p s ws s' ws'] in \<open>auto simp: system_ok_def\<close>)
next
  case (Server_Complete c wc s ws T g status p r s' ws')
  then show ?case using system_step_server [OF Server_Complete.IH, of "r = SENT" "Completed g status" s' ws' "Complete g status p"]
      complete_ok [OF reg, of T s ws g status p r s' ws'] by (simp add: system_ok_def)
next
  case (Server_Local c wc s ws T op g status p)
  have "sv_slot_routing (fst (server_exec E (s, ws) op)) = sv_slot_routing s" using server_exec_static [of E "(s, ws)" op] by simp
  then show ?case using server_local_ok [OF _ Server_Local.hyps(2), of E T s ws] Server_Local.IH system_server [OF Server_Local.IH, of "[]"]
    by (simp add: system_ok_def)
qed

text \<open>
  C6 (safety): causality of an Action across the network. In every run of a client endpoint and
  a server endpoint, initialised from one configuration and joined by a network that may delay, lose,
  repeat and reorder packets, with the operations of both sides in any order, whether they succeed or
  fail: everything that happens was caused before. A Result that the client reports was completed
  by the server with that terminal status, and for a Goal that the client had seen accepted; a
  Feedback was sent with that number; a Cancel Response was decided so; a Goal Response was decided so, or is the
  server's refusal. The server reports only Goals and Cancels that the client sent, and it decides,
  completes and sends Feedback only for Goals it reported.
\<close>

theorem action_causality:
  assumes "registry_ok E" and "action_system E J config name c wc s ws (T1 @ a # T2)"
  shows "caused T1 a"
  using system_invariant [OF assms] by (simp add: system_ok_def all_caused_def)

end
