(* ===== verification/Action_Call_Examples.thy ===== *)
theory Action_Call_Examples
  imports Action_Call Action_System_Properties Client_Endpoint_Examples
begin

text \<open>
  A concrete run of the two endpoints of the example Action: a Goal, its acceptance, a Feedback, an
  accepted Cancel and the CANCELED Result. The witnesses of the properties across the two
  endpoints apply them to it.
\<close>

section \<open>The steps succeed\<close>

definition w_box :: "(PduResolvedKey \<times> pdu_data) list \<Rightarrow> bool list world" where
  "w_box box = \<lparr>transport = [], outbox = box\<rparr>"

lemma outbox_w_box [simp]: "outbox (w_box box) = box" "w_box box = w_box box' \<longleftrightarrow> box = box'"
  by (simp_all add: w_box_def)

lemma w_box_send [simp]: "endpoint_send example_env k p (w_box box) = (True, w_box (box @ [(k, p)]))"
  by (simp add: w_box_def)

lemma example_idle: "idle_pair example_client example_server 0 g0"
  using example_client_inv by (simp add: idle_pair_def) (simp add: client_example_simps example_simps sm_find_def)

lemma example_server_with:
  assumes "ab_goal_id b = g0"
  shows "sm_find (sv_packet_bindings (server_with example_server b)) g0 = Some b"
    and "sv_slot_routing (server_with example_server b) = map (slot_routing example_env ''Move'' example_definition) [0, 1]"
    and "sv_initialized (server_with example_server b)"
  using server_with_binding(1) [of example_server b] assms by (simp_all add: example_server_def new_ActionServerEndpointImpl_def sm_find_def)

lemma example_client_with:
  assumes "cb_goal_id b = g0"
  shows "sm_find (cl_packet_bindings (client_with example_client b)) g0 = Some b"
    and "cl_slot_routing (client_with example_client b) = map (slot_routing example_env ''Move'' example_definition) [0, 1]"
    and "cl_initialized (client_with example_client b)"
  using client_with_binding(1) [of example_client b] assms
  by (simp_all add: example_client_def new_ActionClientEndpointImpl_def sm_find_def) (simp add: client_with_def)

lemma example_accept_sent:
  assumes "ab_goal_id b = g0" "ab_slot_index b = 0" "ab_state b = AWAITING_GOAL_DECISION"
  shows "\<exists>s' k bytes. ServerEndpoint_accept_goal example_env g0 (server_with example_server b) (w_box box) = (True, s', w_box (box @ [(k, bytes)]))"
  using example_control [OF example_server_with(2) [OF assms(1)] assms(2), of RESPONSE_KIND_GOAL ACCEPTED "w_box box"]
    example_server_with [OF assms(1)] assms(3)
  by (auto simp: ServerEndpoint_accept_goal_def)

lemma example_cancel_sent:
  assumes "ab_goal_id b = g0" "ab_slot_index b = 0" "ab_state b = GOAL_ACCEPTED" "ab_cancel_decision_pending b"
  shows "\<exists>s' k bytes. decide_cancel example_env ACCEPTED g0 (server_with example_server b) (w_box box) = (True, s', w_box (box @ [(k, bytes)]))"
  using example_control [OF example_server_with(2) [OF assms(1)] assms(2), of RESPONSE_KIND_CANCEL ACCEPTED "w_box box"]
    example_server_with [OF assms(1)] assms(3,4)
  by (auto simp: decide_cancel_def ServerEndpoint_accept_cancel_def)

lemma example_feedback_sent:
  assumes "ab_goal_id b = g0" "ab_slot_index b = 0" "ab_state b = GOAL_ACCEPTED"
  shows "\<exists>s' k bytes. ServerEndpoint_send_feedback example_env g0 body_packet (server_with example_server b) (w_box box)
    = (True, s', w_box (box @ [(k, bytes)]))"
  using example_server_with [OF assms(1)] assms(2,3)
  by (simp add: ServerEndpoint_send_feedback_def write_feedback_header_def example_convertors body_packet_def Let_def)

lemma example_complete_sent:
  assumes "ab_goal_id b = g0" "ab_slot_index b = 0" "ab_state b = CANCEL_ACCEPTED"
  shows "\<exists>s' k bytes. ServerEndpoint_complete example_env g0 CANCELED body_packet (server_with example_server b) (w_box box)
    = (SENT, s', w_box (box @ [(k, bytes)]))"
  using example_server_with [OF assms(1)] assms
  by (simp add: ServerEndpoint_complete_def validate_terminal_packet_locked_def send_response_packet_def
      write_response_header_def example_convertors body_packet_def commit_result_def Let_def)

lemma example_client_create [simp]:
  "client_create_packet_buffer example_env 24 0 w = Some ([170, 8, 32, 32, 0, 0, 0, 0] @ replicate 24 0)"
  by (simp add: client_create_packet_buffer_def INT_MAX_def) (simp add: example_env_def)

lemma example_client_cancel_sent:
  assumes "cb_goal_id b = g0" "cb_slot_index b = 0" "cb_state b = CB_ACCEPTED"
  shows "\<exists>c' k bytes. ClientEndpoint_send_cancel example_env g0 (client_with example_client b) (w_box box) = (True, c', w_box (box @ [(k, bytes)]))"
  using example_client_with [OF assms(1)] assms
  by (simp add: ClientEndpoint_send_cancel_def ClientEndpoint_begin_cancel_def ClientEndpoint_transmit_cancel_def
      create_control_request_packet_def
      client_validate_eq write_request_header_def example_convertors Let_def)


section \<open>The run\<close>

definition sent_w :: "bool list world" where
  "sent_w = w_box [(channel_key ''Move'' 0 REQUEST, take 40 sent_goal)]"

abbreviation example_sent :: ClientPacketBinding where
  "example_sent \<equiv> sent_binding example_env g0 0 5 w_ok"

lemma example_goal_step:
  "pair_free example_client example_server 0 g0"
  "ClientEndpoint_send_goal_with_result example_env body_packet g0 5 example_client w_ok = (SUCCESS, client_with example_client example_sent, sent_w)"
  "ServerEndpoint_poll example_env (ServerEndpoint_on_recv 0 (take 40 sent_goal) example_server) v =
     (goal_event example_server SE_GOAL_REQUEST g0 (take 40 sent_goal), server_with example_server (new_binding g0 0), v)"
proof -
  have out: "outbox sent_w = outbox w_ok @ [(channel_key ''Move'' 0 REQUEST, take 40 sent_goal)]" by (simp add: sent_w_def w_ok_def)
  have sent: "ClientEndpoint_send_goal_with_result example_env body_packet g0 5 example_client w_ok = (SUCCESS, bound_client awaiting_binding, sent_w)"
    using example_send_goal(1) by (simp add: sent_w_def w_box_def)
  note x = goal_exchange [OF registry_ok_example example_idle sent out, of v]
  show "pair_free example_client example_server 0 g0"
    "ClientEndpoint_send_goal_with_result example_env body_packet g0 5 example_client w_ok = (SUCCESS, client_with example_client example_sent, sent_w)"
    "ServerEndpoint_poll example_env (ServerEndpoint_on_recv 0 (take 40 sent_goal) example_server) v =
     (goal_event example_server SE_GOAL_REQUEST g0 (take 40 sent_goal), server_with example_server (new_binding g0 0), v)"
    using x sent by simp_all
qed

lemma example_accept_step:
  obtains k bytes where "ServerEndpoint_accept_goal example_env g0 (server_with example_server (new_binding g0 0)) (w_box box)
      = (True, server_with example_server accepted_binding, w_box (box @ [(k, bytes)]))"
    "k = sr_response (cl_slot_routing example_client ! 0)"
    "\<And>v. ClientEndpoint_poll example_env (ClientEndpoint_on_recv 0 PK_RESPONSE bytes (client_with example_client example_sent)) v
      = ((client_goal_event_out example_client CE_GOAL_RESPONSE g0)\<lparr>ce_decision := ACCEPTED, ce_pdu := bytes\<rparr>,
         client_with example_client (example_sent\<lparr>cb_state := CB_ACCEPTED\<rparr>))"
    "lockstep 0 g0 accepted_binding (example_sent\<lparr>cb_state := CB_ACCEPTED\<rparr>)"
proof -
  obtain s' k bytes where a: "ServerEndpoint_accept_goal example_env g0 (server_with example_server (new_binding g0 0)) (w_box box) = (True, s', w_box (box @ [(k, bytes)]))"
    using example_accept_sent [of "new_binding g0 0" box] by (auto simp: new_binding_def)
  note x = accept_exchange [OF registry_ok_example example_goal_step(1) sent_lockstep a, of k bytes example_env 5 w_ok]
  show thesis by (rule that [of k bytes]) (use a x in \<open>auto simp: accepted_binding_def\<close>)
qed

lemma example_run:
  assumes lock: "lockstep 0 g0 b cb" and st: "ab_state b = GOAL_ACCEPTED"
  obtains l b' cb' where "exchanges example_env g0 0 (client_with example_client cb) (server_with example_server b) l
      (client_with example_client cb') (server_with example_server b')"
    "length l = 2" "cancel_accepted l" "lockstep 0 g0 b' cb'" "ab_state b' = CANCEL_ACCEPTED"
proof -
  note reg = registry_ok_example and free = example_goal_step(1)
  let ?b = "b\<lparr>ab_next_feedback_sequence := ab_next_feedback_sequence b + 1\<rparr>"
    and ?cb = "cb\<lparr>cb_next_feedback_sequence := ab_next_feedback_sequence b + 1\<rparr>"
  have lock1: "lockstep 0 g0 ?b ?cb" "ab_state ?b = GOAL_ACCEPTED" and ids: "ab_goal_id b = g0" "ab_slot_index b = 0" "cb_goal_id cb = g0" "cb_slot_index cb = 0" "cb_state cb = CB_ACCEPTED"
    using lock st by (auto simp: lockstep_def)
  obtain s1 k bytes where f: "ServerEndpoint_send_feedback example_env g0 body_packet (server_with example_server b) (w_box []) = (True, s1, w_box ([] @ [(k, bytes)]))"
    using example_feedback_sent ids st by blast
  note fx = feedback_exchange [OF reg free lock f, of k bytes w_ok]
  obtain c1 k1 bytes1 where c: "ClientEndpoint_send_cancel example_env g0 (client_with example_client ?cb) (w_box []) = (True, c1, w_box ([] @ [(k1, bytes1)]))"
    using example_client_cancel_sent [of ?cb "[]"] ids by auto
  note cx = cancel_request_exchange [OF reg free lock1(1) c, of k1 bytes1 "w_box []"]
  obtain s2 k2 bytes2 where d: "decide_cancel example_env ACCEPTED g0 (server_with example_server (?b\<lparr>ab_cancel_decision_pending := True\<rparr>)) (w_box []) = (True, s2, w_box ([] @ [(k2, bytes2)]))"
    using example_cancel_sent [of "?b\<lparr>ab_cancel_decision_pending := True\<rparr>" "[]"] ids st by auto
  obtain b' cb' ev where dx: "s2 = server_with example_server b'" "lockstep 0 g0 b' cb'" "ab_state b' = CANCEL_ACCEPTED"
    "ClientEndpoint_poll example_env (ClientEndpoint_on_recv 0 PK_RESPONSE bytes2 (client_with example_client (?cb\<lparr>cb_state := AWAITING_CANCEL_RESPONSE\<rparr>))) w_ok = (ev, client_with example_client cb')"
    using decide_cancel_exchange [OF reg free lock1 _ d, of k2 bytes2 w_ok] by auto
  have cancel: "exchanges example_env g0 0 (client_with example_client ?cb) (server_with example_server ?b)
      [Cancel_Exchange (k1, bytes1) (goal_event example_server SE_CANCEL_REQUEST g0 bytes1) ACCEPTED (k2, bytes2) ev] (client_with example_client cb') (server_with example_server b')"
    by (rule One_Cancel [OF c, where w = "w_box []" and v = w_ok]) (use cx d dx in \<open>auto intro: No_Exchange\<close>)
  show thesis
    by (rule that [OF One_Feedback [OF f, where m = "(k, bytes)" and v = w_ok]]) (use fx cancel dx in auto)
qed

section \<open>Witnesses\<close>

theorem action_causality_witness:
  "\<exists>c s ws bytes. let T = [Sent_Goal g0, Server_Saw (goal_event example_server SE_GOAL_REQUEST g0 (take 40 sent_goal)), Goal_Decided g0 ACCEPTED];
       ev = (client_goal_event_out example_client CE_GOAL_RESPONSE g0)\<lparr>ce_decision := ACCEPTED, ce_pdu := bytes\<rparr>
     in action_system example_env value_json_ops example_action ''Move'' c sent_w s ws (T @ [Client_Saw ev]) \<and> caused T (Client_Saw ev)"
proof -
  let ?sys = "action_system example_env value_json_ops example_action ''Move''"
  let ?ev = "goal_event example_server SE_GOAL_REQUEST g0 (take 40 sent_goal)" and ?c = "client_with example_client example_sent"
  obtain k bytes where a: "ServerEndpoint_accept_goal example_env g0 (server_with example_server (new_binding g0 0)) (w_box [])
      = (True, server_with example_server accepted_binding, w_box [(k, bytes)])" "k = sr_response (cl_slot_routing example_client ! 0)"
    and p: "ClientEndpoint_poll example_env (ClientEndpoint_on_recv 0 PK_RESPONSE bytes ?c) sent_w
      = ((client_goal_event_out example_client CE_GOAL_RESPONSE g0)\<lparr>ce_decision := ACCEPTED, ce_pdu := bytes\<rparr>,
         client_with example_client (example_sent\<lparr>cb_state := CB_ACCEPTED\<rparr>))"
    using example_accept_step [of "[]"] by (metis append_Nil)
  have "?sys example_client w_ok example_server (w_box []) []"
    by (rule Start [OF example_client_initialize example_initialize]) (simp_all add: w_ok_def)
  from Client_Send_Goal [OF this g0_valid(2) example_goal_step(2)]
  have "?sys ?c sent_w example_server (w_box []) [Sent_Goal g0]" by simp
  from Server_Receive [OF this, of "channel_key ''Move'' 0 REQUEST" "take 40 sent_goal" 0]
  have "?sys ?c sent_w (ServerEndpoint_on_recv 0 (take 40 sent_goal) example_server) (w_box []) [Sent_Goal g0]"
    by (simp add: sent_w_def example_server_def)
  from Server_Poll [OF this example_goal_step(3)]
  have "?sys ?c sent_w (server_with example_server (new_binding g0 0)) (w_box []) [Sent_Goal g0, Server_Saw ?ev]"
    by (simp add: refusals_def map_filter_simps)
  from Server_Accept_Goal [OF this a(1)]
  have "?sys ?c sent_w (server_with example_server accepted_binding) (w_box [(k, bytes)]) [Sent_Goal g0, Server_Saw ?ev, Goal_Decided g0 ACCEPTED]"
    by simp
  from Client_Receive [OF this, of k bytes 0 PK_RESPONSE]
  have "?sys (ClientEndpoint_on_recv 0 PK_RESPONSE bytes ?c) sent_w (server_with example_server accepted_binding) (w_box [(k, bytes)])
      [Sent_Goal g0, Server_Saw ?ev, Goal_Decided g0 ACCEPTED]"
    by (simp add: a(2) client_with_def client_example_simps)
  note run = Client_Poll [OF this p]
  show ?thesis unfolding Let_def using run action_causality [OF registry_ok_example run] by blast
qed

theorem action_goal_roundtrip_witness:
  "\<exists>l c3 s3 ws3 ws4 k4 bytes4. exchanges example_env g0 0 (client_with example_client (example_sent\<lparr>cb_state := CB_ACCEPTED\<rparr>))
       (server_with example_server accepted_binding) l c3 s3 \<and> length l = 2 \<and> cancel_accepted l
     \<and> agrees example_client example_server (cl_slot_routing example_client ! 0) g0 0 l
     \<and> ServerEndpoint_complete example_env g0 CANCELED body_packet s3 ws3 = (SENT, example_server, ws4)
     \<and> outbox ws4 = outbox ws3 @ [(k4, bytes4)]
     \<and> ClientEndpoint_poll example_env (ClientEndpoint_on_recv 0 PK_RESPONSE bytes4 c3) w_ok
         = ((client_goal_event_out example_client CE_RESULT g0)\<lparr>ce_terminal_status := CANCELED, ce_pdu := bytes4\<rparr>, example_client)"
proof -
  let ?cb = "example_sent\<lparr>cb_state := CB_ACCEPTED\<rparr>" and ?b = accepted_binding
  note reg = registry_ok_example and free = example_goal_step(1)
  obtain k2 bytes2 where a: "ServerEndpoint_accept_goal example_env g0 (server_with example_server (new_binding g0 0)) (w_box [])
      = (True, server_with example_server ?b, w_box [(k2, bytes2)])"
    and ap: "ClientEndpoint_poll example_env (ClientEndpoint_on_recv 0 PK_RESPONSE bytes2 (client_with example_client example_sent)) w_ok
      = ((client_goal_event_out example_client CE_GOAL_RESPONSE g0)\<lparr>ce_decision := ACCEPTED, ce_pdu := bytes2\<rparr>, client_with example_client ?cb)"
    and lock: "lockstep 0 g0 ?b ?cb"
    using example_accept_step [of "[]"] by (metis append_Nil)
  have st: "ab_state ?b = GOAL_ACCEPTED" by (simp add: accepted_binding_def)
  obtain l b' cb' where run: "exchanges example_env g0 0 (client_with example_client ?cb) (server_with example_server ?b) l
      (client_with example_client cb') (server_with example_server b')"
    and l: "length l = 2" "cancel_accepted l" and b': "lockstep 0 g0 b' cb'" "ab_state b' = CANCEL_ACCEPTED"
    using example_run [OF lock st] by metis
  obtain s4 k4 bytes4 where r: "ServerEndpoint_complete example_env g0 CANCELED body_packet (server_with example_server b') (w_box []) = (SENT, s4, w_box ([] @ [(k4, bytes4)]))"
    using example_complete_sent [of b' "[]"] b' by (auto simp: lockstep_def)
  obtain ev4 c4 where p: "ClientEndpoint_poll example_env (ClientEndpoint_on_recv 0 PK_RESPONSE bytes4 (client_with example_client cb')) w_ok = (ev4, c4)"
    by (metis surj_pair)
  have "outbox sent_w = outbox w_ok @ [(channel_key ''Move'' 0 REQUEST, take 40 sent_goal)]" by (simp add: sent_w_def w_ok_def)
  from action_goal_roundtrip [OF registry_ok_example example_idle example_goal_step(2) this example_goal_step(3) a _ ap run r _ p]
  have "agrees example_client example_server (cl_slot_routing example_client ! 0) g0 0 l" "c4 = example_client" "s4 = example_server"
    "ev4 = (client_goal_event_out example_client CE_RESULT g0)\<lparr>ce_terminal_status := CANCELED, ce_pdu := bytes4\<rparr>"
    by simp_all
  with run l r p show ?thesis
    by (intro exI [of _ l] exI [of _ "client_with example_client cb'"] exI [of _ "server_with example_server b'"] exI [of _ "w_box []"]
        exI [of _ "w_box [(k4, bytes4)]"] exI [of _ k4] exI [of _ bytes4]) simp
qed

end
