(* ===== verification/Rpc_Service_Helper.thy ===== *)
theory Rpc_Service_Helper
  imports Rpc_Mux Rpc_Services_Examples
begin

text \<open>
  The typed helper of \<open>include/hakoniwa/pdu/rpc/rpc_service_helper.hpp\<close>: requests and responses
  whose bodies are C++ values. The class is a template over the packet types and their
  generated convertors, which belong to the PDU registry; a convertor is a parameter, given by
  the four operations that the code uses of it.

  The output parameters \<open>req_body\<close> and \<open>res_body\<close> are set only on success and are returned as an
  option; the output packets are returned with the result.
\<close>

section \<open>Convertors\<close>

record ('p, 'b) packet_convertor =
  pdu2cpp :: "pdu_data \<Rightarrow> 'p option"
  cpp2pdu :: "'p \<Rightarrow> pdu_data \<Rightarrow> int \<times> pdu_data"
  packet_body :: "'p \<Rightarrow> 'b"
  set_packet_body :: "'b \<Rightarrow> 'p \<Rightarrow> 'p"

section \<open>Operations\<close>

definition get_request_body :: "('p, 'b) packet_convertor \<Rightarrow> RpcRequest \<Rightarrow> 'b option" where
  "get_request_body C request = map_option (packet_body C) (pdu2cpp C (rr_pdu request))"

definition get_response_body :: "('p, 'b) packet_convertor \<Rightarrow> RpcResponse \<Rightarrow> 'b option" where
  "get_response_body C response = map_option (packet_body C) (pdu2cpp C (rp_pdu response))"

text \<open>\<open>encode_response_body\<close>; \<open>set_request_body\<close> has the same steps for the request packet.\<close>

definition encode_body :: "('p, 'b) packet_convertor \<Rightarrow> 'b \<Rightarrow> pdu_data \<Rightarrow> bool \<times> pdu_data" where
  "encode_body C body pdu =
     (case pdu2cpp C pdu of
        None \<Rightarrow> (False, pdu)
      | Some packet \<Rightarrow>
          (case cpp2pdu C (set_packet_body C body packet) pdu of
             (n, pdu') \<Rightarrow> if n < 0 then (False, pdu') else (True, pdu')))"

definition helper_set_response_body ::
    "('p, 'b) packet_convertor \<Rightarrow> 'w rpc_env \<Rightarrow> RpcRequest \<Rightarrow> byte \<Rightarrow> int32 \<Rightarrow> 'b \<Rightarrow> pdu_data
     \<Rightarrow> 'e RpcServicesServer \<Rightarrow> ('e, 'w) rpc_worlds \<Rightarrow> bool \<times> pdu_data" where
  "helper_set_response_body C E request status result_code body pdu s ws =
     encode_body C body (RpcServicesServer_create_reply_buffer E (rr_header request) status result_code pdu s ws)"

definition helper_mux_set_response_body ::
    "('p, 'b) packet_convertor \<Rightarrow> 'w rpc_env \<Rightarrow> RpcMuxRequest \<Rightarrow> byte \<Rightarrow> int32 \<Rightarrow> 'b \<Rightarrow> pdu_data
     \<Rightarrow> ('e, 'w) RpcServicesMuxServer \<Rightarrow> bool \<times> pdu_data" where
  "helper_mux_set_response_body C E request status result_code body pdu m =
     (case RpcMux_create_reply_buffer E request status result_code pdu m of
        (False, pdu') \<Rightarrow> (False, pdu')
      | (True, pdu') \<Rightarrow> encode_body C body pdu')"

text \<open>The result of \<open>create_request_buffer\<close> is not looked at.\<close>

definition helper_set_request_body ::
    "('p, 'b) packet_convertor \<Rightarrow> 'w rpc_env \<Rightarrow> string \<Rightarrow> 'b \<Rightarrow> pdu_data \<Rightarrow> 'e RpcServicesClient \<Rightarrow> ('e, 'w) rpc_worlds
     \<Rightarrow> bool \<times> pdu_data \<times> 'e RpcServicesClient" where
  "helper_set_request_body C E service body pdu s ws =
     (case RpcServicesClient_create_request_buffer E service HAKO_SERVICE_OPERATION_CODE_REQUEST pdu s ws of
        (_, pdu1, s1) \<Rightarrow> (case encode_body C body pdu1 of (ok, pdu2) \<Rightarrow> (ok, pdu2, s1)))"

definition helper_call ::
    "('p, 'b) packet_convertor \<Rightarrow> 'w rpc_env \<Rightarrow> string \<Rightarrow> 'b \<Rightarrow> uint64 \<Rightarrow> 'e RpcServicesClient \<Rightarrow> ('e, 'w) rpc_worlds
     \<Rightarrow> bool \<times> 'e RpcServicesClient \<times> ('e, 'w) rpc_worlds" where
  "helper_call C E service body timeout_usec s ws =
     (case helper_set_request_body C E service body [] s ws of
        (False, _, s1) \<Rightarrow> (False, s1, ws)
      | (True, pdu, s1) \<Rightarrow> RpcServicesClient_call E service pdu timeout_usec s1 ws)"

definition helper_reply ::
    "('p, 'b) packet_convertor \<Rightarrow> 'w rpc_env \<Rightarrow> RpcRequest \<Rightarrow> byte \<Rightarrow> int32 \<Rightarrow> 'b \<Rightarrow> 'e RpcServicesServer \<Rightarrow> ('e, 'w) rpc_worlds
     \<Rightarrow> bool \<times> 'e RpcServicesServer \<times> ('e, 'w) rpc_worlds" where
  "helper_reply C E request status result_code body s ws =
     (case helper_set_response_body C E request status result_code body [] s ws of
        (False, _) \<Rightarrow> (False, s, ws)
      | (True, pdu) \<Rightarrow> (case RpcServicesServer_send_reply E (rr_header request) pdu s ws of (s', ws') \<Rightarrow> (True, s', ws')))"

definition helper_mux_reply ::
    "('p, 'b) packet_convertor \<Rightarrow> 'w rpc_env \<Rightarrow> RpcMuxRequest \<Rightarrow> byte \<Rightarrow> int32 \<Rightarrow> 'b \<Rightarrow> ('e, 'w) RpcServicesMuxServer
     \<Rightarrow> bool \<times> ('e, 'w) RpcServicesMuxServer" where
  "helper_mux_reply C E request status result_code body m =
     (case helper_mux_set_response_body C E request status result_code body [] m of
        (False, _) \<Rightarrow> (False, m)
      | (True, pdu) \<Rightarrow> RpcMux_send_reply E request pdu m)"

section \<open>What the helper relies on\<close>

text \<open>
  A packet that was written is read back as it was; its body is the one that was set; and
  changing the body of a packet in a buffer leaves what the header convertor reads of it.
\<close>

definition packet_convertor_ok :: "(pdu_data \<Rightarrow> 'h \<Rightarrow> 'h) \<Rightarrow> ('p, 'b) packet_convertor \<Rightarrow> bool" where
  "packet_convertor_ok read_header C \<longleftrightarrow>
     (\<forall>p b n b'. cpp2pdu C p b = (n, b') \<and> 0 \<le> n \<longrightarrow> pdu2cpp C b' = Some p)
   \<and> (\<forall>x p. packet_body C (set_packet_body C x p) = x)
   \<and> (\<forall>x p b n b' h. pdu2cpp C b = Some p \<and> cpp2pdu C (set_packet_body C x p) b = (n, b') \<and> 0 \<le> n
        \<longrightarrow> read_header b' h = read_header b h)"

lemma encode_body_ok:
  assumes "packet_convertor_ok read_header C" and "encode_body C body pdu = (True, pdu')"
  shows "map_option (packet_body C) (pdu2cpp C pdu') = Some body" and "read_header pdu' h = read_header pdu h"
proof -
  obtain p where p: "pdu2cpp C pdu = Some p" using assms(2) by (cases "pdu2cpp C pdu") (auto simp: encode_body_def)
  obtain n where n: "cpp2pdu C (set_packet_body C body p) pdu = (n, pdu')" "0 \<le> n"
    using assms(2) p by (auto simp: encode_body_def split: prod.splits if_splits)
  have "pdu2cpp C pdu' = Some (set_packet_body C body p)" "packet_body C (set_packet_body C body p) = body"
    "read_header pdu' h = read_header pdu h"
    using assms(1) p n unfolding packet_convertor_ok_def by blast+
  then show "map_option (packet_body C) (pdu2cpp C pdu') = Some body" and "read_header pdu' h = read_header pdu h" by simp_all
qed

section \<open>One typed call\<close>

text \<open>What goes out when the helper's call is accepted.\<close>

lemma helper_call_sends:
  assumes codec: "rpc_codec_ok E m n" and conv: "packet_convertor_ok (request_pdu2cpp E) C"
    and cl: "sm_find (rcvc_rpc_endpoints s) service = Some (e, cl)" "rcl_service_name cl = service" "fits_name m service"
      "fits_name m (rcl_client_name cl)"
    and size: "n \<le> unat (get_pdu_size E (rw_defs (ws e)) (service, rcl_client_name cl @ ''Req''))"
    and call: "helper_call C E service body timeout s ws = (True, s', ws')"
  shows "\<exists>req cl2. rw_outbox (ws' e) = rw_outbox (ws e) @ [((service, rcl_client_name cl @ ''Req''), req)]
    \<and> map_option (packet_body C) (pdu2cpp C req) = Some body
    \<and> (\<forall>h0. request_pdu2cpp E req h0 = request_service_header cl HAKO_SERVICE_OPERATION_CODE_REQUEST (cps_request_id (rcl_client_state cl2)))
    \<and> sm_find (rcvc_rpc_endpoints s') service = Some (e, cl2)
    \<and> cl2 = cl\<lparr>rcl_current_request_id := rcl_current_request_id cl + 1,
        rcl_client_state := \<lparr>cps_request_id = ucast (rcl_current_request_id cl + 1), cps_state = CLIENT_STATE_RUNNING\<rparr>,
        rcl_current_timeout_usec := timeout, rcl_request_start_time_usec := rpc_microseconds E (rw_transport (ws e))\<rparr>"
proof -
  obtain pdu cl1 where c: "RpcClient_create_request_buffer E HAKO_SERVICE_OPERATION_CODE_REQUEST False [] cl (ws e) = (pdu, cl1)"
    by fastforce
  let ?s1 = "s\<lparr>rcvc_rpc_endpoints := sm_update service (\<lambda>_. (e, cl1)) (rcvc_rpc_endpoints s)\<rparr>"
  have created: "RpcServicesClient_create_request_buffer E service HAKO_SERVICE_OPERATION_CODE_REQUEST [] s ws = (True, pdu, ?s1)"
    using cl(1) c by (simp add: RpcServicesClient_create_request_buffer_def rpc_constants)
  obtain req where enc: "encode_body C body pdu = (True, req)"
    and sent: "RpcServicesClient_call E service req timeout ?s1 ws = (True, s', ws')"
    using call created by (auto simp: helper_call_def helper_set_request_body_def split: prod.splits bool.splits)
  have find1: "sm_find (rcvc_rpc_endpoints ?s1) service = Some (e, cl1)" using cl(1) by simp
  obtain cl2 w where called: "RpcClient_call E req timeout cl1 (ws e) = (True, cl2, w)"
    and s': "s' = ?s1\<lparr>rcvc_rpc_endpoints := sm_update service (\<lambda>_. (e, cl2)) (rcvc_rpc_endpoints ?s1)\<rparr>" "ws' = ws(e := w)"
    using sent find1 by (auto simp: RpcServicesClient_call_def split: prod.splits)
  have cl1: "cl1 = cl\<lparr>rcl_current_request_id := rcl_current_request_id cl + 1\<rparr>"
    and read: "request_pdu2cpp E pdu h0 = request_service_header cl HAKO_SERVICE_OPERATION_CODE_REQUEST (ucast (rcl_current_request_id cl1))" for h0
    using created_request_readable [OF codec _ _ _ c] cl size by simp_all
  note acc = call_accepted [OF called]
  have "rw_outbox (ws' e) = rw_outbox (ws e) @ [((service, rcl_client_name cl @ ''Req''), req)]"
    using acc(2) s'(2) cl1 cl(2) by simp
  moreover have "map_option (packet_body C) (pdu2cpp C req) = Some body" by (rule encode_body_ok(1) [OF conv enc])
  moreover have "request_pdu2cpp E req h0 = request_service_header cl HAKO_SERVICE_OPERATION_CODE_REQUEST (cps_request_id (rcl_client_state cl2))" for h0
    using encode_body_ok(2) [OF conv enc] read acc(1) by simp
  moreover have "sm_find (rcvc_rpc_endpoints s') service = Some (e, cl2)" using s'(1) find1 by simp
  ultimately show ?thesis using acc(1) cl1 by (intro exI [of _ req] exI [of _ cl2]) simp
qed

text \<open>The server: the only queued packet of all its services is the request.\<close>

lemma poll_endpoints_single:
  assumes "distinct (map fst xs)" and "sm_find xs n = Some (e, st)"
    and "\<forall>(k, d, st')\<in>set xs. k \<noteq> n \<longrightarrow> rsv_pending_requests st' = []"
    and "RpcServer_poll E q st (ws e) = (ev, q', st', w')" and "ev \<noteq> RSE_NONE"
  shows "poll_server_endpoints E q xs ws = (ev, q', sm_update n (\<lambda>_. (e, st')) xs, ws(e := w'))"
  using assms(1-3)
proof (induction xs)
  case (Cons x xs)
  obtain k d stk where x: "x = (k, d, stk)" by (metis prod_cases3)
  show ?case
  proof (cases "k = n")
    case True
    moreover have "(e, st) = (d, stk)" using Cons.prems(2) x True by (simp add: sm_find_def)
    moreover have "sm_update n (\<lambda>_. (e, st')) xs = xs" using Cons.prems(1) x True
      by (force simp: sm_update_def intro!: map_idI)
    ultimately show ?thesis using assms(4,5) x by (simp add: sm_update_def fun_eq_iff)
  next
    case False
    then have idle: "RpcServer_poll E q stk (ws d) = (RSE_NONE, q, stk, ws d)" using Cons.prems(3) x by (simp add: RpcServer_poll_def)
    have "poll_server_endpoints E q xs ws = (ev, q', sm_update n (\<lambda>_. (e, st')) xs, ws(e := w'))"
      using Cons.IH Cons.prems False x by (auto simp: sm_find_def fun_eq_iff)
    then show ?thesis using idle x False by (simp add: sm_update_def fun_eq_iff)
  qed
qed (simp add: sm_find_def)

lemma queued_0: "queued xs = 0 \<longleftrightarrow> (\<forall>(k, d, st)\<in>set xs. rsv_pending_requests st = [])"
  by (auto simp: queued_def sum_list_eq_0_iff)

lemma services_take_request:
  assumes ok: "rpc_services_ok s" and sv: "sm_find (rsvc_rpc_endpoints s) service = Some (e, sv)" "rsv_has_endpoint sv"
      "slots sv client = Some SlotIdle" and queue: "queued (rsvc_rpc_endpoints s) = 0"
    and req: "\<And>h0. request_pdu2cpp E req h0 = rh" and header: "rqs_service_name rh = service" "rqs_client_name rh = client" "client \<noteq> []"
      "rqs_opcode rh = HAKO_SERVICE_OPERATION_CODE_REQUEST"
    and poll: "RpcServicesServer_poll E q (RpcServicesServer_receive E service key req s ws) ws = (ev, q', s1, ws1)"
  shows "ev = RSE_REQUEST_IN \<and> q' = \<lparr>rr_client_name = client, rr_header = rh, rr_pdu = req\<rparr> \<and> ws1 = ws
    \<and> (\<exists>sv1. sm_find (rsvc_rpc_endpoints s1) service = Some (e, sv1) \<and> slots sv1 client = Some (SlotRunning (rqs_request_id rh))
         \<and> rsv_service_name sv1 = service)"
proof -
  let ?sv = "RpcServer_on_recv E key req sv (ws e)" and ?xs = "rsvc_rpc_endpoints s"
  have inv: "rpc_server_inv sv" "rsv_service_name sv = service" using services_ok_find [OF ok sv(1)] by simp_all
  have dist: "distinct (map fst ?xs)" using ok by (simp add: rpc_services_ok_def sm_ok_def)
  have mem: "(service, e, sv) \<in> set ?xs" using sv(1) by (auto simp: sm_find_def dest: map_of_SomeD)
  then have none: "rsv_pending_requests sv = []" using queue by (auto simp: queued_0)
  obtain ev1 q1 sv1 w1 where p: "RpcServer_poll E q ?sv (ws e) = (ev1, q1, sv1, w1)" by (metis surj_pair)
  have taken: "ev1 = RSE_REQUEST_IN \<and> q1 = \<lparr>rr_client_name = client, rr_header = rh, rr_pdu = req\<rparr>
      \<and> slots sv1 = (slots sv)(client \<mapsto> SlotRunning (rqs_request_id rh)) \<and> w1 = ws e \<and> rsv_service_name sv1 = service"
    using server_takes_request [OF inv(1) sv(2) none req _ _ _ header(4) p] header inv sv(3) by simp
  let ?ys = "sm_update service (\<lambda>(d, st). (d, RpcServer_on_recv E key req st (ws d))) ?xs"
  have "poll_server_endpoints E q ?ys ws = (ev1, q1, sm_update service (\<lambda>_. (e, sv1)) ?ys, ws(e := w1))"
  proof (rule poll_endpoints_single)
    show "distinct (map fst ?ys)" using dist by (simp add: keys_sm_update)
    show "sm_find ?ys service = Some (e, ?sv)" using sv(1) by simp
    show "\<forall>(k, d, st')\<in>set ?ys. k \<noteq> service \<longrightarrow> rsv_pending_requests st' = []"
      using queue by (fastforce simp: queued_0 sm_update_def)
  qed (use p taken in simp_all)
  then have "ev = ev1 \<and> q' = q1 \<and> ws1 = ws(e := w1) \<and> rsvc_rpc_endpoints s1 = sm_update service (\<lambda>_. (e, sv1)) ?ys"
    using poll by (auto simp: RpcServicesServer_poll_def RpcServicesServer_receive_def)
  then show ?thesis using taken sv(1) by simp
qed

lemma helper_reply_sends:
  assumes codec: "rpc_codec_ok E m n" and conv: "packet_convertor_ok (response_pdu2cpp E) C"
    and sv: "sm_find (rsvc_rpc_endpoints s) service = Some (e, sv)" "rsv_service_name sv = service" "slots sv client = Some (SlotRunning i)"
    and q: "rqs_service_name (rr_header q) = service" "rqs_client_name (rr_header q) = client" "fits_name m service" "fits_name m client"
    and size: "n \<le> unat (get_pdu_size E (rw_defs (ws e)) (service, client @ ''Res''))"
    and reply: "helper_reply C E q status code body s ws = (True, s', ws')"
  shows "\<exists>rep. ws' e = snd (rpc_send E (service, client @ ''Res'') rep (ws e))
    \<and> map_option (packet_body C) (pdu2cpp C rep) = Some body
    \<and> (\<forall>h0. response_pdu2cpp E rep h0 = reply_header (rr_header q) status code)"
proof -
  let ?b = "RpcServer_create_reply_buffer E (rr_header q) status code [] (ws e)"
  have created: "RpcServicesServer_create_reply_buffer E (rr_header q) status code [] s ws = ?b"
    using sv(1) q(1) by (simp add: RpcServicesServer_create_reply_buffer_def)
  obtain rep where enc: "encode_body C body ?b = (True, rep)"
    and sent: "RpcServicesServer_send_reply E (rr_header q) rep s ws = (s', ws')"
    using reply created by (auto simp: helper_reply_def helper_set_response_body_def split: prod.splits bool.splits)
  obtain sv' w' where r: "RpcServer_send_reply E client rep sv (ws e) = (sv', w')" by fastforce
  have "ws' e = w'" using sent sv(1) q r by (auto simp: RpcServicesServer_send_reply_def)
  moreover have "w' = snd (rpc_send E (service, client @ ''Res'') rep (ws e))" using server_replies(2) [OF sv(3) r] sv(2) by simp
  moreover have "response_pdu2cpp E rep h0 = reply_header (rr_header q) status code" for h0
    using encode_body_ok(2) [OF conv enc] created_reply_readable [OF codec, of "rr_header q"] q size by simp
  ultimately show ?thesis using encode_body_ok(1) [OF conv enc] by auto
qed

text \<open>The client: a reply to its running call that arrives in time.\<close>

lemma client_takes_reply:
  assumes cl: "rcl_has_endpoint cl" "rcl_pending_responses cl = []" "cps_state (rcl_client_state cl) = CLIENT_STATE_RUNNING"
      "rcl_service_name cl = rqs_service_name h" "rcl_client_name cl = rqs_client_name h" "cps_request_id (rcl_client_state cl) = rqs_request_id h"
    and response: "get_pdu_name E (rw_defs w) rkey = rcl_client_name cl @ ''Res''" "\<not> response_timeout (rpc_microseconds E (rw_transport w)) cl"
    and read: "\<And>h0. response_pdu2cpp E rep h0 = reply_header h status code"
    and code: "sint code < HAKO_SERVICE_RESULT_CODE_NUM" "code \<noteq> HAKO_SERVICE_RESULT_CODE_CANCELED"
  shows "RpcClient_poll E h0 r (RpcClient_on_recv E rkey rep cl w) w
    = (RCE_RESPONSE_IN, \<lparr>rp_header = reply_header h status code, rp_pdu = rep\<rparr>, set_client_state CLIENT_STATE_IDLE cl)"
proof -
  let ?p = "\<lparr>ps_pdu_key = (fst rkey, rcl_client_name cl @ ''Res''), ps_pdu_data = rep\<rparr>" and ?cl = "RpcClient_on_recv E rkey rep cl w"
  have cl3: "?cl = cl\<lparr>rcl_pending_responses := [?p]\<rparr>" and cl4: "cl\<lparr>rcl_pending_responses := []\<rparr> = cl"
    using response(1) cl(1,2) by (simp_all add: RpcClient_on_recv_def)
  have "RpcClient_poll E h0 r ?cl w = (response_event ?cl (reply_header h status code), \<lparr>rp_header = reply_header h status code, rp_pdu = ps_pdu_data ?p\<rparr>,
       set_client_state CLIENT_STATE_IDLE (?cl\<lparr>rcl_pending_responses := [] @ []\<rparr>))"
    by (rule client_poll_hit) (use response(2) read cl3 cl(3,6) in \<open>simp_all add: response_id_def reply_header_def response_timeout_def\<close>)
  moreover have "response_event ?cl (reply_header h status code) = RCE_RESPONSE_IN"
    using code cl3 cl(4,5,6) by (simp add: response_event_def reply_header_def)
  ultimately show ?thesis using cl3 cl4 by simp
qed


section \<open>An example\<close>

text \<open>A convertor for the example environment: the body is the byte at offset 30 of a PDU of 40 bytes.\<close>

definition byte_convertor :: "(pdu_data \<times> byte \<times> pdu_data, byte) packet_convertor" where
  "byte_convertor = \<lparr>
     pdu2cpp = (\<lambda>b. if length b = 40 then Some (take 30 b, byte_at b 30, drop 31 b) else None),
     cpp2pdu = (\<lambda>(p, x, r) b. if length p = 30 \<and> length r = 9 then (40, p @ x # r) else (- 1, b)),
     packet_body = (\<lambda>(p, x, r). x),
     set_packet_body = (\<lambda>x (p, _, r). (p, x, r))\<rparr>"

lemma byte_convertor_ok:
  assumes "\<And>p r r' h. length p = 30 \<Longrightarrow> read_header (p @ r) h = read_header (p @ r') h"
  shows "packet_convertor_ok read_header byte_convertor"
proof -
  have "read_header (take 30 b @ x # r) h = read_header b h" if "length b = 40" for b x r h
    using assms [of "take 30 b" "x # r" h "drop 30 b"] that by simp
  then show ?thesis
    by (auto simp: packet_convertor_ok_def byte_convertor_def byte_at_def nth_append split: if_splits)
qed

lemma byte_convertor_ok_example:
  "packet_convertor_ok (request_pdu2cpp rpc_example) byte_convertor" "packet_convertor_ok (response_pdu2cpp rpc_example) byte_convertor"
  by (rule byte_convertor_ok; simp add: rpc_example_def read_name_def byte_at_def nth_append)+

definition typed_client :: "unit RpcServicesClient" where
  "typed_client = (new_RpcServicesClient ''c'' ''C'' ''p'')\<lparr>rcvc_rpc_endpoints := [(''S'', (), rpc_example_client)]\<rparr>"

definition typed_server :: "unit RpcServicesServer" where
  "typed_server = (new_RpcServicesServer ''n'' ''RpcServerEndpointImpl'' ''p'')\<lparr>rsvc_rpc_endpoints := [(''S'', (), rpc_example_server)]\<rparr>"

lemma encode_byte: "length b = 40 \<Longrightarrow> encode_body byte_convertor x b = (True, take 30 b @ x # drop 31 b)"
  by (simp add: encode_body_def byte_convertor_def)

lemma typed_call:
  "\<exists>c1 w1 req cl1. helper_call byte_convertor rpc_example ''S'' 7 100 typed_client (\<lambda>_. rpc_example_world 0) = (True, c1, w1)
     \<and> rw_outbox (w1 ()) = [((''S'', ''CReq''), req)] \<and> sm_find (rcvc_rpc_endpoints c1) ''S'' = Some ((), cl1)
     \<and> rcl_current_timeout_usec cl1 = 100 \<and> rcl_request_start_time_usec cl1 = 0"
proof -
  obtain pdu cl0 where c: "RpcClient_create_request_buffer rpc_example HAKO_SERVICE_OPERATION_CODE_REQUEST False [] rpc_example_client (rpc_example_world 0)
      = (pdu, cl0)" by fastforce
  then have cl0: "length pdu = 40" "cl0 = rpc_example_client\<lparr>rcl_current_request_id := 1\<rparr>"
    by (auto simp: RpcClient_create_request_buffer_def rpc_example_def overwrite_def resize_def le32_def rpc_example_client_def new_RpcClientEndpointImpl_def Let_def)
  show ?thesis
    using c cl0 by (simp add: helper_call_def helper_set_request_body_def RpcServicesClient_create_request_buffer_def typed_client_def
      sm_find_def sm_update_def encode_byte RpcServicesClient_call_def RpcClient_call_def RpcClient_send_request_def rpc_send_def
      rpc_constants rpc_example_client_def new_RpcClientEndpointImpl_def rpc_example_world_def rpc_example_def Let_def)
qed

lemma typed_reply:
  assumes "sm_find (rsvc_rpc_endpoints s) ''S'' = Some ((), sv)" and "rsv_service_name sv = ''S''" and "slots sv ''C'' = Some (SlotRunning i)"
    and "rqs_service_name (rr_header q) = ''S''" and "rqs_client_name (rr_header q) = ''C''"
  shows "\<exists>s' ws' rep. helper_reply byte_convertor rpc_example q 2 0 9 s (\<lambda>_. rpc_example_world 5) = (True, s', ws')
    \<and> rw_outbox (ws' ()) = [((''S'', ''CRes''), rep)]"
proof -
  let ?b = "RpcServer_create_reply_buffer rpc_example (rr_header q) 2 0 [] (rpc_example_world 5)"
  have b: "length ?b = 40"
    by (simp add: RpcServer_create_reply_buffer_def rpc_example_def overwrite_def resize_def le32_def Let_def)
  obtain sv' w' where r: "RpcServer_send_reply rpc_example ''C'' (take 30 ?b @ 9 # drop 31 ?b) sv (rpc_example_world 5) = (sv', w')" by fastforce
  have "w' = snd (rpc_send rpc_example (''S'', ''CRes'') (take 30 ?b @ 9 # drop 31 ?b) (rpc_example_world 5))"
    using server_replies(2) [OF assms(3) r] assms(2) by simp
  then have "rw_outbox w' = [((''S'', ''CRes''), take 30 ?b @ 9 # drop 31 ?b)]" by (simp add: rpc_send_def rpc_example_def rpc_example_world_def)
  then show ?thesis
    using assms r by (simp add: helper_reply_def helper_set_response_body_def RpcServicesServer_create_reply_buffer_def
      RpcServicesServer_send_reply_def encode_byte [OF b])
qed


end
