(* ===== verification/Add_Example.thy ===== *)
theory Add_Example
  imports Rpc_Service_Helper Number_Text
begin

text \<open>
  The example programs \<open>examples/rpc_server.cpp\<close> and \<open>examples/rpc_client.cpp\<close>: a service that adds
  two integers, over the typed helper and the RPC services.

  The generated message types have the 64-bit members \<open>a\<close>, \<open>b\<close> and \<open>sum\<close>; their convertors are
  parameters. What happens between two polls, when the threads of the transport run and time passes, is an
  arbitrary function on the services and the worlds of their endpoints, one for each pause.
\<close>

type_synonym int64_t = "64 word"

type_synonym ('s, 'e, 'w) pause = "'s \<times> ('e, 'w) rpc_worlds \<Rightarrow> 's \<times> ('e, 'w) rpc_worlds"

section \<open>The server\<close>

text \<open>
  One pass of the loop; \<open>q0\<close> is what the new request object holds. The sum is that of 64-bit
  words; a signed overflow, which C++ leaves undefined, is excluded where the sum is used.
\<close>

definition add_serve ::
    "('p, int64_t \<times> int64_t) packet_convertor \<Rightarrow> ('r, int64_t) packet_convertor \<Rightarrow> 'w rpc_env \<Rightarrow> RpcRequest
     \<Rightarrow> 'e RpcServicesServer \<Rightarrow> ('e, 'w) rpc_worlds \<Rightarrow> 'e RpcServicesServer \<times> ('e, 'w) rpc_worlds" where
  "add_serve Cq Cr E q0 s ws =
     (case RpcServicesServer_poll E q0 s ws of
        (event, req, s1, ws1) \<Rightarrow>
          if event = RSE_REQUEST_IN
          then (case get_request_body Cq req of
                  None \<Rightarrow> (s1, ws1)
                | Some (a, b) \<Rightarrow>
                    snd (helper_reply Cr E req HAKO_SERVICE_STATUS_DONE HAKO_SERVICE_RESULT_CODE_OK (a + b) s1 ws1))
          else (s1, ws1))"

text \<open>The endless loop, for as many passes as there are pauses.\<close>

fun add_server_loop ::
    "('p, int64_t \<times> int64_t) packet_convertor \<Rightarrow> ('r, int64_t) packet_convertor \<Rightarrow> 'w rpc_env \<Rightarrow> RpcRequest
     \<Rightarrow> ('e RpcServicesServer, 'e, 'w) pause list \<Rightarrow> 'e RpcServicesServer \<Rightarrow> ('e, 'w) rpc_worlds
     \<Rightarrow> 'e RpcServicesServer \<times> ('e, 'w) rpc_worlds" where
  "add_server_loop Cq Cr E q0 [] s ws = (s, ws)"
| "add_server_loop Cq Cr E q0 (pause # pauses) s ws =
     (case pause (s, ws) of (s1, ws1) \<Rightarrow>
      case add_serve Cq Cr E q0 s1 ws1 of (s2, ws2) \<Rightarrow> add_server_loop Cq Cr E q0 pauses s2 ws2)"

text \<open>
  \<open>main\<close>: \<open>Inl\<close> an exit code or \<open>Inr\<close> the state of the loop. \<open>opened\<close> and \<open>started\<close> are the results of
  the endpoint container's \<open>initialize\<close> and \<open>start_all\<close>.
\<close>

definition add_server_main ::
    "('p, int64_t \<times> int64_t) packet_convertor \<Rightarrow> ('r, int64_t) packet_convertor \<Rightarrow> 'w rpc_env \<Rightarrow> RpcRequest
     \<Rightarrow> 'j rpc_json \<Rightarrow> 'j config_file \<Rightarrow> bool \<Rightarrow> bool \<Rightarrow> (string \<Rightarrow> 'e option)
     \<Rightarrow> ('e RpcServicesServer, 'e, 'w) pause list \<Rightarrow> ('e, 'w) rpc_worlds
     \<Rightarrow> int + 'e RpcServicesServer \<times> ('e, 'w) rpc_worlds" where
  "add_server_main Cq Cr E q0 J file opened started container pauses ws =
     (if \<not> opened then Inl 1
      else if \<not> started then Inl 1
      else case RpcServicesServer_initialize_services_impl J file (Some container) None None
             (new_RpcServicesServer ''server_node'' ''RpcServerEndpointImpl'' ''config/sample/simple-service.json'') ws of
        (False, s, ws1) \<Rightarrow> Inl 1
      | (True, s, ws1) \<Rightarrow> Inr (add_server_loop Cq Cr E q0 pauses (snd (RpcServicesServer_start_all_services s)) ws1))"

section \<open>The client\<close>

definition kAddService :: string where "kAddService = ''Service/Add''"

definition parse_two_i64 :: "string \<Rightarrow> (int \<times> int) option" where
  "parse_two_i64 line =
     (case read_int64 line of
        None \<Rightarrow> None
      | Some (a, rest) \<Rightarrow> (case read_int64 rest of None \<Rightarrow> None | Some (b, _) \<Rightarrow> Some (a, b)))"

text \<open>\<open>None\<close> is the exit with code 1.\<close>

definition parse_timeout :: "string \<Rightarrow> int option" where
  "parse_timeout text = stoll text"

text \<open>What the client prints for a line.\<close>

datatype add_output =
    Printed_Sum int64_t
  | Invalid_Input
  | Send_Failed
  | Decode_Failed
  | Call_Failed RpcClientEventType

text \<open>
  The loop that waits for the event of a call: a pause, then a poll, until an event is not NONE.
  It returns the event with the response, the state and the pauses that are left, and \<open>None\<close> while it
  still waits. \<open>h\<close> is the uninitialised header of the endpoints' polls.
\<close>

fun wait_event ::
    "'w rpc_env \<Rightarrow> ServiceResponseHeader \<Rightarrow> string \<Rightarrow> RpcResponse \<Rightarrow> ('e RpcServicesClient, 'e, 'w) pause list
     \<Rightarrow> 'e RpcServicesClient \<Rightarrow> ('e, 'w) rpc_worlds
     \<Rightarrow> (RpcClientEventType \<times> RpcResponse) option \<times> 'e RpcServicesClient \<times> ('e, 'w) rpc_worlds \<times> ('e RpcServicesClient, 'e, 'w) pause list" where
  "wait_event E h service_name res [] c ws = (None, c, ws, [])"
| "wait_event E h service_name res (pause # pauses) c ws =
     (case pause (c, ws) of (c1, ws1) \<Rightarrow>
      case RpcServicesClient_poll E h service_name res c1 ws1 of
        (event, service_name', res', c2) \<Rightarrow>
          if event = RCE_NONE then wait_event E h service_name' res' pauses c2 ws1
          else (Some (event, res'), c2, ws1, pauses))"

text \<open>The body of the loop over the lines; the printed output is \<open>None\<close> while the call is waited for.\<close>

definition add_line ::
    "('p, int64_t \<times> int64_t) packet_convertor \<Rightarrow> ('r, int64_t) packet_convertor \<Rightarrow> 'w rpc_env \<Rightarrow> ServiceResponseHeader \<Rightarrow> RpcResponse
     \<Rightarrow> int \<Rightarrow> string \<Rightarrow> ('e RpcServicesClient, 'e, 'w) pause list \<Rightarrow> 'e RpcServicesClient \<Rightarrow> ('e, 'w) rpc_worlds
     \<Rightarrow> add_output option \<times> 'e RpcServicesClient \<times> ('e, 'w) rpc_worlds \<times> ('e RpcServicesClient, 'e, 'w) pause list" where
  "add_line Cq Cr E h r0 timeout_usec line pauses c ws =
     (case parse_two_i64 line of
        None \<Rightarrow> (Some Invalid_Input, c, ws, pauses)
      | Some (a, b) \<Rightarrow>
          (case helper_call Cq E kAddService (word_of_int a, word_of_int b) (word_of_int timeout_usec) c ws of
             (False, c1, ws1) \<Rightarrow> (Some Send_Failed, c1, ws1, pauses)
           | (True, c1, ws1) \<Rightarrow>
               (case wait_event E h [] r0 pauses c1 ws1 of
                  (None, c2, ws2, rest) \<Rightarrow> (None, c2, ws2, rest)
                | (Some (event, res), c2, ws2, rest) \<Rightarrow>
                    (Some (if event = RCE_RESPONSE_IN
                           then (case get_response_body Cr res of Some x \<Rightarrow> Printed_Sum x | None \<Rightarrow> Decode_Failed)
                           else Call_Failed event), c2, ws2, rest))))"

text \<open>
  The lines until the input ends or says to quit. The result tells whether the loop was left, with
  what was printed.
\<close>

fun add_client_loop ::
    "('p, int64_t \<times> int64_t) packet_convertor \<Rightarrow> ('r, int64_t) packet_convertor \<Rightarrow> 'w rpc_env \<Rightarrow> ServiceResponseHeader \<Rightarrow> RpcResponse
     \<Rightarrow> int \<Rightarrow> string list \<Rightarrow> ('e RpcServicesClient, 'e, 'w) pause list \<Rightarrow> 'e RpcServicesClient \<Rightarrow> ('e, 'w) rpc_worlds
     \<Rightarrow> bool \<times> add_output list \<times> 'e RpcServicesClient \<times> ('e, 'w) rpc_worlds" where
  "add_client_loop Cq Cr E h r0 timeout_usec [] pauses c ws = (True, [], c, ws)"
| "add_client_loop Cq Cr E h r0 timeout_usec (line # lines) pauses c ws =
     (if line = ''q'' \<or> line = ''quit'' then (True, [], c, ws)
      else case add_line Cq Cr E h r0 timeout_usec line pauses c ws of
        (None, c1, ws1, rest) \<Rightarrow> (False, [], c1, ws1)
      | (Some out, c1, ws1, rest) \<Rightarrow>
          (case add_client_loop Cq Cr E h r0 timeout_usec lines rest c1 ws1 of
             (left, outs, c2, ws2) \<Rightarrow> (left, out # outs, c2, ws2)))"

text \<open>
  \<open>main\<close> with the arguments after the program name: the exit code, \<open>None\<close> while a call is waited for, the
  output, and the client services if they were initialised.
\<close>

definition add_client_main ::
    "('p, int64_t \<times> int64_t) packet_convertor \<Rightarrow> ('r, int64_t) packet_convertor \<Rightarrow> 'w rpc_env \<Rightarrow> ServiceResponseHeader \<Rightarrow> RpcResponse
     \<Rightarrow> 'j rpc_json \<Rightarrow> 'j config_file \<Rightarrow> bool \<Rightarrow> bool \<Rightarrow> (string \<Rightarrow> 'e option) \<Rightarrow> string list \<Rightarrow> string list
     \<Rightarrow> ('e RpcServicesClient, 'e, 'w) pause list \<Rightarrow> ('e, 'w) rpc_worlds
     \<Rightarrow> int option \<times> add_output list \<times> 'e RpcServicesClient option" where
  "add_client_main Cq Cr E h r0 J file opened started container args lines pauses ws =
     (if 1 < length args then (Some 1, [], None)
      else case (if args = [] then Some 1000000 else parse_timeout (List.hd args)) of
        None \<Rightarrow> (Some 1, [], None)
      | Some timeout_usec \<Rightarrow>
          if \<not> opened then (Some 1, [], None)
          else if \<not> started then (Some 1, [], None)
          else (case RpcServicesClient_initialize_services J file container
                       (new_RpcServicesClient ''client_node'' ''TestClient'' ''config/sample/simple-service.json'') ws of
                  (False, c, ws1) \<Rightarrow> (Some 1, [], None)
                | (True, c, ws1) \<Rightarrow>
                    (case add_client_loop Cq Cr E h r0 timeout_usec lines pauses (snd (RpcServicesClient_start_all_services c)) ws1 of
                       (True, outs, c2, ws2) \<Rightarrow> (Some 0, outs, Some (RpcServicesClient_stop_all_services c2))
                     | (False, outs, c2, ws2) \<Rightarrow> (None, outs, Some c2))))"

section \<open>Reading the lines\<close>

text \<open>Two printed numbers with white space between them are the two numbers.\<close>

lemma parse_two_printed:
  assumes "- (2 ^ 63) \<le> a" "a < 2 ^ 63" "- (2 ^ 63) \<le> b" "b < 2 ^ 63" and "list_all is_space blanks" "blanks \<noteq> []"
    and "rest = [] \<or> \<not> is_digit (List.hd rest)"
  shows "parse_two_i64 (print_int a @ blanks @ print_int b @ rest) = Some (a, b)"
proof -
  have "\<not> is_digit (List.hd (blanks @ print_int b @ rest))"
    using assms(5,6) digit_not_other by (cases blanks) auto
  then show ?thesis
    using read_print_int64 [OF assms(1,2), of "blanks @ print_int b @ rest" "[]"] read_print_int64 [OF assms(3,4,7,5)]
    by (simp add: parse_two_i64_def)
qed

section \<open>Waiting for the reply\<close>

definition RpcServicesClient_receive ::
    "'w rpc_env \<Rightarrow> string \<Rightarrow> rpc_resolved_key \<Rightarrow> pdu_data \<Rightarrow> 'e RpcServicesClient \<Rightarrow> ('e, 'w) rpc_worlds \<Rightarrow> 'e RpcServicesClient" where
  "RpcServicesClient_receive E service key data c ws =
     c\<lparr>rcvc_rpc_endpoints := sm_update service (\<lambda>(e, st). (e, RpcClient_on_recv E key data st (ws e))) (rcvc_rpc_endpoints c)\<rparr>"

lemma poll_client_quiet:
  assumes "\<forall>(k, e, st)\<in>set xs. RpcClient_poll E h r st (ws e) = (RCE_NONE, r, st)"
  shows "poll_client_endpoints E h name r xs ws = (RCE_NONE, name, r, xs)"
  using assms by (induction xs) auto

lemma poll_client_single:
  assumes "distinct (map fst xs)" and "sm_find xs n = Some (e, st)"
    and "\<forall>(k, d, st')\<in>set xs. k \<noteq> n \<longrightarrow> cps_state (rcl_client_state st') = CLIENT_STATE_IDLE"
    and "RpcClient_poll E h r st (ws e) = (ev, r', st')" and "ev \<noteq> RCE_NONE"
  shows "poll_client_endpoints E h name r xs ws = (ev, n, r', sm_update n (\<lambda>_. (e, st')) xs)"
  using assms(1-3)
proof (induction xs)
  case (Cons x xs)
  obtain k d stk where x: "x = (k, d, stk)" by (metis prod_cases3)
  show ?case
  proof (cases "k = n")
    case True
    moreover have "(e, st) = (d, stk)" using Cons.prems(2) x True by (simp add: sm_find_def)
    moreover have "sm_update n (\<lambda>_. (e, st')) xs = xs" using Cons.prems(1) x True
      by (force simp: sm_update_def intro!: map_idI)
    ultimately show ?thesis using assms(4,5) x by (simp add: sm_update_def)
  next
    case False
    then have "RpcClient_poll E h r stk (ws d) = (RCE_NONE, r, stk)" using Cons.prems(3) x by (simp add: RpcClient_poll_def)
    moreover have "poll_client_endpoints E h name r xs ws = (ev, n, r', sm_update n (\<lambda>_. (e, st')) xs)"
      using Cons.IH Cons.prems False x by (auto simp: sm_find_def)
    ultimately show ?thesis using x False by (simp add: sm_update_def)
  qed
qed (simp add: sm_find_def)

text \<open>
  While the client waits for its call and no packet has come, its polls change nothing; then the
  reply comes. \<open>cl1\<close> is the endpoint of the call.
\<close>

definition quiet_pause :: "'w rpc_env \<Rightarrow> 'e \<Rightarrow> RpcClientEndpointImpl \<Rightarrow> 'e RpcServicesClient \<Rightarrow> ('e RpcServicesClient, 'e, 'w) pause \<Rightarrow> bool" where
  "quiet_pause E e cl1 c1 pause \<longleftrightarrow>
     (\<forall>ws. \<exists>ws'. pause (c1, ws) = (c1, ws') \<and> \<not> response_timeout (rpc_microseconds E (rw_transport (ws' e))) cl1)"

definition delivers ::
    "'w rpc_env \<Rightarrow> 'e \<Rightarrow> RpcClientEndpointImpl \<Rightarrow> rpc_resolved_key \<Rightarrow> pdu_data \<Rightarrow> 'e RpcServicesClient \<Rightarrow> ('e RpcServicesClient, 'e, 'w) pause \<Rightarrow> bool" where
  "delivers E e cl1 key data c1 pause \<longleftrightarrow>
     (\<forall>ws. \<exists>ws'. pause (c1, ws) = (RpcServicesClient_receive E kAddService key data c1 ws', ws')
        \<and> \<not> response_timeout (rpc_microseconds E (rw_transport (ws' e))) cl1
        \<and> get_pdu_name E (rw_defs (ws' e)) key = rcl_client_name cl1 @ ''Res'')"

lemma wait_quiet:
  assumes "distinct (map fst (rcvc_rpc_endpoints c1))" "sm_find (rcvc_rpc_endpoints c1) kAddService = Some (e, cl1)" "rcl_pending_responses cl1 = []"
    and "\<forall>(k, d, st)\<in>set (rcvc_rpc_endpoints c1). k \<noteq> kAddService \<longrightarrow> cps_state (rcl_client_state st) = CLIENT_STATE_IDLE"
    and "\<forall>pause\<in>set quiet. quiet_pause E e cl1 c1 pause"
  shows "\<exists>ws'. wait_event E h name r (quiet @ pauses) c1 ws = wait_event E h name r pauses c1 ws'"
  using assms(5)
proof (induction quiet arbitrary: ws)
  case (Cons pause quiet)
  then obtain ws1 where p: "pause (c1, ws) = (c1, ws1)" "\<not> response_timeout (rpc_microseconds E (rw_transport (ws1 e))) cl1"
    unfolding quiet_pause_def by force
  have "RpcClient_poll E h r st (ws1 d) = (RCE_NONE, r, st)" if "(k, d, st) \<in> set (rcvc_rpc_endpoints c1)" for k d st
  proof (cases "k = kAddService")
    case True
    then have "(d, st) = (e, cl1)" using that assms(1,2) by (simp add: sm_find_def)
    then show ?thesis using p(2) assms(3) by (simp add: RpcClient_poll_def)
  next
    case False
    then show ?thesis using that assms(4) by (auto simp: RpcClient_poll_def)
  qed
  then have "poll_client_endpoints E h name r (rcvc_rpc_endpoints c1) ws1 = (RCE_NONE, name, r, rcvc_rpc_endpoints c1)"
    by (intro poll_client_quiet) blast
  then have "RpcServicesClient_poll E h name r c1 ws1 = (RCE_NONE, name, r, c1)" by (simp add: RpcServicesClient_poll_def)
  then show ?case using Cons.IH [of ws1] Cons.prems p by simp
qed auto

lemma wait_delivered:
  assumes c1: "distinct (map fst (rcvc_rpc_endpoints c1))" "sm_find (rcvc_rpc_endpoints c1) kAddService = Some (e, cl1)"
      "\<forall>(k, d, st)\<in>set (rcvc_rpc_endpoints c1). k \<noteq> kAddService \<longrightarrow> cps_state (rcl_client_state st) = CLIENT_STATE_IDLE"
    and cl1: "rcl_has_endpoint cl1" "rcl_pending_responses cl1 = []" "cps_state (rcl_client_state cl1) = CLIENT_STATE_RUNNING"
      "rcl_service_name cl1 = rqs_service_name h1" "rcl_client_name cl1 = rqs_client_name h1" "cps_request_id (rcl_client_state cl1) = rqs_request_id h1"
    and read: "\<And>h0. response_pdu2cpp E rep h0 = reply_header h1 status code"
    and code: "sint code < HAKO_SERVICE_RESULT_CODE_NUM" "code \<noteq> HAKO_SERVICE_RESULT_CODE_CANCELED"
    and pauses: "\<forall>pause\<in>set quiet. quiet_pause E e cl1 c1 pause" "delivers E e cl1 rkey rep c1 delivery"
  shows "\<exists>c2 ws2. wait_event E h name r (quiet @ delivery # later) c1 ws
      = (Some (RCE_RESPONSE_IN, \<lparr>rp_header = reply_header h1 status code, rp_pdu = rep\<rparr>), c2, ws2, later)"
proof -
  obtain ws1 where w: "wait_event E h name r (quiet @ delivery # later) c1 ws = wait_event E h name r (delivery # later) c1 ws1"
    using wait_quiet [OF c1(1,2) cl1(2) c1(3) pauses(1)] by blast
  obtain ws2 where d: "delivery (c1, ws1) = (RpcServicesClient_receive E kAddService rkey rep c1 ws2, ws2)"
      "\<not> response_timeout (rpc_microseconds E (rw_transport (ws2 e))) cl1" "get_pdu_name E (rw_defs (ws2 e)) rkey = rcl_client_name cl1 @ ''Res''"
    using pauses(2) unfolding delivers_def by blast
  let ?ys = "sm_update kAddService (\<lambda>(e, st). (e, RpcClient_on_recv E rkey rep st (ws2 e))) (rcvc_rpc_endpoints c1)"
  have "poll_client_endpoints E h name r ?ys ws2
      = (RCE_RESPONSE_IN, kAddService, \<lparr>rp_header = reply_header h1 status code, rp_pdu = rep\<rparr>,
         sm_update kAddService (\<lambda>_. (e, set_client_state CLIENT_STATE_IDLE cl1)) ?ys)"
  proof (rule poll_client_single)
    show "distinct (map fst ?ys)" using c1(1) by (simp add: keys_sm_update)
    show "sm_find ?ys kAddService = Some (e, RpcClient_on_recv E rkey rep cl1 (ws2 e))" using c1(2) by simp
    show "\<forall>(k, d, st')\<in>set ?ys. k \<noteq> kAddService \<longrightarrow> cps_state (rcl_client_state st') = CLIENT_STATE_IDLE"
      using c1(3) by (fastforce simp: sm_update_def)
  qed (use client_takes_reply [OF cl1 d(3,2) read code] in simp_all)
  then show ?thesis unfolding w by (simp add: d(1) RpcServicesClient_poll_def RpcServicesClient_receive_def)
qed

section \<open>A sum\<close>

lemma sint_sum:
  assumes "- (2 ^ 63) \<le> x" and "x < 2 ^ 63"
  shows "sint (word_of_int x :: int64_t) = x"
  using assms by (simp add: sint_sbintrunc' signed_take_bit_int_eq_self)

text \<open>A call changes no other service of the client.\<close>

definition others_kept :: "string \<Rightarrow> 'e RpcServicesClient \<Rightarrow> 'e RpcServicesClient \<Rightarrow> bool" where
  "others_kept n c c' \<longleftrightarrow> map fst (rcvc_rpc_endpoints c') = map fst (rcvc_rpc_endpoints c)
     \<and> (\<forall>(k, v)\<in>set (rcvc_rpc_endpoints c'). k \<noteq> n \<longrightarrow> (k, v) \<in> set (rcvc_rpc_endpoints c))"

lemma others_kept_update: "others_kept n c (c\<lparr>rcvc_rpc_endpoints := sm_update n f (rcvc_rpc_endpoints c)\<rparr>)"
  by (auto simp: others_kept_def keys_sm_update sm_update_def)

lemma others_kept_refl: "others_kept n c c"
  by (auto simp: others_kept_def)

lemma others_kept_trans: "others_kept n c c1 \<Longrightarrow> others_kept n c1 c2 \<Longrightarrow> others_kept n c c2"
  unfolding others_kept_def by force

lemma helper_call_others:
  assumes "helper_call C E n body timeout c ws = (ok, c', ws')"
  shows "others_kept n c c'"
proof -
  obtain r pdu c1 where r: "RpcServicesClient_create_request_buffer E n HAKO_SERVICE_OPERATION_CODE_REQUEST [] c ws = (r, pdu, c1)"
    by (metis surj_pair)
  then have c1: "others_kept n c c1"
    by (auto simp: RpcServicesClient_create_request_buffer_def others_kept_refl others_kept_update split: option.splits prod.splits)
  have "c' = c1 \<or> (\<exists>q. RpcServicesClient_call E n q timeout c1 ws = (ok, c', ws'))"
    using assms r by (auto simp: helper_call_def helper_set_request_body_def split: prod.splits bool.splits)
  moreover have "others_kept n c1 c'" if "RpcServicesClient_call E n q timeout c1 ws = (ok, c', ws')" for q
  proof (cases "sm_find (rcvc_rpc_endpoints c1) n")
    case None
    then show ?thesis using that by (simp add: RpcServicesClient_call_def others_kept_refl)
  next
    case (Some a)
    then obtain e st where a: "a = (e, st)" by fastforce
    then show ?thesis using that Some others_kept_update [of n c1]
      by (cases "RpcClient_call E q timeout st (ws e)") (auto simp: RpcServicesClient_call_def)
  qed
  ultimately have "others_kept n c1 c'" using others_kept_refl by blast
  with c1 show ?thesis by (rule others_kept_trans)
qed

text \<open>The server: the request of the client is answered with the sum.\<close>

lemma add_serve_replies:
  assumes codec: "rpc_codec_ok E m n" and conv: "packet_convertor_ok (response_pdu2cpp E) Cr"
    and body: "map_option (packet_body Cq) (pdu2cpp Cq req) = Some (a, b)"
    and sv: "rpc_services_ok s" "sm_find (rsvc_rpc_endpoints s) kAddService = Some (es, sv)" "rsv_has_endpoint sv"
      "slots sv client = Some SlotIdle" "queued (rsvc_rpc_endpoints s) = 0"
    and read: "\<And>h0. request_pdu2cpp E req h0 = rh"
    and header: "rqs_service_name rh = kAddService" "rqs_client_name rh = client" "client \<noteq> []" "rqs_opcode rh = HAKO_SERVICE_OPERATION_CODE_REQUEST"
    and names: "fits_name m kAddService" "fits_name m client"
    and size: "n \<le> unat (get_pdu_size E (rw_defs (ws es)) (kAddService, client @ ''Res''))"
    and served: "add_serve Cq Cr E q0 (RpcServicesServer_receive E kAddService key req s ws) ws = (s2, ws2)"
      "rw_outbox (ws2 es) = rw_outbox (ws es) @ [(k2, rep)]"
  shows "k2 = (kAddService, client @ ''Res'') \<and> map_option (packet_body Cr) (pdu2cpp Cr rep) = Some (a + b)
    \<and> (\<forall>h0. response_pdu2cpp E rep h0 = reply_header rh HAKO_SERVICE_STATUS_DONE HAKO_SERVICE_RESULT_CODE_OK)"
proof -
  obtain ev q' s1 ws1 where p: "RpcServicesServer_poll E q0 (RpcServicesServer_receive E kAddService key req s ws) ws = (ev, q', s1, ws1)"
    by (metis surj_pair)
  have taken: "ev = RSE_REQUEST_IN" "q' = \<lparr>rr_client_name = client, rr_header = rh, rr_pdu = req\<rparr>" "ws1 = ws"
    and "\<exists>sv1. sm_find (rsvc_rpc_endpoints s1) kAddService = Some (es, sv1) \<and> slots sv1 client = Some (SlotRunning (rqs_request_id rh))
       \<and> rsv_service_name sv1 = kAddService"
    using services_take_request [OF sv read header p] by simp_all
  then obtain sv1 where sv1: "sm_find (rsvc_rpc_endpoints s1) kAddService = Some (es, sv1)" "rsv_service_name sv1 = kAddService"
    "slots sv1 client = Some (SlotRunning (rqs_request_id rh))" by blast
  have body': "get_request_body Cq q' = Some (a, b)" using body taken(2) by (simp add: get_request_body_def)
  obtain ok where r: "helper_reply Cr E q' HAKO_SERVICE_STATUS_DONE HAKO_SERVICE_RESULT_CODE_OK (a + b) s1 ws1 = (ok, s2, ws2)"
    using served(1) p taken(1) body' by (cases "helper_reply Cr E q' HAKO_SERVICE_STATUS_DONE HAKO_SERVICE_RESULT_CODE_OK (a + b) s1 ws1") (simp add: add_serve_def)
  have ok using r served(2) taken(3) by (cases ok) (auto simp: helper_reply_def split: prod.splits bool.splits)
  obtain rep' where rep': "ws2 es = snd (rpc_send E (kAddService, client @ ''Res'') rep' (ws es))"
    "map_option (packet_body Cr) (pdu2cpp Cr rep') = Some (a + b)"
    "\<forall>h0. response_pdu2cpp E rep' h0 = reply_header rh HAKO_SERVICE_STATUS_DONE HAKO_SERVICE_RESULT_CODE_OK"
    using helper_reply_sends [OF codec conv sv1, of q' ws HAKO_SERVICE_STATUS_DONE HAKO_SERVICE_RESULT_CODE_OK "a + b" s2 ws2]
      r \<open>ok\<close> taken(2,3) header names size by auto
  have "k2 = (kAddService, client @ ''Res'')" "rep' = rep"
    using rep'(1) served(2) rpc_send_outbox [of E "(kAddService, client @ ''Res'')" rep' "ws es"]
    by (cases "rpc_send E (kAddService, client @ ''Res'') rep' (ws es)"; simp split: if_splits)+
  with rep' show ?thesis by simp
qed

text \<open>
  C25 (functional): the example service adds. The client reads a line with two numbers whose sum fits
  64 bits and its call is accepted; the idle server, given the packet that went out, runs one pass of its loop
  and a packet goes out; while the client waits nothing comes for some pauses, then that packet, within the timeout. Then the packets are
  on the request and the response PDU of the client, and the client leaves its waiting loop at
  that pause and prints the sum of the two numbers.
\<close>

theorem add_two_ints_answered:
  assumes codec: "rpc_codec_ok E m n"
    and conv: "packet_convertor_ok (request_pdu2cpp E) Cq" "packet_convertor_ok (response_pdu2cpp E) Cr"
    and names: "fits_name m kAddService" "fits_name m client" "client \<noteq> []"
    and sizes: "n \<le> unat (get_pdu_size E (rw_defs (wc ec)) (kAddService, client @ ''Req''))"
      "n \<le> unat (get_pdu_size E (rw_defs (ws es)) (kAddService, client @ ''Res''))"
    and cl: "distinct (map fst (rcvc_rpc_endpoints c))" "sm_find (rcvc_rpc_endpoints c) kAddService = Some (ec, cl)"
      "rcl_service_name cl = kAddService" "rcl_client_name cl = client" "rcl_has_endpoint cl" "rcl_pending_responses cl = []"
      "\<forall>(k, d, st)\<in>set (rcvc_rpc_endpoints c). k \<noteq> kAddService \<longrightarrow> cps_state (rcl_client_state st) = CLIENT_STATE_IDLE"
    and line: "parse_two_i64 line = Some (a, b)" "- (2 ^ 63) \<le> a + b" "a + b < 2 ^ 63"
    and called: "helper_call Cq E kAddService (word_of_int a, word_of_int b) (word_of_int timeout) c wc = (True, c1, wc1)"
      "rw_outbox (wc1 ec) = rw_outbox (wc ec) @ [(k, req)]" "sm_find (rcvc_rpc_endpoints c1) kAddService = Some (ec, cl1)"
    and sv: "rpc_services_ok s" "sm_find (rsvc_rpc_endpoints s) kAddService = Some (es, sv)" "rsv_has_endpoint sv"
      "slots sv client = Some SlotIdle" "queued (rsvc_rpc_endpoints s) = 0"
    and served: "add_serve Cq Cr E q0 (RpcServicesServer_receive E kAddService key req s ws) ws = (s2, ws2)"
      "rw_outbox (ws2 es) = rw_outbox (ws es) @ [(k2, rep)]"
    and pauses: "\<forall>pause\<in>set quiet. quiet_pause E ec cl1 c1 pause" "delivers E ec cl1 rkey rep c1 delivery"
  shows "k = (kAddService, client @ ''Req'') \<and> k2 = (kAddService, client @ ''Res'')
    \<and> (\<exists>x c2 w2. add_line Cq Cr E h r0 timeout line (quiet @ delivery # later) c wc = (Some (Printed_Sum x), c2, w2, later)
         \<and> sint x = a + b)"
proof -
  obtain cl2 where out: "k = (kAddService, client @ ''Req'')" "map_option (packet_body Cq) (pdu2cpp Cq req) = Some (word_of_int a, word_of_int b)"
    and read: "\<And>h0. request_pdu2cpp E req h0 = request_service_header cl HAKO_SERVICE_OPERATION_CODE_REQUEST (cps_request_id (rcl_client_state cl2))"
    and c1: "sm_find (rcvc_rpc_endpoints c1) kAddService = Some (ec, cl2)"
      "cl2 = cl\<lparr>rcl_current_request_id := rcl_current_request_id cl + 1,
        rcl_client_state := \<lparr>cps_request_id = ucast (rcl_current_request_id cl + 1), cps_state = CLIENT_STATE_RUNNING\<rparr>,
        rcl_current_timeout_usec := word_of_int timeout, rcl_request_start_time_usec := rpc_microseconds E (rw_transport (wc ec))\<rparr>"
    using helper_call_sends [OF codec conv(1) cl(2,3) names(1) _ _ called(1)] names(2) sizes(1) cl(4) called(2) by auto
  have same: "cl2 = cl1" using c1(1) called(3) by simp
  let ?h = "request_service_header cl HAKO_SERVICE_OPERATION_CODE_REQUEST (cps_request_id (rcl_client_state cl1))"
  have header: "rqs_service_name ?h = kAddService" "rqs_client_name ?h = client" "rqs_opcode ?h = HAKO_SERVICE_OPERATION_CODE_REQUEST"
    "rqs_request_id ?h = cps_request_id (rcl_client_state cl1)"
    using cl by (simp_all add: request_service_header_def)
  have read1: "request_pdu2cpp E req h0 = ?h" for h0 using read same by simp
  note reply = add_serve_replies [OF codec conv(2) out(2) sv read1 header(1,2) names(3) header(3) names(1,2) sizes(2) served]
  have others: "distinct (map fst (rcvc_rpc_endpoints c1))"
      "\<forall>(k, d, st)\<in>set (rcvc_rpc_endpoints c1). k \<noteq> kAddService \<longrightarrow> cps_state (rcl_client_state st) = CLIENT_STATE_IDLE"
    using helper_call_others [OF called(1)] cl(1,7) by (simp add: others_kept_def, fastforce simp: others_kept_def)
  have "\<exists>c2 ws2. wait_event E h [] r0 (quiet @ delivery # later) c1 wc1
      = (Some (RCE_RESPONSE_IN, \<lparr>rp_header = reply_header ?h HAKO_SERVICE_STATUS_DONE HAKO_SERVICE_RESULT_CODE_OK, rp_pdu = rep\<rparr>), c2, ws2, later)"
    by (rule wait_delivered [OF others(1) called(3) others(2) _ _ _ _ _ _ _ _ _ pauses])
      (use reply cl c1(2) same header in \<open>simp_all add: rpc_constants\<close>)
  then obtain c2 w2 where "add_line Cq Cr E h r0 timeout line (quiet @ delivery # later) c wc
      = (Some (Printed_Sum (word_of_int a + word_of_int b)), c2, w2, later)"
    using line(1) called(1) reply by (auto simp: add_line_def get_response_body_def)
  moreover have "sint (word_of_int a + word_of_int b :: int64_t) = a + b" using sint_sum [OF line(2,3)] by simp
  ultimately show ?thesis using out(1) reply by blast
qed

end
