(* ===== verification/Add_Example_Run.thy ===== *)
theory Add_Example_Run
  imports Add_Example
begin

text \<open>
  A run of the example client and server: the line \<open>3 4\<close>, over an environment with PDUs of 60
  bytes, names in fields of 16 bytes and the bodies in the last ten bytes.
\<close>

definition add_env :: "(bool list \<times> uint64) rpc_env" where
  "add_env = \<lparr>
     request_pdu2cpp = (\<lambda>b h. \<lparr>rqs_request_id = of_le32 (take 4 b), rqs_service_name = read_name 16 (drop 9 b),
       rqs_client_name = read_name 16 (drop 25 b), rqs_opcode = byte_at b 4,
       rqs_status_poll_interval_msec = of_le32 (take 4 (drop 5 b))\<rparr>),
     request_cpp2pdu = (\<lambda>h. overwrite 0 (le32 (rqs_request_id h) @ [rqs_opcode h]
       @ le32 (rqs_status_poll_interval_msec h) @ name_field 16 (rqs_service_name h) @ name_field 16 (rqs_client_name h))),
     response_pdu2cpp = (\<lambda>b h. \<lparr>rss_request_id = of_le32 (take 4 b), rss_service_name = read_name 16 (drop 10 b),
       rss_client_name = read_name 16 (drop 26 b), rss_status = byte_at b 4, rss_processing_percentage = byte_at b 5,
       rss_result_code = of_le32 (take 4 (drop 6 b))\<rparr>),
     response_cpp2pdu = (\<lambda>h. overwrite 0 (le32 (rss_request_id h) @ [rss_status h, rss_processing_percentage h]
       @ le32 (rss_result_code h) @ name_field 16 (rss_service_name h) @ name_field 16 (rss_client_name h))),
     get_pdu_size = (\<lambda>defs key. 60),
     get_pdu_name = (\<lambda>defs key. if snd key = 1 then ''TestClientReq'' else ''TestClientRes''),
     rpc_transmit = (\<lambda>key bytes (s, t). case s of [] \<Rightarrow> (True, ([], t)) | b # bs \<Rightarrow> (b, (bs, t))),
     rpc_microseconds = snd\<rparr>"

lemma add_env_codec: "rpc_codec_ok add_env 16 42"
proof -
  have "request_pdu2cpp add_env (request_cpp2pdu add_env h b) h0 = h"
    if "fits_name 16 (rqs_service_name h)" "fits_name 16 (rqs_client_name h)" for h b h0
    using that by (simp add: add_env_def overwrite_def of_le32_le32 read_name_field byte_at_def nth_append)
  moreover have "response_pdu2cpp add_env (response_cpp2pdu add_env h b) h0 = h"
    if "fits_name 16 (rss_service_name h)" "fits_name 16 (rss_client_name h)" for h b h0
    using that by (simp add: add_env_def overwrite_def of_le32_le32 read_name_field byte_at_def nth_append)
  ultimately show ?thesis by (simp add: rpc_codec_ok_def)
qed

text \<open>A convertor whose body is in the bytes from 50 on; a body that does not fit is refused.\<close>

definition tail_convertor :: "(byte list \<Rightarrow> 'b) \<Rightarrow> ('b \<Rightarrow> byte list) \<Rightarrow> (pdu_data \<times> 'b, 'b) packet_convertor" where
  "tail_convertor dec enc = \<lparr>
     pdu2cpp = (\<lambda>b. if length b = 60 then Some (take 50 b, dec (drop 50 b)) else None),
     cpp2pdu = (\<lambda>(p, x) b. if length p = 50 \<and> length (enc x) = 10 \<and> dec (enc x) = x then (60, p @ enc x) else (- 1, b)),
     packet_body = snd, set_packet_body = (\<lambda>x (p, _). (p, x))\<rparr>"

lemma tail_convertor_ok:
  assumes "\<And>p r r' h. length p = 50 \<Longrightarrow> read_header (p @ r) h = read_header (p @ r') h"
  shows "packet_convertor_ok read_header (tail_convertor dec enc)"
proof -
  have "read_header (take 50 b @ r) h = read_header b h" if "length b = 60" for b r h
    using assms [of "take 50 b" r h "drop 50 b"] that by simp
  then show ?thesis by (auto simp: packet_convertor_ok_def tail_convertor_def split: if_splits)
qed

definition add_request_conv :: "(pdu_data \<times> int64_t \<times> int64_t, int64_t \<times> int64_t) packet_convertor" where
  "add_request_conv = tail_convertor (\<lambda>b. (ucast (byte_at b 0), ucast (byte_at b 1))) (\<lambda>(x, y). [ucast x, ucast y] @ replicate 8 0)"

definition add_response_conv :: "(pdu_data \<times> int64_t, int64_t) packet_convertor" where
  "add_response_conv = tail_convertor (\<lambda>b. ucast (byte_at b 0)) (\<lambda>x. ucast x # replicate 9 0)"

lemma add_convertors_ok:
  "packet_convertor_ok (request_pdu2cpp add_env) add_request_conv" "packet_convertor_ok (response_pdu2cpp add_env) add_response_conv"
  unfolding add_request_conv_def add_response_conv_def
  by (rule tail_convertor_ok; simp add: add_env_def read_name_def byte_at_def nth_append)+

lemma encode_tail:
  "length b = 60 \<Longrightarrow> length (enc x) = 10 \<Longrightarrow> dec (enc x) = x \<Longrightarrow> encode_body (tail_convertor dec enc) x b = (True, take 50 b @ enc x)"
  by (simp add: encode_body_def tail_convertor_def)

section \<open>The two programs\<close>

definition add_client :: "unit RpcServicesClient" where
  "add_client = (new_RpcServicesClient ''client_node'' ''TestClient'' ''config/sample/simple-service.json'')
     \<lparr>rcvc_rpc_endpoints := [(kAddService, (), new_RpcClientEndpointImpl kAddService ''TestClient'' True)]\<rparr>"

definition add_server_endpoint :: RpcServerEndpointImpl where
  "add_server_endpoint = set_status ''TestClient'' SERVER_STATE_IDLE 0
     ((new_RpcServerEndpointImpl kAddService True)\<lparr>rsv_registered_clients := [''TestClient''], rsv_max_clients := 1\<rparr>)"

definition add_server :: "unit RpcServicesServer" where
  "add_server = (new_RpcServicesServer ''server_node'' ''RpcServerEndpointImpl'' ''config/sample/simple-service.json'')
     \<lparr>rsvc_rpc_endpoints := [(kAddService, (), add_server_endpoint)]\<rparr>"

lemma add_server_ok:
  "rpc_services_ok add_server" "sm_find (rsvc_rpc_endpoints add_server) kAddService = Some ((), add_server_endpoint)"
  "rsv_has_endpoint add_server_endpoint" "slots add_server_endpoint ''TestClient'' = Some SlotIdle" "queued (rsvc_rpc_endpoints add_server) = 0"
proof -
  have "rpc_server_inv (new_RpcServerEndpointImpl kAddService True)"
    by (simp add: rpc_server_inv_def new_RpcServerEndpointImpl_def)
  then have "rpc_server_inv ((new_RpcServerEndpointImpl kAddService True)\<lparr>rsv_max_clients := 1\<rparr>)"
    by (simp add: rpc_server_inv_def new_RpcServerEndpointImpl_def)
  from rpc_inv_register [OF this, of "''TestClient''"] have inv: "rpc_server_inv add_server_endpoint"
    by (simp add: add_server_endpoint_def new_RpcServerEndpointImpl_def)
  have ep: "rsv_has_endpoint add_server_endpoint" "rsv_service_name add_server_endpoint = kAddService"
    "slots add_server_endpoint ''TestClient'' = Some SlotIdle" "rsv_pending_requests add_server_endpoint = []"
    by (simp_all add: add_server_endpoint_def set_status_def new_RpcServerEndpointImpl_def slots_def slot_of_def)
  show "rpc_services_ok add_server" "sm_find (rsvc_rpc_endpoints add_server) kAddService = Some ((), add_server_endpoint)"
    "rsv_has_endpoint add_server_endpoint" "slots add_server_endpoint ''TestClient'' = Some SlotIdle" "queued (rsvc_rpc_endpoints add_server) = 0"
    using inv ep by (simp_all add: add_server_def rpc_services_ok_def services_endpoint_ok_def sm_ok_def sm_find_def queued_0)
qed

lemma add_call_sent:
  "\<exists>c1 w1 req cl1. helper_call add_request_conv add_env kAddService (3, 4) 100 add_client (\<lambda>_. rpc_example_world 0) = (True, c1, w1)
     \<and> rw_outbox (w1 ()) = [((kAddService, ''TestClientReq''), req)] \<and> sm_find (rcvc_rpc_endpoints c1) kAddService = Some ((), cl1)
     \<and> rcl_current_timeout_usec cl1 = 100 \<and> rcl_request_start_time_usec cl1 = 0 \<and> rcl_client_name cl1 = ''TestClient''"
proof -
  let ?cl = "new_RpcClientEndpointImpl kAddService ''TestClient'' True"
  obtain pdu cl0 where c: "RpcClient_create_request_buffer add_env HAKO_SERVICE_OPERATION_CODE_REQUEST False [] ?cl (rpc_example_world 0)
      = (pdu, cl0)" by fastforce
  then have cl0: "length pdu = 60" "cl0 = ?cl\<lparr>rcl_current_request_id := 1\<rparr>"
    by (auto simp: RpcClient_create_request_buffer_def add_env_def overwrite_def resize_def le32_def new_RpcClientEndpointImpl_def Let_def)
  have enc: "\<exists>q. encode_body add_request_conv (3, 4) pdu = (True, q)"
    unfolding add_request_conv_def by (subst encode_tail) (simp_all add: cl0 byte_at_def)
  show ?thesis
    using c cl0 enc by (auto simp: helper_call_def helper_set_request_body_def RpcServicesClient_create_request_buffer_def add_client_def
      sm_find_def sm_update_def RpcServicesClient_call_def RpcClient_call_def RpcClient_send_request_def rpc_send_def
      rpc_constants new_RpcClientEndpointImpl_def rpc_example_world_def add_env_def Let_def)
qed

lemma add_reply_sent:
  assumes "sm_find (rsvc_rpc_endpoints s) kAddService = Some ((), sv)" and "rsv_service_name sv = kAddService" and "slots sv ''TestClient'' = Some (SlotRunning i)"
    and "rqs_service_name (rr_header q) = kAddService" and "rqs_client_name (rr_header q) = ''TestClient''"
  shows "\<exists>s' ws' rep. helper_reply add_response_conv add_env q HAKO_SERVICE_STATUS_DONE HAKO_SERVICE_RESULT_CODE_OK 7 s (\<lambda>_. rpc_example_world 5) = (True, s', ws')
    \<and> rw_outbox (ws' ()) = [((kAddService, ''TestClientRes''), rep)]"
proof -
  let ?b = "RpcServer_create_reply_buffer add_env (rr_header q) HAKO_SERVICE_STATUS_DONE HAKO_SERVICE_RESULT_CODE_OK [] (rpc_example_world 5)"
  have b: "length ?b = 60"
    by (simp add: RpcServer_create_reply_buffer_def add_env_def overwrite_def resize_def le32_def Let_def)
  have "\<exists>rep. encode_body add_response_conv 7 ?b = (True, rep)"
    unfolding add_response_conv_def by (subst encode_tail) (simp_all add: b byte_at_def)
  then obtain rep where enc: "encode_body add_response_conv 7 ?b = (True, rep)" ..
  obtain sv' w' where r: "RpcServer_send_reply add_env ''TestClient'' rep sv (rpc_example_world 5) = (sv', w')" by fastforce
  have "w' = snd (rpc_send add_env (kAddService, ''TestClientRes'') rep (rpc_example_world 5))"
    using server_replies(2) [OF assms(3) r] assms(2) by simp
  then have "rw_outbox w' = [((kAddService, ''TestClientRes''), rep)]" by (simp add: rpc_send_def add_env_def rpc_example_world_def)
  then show ?thesis
    using assms r enc by (simp add: helper_reply_def helper_set_response_body_def RpcServicesServer_create_reply_buffer_def
      RpcServicesServer_send_reply_def)
qed

section \<open>The run\<close>

definition quiet_3 :: "(unit RpcServicesClient, unit, bool list \<times> uint64) pause" where
  "quiet_3 = (\<lambda>(c, ws). (c, \<lambda>_. rpc_example_world 3))"

definition deliver_9 :: "pdu_data \<Rightarrow> (unit RpcServicesClient, unit, bool list \<times> uint64) pause" where
  "deliver_9 rep = (\<lambda>(c, ws). (RpcServicesClient_receive add_env kAddService (kAddService, 2) rep c (\<lambda>_. rpc_example_world 9), \<lambda>_. rpc_example_world 9))"

theorem add_two_ints_answered_witness:
  "\<exists>c1 w1 req s2 ws2 rep x c2 w2.
     helper_call add_request_conv add_env kAddService (3, 4) 100 add_client (\<lambda>_. rpc_example_world 0) = (True, c1, w1)
     \<and> rw_outbox (w1 ()) = [((kAddService, ''TestClientReq''), req)]
     \<and> add_serve add_request_conv add_response_conv add_env rpc_empty_request
         (RpcServicesServer_receive add_env kAddService (kAddService, 1) req add_server (\<lambda>_. rpc_example_world 5)) (\<lambda>_. rpc_example_world 5) = (s2, ws2)
     \<and> rw_outbox (ws2 ()) = [((kAddService, ''TestClientRes''), rep)]
     \<and> add_line add_request_conv add_response_conv add_env rpc_empty_header rpc_empty_response 100 ''3 4'' [quiet_3, deliver_9 rep]
         add_client (\<lambda>_. rpc_example_world 0) = (Some (Printed_Sum x), c2, w2, [])
     \<and> sint x = 7"
proof -
  let ?E = add_env and ?wc = "\<lambda>_ :: unit. rpc_example_world 0" and ?ws = "\<lambda>_ :: unit. rpc_example_world 5"
    and ?cl = "new_RpcClientEndpointImpl kAddService ''TestClient'' True"
  have box: "rw_outbox (rpc_example_world t) = []" for t by (simp add: rpc_example_world_def)
  obtain c1 w1 req cl1 where call: "helper_call add_request_conv ?E kAddService (word_of_int 3, word_of_int 4) (word_of_int 100) add_client ?wc = (True, c1, w1)"
    "rw_outbox (w1 ()) = rw_outbox (?wc ()) @ [((kAddService, ''TestClientReq''), req)]" "sm_find (rcvc_rpc_endpoints c1) kAddService = Some ((), cl1)"
    and cl1: "rcl_current_timeout_usec cl1 = 100" "rcl_request_start_time_usec cl1 = 0" "rcl_client_name cl1 = ''TestClient''"
    using add_call_sent box by auto
  have cl: "distinct (map fst (rcvc_rpc_endpoints add_client))" "sm_find (rcvc_rpc_endpoints add_client) kAddService = Some ((), ?cl)" "rcl_service_name ?cl = kAddService"
    "rcl_client_name ?cl = ''TestClient''" "rcl_has_endpoint ?cl" "rcl_pending_responses ?cl = []"
    "\<forall>(k, d, st)\<in>set (rcvc_rpc_endpoints add_client). k \<noteq> kAddService \<longrightarrow> cps_state (rcl_client_state st) = CLIENT_STATE_IDLE"
    by (simp_all add: add_client_def sm_find_def new_RpcClientEndpointImpl_def)
  have names: "fits_name 16 kAddService" "fits_name 16 ''TestClient''" "''TestClient'' \<noteq> []"
    by (simp_all add: fits_name_def kAddService_def char_of_def)
  have size: "42 \<le> unat (get_pdu_size ?E d k)" for d k by (simp add: add_env_def)
  let ?h = "request_service_header ?cl HAKO_SERVICE_OPERATION_CODE_REQUEST (cps_request_id (rcl_client_state cl1))"
  have h: "rqs_service_name ?h = kAddService" "rqs_client_name ?h = ''TestClient''" "rqs_opcode ?h = HAKO_SERVICE_OPERATION_CODE_REQUEST"
    using cl by (simp_all add: request_service_header_def)
  have sends: "request_pdu2cpp ?E req h0 = ?h" "map_option (packet_body add_request_conv) (pdu2cpp add_request_conv req) = Some (3, 4)" for h0
    using helper_call_sends [OF add_env_codec add_convertors_ok(1) cl(2,3) names(1) _ size call(1)] names(2) call(2,3) cl by auto
  obtain ev q' s1 ws1 where p: "RpcServicesServer_poll ?E rpc_empty_request (RpcServicesServer_receive ?E kAddService (kAddService, 1) req add_server ?ws) ?ws
      = (ev, q', s1, ws1)" by (metis surj_pair)
  have taken: "ev = RSE_REQUEST_IN" "q' = \<lparr>rr_client_name = ''TestClient'', rr_header = ?h, rr_pdu = req\<rparr>" "ws1 = ?ws"
    and "\<exists>sv1. sm_find (rsvc_rpc_endpoints s1) kAddService = Some ((), sv1)
      \<and> slots sv1 ''TestClient'' = Some (SlotRunning (rqs_request_id ?h)) \<and> rsv_service_name sv1 = kAddService"
    using services_take_request [OF add_server_ok sends(1) h(1,2) names(3) h(3) p] by auto
  then obtain s2 ws2 rep where r: "helper_reply add_response_conv ?E q' HAKO_SERVICE_STATUS_DONE HAKO_SERVICE_RESULT_CODE_OK 7 s1 ?ws = (True, s2, ws2)"
    "rw_outbox (ws2 ()) = [((kAddService, ''TestClientRes''), rep)]"
    using add_reply_sent [of s1 _ _ q'] h(1,2) by force
  have body: "get_request_body add_request_conv q' = Some (3, 4)" using sends(2) taken(2) by (simp add: get_request_body_def)
  have served: "add_serve add_request_conv add_response_conv ?E rpc_empty_request
      (RpcServicesServer_receive ?E kAddService (kAddService, 1) req add_server ?ws) ?ws = (s2, ws2)"
    using p taken(1,3) body r(1) by (simp add: add_serve_def)
  have served2: "rw_outbox (ws2 ()) = rw_outbox (?ws ()) @ [((kAddService, ''TestClientRes''), rep)]" using r(2) box by simp
  have time: "\<not> response_timeout (rpc_microseconds ?E (rw_transport (rpc_example_world t))) cl1" if "t \<le> 100" for t
    using that cl1 by (simp add: response_timeout_def add_env_def rpc_example_world_def not_less)
  have pauses: "\<forall>pause\<in>set [quiet_3]. quiet_pause ?E () cl1 c1 pause" "delivers ?E () cl1 (kAddService, 2) rep c1 (deliver_9 rep)"
    using time [of 3] time [of 9] cl1(3)
    by (simp_all add: quiet_pause_def quiet_3_def delivers_def deliver_9_def) (simp_all add: add_env_def)
  have line: "parse_two_i64 ''3 4'' = Some (3, 4)" "- (2 ^ 63) \<le> (3 :: int) + 4" "(3 :: int) + 4 < 2 ^ 63"
    by (simp_all add: parse_two_i64_def number_text)
  from add_two_ints_answered [OF add_env_codec add_convertors_ok names size size cl line call add_server_ok served served2 pauses,
      of rpc_empty_header rpc_empty_response "[]"]
  obtain x c2 w2 where "add_line add_request_conv add_response_conv ?E rpc_empty_header rpc_empty_response 100 ''3 4'' [quiet_3, deliver_9 rep] add_client ?wc
      = (Some (Printed_Sum x), c2, w2, [])" "sint x = 7" by auto
  then show ?thesis using call(1,2) served served2 box
    by (intro exI [of _ c1] exI [of _ w1] exI [of _ req] exI [of _ s2] exI [of _ ws2] exI [of _ rep] exI [of _ x] exI [of _ c2] exI [of _ w2]) simp
qed

end
