(* ===== verification/Configuration_Properties.thy ===== *)
theory Configuration_Properties
  imports Action_Configuration
begin

text \<open>
  The type of a loaded Action configuration: what every definition that the loader returns
  satisfies, whatever the file holds.
\<close>

section \<open>The type name\<close>

lemma string_find_0:
  "string_find s c 0 = (if c \<in> set s then Some (length (takeWhile (\<lambda>x. x \<noteq> c) s)) else None)"
  by (induction s) auto

lemma string_find_from: "string_find s c n = map_option (\<lambda>i. n + i) (string_find (drop n s) c 0)"
proof (induction n arbitrary: s)
  case (Suc n)
  then show ?case by (cases s) (simp_all add: option.map_comp comp_def)
next
  case 0
  show ?case by (cases "string_find s c 0") simp_all
qed

text \<open>A package and a name, both not empty, with one slash between them.\<close>

definition package_type :: "string \<Rightarrow> bool" where
  "package_type t \<longleftrightarrow>
     (let package = takeWhile (\<lambda>x. x \<noteq> CHR ''/'') t; rest = drop (length package) t
      in package \<noteq> [] \<and> rest \<noteq> [] \<and> tl rest \<noteq> [] \<and> CHR ''/'' \<notin> set (tl rest))"

lemma package_type_example: "package_type ''pkg/Move'' \<and> \<not> package_type ''/Move'' \<and> \<not> package_type ''pkg/'' \<and> \<not> package_type ''a/b/c''"
  by (simp add: package_type_def)

lemma type_format_ok_eq: "type_format_ok t \<longleftrightarrow> package_type t"
proof (cases "CHR ''/'' \<in> set t")
  case True
  let ?p = "takeWhile (\<lambda>x. x \<noteq> CHR ''/'') t"
  have "dropWhile (\<lambda>x. x \<noteq> CHR ''/'') t \<noteq> []" using True by (simp add: dropWhile_eq_Nil_conv)
  then obtain x rest where d: "dropWhile (\<lambda>x. x \<noteq> CHR ''/'') t = x # rest" by (cases "dropWhile (\<lambda>x. x \<noteq> CHR ''/'') t") auto
  then have "x = CHR ''/''" using hd_dropWhile [of "\<lambda>x. x \<noteq> CHR ''/''" t] by simp
  then have t: "t = ?p @ CHR ''/'' # rest" using takeWhile_dropWhile_id [of "\<lambda>x. x \<noteq> CHR ''/''" t] d by simp
  have "string_find t CHR ''/'' (length ?p + 1) \<noteq> None \<longleftrightarrow> CHR ''/'' \<in> set rest"
    by (subst t, subst string_find_from) (simp add: string_find_0)
  moreover have "drop (length ?p) t = CHR ''/'' # rest" using t by (metis append_eq_conv_conj)
  moreover have "length ?p + 1 = length t \<longleftrightarrow> rest = []" using arg_cong [OF t, of length] by auto
  ultimately show ?thesis using True by (simp add: type_format_ok_def package_type_def string_find_0 Let_def del: drop_eq_Nil)
next
  case False
  then have "takeWhile (\<lambda>x. x \<noteq> CHR ''/'') t = t" by (auto simp: takeWhile_eq_all_conv)
  then have "\<not> package_type t" unfolding package_type_def Let_def by (simp only: drop_all order.refl simp_thms)
  with False show ?thesis by (simp add: type_format_ok_def string_find_0)
qed

section \<open>The channels\<close>

fun kind_suffix :: "ActionChannelKind \<Rightarrow> string" where
  "kind_suffix REQUEST = ''Request''"
| "kind_suffix RESPONSE = ''Response''"
| "kind_suffix FEEDBACK = ''Feedback''"

lemma slot_channels_eq:
  "slot_channels ty slot = map (\<lambda>k. \<lparr>ch_slot_index = slot, ch_kind = k, ch_channel_id = of_nat (3 * slot + kind_offset k),
     ch_channel_name = ''Slot'' @ to_string slot @ kind_suffix k, ch_packet_type = packet_type ty (kind_suffix k)\<rparr>) [REQUEST, RESPONSE, FEEDBACK]"
  by (simp add: slot_channels_def)

text \<open>The names of the channels: the digits of the slot end where the suffix begins.\<close>

lemma channel_name_inject:
  assumes "to_string i @ kind_suffix k = to_string j @ kind_suffix l"
  shows "i = j \<and> k = l"
proof -
  have suffix: "kind_suffix m = [] \<or> \<not> is_digit (List.hd (kind_suffix m))" for m by (cases m) (simp_all add: is_digit_def)
  have digits: "takeWhile is_digit (to_string n @ kind_suffix m) = to_string n \<and> dropWhile is_digit (to_string n @ kind_suffix m) = kind_suffix m" for n m
    using takeWhile_dropWhile_digits suffix to_string_digits by blast
  have "to_string i = to_string j" "kind_suffix k = kind_suffix l" by (metis digits assms)+
  then show ?thesis by (cases k; cases l; simp)
qed

definition channel_name :: "nat \<times> ActionChannelKind \<Rightarrow> string" where
  "channel_name = (\<lambda>(slot, k). ''Slot'' @ to_string slot @ kind_suffix k)"

lemma channel_names: "map ch_channel_name (concat (map (slot_channels ty) slots)) = map channel_name (List.product slots [REQUEST, RESPONSE, FEEDBACK])"
  by (induction slots) (simp_all add: slot_channels_eq channel_name_def)

lemma channel_names_distinct: "distinct (map ch_channel_name (concat (map (slot_channels ty) [0..<n])))"
proof -
  have "inj_on channel_name A" for A
    using channel_name_inject by (auto simp: inj_on_def channel_name_def)
  then show ?thesis unfolding channel_names distinct_map by (simp add: distinct_product)
qed

section \<open>The property\<close>

definition action_definition_ok :: "ActionDefinition \<Rightarrow> bool" where
  "action_definition_ok d \<longleftrightarrow>
     ad_name d \<noteq> [] \<and> package_type (ad_type d)
     \<and> 0 < ad_slot_count d \<and> ad_slot_count d \<le> max_slot_count
     \<and> er_node_id (ad_client_endpoint d) \<noteq> [] \<and> er_node_id (ad_server_endpoint d) \<noteq> []
     \<and> unat (bh_request_size (ad_buffer_heap d)) \<le> INT_MAX \<and> unat (bh_response_size (ad_buffer_heap d)) \<le> INT_MAX
     \<and> unat (bh_feedback_size (ad_buffer_heap d)) \<le> INT_MAX
     \<and> map (unat \<circ> ch_channel_id) (ad_channels d) = [0..<3 * ad_slot_count d]
     \<and> distinct (map ch_channel_name (ad_channels d))
     \<and> (\<forall>ch\<in>set (ad_channels d). ch_slot_index ch < ad_slot_count d
          \<and> unat (ch_channel_id ch) = 3 * ch_slot_index ch + kind_offset (ch_kind ch)
          \<and> ch_packet_type ch = packet_type (ad_type d) (kind_suffix (ch_kind ch)))"

lemma endpoint_node_id: "read_endpoint J a key = Inr r \<Longrightarrow> er_node_id r \<noteq> []"
  by (auto simp: read_endpoint_def read_required_text_def split: option.splits if_splits sum.splits)

lemma parse_action_endpoints:
  assumes "parse_action J a = Inr d"
  shows "er_node_id (ad_client_endpoint d) \<noteq> []" "er_node_id (ad_server_endpoint d) \<noteq> []"
  using assms
  by (auto simp: parse_action_def foldl_append_slot_channels Let_def dest: endpoint_node_id split: if_splits sum.splits option.splits)

lemma parse_action_ok:
  assumes "parse_action J a = Inr d"
  shows "action_definition_ok d"
proof -
  note p = parse_action_Inr [OF assms]
  have "ch_slot_index ch < ad_slot_count d \<and> unat (ch_channel_id ch) = 3 * ch_slot_index ch + kind_offset (ch_kind ch)
      \<and> ch_packet_type ch = packet_type (ad_type d) (kind_suffix (ch_kind ch))" if ch: "ch \<in> set (ad_channels d)" for ch
  proof -
    obtain slot where s: "slot < ad_slot_count d" "ch \<in> set (slot_channels (ad_type d) slot)" using ch p(5) by auto
    then obtain k where ch: "ch_slot_index ch = slot" "ch_kind ch = k" "ch_channel_id ch = of_nat (3 * slot + kind_offset k)"
      "ch_packet_type ch = packet_type (ad_type d) (kind_suffix k)"
      by (auto simp: slot_channels_eq simp del: of_nat_add of_nat_mult)
    moreover have "slot < max_slot_count" using s(1) p(2) by simp
    ultimately show ?thesis using s(1) channel_id_no_wrap [of slot k] by simp
  qed
  then show ?thesis
    using p parse_action_endpoints [OF assms] channel_ids_of_slots [OF p(2), of "ad_type d"] channel_names_distinct
    by (simp add: action_definition_ok_def type_format_ok_eq)
qed

text \<open>
  C33 (type): whatever a configuration file holds, when the loader accepts it, the
  definitions are well-formed: at least one, with pairwise different names that are not empty; each type is a
  package and a name separated by the only slash; the slot count is positive and below the limit
  of the 32-bit channel identifiers; both endpoints have a node; the heap sizes fit an \<open>int\<close>; and the channels are
  three for each slot, numbered from 0 without gaps, with pairwise different names and with the slot, the kind and
  the packet type that belong to the number.
\<close>

theorem loaded_configuration_well_typed:
  assumes "load_file J read_json path = Inr ds"
  shows "ds \<noteq> [] \<and> distinct (map ad_name ds) \<and> (\<forall>d\<in>set ds. action_definition_ok d)"
proof -
  obtain root arr where p: "parse_configuration J root = Inr ds"
    using assms by (auto simp: load_file_def split: option.splits sum.splits)
  have "\<exists>js. list_all2 (\<lambda>j d. parse_action J j = Inr d) js ds" "ds \<noteq> []" "distinct (map ad_name ds)"
    using p parse_actions_iff [of "[]" J _ ds] by (auto simp: parse_configuration_def split: option.splits if_splits)
  then show ?thesis using parse_action_ok by (fastforce simp: list_all2_conv_all_nth in_set_conv_nth)
qed

theorem loaded_configuration_well_typed_witness:
  "load_file value_json_ops (\<lambda>_. Some (Inr (JObject [(''actions'', JArray [example_action])]))) ''p'' = Inr [example_definition]
   \<and> action_definition_ok example_definition"
proof -
  have l: "load_file value_json_ops (\<lambda>_. Some (Inr (JObject [(''actions'', JArray [example_action])]))) ''p'' = Inr [example_definition]"
    by (simp add: load_file_def parse_configuration_def parse_example_action) (simp add: value_json_ops_def parse_example_action [unfolded value_json_ops_def])
  from loaded_configuration_well_typed [OF l] l show ?thesis by simp
qed

end
