(* ===== verification/Spec2Isabelle.thy ===== *)
theory Spec2Isabelle
  imports
    Services_Server_Properties Services_Client_Properties Client_Endpoint_Examples
    Action_Mux_Examples Rpc_Call Rpc_Services_Examples Rpc_Mux_Properties
    C_Action_Properties C_Rpc_Examples Fibonacci_Programs Action_Call_Examples Add_Example_Run
    Configuration_Properties
begin

text \<open>
  Verification of the Hakoniwa PDU RPC/Action runtime, the C++ sources under \<open>src/src\<close> and
  \<open>src/include/hakoniwa/pdu\<close>.

  \<^bold>\<open>The program.\<close> The runtime offers two protocols over the PDU transport of another
  repository. RPC is one request, one reply, with an optional cancel. An Action is a Goal that a
  client sends, a server accepts or rejects, and that then produces Feedback and one Result; it
  can be canceled, and the Cancel may race with the Result. Each protocol has, on either side, an
  endpoint (one service or Action: packets, slots, states) and a services object (all services of
  a configuration file, by name), and on the server side a multiplexing server (one services
  object for each connection).

  \<^bold>\<open>Theories and sources.\<close>

  \<^item> \<open>Prelude\<close>, \<open>Slot_Table\<close>, \<open>Connection_Table\<close>, \<open>Number_Text\<close>: lists searched and updated by key,
    \<open>std::map\<close> as a sorted association list, tables of slots with an owner, connection numbers,
    decimal numbers as text.
  \<^item> \<open>Action_Types\<close>: \<open>action_types.hpp\<close>. \<open>Server_State_Machine\<close> and \<open>Client_State_Machine\<close>:
    \<open>action_server_state_machine.cpp\<close> and \<open>action_client_state_machine.cpp\<close>, pure functions from a
    context and an event to a transition with an error value; the state matrix of
    \<open>docs/design/action/04-state-model.md\<close> is the inductive relation \<open>server_goal_step\<close>.
  \<^item> \<open>Action_Configuration\<close>, \<open>Configuration_Properties\<close>: \<open>action_configuration.cpp\<close>, the parser of the Action configuration,
    over the operations of the JSON library as the parameter \<open>json_ops\<close>.
  \<^item> \<open>Action_Packet\<close>: the packet checks that both Action endpoints implement, over the parameter
    \<open>pdu_env\<close> (converters of the PDU registry, transport, clock); \<open>registry_ok\<close> collects what is
    assumed of the converters, \<open>Example_Bytes\<close> and \<open>Example_Environment\<close> instantiate them.
  \<^item> \<open>Action_Server_Endpoint\<close> and \<open>Server_Endpoint_Invariant\<close>, \<open>_Routing\<close>, \<open>_Wire\<close>, \<open>_Examples\<close>:
    \<open>action_server_endpoint_impl.cpp\<close>. \<open>Action_Client_Endpoint\<close> and \<open>Client_Endpoint_Invariant\<close>,
    \<open>_Properties\<close>, \<open>_Examples\<close>: \<open>action_client_endpoint_impl.cpp\<close>. The record has the members of
    the class; every operation is a function on it. An operation that releases its mutex before
    it returns is also given as its atomic parts, and the invariants hold for any interleaving
    of the parts.
  \<^item> \<open>Action_System\<close>, \<open>_Server\<close>, \<open>_Client\<close>, \<open>_Properties\<close>: both endpoints of an Action joined by a network
    that may lose, repeat and reorder packets, as an inductive relation with a trace. \<open>Action_Call\<close>,
    \<open>Action_Call_Examples\<close>: one Goal from its Request to its Result, across both endpoints.
  \<^item> \<open>Action_Server_Interface\<close> and \<open>Action_Client_Interface\<close>: the virtual classes
    \<open>IActionServerEndpoint\<close> and \<open>IActionClientEndpoint\<close> as records of operations, the contract that
    the services rely on as the locales \<open>action_server_endpoint\<close> and \<open>action_client_endpoint\<close>, and
    their interpretations \<open>impl\<close> and \<open>client_impl\<close> on the endpoint implementations.
  \<^item> \<open>Action_Services_Server\<close>, \<open>Services_Server_Sync\<close>, \<open>Services_Server_Properties\<close>:
    \<open>action_services_server.cpp\<close>; \<open>Action_Services_Client\<close>, \<open>Services_Client_Sync\<close>,
    \<open>Services_Client_Properties\<close>: \<open>action_services_client.cpp\<close>. The \<open>_Sync\<close> theories prove the
    agreement of the services with their endpoints inside the locales.
  \<^item> \<open>Action_Mux\<close>: \<open>action_services_mux_server.cpp\<close>. \<open>Action_Mux_Contract\<close> states what it relies on
    of the services of a connection as the locale \<open>connection_contract\<close> and interprets it on the
    Action services; \<open>_Invariant\<close>, \<open>_Steps\<close>, \<open>_Poll\<close> and \<open>_Lifecycle\<close> prove the invariants of the
    owner table and of the connections; \<open>_Properties\<close> and \<open>_Examples\<close> state the properties.
  \<^item> \<open>Rpc_Types\<close>, \<open>Rpc_Server_Endpoint\<close>, \<open>Rpc_Client_Endpoint\<close>, \<open>Rpc_Server_Properties\<close>,
    \<open>Rpc_Client_Properties\<close>, \<open>Rpc_Call\<close>: \<open>rpc_types.hpp\<close>, \<open>rpc_server_endpoint_impl.cpp\<close>,
    \<open>rpc_client_endpoint_impl.cpp\<close> and a whole call across both. \<open>Rpc_Services\<close>,
    \<open>Rpc_Services_Properties\<close>, \<open>Rpc_Services_Examples\<close>: \<open>rpc_services_server.cpp\<close> and
    \<open>rpc_services_client.cpp\<close>. \<open>Rpc_Mux\<close>, \<open>Rpc_Mux_Properties\<close>: \<open>rpc_services_mux_server.cpp\<close>.
    \<open>Rpc_Service_Helper\<close>: the typed calls and replies of \<open>rpc_service_helper.hpp\<close>, over a
    generated convertor as the parameter \<open>packet_convertor\<close>.
  \<^item> \<open>C_Buffers\<close>, \<open>C_Action\<close>, \<open>C_Action_Calls\<close>, \<open>C_Action_Properties\<close>: \<open>c_action.cpp\<close> with the
    types of \<open>c_action.h\<close>. A handle is a record with the members of the struct, a pointer is an
    option, an output parameter that may be null is an option in the record of outputs. Calls of
    the client, the server and the mux server that have the same steps share a frame (\<open>c_poll\<close>,
    \<open>c_goal_op\<close>, \<open>c_create_buffer\<close>), which each call instantiates; the locale \<open>event_source\<close> is what
    the polls rely on of the services below.
  \<^item> \<open>C_Rpc\<close>, \<open>C_Rpc_Calls\<close>, \<open>C_Rpc_Properties\<close>, \<open>C_Rpc_Examples\<close>: \<open>c_rpc.cpp\<close>,
    \<open>c_rpc_alloc.cpp\<close>, \<open>c_rpc_cancel.cpp\<close> and \<open>c_rpc_mux.cpp\<close> with the types of \<open>c_rpc.h\<close>; the
    locale \<open>token_server\<close> is the contract of a server handle, interpreted on the static and on the
    multiplexing server.
  \<^item> \<open>Fibonacci_Example\<close>, \<open>Fibonacci_Programs\<close>: \<open>examples/action_fibonacci_server.cpp\<close> and \<open>_client.cpp\<close>
    as clients of the Action services. \<open>Add_Example\<close>, \<open>Add_Example_Run\<close>: \<open>examples/rpc_server.cpp\<close> and
    \<open>rpc_client.cpp\<close> as clients of the RPC services and the typed helper.

  \<^bold>\<open>What is shown.\<close> The server state machine refines the documented matrix, and the race of
  Cancel and Result is decided once. Slots, bindings and owners of both Action endpoints stay
  consistent under any interleaving; a failed operation changes nothing; requests and responses
  written by one side are read by the other; Feedback is numbered without gaps; a committed Result
  is final; a timed-out Goal is quarantined. Across a network that loses, repeats and reorders packets,
  whatever either endpoint reports was caused by what the other did before; and a Goal that is
  accepted runs through its Feedbacks and Cancels to its Result with both endpoints in step and leaves
  both as they were. A configuration that loads is well-formed. The services and their endpoints agree in every
  reachable state, on both sides. The multiplexing servers hand out distinct connection numbers,
  lose no endpoint, route every Goal to the one connection that owns it, and retire a
  disconnected connection as soon as it owns nothing. For RPC: a call is answered with the reply to
  that call, stale replies are not delivered, replies are routed to the service and client that
  asked, and every queued packet is drained; a typed call and its typed reply carry exactly the
  bodies they were given. For the C APIs: the polls of the Action API report every event of the
  services once and in order, however often the buffer of the caller was too small; a stopped
  handle stays stopped; every request token of the RPC API is given out for one request and
  answers it at most once, on the connection it came from. The Fibonacci server computes without
  overflow and ends; the example adder answers a line with the sum. Some theorems record where the code does not do what
  it intends: an invalid Result that commits its Goal, an error event for a completed Goal, a BUSY
  reply that discards the running request, a timeout by a clock that went backwards, a
  request that the RPC C API discards because the buffer of the caller was too small.

  \<^bold>\<open>Integers, bounds and fuel.\<close> Times, identifiers, sizes and sequence numbers are words of the
  widths of the code; arithmetic wraps as in the code. Connection numbers are 64-bit, so the mux
  theorems assume fewer than \<open>2 ^ 64 - 1\<close> accepted connections; so are request tokens, and the
  token theorems assume fewer than \<open>2 ^ 64 - 1\<close> reported requests. Every loop of the code runs over
  a list and is a structural recursion, except the Feedback loop of the Fibonacci server, which has
  a termination measure; no fuel is used. A loop of an example program that waits for a packet or a signal
  runs over a list with what happens in each of its pauses, of any length.

  \<^bold>\<open>Not modelled.\<close> The forwarding members of the classes that hide their implementation behind
  a pointer; the destroy calls of the C APIs, which stop a handle and free it, and the release of
  buffers; exceptions, which the C calls turn into an internal error; log output and printed
  text, the signal handlers of the examples, Python bindings, tests and build files. The JSON
  library, the PDU registry, the PDU endpoint with its transport and its container, the
  communication multiplexer and the time sources belong to other repositories and are parameters.
\<close>

end
